(* ===== verification/NL_Prelude.thy ===== *)
theory NL_Prelude
  imports Complex_Main "HOL-Library.Word" "HOL-Library.List_Lexorder" "HOL-Library.Char_ord"
begin

text \<open>
  Shared vocabulary of the Net-Lama development: the Go types the sources use, the error result
  of fallible functions, the collections of rewrite rules the component theories fill, and the
  generic facts on lists, maps and bounded histories that several components need.

  A Go \<open>string\<close> is its byte sequence (\<open>char list\<close>). A \<open>float64\<close> is the real number it denotes:
  comparisons on such numbers are exact, NaN and the infinities are not represented, and
  arithmetic is the exact arithmetic without IEEE rounding. A \<open>time.Time\<close> or \<open>time.Duration\<close> is
  an integer number of nanoseconds, so \<open>now.Sub(t)\<close> is subtraction.
\<close>

section \<open>Types of the sources\<close>

type_synonym u8 = "8 word"
type_synonym u16 = "16 word"
type_synonym u32 = "32 word"
type_synonym u64 = "64 word"
type_synonym float64 = real
type_synonym go_time = int

text \<open>
  Errors are values. \<open>Errorf\<close> keeps the format string of \<open>fmt.Errorf\<close> and its rendered
  arguments apart, \<open>Wrapf\<close> is \<open>fmt.Errorf\<close> with a wrapped error (\<open>%w\<close>), and \<open>ExtErr\<close> is an error
  that a library call returned.
\<close>

datatype go_error =
    ErrNotFound
  | Errorf string "string list"
  | Wrapf string "string list" go_error
  | ExtErr string

type_synonym 'a result = "go_error + 'a"

definition second :: go_time where
  "second = 1000000000"

definition minute :: go_time where
  "minute = 60 * second"

lemmas duration_defs = minute_def second_def

section \<open>Collections\<close>

named_theorems validate_defs \<open>definitions of the parameter validators\<close>
named_theorems spec_defs \<open>definitions that describe the registered test types\<close>
named_theorems table_simps \<open>facts about stored tables\<close>

section \<open>Lists\<close>

definition last_n :: "nat \<Rightarrow> 'a list \<Rightarrow> 'a list" where
  "last_n n xs = drop (length xs - n) xs"

lemma length_last_n [simp]: "length (last_n n xs) = min n (length xs)"
  by (simp add: last_n_def)

lemma last_n_all [simp]: "length xs \<le> n \<Longrightarrow> last_n n xs = xs"
  by (simp add: last_n_def)

lemma last_n_suffix: "\<exists>ys. xs = ys @ last_n n xs"
  unfolding last_n_def by (metis append_take_drop_id)

lemma set_last_n: "set (last_n n xs) \<subseteq> set xs"
  by (simp add: last_n_def set_drop_subset)

lemma last_n_0 [simp]: "last_n 0 xs = []"
  by (simp add: last_n_def)

lemma last_n_snoc: "last_n (Suc n) (xs @ [x]) = last_n n xs @ [x]"
  by (simp add: last_n_def)

lemma last_n_last_n:
  assumes "m \<le> n"
  shows "last_n m (last_n n xs) = last_n m xs"
proof -
  have "length xs - (length xs - n + m) + (length xs - n) = length xs - m"
    using assms by arith
  then show ?thesis by (simp add: last_n_def)
qed

lemma last_n_last_n_snoc: "last_n n (last_n n xs @ [x]) = last_n n (xs @ [x])"
  by (cases n) (simp_all add: last_n_snoc last_n_last_n)

lemma last_n_append: "length vs \<le> n \<Longrightarrow> last_n n (us @ vs) = last_n (n - length vs) us @ vs"
  by (simp add: last_n_def)

lemma last_n_append_last_n: "last_n n (last_n n us @ vs) = last_n n (us @ vs)"
proof (cases "n \<le> length vs")
  case True
  then show ?thesis by (simp add: last_n_def)
next
  case False
  then show ?thesis by (simp add: last_n_append last_n_last_n)
qed

lemma rev_take_rev: "rev (take n (rev xs)) = last_n n xs"
  by (simp add: last_n_def take_rev)

lemma sorted_last_n: "sorted xs \<Longrightarrow> sorted (last_n n xs)"
  by (simp add: last_n_def)

lemma distinct_last_n: "distinct xs \<Longrightarrow> distinct (last_n n xs)"
  by (simp add: last_n_def)

section \<open>Strings\<close>

text \<open>\<open>strings.HasPrefix\<close>, \<open>strings.Join\<close> and \<open>strings.TrimSpace\<close> on ASCII white space.\<close>

fun has_prefix :: "string \<Rightarrow> string \<Rightarrow> bool" where
  "has_prefix s [] = True"
| "has_prefix [] (p # ps) = False"
| "has_prefix (c # cs) (p # ps) = (c = p \<and> has_prefix cs ps)"

lemma has_prefix_iff: "has_prefix s p \<longleftrightarrow> (\<exists>t. s = p @ t)"
  by (induction s p rule: has_prefix.induct) auto

fun join :: "string \<Rightarrow> string list \<Rightarrow> string" where
  "join sep [] = []"
| "join sep [x] = x"
| "join sep (x # y # ys) = x @ sep @ join sep (y # ys)"

definition is_space :: "char \<Rightarrow> bool" where
  "is_space c = (c = CHR 0x20 \<or> c = CHR 0x09 \<or> c = CHR 0x0A \<or> c = CHR 0x0B \<or> c = CHR 0x0C \<or> c = CHR 0x0D)"

definition trim_space :: "string \<Rightarrow> string" where
  "trim_space s = rev (dropWhile is_space (rev (dropWhile is_space s)))"

lemma dropWhile_rev_dropWhile:
  "dropWhile P (rev (dropWhile P (rev (dropWhile P s)))) = rev (dropWhile P (rev (dropWhile P s)))"
proof -
  let ?t = "dropWhile P s"
  show ?thesis
  proof (cases "rev (dropWhile P (rev ?t))")
    case Nil
    show ?thesis by (simp only: Nil dropWhile.simps)
  next
    case (Cons a as)
    obtain us where "rev ?t = us @ dropWhile P (rev ?t)"
      by (metis takeWhile_dropWhile_id)
    then have "?t = rev (dropWhile P (rev ?t)) @ rev us"
      by (metis rev_append rev_rev_ident)
    with Cons have "?t = a # as @ rev us" by simp
    then have "\<not> P a" by (metis dropWhile_eq_Cons_conv)
    with Cons show ?thesis by simp
  qed
qed

lemma trim_space_idem [simp]: "trim_space (trim_space s) = trim_space s"
  unfolding trim_space_def by (simp add: dropWhile_rev_dropWhile)

lemma trim_space_Nil [simp]: "trim_space [] = []"
  by (simp add: trim_space_def)

section \<open>Results\<close>

definition is_ok :: "'a result \<Rightarrow> bool" where
  "is_ok r = (case r of Inl _ \<Rightarrow> False | Inr _ \<Rightarrow> True)"

lemma is_ok_simps [simp]: "is_ok (Inl e) = False" "is_ok (Inr x) = True"
  by (simp_all add: is_ok_def)

lemma is_ok_iff: "is_ok r \<longleftrightarrow> (\<exists>x. r = Inr x)"
  by (cases r) auto

end
