(* ===== verification/Sql_Tables.thy ===== *)
theory Sql_Tables
  imports NL_Prelude
begin

text \<open>
  The SQL the store issues, as functions on tables. A table with an
  \<open>INTEGER PRIMARY KEY AUTOINCREMENT\<close> column is its rows and the last id handed out: ids are
  handed out in increasing order and never reused. \<open>select_desc\<close> is
  \<open>SELECT ... WHERE P ORDER BY id DESC LIMIT n\<close> and \<open>prune\<close> is the statement
  \<open>DELETE FROM t WHERE P AND id NOT IN (SELECT id FROM t WHERE P ORDER BY id DESC LIMIT n)\<close> that
  bounds results, path changes and logs.

  The locale \<open>bounded_history\<close> is the contract those three tables share: an insert followed by the
  prune of the inserted row's scope.
\<close>

section \<open>Tables\<close>

record 'r table =
  rows :: "'r list"
  last_id :: int

definition empty_table :: "'r table" where
  "empty_table = \<lparr>rows = [], last_id = 0\<rparr>"

definition select_desc :: "('r \<Rightarrow> int) \<Rightarrow> ('r \<Rightarrow> bool) \<Rightarrow> nat \<Rightarrow> 'r list \<Rightarrow> 'r list" where
  "select_desc rid P n rs = take n (rev (sort_key rid (filter P rs)))"

definition prune :: "('r \<Rightarrow> int) \<Rightarrow> ('r \<Rightarrow> bool) \<Rightarrow> nat \<Rightarrow> 'r list \<Rightarrow> 'r list" where
  "prune rid P n rs = filter (\<lambda>r. \<not> (P r \<and> rid r \<notin> set (map rid (select_desc rid P n rs)))) rs"

definition insert_row :: "(int \<Rightarrow> 'r) \<Rightarrow> 'r table \<Rightarrow> 'r table" where
  "insert_row mk t = \<lparr>rows = rows t @ [mk (last_id t + 1)], last_id = last_id t + 1\<rparr>"

text \<open>Rows are kept in the order of their ids, and no id exceeds the last one handed out.\<close>

definition wf_table :: "('r \<Rightarrow> int) \<Rightarrow> 'r table \<Rightarrow> bool" where
  "wf_table rid t \<longleftrightarrow>
     sorted_wrt (<) (map rid (rows t)) \<and> (\<forall>r \<in> set (rows t). rid r \<le> last_id t)"

lemma wf_table_empty [simp]: "wf_table rid empty_table"
  by (simp add: wf_table_def empty_table_def)

lemma sorted_wrt_filter_map:
  "sorted_wrt (<) (map rid rs) \<Longrightarrow> sorted_wrt (<) (map rid (filter P rs))"
  by (induction rs) auto

lemma wf_insert_row:
  assumes "wf_table rid t" and "\<And>i. rid (mk i) = i"
  shows "wf_table rid (insert_row mk t)"
  using assms by (fastforce simp: wf_table_def insert_row_def sorted_wrt_append)

lemma sort_key_of_sorted: "sorted_wrt (<) (map (rid :: 'r \<Rightarrow> int) rs) \<Longrightarrow> sort_key rid rs = rs"
  by (induction rs) (auto simp: sorted_wrt_map intro!: insort_is_Cons less_imp_le)

lemma select_desc_sorted:
  "sorted_wrt (<) (map rid rs) \<Longrightarrow> select_desc rid P n rs = rev (last_n n (filter P rs))"
  by (simp add: select_desc_def sort_key_of_sorted sorted_wrt_filter_map flip: rev_take_rev)

section \<open>Constraints\<close>

text \<open>
  A \<open>UNIQUE\<close> or \<open>PRIMARY KEY\<close> constraint on the column (or tuple of columns) \<open>f\<close>, and a foreign
  key from \<open>f\<close> of one table to \<open>g\<close> of another. An update rewrites the rows a condition selects.
\<close>

definition uniq :: "('r \<Rightarrow> 'k) \<Rightarrow> 'r list \<Rightarrow> bool" where
  "uniq f rs \<longleftrightarrow> distinct (map f rs)"

definition refs :: "('r \<Rightarrow> 'k) \<Rightarrow> 'r list \<Rightarrow> ('s \<Rightarrow> 'k) \<Rightarrow> 's list \<Rightarrow> bool" where
  "refs f rs g ss \<longleftrightarrow> (\<forall>r \<in> set rs. f r \<in> g ` set ss)"

definition has_key :: "('r \<Rightarrow> 'k) \<Rightarrow> 'k \<Rightarrow> 'r list \<Rightarrow> bool" where
  "has_key f k rs \<longleftrightarrow> k \<in> f ` set rs"

definition update_where :: "('r \<Rightarrow> bool) \<Rightarrow> ('r \<Rightarrow> 'r) \<Rightarrow> 'r list \<Rightarrow> 'r list" where
  "update_where P h rs = map (\<lambda>r. if P r then h r else r) rs"

lemma has_key_code [code]: "has_key f k rs = list_ex (\<lambda>r. f r = k) rs"
  by (auto simp: has_key_def list_ex_iff)

lemma uniq_Nil [simp]: "uniq f []"
  by (simp add: uniq_def)

lemma refs_Nil [simp]: "refs f [] g ss"
  by (simp add: refs_def)

lemma uniq_snoc [table_simps]: "uniq f (rs @ [r]) \<longleftrightarrow> uniq f rs \<and> \<not> has_key f (f r) rs"
  by (auto simp: uniq_def has_key_def)

lemma refs_snoc [table_simps]: "refs f (rs @ [r]) g ss \<longleftrightarrow> refs f rs g ss \<and> has_key g (f r) ss"
  by (auto simp: refs_def has_key_def)

lemma refs_grow: "refs f rs g ss \<Longrightarrow> refs f rs g (ss @ ts)"
  by (auto simp: refs_def)

lemma uniq_filter: "uniq f rs \<Longrightarrow> uniq f (filter P rs)"
  by (simp add: uniq_def distinct_map_filter)

lemma refs_filter: "refs f rs g ss \<Longrightarrow> refs f (filter P rs) g ss"
  by (simp add: refs_def)

text \<open>Deleting parents keeps the key when exactly the children of deleted parents go too.\<close>

lemma refs_cascade:
  assumes "refs f rs g ss"
  shows "refs f (filter (\<lambda>r. f r \<notin> D) rs) g (filter (\<lambda>s. g s \<notin> D) ss)"
  using assms by (fastforce simp: refs_def)

lemma map_update_where: "(\<And>r. f (h r) = f r) \<Longrightarrow> map f (update_where P h rs) = map f rs"
  by (simp add: update_where_def)

lemma uniq_update_where: "(\<And>r. f (h r) = f r) \<Longrightarrow> uniq f (update_where P h rs) = uniq f rs"
  by (simp add: uniq_def map_update_where)

lemma refs_keys: "refs f rs g ss \<longleftrightarrow> (\<forall>k \<in> set (map f rs). k \<in> set (map g ss))"
  by (simp add: refs_def)

lemma refs_update_where: "(\<And>r. f (h r) = f r) \<Longrightarrow> refs f (update_where P h rs) g ss = refs f rs g ss"
  by (simp only: refs_keys map_update_where)

lemma refs_update_parent: "(\<And>s. g (h s) = g s) \<Longrightarrow> refs f rs g (update_where P h ss) = refs f rs g ss"
  by (simp only: refs_keys map_update_where)

lemma filter_update_where:
  "(\<And>r. Q (h r) = Q r) \<Longrightarrow> filter Q (update_where P h rs) = update_where P h (filter Q rs)"
  by (induction rs) (auto simp: update_where_def)

lemma has_key_update_where: "(\<And>r. f (h r) = f r) \<Longrightarrow> has_key f k (update_where P h rs) = has_key f k rs"
  using map_update_where [of f h P rs] unfolding has_key_def by (metis set_map)

lemma find_uniq: "uniq f rs \<Longrightarrow> r \<in> set rs \<Longrightarrow> find (\<lambda>x. f x = f r) rs = Some r"
  by (induction rs) (force simp: uniq_def)+

lemma find_SomeD: "find P rs = Some r \<Longrightarrow> r \<in> set rs \<and> P r"
  by (auto simp: find_Some_iff)

section \<open>What the prune keeps\<close>

lemma prune_other [simp]: "filter (\<lambda>r. \<not> P r) (prune rid P n rs) = filter (\<lambda>r. \<not> P r) rs"
  by (induction rs) (auto simp: prune_def intro!: filter_cong)

lemma filter_id_last_n:
  fixes rid :: "'r \<Rightarrow> int"
  assumes "sorted_wrt (<) (map rid rs)"
  shows "filter (\<lambda>r. rid r \<in> rid ` set (last_n n rs)) rs = last_n n rs"
proof -
  obtain us where rs: "rs = us @ last_n n rs" using last_n_suffix by blast
  have "\<forall>r \<in> set us. \<forall>q \<in> set (last_n n rs). rid r < rid q"
    using assms by (subst (asm) rs) (auto simp: sorted_wrt_append sorted_wrt_map)
  then have "rid r \<notin> rid ` set (last_n n rs)" if "r \<in> set us" for r
    using that by fastforce
  then have "filter (\<lambda>r. rid r \<in> rid ` set (last_n n rs)) us = []"
    by (simp add: filter_empty_conv)
  moreover have "filter (\<lambda>r. rid r \<in> rid ` set (last_n n rs)) (last_n n rs) = last_n n rs"
    by (simp add: filter_id_conv)
  ultimately show ?thesis by (subst rs) (simp only: filter_append, simp)
qed

lemma prune_scope:
  fixes rid :: "'r \<Rightarrow> int"
  assumes "sorted_wrt (<) (map rid rs)"
  shows "filter P (prune rid P n rs) = last_n n (filter P rs)"
proof -
  let ?s = "last_n n (filter P rs)"
  have "filter P (prune rid P n rs) = filter (\<lambda>r. rid r \<in> rid ` set ?s) (filter P rs)"
    using assms by (auto simp: prune_def select_desc_sorted intro!: filter_cong)
  also have "\<dots> = ?s"
    using assms by (intro filter_id_last_n sorted_wrt_filter_map)
  finally show ?thesis .
qed

lemma set_prune: "set (prune rid P n rs) \<subseteq> set rs"
  by (auto simp: prune_def)

lemma sorted_prune:
  "sorted_wrt (<) (map rid rs) \<Longrightarrow> sorted_wrt (<) (map rid (prune rid P n rs))"
  by (simp add: prune_def sorted_wrt_filter_map)

lemma wf_prune:
  assumes "wf_table rid t"
  shows "wf_table rid (t\<lparr>rows := prune rid P n (rows t)\<rparr>)"
  using assms set_prune [of rid P n "rows t"] by (auto simp: wf_table_def sorted_prune)

section \<open>Bounded histories\<close>

text \<open>
  \<open>add x t\<close> stores a new row built from \<open>x\<close> and prunes its scope to \<open>cap\<close> rows; \<open>scope x\<close> is the
  condition of both the delete and its inner select. \<open>valid x\<close> says that \<open>x\<close> is an input for which
  the insert's own row is in that scope.
\<close>

text \<open>
  The rows of a scope that a sequence of inserts creates, with the ids it hands out: the abstract,
  unbounded log that a bounded history is the tail of.
\<close>

fun scope_log :: "('x \<Rightarrow> int \<Rightarrow> 'r) \<Rightarrow> ('r \<Rightarrow> bool) \<Rightarrow> 'x list \<Rightarrow> int \<Rightarrow> 'r list" where
  "scope_log mk P [] i = []"
| "scope_log mk P (x # xs) i =
     (if P (mk x (i + 1)) then mk x (i + 1) # scope_log mk P xs (i + 1) else scope_log mk P xs (i + 1))"

locale bounded_history =
  fixes rid :: "'r \<Rightarrow> int"
    and mk :: "'x \<Rightarrow> int \<Rightarrow> 'r"
    and scope :: "'x \<Rightarrow> 'r \<Rightarrow> bool"
    and cap :: nat
    and valid :: "'x \<Rightarrow> bool"
    and add :: "'x \<Rightarrow> 'r table \<Rightarrow> 'r table"
  assumes rid_mk: "rid (mk x i) = i"
    and scope_mk: "valid x \<Longrightarrow> scope x (mk x i)"
    and scope_disjoint: "scope x r \<Longrightarrow> scope y r \<Longrightarrow> scope x = scope y"
    and add_eq: "add x t = (let t' = insert_row (mk x) t
                            in t'\<lparr>rows := prune rid (scope x) cap (rows t')\<rparr>)"
begin

lemma wf_add: "wf_table rid t \<Longrightarrow> wf_table rid (add x t)"
  by (simp add: add_eq Let_def wf_insert_row wf_prune rid_mk)

lemma sorted_insert:
  "wf_table rid t \<Longrightarrow> sorted_wrt (<) (map rid (rows (insert_row (mk x) t)))"
  using wf_insert_row [of rid t "mk x"] by (simp add: rid_mk wf_table_def)

lemma add_scope:
  assumes "wf_table rid t" and "valid x"
  shows "filter (scope x) (rows (add x t)) =
           last_n cap (filter (scope x) (rows t) @ [mk x (last_id t + 1)])"
proof -
  have "filter (scope x) (rows (add x t)) =
          last_n cap (filter (scope x) (rows (insert_row (mk x) t)))"
    using assms by (simp add: add_eq Let_def prune_scope sorted_insert)
  then show ?thesis using assms by (simp add: insert_row_def scope_mk)
qed

lemma add_scope_bound:
  "wf_table rid t \<Longrightarrow> valid x \<Longrightarrow> length (filter (scope x) (rows (add x t))) \<le> cap"
  by (simp add: add_scope)

lemma add_newest:
  assumes "wf_table rid t" "valid x" "0 < cap"
  shows "mk x (last_id t + 1) \<in> set (rows (add x t))"
proof -
  obtain c where "cap = Suc c" using assms(3) by (cases cap) auto
  then have "mk x (last_id t + 1) \<in> set (filter (scope x) (rows (add x t)))"
    using assms by (simp add: add_scope last_n_snoc)
  then show ?thesis by simp
qed

lemma add_frame:
  assumes "valid x" "scope y \<noteq> scope x"
  shows "filter (scope y) (rows (add x t)) = filter (scope y) (rows t)"
proof -
  have dis: "\<not> scope x r" if "scope y r" for r
    using that assms scope_disjoint by metis
  have "filter (scope y) (prune rid (scope x) cap rs) = filter (scope y) rs" for rs
    using dis by (auto simp: prune_def intro!: filter_cong)
  moreover have "\<not> scope y (mk x (last_id t + 1))"
    using assms dis scope_mk by blast
  ultimately show ?thesis by (simp add: add_eq Let_def insert_row_def)
qed

text \<open>Whatever sequence of inserts is run, every scope stays within the cap.\<close>

lemma run_wf: "wf_table rid t \<Longrightarrow> wf_table rid (fold add xs t)"
  by (induction xs arbitrary: t) (simp_all add: wf_add)

lemma run_scope_bound:
  assumes "wf_table rid t" "length (filter (scope y) (rows t)) \<le> cap" "\<forall>x \<in> set xs. valid x"
  shows "length (filter (scope y) (rows (fold add xs t))) \<le> cap"
  using assms
proof (induction xs arbitrary: t)
  case Nil
  then show ?case by simp
next
  case (Cons x xs)
  have "length (filter (scope y) (rows (add x t))) \<le> cap"
  proof (cases "scope y = scope x")
    case True
    then show ?thesis using Cons.prems by (simp add: add_scope)
  next
    case False
    then show ?thesis using Cons.prems by (simp add: add_frame)
  qed
  then show ?case using Cons by (simp add: wf_add)
qed

lemma last_id_add [simp]: "last_id (add x t) = last_id t + 1"
  by (simp add: add_eq Let_def insert_row_def)

lemma scope_mk_iff: "valid x \<Longrightarrow> scope y (mk x i) \<longleftrightarrow> scope y = scope x"
  using scope_disjoint scope_mk by metis

lemma run_scope_log:
  assumes "wf_table rid t" "\<forall>x \<in> set xs. valid x"
  shows "last_n cap (filter (scope y) (rows (fold add xs t))) =
           last_n cap (filter (scope y) (rows t) @ scope_log mk (scope y) xs (last_id t))"
  using assms
proof (induction xs arbitrary: t)
  case Nil
  then show ?case by simp
next
  case (Cons x xs)
  have v: "valid x" using Cons.prems by simp
  have IH: "last_n cap (filter (scope y) (rows (fold add xs (add x t)))) =
       last_n cap (filter (scope y) (rows (add x t)) @ scope_log mk (scope y) xs (last_id t + 1))"
    using Cons.IH [of "add x t"] Cons.prems by (simp add: wf_add)
  show ?case
  proof (cases "scope y = scope x")
    case True
    then show ?thesis
      using IH v Cons.prems by (simp add: add_scope scope_mk last_n_append_last_n)
  next
    case False
    then show ?thesis using IH v by (simp add: add_frame scope_mk_iff)
  qed
qed

end

end
