(* ===== verification/Go_Strings.thy ===== *)
theory Go_Strings
  imports NL_Prelude
begin

text \<open>
  The parts of Go's \<open>net\<close> and \<open>strconv\<close> packages the sources rely on: \<open>net.SplitHostPort\<close> and
  \<open>net.JoinHostPort\<close> (host:port targets of tcp and perfmon tests, the client address of a request,
  the address of a perfmon reflector), and decimal printing of unsigned integers. The printing
  loop is the program's own \<open>itoa\<close> of \<open>internal/server/pathchange.go\<close>.
\<close>

section \<open>Byte search\<close>

fun index_byte :: "char \<Rightarrow> string \<Rightarrow> nat option" where
  "index_byte c [] = None"
| "index_byte c (x # xs) = (if x = c then Some 0 else map_option Suc (index_byte c xs))"

definition last_index_byte :: "char \<Rightarrow> string \<Rightarrow> nat option" where
  "last_index_byte c s = map_option (\<lambda>i. length s - 1 - i) (index_byte c (rev s))"

lemma index_byte_None [simp]: "index_byte c s = None \<longleftrightarrow> c \<notin> set s"
  by (induction s) auto

lemma index_byte_append: "c \<notin> set u \<Longrightarrow> index_byte c (u @ c # v) = Some (length u)"
  by (induction u) auto

lemma index_byte_SomeD:
  "index_byte c s = Some i \<Longrightarrow> \<exists>u v. s = u @ c # v \<and> c \<notin> set u \<and> length u = i"
proof (induction s arbitrary: i)
  case Nil
  then show ?case by simp
next
  case (Cons x s)
  show ?case
  proof (cases "x = c")
    case True
    with Cons.prems show ?thesis by (intro exI [of _ "[]"] exI [of _ s]) simp
  next
    case False
    with Cons.prems obtain j where j: "index_byte c s = Some j" "i = Suc j" by auto
    from Cons.IH [OF j(1)] obtain u v where "s = u @ c # v" "c \<notin> set u" "length u = j" by blast
    with False j(2) show ?thesis by (intro exI [of _ "x # u"] exI [of _ v]) auto
  qed
qed

lemma last_index_byte_None [simp]: "last_index_byte c s = None \<longleftrightarrow> c \<notin> set s"
  by (simp add: last_index_byte_def)

lemma last_index_byte_append: "c \<notin> set v \<Longrightarrow> last_index_byte c (u @ c # v) = Some (length u)"
  by (simp add: last_index_byte_def index_byte_append)

lemma last_index_byte_SomeD:
  assumes "last_index_byte c s = Some i"
  shows "\<exists>u v. s = u @ c # v \<and> c \<notin> set v \<and> length u = i"
proof -
  from assms obtain j where j: "index_byte c (rev s) = Some j" and i: "i = length s - 1 - j"
    by (auto simp: last_index_byte_def)
  from index_byte_SomeD [OF j] obtain u v
    where uv: "rev s = u @ c # v" "c \<notin> set u" "length u = j" by blast
  then have s: "s = rev v @ c # rev u"
    by (metis append.assoc append_Cons append_Nil rev.simps(2) rev_append rev_rev_ident)
  with uv i show ?thesis by (intro exI [of _ "rev v"] exI [of _ "rev u"]) simp
qed

section \<open>Host and port\<close>

definition addr_err :: "string \<Rightarrow> string \<Rightarrow> go_error" where
  "addr_err hostport why = Errorf ''address %s: %s'' [hostport, why]"

definition split_host_port :: "string \<Rightarrow> (string \<times> string) result" where
  "split_host_port hostport =
     (case last_index_byte (CHR '':'') hostport of
        None \<Rightarrow> Inl (addr_err hostport ''missing port in address'')
      | Some i \<Rightarrow>
          (let finish = (\<lambda>host j k.
             if CHR ''['' \<in> set (drop j hostport) then Inl (addr_err hostport ''unexpected '[' in address'')
             else if CHR '']'' \<in> set (drop k hostport) then Inl (addr_err hostport ''unexpected ']' in address'')
             else Inr (host, drop (i + 1) hostport))
           in if hd hostport = CHR ''['' then
                (case index_byte (CHR '']'') hostport of
                   None \<Rightarrow> Inl (addr_err hostport ''missing ']' in address'')
                 | Some e \<Rightarrow>
                     if e + 1 = length hostport then Inl (addr_err hostport ''missing port in address'')
                     else if e + 1 = i then finish (drop 1 (take e hostport)) 1 (e + 1)
                     else if hostport ! (e + 1) = CHR '':'' then Inl (addr_err hostport ''too many colons in address'')
                     else Inl (addr_err hostport ''missing port in address''))
              else if CHR '':'' \<in> set (take i hostport) then Inl (addr_err hostport ''too many colons in address'')
              else finish (take i hostport) 0 0))"

definition join_host_port :: "string \<Rightarrow> string \<Rightarrow> string" where
  "join_host_port host port =
     (if CHR '':'' \<in> set host then ''['' @ host @ '']:'' @ port else host @ '':'' @ port)"

definition plain_port :: "string \<Rightarrow> bool" where
  "plain_port p = (CHR '':'' \<notin> set p \<and> CHR ''['' \<notin> set p \<and> CHR '']'' \<notin> set p)"

definition plain_host :: "string \<Rightarrow> bool" where
  "plain_host h = (CHR ''['' \<notin> set h \<and> CHR '']'' \<notin> set h)"

lemma split_join_host_port:
  assumes "plain_host h" and "plain_port p"
  shows "split_host_port (join_host_port h p) = Inr (h, p)"
proof (cases "CHR '':'' \<in> set h")
  case True
  let ?s = "(CHR ''['' # h @ [CHR '']'']) @ CHR '':'' # p"
  have "join_host_port h p = ?s" using True by (simp add: join_host_port_def)
  moreover have "last_index_byte (CHR '':'') ?s = Some (length h + 2)"
    using assms last_index_byte_append [of "CHR '':''" p "CHR ''['' # h @ [CHR '']'']"]
    by (simp add: plain_port_def)
  moreover have "index_byte (CHR '']'') ?s = Some (length h + 1)"
    using assms index_byte_append [of "CHR '']''" "CHR ''['' # h" "CHR '':'' # p"]
    by (simp add: plain_host_def)
  ultimately show ?thesis using assms
    by (simp add: split_host_port_def plain_host_def plain_port_def Let_def)
next
  case False
  let ?s = "h @ CHR '':'' # p"
  have s: "join_host_port h p = ?s" using False by (simp add: join_host_port_def)
  have "last_index_byte (CHR '':'') ?s = Some (length h)"
    using assms by (simp add: last_index_byte_append plain_port_def)
  moreover have "hd ?s \<noteq> CHR ''[''"
    using assms by (cases h) (auto simp: plain_host_def)
  ultimately show ?thesis using assms False
    by (simp add: s split_host_port_def plain_host_def plain_port_def Let_def)
qed

section \<open>Decimal printing\<close>

definition digit :: "nat \<Rightarrow> char" where
  "digit d = char_of (48 + d)"

text \<open>
  The loop of \<open>itoa\<close>: \<open>buf[i:]\<close> is the accumulator, filled from the right while \<open>v > 0\<close>.
\<close>

function itoa_loop :: "u32 \<Rightarrow> string \<Rightarrow> string" where
  "itoa_loop v buf = (if v > 0 then itoa_loop (v div 10) (digit (unat (v mod 10)) # buf) else buf)"
  by pat_completeness auto
termination
proof (relation "measure (\<lambda>(v, buf). unat v)", goal_cases)
  case 1
  show ?case by simp
next
  case (2 v buf)
  then have "0 < unat v" by (simp add: word_gt_0 unat_gt_0)
  then have "unat (v div 10) < unat v" by (simp add: unat_div)
  then show ?case by simp
qed

declare itoa_loop.simps [simp del]

definition itoa :: "u32 \<Rightarrow> string" where
  "itoa v = (if v = 0 then ''0'' else itoa_loop v [])"

definition atoi_digits :: "nat \<Rightarrow> string \<Rightarrow> nat" where
  "atoi_digits acc s = fold (\<lambda>c n. 10 * n + (of_char c - 48)) s acc"

lemma of_char_digit: "d < 10 \<Longrightarrow> (of_char (digit d) :: nat) = 48 + d"
  by (simp add: digit_def)

lemma itoa_loop_value:
  "atoi_digits 0 (itoa_loop v buf) = atoi_digits (unat v) buf"
proof (induction v buf rule: itoa_loop.induct)
  case (1 v buf)
  show ?case
  proof (cases "v > 0")
    case True
    have d: "unat (v mod 10) < 10" by (simp add: unat_mod)
    have "atoi_digits 0 (itoa_loop v buf)
        = atoi_digits (unat (v div 10)) (digit (unat (v mod 10)) # buf)"
      using True "1.IH" by (simp add: itoa_loop.simps [of v])
    also have "\<dots> = atoi_digits (10 * unat (v div 10) + unat (v mod 10)) buf"
      using d by (simp add: atoi_digits_def of_char_digit)
    also have "10 * unat (v div 10) + unat (v mod 10) = unat v"
      by (simp add: unat_div unat_mod)
    finally show ?thesis .
  next
    case False
    then have "v = 0" by (simp add: word_gt_0)
    then show ?thesis by (simp add: itoa_loop.simps [of 0])
  qed
qed

lemma atoi_digits_Nil [simp]: "atoi_digits n [] = n"
  by (simp add: atoi_digits_def)

lemma itoa_value: "atoi_digits 0 (itoa v) = unat v"
proof (cases "v = 0")
  case True
  then show ?thesis by (simp add: itoa_def atoi_digits_def)
next
  case False
  then show ?thesis by (simp add: itoa_def itoa_loop_value)
qed

text \<open>
  The code fills a ten-byte buffer from the right; no index of it ever goes negative, because a
  32-bit number has at most ten decimal digits.
\<close>

lemma length_itoa_loop: "unat v < 10 ^ k \<Longrightarrow> length (itoa_loop v buf) \<le> k + length buf"
proof (induction k arbitrary: v buf)
  case 0
  then have "v = 0" by (simp add: unat_eq_0)
  then show ?case by (simp add: itoa_loop.simps [of 0])
next
  case (Suc k)
  show ?case
  proof (cases "v > 0")
    case True
    have "unat (v div 10) < 10 ^ k"
      using Suc.prems by (simp add: unat_div less_mult_imp_div_less mult.commute)
    from Suc.IH [OF this, of "digit (unat (v mod 10)) # buf"] True
    show ?thesis by (simp add: itoa_loop.simps [of v])
  next
    case False
    then show ?thesis by (simp add: itoa_loop.simps [of v])
  qed
qed

lemma length_itoa: "length (itoa v) \<le> 10"
proof -
  have "unat v < 2 ^ 32" using unsigned_less [of v] by simp
  then have "unat v < 10 ^ 10" by simp
  from length_itoa_loop [OF this, of "[]"] show ?thesis by (simp add: itoa_def)
qed

end
