(* ===== verification/Json.thy ===== *)
theory Json
  imports NL_Prelude
begin

text \<open>
  \<open>encoding/json\<close> as the sources use it. A stored \<open>json.RawMessage\<close> is represented by what the
  decoder sees in it: nothing (length 0), text that is not JSON, or the parsed value. Decoding into
  a struct follows the package's rules: an object key selects the field with exactly that name, or
  else the first field equal to it up to ASCII case; members are decoded in order, so a later
  duplicate overwrites; \<open>null\<close> leaves the field alone; a member of the wrong type, or an integer out
  of the field's range, is an error; unknown keys are ignored.
\<close>

section \<open>Values and raw messages\<close>

datatype json =
    JNull
  | JBool bool
  | JInt int
  | JFloat real
  | JStr string
  | JArr "json list"
  | JObj "(string \<times> json) list"

datatype raw_message = RawEmpty | RawBad | Raw json

definition ascii_lower :: "char \<Rightarrow> char" where
  "ascii_lower c = (let n = (of_char c :: nat) in if 65 \<le> n \<and> n \<le> 90 then char_of (n + 32) else c)"

definition field_of :: "string list \<Rightarrow> string \<Rightarrow> string option" where
  "field_of fs k =
     (if k \<in> set fs then Some k else find (\<lambda>f. map ascii_lower f = map ascii_lower k) fs)"

definition members :: "string list \<Rightarrow> (string \<times> json) list \<Rightarrow> string \<Rightarrow> json list" where
  "members fs obj f = map snd (filter (\<lambda>m. field_of fs (fst m) = Some f) obj)"

text \<open>The members of a struct's document: \<open>null\<close> decodes to the zero struct.\<close>

definition unmarshal_object :: "json \<Rightarrow> (string \<times> json) list option" where
  "unmarshal_object j = (case j of JObj ms \<Rightarrow> Some ms | JNull \<Rightarrow> Some [] | _ \<Rightarrow> None)"

section \<open>Field decoders\<close>

fun as_str :: "string \<Rightarrow> json \<Rightarrow> string option" where
  "as_str d JNull = Some d"
| "as_str d (JStr s) = Some s"
| "as_str d _ = None"

fun as_bool :: "bool \<Rightarrow> json \<Rightarrow> bool option" where
  "as_bool d JNull = Some d"
| "as_bool d (JBool b) = Some b"
| "as_bool d _ = None"

fun as_u32 :: "u32 \<Rightarrow> json \<Rightarrow> u32 option" where
  "as_u32 d JNull = Some d"
| "as_u32 d (JInt n) = (if 0 \<le> n \<and> n < 2 ^ 32 then Some (word_of_int n) else None)"
| "as_u32 d _ = None"

fun as_float :: "float64 \<Rightarrow> json \<Rightarrow> float64 option" where
  "as_float d JNull = Some d"
| "as_float d (JInt n) = Some (of_int n)"
| "as_float d (JFloat x) = Some x"
| "as_float d _ = None"

fun as_strs :: "string list \<Rightarrow> json \<Rightarrow> string list option" where
  "as_strs d JNull = Some []"
| "as_strs d (JArr js) = those (map (as_str []) js)"
| "as_strs d _ = None"

text \<open>A field takes its members in order, starting from the field's zero value.\<close>

fun dec :: "('a \<Rightarrow> json \<Rightarrow> 'a option) \<Rightarrow> 'a \<Rightarrow> json list \<Rightarrow> 'a option" where
  "dec as d [] = Some d"
| "dec as d (j # js) = (case as d j of None \<Rightarrow> None | Some x \<Rightarrow> dec as x js)"

section \<open>Encoders\<close>

definition of_u32 :: "u32 \<Rightarrow> json" where
  "of_u32 w = JInt (uint w)"

definition of_strs :: "string list \<Rightarrow> json" where
  "of_strs ss = JArr (map JStr ss)"

lemma as_u32_of_u32 [simp]: "as_u32 d (of_u32 w) = Some w"
proof -
  have "0 \<le> uint w" "uint w < 2 ^ 32" using unsigned_less [of w, where ?'a = int] by simp_all
  then show ?thesis by (simp add: of_u32_def)
qed

lemma those_map_as_str [simp]: "those (map (as_str d \<circ> JStr) ss) = Some ss"
  by (induction ss) auto

lemma as_strs_of_strs [simp]: "as_strs d (of_strs ss) = Some ss"
  by (simp add: of_strs_def)

text \<open>
  An encoded struct has each field's key once, so decoding reads back exactly that member.
\<close>

lemma field_of_exact [simp]: "k \<in> set fs \<Longrightarrow> field_of fs k = Some k"
  by (simp add: field_of_def)

lemma members_Nil [simp]: "members fs [] f = []"
  by (simp add: members_def)

lemma members_Cons [simp]:
  "members fs ((k, j) # ms) f =
     (if field_of fs k = Some f then j # members fs ms f else members fs ms f)"
  by (simp add: members_def)

end
