(* ===== verification/Saas_Catalog.thy ===== *)
theory Saas_Catalog
  imports NL_Prelude
begin

text \<open>
  The catalog of online services (\<open>internal/saas/catalog.go\<close>): a registry keyed by permanent
  service id. \<open>Saas_Catalog.Get\<close> and \<open>All\<close> of the source are \<open>saas_Get\<close> and \<open>saas_All\<close> here.
\<close>

definition KindHTTPS :: string where
  "KindHTTPS = ''https''"

definition KindTCP :: string where
  "KindTCP = ''tcp''"

record Endpoint =
  ep_Kind :: string
  ep_Target :: string

record Service =
  svc_ID :: string
  svc_Name :: string
  svc_Endpoints :: "Endpoint list"

definition https :: "string \<Rightarrow> Endpoint" where
  "https url = \<lparr>ep_Kind = KindHTTPS, ep_Target = url\<rparr>"

definition tcp :: "string \<Rightarrow> Endpoint" where
  "tcp target = \<lparr>ep_Kind = KindTCP, ep_Target = target\<rparr>"

definition service :: "string \<Rightarrow> string \<Rightarrow> Endpoint list \<Rightarrow> Service" where
  "service i n es = \<lparr>svc_ID = i, svc_Name = n, svc_Endpoints = es\<rparr>"

definition catalog :: "(string \<times> Service) list" where
  "catalog =
    [(''ms-teams'', service ''ms-teams'' ''Microsoft Teams''
        [https ''https://teams.microsoft.com'',
         https ''https://teams.cloud.microsoft'',
         https ''https://login.microsoftonline.com'']),
     (''m365'', service ''m365'' ''Microsoft 365''
        [https ''https://outlook.office365.com'',
         https ''https://graph.microsoft.com'',
         https ''https://login.microsoftonline.com'']),
     (''webex'', service ''webex'' ''Cisco Webex''
        [https ''https://web.webex.com'',
         https ''https://webexapis.com/v1/ping'']),
     (''zoom'', service ''zoom'' ''Zoom''
        [https ''https://zoom.us'',
         https ''https://api.zoom.us'']),
     (''google-workspace'', service ''google-workspace'' ''Google Workspace''
        [https ''https://mail.google.com'',
         https ''https://accounts.google.com'',
         https ''https://drive.google.com'']),
     (''aws'', service ''aws'' ''Amazon Web Services''
        [https ''https://console.aws.amazon.com'',
         https ''https://signin.aws.amazon.com'',
         tcp ''ec2.amazonaws.com:443'']),
     (''azure'', service ''azure'' ''Microsoft Azure''
        [https ''https://login.microsoftonline.com'',
         tcp ''portal.azure.com:443'',
         tcp ''management.azure.com:443'']),
     (''gcp'', service ''gcp'' ''Google Cloud''
        [https ''https://console.cloud.google.com'',
         tcp ''storage.googleapis.com:443''])]"

definition saas_Get :: "string \<Rightarrow> Service option" where
  "saas_Get i = map_of catalog i"

definition saas_All :: "Service list" where
  "saas_All = sort_key svc_Name (map snd catalog)"

lemma saas_Get_id: "saas_Get i = Some s \<Longrightarrow> svc_ID s = i"
  by (auto simp: saas_Get_def catalog_def service_def split: if_splits)

end
