(* ===== verification/Wire.thy ===== *)
theory Wire
  imports NL_Prelude
begin

text \<open>
  The messages of the control stream (\<open>proto/netlama.pb.go\<close>): a \<open>oneof\<close> is a datatype with one
  constructor per variant, a message is a record. The generated getters return the zero value on
  a nil message, which is what \<open>GetPing\<close> and its kin followed by a field read do here through
  \<open>get\<close>.
\<close>

section \<open>Test specifications pushed to an agent\<close>

record SaasEndpoint =
  se_Kind :: string
  se_Target :: string

record pb_WlanActiveParams =
  pwa_Ssid :: string
  pwa_Security :: string
  pwa_Password :: string
  pwa_Identity :: string
  pwa_CaCertPem :: string
  pwa_InsecureSkipVerify :: bool
  pwa_ThroughputUrl :: string
  pwa_MacMode :: string

datatype TestSpec_Params =
    TestSpec_Unset
  | TestSpec_Speedtest (ps_Provider: string)
  | TestSpec_Ping (ps_Targets: "string list") (ps_Count: u32)
  | TestSpec_Dns (ps_Queries: "string list") (ps_Servers: "string list")
  | TestSpec_Http (ps_Url: string) (ps_TimeoutSeconds: u32) (ps_SkipTlsVerify: bool)
  | TestSpec_Tcp (ps_TcpTargets: "string list") (ps_TcpTimeout: u32)
  | TestSpec_Traceroute (ps_Target: string) (ps_Protocol: string) (ps_Port: u32)
      (ps_MaxHops: u32) (ps_ProbesPerHop: u32)
  | TestSpec_WlanPassive
  | TestSpec_WlanActive pb_WlanActiveParams
  | TestSpec_Perfmon (ps_PerfTarget: string) (ps_DurationSeconds: u32)
  | TestSpec_Saas (ps_Service: string) (ps_Endpoints: "SaasEndpoint list")

record pb_TestSpec =
  ts_Id :: string
  ts_Name :: string
  ts_IntervalSeconds :: u32
  ts_Params :: TestSpec_Params

record PerfmonReflectorConfig =
  pr_Enabled :: bool
  pr_Port :: u32
  pr_AllowedCidrs :: "string list"

record pb_Config =
  cfg_Tests :: "pb_TestSpec list"
  cfg_PerfmonReflector :: PerfmonReflectorConfig
  cfg_WlanSensorInterface :: string

datatype ServerMessage = ServerMessage_Config pb_Config | ServerMessage_RunTest string

section \<open>Results sent by an agent\<close>

record SpeedtestResult =
  sr_ServerName :: string
  sr_ServerCountry :: string
  sr_LatencyMs :: float64
  sr_DownloadMbps :: float64
  sr_UploadMbps :: float64
  sr_UserIp :: string
  sr_UserIsp :: string
  sr_Provider :: string

record PingResult =
  pi_Target :: string
  pi_PacketsSent :: u32
  pi_PacketsReceived :: u32
  pi_LossPercent :: float64
  pi_MinRttMs :: float64
  pi_AvgRttMs :: float64
  pi_MaxRttMs :: float64

record DnsResult =
  dn_Query :: string
  dn_Server :: string
  dn_Success :: bool
  dn_ResolveTimeMs :: float64
  dn_Addresses :: "string list"

record HttpResult =
  ht_Url :: string
  ht_StatusCode :: u32
  ht_DnsMs :: float64
  ht_ConnectMs :: float64
  ht_TlsMs :: float64
  ht_TtfbMs :: float64
  ht_TotalMs :: float64
  ht_CertExpiryDays :: float64
  ht_ServerIp :: string

record TcpResult =
  tc_Target :: string
  tc_Connected :: bool
  tc_ConnectMs :: float64

record PerfmonResult =
  pf_Target :: string
  pf_Success :: bool
  pf_FailedStep :: string
  pf_LatencyMs :: float64
  pf_UploadMbps :: float64
  pf_DownloadMbps :: float64
  pf_DurationSeconds :: u32

record Hop =
  hop_Ttl :: u32
  hop_Host :: string
  hop_HostName :: string
  hop_LossPercent :: float64
  hop_AvgRttMs :: float64
  hop_BestRttMs :: float64
  hop_WorstRttMs :: float64
  hop_JitterMs :: float64
  hop_Sent :: u32

record TracerouteResult =
  tr_Target :: string
  tr_TargetIp :: string
  tr_Reached :: bool
  tr_Status :: string
  tr_FailureHop :: u32
  tr_RttMs :: float64
  tr_Demo :: bool
  tr_Hops :: "Hop list"
  tr_DestinationState :: string
  tr_Engine :: string
  tr_PathChanged :: bool

record WlanStation =
  st_MAC :: string
  st_BSSID :: string
  st_SSID :: string
  st_RSSIdBm :: int
  st_RSSIAvgdBm :: int
  st_RateMbps :: float64
  st_MCS :: int
  st_Frames :: u32
  st_ProbeOnly :: bool
  st_LastSeenMs :: int

record WlanChannelStat =
  ch_Channel :: u32
  ch_FreqMHz :: u32
  ch_ActiveMs :: u64
  ch_BusyMs :: u64
  ch_UtilizationPct :: float64
  ch_Frames :: u32

record WlanNetwork =
  nw_BSSID :: string
  nw_SSID :: string
  nw_Channel :: u32
  nw_FreqMHz :: u32
  nw_RSSIdBm :: int
  nw_Beacons :: u32
  nw_Security :: string
  nw_Standards :: string
  nw_WidthMHz :: u32
  nw_BeaconIntervalTU :: u32
  nw_Country :: string
  nw_LoadPresent :: bool
  nw_LoadStations :: u32
  nw_LoadChannelUtilPct :: float64
  nw_SecurityDetail :: string
  nw_Roaming :: string
  nw_MFP :: string
  nw_GroupCipher :: string
  nw_DTIMPeriod :: u32
  nw_WPS :: bool
  nw_Streams :: u32
  nw_MaxRateMbps :: float64
  nw_LastSeenMs :: int

record WlanRoamEvent =
  ro_ClientMAC :: string
  ro_SSID :: string
  ro_FromBSSID :: string
  ro_ToBSSID :: string
  ro_FromChannel :: u32
  ro_ToChannel :: u32
  ro_FromRSSIdBm :: int
  ro_ToRSSIdBm :: int
  ro_RoamTimeMs :: float64
  ro_DetectedAtMs :: int

record WlanPassiveResult =
  wp_Interface :: string
  wp_Demo :: bool
  wp_Stations :: "WlanStation list"
  wp_Channels :: "WlanChannelStat list"
  wp_SweepMs :: u32
  wp_Networks :: "WlanNetwork list"
  wp_RoamEvents :: "WlanRoamEvent list"

record WlanActiveResult =
  wa_Interface :: string
  wa_Ssid :: string
  wa_Bssid :: string
  wa_Demo :: bool
  wa_Success :: bool
  wa_FailedStep :: string
  wa_ScanMs :: float64
  wa_AssociateMs :: float64
  wa_AuthenticateMs :: float64
  wa_DhcpMs :: float64
  wa_Ip :: string
  wa_Netmask :: string
  wa_Gateway :: string
  wa_DnsServers :: "string list"
  wa_ThroughputMbps :: float64
  wa_ThroughputMs :: float64
  wa_RssiDbm :: int
  wa_NoiseDbm :: int
  wa_SnrDb :: float64
  wa_TxRetryPct :: float64
  wa_TxPackets :: u32
  wa_TxRetries :: u32
  wa_Mac :: string
  wa_GatewayPingLossPct :: float64
  wa_GatewayPingRttMs :: float64
  wa_TotalMs :: float64

datatype TestResult_Result =
    TestResult_None
  | TestResult_Speedtest SpeedtestResult
  | TestResult_Ping PingResult
  | TestResult_Dns DnsResult
  | TestResult_Http HttpResult
  | TestResult_Tcp TcpResult
  | TestResult_Traceroute TracerouteResult
  | TestResult_WlanPassive WlanPassiveResult
  | TestResult_WlanActive WlanActiveResult
  | TestResult_Perfmon PerfmonResult

record TestResult =
  rs_Time :: "go_time option"
  rs_Error :: string
  rs_TestId :: string
  rs_TestName :: string
  rs_Result :: TestResult_Result

section \<open>Getters\<close>

fun GetSpeedtest_of :: "TestResult_Result \<Rightarrow> SpeedtestResult option" where
  "GetSpeedtest_of (TestResult_Speedtest x) = Some x" | "GetSpeedtest_of _ = None"

fun GetPing_of :: "TestResult_Result \<Rightarrow> PingResult option" where
  "GetPing_of (TestResult_Ping x) = Some x" | "GetPing_of _ = None"

fun GetDns_of :: "TestResult_Result \<Rightarrow> DnsResult option" where
  "GetDns_of (TestResult_Dns x) = Some x" | "GetDns_of _ = None"

fun GetHttp_of :: "TestResult_Result \<Rightarrow> HttpResult option" where
  "GetHttp_of (TestResult_Http x) = Some x" | "GetHttp_of _ = None"

fun GetTcp_of :: "TestResult_Result \<Rightarrow> TcpResult option" where
  "GetTcp_of (TestResult_Tcp x) = Some x" | "GetTcp_of _ = None"

fun GetTraceroute_of :: "TestResult_Result \<Rightarrow> TracerouteResult option" where
  "GetTraceroute_of (TestResult_Traceroute x) = Some x" | "GetTraceroute_of _ = None"

fun GetWlanPassive_of :: "TestResult_Result \<Rightarrow> WlanPassiveResult option" where
  "GetWlanPassive_of (TestResult_WlanPassive x) = Some x" | "GetWlanPassive_of _ = None"

fun GetWlanActive_of :: "TestResult_Result \<Rightarrow> WlanActiveResult option" where
  "GetWlanActive_of (TestResult_WlanActive x) = Some x" | "GetWlanActive_of _ = None"

fun GetPerfmon_of :: "TestResult_Result \<Rightarrow> PerfmonResult option" where
  "GetPerfmon_of (TestResult_Perfmon x) = Some x" | "GetPerfmon_of _ = None"

abbreviation "GetSpeedtest r \<equiv> GetSpeedtest_of (rs_Result r)"
abbreviation "GetPing r \<equiv> GetPing_of (rs_Result r)"
abbreviation "GetDns r \<equiv> GetDns_of (rs_Result r)"
abbreviation "GetHttp r \<equiv> GetHttp_of (rs_Result r)"
abbreviation "GetTcp r \<equiv> GetTcp_of (rs_Result r)"
abbreviation "GetTraceroute r \<equiv> GetTraceroute_of (rs_Result r)"
abbreviation "GetWlanPassive r \<equiv> GetWlanPassive_of (rs_Result r)"
abbreviation "GetWlanActive r \<equiv> GetWlanActive_of (rs_Result r)"
abbreviation "GetPerfmon r \<equiv> GetPerfmon_of (rs_Result r)"

text \<open>Reading a field through a possibly nil message: the zero value when nil.\<close>

definition get :: "'z \<Rightarrow> ('m \<Rightarrow> 'z) \<Rightarrow> 'm option \<Rightarrow> 'z" where
  "get z f m = (case m of None \<Rightarrow> z | Some x \<Rightarrow> f x)"

lemma get_simps [simp]: "get z f None = z" "get z f (Some x) = f x"
  by (simp_all add: get_def)

end
