(* ===== verification/Test_Params.thy ===== *)
theory Test_Params
  imports Go_Strings Json Saas_Catalog Wire
begin

text \<open>
  The stored parameter payloads of the test types (\<open>internal/testtype/params.go\<close>). The Go interface
  \<open>Params\<close> is the datatype \<open>params\<close> with one constructor per struct; \<open>Validate\<close> returns the payload
  with its defaults filled in, or the error, and \<open>Apply\<close> sets the oneof of the pushed spec.
  \<open>json.Unmarshal\<close> into each struct and \<open>json.Marshal\<close> of it are the \<open>unmarshal_params\<close> and
  \<open>marshal_params\<close> below.
\<close>

section \<open>Payloads\<close>

record PingParams =
  pp_Targets :: "string list"
  pp_Count :: u32

record DNSParams =
  dp_Queries :: "string list"
  dp_Servers :: "string list"

record HTTPParams =
  hp_URL :: string
  hp_TimeoutSeconds :: u32
  hp_SkipTLSVerify :: bool

record TCPParams =
  tp_Targets :: "string list"
  tp_TimeoutSeconds :: u32

record WlanActiveParams =
  wap_SSID :: string
  wap_Security :: string
  wap_Password :: string
  wap_Identity :: string
  wap_CACertPEM :: string
  wap_InsecureSkipVerify :: bool
  wap_ThroughputURL :: string
  wap_MACMode :: string

record PerfmonParams =
  pm_SourceAgentID :: string
  pm_Target :: string
  pm_DurationSeconds :: u32

record TracerouteParams =
  tp_Target :: string
  tp_Protocol :: string
  tp_Port :: u32
  tp_MaxHops :: u32
  tp_ProbesPerHop :: u32

datatype params =
    P_Ping PingParams
  | P_DNS DNSParams
  | P_HTTP HTTPParams
  | P_TCP TCPParams
  | P_Speedtest string
  | P_WlanPassive
  | P_WlanActive WlanActiveParams
  | P_Perfmon PerfmonParams
  | P_Saas string
  | P_Traceroute TracerouteParams

section \<open>Validation\<close>

definition validate_ping :: "PingParams \<Rightarrow> PingParams result" where [validate_defs]:
  "validate_ping p =
     (if pp_Targets p = [] then Inl (Errorf ''ping requires at least one target'' [])
      else let p = (if pp_Count p = 0 then p\<lparr>pp_Count := 5\<rparr> else p)
           in if pp_Count p > 20 then Inl (Errorf ''ping count must be at most 20'' [])
              else Inr p)"

definition validate_dns :: "DNSParams \<Rightarrow> DNSParams result" where [validate_defs]:
  "validate_dns p =
     (if dp_Queries p = [] \<or> dp_Servers p = []
      then Inl (Errorf ''dns requires at least one query and one server'' []) else Inr p)"

definition validate_http :: "HTTPParams \<Rightarrow> HTTPParams result" where [validate_defs]:
  "validate_http p =
     (let p = p\<lparr>hp_URL := trim_space (hp_URL p)\<rparr>
      in if \<not> has_prefix (hp_URL p) ''http://'' \<and> \<not> has_prefix (hp_URL p) ''https://''
         then Inl (Errorf ''http url must start with http:// or https://'' [])
         else Inr (if hp_TimeoutSeconds p = 0 then p\<lparr>hp_TimeoutSeconds := 10\<rparr> else p))"

fun check_targets :: "string list \<Rightarrow> go_error option" where
  "check_targets [] = None"
| "check_targets (t # ts) =
     (case split_host_port t of
        Inl _ \<Rightarrow> Some (Errorf ''tcp target %q must be host:port'' [t])
      | Inr _ \<Rightarrow> check_targets ts)"

definition validate_tcp :: "TCPParams \<Rightarrow> TCPParams result" where [validate_defs]:
  "validate_tcp p =
     (if tp_Targets p = [] then Inl (Errorf ''tcp requires at least one target'' [])
      else case check_targets (tp_Targets p) of
             Some e \<Rightarrow> Inl e
           | None \<Rightarrow> Inr (if tp_TimeoutSeconds p = 0 then p\<lparr>tp_TimeoutSeconds := 5\<rparr> else p))"

definition validate_speedtest :: "string \<Rightarrow> string result" where [validate_defs]:
  "validate_speedtest provider =
     (if provider \<in> {'''', ''ookla'', ''ndt7'', ''cloudflare''} then Inr provider
      else Inl (Errorf ''speedtest provider must be ookla, ndt7 or cloudflare'' []))"

text \<open>
  \<open>default_choice d ok s\<close> is the shape \<open>switch s { case "": s = d; case ok...: default: error }\<close> the
  validators use for enumerated fields.
\<close>

definition default_choice :: "string \<Rightarrow> string list \<Rightarrow> string \<Rightarrow> string option" where
  "default_choice d ok s = (if s = '''' then Some d else if s \<in> set ok then Some s else None)"

lemma default_choice_idem:
  "default_choice d ok s = Some t \<Longrightarrow> d \<in> set ok \<Longrightarrow> default_choice d ok t = Some t"
  by (auto simp: default_choice_def split: if_splits)

definition validate_wlan_active :: "WlanActiveParams \<Rightarrow> WlanActiveParams result" where [validate_defs]:
  "validate_wlan_active p =
     (let p = p\<lparr>wap_SSID := trim_space (wap_SSID p)\<rparr>
      in if wap_SSID p = '''' then Inl (Errorf ''wlan_active requires an SSID'' [])
         else case default_choice ''psk'' [''psk'', ''eap-peap'', ''open''] (wap_Security p) of
           None \<Rightarrow> Inl (Errorf ''wlan_active security must be psk, eap-peap or open'' [])
         | Some sec \<Rightarrow>
         let p = p\<lparr>wap_Security := sec\<rparr>
         in if wap_Security p = ''psk'' \<and> wap_Password p = ''''
         then Inl (Errorf ''wlan_active with psk requires a password'' [])
         else if wap_Security p = ''eap-peap'' \<and> (wap_Identity p = '''' \<or> wap_Password p = '''')
         then Inl (Errorf ''wlan_active with eap-peap requires identity and password'' [])
         else if wap_Security p = ''eap-peap'' \<and> wap_CACertPEM p = '''' \<and> \<not> wap_InsecureSkipVerify p
         then Inl (Errorf ''wlan_active with eap-peap requires a CA certificate or insecureSkipVerify'' [])
         else case default_choice ''permanent'' [''permanent'', ''random''] (wap_MACMode p) of
           None \<Rightarrow> Inl (Errorf ''wlan_active macMode must be permanent or random'' [])
         | Some mode \<Rightarrow> Inr (p\<lparr>wap_MACMode := mode\<rparr>))"

definition validate_perfmon :: "PerfmonParams \<Rightarrow> PerfmonParams result" where [validate_defs]:
  "validate_perfmon p =
     (let p = p\<lparr>pm_SourceAgentID := trim_space (pm_SourceAgentID p)\<rparr>
      in if pm_SourceAgentID p = '''' then Inl (Errorf ''perfmon requires a source agent'' [])
         else let p = p\<lparr>pm_Target := trim_space (pm_Target p)\<rparr>
         in if pm_Target p = '''' then Inl (Errorf ''perfmon requires a target (another agent's host:port)'' [])
         else case split_host_port (pm_Target p) of
                Inl _ \<Rightarrow> Inl (Errorf ''perfmon target %q must be host:port'' [pm_Target p])
              | Inr _ \<Rightarrow>
                  let p = (if pm_DurationSeconds p = 0 then p\<lparr>pm_DurationSeconds := 5\<rparr> else p)
                  in if pm_DurationSeconds p > 30
                     then Inl (Errorf ''perfmon durationSeconds must be at most 30'' [])
                     else Inr p)"

definition validate_saas :: "string \<Rightarrow> string result" where [validate_defs]:
  "validate_saas sv =
     (let sv = trim_space sv
      in if sv = '''' then Inl (Errorf ''saas requires a service'' [])
         else case saas_Get sv of
                None \<Rightarrow> Inl (Errorf ''unknown saas service %q'' [sv])
              | Some _ \<Rightarrow> Inr sv)"

definition validate_traceroute :: "TracerouteParams \<Rightarrow> TracerouteParams result" where [validate_defs]:
  "validate_traceroute p =
     (let p = p\<lparr>tp_Target := trim_space (tp_Target p)\<rparr>
      in if tp_Target p = '''' then Inl (Errorf ''traceroute requires a target'' [])
         else case default_choice ''tcp'' [''icmp'', ''tcp'', ''udp''] (tp_Protocol p) of
           None \<Rightarrow> Inl (Errorf ''traceroute protocol must be icmp, tcp or udp'' [])
         | Some proto \<Rightarrow>
         let p = p\<lparr>tp_Protocol := proto\<rparr>;
             p = (if (tp_Protocol p = ''tcp'' \<or> tp_Protocol p = ''udp'') \<and> tp_Port p = 0
                  then p\<lparr>tp_Port := 443\<rparr> else p);
             p = (if tp_MaxHops p = 0 then p\<lparr>tp_MaxHops := 30\<rparr> else p)
         in if tp_MaxHops p > 64 then Inl (Errorf ''maxHops must be at most 64'' [])
         else Inr (if tp_ProbesPerHop p = 0 then p\<lparr>tp_ProbesPerHop := 5\<rparr> else p))"

fun Validate :: "params \<Rightarrow> params result" where
  "Validate (P_Ping p) = map_sum id P_Ping (validate_ping p)"
| "Validate (P_DNS p) = map_sum id P_DNS (validate_dns p)"
| "Validate (P_HTTP p) = map_sum id P_HTTP (validate_http p)"
| "Validate (P_TCP p) = map_sum id P_TCP (validate_tcp p)"
| "Validate (P_Speedtest p) = map_sum id P_Speedtest (validate_speedtest p)"
| "Validate P_WlanPassive = Inr P_WlanPassive"
| "Validate (P_WlanActive p) = map_sum id P_WlanActive (validate_wlan_active p)"
| "Validate (P_Perfmon p) = map_sum id P_Perfmon (validate_perfmon p)"
| "Validate (P_Saas p) = map_sum id P_Saas (validate_saas p)"
| "Validate (P_Traceroute p) = map_sum id P_Traceroute (validate_traceroute p)"

text \<open>
  A validated payload passes validation again and is not changed by it: the form that is stored is
  the form that is pushed.
\<close>

lemma check_targets_None: "check_targets ts = None \<longleftrightarrow> (\<forall>t \<in> set ts. is_ok (split_host_port t))"
  by (induction ts) (auto split: sum.splits)

lemma validate_ping_idem: "validate_ping p = Inr q \<Longrightarrow> validate_ping q = Inr q"
  by (auto simp: validate_defs Let_def split: if_splits)

lemma validate_dns_idem: "validate_dns p = Inr q \<Longrightarrow> validate_dns q = Inr q"
  by (auto simp: validate_defs split: if_splits)

lemma validate_http_idem: "validate_http p = Inr q \<Longrightarrow> validate_http q = Inr q"
  by (auto simp: validate_defs Let_def split: if_splits)

lemma validate_tcp_idem: "validate_tcp p = Inr q \<Longrightarrow> validate_tcp q = Inr q"
  by (auto simp: validate_defs split: if_splits option.splits)

lemma validate_speedtest_idem: "validate_speedtest p = Inr q \<Longrightarrow> validate_speedtest q = Inr q"
  by (auto simp: validate_defs split: if_splits)

lemma validate_wlan_active_idem:
  assumes "validate_wlan_active p = Inr q"
  shows "validate_wlan_active q = Inr q"
proof -
  obtain sec where c: "default_choice ''psk'' [''psk'', ''eap-peap'', ''open''] (wap_Security p) = Some sec"
    using assms
    by (cases "default_choice ''psk'' [''psk'', ''eap-peap'', ''open''] (wap_Security p)")
      (simp_all add: validate_wlan_active_def Let_def split: if_splits)
  obtain mode where m: "default_choice ''permanent'' [''permanent'', ''random''] (wap_MACMode p) = Some mode"
    using assms c
    by (cases "default_choice ''permanent'' [''permanent'', ''random''] (wap_MACMode p)")
      (simp_all add: validate_wlan_active_def Let_def split: if_split_asm)
  have "default_choice ''psk'' [''psk'', ''eap-peap'', ''open''] sec = Some sec"
    using c by (rule default_choice_idem) simp
  moreover have "default_choice ''permanent'' [''permanent'', ''random''] mode = Some mode"
    using m by (rule default_choice_idem) simp
  ultimately show ?thesis using assms c m
    by (simp add: validate_wlan_active_def Let_def split: if_split_asm) fastforce+
qed

lemma validate_perfmon_idem: "validate_perfmon p = Inr q \<Longrightarrow> validate_perfmon q = Inr q"
  by (auto simp: validate_defs Let_def split: if_splits sum.splits)

lemma validate_saas_idem: "validate_saas p = Inr q \<Longrightarrow> validate_saas q = Inr q"
  by (auto simp: validate_defs Let_def split: if_splits option.splits)

lemma validate_traceroute_idem:
  assumes "validate_traceroute p = Inr q"
  shows "validate_traceroute q = Inr q"
proof -
  from assms obtain proto
    where c: "default_choice ''tcp'' [''icmp'', ''tcp'', ''udp''] (tp_Protocol p) = Some proto"
    by (auto simp: validate_traceroute_def Let_def split: if_splits option.splits)
  then have "default_choice ''tcp'' [''icmp'', ''tcp'', ''udp''] proto = Some proto"
    by (rule default_choice_idem) simp
  with assms c show ?thesis
    by (simp add: validate_traceroute_def Let_def split: if_splits) auto
qed

lemmas validate_idems = validate_ping_idem validate_dns_idem validate_http_idem validate_tcp_idem
  validate_speedtest_idem validate_wlan_active_idem validate_perfmon_idem validate_saas_idem
  validate_traceroute_idem

lemma map_sum_id_Inr: "map_sum id f r = Inr y \<longleftrightarrow> (\<exists>x. r = Inr x \<and> y = f x)"
  by (cases r) auto

lemma Validate_idem: "Validate p = Inr q \<Longrightarrow> Validate q = Inr q"
  by (cases p) (auto simp: map_sum_id_Inr dest: validate_idems)

section \<open>Conversion to the pushed spec\<close>

fun Apply :: "params \<Rightarrow> pb_TestSpec \<Rightarrow> pb_TestSpec" where
  "Apply (P_Ping p) sp = sp\<lparr>ts_Params := TestSpec_Ping (pp_Targets p) (pp_Count p)\<rparr>"
| "Apply (P_DNS p) sp = sp\<lparr>ts_Params := TestSpec_Dns (dp_Queries p) (dp_Servers p)\<rparr>"
| "Apply (P_HTTP p) sp =
     sp\<lparr>ts_Params := TestSpec_Http (hp_URL p) (hp_TimeoutSeconds p) (hp_SkipTLSVerify p)\<rparr>"
| "Apply (P_TCP p) sp = sp\<lparr>ts_Params := TestSpec_Tcp (tp_Targets p) (tp_TimeoutSeconds p)\<rparr>"
| "Apply (P_Speedtest p) sp = sp\<lparr>ts_Params := TestSpec_Speedtest p\<rparr>"
| "Apply P_WlanPassive sp = sp\<lparr>ts_Params := TestSpec_WlanPassive\<rparr>"
| "Apply (P_WlanActive p) sp = sp\<lparr>ts_Params := TestSpec_WlanActive
     \<lparr>pwa_Ssid = wap_SSID p, pwa_Security = wap_Security p, pwa_Password = wap_Password p,
      pwa_Identity = wap_Identity p, pwa_CaCertPem = wap_CACertPEM p,
      pwa_InsecureSkipVerify = wap_InsecureSkipVerify p,
      pwa_ThroughputUrl = wap_ThroughputURL p, pwa_MacMode = wap_MACMode p\<rparr>\<rparr>"
| "Apply (P_Perfmon p) sp = sp\<lparr>ts_Params := TestSpec_Perfmon (pm_Target p) (pm_DurationSeconds p)\<rparr>"
| "Apply (P_Saas p) sp =
     (case saas_Get p of
        None \<Rightarrow> sp
      | Some svc \<Rightarrow>
          sp\<lparr>ts_Params := TestSpec_Saas p
            (map (\<lambda>ep. \<lparr>se_Kind = ep_Kind ep, se_Target = ep_Target ep\<rparr>) (svc_Endpoints svc))\<rparr>)"
| "Apply (P_Traceroute p) sp =
     sp\<lparr>ts_Params := TestSpec_Traceroute (tp_Target p) (tp_Protocol p) (tp_Port p)
                       (tp_MaxHops p) (tp_ProbesPerHop p)\<rparr>"

lemma Apply_frame [simp]:
  "ts_Id (Apply p sp) = ts_Id sp"
  "ts_Name (Apply p sp) = ts_Name sp"
  "ts_IntervalSeconds (Apply p sp) = ts_IntervalSeconds sp"
  by (cases p; simp split: option.splits)+

text \<open>The \<open>return\<close> without a payload in \<open>SaasParams.Apply\<close> is never taken after validation.\<close>

lemma Apply_sets_params: "Validate p = Inr p \<Longrightarrow> ts_Params (Apply p sp) \<noteq> TestSpec_Unset"
  by (cases p) (auto simp: map_sum_id_Inr validate_saas_def Let_def split: option.splits if_splits)

section \<open>Stored form\<close>

definition ping_fields :: "string list" where
  "ping_fields = [''targets'', ''count'']"

definition unmarshal_ping :: "(string \<times> json) list \<Rightarrow> PingParams option" where
  "unmarshal_ping ms =
     (case dec as_strs [] (members ping_fields ms ''targets'') of None \<Rightarrow> None | Some ts \<Rightarrow>
      case dec as_u32 0 (members ping_fields ms ''count'') of None \<Rightarrow> None | Some c \<Rightarrow>
      Some \<lparr>pp_Targets = ts, pp_Count = c\<rparr>)"

definition dns_fields :: "string list" where
  "dns_fields = [''queries'', ''servers'']"

definition unmarshal_dns :: "(string \<times> json) list \<Rightarrow> DNSParams option" where
  "unmarshal_dns ms =
     (case dec as_strs [] (members dns_fields ms ''queries'') of None \<Rightarrow> None | Some q \<Rightarrow>
      case dec as_strs [] (members dns_fields ms ''servers'') of None \<Rightarrow> None | Some sv \<Rightarrow>
      Some \<lparr>dp_Queries = q, dp_Servers = sv\<rparr>)"

definition http_fields :: "string list" where
  "http_fields = [''url'', ''timeoutSeconds'', ''skipTlsVerify'']"

definition unmarshal_http :: "(string \<times> json) list \<Rightarrow> HTTPParams option" where
  "unmarshal_http ms =
     (case dec as_str [] (members http_fields ms ''url'') of None \<Rightarrow> None | Some u \<Rightarrow>
      case dec as_u32 0 (members http_fields ms ''timeoutSeconds'') of None \<Rightarrow> None | Some t \<Rightarrow>
      case dec as_bool False (members http_fields ms ''skipTlsVerify'') of None \<Rightarrow> None | Some b \<Rightarrow>
      Some \<lparr>hp_URL = u, hp_TimeoutSeconds = t, hp_SkipTLSVerify = b\<rparr>)"

definition tcp_fields :: "string list" where
  "tcp_fields = [''targets'', ''timeoutSeconds'']"

definition unmarshal_tcp :: "(string \<times> json) list \<Rightarrow> TCPParams option" where
  "unmarshal_tcp ms =
     (case dec as_strs [] (members tcp_fields ms ''targets'') of None \<Rightarrow> None | Some ts \<Rightarrow>
      case dec as_u32 0 (members tcp_fields ms ''timeoutSeconds'') of None \<Rightarrow> None | Some c \<Rightarrow>
      Some \<lparr>tp_Targets = ts, tp_TimeoutSeconds = c\<rparr>)"

definition wlan_active_fields :: "string list" where
  "wlan_active_fields = [''ssid'', ''security'', ''password'', ''identity'', ''caCertPem'',
     ''insecureSkipVerify'', ''throughputUrl'', ''macMode'']"

definition unmarshal_wlan_active :: "(string \<times> json) list \<Rightarrow> WlanActiveParams option" where
  "unmarshal_wlan_active ms =
     (let str = (\<lambda>f. dec as_str [] (members wlan_active_fields ms f)) in
      case str ''ssid'' of None \<Rightarrow> None | Some ss \<Rightarrow>
      case str ''security'' of None \<Rightarrow> None | Some se \<Rightarrow>
      case str ''password'' of None \<Rightarrow> None | Some pw \<Rightarrow>
      case str ''identity'' of None \<Rightarrow> None | Some idn \<Rightarrow>
      case str ''caCertPem'' of None \<Rightarrow> None | Some ca \<Rightarrow>
      case dec as_bool False (members wlan_active_fields ms ''insecureSkipVerify'') of None \<Rightarrow> None | Some b \<Rightarrow>
      case str ''throughputUrl'' of None \<Rightarrow> None | Some tu \<Rightarrow>
      case str ''macMode'' of None \<Rightarrow> None | Some mm \<Rightarrow>
      Some \<lparr>wap_SSID = ss, wap_Security = se, wap_Password = pw, wap_Identity = idn,
            wap_CACertPEM = ca, wap_InsecureSkipVerify = b, wap_ThroughputURL = tu,
            wap_MACMode = mm\<rparr>)"

definition perfmon_fields :: "string list" where
  "perfmon_fields = [''sourceAgentId'', ''target'', ''durationSeconds'']"

definition unmarshal_perfmon :: "(string \<times> json) list \<Rightarrow> PerfmonParams option" where
  "unmarshal_perfmon ms =
     (case dec as_str [] (members perfmon_fields ms ''sourceAgentId'') of None \<Rightarrow> None | Some sa \<Rightarrow>
      case dec as_str [] (members perfmon_fields ms ''target'') of None \<Rightarrow> None | Some t \<Rightarrow>
      case dec as_u32 0 (members perfmon_fields ms ''durationSeconds'') of None \<Rightarrow> None | Some d \<Rightarrow>
      Some \<lparr>pm_SourceAgentID = sa, pm_Target = t, pm_DurationSeconds = d\<rparr>)"

definition traceroute_fields :: "string list" where
  "traceroute_fields = [''target'', ''protocol'', ''port'', ''maxHops'', ''probesPerHop'']"

definition unmarshal_traceroute :: "(string \<times> json) list \<Rightarrow> TracerouteParams option" where
  "unmarshal_traceroute ms =
     (case dec as_str [] (members traceroute_fields ms ''target'') of None \<Rightarrow> None | Some t \<Rightarrow>
      case dec as_str [] (members traceroute_fields ms ''protocol'') of None \<Rightarrow> None | Some pr \<Rightarrow>
      case dec as_u32 0 (members traceroute_fields ms ''port'') of None \<Rightarrow> None | Some po \<Rightarrow>
      case dec as_u32 0 (members traceroute_fields ms ''maxHops'') of None \<Rightarrow> None | Some mh \<Rightarrow>
      case dec as_u32 0 (members traceroute_fields ms ''probesPerHop'') of None \<Rightarrow> None | Some pp \<Rightarrow>
      Some \<lparr>tp_Target = t, tp_Protocol = pr, tp_Port = po, tp_MaxHops = mh, tp_ProbesPerHop = pp\<rparr>)"

text \<open>
  The first argument is the zero value the type's \<open>NewParams\<close> returns: it says which struct the
  document is decoded into.
\<close>

fun unmarshal_params :: "params \<Rightarrow> (string \<times> json) list \<Rightarrow> params option" where
  "unmarshal_params (P_Ping _) ms = map_option P_Ping (unmarshal_ping ms)"
| "unmarshal_params (P_DNS _) ms = map_option P_DNS (unmarshal_dns ms)"
| "unmarshal_params (P_HTTP _) ms = map_option P_HTTP (unmarshal_http ms)"
| "unmarshal_params (P_TCP _) ms = map_option P_TCP (unmarshal_tcp ms)"
| "unmarshal_params (P_Speedtest _) ms =
     map_option P_Speedtest (dec as_str [] (members [''provider''] ms ''provider''))"
| "unmarshal_params P_WlanPassive ms = Some P_WlanPassive"
| "unmarshal_params (P_WlanActive _) ms = map_option P_WlanActive (unmarshal_wlan_active ms)"
| "unmarshal_params (P_Perfmon _) ms = map_option P_Perfmon (unmarshal_perfmon ms)"
| "unmarshal_params (P_Saas _) ms =
     map_option P_Saas (dec as_str [] (members [''service''] ms ''service''))"
| "unmarshal_params (P_Traceroute _) ms = map_option P_Traceroute (unmarshal_traceroute ms)"

fun marshal_params :: "params \<Rightarrow> json" where
  "marshal_params (P_Ping p) =
     JObj [(''targets'', of_strs (pp_Targets p)), (''count'', of_u32 (pp_Count p))]"
| "marshal_params (P_DNS p) =
     JObj [(''queries'', of_strs (dp_Queries p)), (''servers'', of_strs (dp_Servers p))]"
| "marshal_params (P_HTTP p) =
     JObj [(''url'', JStr (hp_URL p)), (''timeoutSeconds'', of_u32 (hp_TimeoutSeconds p)),
           (''skipTlsVerify'', JBool (hp_SkipTLSVerify p))]"
| "marshal_params (P_TCP p) =
     JObj [(''targets'', of_strs (tp_Targets p)), (''timeoutSeconds'', of_u32 (tp_TimeoutSeconds p))]"
| "marshal_params (P_Speedtest p) = JObj [(''provider'', JStr p)]"
| "marshal_params P_WlanPassive = JObj []"
| "marshal_params (P_WlanActive p) =
     JObj [(''ssid'', JStr (wap_SSID p)), (''security'', JStr (wap_Security p)),
           (''password'', JStr (wap_Password p)), (''identity'', JStr (wap_Identity p)),
           (''caCertPem'', JStr (wap_CACertPEM p)),
           (''insecureSkipVerify'', JBool (wap_InsecureSkipVerify p)),
           (''throughputUrl'', JStr (wap_ThroughputURL p)), (''macMode'', JStr (wap_MACMode p))]"
| "marshal_params (P_Perfmon p) =
     JObj [(''sourceAgentId'', JStr (pm_SourceAgentID p)), (''target'', JStr (pm_Target p)),
           (''durationSeconds'', of_u32 (pm_DurationSeconds p))]"
| "marshal_params (P_Saas p) = JObj [(''service'', JStr p)]"
| "marshal_params (P_Traceroute p) =
     JObj [(''target'', JStr (tp_Target p)), (''protocol'', JStr (tp_Protocol p)),
           (''port'', of_u32 (tp_Port p)), (''maxHops'', of_u32 (tp_MaxHops p)),
           (''probesPerHop'', of_u32 (tp_ProbesPerHop p))]"

text \<open>The Go type of a payload, by the position of its constructor.\<close>

primrec kind_of :: "params \<Rightarrow> nat" where
  "kind_of (P_Ping _) = 0"
| "kind_of (P_DNS _) = 1"
| "kind_of (P_HTTP _) = 2"
| "kind_of (P_TCP _) = 3"
| "kind_of (P_Speedtest _) = 4"
| "kind_of P_WlanPassive = 5"
| "kind_of (P_WlanActive _) = 6"
| "kind_of (P_Perfmon _) = 7"
| "kind_of (P_Saas _) = 8"
| "kind_of (P_Traceroute _) = 9"

definition same_type :: "params \<Rightarrow> params \<Rightarrow> bool" where
  "same_type p q = (kind_of p = kind_of q)"

lemma same_type_refl [simp]: "same_type p p"
  by (simp add: same_type_def)

lemma same_type_trans: "same_type a b \<Longrightarrow> same_type b c \<Longrightarrow> same_type a c"
  by (simp add: same_type_def)

lemma Validate_same_type: "Validate p = Inr q \<Longrightarrow> same_type p q"
  by (cases p) (auto simp: map_sum_id_Inr same_type_def)

lemma unmarshal_same_type: "unmarshal_params z ms = Some p \<Longrightarrow> same_type z p"
  by (cases z) (auto simp: same_type_def)

lemmas field_defs = ping_fields_def dns_fields_def http_fields_def tcp_fields_def
  wlan_active_fields_def perfmon_fields_def traceroute_fields_def

lemmas unmarshal_defs = unmarshal_ping_def unmarshal_dns_def unmarshal_http_def unmarshal_tcp_def
  unmarshal_wlan_active_def unmarshal_perfmon_def unmarshal_traceroute_def

lemma unmarshal_marshal:
  assumes "same_type z p"
  shows "case unmarshal_object (marshal_params p) of
           None \<Rightarrow> False | Some ms \<Rightarrow> unmarshal_params z ms = Some p"
  using assms
  by (cases p; cases z) (simp_all add: unmarshal_object_def unmarshal_defs field_defs Let_def same_type_def)

end
