(* ===== verification/Test_Types.thy ===== *)
theory Test_Types
  imports Test_Params
begin

text \<open>
  The registry of test types (\<open>internal/testtype/testtype.go\<close> and \<open>specs.go\<close>). A \<open>Metric\<close> returns
  \<open>Some v\<close> for the Go pair \<open>(v, true)\<close> and \<open>None\<close> for \<open>(0, false)\<close>. The registry is the association
  list that the \<open>init\<close> function builds by calling \<open>register\<close> once per type; the two panics of
  \<open>register\<close> guard nil function fields, which a \<open>Spec\<close> of this model cannot have.
\<close>

section \<open>Specs and registration\<close>

type_synonym Metric = "TestResult \<Rightarrow> float64 option"

record Spec =
  sp_Type :: string
  sp_Capability :: string
  sp_Unit :: string
  sp_LowerIsWorse :: bool
  sp_Primary :: Metric
  sp_Metrics :: "(string \<times> Metric) list"
  sp_Subject :: "(TestResult \<Rightarrow> string) option"
  sp_NewParams :: params
  sp_MinIntervalSeconds :: u32

definition register :: "(string \<times> Spec) list \<Rightarrow> Spec \<Rightarrow> (string \<times> Spec) list" where
  "register ss s =
     (let s = (if sp_Capability s = '''' then s\<lparr>sp_Capability := sp_Type s\<rparr> else s);
          s = (if sp_MinIntervalSeconds s = 0 then s\<lparr>sp_MinIntervalSeconds := 5\<rparr> else s)
      in (sp_Type s, s) # filter (\<lambda>e. fst e \<noteq> sp_Type s) ss)"

definition positive :: "float64 \<Rightarrow> float64 option" where
  "positive v = (if v > 0 then Some v else None)"

lemma positive_Some: "positive v = Some w \<longleftrightarrow> w = v \<and> 0 < v"
  by (auto simp: positive_def)

section \<open>Readers shared by several types\<close>

definition saasLatency :: Metric where
  "saasLatency r =
     (if GetHttp r \<noteq> None then positive (get 0 ht_TtfbMs (GetHttp r))
      else positive (get 0 tc_ConnectMs (GetTcp r)))"

definition maxChannelUtil :: "TestResult \<Rightarrow> float64" where
  "maxChannelUtil r =
     fold (\<lambda>ch m. if ch_UtilizationPct ch > m then ch_UtilizationPct ch else m)
       (get [] wp_Channels (GetWlanPassive r)) 0"

definition connectMs :: "TestResult \<Rightarrow> float64" where
  "connectMs r =
     (let wa = GetWlanActive r
      in get 0 wa_AssociateMs wa + get 0 wa_AuthenticateMs wa + get 0 wa_DhcpMs wa)"

section \<open>The registered types\<close>

definition PingParams_zero :: params where
  "PingParams_zero = P_Ping \<lparr>pp_Targets = [], pp_Count = 0\<rparr>"

definition DNSParams_zero :: params where
  "DNSParams_zero = P_DNS \<lparr>dp_Queries = [], dp_Servers = []\<rparr>"

definition HTTPParams_zero :: params where
  "HTTPParams_zero = P_HTTP \<lparr>hp_URL = [], hp_TimeoutSeconds = 0, hp_SkipTLSVerify = False\<rparr>"

definition TCPParams_zero :: params where
  "TCPParams_zero = P_TCP \<lparr>tp_Targets = [], tp_TimeoutSeconds = 0\<rparr>"

definition WlanActiveParams_zero :: params where
  "WlanActiveParams_zero = P_WlanActive
     \<lparr>wap_SSID = [], wap_Security = [], wap_Password = [], wap_Identity = [], wap_CACertPEM = [],
      wap_InsecureSkipVerify = False, wap_ThroughputURL = [], wap_MACMode = []\<rparr>"

definition PerfmonParams_zero :: params where
  "PerfmonParams_zero = P_Perfmon \<lparr>pm_SourceAgentID = [], pm_Target = [], pm_DurationSeconds = 0\<rparr>"

definition TracerouteParams_zero :: params where
  "TracerouteParams_zero = P_Traceroute
     \<lparr>tp_Target = [], tp_Protocol = [], tp_Port = 0, tp_MaxHops = 0, tp_ProbesPerHop = 0\<rparr>"

definition ping_spec :: Spec where [spec_defs]:
  "ping_spec =
    \<lparr>sp_Type = ''ping'', sp_Capability = '''', sp_Unit = ''ms'', sp_LowerIsWorse = False,
     sp_Primary = (\<lambda>r. positive (get 0 pi_AvgRttMs (GetPing r))),
     sp_Metrics =
       [(''latency_ms'', \<lambda>r. Some (get 0 pi_AvgRttMs (GetPing r))),
        (''loss_percent'', \<lambda>r. Some (get 0 pi_LossPercent (GetPing r)))],
     sp_Subject = Some (\<lambda>r. get '''' pi_Target (GetPing r)),
     sp_NewParams = PingParams_zero, sp_MinIntervalSeconds = 0\<rparr>"

definition dns_spec :: Spec where [spec_defs]:
  "dns_spec =
    \<lparr>sp_Type = ''dns'', sp_Capability = '''', sp_Unit = ''ms'', sp_LowerIsWorse = False,
     sp_Primary = (\<lambda>r. positive (get 0 dn_ResolveTimeMs (GetDns r))),
     sp_Metrics = [(''latency_ms'', \<lambda>r. Some (get 0 dn_ResolveTimeMs (GetDns r)))],
     sp_Subject = Some (\<lambda>r. get '''' dn_Query (GetDns r) @ ''@'' @ get '''' dn_Server (GetDns r)),
     sp_NewParams = DNSParams_zero, sp_MinIntervalSeconds = 0\<rparr>"

definition http_spec :: Spec where [spec_defs]:
  "http_spec =
    \<lparr>sp_Type = ''http'', sp_Capability = '''', sp_Unit = ''ms'', sp_LowerIsWorse = False,
     sp_Primary = (\<lambda>r. positive (get 0 ht_TotalMs (GetHttp r))),
     sp_Metrics = [(''latency_ms'', \<lambda>r. Some (get 0 ht_TotalMs (GetHttp r)))],
     sp_Subject = Some (\<lambda>r. get '''' ht_Url (GetHttp r)),
     sp_NewParams = HTTPParams_zero, sp_MinIntervalSeconds = 0\<rparr>"

definition tcp_spec :: Spec where [spec_defs]:
  "tcp_spec =
    \<lparr>sp_Type = ''tcp'', sp_Capability = '''', sp_Unit = ''ms'', sp_LowerIsWorse = False,
     sp_Primary = (\<lambda>r. positive (get 0 tc_ConnectMs (GetTcp r))),
     sp_Metrics = [(''latency_ms'', \<lambda>r. Some (get 0 tc_ConnectMs (GetTcp r)))],
     sp_Subject = Some (\<lambda>r. get '''' tc_Target (GetTcp r)),
     sp_NewParams = TCPParams_zero, sp_MinIntervalSeconds = 0\<rparr>"

definition saas_spec :: Spec where [spec_defs]:
  "saas_spec =
    \<lparr>sp_Type = ''saas'', sp_Capability = '''', sp_Unit = ''ms'', sp_LowerIsWorse = False,
     sp_Primary = saasLatency,
     sp_Metrics =
       [(''latency_ms'', saasLatency),
        (''total_ms'', \<lambda>r. if GetHttp r = None then None else positive (get 0 ht_TotalMs (GetHttp r))),
        (''cert_expiry_days'', \<lambda>r. if GetHttp r = None then None
                                    else Some (get 0 ht_CertExpiryDays (GetHttp r)))],
     sp_Subject = Some (\<lambda>r. let url = get '''' ht_Url (GetHttp r)
                             in if url \<noteq> '''' then url else get '''' tc_Target (GetTcp r)),
     sp_NewParams = P_Saas '''', sp_MinIntervalSeconds = 60\<rparr>"

definition speedtest_spec :: Spec where [spec_defs]:
  "speedtest_spec =
    \<lparr>sp_Type = ''speedtest'', sp_Capability = '''', sp_Unit = ''Mbps'', sp_LowerIsWorse = True,
     sp_Primary = (\<lambda>r. positive (get 0 sr_DownloadMbps (GetSpeedtest r))),
     sp_Metrics =
       [(''latency_ms'', \<lambda>r. Some (get 0 sr_LatencyMs (GetSpeedtest r))),
        (''download_mbps'', \<lambda>r. Some (get 0 sr_DownloadMbps (GetSpeedtest r))),
        (''upload_mbps'', \<lambda>r. Some (get 0 sr_UploadMbps (GetSpeedtest r)))],
     sp_Subject = None,
     sp_NewParams = P_Speedtest '''', sp_MinIntervalSeconds = 60\<rparr>"

definition perfmon_spec :: Spec where [spec_defs]:
  "perfmon_spec =
    \<lparr>sp_Type = ''perfmon'', sp_Capability = '''', sp_Unit = ''Mbps'', sp_LowerIsWorse = False,
     sp_Primary = (\<lambda>r. positive (get 0 pf_DownloadMbps (GetPerfmon r))),
     sp_Metrics =
       [(''latency_ms'', \<lambda>r. Some (get 0 pf_LatencyMs (GetPerfmon r))),
        (''download_mbps'', \<lambda>r. Some (get 0 pf_DownloadMbps (GetPerfmon r))),
        (''upload_mbps'', \<lambda>r. Some (get 0 pf_UploadMbps (GetPerfmon r)))],
     sp_Subject = Some (\<lambda>r. get '''' pf_Target (GetPerfmon r)),
     sp_NewParams = PerfmonParams_zero, sp_MinIntervalSeconds = 60\<rparr>"

definition traceroute_spec :: Spec where [spec_defs]:
  "traceroute_spec =
    \<lparr>sp_Type = ''traceroute'', sp_Capability = '''', sp_Unit = ''hops'', sp_LowerIsWorse = False,
     sp_Primary = (\<lambda>r. positive (of_nat (length (get [] tr_Hops (GetTraceroute r))))),
     sp_Metrics =
       [(''latency_ms'', \<lambda>r. Some (get 0 tr_RttMs (GetTraceroute r))),
        (''path_changed'', \<lambda>r. if GetTraceroute r = None then None
                                else if get False tr_PathChanged (GetTraceroute r) then Some 1 else Some 0)],
     sp_Subject = Some (\<lambda>r. get '''' tr_Target (GetTraceroute r)),
     sp_NewParams = TracerouteParams_zero, sp_MinIntervalSeconds = 30\<rparr>"

definition wlan_passive_spec :: Spec where [spec_defs]:
  "wlan_passive_spec =
    \<lparr>sp_Type = ''wlan_passive'', sp_Capability = ''wlan'', sp_Unit = ''%'', sp_LowerIsWorse = False,
     sp_Primary = (\<lambda>r. positive (maxChannelUtil r)),
     sp_Metrics = [(''utilization_pct'', \<lambda>r. Some (maxChannelUtil r))],
     sp_Subject = None,
     sp_NewParams = P_WlanPassive, sp_MinIntervalSeconds = 60\<rparr>"

definition wlan_active_spec :: Spec where [spec_defs]:
  "wlan_active_spec =
    \<lparr>sp_Type = ''wlan_active'', sp_Capability = '''', sp_Unit = ''ms'', sp_LowerIsWorse = False,
     sp_Primary = (\<lambda>r. positive (connectMs r)),
     sp_Metrics =
       [(''latency_ms'', \<lambda>r. Some (connectMs r)),
        (''loss_percent'', \<lambda>r. Some (get 0 wa_GatewayPingLossPct (GetWlanActive r)))],
     sp_Subject = Some (\<lambda>r. get '''' wa_Ssid (GetWlanActive r)),
     sp_NewParams = WlanActiveParams_zero, sp_MinIntervalSeconds = 300\<rparr>"

definition specs :: "(string \<times> Spec) list" where
  "specs = foldl register []
     [ping_spec, dns_spec, http_spec, tcp_spec, saas_spec, speedtest_spec, perfmon_spec,
      traceroute_spec, wlan_passive_spec, wlan_active_spec]"

section \<open>Lookups\<close>

definition Get :: "string \<Rightarrow> Spec option" where
  "Get testType = map_of specs testType"

definition All :: "Spec list" where
  "All = sort_key sp_Type (map snd specs)"

definition resultTypeName :: "TestResult \<Rightarrow> string" where
  "resultTypeName r =
     (case rs_Result r of
        TestResult_Ping _ \<Rightarrow> ''ping''
      | TestResult_Dns _ \<Rightarrow> ''dns''
      | TestResult_Http _ \<Rightarrow> ''http''
      | TestResult_Tcp _ \<Rightarrow> ''tcp''
      | TestResult_Speedtest _ \<Rightarrow> ''speedtest''
      | TestResult_Perfmon _ \<Rightarrow> ''perfmon''
      | TestResult_Traceroute _ \<Rightarrow> ''traceroute''
      | TestResult_WlanPassive _ \<Rightarrow> ''wlan_passive''
      | TestResult_WlanActive _ \<Rightarrow> ''wlan_active''
      | TestResult_None \<Rightarrow> '''')"

definition OfResult :: "TestResult option \<Rightarrow> Spec option" where
  "OfResult r = (case r of None \<Rightarrow> None | Some r \<Rightarrow> Get (resultTypeName r))"

definition TypeOf :: "TestResult \<Rightarrow> string" where
  "TypeOf r = (case OfResult (Some r) of None \<Rightarrow> ''unknown'' | Some s \<Rightarrow> sp_Type s)"

definition MetricNames :: "Spec \<Rightarrow> string list" where
  "MetricNames s = sort (map fst (sp_Metrics s))"

definition AlertMetrics :: "string list" where
  "AlertMetrics = sort (remdups (concat (map (\<lambda>e. map fst (sp_Metrics (snd e))) specs)))"

definition MetricValue :: "string \<Rightarrow> TestResult \<Rightarrow> float64 option" where
  "MetricValue metric r =
     (case OfResult (Some r) of
        None \<Rightarrow> None
      | Some s \<Rightarrow> (case map_of (sp_Metrics s) metric of None \<Rightarrow> None | Some fn \<Rightarrow> fn r))"

definition SubjectOf :: "TestResult \<Rightarrow> string" where
  "SubjectOf r =
     (case OfResult (Some r) of
        None \<Rightarrow> ''''
      | Some s \<Rightarrow> (case sp_Subject s of None \<Rightarrow> '''' | Some f \<Rightarrow> f r))"

definition DecodeParams :: "Spec \<Rightarrow> raw_message \<Rightarrow> params result" where
  "DecodeParams s raw =
     (let bad = Inl (Wrapf ''invalid %s parameters: %w'' [sp_Type s] (ExtErr ''json''))
      in case raw of
           RawEmpty \<Rightarrow> Inr (sp_NewParams s)
         | RawBad \<Rightarrow> bad
         | Raw j \<Rightarrow>
             (case unmarshal_object j of
                None \<Rightarrow> bad
              | Some ms \<Rightarrow> (case unmarshal_params (sp_NewParams s) ms of None \<Rightarrow> bad | Some p \<Rightarrow> Inr p)))"

section \<open>The registry in closed form\<close>

definition with_defaults :: "Spec \<Rightarrow> Spec" where
  "with_defaults s = snd (hd (register [] s))"

definition all_types :: "Spec list" where
  "all_types = [wlan_active_spec, wlan_passive_spec, traceroute_spec, perfmon_spec, speedtest_spec,
     saas_spec, tcp_spec, http_spec, dns_spec, ping_spec]"

lemma specs_eq: "specs = map (\<lambda>s. (sp_Type s, with_defaults s)) all_types"
  by (simp add: specs_def all_types_def register_def with_defaults_def spec_defs)

lemma with_defaults_simps [simp]:
  "sp_Type (with_defaults s) = sp_Type s"
  "sp_Unit (with_defaults s) = sp_Unit s"
  "sp_LowerIsWorse (with_defaults s) = sp_LowerIsWorse s"
  "sp_Primary (with_defaults s) = sp_Primary s"
  "sp_Metrics (with_defaults s) = sp_Metrics s"
  "sp_Subject (with_defaults s) = sp_Subject s"
  "sp_NewParams (with_defaults s) = sp_NewParams s"
  "sp_Capability (with_defaults s) = (if sp_Capability s = '''' then sp_Type s else sp_Capability s)"
  "sp_MinIntervalSeconds (with_defaults s) =
     (if sp_MinIntervalSeconds s = 0 then 5 else sp_MinIntervalSeconds s)"
  by (simp_all add: with_defaults_def register_def Let_def)

lemma map_of_map_key: "map_of (map (\<lambda>s. (f s, g s)) ss) k = map_option g (find (\<lambda>s. f s = k) ss)"
  by (induction ss) auto

lemma Get_eq: "Get ty = map_option with_defaults (find (\<lambda>s. sp_Type s = ty) all_types)"
  by (simp add: Get_def specs_eq map_of_map_key)

lemma Get_SomeD: "Get ty = Some s \<Longrightarrow> \<exists>t \<in> set all_types. s = with_defaults t \<and> sp_Type t = ty"
  by (fastforce simp: Get_eq find_Some_iff)

lemma Get_Type: "Get ty = Some s \<Longrightarrow> sp_Type s = ty"
  by (auto dest: Get_SomeD)

lemma Get_registered:
  "Get ''ping'' = Some (with_defaults ping_spec)"
  "Get ''dns'' = Some (with_defaults dns_spec)"
  "Get ''http'' = Some (with_defaults http_spec)"
  "Get ''tcp'' = Some (with_defaults tcp_spec)"
  "Get ''saas'' = Some (with_defaults saas_spec)"
  "Get ''speedtest'' = Some (with_defaults speedtest_spec)"
  "Get ''perfmon'' = Some (with_defaults perfmon_spec)"
  "Get ''traceroute'' = Some (with_defaults traceroute_spec)"
  "Get ''wlan_passive'' = Some (with_defaults wlan_passive_spec)"
  "Get ''wlan_active'' = Some (with_defaults wlan_active_spec)"
  "Get '''' = None"
  by (simp_all add: Get_eq all_types_def spec_defs)

lemma OfResult_by_payload:
  "OfResult (Some r) =
     (case rs_Result r of
        TestResult_Ping _ \<Rightarrow> Some (with_defaults ping_spec)
      | TestResult_Dns _ \<Rightarrow> Some (with_defaults dns_spec)
      | TestResult_Http _ \<Rightarrow> Some (with_defaults http_spec)
      | TestResult_Tcp _ \<Rightarrow> Some (with_defaults tcp_spec)
      | TestResult_Speedtest _ \<Rightarrow> Some (with_defaults speedtest_spec)
      | TestResult_Perfmon _ \<Rightarrow> Some (with_defaults perfmon_spec)
      | TestResult_Traceroute _ \<Rightarrow> Some (with_defaults traceroute_spec)
      | TestResult_WlanPassive _ \<Rightarrow> Some (with_defaults wlan_passive_spec)
      | TestResult_WlanActive _ \<Rightarrow> Some (with_defaults wlan_active_spec)
      | TestResult_None \<Rightarrow> None)"
  by (simp add: OfResult_def resultTypeName_def Get_registered split: TestResult_Result.split)

lemma DecodeParams_ok: "DecodeParams s raw = Inr p \<Longrightarrow> same_type (sp_NewParams s) p"
  by (auto simp: DecodeParams_def Let_def split: raw_message.splits option.splits dest: unmarshal_same_type)

lemma DecodeParams_marshal:
  assumes "same_type (sp_NewParams s) p"
  shows "DecodeParams s (Raw (marshal_params p)) = Inr p"
  using unmarshal_marshal [OF assms] by (auto simp: DecodeParams_def Let_def split: option.splits)

end
