(* ===== verification/Test_Config.thy ===== *)
theory Test_Config
  imports Test_Types
begin

text \<open>
  Test definitions: the stored row (\<open>store.TestDef\<close>), its validation on the way in
  (\<open>ValidateTestDef\<close>) and its conversion to the spec pushed to an agent (\<open>TestSpec\<close>), both of
  \<open>internal/server/config.go\<close>.
\<close>

record TestDef =
  td_ID :: string
  td_TenantID :: string
  td_Name :: string
  td_Type :: string
  td_IntervalSeconds :: u32
  td_Params :: raw_message
  td_Thresholds :: raw_message

record Thresholds =
  th_Warn :: float64
  th_Crit :: float64

definition threshold_fields :: "string list" where
  "threshold_fields = [''warn'', ''crit'']"

text \<open>\<open>json.Unmarshal\<close> of a non-empty thresholds column; \<open>None\<close> is the decoding error.\<close>

definition unmarshal_thresholds :: "raw_message \<Rightarrow> Thresholds option" where
  "unmarshal_thresholds raw =
     (case raw of
        Raw j \<Rightarrow>
          (case unmarshal_object j of None \<Rightarrow> None | Some ms \<Rightarrow>
           case dec as_float 0 (members threshold_fields ms ''warn'') of None \<Rightarrow> None | Some w \<Rightarrow>
           case dec as_float 0 (members threshold_fields ms ''crit'') of None \<Rightarrow> None | Some c \<Rightarrow>
           Some \<lparr>th_Warn = w, th_Crit = c\<rparr>)
      | _ \<Rightarrow> None)"

definition check_thresholds :: "Spec \<Rightarrow> string \<Rightarrow> raw_message \<Rightarrow> go_error option" where
  "check_thresholds spec ty raw =
     (if raw = RawEmpty then None
      else case unmarshal_thresholds raw of
             None \<Rightarrow> Some (Wrapf ''invalid thresholds: %w'' [] (ExtErr ''json''))
           | Some th \<Rightarrow>
               if th_Warn th > 0 \<and> th_Crit th > 0 then
                 (if sp_LowerIsWorse spec then
                    (if th_Warn th \<le> th_Crit th
                     then Some (Errorf ''warn threshold must be greater than crit threshold for %s'' [ty])
                     else None)
                  else if th_Warn th \<ge> th_Crit th
                  then Some (Errorf ''warn threshold must be less than crit threshold'' [])
                  else None)
               else None)"

text \<open>
  Returns the definition with its normalized parameters, or the error. The final
  \<open>json.Marshal\<close> of a validated payload cannot fail: every field is a string, a list of strings, an
  unsigned integer or a bool.
\<close>

definition ValidateTestDef :: "TestDef \<Rightarrow> TestDef result" where
  "ValidateTestDef t =
     (if td_Name t = '''' then Inl (Errorf ''test name is required'' [])
      else case Get (td_Type t) of
        None \<Rightarrow> Inl (Errorf ''unknown test type %q'' [td_Type t])
      | Some spec \<Rightarrow>
          if td_IntervalSeconds t < sp_MinIntervalSeconds spec
          then Inl (Errorf ''%s interval must be at least %d seconds''
                      [td_Type t, itoa (sp_MinIntervalSeconds spec)])
          else case check_thresholds spec (td_Type t) (td_Thresholds t) of
            Some e \<Rightarrow> Inl e
          | None \<Rightarrow>
              (case DecodeParams spec (td_Params t) of
                 Inl e \<Rightarrow> Inl e
               | Inr p \<Rightarrow>
                   (case Validate p of
                      Inl e \<Rightarrow> Inl e
                    | Inr q \<Rightarrow> Inr (t\<lparr>td_Params := Raw (marshal_params q)\<rparr>))))"

definition TestSpec :: "TestDef \<Rightarrow> pb_TestSpec result" where
  "TestSpec t =
     (case Get (td_Type t) of
        None \<Rightarrow> Inl (Errorf ''unknown test type %q'' [td_Type t])
      | Some spec \<Rightarrow>
          (case DecodeParams spec (td_Params t) of
             Inl e \<Rightarrow> Inl e
           | Inr p \<Rightarrow>
               (case Validate p of
                  Inl e \<Rightarrow> Inl e
                | Inr q \<Rightarrow>
                    Inr (Apply q \<lparr>ts_Id = td_ID t, ts_Name = td_Name t,
                                  ts_IntervalSeconds = td_IntervalSeconds t,
                                  ts_Params = TestSpec_Unset\<rparr>))))"

section \<open>What validation guarantees\<close>

lemma ValidateTestDef_InrE:
  assumes "ValidateTestDef t = Inr t'"
  obtains spec p q where
    "td_Name t \<noteq> ''''" "Get (td_Type t) = Some spec"
    "sp_MinIntervalSeconds spec \<le> td_IntervalSeconds t"
    "check_thresholds spec (td_Type t) (td_Thresholds t) = None"
    "DecodeParams spec (td_Params t) = Inr p" "Validate p = Inr q"
    "same_type (sp_NewParams spec) q"
    "t' = t\<lparr>td_Params := Raw (marshal_params q)\<rparr>"
proof -
  from assms obtain spec p q where *:
    "td_Name t \<noteq> ''''" "Get (td_Type t) = Some spec"
    "\<not> td_IntervalSeconds t < sp_MinIntervalSeconds spec"
    "check_thresholds spec (td_Type t) (td_Thresholds t) = None"
    "DecodeParams spec (td_Params t) = Inr p" "Validate p = Inr q"
    "t' = t\<lparr>td_Params := Raw (marshal_params q)\<rparr>"
    unfolding ValidateTestDef_def by (auto split: if_splits option.splits sum.splits)
  have "same_type (sp_NewParams spec) q"
    using *(5,6) by (blast intro: same_type_trans DecodeParams_ok Validate_same_type)
  with * show ?thesis by (intro that [of spec p q]) auto
qed

lemma TestSpec_validated:
  assumes "ValidateTestDef t = Inr t'"
  shows "\<exists>sp. TestSpec t' = Inr sp \<and> ts_Id sp = td_ID t \<and> ts_Name sp = td_Name t
           \<and> ts_IntervalSeconds sp = td_IntervalSeconds t \<and> ts_Params sp \<noteq> TestSpec_Unset"
  using assms
proof (rule ValidateTestDef_InrE)
  fix spec p q
  assume a: "Get (td_Type t) = Some spec" "Validate p = Inr q" "same_type (sp_NewParams spec) q"
    "t' = t\<lparr>td_Params := Raw (marshal_params q)\<rparr>"
  have "DecodeParams spec (Raw (marshal_params q)) = Inr q" using a(3) by (rule DecodeParams_marshal)
  moreover have "Validate q = Inr q" using a(2) by (rule Validate_idem)
  ultimately show ?thesis using a by (simp add: TestSpec_def Apply_sets_params)
qed

text \<open>
  Validation is idempotent: an accepted test definition, in the normalized form that is stored,
  is accepted again and not changed further, for every test type and every parameter document.
\<close>

theorem ValidateTestDef_stable:
  assumes "ValidateTestDef t = Inr t'"
  shows "ValidateTestDef t' = Inr t'"
  using assms
proof (rule ValidateTestDef_InrE)
  fix spec p q
  assume a: "td_Name t \<noteq> ''''" "Get (td_Type t) = Some spec"
    "sp_MinIntervalSeconds spec \<le> td_IntervalSeconds t"
    "check_thresholds spec (td_Type t) (td_Thresholds t) = None"
    "Validate p = Inr q" "same_type (sp_NewParams spec) q"
    "t' = t\<lparr>td_Params := Raw (marshal_params q)\<rparr>"
  have "DecodeParams spec (Raw (marshal_params q)) = Inr q" using a(6) by (rule DecodeParams_marshal)
  moreover have "Validate q = Inr q" using a(5) by (rule Validate_idem)
  ultimately show ?thesis using a by (simp add: ValidateTestDef_def not_less)
qed

definition demo_def :: TestDef where
  "demo_def = \<lparr>td_ID = ''x'', td_TenantID = ''t'', td_Name = ''fast'', td_Type = ''speedtest'',
     td_IntervalSeconds = 60, td_Params = RawEmpty, td_Thresholds = RawEmpty\<rparr>"

lemma demo_def_valid: "\<exists>t'. ValidateTestDef demo_def = Inr t'"
  by (simp add: ValidateTestDef_def demo_def_def Get_registered spec_defs check_thresholds_def DecodeParams_def
      validate_defs)

theorem ValidateTestDef_stable_witness: "\<exists>t'. ValidateTestDef t' = Inr t'"
  using demo_def_valid ValidateTestDef_stable by blast

text \<open>
  Every validated definition can be pushed: the conversion to the agent's test specification
  succeeds, keeps id, name and interval, and carries a parameter message.
\<close>

theorem TestSpec_of_validated:
  assumes "ValidateTestDef t = Inr t'"
  shows "\<exists>sp. TestSpec t' = Inr sp \<and> ts_Id sp = td_ID t \<and> ts_Name sp = td_Name t
           \<and> ts_IntervalSeconds sp = td_IntervalSeconds t \<and> ts_Params sp \<noteq> TestSpec_Unset"
  using assms by (rule TestSpec_validated)

theorem TestSpec_of_validated_witness:
  "\<exists>t' sp. TestSpec t' = Inr sp \<and> ts_Name sp = ''fast'' \<and> ts_Params sp \<noteq> TestSpec_Unset"
  using demo_def_valid TestSpec_of_validated by (force simp: demo_def_def)

end
