(* ===== verification/Store_Db.thy ===== *)
theory Store_Db
  imports Sql_Tables Test_Config
begin

text \<open>
  The database of \<open>internal/store\<close>: one list or table per SQL table of \<open>migrate\<close>, with the
  constraints that schema declares as the invariant \<open>db_ok\<close> and its \<open>ON DELETE CASCADE\<close> clauses as
  the deletion functions. The stored payload of a result has the type variable \<open>'p\<close>: the
  protojson codec that writes and reads it is outside the repository.

  A row of \<open>agents\<close> is an \<open>Agent\<close> whose \<open>ag_SiteName\<close> is empty; scanning fills it from the joined
  site. A \<open>NULL\<close> or empty JSON column is \<open>RawEmpty\<close>.
\<close>

section \<open>Rows\<close>

record Tenant =
  tn_ID :: string
  tn_Name :: string
  tn_EnrollToken :: string

record user_row =
  us_ID :: string
  us_Tenant :: "string option"
  us_Username :: string
  us_Hash :: string
  us_IsAdmin :: bool

record session_row =
  sn_Token :: string
  sn_UserID :: string
  sn_ExpiresAt :: go_time

record Site =
  si_ID :: string
  si_TenantID :: string
  si_Name :: string

record Agent =
  ag_ID :: string
  ag_TenantID :: string
  ag_SiteID :: string
  ag_SiteName :: string
  ag_Name :: string
  ag_Token :: string
  ag_NetworkInterfaces :: raw_message
  ag_Capabilities :: raw_message
  ag_Stats :: raw_message
  ag_Version :: string
  ag_WlanSensorInterface :: string
  ag_PerfmonReflectorEnabled :: bool
  ag_PerfmonReflectorPort :: u32
  ag_PerfmonReflectorInterface :: string
  ag_PerfmonAllowedCIDRs :: raw_message

record 'p Result =
  re_ID :: int
  re_AgentID :: string
  re_TestID :: string
  re_TestName :: string
  re_TestType :: string
  re_Time :: go_time
  re_Error :: string
  re_OK :: bool
  re_Payload :: 'p

record PathChange =
  pc_ID :: int
  pc_AgentID :: string
  pc_TestID :: string
  pc_TestName :: string
  pc_Time :: go_time
  pc_FirstDiffTTL :: u32
  pc_FromHop :: string
  pc_ToHop :: string
  pc_FromSig :: string
  pc_ToSig :: string
  pc_Scope :: string
  pc_FromNetwork :: string
  pc_ToNetwork :: string

record AlertRule =
  ar_ID :: string
  ar_TenantID :: string
  ar_TestID :: string
  ar_TestName :: string
  ar_Name :: string
  ar_Metric :: string
  ar_Operator :: string
  ar_Threshold :: float64
  ar_ForCount :: int
  ar_ClearThreshold :: "float64 option"
  ar_ClearCount :: int
  ar_TargetIds :: "string list"
  ar_WebhookURL :: string

record AlertTarget =
  at_ID :: string
  at_TenantID :: string
  at_Name :: string
  at_Type :: string
  at_Config :: json

record Alert =
  al_ID :: int
  al_RuleID :: string
  al_AgentID :: string
  al_Subject :: string
  al_State :: string
  al_Value :: float64
  al_Message :: string
  al_StartedAt :: go_time
  al_ResolvedAt :: "go_time option"

record LogEntry =
  le_ID :: int
  le_Time :: go_time
  le_TenantID :: string
  le_AgentID :: string
  le_Source :: string
  le_Scope :: string
  le_Level :: string
  le_Message :: string

record api_key_row =
  ak_ID :: string
  ak_UserID :: string
  ak_Name :: string
  ak_KeyHash :: string
  ak_Prefix :: string
  ak_CreatedAt :: go_time
  ak_LastUsedAt :: "go_time option"

record UnclaimedAgent =
  un_ID :: string
  un_TenantID :: string
  un_ClientID :: string
  un_Version :: string
  un_Capabilities :: raw_message
  un_NetworkInterfaces :: raw_message
  un_FirstSeen :: go_time
  un_LastSeen :: go_time

record 'p db =
  tenants :: "Tenant list"
  users :: "user_row list"
  sessions :: "session_row list"
  sites :: "Site list"
  tests :: "TestDef list"
  site_tests :: "(string \<times> string) list"
  agents :: "Agent list"
  results :: "'p Result table"
  path_changes :: "PathChange table"
  alert_rules :: "AlertRule list"
  alerts :: "Alert table"
  logs :: "LogEntry table"
  api_keys :: "api_key_row list"
  unclaimed_agents :: "UnclaimedAgent list"
  alert_targets :: "AlertTarget list"
  logHistory :: nat

definition empty_db :: "'p db" where
  "empty_db = \<lparr>tenants = [], users = [], sessions = [], sites = [], tests = [], site_tests = [],
     agents = [], results = empty_table, path_changes = empty_table, alert_rules = [],
     alerts = empty_table, logs = empty_table, api_keys = [], unclaimed_agents = [],
     alert_targets = [], logHistory = 1000\<rparr>"

section \<open>The declared constraints\<close>

definition ok_tenants :: "'p db \<Rightarrow> bool" where
  "ok_tenants d \<longleftrightarrow> uniq tn_ID (tenants d) \<and> uniq tn_Name (tenants d)"

definition ok_users :: "'p db \<Rightarrow> bool" where
  "ok_users d \<longleftrightarrow> uniq us_ID (users d) \<and> uniq us_Username (users d)
     \<and> refs us_Tenant (filter (\<lambda>u. us_Tenant u \<noteq> None) (users d)) (Some \<circ> tn_ID) (tenants d)"

definition ok_sessions :: "'p db \<Rightarrow> bool" where
  "ok_sessions d \<longleftrightarrow> uniq sn_Token (sessions d) \<and> refs sn_UserID (sessions d) us_ID (users d)"

definition ok_sites :: "'p db \<Rightarrow> bool" where
  "ok_sites d \<longleftrightarrow> uniq si_ID (sites d) \<and> uniq (\<lambda>s. (si_TenantID s, si_Name s)) (sites d)
     \<and> refs si_TenantID (sites d) tn_ID (tenants d)"

definition ok_tests :: "'p db \<Rightarrow> bool" where
  "ok_tests d \<longleftrightarrow> uniq td_ID (tests d) \<and> uniq (\<lambda>t. (td_TenantID t, td_Name t)) (tests d)
     \<and> refs td_TenantID (tests d) tn_ID (tenants d)"

definition ok_site_tests :: "'p db \<Rightarrow> bool" where
  "ok_site_tests d \<longleftrightarrow> uniq id (site_tests d) \<and> refs fst (site_tests d) si_ID (sites d)
     \<and> refs snd (site_tests d) td_ID (tests d)"

definition ok_agents :: "'p db \<Rightarrow> bool" where
  "ok_agents d \<longleftrightarrow> uniq ag_ID (agents d) \<and> uniq ag_Token (agents d)
     \<and> uniq (\<lambda>a. (ag_TenantID a, ag_Name a)) (agents d)
     \<and> refs ag_TenantID (agents d) tn_ID (tenants d) \<and> refs ag_SiteID (agents d) si_ID (sites d)"

definition ok_results :: "'p db \<Rightarrow> bool" where
  "ok_results d \<longleftrightarrow> wf_table re_ID (results d) \<and> refs re_AgentID (rows (results d)) ag_ID (agents d)"

definition ok_path_changes :: "'p db \<Rightarrow> bool" where
  "ok_path_changes d \<longleftrightarrow>
     wf_table pc_ID (path_changes d) \<and> refs pc_AgentID (rows (path_changes d)) ag_ID (agents d)"

definition ok_alert_rules :: "'p db \<Rightarrow> bool" where
  "ok_alert_rules d \<longleftrightarrow> uniq ar_ID (alert_rules d) \<and> refs ar_TenantID (alert_rules d) tn_ID (tenants d)
     \<and> refs ar_TestID (alert_rules d) td_ID (tests d)"

definition ok_alerts :: "'p db \<Rightarrow> bool" where
  "ok_alerts d \<longleftrightarrow> wf_table al_ID (alerts d)
     \<and> refs al_RuleID (rows (alerts d)) ar_ID (alert_rules d)
     \<and> refs al_AgentID (rows (alerts d)) ag_ID (agents d)"

definition ok_logs :: "'p db \<Rightarrow> bool" where
  "ok_logs d \<longleftrightarrow> wf_table le_ID (logs d) \<and> 0 < logHistory d"

definition ok_api_keys :: "'p db \<Rightarrow> bool" where
  "ok_api_keys d \<longleftrightarrow> uniq ak_ID (api_keys d) \<and> uniq ak_KeyHash (api_keys d)
     \<and> refs ak_UserID (api_keys d) us_ID (users d)"

definition ok_unclaimed :: "'p db \<Rightarrow> bool" where
  "ok_unclaimed d \<longleftrightarrow> uniq un_ID (unclaimed_agents d)
     \<and> uniq (\<lambda>u. (un_TenantID u, un_ClientID u)) (unclaimed_agents d)
     \<and> refs un_TenantID (unclaimed_agents d) tn_ID (tenants d)"

definition ok_alert_targets :: "'p db \<Rightarrow> bool" where
  "ok_alert_targets d \<longleftrightarrow> uniq at_ID (alert_targets d)
     \<and> uniq (\<lambda>t. (at_TenantID t, at_Name t)) (alert_targets d)
     \<and> refs at_TenantID (alert_targets d) tn_ID (tenants d)"

definition db_ok :: "'p db \<Rightarrow> bool" where
  "db_ok d \<longleftrightarrow> ok_tenants d \<and> ok_users d \<and> ok_sessions d \<and> ok_sites d \<and> ok_tests d \<and> ok_site_tests d
     \<and> ok_agents d \<and> ok_results d \<and> ok_path_changes d \<and> ok_alert_rules d \<and> ok_alerts d \<and> ok_logs d
     \<and> ok_api_keys d \<and> ok_unclaimed d \<and> ok_alert_targets d"

lemmas ok_defs = ok_tenants_def ok_users_def ok_sessions_def ok_sites_def ok_tests_def
  ok_site_tests_def ok_agents_def ok_results_def ok_path_changes_def ok_alert_rules_def
  ok_alerts_def ok_logs_def ok_api_keys_def ok_unclaimed_def ok_alert_targets_def

lemma db_ok_empty: "db_ok empty_db"
  by (simp add: db_ok_def ok_defs empty_db_def, simp add: empty_table_def)

section \<open>Deletions with their cascades\<close>

definition delete_rows :: "('r \<Rightarrow> bool) \<Rightarrow> 'r table \<Rightarrow> 'r table" where
  "delete_rows P t = t\<lparr>rows := filter (\<lambda>r. \<not> P r) (rows t)\<rparr>"

lemma rows_delete_rows [simp]: "rows (delete_rows P t) = filter (\<lambda>r. \<not> P r) (rows t)"
  by (simp add: delete_rows_def)

lemma wf_delete_rows [simp]: "wf_table rid t \<Longrightarrow> wf_table rid (delete_rows P t)"
  by (auto simp: wf_table_def delete_rows_def sorted_wrt_filter_map)

definition cascade_rules :: "string set \<Rightarrow> 'p db \<Rightarrow> 'p db" where
  "cascade_rules R d = d\<lparr>alert_rules := filter (\<lambda>r. ar_ID r \<notin> R) (alert_rules d),
     alerts := delete_rows (\<lambda>a. al_RuleID a \<in> R) (alerts d)\<rparr>"

definition cascade_agents :: "string set \<Rightarrow> 'p db \<Rightarrow> 'p db" where
  "cascade_agents A d = d\<lparr>agents := filter (\<lambda>a. ag_ID a \<notin> A) (agents d),
     results := delete_rows (\<lambda>r. re_AgentID r \<in> A) (results d),
     path_changes := delete_rows (\<lambda>c. pc_AgentID c \<in> A) (path_changes d),
     alerts := delete_rows (\<lambda>a. al_AgentID a \<in> A) (alerts d)\<rparr>"

definition cascade_tests :: "string set \<Rightarrow> 'p db \<Rightarrow> 'p db" where
  "cascade_tests T d =
     (let d = cascade_rules (ar_ID ` {r \<in> set (alert_rules d). ar_TestID r \<in> T}) d
      in d\<lparr>tests := filter (\<lambda>t. td_ID t \<notin> T) (tests d),
           site_tests := filter (\<lambda>p. snd p \<notin> T) (site_tests d)\<rparr>)"

definition cascade_sites :: "string set \<Rightarrow> 'p db \<Rightarrow> 'p db" where
  "cascade_sites S d =
     (let d = cascade_agents (ag_ID ` {a \<in> set (agents d). ag_SiteID a \<in> S}) d
      in d\<lparr>sites := filter (\<lambda>s. si_ID s \<notin> S) (sites d),
           site_tests := filter (\<lambda>p. fst p \<notin> S) (site_tests d)\<rparr>)"

definition cascade_users :: "string set \<Rightarrow> 'p db \<Rightarrow> 'p db" where
  "cascade_users U d = d\<lparr>users := filter (\<lambda>u. us_ID u \<notin> U) (users d),
     sessions := filter (\<lambda>s. sn_UserID s \<notin> U) (sessions d),
     api_keys := filter (\<lambda>k. ak_UserID k \<notin> U) (api_keys d)\<rparr>"

definition cascade_tenant :: "string \<Rightarrow> 'p db \<Rightarrow> 'p db" where
  "cascade_tenant t d =
     (let d = cascade_users (us_ID ` {u \<in> set (users d). us_Tenant u = Some t}) d;
          d = cascade_sites (si_ID ` {s \<in> set (sites d). si_TenantID s = t}) d;
          d = cascade_tests (td_ID ` {x \<in> set (tests d). td_TenantID x = t}) d;
          d = cascade_agents (ag_ID ` {a \<in> set (agents d). ag_TenantID a = t}) d;
          d = cascade_rules (ar_ID ` {r \<in> set (alert_rules d). ar_TenantID r = t}) d
      in d\<lparr>tenants := filter (\<lambda>x. tn_ID x \<noteq> t) (tenants d),
           unclaimed_agents := filter (\<lambda>u. un_TenantID u \<noteq> t) (unclaimed_agents d),
           alert_targets := filter (\<lambda>x. at_TenantID x \<noteq> t) (alert_targets d)\<rparr>)"

lemma ok_cascade_rules: "db_ok d \<Longrightarrow> db_ok (cascade_rules R d)"
  by (simp add: db_ok_def ok_defs cascade_rules_def uniq_filter refs_filter refs_cascade)

lemma ok_cascade_agents: "db_ok d \<Longrightarrow> db_ok (cascade_agents A d)"
  by (simp add: db_ok_def ok_defs cascade_agents_def uniq_filter refs_filter refs_cascade)

lemma ok_cascade_users: "db_ok d \<Longrightarrow> db_ok (cascade_users U d)"
  by (simp add: db_ok_def ok_defs cascade_users_def uniq_filter refs_filter refs_cascade)
    (auto simp: refs_def)

text \<open>A parent row may go once no remaining child refers to it.\<close>

lemma refs_delete:
  assumes "refs f rs g ss" and "\<And>r. r \<in> set rs \<Longrightarrow> Q (f r)"
  shows "refs f rs g (filter (\<lambda>s. Q (g s)) ss)"
  using assms by (fastforce simp: refs_def)

lemma ok_drop_sites:
  assumes "db_ok d" "\<And>a. a \<in> set (agents d) \<Longrightarrow> ag_SiteID a \<notin> S"
  shows "db_ok (d\<lparr>sites := filter (\<lambda>s. si_ID s \<notin> S) (sites d),
                  site_tests := filter (\<lambda>p. fst p \<notin> S) (site_tests d)\<rparr>)"
proof -
  have "refs ag_SiteID (agents d) si_ID (filter (\<lambda>s. si_ID s \<notin> S) (sites d))"
    using assms by (intro refs_delete) (auto simp: db_ok_def ok_defs)
  with assms(1) show ?thesis
    by (simp add: db_ok_def ok_defs uniq_filter refs_filter refs_cascade)
qed

lemma ok_cascade_sites:
  assumes "db_ok d"
  shows "db_ok (cascade_sites S d)"
  unfolding cascade_sites_def Let_def
  by (rule ok_drop_sites [OF ok_cascade_agents [OF assms]]) (auto simp: cascade_agents_def)

lemma ok_drop_tests:
  assumes "db_ok d" "\<And>r. r \<in> set (alert_rules d) \<Longrightarrow> ar_TestID r \<notin> T"
  shows "db_ok (d\<lparr>tests := filter (\<lambda>t. td_ID t \<notin> T) (tests d),
                  site_tests := filter (\<lambda>p. snd p \<notin> T) (site_tests d)\<rparr>)"
proof -
  have "refs ar_TestID (alert_rules d) td_ID (filter (\<lambda>t. td_ID t \<notin> T) (tests d))"
    using assms by (intro refs_delete) (auto simp: db_ok_def ok_defs)
  with assms(1) show ?thesis
    by (simp add: db_ok_def ok_defs uniq_filter refs_filter refs_cascade)
qed

lemma ok_cascade_tests:
  assumes "db_ok d"
  shows "db_ok (cascade_tests T d)"
  unfolding cascade_tests_def Let_def
  by (rule ok_drop_tests [OF ok_cascade_rules [OF assms]]) (auto simp: cascade_rules_def)

text \<open>No row of any table that names the tenant is left.\<close>

definition tenant_free :: "string \<Rightarrow> 'p db \<Rightarrow> bool" where
  "tenant_free t d \<longleftrightarrow>
     (\<forall>u \<in> set (users d). us_Tenant u \<noteq> Some t) \<and> (\<forall>s \<in> set (sites d). si_TenantID s \<noteq> t)
     \<and> (\<forall>x \<in> set (tests d). td_TenantID x \<noteq> t) \<and> (\<forall>a \<in> set (agents d). ag_TenantID a \<noteq> t)
     \<and> (\<forall>r \<in> set (alert_rules d). ar_TenantID r \<noteq> t)"

definition drop_tenant :: "string \<Rightarrow> 'p db \<Rightarrow> 'p db" where
  "drop_tenant t d = d\<lparr>tenants := filter (\<lambda>x. tn_ID x \<noteq> t) (tenants d),
     unclaimed_agents := filter (\<lambda>u. un_TenantID u \<noteq> t) (unclaimed_agents d),
     alert_targets := filter (\<lambda>x. at_TenantID x \<noteq> t) (alert_targets d)\<rparr>"

lemma ok_drop_tenant:
  assumes "db_ok d" "tenant_free t d"
  shows "db_ok (drop_tenant t d)"
proof -
  let ?T = "filter (\<lambda>x. tn_ID x \<noteq> t) (tenants d)"
  have "refs si_TenantID (sites d) tn_ID ?T" "refs td_TenantID (tests d) tn_ID ?T"
    "refs ag_TenantID (agents d) tn_ID ?T" "refs ar_TenantID (alert_rules d) tn_ID ?T"
    using assms by (intro refs_delete; auto simp: db_ok_def ok_defs tenant_free_def)+
  moreover have "refs us_Tenant (filter (\<lambda>u. us_Tenant u \<noteq> None) (users d)) (Some \<circ> tn_ID) ?T"
    using assms refs_delete [of us_Tenant "filter (\<lambda>u. us_Tenant u \<noteq> None) (users d)" "Some \<circ> tn_ID"
        "tenants d" "\<lambda>k. k \<noteq> Some t"]
    by (auto simp: db_ok_def ok_defs tenant_free_def)
  moreover have "refs un_TenantID (filter (\<lambda>u. un_TenantID u \<noteq> t) (unclaimed_agents d)) tn_ID ?T"
    "refs at_TenantID (filter (\<lambda>x. at_TenantID x \<noteq> t) (alert_targets d)) tn_ID ?T"
    using assms(1) by (intro refs_delete; auto simp: db_ok_def ok_defs refs_filter)+
  ultimately show ?thesis
    using assms(1) by (simp add: db_ok_def ok_defs drop_tenant_def uniq_filter)
qed

definition clear_tenant :: "string \<Rightarrow> 'p db \<Rightarrow> 'p db" where
  "clear_tenant t d =
     (let d = cascade_users (us_ID ` {u \<in> set (users d). us_Tenant u = Some t}) d;
          d = cascade_sites (si_ID ` {s \<in> set (sites d). si_TenantID s = t}) d;
          d = cascade_tests (td_ID ` {x \<in> set (tests d). td_TenantID x = t}) d;
          d = cascade_agents (ag_ID ` {a \<in> set (agents d). ag_TenantID a = t}) d
      in cascade_rules (ar_ID ` {r \<in> set (alert_rules d). ar_TenantID r = t}) d)"

lemma cascade_tenant_eq: "cascade_tenant t d = drop_tenant t (clear_tenant t d)"
  by (simp only: cascade_tenant_def drop_tenant_def clear_tenant_def Let_def)

lemma ok_clear_tenant: "db_ok d \<Longrightarrow> db_ok (clear_tenant t d)"
  by (simp add: clear_tenant_def Let_def ok_cascade_users ok_cascade_sites ok_cascade_tests
      ok_cascade_agents ok_cascade_rules)

lemma clear_tenant_free: "tenant_free t (clear_tenant t d)"
  by (auto simp: clear_tenant_def Let_def tenant_free_def cascade_users_def cascade_sites_def
      cascade_tests_def cascade_agents_def cascade_rules_def)

lemma ok_cascade_tenant: "db_ok d \<Longrightarrow> db_ok (cascade_tenant t d)"
  by (simp add: cascade_tenant_eq ok_drop_tenant ok_clear_tenant clear_tenant_free)

end
