(* ===== verification/Store_Tenancy.thy ===== *)
theory Store_Tenancy
  imports Store_Db
begin

text \<open>
  Tenants, users, sessions, API keys, sites, test definitions and unclaimed devices: the operations
  of \<open>users.go\<close>, \<open>apikeys.go\<close>, \<open>sites.go\<close> and \<open>unclaimed.go\<close> of \<open>internal/store\<close>, on the database of
  \<open>Store_Db\<close>. A mutating operation returns the new database, or the error of the statement that a
  constraint refused; random ids and tokens and the current time are arguments. The password hash
  (bcrypt) and the key digest (SHA-256) are parameters of the operations that use them.
\<close>

definition constraint_err :: go_error where
  "constraint_err = ExtErr ''constraint failed''"

definition sessionLifetime :: go_time where
  "sessionLifetime = 7 * 24 * 60 * minute"

record User =
  u_ID :: string
  u_TenantID :: string
  u_Username :: string
  u_IsAdmin :: bool

text \<open>The columns \<open>id, COALESCE(tenant_id, ''), username, is_admin\<close>.\<close>

definition scan_user :: "user_row \<Rightarrow> User" where
  "scan_user r = \<lparr>u_ID = us_ID r, u_TenantID = (case us_Tenant r of None \<Rightarrow> '''' | Some t \<Rightarrow> t),
     u_Username = us_Username r, u_IsAdmin = us_IsAdmin r\<rparr>"

section \<open>Tenants\<close>

definition CreateTenant :: "string \<Rightarrow> string \<Rightarrow> 'p db \<Rightarrow> 'p db result" where
  "CreateTenant newid nm d =
     (if has_key tn_ID newid (tenants d) \<or> has_key tn_Name nm (tenants d)
      then Inl (Wrapf ''creating tenant: %w'' [] constraint_err)
      else Inr (d\<lparr>tenants := tenants d @ [\<lparr>tn_ID = newid, tn_Name = nm, tn_EnrollToken = ''''\<rparr>]\<rparr>))"

definition ListTenants :: "'p db \<Rightarrow> Tenant list" where
  "ListTenants d = sort_key tn_Name (tenants d)"

definition DeleteTenant :: "string \<Rightarrow> 'p db \<Rightarrow> 'p db" where
  "DeleteTenant t d = cascade_tenant t d"

section \<open>Users and sessions\<close>

definition CreateUser ::
  "(string \<Rightarrow> string result) \<Rightarrow> string \<Rightarrow> string \<Rightarrow> string \<Rightarrow> string \<Rightarrow> bool \<Rightarrow> 'p db \<Rightarrow> 'p db result" where
  "CreateUser bcrypt newid tenantID username password isAdmin d =
     (case bcrypt password of
        Inl e \<Rightarrow> Inl e
      | Inr hash \<Rightarrow>
          (let tenant = (if tenantID \<noteq> '''' then Some tenantID else None)
           in if has_key us_ID newid (users d) \<or> has_key us_Username username (users d)
                 \<or> (tenant \<noteq> None \<and> \<not> has_key tn_ID tenantID (tenants d))
              then Inl (Wrapf ''creating user: %w'' [] constraint_err)
              else Inr (d\<lparr>users := users d @ [\<lparr>us_ID = newid, us_Tenant = tenant,
                     us_Username = username, us_Hash = hash, us_IsAdmin = isAdmin\<rparr>]\<rparr>)))"

definition ListUsers :: "'p db \<Rightarrow> User list" where
  "ListUsers d = map scan_user (sort_key us_Username (users d))"

definition UserByUsername :: "string \<Rightarrow> 'p db \<Rightarrow> User result" where
  "UserByUsername username d =
     (case find (\<lambda>u. us_Username u = username) (users d) of
        None \<Rightarrow> Inl ErrNotFound | Some u \<Rightarrow> Inr (scan_user u))"

text \<open>
  Two statements: the new hash, then the deletion of the user's sessions. What the first leaves when the second is not
  reached is \<open>update_password\<close> of \<open>Store_Migrate\<close>.
\<close>

definition SetPassword :: "(string \<Rightarrow> string result) \<Rightarrow> string \<Rightarrow> string \<Rightarrow> 'p db \<Rightarrow> 'p db result" where
  "SetPassword bcrypt userID password d =
     (case bcrypt password of
        Inl e \<Rightarrow> Inl e
      | Inr hash \<Rightarrow>
          if \<not> has_key us_ID userID (users d) then Inl ErrNotFound
          else Inr (d\<lparr>users := update_where (\<lambda>u. us_ID u = userID) (\<lambda>u. u\<lparr>us_Hash := hash\<rparr>) (users d),
                      sessions := filter (\<lambda>s. sn_UserID s \<noteq> userID) (sessions d)\<rparr>))"

definition DeleteUser :: "string \<Rightarrow> 'p db \<Rightarrow> 'p db" where
  "DeleteUser uid d = cascade_users {uid} d"

definition CountUsers :: "'p db \<Rightarrow> nat" where
  "CountUsers d = length (users d)"

definition Authenticate :: "(string \<Rightarrow> string \<Rightarrow> bool) \<Rightarrow> string \<Rightarrow> string \<Rightarrow> 'p db \<Rightarrow> User result" where
  "Authenticate compareHash username password d =
     (case find (\<lambda>u. us_Username u = username) (users d) of
        None \<Rightarrow> Inl ErrNotFound
      | Some u \<Rightarrow> if compareHash (us_Hash u) password then Inr (scan_user u) else Inl ErrNotFound)"

definition CreateSession :: "string \<Rightarrow> go_time \<Rightarrow> string \<Rightarrow> 'p db \<Rightarrow> 'p db result" where
  "CreateSession token now userID d =
     (if has_key sn_Token token (sessions d) \<or> \<not> has_key us_ID userID (users d) then Inl constraint_err
      else Inr (d\<lparr>sessions := sessions d @
                 [\<lparr>sn_Token = token, sn_UserID = userID, sn_ExpiresAt = now + sessionLifetime\<rparr>]\<rparr>))"

definition SessionUser :: "go_time \<Rightarrow> string \<Rightarrow> 'p db \<Rightarrow> User result" where
  "SessionUser now token d =
     (case find (\<lambda>s. sn_Token s = token \<and> sn_ExpiresAt s > now) (sessions d) of
        None \<Rightarrow> Inl ErrNotFound
      | Some s \<Rightarrow>
          (case find (\<lambda>u. us_ID u = sn_UserID s) (users d) of
             None \<Rightarrow> Inl ErrNotFound | Some u \<Rightarrow> Inr (scan_user u)))"

definition DeleteSession :: "string \<Rightarrow> 'p db \<Rightarrow> 'p db" where
  "DeleteSession token d = d\<lparr>sessions := filter (\<lambda>s. sn_Token s \<noteq> token) (sessions d)\<rparr>"

section \<open>API keys\<close>

definition apiKeyPrefixLen :: nat where
  "apiKeyPrefixLen = 12"

text \<open>\<open>raw\<close> is the hex text of the 32 random bytes; the new secret is returned with the database.\<close>

definition CreateAPIKey ::
  "(string \<Rightarrow> string) \<Rightarrow> string \<Rightarrow> string \<Rightarrow> go_time \<Rightarrow> string \<Rightarrow> string \<Rightarrow> 'p db \<Rightarrow> (string \<times> 'p db) result" where
  "CreateAPIKey hashAPIKeySecret newid raw now userID nm d =
     (let secret = ''nlk_'' @ raw
      in if has_key ak_ID newid (api_keys d) \<or> has_key ak_KeyHash (hashAPIKeySecret secret) (api_keys d)
            \<or> \<not> has_key us_ID userID (users d)
         then Inl (Wrapf ''creating api key: %w'' [] constraint_err)
         else Inr (secret, d\<lparr>api_keys := api_keys d @
                [\<lparr>ak_ID = newid, ak_UserID = userID, ak_Name = nm,
                  ak_KeyHash = hashAPIKeySecret secret, ak_Prefix = take apiKeyPrefixLen secret,
                  ak_CreatedAt = now, ak_LastUsedAt = None\<rparr>]\<rparr>))"

definition ListAPIKeys :: "string \<Rightarrow> 'p db \<Rightarrow> api_key_row list" where
  "ListAPIKeys userID d = rev (sort_key ak_CreatedAt (filter (\<lambda>k. ak_UserID k = userID) (api_keys d)))"

definition DeleteAPIKey :: "string \<Rightarrow> string \<Rightarrow> 'p db \<Rightarrow> 'p db result" where
  "DeleteAPIKey kid userID d =
     (let gone = (\<lambda>k. ak_ID k = kid \<and> ak_UserID k = userID)
      in if \<not> list_ex gone (api_keys d) then Inl ErrNotFound
         else Inr (d\<lparr>api_keys := filter (\<lambda>k. \<not> gone k) (api_keys d)\<rparr>))"

definition DeleteAPIKeysForUser :: "string \<Rightarrow> 'p db \<Rightarrow> nat \<times> 'p db" where
  "DeleteAPIKeysForUser userID d =
     (length (filter (\<lambda>k. ak_UserID k = userID) (api_keys d)),
      d\<lparr>api_keys := filter (\<lambda>k. ak_UserID k \<noteq> userID) (api_keys d)\<rparr>)"

definition APIKeyUser :: "(string \<Rightarrow> string) \<Rightarrow> go_time \<Rightarrow> string \<Rightarrow> 'p db \<Rightarrow> User result \<times> 'p db" where
  "APIKeyUser hashAPIKeySecret now secret d =
     (case find (\<lambda>k. ak_KeyHash k = hashAPIKeySecret secret \<and> has_key us_ID (ak_UserID k) (users d)) (api_keys d) of
        None \<Rightarrow> (Inl ErrNotFound, d)
      | Some k \<Rightarrow>
          (case find (\<lambda>u. us_ID u = ak_UserID k) (users d) of
             None \<Rightarrow> (Inl ErrNotFound, d)
           | Some u \<Rightarrow>
               (Inr (scan_user u),
                d\<lparr>api_keys := update_where (\<lambda>x. ak_ID x = ak_ID k)
                     (\<lambda>x. x\<lparr>ak_LastUsedAt := Some now\<rparr>) (api_keys d)\<rparr>)))"

section \<open>Sites and their tests\<close>

definition CreateSite :: "string \<Rightarrow> string \<Rightarrow> string \<Rightarrow> 'p db \<Rightarrow> 'p db result" where
  "CreateSite newid tenantID nm d =
     (if has_key si_ID newid (sites d) \<or> has_key (\<lambda>s. (si_TenantID s, si_Name s)) (tenantID, nm) (sites d)
         \<or> \<not> has_key tn_ID tenantID (tenants d)
      then Inl (Wrapf ''creating site: %w'' [] constraint_err)
      else Inr (d\<lparr>sites := sites d @ [\<lparr>si_ID = newid, si_TenantID = tenantID, si_Name = nm\<rparr>]\<rparr>))"

definition GetSite :: "string \<Rightarrow> 'p db \<Rightarrow> Site result" where
  "GetSite sid d = (case find (\<lambda>s. si_ID s = sid) (sites d) of None \<Rightarrow> Inl ErrNotFound | Some s \<Rightarrow> Inr s)"

definition SiteTestIDs :: "string \<Rightarrow> 'p db \<Rightarrow> string list" where
  "SiteTestIDs siteID d = map snd (filter (\<lambda>p. fst p = siteID) (site_tests d))"

text \<open>Each site with its number of agents and its assigned tests.\<close>

definition ListSites :: "string \<Rightarrow> 'p db \<Rightarrow> (Site \<times> nat \<times> string list) list" where
  "ListSites tenantID d =
     map (\<lambda>s. (s, length (filter (\<lambda>a. ag_SiteID a = si_ID s) (agents d)), SiteTestIDs (si_ID s) d))
       (sort_key si_Name (filter (\<lambda>s. si_TenantID s = tenantID) (sites d)))"

definition DeleteSite :: "string \<Rightarrow> 'p db \<Rightarrow> 'p db" where
  "DeleteSite sid d = cascade_sites {sid} d"

text \<open>
  One transaction: the old assignments are deleted, the new ones inserted one by one, and the first
  refused insert rolls everything back.
\<close>

fun insert_site_tests :: "string \<Rightarrow> string list \<Rightarrow> 'p db \<Rightarrow> 'p db result" where
  "insert_site_tests siteID [] d = Inr d"
| "insert_site_tests siteID (t # ts) d =
     (if (siteID, t) \<in> set (site_tests d) \<or> \<not> has_key si_ID siteID (sites d) \<or> \<not> has_key td_ID t (tests d)
      then Inl (Wrapf ''assigning test %s: %w'' [t] constraint_err)
      else insert_site_tests siteID ts (d\<lparr>site_tests := site_tests d @ [(siteID, t)]\<rparr>))"

definition SetSiteTests :: "string \<Rightarrow> string list \<Rightarrow> 'p db \<Rightarrow> 'p db result" where
  "SetSiteTests siteID testIDs d =
     insert_site_tests siteID testIDs (d\<lparr>site_tests := filter (\<lambda>p. fst p \<noteq> siteID) (site_tests d)\<rparr>)"

section \<open>Test definitions\<close>

definition CreateTest :: "string \<Rightarrow> TestDef \<Rightarrow> 'p db \<Rightarrow> (TestDef \<times> 'p db) result" where
  "CreateTest newid t d =
     (let t = t\<lparr>td_ID := newid\<rparr>
      in if has_key td_ID newid (tests d)
            \<or> has_key (\<lambda>x. (td_TenantID x, td_Name x)) (td_TenantID t, td_Name t) (tests d)
            \<or> \<not> has_key tn_ID (td_TenantID t) (tenants d)
         then Inl (Wrapf ''creating test: %w'' [] constraint_err)
         else Inr (t, d\<lparr>tests := tests d @ [t]\<rparr>))"

definition UpdateTest :: "TestDef \<Rightarrow> 'p db \<Rightarrow> 'p db result" where
  "UpdateTest t d =
     (let upd = update_where (\<lambda>x. td_ID x = td_ID t)
            (\<lambda>x. x\<lparr>td_Name := td_Name t, td_IntervalSeconds := td_IntervalSeconds t,
                   td_Params := td_Params t, td_Thresholds := td_Thresholds t\<rparr>) (tests d)
      in if \<not> uniq (\<lambda>x. (td_TenantID x, td_Name x)) upd then Inl constraint_err
         else if \<not> has_key td_ID (td_ID t) (tests d) then Inl ErrNotFound
         else Inr (d\<lparr>tests := upd\<rparr>))"

definition GetTest :: "string \<Rightarrow> 'p db \<Rightarrow> TestDef result" where
  "GetTest tid d = (case find (\<lambda>t. td_ID t = tid) (tests d) of None \<Rightarrow> Inl ErrNotFound | Some t \<Rightarrow> Inr t)"

definition ListTests :: "string \<Rightarrow> 'p db \<Rightarrow> TestDef list" where
  "ListTests tenantID d = sort_key td_Name (filter (\<lambda>t. td_TenantID t = tenantID) (tests d))"

definition DeleteTest :: "string \<Rightarrow> 'p db \<Rightarrow> 'p db" where
  "DeleteTest tid d = cascade_tests {tid} d"

definition TestsForSite :: "string \<Rightarrow> 'p db \<Rightarrow> TestDef list" where
  "TestsForSite siteID d =
     sort_key td_Name (filter (\<lambda>t. (siteID, td_ID t) \<in> set (site_tests d)) (tests d))"

definition AgentIDsForTest :: "string \<Rightarrow> 'p db \<Rightarrow> string list" where
  "AgentIDsForTest testID d =
     map ag_ID (filter (\<lambda>a. (ag_SiteID a, testID) \<in> set (site_tests d)) (agents d))"

definition AgentIDsForSite :: "string \<Rightarrow> 'p db \<Rightarrow> string list" where
  "AgentIDsForSite siteID d = map ag_ID (filter (\<lambda>a. ag_SiteID a = siteID) (agents d))"

section \<open>Enrollment\<close>

definition UpsertUnclaimedAgent ::
  "string \<Rightarrow> go_time \<Rightarrow> string \<Rightarrow> string \<Rightarrow> string \<Rightarrow> raw_message \<Rightarrow> raw_message \<Rightarrow> 'p db \<Rightarrow> 'p db result" where
  "UpsertUnclaimedAgent newid now tenantID clientID version caps ifaces d =
     (let key = (\<lambda>u. (un_TenantID u, un_ClientID u))
      in if \<not> has_key tn_ID tenantID (tenants d) then Inl constraint_err
         else if has_key key (tenantID, clientID) (unclaimed_agents d)
         then Inr (d\<lparr>unclaimed_agents := update_where (\<lambda>u. key u = (tenantID, clientID))
                (\<lambda>u. u\<lparr>un_Version := version, un_Capabilities := caps,
                       un_NetworkInterfaces := ifaces, un_LastSeen := now\<rparr>) (unclaimed_agents d)\<rparr>)
         else if has_key un_ID newid (unclaimed_agents d) then Inl constraint_err
         else Inr (d\<lparr>unclaimed_agents := unclaimed_agents d @
                [\<lparr>un_ID = newid, un_TenantID = tenantID, un_ClientID = clientID, un_Version = version,
                  un_Capabilities = caps, un_NetworkInterfaces = ifaces,
                  un_FirstSeen = now, un_LastSeen = now\<rparr>]\<rparr>))"

definition ListUnclaimedAgents :: "string \<Rightarrow> 'p db \<Rightarrow> UnclaimedAgent list" where
  "ListUnclaimedAgents tenantID d =
     rev (sort_key un_LastSeen (filter (\<lambda>u. tenantID = '''' \<or> un_TenantID u = tenantID) (unclaimed_agents d)))"

definition GetUnclaimedAgent :: "string \<Rightarrow> 'p db \<Rightarrow> UnclaimedAgent result" where
  "GetUnclaimedAgent uid d =
     (case find (\<lambda>u. un_ID u = uid) (unclaimed_agents d) of None \<Rightarrow> Inl ErrNotFound | Some u \<Rightarrow> Inr u)"

definition DeleteUnclaimedAgent :: "string \<Rightarrow> 'p db \<Rightarrow> 'p db" where
  "DeleteUnclaimedAgent uid d = d\<lparr>unclaimed_agents := filter (\<lambda>u. un_ID u \<noteq> uid) (unclaimed_agents d)\<rparr>"

text \<open>\<open>token\<close> is the fresh random token of \<open>NewEnrollToken\<close>.\<close>

definition SetTenantEnrollToken :: "string \<Rightarrow> string \<Rightarrow> 'p db \<Rightarrow> string \<times> 'p db" where
  "SetTenantEnrollToken token tenantID d =
     (token, d\<lparr>tenants := update_where (\<lambda>t. tn_ID t = tenantID) (\<lambda>t. t\<lparr>tn_EnrollToken := token\<rparr>) (tenants d)\<rparr>)"

definition GetTenantEnrollToken :: "string \<Rightarrow> 'p db \<Rightarrow> string result" where
  "GetTenantEnrollToken tenantID d =
     (case find (\<lambda>t. tn_ID t = tenantID) (tenants d) of None \<Rightarrow> Inl ErrNotFound | Some t \<Rightarrow> Inr (tn_EnrollToken t))"

definition RevokeTenantEnrollToken :: "string \<Rightarrow> 'p db \<Rightarrow> 'p db" where
  "RevokeTenantEnrollToken tenantID d =
     d\<lparr>tenants := update_where (\<lambda>t. tn_ID t = tenantID) (\<lambda>t. t\<lparr>tn_EnrollToken := ''''\<rparr>) (tenants d)\<rparr>"

definition GetTenantByEnrollToken :: "string \<Rightarrow> 'p db \<Rightarrow> Tenant result" where
  "GetTenantByEnrollToken token d =
     (if token = '''' then Inl ErrNotFound
      else case find (\<lambda>t. tn_EnrollToken t = token \<and> tn_EnrollToken t \<noteq> '''') (tenants d) of
             None \<Rightarrow> Inl ErrNotFound | Some t \<Rightarrow> Inr t)"

section \<open>Every operation keeps the constraints\<close>

lemmas db_ok_simps = db_ok_def ok_defs table_simps refs_grow uniq_filter refs_filter
  uniq_update_where refs_update_where refs_update_parent

lemma ok_CreateTenant: "db_ok d \<Longrightarrow> CreateTenant i n d = Inr d' \<Longrightarrow> db_ok d'"
  by (auto simp: CreateTenant_def split: if_splits) (simp_all add: db_ok_simps)

lemma ok_DeleteTenant: "db_ok d \<Longrightarrow> db_ok (DeleteTenant t d)"
  by (simp add: DeleteTenant_def ok_cascade_tenant)

lemma ok_CreateUser:
  assumes "db_ok d" "CreateUser bc i t u p a d = Inr d'"
  shows "db_ok d'"
proof -
  from assms(2) obtain h where d': "d' = d\<lparr>users := users d @ [\<lparr>us_ID = i,
        us_Tenant = (if t \<noteq> '''' then Some t else None), us_Username = u, us_Hash = h, us_IsAdmin = a\<rparr>]\<rparr>"
    and c: "\<not> has_key us_ID i (users d)" "\<not> has_key us_Username u (users d)"
      "t = '''' \<or> has_key tn_ID t (tenants d)"
    unfolding CreateUser_def by (auto simp: Let_def split: sum.splits if_splits)
  have "has_key (Some \<circ> tn_ID) (Some t) (tenants d)" if "t \<noteq> ''''"
    using c(3) that by (auto simp: has_key_def)
  with assms(1) c d' show ?thesis by (simp add: db_ok_simps)
qed

lemma ok_SetPassword: "db_ok d \<Longrightarrow> SetPassword bc u p d = Inr d' \<Longrightarrow> db_ok d'"
  by (auto simp: SetPassword_def split: if_splits sum.splits) (simp_all add: filter_update_where db_ok_simps)

lemma ok_DeleteUser: "db_ok d \<Longrightarrow> db_ok (DeleteUser u d)"
  by (simp add: DeleteUser_def ok_cascade_users)

lemma ok_CreateSession: "db_ok d \<Longrightarrow> CreateSession k now u d = Inr d' \<Longrightarrow> db_ok d'"
  by (auto simp: CreateSession_def split: if_splits) (simp_all add: db_ok_simps)

lemma ok_DeleteSession: "db_ok d \<Longrightarrow> db_ok (DeleteSession k d)"
  by (simp add: db_ok_simps DeleteSession_def)

lemma ok_CreateAPIKey: "db_ok d \<Longrightarrow> CreateAPIKey h i raw now u n d = Inr (sec, d') \<Longrightarrow> db_ok d'"
  by (auto simp: CreateAPIKey_def Let_def split: if_splits) (simp_all add: db_ok_simps)

lemma ok_DeleteAPIKey: "db_ok d \<Longrightarrow> DeleteAPIKey k u d = Inr d' \<Longrightarrow> db_ok d'"
  by (auto simp: DeleteAPIKey_def Let_def split: if_splits) (simp_all add: db_ok_simps)

lemma ok_DeleteAPIKeysForUser: "db_ok d \<Longrightarrow> db_ok (snd (DeleteAPIKeysForUser u d))"
  by (simp add: db_ok_simps DeleteAPIKeysForUser_def)

lemma ok_APIKeyUser: "db_ok d \<Longrightarrow> db_ok (snd (APIKeyUser h now sec d))"
  by (simp add: db_ok_simps APIKeyUser_def split: option.splits)

lemma ok_CreateSite: "db_ok d \<Longrightarrow> CreateSite i t n d = Inr d' \<Longrightarrow> db_ok d'"
  by (auto simp: CreateSite_def split: if_splits) (simp_all add: db_ok_simps)

lemma ok_DeleteSite: "db_ok d \<Longrightarrow> db_ok (DeleteSite u d)"
  by (simp add: DeleteSite_def ok_cascade_sites)

lemma ok_insert_site_tests: "db_ok d \<Longrightarrow> insert_site_tests si ts d = Inr d' \<Longrightarrow> db_ok d'"
proof (induction si ts d rule: insert_site_tests.induct)
  case (1 si d)
  then show ?case by simp
next
  case (2 si t ts d)
  let ?d = "d\<lparr>site_tests := site_tests d @ [(si, t)]\<rparr>"
  from "2.prems"(2) have c: "(si, t) \<notin> set (site_tests d)" "has_key si_ID si (sites d)"
    "has_key td_ID t (tests d)" and r: "insert_site_tests si ts ?d = Inr d'"
    by (auto split: if_splits)
  have "\<not> has_key id (si, t) (site_tests d)" using c(1) by (simp add: has_key_def)
  then have "db_ok ?d" using "2.prems"(1) c by (simp add: db_ok_simps)
  then show ?case using "2.IH" c r by blast
qed

lemma ok_SetSiteTests: "db_ok d \<Longrightarrow> SetSiteTests si ts d = Inr d' \<Longrightarrow> db_ok d'"
  unfolding SetSiteTests_def by (rule ok_insert_site_tests) (simp_all add: db_ok_simps)

lemma ok_CreateTest: "db_ok d \<Longrightarrow> CreateTest i t d = Inr (t', d') \<Longrightarrow> db_ok d'"
  by (auto simp: CreateTest_def Let_def split: if_splits) (simp_all add: db_ok_simps)

lemma ok_UpdateTest: "db_ok d \<Longrightarrow> UpdateTest t d = Inr d' \<Longrightarrow> db_ok d'"
  by (auto simp: UpdateTest_def Let_def split: if_splits) (simp_all add: db_ok_simps)

lemma ok_DeleteTest: "db_ok d \<Longrightarrow> db_ok (DeleteTest u d)"
  by (simp add: DeleteTest_def ok_cascade_tests)

lemma ok_UpsertUnclaimedAgent: "db_ok d \<Longrightarrow> UpsertUnclaimedAgent i now t c v ca n d = Inr d' \<Longrightarrow> db_ok d'"
  by (auto simp: UpsertUnclaimedAgent_def Let_def split: if_splits) (simp_all add: db_ok_simps)

lemma ok_DeleteUnclaimedAgent: "db_ok d \<Longrightarrow> db_ok (DeleteUnclaimedAgent u d)"
  by (simp add: db_ok_simps DeleteUnclaimedAgent_def)

lemma ok_SetTenantEnrollToken: "db_ok d \<Longrightarrow> db_ok (snd (SetTenantEnrollToken k t d))"
  by (simp add: db_ok_simps SetTenantEnrollToken_def)

lemma ok_RevokeTenantEnrollToken: "db_ok d \<Longrightarrow> db_ok (RevokeTenantEnrollToken t d)"
  by (simp add: db_ok_simps RevokeTenantEnrollToken_def)

end
