(* ===== verification/Store_Agents.thy ===== *)
theory Store_Agents
  imports Store_Tenancy
begin

text \<open>
  Agents and the three bounded histories: \<open>agents.go\<close> (agents, results), \<open>logs.go\<close> and the table
  half of \<open>pathchanges.go\<close> of \<open>internal/store\<close>. Results, path changes and log lines are instances of
  the locale \<open>bounded_history\<close>.
\<close>

section \<open>Agents\<close>

definition CreateAgent :: "string \<Rightarrow> string \<Rightarrow> string \<Rightarrow> string \<Rightarrow> string \<Rightarrow> 'p db \<Rightarrow> (Agent \<times> 'p db) result" where
  "CreateAgent newid token tenantID siteID nm d =
     (let a = \<lparr>ag_ID = newid, ag_TenantID = tenantID, ag_SiteID = siteID, ag_SiteName = '''',
               ag_Name = nm, ag_Token = token, ag_NetworkInterfaces = RawEmpty,
               ag_Capabilities = RawEmpty, ag_Stats = RawEmpty, ag_Version = '''',
               ag_WlanSensorInterface = '''', ag_PerfmonReflectorEnabled = False,
               ag_PerfmonReflectorPort = 0, ag_PerfmonReflectorInterface = '''',
               ag_PerfmonAllowedCIDRs = RawEmpty\<rparr>
      in if has_key ag_ID newid (agents d) \<or> has_key ag_Token token (agents d)
            \<or> has_key (\<lambda>x. (ag_TenantID x, ag_Name x)) (tenantID, nm) (agents d)
            \<or> \<not> has_key tn_ID tenantID (tenants d) \<or> \<not> has_key si_ID siteID (sites d)
         then Inl (Wrapf ''creating agent: %w'' [] constraint_err)
         else Inr (a, d\<lparr>agents := agents d @ [a]\<rparr>))"

definition raw_or :: "json \<Rightarrow> raw_message \<Rightarrow> raw_message" where
  "raw_or j r = (if r = RawEmpty then Raw j else r)"

text \<open>A row joined with its site; empty JSON columns other than \<open>stats\<close> read as \<open>[]\<close>.\<close>

definition scanAgent :: "'p db \<Rightarrow> Agent \<Rightarrow> Agent option" where
  "scanAgent d a =
     (case find (\<lambda>s. si_ID s = ag_SiteID a) (sites d) of
        None \<Rightarrow> None
      | Some s \<Rightarrow> Some (a\<lparr>ag_SiteName := si_Name s,
          ag_NetworkInterfaces := raw_or (JArr []) (ag_NetworkInterfaces a),
          ag_Capabilities := raw_or (JArr []) (ag_Capabilities a),
          ag_PerfmonAllowedCIDRs := raw_or (JArr []) (ag_PerfmonAllowedCIDRs a)\<rparr>))"

definition first_agent :: "(Agent \<Rightarrow> bool) \<Rightarrow> 'p db \<Rightarrow> Agent result" where
  "first_agent P d =
     (case List.map_filter (scanAgent d) (filter P (agents d)) of [] \<Rightarrow> Inl ErrNotFound | a # _ \<Rightarrow> Inr a)"

definition GetAgent :: "string \<Rightarrow> 'p db \<Rightarrow> Agent result" where
  "GetAgent aid d = first_agent (\<lambda>a. ag_ID a = aid) d"

definition GetAgentByToken :: "string \<Rightarrow> 'p db \<Rightarrow> Agent result" where
  "GetAgentByToken token d = first_agent (\<lambda>a. ag_Token a = token) d"

definition ListAgents :: "string \<Rightarrow> 'p db \<Rightarrow> Agent list" where
  "ListAgents tenantID d =
     sort_key ag_Name (List.map_filter (scanAgent d)
       (filter (\<lambda>a. tenantID = '''' \<or> ag_TenantID a = tenantID) (agents d)))"

definition DeleteAgent :: "string \<Rightarrow> 'p db \<Rightarrow> 'p db" where
  "DeleteAgent aid d = cascade_agents {aid} d"

definition UpdateAgent :: "string \<Rightarrow> string \<Rightarrow> string \<Rightarrow> 'p db \<Rightarrow> 'p db result" where
  "UpdateAgent aid nm siteID d =
     (let upd = update_where (\<lambda>a. ag_ID a = aid) (\<lambda>a. a\<lparr>ag_Name := nm, ag_SiteID := siteID\<rparr>) (agents d)
      in if \<not> uniq (\<lambda>x. (ag_TenantID x, ag_Name x)) upd \<or> \<not> list_all (\<lambda>a. has_key si_ID (ag_SiteID a) (sites d)) upd
         then Inl constraint_err
         else if \<not> has_key ag_ID aid (agents d) then Inl ErrNotFound
         else Inr (d\<lparr>agents := upd\<rparr>))"

definition set_agent :: "string \<Rightarrow> (Agent \<Rightarrow> Agent) \<Rightarrow> 'p db \<Rightarrow> 'p db" where
  "set_agent aid h d = d\<lparr>agents := update_where (\<lambda>a. ag_ID a = aid) h (agents d)\<rparr>"

definition SetAgentVersion :: "string \<Rightarrow> string \<Rightarrow> 'p db \<Rightarrow> 'p db" where
  "SetAgentVersion aid v d = set_agent aid (\<lambda>a. a\<lparr>ag_Version := v\<rparr>) d"

definition SetAgentPerfmonReflector ::
  "string \<Rightarrow> bool \<Rightarrow> u32 \<Rightarrow> string \<Rightarrow> raw_message \<Rightarrow> 'p db \<Rightarrow> 'p db" where
  "SetAgentPerfmonReflector aid enabled port iface cidrs d =
     set_agent aid (\<lambda>a. a\<lparr>ag_PerfmonReflectorEnabled := enabled, ag_PerfmonReflectorPort := port,
       ag_PerfmonReflectorInterface := iface, ag_PerfmonAllowedCIDRs := cidrs\<rparr>) d"

definition SetAgentWlanSensorInterface :: "string \<Rightarrow> string \<Rightarrow> 'p db \<Rightarrow> 'p db" where
  "SetAgentWlanSensorInterface aid iface d = set_agent aid (\<lambda>a. a\<lparr>ag_WlanSensorInterface := iface\<rparr>) d"

definition SetAgentNetworkInterfaces :: "string \<Rightarrow> raw_message \<Rightarrow> 'p db \<Rightarrow> 'p db" where
  "SetAgentNetworkInterfaces aid raw d = set_agent aid (\<lambda>a. a\<lparr>ag_NetworkInterfaces := raw\<rparr>) d"

definition SetAgentCapabilities :: "string \<Rightarrow> raw_message \<Rightarrow> 'p db \<Rightarrow> 'p db" where
  "SetAgentCapabilities aid raw d = set_agent aid (\<lambda>a. a\<lparr>ag_Capabilities := raw\<rparr>) d"

definition SetAgentStats :: "string \<Rightarrow> json \<Rightarrow> 'p db \<Rightarrow> 'p db" where
  "SetAgentStats aid stats d = set_agent aid (\<lambda>a. a\<lparr>ag_Stats := Raw stats\<rparr>) d"

section \<open>Addresses derived from the reported interfaces\<close>

definition iface_fields :: "string list" where
  "iface_fields = [''name'', ''ipAddress'']"

definition unmarshal_iface :: "json \<Rightarrow> (string \<times> string) option" where
  "unmarshal_iface j =
     (case unmarshal_object j of None \<Rightarrow> None | Some ms \<Rightarrow>
      case dec as_str [] (members iface_fields ms ''name'') of None \<Rightarrow> None | Some n \<Rightarrow>
      case dec as_str [] (members iface_fields ms ''ipAddress'') of None \<Rightarrow> None | Some ip \<Rightarrow>
      Some (n, ip))"

definition unmarshal_list :: "(json \<Rightarrow> 'a option) \<Rightarrow> raw_message \<Rightarrow> 'a list option" where
  "unmarshal_list f raw =
     (case raw of
        Raw (JArr js) \<Rightarrow> those (map f js)
      | Raw JNull \<Rightarrow> Some []
      | _ \<Rightarrow> None)"

definition InterfaceIP :: "Agent \<Rightarrow> string \<Rightarrow> string" where
  "InterfaceIP a nm =
     (if nm = '''' \<or> ag_NetworkInterfaces a = RawEmpty then ''''
      else case unmarshal_list unmarshal_iface (ag_NetworkInterfaces a) of
             None \<Rightarrow> ''''
           | Some ifaces \<Rightarrow> (case find (\<lambda>ni. fst ni = nm) ifaces of None \<Rightarrow> '''' | Some ni \<Rightarrow> snd ni))"

definition ResolvedPerfmonAddr :: "Agent \<Rightarrow> string" where
  "ResolvedPerfmonAddr a =
     (if \<not> ag_PerfmonReflectorEnabled a \<or> ag_PerfmonReflectorPort a = 0 then ''''
      else let ip = InterfaceIP a (ag_PerfmonReflectorInterface a)
           in if ip = '''' then '''' else join_host_port ip (itoa (ag_PerfmonReflectorPort a)))"

definition mgmt_fields :: "string list" where
  "mgmt_fields = [''wireless'', ''ipAddress'']"

definition unmarshal_mgmt :: "json \<Rightarrow> (bool \<times> string) option" where
  "unmarshal_mgmt j =
     (case unmarshal_object j of None \<Rightarrow> None | Some ms \<Rightarrow>
      case dec as_bool False (members mgmt_fields ms ''wireless'') of None \<Rightarrow> None | Some w \<Rightarrow>
      case dec as_str [] (members mgmt_fields ms ''ipAddress'') of None \<Rightarrow> None | Some ip \<Rightarrow>
      Some (w, ip))"

fun management_addr :: "string \<Rightarrow> (bool \<times> string) list \<Rightarrow> string" where
  "management_addr fb [] = fb"
| "management_addr fb ((wireless, ip) # ns) =
     (if ip = '''' then management_addr fb ns
      else if \<not> wireless then ip
      else management_addr (if fb = '''' then ip else fb) ns)"

definition ResolvedManagementAddr :: "Agent \<Rightarrow> string" where
  "ResolvedManagementAddr a =
     (if ag_NetworkInterfaces a = RawEmpty then ''''
      else case unmarshal_list unmarshal_mgmt (ag_NetworkInterfaces a) of
             None \<Rightarrow> '''' | Some ns \<Rightarrow> management_addr '''' ns)"

text \<open>
  The chosen address is that of the first wired interface with an address, else that of the
  first wireless one, else empty.
\<close>

lemma management_addr_spec:
  "management_addr fb ns =
     (case find (\<lambda>n. \<not> fst n \<and> snd n \<noteq> '''') ns of
        Some n \<Rightarrow> snd n
      | None \<Rightarrow> if fb \<noteq> '''' then fb
                else (case find (\<lambda>n. snd n \<noteq> '''') ns of Some n \<Rightarrow> snd n | None \<Rightarrow> ''''))"
  by (induction fb ns rule: management_addr.induct) (auto split: option.splits)

section \<open>Results\<close>

definition resultsPerTest :: nat where
  "resultsPerTest = 5000"

type_synonym 'p new_result = "'p Result"

definition result_row :: "'p Result \<Rightarrow> int \<Rightarrow> 'p Result" where
  "result_row r i = r\<lparr>re_ID := i\<rparr>"

definition result_scope :: "'p Result \<Rightarrow> 'p Result \<Rightarrow> bool" where
  "result_scope r x \<longleftrightarrow> re_AgentID x = re_AgentID r \<and> re_TestID x = re_TestID r"

text \<open>
  The insert of a row and the prune of its scope are two statements, run one after the other without a transaction.
  \<open>add_result\<close> is the table after both; the state between them, which a killed process or a failing prune leaves, is
  \<open>insert_result\<close> of \<open>Store_Migrate\<close>. Path changes and log lines are stored the same way.
\<close>

definition add_result :: "'p Result \<Rightarrow> 'p Result table \<Rightarrow> 'p Result table" where
  "add_result r t =
     (let t' = insert_row (result_row r) t
      in t'\<lparr>rows := prune re_ID (result_scope r) resultsPerTest (rows t')\<rparr>)"

definition AddResult :: "'p Result \<Rightarrow> 'p db \<Rightarrow> 'p db result" where
  "AddResult r d =
     (if \<not> has_key ag_ID (re_AgentID r) (agents d) then Inl constraint_err
      else Inr (d\<lparr>results := add_result r (results d)\<rparr>))"

interpretation result_history: bounded_history
  re_ID result_row result_scope resultsPerTest "\<lambda>_. True" add_result
  by unfold_locales (auto simp: result_row_def result_scope_def add_result_def fun_eq_iff)

record ResultFilter =
  rf_TenantID :: string
  rf_SiteID :: string
  rf_AgentID :: string
  rf_TestID :: string
  rf_TestType :: string
  rf_Since :: "go_time option"
  rf_Limit :: int

definition clamp_limit :: "int \<Rightarrow> int \<Rightarrow> int \<Rightarrow> nat" where
  "clamp_limit mx dflt l = nat (if l \<le> 0 \<or> l > mx then dflt else l)"

definition agent_of :: "'p db \<Rightarrow> string \<Rightarrow> Agent option" where
  "agent_of d aid = find (\<lambda>a. ag_ID a = aid) (agents d)"

definition result_matches :: "'p db \<Rightarrow> ResultFilter \<Rightarrow> 'p Result \<Rightarrow> bool" where
  "result_matches d f r =
     (case agent_of d (re_AgentID r) of
        None \<Rightarrow> False
      | Some a \<Rightarrow> has_key si_ID (ag_SiteID a) (sites d) \<and> ag_TenantID a = rf_TenantID f
          \<and> (rf_SiteID f = '''' \<or> ag_SiteID a = rf_SiteID f)
          \<and> (rf_AgentID f = '''' \<or> re_AgentID r = rf_AgentID f)
          \<and> (rf_TestID f = '''' \<or> re_TestID r = rf_TestID f)
          \<and> (rf_TestType f = '''' \<or> re_TestType r = rf_TestType f)
          \<and> (case rf_Since f of None \<Rightarrow> True | Some s \<Rightarrow> re_Time r \<ge> s))"

definition ListResults :: "ResultFilter \<Rightarrow> 'p db \<Rightarrow> 'p Result list" where
  "ListResults f d =
     select_desc re_ID (result_matches d f) (clamp_limit 2000 100 (rf_Limit f)) (rows (results d))"

section \<open>Path changes\<close>

definition pathChangesPerTest :: nat where
  "pathChangesPerTest = 500"

definition path_row :: "PathChange \<Rightarrow> int \<Rightarrow> PathChange" where
  "path_row c i = c\<lparr>pc_ID := i\<rparr>"

definition path_scope :: "PathChange \<Rightarrow> PathChange \<Rightarrow> bool" where
  "path_scope c x \<longleftrightarrow> pc_AgentID x = pc_AgentID c \<and> pc_TestID x = pc_TestID c"

definition add_path_change :: "PathChange \<Rightarrow> PathChange table \<Rightarrow> PathChange table" where
  "add_path_change c t =
     (let t' = insert_row (path_row c) t
      in t'\<lparr>rows := prune pc_ID (path_scope c) pathChangesPerTest (rows t')\<rparr>)"

definition AddPathChange :: "PathChange \<Rightarrow> 'p db \<Rightarrow> 'p db result" where
  "AddPathChange c d =
     (if \<not> has_key ag_ID (pc_AgentID c) (agents d) then Inl constraint_err
      else Inr (d\<lparr>path_changes := add_path_change c (path_changes d)\<rparr>))"

interpretation path_history: bounded_history
  pc_ID path_row path_scope pathChangesPerTest "\<lambda>_. True" add_path_change
  by unfold_locales (auto simp: path_row_def path_scope_def add_path_change_def fun_eq_iff)

record PathChangeFilter =
  pcf_TenantID :: string
  pcf_AgentID :: string
  pcf_TestID :: string
  pcf_Since :: "go_time option"
  pcf_Limit :: int

definition path_matches :: "'p db \<Rightarrow> PathChangeFilter \<Rightarrow> PathChange \<Rightarrow> bool" where
  "path_matches d f c =
     (case agent_of d (pc_AgentID c) of
        None \<Rightarrow> False
      | Some a \<Rightarrow> ag_TenantID a = pcf_TenantID f
          \<and> (pcf_AgentID f = '''' \<or> pc_AgentID c = pcf_AgentID f)
          \<and> (pcf_TestID f = '''' \<or> pc_TestID c = pcf_TestID f)
          \<and> (case pcf_Since f of None \<Rightarrow> True | Some s \<Rightarrow> pc_Time c \<ge> s))"

definition ListPathChanges :: "PathChangeFilter \<Rightarrow> 'p db \<Rightarrow> PathChange list" where
  "ListPathChanges f d =
     select_desc pc_ID (path_matches d f) (clamp_limit 1000 200 (pcf_Limit f)) (rows (path_changes d))"

section \<open>Logs\<close>

definition SetLogHistory :: "int \<Rightarrow> 'p db \<Rightarrow> 'p db" where
  "SetLogHistory n d = (if n > 0 then d\<lparr>logHistory := nat n\<rparr> else d)"

definition log_row :: "LogEntry \<Rightarrow> int \<Rightarrow> LogEntry" where
  "log_row e i = e\<lparr>le_ID := i\<rparr>"

text \<open>The condition of the prune: this agent's lines, or the server's own.\<close>

definition log_scope :: "LogEntry \<Rightarrow> LogEntry \<Rightarrow> bool" where
  "log_scope e x \<longleftrightarrow>
     (if le_Source e = ''agent'' then le_Source x = ''agent'' \<and> le_AgentID x = le_AgentID e
      else le_Source x = ''server'')"

definition valid_source :: "LogEntry \<Rightarrow> bool" where
  "valid_source e \<longleftrightarrow> le_Source e = ''agent'' \<or> le_Source e = ''server''"

definition add_log :: "nat \<Rightarrow> LogEntry \<Rightarrow> LogEntry table \<Rightarrow> LogEntry table" where
  "add_log cap e t =
     (let t' = insert_row (log_row e) t
      in t'\<lparr>rows := prune le_ID (log_scope e) cap (rows t')\<rparr>)"

definition InsertLog :: "LogEntry \<Rightarrow> 'p db \<Rightarrow> 'p db" where
  "InsertLog e d = d\<lparr>logs := add_log (logHistory d) e (logs d)\<rparr>"

interpretation log_history: bounded_history
  le_ID log_row log_scope cap valid_source "add_log cap" for cap
  by unfold_locales (auto simp: log_row_def log_scope_def valid_source_def add_log_def fun_eq_iff split: if_splits)

record LogFilter =
  lf_TenantID :: string
  lf_AgentID :: string
  lf_Source :: string
  lf_Level :: string
  lf_Limit :: int

definition maxLogLimit :: int where
  "maxLogLimit = 500"

definition log_matches :: "LogFilter \<Rightarrow> LogEntry \<Rightarrow> bool" where
  "log_matches f e \<longleftrightarrow>
     (lf_TenantID f = '''' \<or> le_TenantID e = lf_TenantID f)
     \<and> (lf_AgentID f = '''' \<or> le_AgentID e = lf_AgentID f)
     \<and> (lf_Source f = '''' \<or> le_Source e = lf_Source f)
     \<and> (lf_Level f = '''' \<or> le_Level e = lf_Level f)"

definition ListLogs :: "LogFilter \<Rightarrow> 'p db \<Rightarrow> LogEntry list" where
  "ListLogs f d =
     select_desc le_ID (log_matches f) (clamp_limit maxLogLimit maxLogLimit (lf_Limit f)) (rows (logs d))"

definition CountAgentErrors :: "string \<Rightarrow> go_time \<Rightarrow> 'p db \<Rightarrow> nat" where
  "CountAgentErrors agentID since d =
     length (filter (\<lambda>e. le_AgentID e = agentID \<and> le_Time e \<ge> since
       \<and> (le_Level e = ''WARN'' \<or> le_Level e = ''ERROR'') \<and> le_Scope e \<noteq> ''test'') (rows (logs d)))"

section \<open>Every operation keeps the constraints\<close>

lemma ok_CreateAgent: "db_ok d \<Longrightarrow> CreateAgent i k t s n d = Inr (a, d') \<Longrightarrow> db_ok d'"
  by (auto simp: CreateAgent_def Let_def split: if_splits) (simp_all add: db_ok_simps)

lemma ok_DeleteAgent: "db_ok d \<Longrightarrow> db_ok (DeleteAgent a d)"
  by (simp add: DeleteAgent_def ok_cascade_agents)

lemma ok_UpdateAgent:
  assumes "db_ok d" "UpdateAgent aid n s d = Inr d'"
  shows "db_ok d'"
proof -
  let ?u = "update_where (\<lambda>a. ag_ID a = aid) (\<lambda>a. a\<lparr>ag_Name := n, ag_SiteID := s\<rparr>) (agents d)"
  from assms(2) have d': "d' = d\<lparr>agents := ?u\<rparr>" and u: "uniq (\<lambda>x. (ag_TenantID x, ag_Name x)) ?u"
    and r: "refs ag_SiteID ?u si_ID (sites d)"
    by (auto simp: UpdateAgent_def Let_def refs_def has_key_def list_all_iff split: if_splits)
  from assms(1) u r show ?thesis by (simp add: d' db_ok_simps)
qed

lemma ok_set_agent:
  assumes "db_ok d" "\<And>a. ag_ID (h a) = ag_ID a" "\<And>a. ag_TenantID (h a) = ag_TenantID a"
    "\<And>a. ag_SiteID (h a) = ag_SiteID a" "\<And>a. ag_Name (h a) = ag_Name a" "\<And>a. ag_Token (h a) = ag_Token a"
  shows "db_ok (set_agent aid h d)"
  using assms by (simp add: set_agent_def db_ok_simps)

lemmas set_agent_defs = SetAgentVersion_def SetAgentPerfmonReflector_def
  SetAgentWlanSensorInterface_def SetAgentNetworkInterfaces_def SetAgentCapabilities_def
  SetAgentStats_def

lemma ok_SetAgent:
  assumes "db_ok d"
  shows "db_ok (SetAgentVersion aid v d)" "db_ok (SetAgentPerfmonReflector aid e p i c d)"
    "db_ok (SetAgentWlanSensorInterface aid i d)" "db_ok (SetAgentNetworkInterfaces aid raw d)"
    "db_ok (SetAgentCapabilities aid raw d)" "db_ok (SetAgentStats aid st d)"
  using assms by (simp_all add: set_agent_defs ok_set_agent)

lemma refs_prune: "refs f rs g ss \<Longrightarrow> refs f (prune rid P n rs) g ss"
  using set_prune [of rid P n rs] by (auto simp: refs_def)

lemma ok_AddResult:
  assumes "db_ok d" "AddResult r d = Inr d'"
  shows "db_ok d'"
proof -
  from assms have k: "has_key ag_ID (re_AgentID r) (agents d)"
    and d': "d' = d\<lparr>results := add_result r (results d)\<rparr>"
    by (auto simp: AddResult_def split: if_splits)
  have "refs re_AgentID (rows (add_result r (results d))) ag_ID (agents d)"
    using assms(1) k by (auto simp: add_result_def Let_def insert_row_def result_row_def
        db_ok_def ok_defs table_simps intro!: refs_prune)
  with assms(1) show ?thesis by (simp add: d' db_ok_def ok_defs result_history.wf_add)
qed

lemma ok_AddPathChange:
  assumes "db_ok d" "AddPathChange c d = Inr d'"
  shows "db_ok d'"
proof -
  from assms have k: "has_key ag_ID (pc_AgentID c) (agents d)"
    and d': "d' = d\<lparr>path_changes := add_path_change c (path_changes d)\<rparr>"
    by (auto simp: AddPathChange_def split: if_splits)
  have "refs pc_AgentID (rows (add_path_change c (path_changes d))) ag_ID (agents d)"
    using assms(1) k by (auto simp: add_path_change_def Let_def insert_row_def path_row_def
        db_ok_def ok_defs table_simps intro!: refs_prune)
  with assms(1) show ?thesis by (simp add: d' db_ok_def ok_defs path_history.wf_add)
qed

lemma ok_InsertLog: "db_ok d \<Longrightarrow> db_ok (InsertLog e d)"
  by (simp add: InsertLog_def db_ok_def ok_defs log_history.wf_add)

lemma ok_SetLogHistory: "db_ok d \<Longrightarrow> db_ok (SetLogHistory n d)"
  by (simp add: SetLogHistory_def db_ok_def ok_defs)

section \<open>Listings\<close>

lemma length_select_desc: "length (select_desc rid P n rs) \<le> n"
  by (simp add: select_desc_def)

lemma set_select_desc: "x \<in> set (select_desc rid P n rs) \<Longrightarrow> x \<in> set rs \<and> P x"
  unfolding select_desc_def by (drule in_set_takeD) simp

lemma sorted_select_desc: "sorted (map rid (rev (select_desc rid P n rs)))"
proof -
  have "rev (select_desc rid P n rs) = last_n n (sort_key rid (filter P rs))"
    by (simp add: select_desc_def rev_take_rev)
  then show ?thesis
    by (simp add: last_n_def flip: drop_map)
qed

lemma clamp_limit_le: "0 \<le> dflt \<Longrightarrow> dflt \<le> mx \<Longrightarrow> clamp_limit mx dflt l \<le> nat mx"
  by (auto simp: clamp_limit_def)

lemma GetAgentByToken_token: "GetAgentByToken k d = Inr a \<Longrightarrow> ag_Token a = k"
  by (auto simp: GetAgentByToken_def first_agent_def List.map_filter_def scanAgent_def
      filter_eq_Cons_iff split: list.splits option.splits)

end
