(* ===== verification/Store_Alerts.thy ===== *)
theory Store_Alerts
  imports Store_Agents
begin

text \<open>
  Alert rules, alerts and alert targets: \<open>internal/store/alerts.go\<close>. A rule's \<open>target_ids\<close> column is
  the JSON of a list of strings the store itself writes, kept here as the list. The second half is
  the whole store as a state machine: \<open>store_step\<close> has one rule per operation that writes, and every
  reachable database satisfies the constraints of the schema.
\<close>

section \<open>Rules\<close>

definition norm_rule :: "AlertRule \<Rightarrow> AlertRule" where
  "norm_rule r = r\<lparr>ar_ClearCount := (if ar_ClearCount r = 0 then 1 else ar_ClearCount r)\<rparr>"

definition CreateAlertRule :: "string \<Rightarrow> AlertRule \<Rightarrow> 'p db \<Rightarrow> (AlertRule \<times> 'p db) result" where
  "CreateAlertRule newid r0 d =
     (let r = norm_rule (r0\<lparr>ar_ID := newid\<rparr>)
      in if has_key ar_ID newid (alert_rules d) \<or> \<not> has_key tn_ID (ar_TenantID r) (tenants d)
            \<or> \<not> has_key td_ID (ar_TestID r) (tests d)
         then Inl (Wrapf ''creating alert rule: %w'' [] constraint_err)
         else Inr (r, d\<lparr>alert_rules := alert_rules d @ [r\<lparr>ar_TestName := ''''\<rparr>]\<rparr>))"

definition DeleteAlertRule :: "string \<Rightarrow> 'p db \<Rightarrow> 'p db" where
  "DeleteAlertRule rid d = cascade_rules {rid} d"

definition GetAlertRule :: "string \<Rightarrow> 'p db \<Rightarrow> AlertRule result" where
  "GetAlertRule rid d =
     (case find (\<lambda>r. ar_ID r = rid) (alert_rules d) of None \<Rightarrow> Inl ErrNotFound | Some r \<Rightarrow> Inr r)"

text \<open>A rule joined with its test, which supplies the name.\<close>

definition join_test :: "'p db \<Rightarrow> AlertRule \<Rightarrow> AlertRule option" where
  "join_test d r =
     map_option (\<lambda>t. r\<lparr>ar_TestName := td_Name t\<rparr>) (find (\<lambda>t. td_ID t = ar_TestID r) (tests d))"

definition ListAlertRules :: "string \<Rightarrow> 'p db \<Rightarrow> AlertRule list" where
  "ListAlertRules tenantID d =
     sort_key ar_Name (List.map_filter (join_test d) (filter (\<lambda>r. ar_TenantID r = tenantID) (alert_rules d)))"

definition RulesForTest :: "string \<Rightarrow> 'p db \<Rightarrow> AlertRule list" where
  "RulesForTest testID d =
     List.map_filter (join_test d) (filter (\<lambda>r. ar_TestID r = testID) (alert_rules d))"

definition UpdateAlertRule :: "AlertRule \<Rightarrow> 'p db \<Rightarrow> AlertRule \<times> 'p db" where
  "UpdateAlertRule r0 d =
     (let r = norm_rule r0
      in (r, d\<lparr>alert_rules := update_where (\<lambda>x. ar_ID x = ar_ID r)
                (\<lambda>x. x\<lparr>ar_Name := ar_Name r, ar_Metric := ar_Metric r, ar_Operator := ar_Operator r,
                       ar_Threshold := ar_Threshold r, ar_ForCount := ar_ForCount r,
                       ar_ClearThreshold := ar_ClearThreshold r, ar_ClearCount := ar_ClearCount r,
                       ar_TargetIds := ar_TargetIds r, ar_WebhookURL := ar_WebhookURL r\<rparr>)
                (alert_rules d)\<rparr>))"

section \<open>Alerts\<close>

abbreviation firing :: "Alert \<Rightarrow> bool" where
  "firing a \<equiv> al_State a = ''firing''"

abbreviation alert_key :: "Alert \<Rightarrow> string \<times> string \<times> string" where
  "alert_key a \<equiv> (al_RuleID a, al_AgentID a, al_Subject a)"

definition ActiveAlert :: "string \<Rightarrow> string \<Rightarrow> string \<Rightarrow> 'p db \<Rightarrow> Alert option" where
  "ActiveAlert ruleID agentID subject d =
     (case select_desc al_ID (\<lambda>a. al_RuleID a = ruleID \<and> al_AgentID a = agentID \<and> al_Subject a = subject \<and> firing a)
             1 (rows (alerts d)) of
        [] \<Rightarrow> None | a # _ \<Rightarrow> Some (a\<lparr>al_ResolvedAt := None\<rparr>))"

text \<open>\<open>now\<close> is the clock reading stored, \<open>now'\<close> the later one the returned alert carries.\<close>

definition FireAlert ::
  "go_time \<Rightarrow> go_time \<Rightarrow> string \<Rightarrow> string \<Rightarrow> string \<Rightarrow> float64 \<Rightarrow> string \<Rightarrow> 'p db \<Rightarrow> (Alert \<times> 'p db) result" where
  "FireAlert now now' ruleID agentID subject v msg d =
     (if \<not> has_key ar_ID ruleID (alert_rules d) \<or> \<not> has_key ag_ID agentID (agents d)
      then Inl constraint_err
      else let row = (\<lambda>t i. \<lparr>al_ID = i, al_RuleID = ruleID, al_AgentID = agentID, al_Subject = subject,
                             al_State = ''firing'', al_Value = v, al_Message = msg,
                             al_StartedAt = t, al_ResolvedAt = None\<rparr>)
           in Inr (row now' (last_id (alerts d) + 1), d\<lparr>alerts := insert_row (row now) (alerts d)\<rparr>))"

definition ResolveAlert :: "go_time \<Rightarrow> int \<Rightarrow> 'p db \<Rightarrow> 'p db" where
  "ResolveAlert now aid d = d\<lparr>alerts := (alerts d)\<lparr>rows :=
     update_where (\<lambda>a. al_ID a = aid) (\<lambda>a. a\<lparr>al_State := ''resolved'', al_ResolvedAt := Some now\<rparr>)
       (rows (alerts d))\<rparr>\<rparr>"

record listed_alert =
  la_Alert :: Alert
  la_RuleName :: string
  la_AgentName :: string

definition join_alert :: "string \<Rightarrow> 'p db \<Rightarrow> Alert \<Rightarrow> listed_alert option" where
  "join_alert tenantID d a =
     (case (find (\<lambda>r. ar_ID r = al_RuleID a) (alert_rules d), find (\<lambda>g. ag_ID g = al_AgentID a) (agents d)) of
        (Some r, Some g) \<Rightarrow>
          if ar_TenantID r = tenantID
          then Some \<lparr>la_Alert = a, la_RuleName = ar_Name r, la_AgentName = ag_Name g\<rparr> else None
      | _ \<Rightarrow> None)"

text \<open>\<open>ORDER BY (state = 'firing') DESC, id DESC\<close>: the firing ones first, each part newest first.\<close>

definition ListAlerts :: "string \<Rightarrow> int \<Rightarrow> 'p db \<Rightarrow> listed_alert list" where
  "ListAlerts tenantID limit d =
     (let xs = List.map_filter (join_alert tenantID d) (rev (sort_key al_ID (rows (alerts d))))
      in take (clamp_limit 500 100 limit)
           (filter (\<lambda>x. firing (la_Alert x)) xs @ filter (\<lambda>x. \<not> firing (la_Alert x)) xs))"

definition CountActiveAlerts :: "string \<Rightarrow> 'p db \<Rightarrow> nat" where
  "CountActiveAlerts tenantID d =
     length (filter (\<lambda>a. firing a \<and> (case find (\<lambda>r. ar_ID r = al_RuleID a) (alert_rules d) of
                                       None \<Rightarrow> False | Some r \<Rightarrow> ar_TenantID r = tenantID))
               (rows (alerts d)))"

section \<open>Targets\<close>

definition CreateAlertTarget :: "string \<Rightarrow> AlertTarget \<Rightarrow> 'p db \<Rightarrow> (AlertTarget \<times> 'p db) result" where
  "CreateAlertTarget newid t0 d =
     (let t = t0\<lparr>at_ID := newid\<rparr>
      in if has_key at_ID newid (alert_targets d) \<or> \<not> has_key tn_ID (at_TenantID t) (tenants d)
            \<or> has_key (\<lambda>x. (at_TenantID x, at_Name x)) (at_TenantID t, at_Name t) (alert_targets d)
         then Inl (Wrapf ''creating alert target: %w'' [] constraint_err)
         else Inr (t, d\<lparr>alert_targets := alert_targets d @ [t]\<rparr>))"

definition GetAlertTarget :: "string \<Rightarrow> 'p db \<Rightarrow> AlertTarget result" where
  "GetAlertTarget tid d =
     (case find (\<lambda>t. at_ID t = tid) (alert_targets d) of None \<Rightarrow> Inl ErrNotFound | Some t \<Rightarrow> Inr t)"

definition ListAlertTargets :: "string \<Rightarrow> 'p db \<Rightarrow> AlertTarget list" where
  "ListAlertTargets tenantID d =
     sort_key at_Name (filter (\<lambda>t. at_TenantID t = tenantID) (alert_targets d))"

definition UpdateAlertTarget :: "AlertTarget \<Rightarrow> 'p db \<Rightarrow> (AlertTarget \<times> 'p db) result" where
  "UpdateAlertTarget t d =
     (let upd = update_where (\<lambda>x. at_ID x = at_ID t)
                  (\<lambda>x. x\<lparr>at_Name := at_Name t, at_Type := at_Type t, at_Config := at_Config t\<rparr>)
                  (alert_targets d)
      in if \<not> uniq (\<lambda>x. (at_TenantID x, at_Name x)) upd
         then Inl (Wrapf ''updating alert target: %w'' [] constraint_err)
         else Inr (t, d\<lparr>alert_targets := upd\<rparr>))"

definition DeleteAlertTarget :: "string \<Rightarrow> 'p db \<Rightarrow> 'p db" where
  "DeleteAlertTarget tid d = d\<lparr>alert_targets := filter (\<lambda>t. at_ID t \<noteq> tid) (alert_targets d)\<rparr>"

section \<open>The constraints are kept\<close>

lemma ok_CreateAlertRule: "db_ok d \<Longrightarrow> CreateAlertRule i r d = Inr (r', d') \<Longrightarrow> db_ok d'"
  by (auto simp: CreateAlertRule_def norm_rule_def Let_def split: if_splits) (simp_all add: db_ok_simps)

lemma ok_DeleteAlertRule: "db_ok d \<Longrightarrow> db_ok (DeleteAlertRule r d)"
  by (simp add: DeleteAlertRule_def ok_cascade_rules)

lemma ok_UpdateAlertRule: "db_ok d \<Longrightarrow> db_ok (snd (UpdateAlertRule r d))"
  by (simp add: UpdateAlertRule_def Let_def db_ok_simps)

lemma ok_FireAlert: "db_ok d \<Longrightarrow> FireAlert n n' r a s v m d = Inr (al, d') \<Longrightarrow> db_ok d'"
  by (auto simp: FireAlert_def Let_def split: if_splits) (simp add: db_ok_simps wf_insert_row, simp add: insert_row_def table_simps)

lemma wf_update_where:
  "(\<And>r. rid (h r) = rid r) \<Longrightarrow> wf_table rid t \<Longrightarrow> wf_table rid (t\<lparr>rows := update_where P h (rows t)\<rparr>)"
  by (auto simp: wf_table_def map_update_where) (auto simp: update_where_def)

lemma ok_ResolveAlert: "db_ok d \<Longrightarrow> db_ok (ResolveAlert n i d)"
  by (simp add: ResolveAlert_def db_ok_simps wf_update_where)

lemma ok_CreateAlertTarget: "db_ok d \<Longrightarrow> CreateAlertTarget i t d = Inr (t', d') \<Longrightarrow> db_ok d'"
  by (auto simp: CreateAlertTarget_def Let_def split: if_splits) (simp_all add: db_ok_simps)

lemma ok_UpdateAlertTarget: "db_ok d \<Longrightarrow> UpdateAlertTarget t d = Inr (t', d') \<Longrightarrow> db_ok d'"
  by (auto simp: UpdateAlertTarget_def Let_def split: if_splits) (simp_all add: db_ok_simps)

lemma ok_DeleteAlertTarget: "db_ok d \<Longrightarrow> db_ok (DeleteAlertTarget t d)"
  by (simp add: DeleteAlertTarget_def db_ok_simps)

end
