(* ===== verification/Transition.thy ===== *)
theory Transition
  imports NL_Prelude
begin

text \<open>
  Components as transition systems: \<open>reach init step s\<close> says that \<open>s\<close> is reached from an initial
  state in finitely many steps. The locale \<open>inductive_invariant\<close> is the contract of a component with
  a step relation: its initial states have the invariant and its steps keep it.
\<close>

inductive reach :: "('s \<Rightarrow> bool) \<Rightarrow> ('s \<Rightarrow> 's \<Rightarrow> bool) \<Rightarrow> 's \<Rightarrow> bool"
  for init :: "'s \<Rightarrow> bool" and stp :: "'s \<Rightarrow> 's \<Rightarrow> bool" where
  reach_init: "init s \<Longrightarrow> reach init stp s"
| reach_step: "reach init stp s \<Longrightarrow> stp s s' \<Longrightarrow> reach init stp s'"

locale inductive_invariant =
  fixes init :: "'s \<Rightarrow> bool"
    and stp :: "'s \<Rightarrow> 's \<Rightarrow> bool"
    and inv :: "'s \<Rightarrow> bool"
  assumes inv_init: "init s \<Longrightarrow> inv s"
    and inv_step: "inv s \<Longrightarrow> stp s s' \<Longrightarrow> inv s'"
begin

lemma inv_reach: "reach init stp s \<Longrightarrow> inv s"
  by (induction rule: reach.induct) (auto intro: inv_init inv_step)

lemma inv_steps: "stp\<^sup>*\<^sup>* s s' \<Longrightarrow> inv s \<Longrightarrow> inv s'"
  by (induction rule: rtranclp_induct) (auto intro: inv_step)

end

end
