(* ===== verification/Store_Machine.thy ===== *)
theory Store_Machine
  imports Store_Alerts Transition
begin

text \<open>
  The store as a state machine: \<open>store_step\<close> has one rule for every method of \<open>Store\<close> that writes.
  The steps are complete calls. A method whose first statement fails leaves the database unchanged and is no step; the
  few methods that write in two statements may also be cut off between them, which is a step of its own in
  \<open>Store_Migrate\<close>. The random ids and
  tokens, the clock readings and the password and key hashes are arbitrary arguments of the rules.
\<close>

inductive store_step :: "'p db \<Rightarrow> 'p db \<Rightarrow> bool" where
  "CreateTenant i n d = Inr d' \<Longrightarrow> store_step d d'"
| "store_step d (DeleteTenant t d)"
| "CreateUser bc i t u p a d = Inr d' \<Longrightarrow> store_step d d'"
| "SetPassword bc u p d = Inr d' \<Longrightarrow> store_step d d'"
| "store_step d (DeleteUser u d)"
| "CreateSession k now u d = Inr d' \<Longrightarrow> store_step d d'"
| "store_step d (DeleteSession k d)"
| "CreateAPIKey h i raw now u n d = Inr (sec, d') \<Longrightarrow> store_step d d'"
| "DeleteAPIKey k u d = Inr d' \<Longrightarrow> store_step d d'"
| "store_step d (snd (DeleteAPIKeysForUser u d))"
| "store_step d (snd (APIKeyUser h now sec d))"
| "CreateSite i t n d = Inr d' \<Longrightarrow> store_step d d'"
| "store_step d (DeleteSite u d)"
| "SetSiteTests si ts d = Inr d' \<Longrightarrow> store_step d d'"
| "CreateTest i td d = Inr (td', d') \<Longrightarrow> store_step d d'"
| "UpdateTest td d = Inr d' \<Longrightarrow> store_step d d'"
| "store_step d (DeleteTest u d)"
| "UpsertUnclaimedAgent i now t c v ca nf d = Inr d' \<Longrightarrow> store_step d d'"
| "store_step d (DeleteUnclaimedAgent u d)"
| "store_step d (snd (SetTenantEnrollToken k t d))"
| "store_step d (RevokeTenantEnrollToken t d)"
| "CreateAgent i k t s n d = Inr (ag, d') \<Longrightarrow> store_step d d'"
| "store_step d (DeleteAgent u d)"
| "UpdateAgent u n s d = Inr d' \<Longrightarrow> store_step d d'"
| "store_step d (SetAgentVersion u v d)"
| "store_step d (SetAgentPerfmonReflector u en port ifc cidrs d)"
| "store_step d (SetAgentWlanSensorInterface u ifc d)"
| "store_step d (SetAgentNetworkInterfaces u rw d)"
| "store_step d (SetAgentCapabilities u rw d)"
| "store_step d (SetAgentStats u st d)"
| "AddResult r d = Inr d' \<Longrightarrow> store_step d d'"
| "AddPathChange pc d = Inr d' \<Longrightarrow> store_step d d'"
| "store_step d (InsertLog le d)"
| "store_step d (SetLogHistory lh d)"
| "CreateAlertRule i ar d = Inr (ar', d') \<Longrightarrow> store_step d d'"
| "store_step d (DeleteAlertRule u d)"
| "store_step d (snd (UpdateAlertRule ar d))"
| "FireAlert now now' ru u su va ms d = Inr (al, d') \<Longrightarrow> store_step d d'"
| "store_step d (ResolveAlert now aid d)"
| "CreateAlertTarget i tg d = Inr (tg', d') \<Longrightarrow> store_step d d'"
| "UpdateAlertTarget tg d = Inr (tg', d') \<Longrightarrow> store_step d d'"
| "store_step d (DeleteAlertTarget u d)"

lemmas ok_ops = ok_CreateTenant ok_DeleteTenant ok_CreateUser ok_SetPassword ok_DeleteUser
  ok_CreateSession ok_DeleteSession ok_CreateAPIKey ok_DeleteAPIKey ok_DeleteAPIKeysForUser
  ok_APIKeyUser ok_CreateSite ok_DeleteSite ok_SetSiteTests ok_CreateTest ok_UpdateTest
  ok_DeleteTest ok_UpsertUnclaimedAgent ok_DeleteUnclaimedAgent ok_SetTenantEnrollToken
  ok_RevokeTenantEnrollToken ok_CreateAgent ok_DeleteAgent ok_UpdateAgent ok_SetAgent
  ok_AddResult ok_AddPathChange ok_InsertLog ok_SetLogHistory ok_CreateAlertRule
  ok_DeleteAlertRule ok_UpdateAlertRule ok_FireAlert ok_ResolveAlert ok_CreateAlertTarget
  ok_UpdateAlertTarget ok_DeleteAlertTarget

lemma store_step_ok: "store_step d d' \<Longrightarrow> db_ok d \<Longrightarrow> db_ok d'"
  by (induction rule: store_step.induct) (blast intro: ok_ops)+

interpretation store: inductive_invariant "\<lambda>d. d = empty_db" store_step db_ok
  by unfold_locales (auto simp: db_ok_empty intro: store_step_ok)

section \<open>Retention\<close>

text \<open>Every history of the database stays within its cap (the log cap is that of the last insert).\<close>

definition histories_bounded :: "'p db \<Rightarrow> bool" where
  "histories_bounded d \<longleftrightarrow>
     (\<forall>r. length (filter (result_scope r) (rows (results d))) \<le> resultsPerTest)
     \<and> (\<forall>c. length (filter (path_scope c) (rows (path_changes d))) \<le> pathChangesPerTest)"

text \<open>Operations that only delete rows of the two tables, or leave them alone.\<close>

definition shrinks :: "'p db \<Rightarrow> 'p db \<Rightarrow> bool" where
  "shrinks d d' \<longleftrightarrow> (\<exists>P. rows (results d') = filter P (rows (results d)))
     \<and> (\<exists>P. rows (path_changes d') = filter P (rows (path_changes d)))"

lemma shrinks_same:
  assumes "results d' = results d" "path_changes d' = path_changes d"
  shows "shrinks d d'"
  unfolding shrinks_def assms by (auto intro: exI [of _ "\<lambda>_. True"])

lemma shrinks_trans [trans]: "shrinks d1 d2 \<Longrightarrow> shrinks d2 d3 \<Longrightarrow> shrinks d1 d3"
  unfolding shrinks_def by (metis filter_filter)

lemma length_filter_filter: "length (filter Q (filter P rs)) \<le> length (filter Q rs)"
  by (induction rs) auto

lemma shrinks_bounded: "shrinks d d' \<Longrightarrow> histories_bounded d \<Longrightarrow> histories_bounded d'"
  unfolding histories_bounded_def shrinks_def
  by (elim conjE exE) (auto intro: le_trans [OF length_filter_filter] simp del: filter_filter)

lemma shrinks_agents: "shrinks d (cascade_agents A d)"
  by (auto simp: shrinks_def cascade_agents_def)

lemma shrinks_sites: "shrinks d (cascade_sites S d)"
  unfolding cascade_sites_def Let_def
  by (rule shrinks_trans [OF shrinks_agents shrinks_same]) simp_all

lemma shrinks_rules: "shrinks d (cascade_rules R d)"
  by (simp add: cascade_rules_def shrinks_same)

lemma shrinks_tests: "shrinks d (cascade_tests T d)"
  by (simp add: cascade_tests_def cascade_rules_def Let_def shrinks_same)

lemma shrinks_users: "shrinks d (cascade_users U d)"
  by (simp add: cascade_users_def shrinks_same)

lemma shrinks_drop_tenant: "shrinks d (drop_tenant t d)"
  by (simp add: drop_tenant_def shrinks_same)

lemma shrinks_tenant: "shrinks d (cascade_tenant t d)"
  unfolding cascade_tenant_eq clear_tenant_def Let_def
  by (rule shrinks_users
      shrinks_drop_tenant [THEN [2] shrinks_trans] shrinks_rules [THEN [2] shrinks_trans]
      shrinks_agents [THEN [2] shrinks_trans] shrinks_tests [THEN [2] shrinks_trans]
      shrinks_sites [THEN [2] shrinks_trans])+

lemmas shrinks_intros = shrinks_agents shrinks_sites shrinks_rules shrinks_tests shrinks_users
  shrinks_tenant

text \<open>The only steps that do not shrink the two tables are the two inserts.\<close>

lemma insert_site_tests_same:
  "insert_site_tests si ts d = Inr d' \<Longrightarrow> results d' = results d \<and> path_changes d' = path_changes d"
  by (induction si ts d rule: insert_site_tests.induct) (auto split: if_splits)

lemma shrinks_tenancy:
  "CreateTenant i n d = Inr d' \<Longrightarrow> shrinks d d'"
  "CreateUser bc i t u p a d = Inr d' \<Longrightarrow> shrinks d d'"
  "SetPassword bc u p d = Inr d' \<Longrightarrow> shrinks d d'"
  "CreateSession k now u d = Inr d' \<Longrightarrow> shrinks d d'"
  "CreateAPIKey h i raw now u n d = Inr (sec, d') \<Longrightarrow> shrinks d d'"
  "DeleteAPIKey k u d = Inr d' \<Longrightarrow> shrinks d d'"
  "CreateSite i t n d = Inr d' \<Longrightarrow> shrinks d d'"
  "CreateTest i td d = Inr (td', d') \<Longrightarrow> shrinks d d'"
  "UpdateTest td d = Inr d' \<Longrightarrow> shrinks d d'"
  "UpsertUnclaimedAgent i now t c v ca nf d = Inr d' \<Longrightarrow> shrinks d d'"
  by (auto simp: CreateTenant_def CreateUser_def SetPassword_def CreateSession_def CreateAPIKey_def
      DeleteAPIKey_def CreateSite_def CreateTest_def UpdateTest_def UpsertUnclaimedAgent_def Let_def
      intro!: shrinks_same split: if_splits sum.splits option.splits)

lemma shrinks_agents_alerts:
  "CreateAgent i k t s n d = Inr (ag, d') \<Longrightarrow> shrinks d d'"
  "UpdateAgent u n s d = Inr d' \<Longrightarrow> shrinks d d'"
  "CreateAlertRule i ar d = Inr (ar', d') \<Longrightarrow> shrinks d d'"
  "FireAlert now now' ru u su va ms d = Inr (al, d') \<Longrightarrow> shrinks d d'"
  "CreateAlertTarget i tg d = Inr (tg', d') \<Longrightarrow> shrinks d d'"
  "UpdateAlertTarget tg d = Inr (tg', d') \<Longrightarrow> shrinks d d'"
  by (auto simp: CreateAgent_def UpdateAgent_def CreateAlertRule_def FireAlert_def
      CreateAlertTarget_def UpdateAlertTarget_def Let_def intro!: shrinks_same split: if_splits)

lemma shrinks_total:
  "shrinks d (DeleteSession k d)" "shrinks d (snd (DeleteAPIKeysForUser u d))"
  "shrinks d (snd (APIKeyUser h now sec d))" "shrinks d (DeleteUnclaimedAgent u d)"
  "shrinks d (snd (SetTenantEnrollToken k t d))" "shrinks d (RevokeTenantEnrollToken t d)"
  "shrinks d (set_agent u hh d)" "shrinks d (InsertLog le d)" "shrinks d (SetLogHistory lh d)"
  "shrinks d (snd (UpdateAlertRule ar d))" "shrinks d (ResolveAlert now aid d)"
  "shrinks d (DeleteAlertTarget u d)"
  by (simp_all add: DeleteSession_def DeleteAPIKeysForUser_def APIKeyUser_def DeleteUnclaimedAgent_def
      SetTenantEnrollToken_def RevokeTenantEnrollToken_def set_agent_def InsertLog_def
      SetLogHistory_def UpdateAlertRule_def ResolveAlert_def DeleteAlertTarget_def Let_def
      shrinks_same split: option.split)

lemma shrinks_SetSiteTests: "SetSiteTests si ts d = Inr d' \<Longrightarrow> shrinks d d'"
  unfolding SetSiteTests_def by (auto dest!: insert_site_tests_same intro: shrinks_same)

lemma shrinks_deletes:
  "shrinks d (DeleteTenant u d)" "shrinks d (DeleteUser u d)" "shrinks d (DeleteSite u d)"
  "shrinks d (DeleteTest u d)" "shrinks d (DeleteAgent u d)" "shrinks d (DeleteAlertRule u d)"
  by (simp_all add: DeleteTenant_def DeleteUser_def DeleteSite_def DeleteTest_def DeleteAgent_def
      DeleteAlertRule_def shrinks_intros)

lemma store_step_shrinks:
  assumes "store_step d d'"
  shows "shrinks d d' \<or> (\<exists>r. AddResult r d = Inr d') \<or> (\<exists>c. AddPathChange c d = Inr d')"
  using assms
  by cases (auto simp: shrinks_total shrinks_deletes set_agent_defs
      dest: shrinks_tenancy shrinks_agents_alerts shrinks_SetSiteTests)

lemma filter_add_result:
  assumes "wf_table re_ID t"
  shows "length (filter (result_scope y) (rows (add_result x t)))
           \<le> max resultsPerTest (length (filter (result_scope y) (rows t)))"
  using result_history.add_scope [OF assms, of x] result_history.add_frame [of y x t]
  by (cases "result_scope y = result_scope x") auto

lemma filter_add_path:
  assumes "wf_table pc_ID t"
  shows "length (filter (path_scope y) (rows (add_path_change x t)))
           \<le> max pathChangesPerTest (length (filter (path_scope y) (rows t)))"
  using path_history.add_scope [OF assms, of x] path_history.add_frame [of y x t]
  by (cases "path_scope y = path_scope x") auto

lemma store_step_bounded:
  assumes "store_step d d'" "db_ok d" "histories_bounded d"
  shows "histories_bounded d'"
  using store_step_shrinks [OF assms(1)]
proof (elim disjE exE)
  assume "shrinks d d'"
  then show ?thesis using assms(3) by (rule shrinks_bounded)
next
  fix r assume r: "AddResult r d = Inr d'"
  have "wf_table re_ID (results d)" using assms(2) by (simp add: db_ok_def ok_results_def)
  note b = filter_add_result [OF this]
  from r have "d' = d\<lparr>results := add_result r (results d)\<rparr>" by (auto simp: AddResult_def split: if_splits)
  with assms(3) b show ?thesis by (simp add: histories_bounded_def max_absorb1)
next
  fix c assume c: "AddPathChange c d = Inr d'"
  have "wf_table pc_ID (path_changes d)" using assms(2) by (simp add: db_ok_def ok_path_changes_def)
  note b = filter_add_path [OF this]
  from c have "d' = d\<lparr>path_changes := add_path_change c (path_changes d)\<rparr>"
    by (auto simp: AddPathChange_def split: if_splits)
  with assms(3) b show ?thesis by (simp add: histories_bounded_def max_absorb1)
qed

lemma histories_bounded_empty: "histories_bounded empty_db"
  by (simp add: histories_bounded_def empty_db_def empty_table_def)

interpretation store_bounds: inductive_invariant "\<lambda>d. d = empty_db" store_step
  "\<lambda>d. db_ok d \<and> histories_bounded d"
  by unfold_locales
    (auto simp: db_ok_empty histories_bounded_empty intro: store_step_ok store_step_bounded)

end
