(* ===== verification/Sample_Data.thy ===== *)
theory Sample_Data
  imports Store_Machine
begin

text \<open>
  A small concrete database, one tenant with one site, one ping test, one agent and one alert rule,
  on which the witnesses of the properties evaluate.
\<close>

definition demo_tenant :: Tenant where
  "demo_tenant = \<lparr>tn_ID = ''t1'', tn_Name = ''acme'', tn_EnrollToken = ''tok''\<rparr>"

definition demo_site :: Site where
  "demo_site = \<lparr>si_ID = ''s1'', si_TenantID = ''t1'', si_Name = ''hq''\<rparr>"

definition demo_test :: TestDef where
  "demo_test = \<lparr>td_ID = ''x1'', td_TenantID = ''t1'', td_Name = ''gw'', td_Type = ''ping'',
     td_IntervalSeconds = 60, td_Params = Raw (JObj [(''targets'', JArr [JStr ''10.0.0.1''])]),
     td_Thresholds = RawEmpty\<rparr>"

definition demo_agent :: Agent where
  "demo_agent = \<lparr>ag_ID = ''a1'', ag_TenantID = ''t1'', ag_SiteID = ''s1'', ag_SiteName = '''',
     ag_Name = ''pi'', ag_Token = ''secret'', ag_NetworkInterfaces = RawEmpty, ag_Capabilities = RawEmpty,
     ag_Stats = RawEmpty, ag_Version = '''', ag_WlanSensorInterface = '''',
     ag_PerfmonReflectorEnabled = False, ag_PerfmonReflectorPort = 0,
     ag_PerfmonReflectorInterface = '''', ag_PerfmonAllowedCIDRs = RawEmpty\<rparr>"

definition demo_rule :: AlertRule where
  "demo_rule = \<lparr>ar_ID = ''r1'', ar_TenantID = ''t1'', ar_TestID = ''x1'', ar_TestName = '''',
     ar_Name = ''gw down'', ar_Metric = ''unhealthy'', ar_Operator = ''>'', ar_Threshold = 0,
     ar_ForCount = 2, ar_ClearThreshold = None, ar_ClearCount = 1, ar_TargetIds = [],
     ar_WebhookURL = ''''\<rparr>"

definition demo_db :: "'p db" where
  "demo_db = empty_db\<lparr>tenants := [demo_tenant], sites := [demo_site], tests := [demo_test],
     site_tests := [(''s1'', ''x1'')], agents := [demo_agent], alert_rules := [demo_rule]\<rparr>"

lemmas demo_defs = demo_tenant_def demo_site_def demo_test_def demo_agent_def demo_rule_def

lemma demo_db_simps [simp]:
  "tenants demo_db = [demo_tenant]" "users demo_db = []" "sessions demo_db = []"
  "sites demo_db = [demo_site]" "tests demo_db = [demo_test]" "site_tests demo_db = [(''s1'', ''x1'')]"
  "agents demo_db = [demo_agent]" "results demo_db = empty_table" "path_changes demo_db = empty_table"
  "alert_rules demo_db = [demo_rule]" "alerts demo_db = empty_table" "logs demo_db = empty_table"
  "api_keys demo_db = []" "unclaimed_agents demo_db = []" "alert_targets demo_db = []"
  "logHistory demo_db = 1000"
  by (simp_all add: demo_db_def empty_db_def)

lemma rows_empty_table [simp]: "rows empty_table = []" "last_id empty_table = 0"
  by (simp_all add: empty_table_def)

lemma demo_db_ok: "db_ok demo_db"
  by (simp add: db_ok_def ok_defs uniq_def refs_def demo_defs)

end
