(* ===== verification/Store_Properties.thy ===== *)
theory Store_Properties
  imports Sample_Data
begin

text \<open>
  What the store guarantees: the schema's constraints and the retention bounds in every reachable
  state, the bounded histories as tails of an unbounded log, tenant isolation of the listings,
  deletion of a tenant, sessions and API keys.
\<close>

section \<open>Reachable databases\<close>

text \<open>
  C4. Every database the store can reach from an empty one, by any sequence of its writing methods,
  satisfies all primary keys, unique constraints and foreign keys of the schema, and never holds
  more than 5000 results or 500 path changes for one agent and test.
\<close>

theorem reachable_store_ok:
  assumes "reach (\<lambda>d. d = empty_db) store_step d"
  shows "db_ok d \<and> length (filter (result_scope r) (rows (results d))) \<le> 5000
           \<and> length (filter (path_scope c) (rows (path_changes d))) \<le> 500"
  using store_bounds.inv_reach [OF assms]
  by (simp add: histories_bounded_def resultsPerTest_def pathChangesPerTest_def)

theorem reachable_store_ok_witness:
  "db_ok (SetLogHistory 7 (empty_db :: TestResult db))"
proof -
  have "reach (\<lambda>d. d = empty_db) store_step (SetLogHistory 7 (empty_db :: TestResult db))"
    by (rule reach_step [OF reach_init]) (auto intro: store_step.intros)
  from reachable_store_ok [OF this] show ?thesis by blast
qed

section \<open>Histories\<close>

text \<open>
  C7. The stored results of an agent and test are, in order, exactly the newest 5000 of all the
  results ever added for them, whatever was added for other agents and tests in between.
\<close>

theorem results_are_newest:
  "filter (result_scope r) (rows (fold add_result xs empty_table)) =
     last_n 5000 (scope_log result_row (result_scope r) xs 0)"
proof -
  have "length (filter (result_scope r) (rows (fold add_result xs empty_table))) \<le> resultsPerTest"
    by (rule result_history.run_scope_bound) simp_all
  then show ?thesis
    using result_history.run_scope_log [OF wf_table_empty, of xs r]
    by (simp add: resultsPerTest_def)
qed

section \<open>Tenant isolation\<close>

text \<open>
  C8. A result listing returns only results of agents of the tenant asked for, at most 2000 of them,
  newest first, and all within the optional site, agent, test and type filters.
\<close>

theorem ListResults_isolated:
  "list_all (\<lambda>r. case agent_of d (re_AgentID r) of None \<Rightarrow> False | Some a \<Rightarrow> ag_TenantID a = rf_TenantID f)
       (ListResults f d)
   \<and> set (ListResults f d) \<subseteq> {r \<in> set (rows (results d)). result_matches d f r}
   \<and> length (ListResults f d) \<le> 2000 \<and> sorted (rev (map re_ID (ListResults f d)))"
proof -
  have m: "r \<in> set (rows (results d)) \<and> result_matches d f r" if "r \<in> set (ListResults f d)" for r
    using that set_select_desc unfolding ListResults_def by fastforce
  have "length (ListResults f d) \<le> 2000"
    using length_select_desc [of re_ID "result_matches d f" "clamp_limit 2000 100 (rf_Limit f)" "rows (results d)"]
      clamp_limit_le [of 100 2000 "rf_Limit f"] by (simp add: ListResults_def)
  moreover have "sorted (rev (map re_ID (ListResults f d)))"
    using sorted_select_desc [of re_ID "result_matches d f" "clamp_limit 2000 100 (rf_Limit f)" "rows (results d)"]
    by (simp add: ListResults_def rev_map)
  moreover have "case agent_of d (re_AgentID r) of None \<Rightarrow> False | Some a \<Rightarrow> ag_TenantID a = rf_TenantID f"
    if "r \<in> set (ListResults f d)" for r
    using m [OF that] by (simp add: result_matches_def split: option.splits)
  ultimately show ?thesis using m unfolding list_all_iff by blast
qed

section \<open>Deleting a tenant\<close>

text \<open>Sites hold agents of their own tenant, and rules watch tests of their own tenant.\<close>

definition tenant_consistent :: "'p db \<Rightarrow> bool" where
  "tenant_consistent d \<longleftrightarrow>
     (\<forall>a \<in> set (agents d). \<forall>s \<in> set (sites d). si_ID s = ag_SiteID a \<longrightarrow> si_TenantID s = ag_TenantID a)
     \<and> (\<forall>r \<in> set (alert_rules d). \<forall>t \<in> set (tests d). td_ID t = ar_TestID r \<longrightarrow> td_TenantID t = ar_TenantID r)"

text \<open>
  The database without a tenant, table by table: its own rows go, and with them what refers to them. The lines of
  the log stay: their tenant is a plain column, no foreign key.
\<close>

definition without_tenant :: "string \<Rightarrow> 'p db \<Rightarrow> 'p db" where
  "without_tenant t d =
     (let us = us_ID ` {u \<in> set (users d). us_Tenant u \<noteq> Some t}; ss = si_ID ` {s \<in> set (sites d). si_TenantID s \<noteq> t};
          ts = td_ID ` {x \<in> set (tests d). td_TenantID x \<noteq> t}; as = ag_ID ` {a \<in> set (agents d). ag_TenantID a \<noteq> t};
          rs = ar_ID ` {r \<in> set (alert_rules d). ar_TenantID r \<noteq> t}
      in \<lparr>tenants = filter (\<lambda>x. tn_ID x \<noteq> t) (tenants d),
          users = filter (\<lambda>u. us_Tenant u \<noteq> Some t) (users d),
          sessions = filter (\<lambda>x. sn_UserID x \<in> us) (sessions d),
          sites = filter (\<lambda>s. si_TenantID s \<noteq> t) (sites d),
          tests = filter (\<lambda>x. td_TenantID x \<noteq> t) (tests d),
          site_tests = filter (\<lambda>p. fst p \<in> ss \<and> snd p \<in> ts) (site_tests d),
          agents = filter (\<lambda>a. ag_TenantID a \<noteq> t) (agents d),
          results = (results d)\<lparr>rows := filter (\<lambda>r. re_AgentID r \<in> as) (rows (results d))\<rparr>,
          path_changes = (path_changes d)\<lparr>rows := filter (\<lambda>c. pc_AgentID c \<in> as) (rows (path_changes d))\<rparr>,
          alert_rules = filter (\<lambda>r. ar_TenantID r \<noteq> t) (alert_rules d),
          alerts = (alerts d)\<lparr>rows := filter (\<lambda>a. al_AgentID a \<in> as \<and> al_RuleID a \<in> rs) (rows (alerts d))\<rparr>,
          logs = logs d,
          api_keys = filter (\<lambda>k. ak_UserID k \<in> us) (api_keys d),
          unclaimed_agents = filter (\<lambda>u. un_TenantID u \<noteq> t) (unclaimed_agents d),
          alert_targets = filter (\<lambda>x. at_TenantID x \<noteq> t) (alert_targets d),
          logHistory = logHistory d\<rparr>)"

lemma uniq_image: "uniq f xs \<Longrightarrow> x \<in> set xs \<Longrightarrow> f x \<in> f ` {y \<in> set xs. P y} \<longleftrightarrow> P x"
  by (auto simp: uniq_def distinct_map inj_on_def)

lemma refs_image:
  assumes "uniq g ss" "refs f rs g ss" "r \<in> set rs"
  shows "f r \<notin> g ` {y \<in> set ss. P y} \<longleftrightarrow> f r \<in> g ` {y \<in> set ss. \<not> P y}"
proof -
  obtain s where "s \<in> set ss" "f r = g s"
    using assms(2,3) by (auto simp: refs_def)
  then show ?thesis
    using uniq_image [OF assms(1), of s P] uniq_image [OF assms(1), of s "\<lambda>y. \<not> P y"] by simp
qed

lemma cascade_nothing: "cascade_agents {} d = d" "cascade_rules {} d = d"
  by (simp_all add: cascade_agents_def cascade_rules_def delete_rows_def)

text \<open>In a consistent database the agents of a tenant's sites are its agents, and the rules on its tests its rules.\<close>

lemma cascade_tenant_plain:
  assumes "db_ok d" "tenant_consistent d"
  shows "cascade_tenant t d =
     (let us = us_ID ` {u \<in> set (users d). us_Tenant u = Some t}; ss = si_ID ` {s \<in> set (sites d). si_TenantID s = t};
          ts = td_ID ` {x \<in> set (tests d). td_TenantID x = t}; as = ag_ID ` {a \<in> set (agents d). ag_TenantID a = t};
          rs = ar_ID ` {r \<in> set (alert_rules d). ar_TenantID r = t}
      in d\<lparr>tenants := filter (\<lambda>x. tn_ID x \<noteq> t) (tenants d), users := filter (\<lambda>u. us_ID u \<notin> us) (users d),
          sessions := filter (\<lambda>x. sn_UserID x \<notin> us) (sessions d), sites := filter (\<lambda>s. si_ID s \<notin> ss) (sites d),
          tests := filter (\<lambda>x. td_ID x \<notin> ts) (tests d), site_tests := filter (\<lambda>p. fst p \<notin> ss \<and> snd p \<notin> ts) (site_tests d),
          agents := filter (\<lambda>a. ag_ID a \<notin> as) (agents d),
          results := delete_rows (\<lambda>r. re_AgentID r \<in> as) (results d), path_changes := delete_rows (\<lambda>c. pc_AgentID c \<in> as) (path_changes d),
          alert_rules := filter (\<lambda>r. ar_ID r \<notin> rs) (alert_rules d),
          alerts := delete_rows (\<lambda>a. al_AgentID a \<in> as \<or> al_RuleID a \<in> rs) (alerts d),
          api_keys := filter (\<lambda>k. ak_UserID k \<notin> us) (api_keys d),
          unclaimed_agents := filter (\<lambda>u. un_TenantID u \<noteq> t) (unclaimed_agents d),
          alert_targets := filter (\<lambda>x. at_TenantID x \<noteq> t) (alert_targets d)\<rparr>)"
proof -
  let ?S = "si_ID ` {s \<in> set (sites d). si_TenantID s = t}" and ?T = "td_ID ` {x \<in> set (tests d). td_TenantID x = t}"
  let ?A = "ag_ID ` {a \<in> set (agents d). ag_TenantID a = t}" and ?R = "ar_ID ` {r \<in> set (alert_rules d). ar_TenantID r = t}"
  have agent: "ag_SiteID a \<in> ?S \<longleftrightarrow> ag_TenantID a = t" if a: "a \<in> set (agents d)" for a
  proof -
    obtain s where "s \<in> set (sites d)" "si_ID s = ag_SiteID a"
      using assms(1) a by (force simp: db_ok_def ok_agents_def refs_def)
    then show ?thesis
      using assms(2) a by (auto simp: tenant_consistent_def image_iff)
  qed
  have rule: "ar_TestID r \<in> ?T \<longleftrightarrow> ar_TenantID r = t" if r: "r \<in> set (alert_rules d)" for r
  proof -
    obtain x where "x \<in> set (tests d)" "td_ID x = ar_TestID r"
      using assms(1) r by (force simp: db_ok_def ok_alert_rules_def refs_def)
    then show ?thesis
      using assms(2) r by (auto simp: tenant_consistent_def image_iff)
  qed
  have sets: "ag_ID ` {a \<in> set (agents d). ag_SiteID a \<in> ?S} = ?A" "ar_ID ` {r \<in> set (alert_rules d). ar_TestID r \<in> ?T} = ?R"
    using agent rule by (auto intro!: image_cong)
  let ?U = "us_ID ` {u \<in> set (users d). us_Tenant u = Some t}"
  let ?d1 = "d\<lparr>users := filter (\<lambda>u. us_ID u \<notin> ?U) (users d), sessions := filter (\<lambda>x. sn_UserID x \<notin> ?U) (sessions d),
      api_keys := filter (\<lambda>k. ak_UserID k \<notin> ?U) (api_keys d)\<rparr>"
  let ?d2 = "?d1\<lparr>agents := filter (\<lambda>a. ag_ID a \<notin> ?A) (agents d), results := delete_rows (\<lambda>r. re_AgentID r \<in> ?A) (results d),
      path_changes := delete_rows (\<lambda>c. pc_AgentID c \<in> ?A) (path_changes d), alerts := delete_rows (\<lambda>a. al_AgentID a \<in> ?A) (alerts d),
      sites := filter (\<lambda>s. si_ID s \<notin> ?S) (sites d), site_tests := filter (\<lambda>p. fst p \<notin> ?S) (site_tests d)\<rparr>"
  let ?d3 = "?d2\<lparr>alert_rules := filter (\<lambda>r. ar_ID r \<notin> ?R) (alert_rules d),
      alerts := delete_rows (\<lambda>a. al_AgentID a \<in> ?A \<or> al_RuleID a \<in> ?R) (alerts d), tests := filter (\<lambda>x. td_ID x \<notin> ?T) (tests d),
      site_tests := filter (\<lambda>p. fst p \<notin> ?S \<and> snd p \<notin> ?T) (site_tests d)\<rparr>"
  have 1: "cascade_users ?U d = ?d1"
    by (simp add: cascade_users_def)
  have 2: "cascade_sites ?S ?d1 = ?d2"
    unfolding cascade_sites_def cascade_agents_def Let_def by (simp add: sets)
  have 3: "cascade_tests ?T ?d2 = ?d3"
    unfolding cascade_tests_def cascade_rules_def Let_def by (simp add: sets delete_rows_def)
  have 4: "ag_ID ` {a \<in> set (agents ?d3). ag_TenantID a = t} = {}" and 5: "ar_ID ` {r \<in> set (alert_rules ?d3). ar_TenantID r = t} = {}"
    by auto
  have sel: "sites ?d1 = sites d" "tests ?d2 = tests d"
    by simp_all
  show ?thesis
    unfolding cascade_tenant_def by (simp only: Let_def 1 2 3 4 5 cascade_nothing sel) simp
qed

text \<open>
  C16. Deleting a tenant removes what belongs to it and nothing else, in every table: what is left of each is exactly the
  rows of the other tenants, in their order, with the sessions and keys of their users, the results, path changes and
  alerts of their agents and the links of their sites. Only log lines stay, those of the tenant too. The constraints hold
  on.
\<close>

theorem DeleteTenant_exact:
  assumes "db_ok d" "tenant_consistent d"
  shows "DeleteTenant t d = without_tenant t d \<and> db_ok (DeleteTenant t d)"
proof -
  have keys: "uniq us_ID (users d)" "uniq si_ID (sites d)" "uniq td_ID (tests d)" "uniq ag_ID (agents d)" "uniq ar_ID (alert_rules d)"
    using assms(1) by (simp_all add: db_ok_def ok_defs)
  have links: "refs sn_UserID (sessions d) us_ID (users d)" "refs ak_UserID (api_keys d) us_ID (users d)"
      "refs fst (site_tests d) si_ID (sites d)" "refs snd (site_tests d) td_ID (tests d)"
      "refs re_AgentID (rows (results d)) ag_ID (agents d)" "refs pc_AgentID (rows (path_changes d)) ag_ID (agents d)"
      "refs al_RuleID (rows (alerts d)) ar_ID (alert_rules d)" "refs al_AgentID (rows (alerts d)) ag_ID (agents d)"
    using assms(1) by (simp_all add: db_ok_def ok_defs)
  note others = keys(1) [THEN refs_image, OF links(1), of _ "\<lambda>u. us_Tenant u = Some t", symmetric] keys(1) [THEN refs_image, OF links(2), of _ "\<lambda>u. us_Tenant u = Some t", symmetric]
    keys(2) [THEN refs_image, OF links(3), of _ "\<lambda>s. si_TenantID s = t", symmetric] keys(3) [THEN refs_image, OF links(4), of _ "\<lambda>x. td_TenantID x = t", symmetric]
    keys(4) [THEN refs_image, OF links(5), of _ "\<lambda>a. ag_TenantID a = t", symmetric] keys(4) [THEN refs_image, OF links(6), of _ "\<lambda>a. ag_TenantID a = t", symmetric]
    keys(4) [THEN refs_image, OF links(8), of _ "\<lambda>a. ag_TenantID a = t", symmetric] keys(5) [THEN refs_image, OF links(7), of _ "\<lambda>r. ar_TenantID r = t", symmetric]
  have "DeleteTenant t d = without_tenant t d"
    unfolding DeleteTenant_def cascade_tenant_plain [OF assms] without_tenant_def Let_def
    by (rule db.equality)
      (simp_all add: delete_rows_def keys [THEN uniq_image] others cong: filter_cong)
  then show ?thesis
    using ok_DeleteTenant [OF assms(1), of t] by simp
qed

theorem DeleteTenant_exact_witness:
  "agents (DeleteTenant ''t1'' (demo_db :: TestResult db)) = []
   \<and> agents (DeleteTenant ''t2'' (demo_db :: TestResult db)) = [demo_agent]"
proof -
  have "tenant_consistent (demo_db :: TestResult db)" by (simp add: tenant_consistent_def demo_defs)
  note D = DeleteTenant_exact [OF demo_db_ok this]
  show ?thesis using D [of "''t1''"] D [of "''t2''"] by (simp add: without_tenant_def Let_def demo_defs)
qed

section \<open>Passwords, sessions and API keys\<close>

lemma find_user:
  assumes "db_ok d" "x \<in> set (users d)"
  shows "find (\<lambda>u. us_ID u = us_ID x) (users d) = Some x"
    and "find (\<lambda>u. us_Username u = us_Username x) (users d) = Some x"
  using assms by (simp_all add: db_ok_def ok_users_def find_uniq)

lemma find_update_where:
  "(\<And>r. Q (h r) = Q r) \<Longrightarrow> find Q (update_where P h rs) = map_option (\<lambda>r. if P r then h r else r) (find Q rs)"
  by (induction rs) (auto simp: update_where_def)

lemma find_Cons_append: "find P xs = None \<Longrightarrow> find P (xs @ ys) = find P ys"
  by (induction xs) (auto split: if_splits)

lemma find_None_key: "\<not> has_key f k rs \<Longrightarrow> find (\<lambda>x. f x = k \<and> Q x) rs = None"
  by (auto simp: has_key_def find_None_iff)

text \<open>
  A password reset locks out whoever was logged in: afterwards no session token of that user is
  valid, and the user can log in with the new password. bcrypt is a parameter, with the law that a
  hash it generates matches the password it was generated from.
\<close>

theorem SetPassword_locks_out:
  assumes "db_ok d" "x \<in> set (users d)" "SetPassword bcrypt (us_ID x) p d = Inr d'"
    and bcrypt_law: "\<And>pw h. bcrypt pw = Inr h \<Longrightarrow> compareHash h pw"
  shows "(\<forall>now token u. SessionUser now token d' = Inr u \<longrightarrow> u_ID u \<noteq> us_ID x)
           \<and> Authenticate compareHash (us_Username x) p d' = Inr (scan_user x)"
proof -
  from assms(3) obtain h where h: "bcrypt p = Inr h" and d': "d' = d\<lparr>users := update_where (\<lambda>u. us_ID u = us_ID x)
      (\<lambda>u. u\<lparr>us_Hash := h\<rparr>) (users d), sessions := filter (\<lambda>s. sn_UserID s \<noteq> us_ID x) (sessions d)\<rparr>"
    by (auto simp: SetPassword_def split: sum.splits if_splits)
  have "find (\<lambda>u. us_Username u = us_Username x) (users d') = Some (x\<lparr>us_Hash := h\<rparr>)"
    using find_user(2) [OF assms(1,2)] by (simp add: d' find_update_where)
  then have "Authenticate compareHash (us_Username x) p d' = Inr (scan_user x)"
    using bcrypt_law [OF h] by (simp add: Authenticate_def scan_user_def)
  moreover have "u_ID u \<noteq> us_ID x" if "SessionUser now token d' = Inr u" for now token u
    using that by (auto simp: SessionUser_def d' scan_user_def split: option.splits dest!: find_SomeD)
  ultimately show ?thesis by blast
qed

definition demo_user :: user_row where
  "demo_user = \<lparr>us_ID = ''u1'', us_Tenant = Some ''t1'', us_Username = ''bob'', us_Hash = ''old'', us_IsAdmin = False\<rparr>"

definition demo_user_db :: "TestResult db" where
  "demo_user_db = demo_db\<lparr>users := [demo_user],
     sessions := [\<lparr>sn_Token = ''k'', sn_UserID = ''u1'', sn_ExpiresAt = 100\<rparr>]\<rparr>"

lemma demo_user_db_ok: "db_ok demo_user_db"
  by (simp add: db_ok_def ok_defs uniq_def refs_def demo_defs demo_user_db_def demo_user_def)

theorem SetPassword_locks_out_witness:
  "\<exists>d'. SetPassword Inr ''u1'' ''new'' demo_user_db = Inr d'
     \<and> Authenticate (=) ''bob'' ''new'' d' = Inr (scan_user demo_user)"
proof -
  obtain d' where d': "SetPassword Inr (us_ID demo_user) ''new'' demo_user_db = Inr d'"
    by (simp add: SetPassword_def demo_user_db_def has_key_def)
  have "Authenticate (=) (us_Username demo_user) ''new'' d' = Inr (scan_user demo_user)"
    using SetPassword_locks_out [OF demo_user_db_ok _ d', of "(=)"] by (simp add: demo_user_db_def)
  with d' show ?thesis by (auto simp: demo_user_def)
qed

text \<open>
  A session token resolves to the user it was created for until seven days after its creation,
  and to nobody from then on.
\<close>

theorem session_lifetime:
  assumes "db_ok d" "x \<in> set (users d)" "CreateSession token now (us_ID x) d = Inr d'"
  shows "SessionUser t token d' =
           (if t < now + 7 * 24 * 60 * minute then Inr (scan_user x) else Inl ErrNotFound)"
proof -
  from assms(3) have d': "d' = d\<lparr>sessions := sessions d @ [\<lparr>sn_Token = token, sn_UserID = us_ID x,
      sn_ExpiresAt = now + sessionLifetime\<rparr>]\<rparr>" and new: "\<not> has_key sn_Token token (sessions d)"
    by (auto simp: CreateSession_def split: if_splits)
  have "find (\<lambda>s. sn_Token s = token \<and> sn_ExpiresAt s > t) (sessions d) = None"
    using find_None_key [OF new] .
  then show ?thesis
    using find_user(1) [OF assms(1,2)]
    by (simp add: SessionUser_def d' find_Cons_append sessionLifetime_def)
qed

theorem session_lifetime_witness:
  "\<exists>d'. CreateSession ''k2'' 0 ''u1'' demo_user_db = Inr d' \<and> SessionUser 5 ''k2'' d' = Inr (scan_user demo_user)"
proof -
  obtain d' where d': "CreateSession ''k2'' 0 (us_ID demo_user) demo_user_db = Inr d'"
    by (simp add: CreateSession_def demo_user_db_def has_key_def)
  have "SessionUser 5 ''k2'' d' = Inr (scan_user demo_user)"
    using session_lifetime [OF demo_user_db_ok _ d', of 5] by (simp add: demo_user_db_def minute_def second_def)
  with d' show ?thesis by (auto simp: demo_user_def)
qed

text \<open>
  An API key works for the user it was created for from the moment it is created, and stops
  working as soon as that user deletes it. The digest is an arbitrary function.
\<close>

theorem api_key_lifecycle:
  assumes "db_ok d" "x \<in> set (users d)" "CreateAPIKey digest kid raw now (us_ID x) nm d = Inr (secret, d')"
  shows "fst (APIKeyUser digest t secret d') = Inr (scan_user x)
           \<and> (\<exists>d''. DeleteAPIKey kid (us_ID x) d' = Inr d'' \<and> fst (APIKeyUser digest t secret d'') = Inl ErrNotFound)"
proof -
  define row where "row = \<lparr>ak_ID = kid, ak_UserID = us_ID x, ak_Name = nm, ak_KeyHash = digest secret,
     ak_Prefix = take apiKeyPrefixLen secret, ak_CreatedAt = now, ak_LastUsedAt = None\<rparr>"
  from assms(3) have d': "d' = d\<lparr>api_keys := api_keys d @ [row]\<rparr>"
    and new: "\<not> has_key ak_KeyHash (digest secret) (api_keys d)" "\<not> has_key ak_ID kid (api_keys d)"
    by (auto simp: CreateAPIKey_def Let_def row_def split: if_splits)
  have none: "find (\<lambda>k. ak_KeyHash k = digest secret \<and> Q k) (api_keys d) = None" for Q
    by (rule find_None_key [OF new(1)])
  have "has_key us_ID (us_ID x) (users d)" using assms(2) by (auto simp: has_key_def)
  then have "fst (APIKeyUser digest t secret d') = Inr (scan_user x)"
    using find_user(1) [OF assms(1,2)] none
    by (simp add: APIKeyUser_def d' find_Cons_append row_def)
  moreover have keep: "filter (\<lambda>k. \<not> (ak_ID k = kid \<and> ak_UserID k = us_ID x)) (api_keys d) = api_keys d"
    using new(2) by (auto simp: has_key_def intro!: filter_True)
  have "DeleteAPIKey kid (us_ID x) d' = Inr d"
    using keep by (simp add: DeleteAPIKey_def d' row_def Let_def)
  moreover have "fst (APIKeyUser digest t secret d) = Inl ErrNotFound"
    using none by (simp add: APIKeyUser_def)
  ultimately show ?thesis by blast
qed

theorem api_key_lifecycle_witness:
  "\<exists>s d'. CreateAPIKey rev ''i'' ''ff'' 0 ''u1'' ''ci'' demo_user_db = Inr (s, d')
     \<and> fst (APIKeyUser rev 1 s d') = Inr (scan_user demo_user)"
proof -
  obtain s d' where d': "CreateAPIKey rev ''i'' ''ff'' 0 (us_ID demo_user) ''ci'' demo_user_db = Inr (s, d')"
    by (simp add: CreateAPIKey_def demo_user_db_def has_key_def Let_def)
  have "fst (APIKeyUser rev 1 s d') = Inr (scan_user demo_user)"
    using api_key_lifecycle [OF demo_user_db_ok _ d'] by (simp add: demo_user_db_def)
  with d' show ?thesis by (auto simp: demo_user_def)
qed

end
