(* ===== verification/Store_Migrate.thy ===== *)
theory Store_Migrate
  imports Store_Properties
begin

text \<open>
  Opening a database (\<open>Open\<close> and \<open>migrate\<close> of \<open>internal/store/store.go\<close>). The first part is the schema: tables are
  created and columns added to whatever an older release left, so a table is its column names and its rows, and a
  row the value of each column. The second part works on the data of the current schema, which is the database of
  \<open>Store_Db\<close>: rules with a webhook get a target, and the tests of two abandoned types go. Every statement commits on
  its own and may fail, so a start that fails leaves what the statements before it did.
\<close>

section \<open>Statements\<close>

text \<open>
  A statement on a database with the number of those run before it. \<open>fails\<close> says which ones the driver refuses, \<open>f\<close> is
  undefined where the statement itself is in error; then the database stays as it is: \<open>Inl\<close>.
\<close>

definition exec :: "(nat \<Rightarrow> bool) \<Rightarrow> ('d \<Rightarrow> 'd option) \<Rightarrow> 'd \<times> nat \<Rightarrow> 'd + 'd \<times> nat" where
  "exec fails f s =
     (case s of (d, n) \<Rightarrow> if fails n then Inl d else case f d of None \<Rightarrow> Inl d | Some d' \<Rightarrow> Inr (d', Suc n))"

fun in_turn :: "('s \<Rightarrow> 'd + 's) list \<Rightarrow> 's \<Rightarrow> 'd + 's" where
  "in_turn [] s = Inr s"
| "in_turn (f # fs) s = (case f s of Inl d \<Rightarrow> Inl d | Inr s' \<Rightarrow> in_turn fs s')"

text \<open>The database that is left, whether all statements were run or one failed.\<close>

definition left_by :: "'d + 'd \<times> nat \<Rightarrow> 'd" where
  "left_by x = (case x of Inl d \<Rightarrow> d | Inr s \<Rightarrow> fst s)"

section \<open>The schema\<close>

datatype sql_value = Sql_Null | Sql_Int int | Sql_Real float64 | Sql_Text string

type_synonym raw_row = "string \<Rightarrow> sql_value"

record raw_table =
  rt_cols :: "string list"
  rt_rows :: "raw_row list"

type_synonym raw_db = "string \<rightharpoonup> raw_table"

definition created_first :: "(string \<times> string list) list" where
  "created_first =
     [(''tenants'', [''id'', ''name'', ''created_at'']),
      (''users'', [''id'', ''tenant_id'', ''username'', ''password_hash'', ''is_admin'', ''created_at'']),
      (''sessions'', [''token'', ''user_id'', ''expires_at'']),
      (''sites'', [''id'', ''tenant_id'', ''name'', ''created_at'']),
      (''tests'', [''id'', ''tenant_id'', ''name'', ''type'', ''interval_seconds'', ''params'']),
      (''site_tests'', [''site_id'', ''test_id'']),
      (''agents'', [''id'', ''tenant_id'', ''site_id'', ''name'', ''token'', ''created_at'']),
      (''results'', [''id'', ''agent_id'', ''test_id'', ''test_name'', ''test_type'', ''time'', ''error'', ''payload'']),
      (''path_changes'', [''id'', ''agent_id'', ''test_id'', ''test_name'', ''time'', ''first_diff_ttl'', ''from_hop'', ''to_hop'',
         ''from_sig'', ''to_sig'', ''scope'', ''from_network'', ''to_network'']),
      (''alert_rules'', [''id'', ''tenant_id'', ''test_id'', ''name'', ''metric'', ''operator'', ''threshold'', ''for_count'',
         ''webhook_url'', ''created_at'']),
      (''alerts'', [''id'', ''rule_id'', ''agent_id'', ''state'', ''value'', ''message'', ''started_at'', ''resolved_at'']),
      (''logs'', [''id'', ''time'', ''tenant_id'', ''agent_id'', ''source'', ''level'', ''message'']),
      (''api_keys'', [''id'', ''user_id'', ''name'', ''key_hash'', ''prefix'', ''created_at'', ''last_used_at''])]"

definition created_later :: "(string \<times> string list) list" where
  "created_later =
     [(''unclaimed_agents'', [''id'', ''tenant_id'', ''client_id'', ''version'', ''capabilities'', ''network_interfaces'', ''first_seen'',
         ''last_seen'']),
      (''alert_targets'', [''id'', ''tenant_id'', ''name'', ''type'', ''config'', ''created_at''])]"

text \<open>The columns added since, with the value they have in the rows that are there.\<close>

definition added_first :: "(string \<times> string \<times> sql_value) list" where
  "added_first =
     [(''results'', ''ok'', Sql_Int 1), (''agents'', ''wlan_interface'', Sql_Text ''''), (''agents'', ''wireless_interfaces'', Sql_Null),
      (''agents'', ''capabilities'', Sql_Null), (''agents'', ''stats'', Sql_Null), (''agents'', ''version'', Sql_Text ''''),
      (''agents'', ''wlan_discovered_at'', Sql_Null), (''agents'', ''perfmon_addr'', Sql_Text ''''),
      (''agents'', ''perfmon_reflector_enabled'', Sql_Int 0), (''agents'', ''perfmon_reflector_port'', Sql_Int 0),
      (''agents'', ''perfmon_advertise_host'', Sql_Text ''''), (''agents'', ''perfmon_allowed_cidrs'', Sql_Null),
      (''agents'', ''management_interface'', Sql_Text ''''), (''agents'', ''perfmon_reflector_interface'', Sql_Text ''''),
      (''logs'', ''scope'', Sql_Text ''''), (''tenants'', ''enroll_token'', Sql_Text '''')]"

definition added_later :: "(string \<times> string \<times> sql_value) list" where
  "added_later =
     [(''alert_rules'', ''clear_threshold'', Sql_Null), (''alert_rules'', ''clear_count'', Sql_Int 1),
      (''alert_rules'', ''target_ids'', Sql_Text ''[]''), (''tests'', ''thresholds'', Sql_Null), (''alerts'', ''subject'', Sql_Text '''')]"

definition create_table :: "string \<times> string list \<Rightarrow> raw_db \<Rightarrow> raw_db option" where
  "create_table tc d =
     Some (case d (fst tc) of None \<Rightarrow> d(fst tc \<mapsto> \<lparr>rt_cols = snd tc, rt_rows = []\<rparr>) | Some _ \<Rightarrow> d)"

definition has_column :: "raw_db \<Rightarrow> string \<Rightarrow> string \<Rightarrow> bool" where
  "has_column d t c = (case d t of None \<Rightarrow> False | Some tb \<Rightarrow> c \<in> set (rt_cols tb))"

definition alter_table :: "string \<Rightarrow> string \<Rightarrow> sql_value \<Rightarrow> raw_db \<Rightarrow> raw_db option" where
  "alter_table t c v d =
     (case d t of
        None \<Rightarrow> None
      | Some tb \<Rightarrow>
          (if c \<in> set (rt_cols tb) then None
           else Some (d(t \<mapsto> \<lparr>rt_cols = rt_cols tb @ [c], rt_rows = map (\<lambda>r. r(c := v)) (rt_rows tb)\<rparr>))))"

definition backfill :: "raw_db \<Rightarrow> raw_db option" where
  "backfill d =
     (if has_column d ''results'' ''ok'' \<and> has_column d ''results'' ''error''
      then map_option (\<lambda>tb. d(''results'' \<mapsto> tb\<lparr>rt_rows :=
             map (\<lambda>r. if r ''error'' \<noteq> Sql_Text '''' then r(''ok'' := Sql_Int 0) else r) (rt_rows tb)\<rparr>)) (d ''results'')
      else None)"

definition addColumnIfMissing ::
  "(nat \<Rightarrow> bool) \<Rightarrow> string \<times> string \<times> sql_value \<Rightarrow> raw_db \<times> nat \<Rightarrow> raw_db + raw_db \<times> nat" where
  "addColumnIfMissing fails tcv s =
     (case tcv of (t, c, v) \<Rightarrow>
        (case exec fails Some s of
           Inl d \<Rightarrow> Inl d
         | Inr s \<Rightarrow> if has_column (fst s) t c then Inr s else in_turn [exec fails (alter_table t c v), exec fails backfill] s))"

definition migrate_schema :: "(nat \<Rightarrow> bool) \<Rightarrow> raw_db \<times> nat \<Rightarrow> raw_db + raw_db \<times> nat" where
  "migrate_schema fails =
     in_turn (map (\<lambda>tc. exec fails (create_table tc)) created_first @ map (addColumnIfMissing fails) added_first
              @ map (\<lambda>tc. exec fails (create_table tc)) created_later @ map (addColumnIfMissing fails) added_later)"

section \<open>The data\<close>

definition webhook_target :: "string \<Rightarrow> AlertRule \<Rightarrow> AlertTarget" where
  "webhook_target newid r = \<lparr>at_ID = newid, at_TenantID = ar_TenantID r, at_Name = ar_Name r @ '' webhook'', at_Type = ''webhook'',
     at_Config = JObj [(''url'', JStr (ar_WebhookURL r))]\<rparr>"

definition has_webhook :: "AlertRule \<Rightarrow> 'p db \<Rightarrow> bool" where
  "has_webhook r d =
     list_ex (\<lambda>t. at_TenantID t = ar_TenantID r \<and> at_Type t = ''webhook'' \<and> at_Name t = ar_Name r @ '' webhook'') (alert_targets d)"

definition insert_target :: "AlertTarget \<Rightarrow> 'p db \<Rightarrow> 'p db option" where
  "insert_target t d = (case CreateAlertTarget (at_ID t) t d of Inl _ \<Rightarrow> None | Inr (_, d') \<Rightarrow> Some d')"

definition set_target_ids :: "string \<Rightarrow> string list \<Rightarrow> 'p db \<Rightarrow> 'p db option" where
  "set_target_ids rid ids d =
     Some (d\<lparr>alert_rules := update_where (\<lambda>r. ar_ID r = rid) (\<lambda>r. r\<lparr>ar_TargetIds := ids\<rparr>) (alert_rules d)\<rparr>)"

text \<open>\<open>newIDs n\<close> is the id drawn after \<open>n\<close> statements.\<close>

definition webhook_rule ::
  "(nat \<Rightarrow> bool) \<Rightarrow> (nat \<Rightarrow> string) \<Rightarrow> AlertRule \<Rightarrow> 'p db \<times> nat \<Rightarrow> 'p db + 'p db \<times> nat" where
  "webhook_rule fails newIDs r s =
     (case exec fails Some s of
        Inl d \<Rightarrow> Inl d
      | Inr s \<Rightarrow>
          (let targetID = newIDs (snd s)
           in if has_webhook r (fst s) then Inr s
              else in_turn [exec fails (insert_target (webhook_target targetID r)), exec fails (set_target_ids (ar_ID r) [targetID])] s))"

definition migrateWebhookTargets ::
  "(nat \<Rightarrow> bool) \<Rightarrow> (nat \<Rightarrow> string) \<Rightarrow> 'p db \<times> nat \<Rightarrow> 'p db + 'p db \<times> nat" where
  "migrateWebhookTargets fails newIDs s =
     (case exec fails Some s of
        Inl d \<Rightarrow> Inl d
      | Inr s \<Rightarrow> in_turn (map (webhook_rule fails newIDs) (filter (\<lambda>r. ar_WebhookURL r \<noteq> '''') (alert_rules (fst s)))) s)"

definition stale_tests :: "'p db \<Rightarrow> string set" where
  "stale_tests d = set (map td_ID (filter (\<lambda>t. td_Type t \<in> set [''wlan_scan'', ''wlan_sense'']) (tests d)))"

definition delete_stale_links :: "'p db \<Rightarrow> 'p db option" where
  "delete_stale_links d = Some (d\<lparr>site_tests := filter (\<lambda>p. snd p \<notin> stale_tests d) (site_tests d)\<rparr>)"

definition delete_stale_tests :: "'p db \<Rightarrow> 'p db option" where
  "delete_stale_tests d = Some (cascade_tests (stale_tests d) d)"

definition migrate_data :: "(nat \<Rightarrow> bool) \<Rightarrow> (nat \<Rightarrow> string) \<Rightarrow> 'p db \<times> nat \<Rightarrow> 'p db + 'p db \<times> nat" where
  "migrate_data fails newIDs =
     in_turn [migrateWebhookTargets fails newIDs, exec fails delete_stale_links, exec fails delete_stale_tests]"

text \<open>Opening a file of the current schema: the log history is the default again, then the migration of the data.\<close>

definition defaultLogHistory :: nat where
  "defaultLogHistory = 1000"

definition Open_data :: "(nat \<Rightarrow> bool) \<Rightarrow> (nat \<Rightarrow> string) \<Rightarrow> 'p db \<Rightarrow> 'p db + 'p db \<times> nat" where
  "Open_data fails newIDs d = migrate_data fails newIDs (d\<lparr>logHistory := defaultLogHistory\<rparr>, 0)"

section \<open>Sequences of statements\<close>

text \<open>A relation that every statement of a sequence respects, whether it fails or not, is respected by the sequence.\<close>

definition obeys :: "('d \<Rightarrow> 'd \<Rightarrow> bool) \<Rightarrow> ('d \<times> nat \<Rightarrow> 'd + 'd \<times> nat) \<Rightarrow> bool" where
  "obeys R f \<longleftrightarrow> (\<forall>s. R (fst s) (left_by (f s)))"

lemma left_by_simps [simp]: "left_by (Inl d) = d" "left_by (Inr s) = fst s"
  by (simp_all add: left_by_def)

lemma exec_cases: "exec fails f s = Inl (fst s) \<or> (\<exists>d'. f (fst s) = Some d' \<and> exec fails f s = Inr (d', Suc (snd s)))"
  by (cases s; cases "f (fst s)") (auto simp: exec_def)

lemma in_turn_append: "in_turn (fs @ gs) s = (case in_turn fs s of Inl d \<Rightarrow> Inl d | Inr s' \<Rightarrow> in_turn gs s')"
  by (induction fs arbitrary: s) (auto split: sum.split)

locale statement_order =
  fixes R :: "'d \<Rightarrow> 'd \<Rightarrow> bool"
  assumes R_refl: "R d d"
    and R_trans: "R d e \<Longrightarrow> R e f \<Longrightarrow> R d f"
begin

lemma obeys_exec: "(\<And>d d'. f d = Some d' \<Longrightarrow> R d d') \<Longrightarrow> obeys R (exec fails f)"
  unfolding obeys_def using exec_cases [of fails f] R_refl by (metis fst_conv left_by_simps)

lemma obeys_in_turn: "(\<And>f. f \<in> set fs \<Longrightarrow> obeys R f) \<Longrightarrow> obeys R (in_turn fs)"
proof (induction fs)
  case (Cons f fs)
  then have "obeys R f" "obeys R (in_turn fs)"
    by simp_all
  then have *: "R (fst s) (left_by (f s))" "R (fst s) (left_by (in_turn fs s))" for s
    by (simp_all only: obeys_def)
  have "R (fst s) (left_by (in_turn (f # fs) s))" for s
    using *(1) [of s] R_trans [OF _ *(2)] by (cases "f s") simp_all
  then show ?case
    unfolding obeys_def by blast
qed (simp add: obeys_def R_refl)

text \<open>After a sequence that was run to its end, every statement of it was run, and the database has only moved on.\<close>

lemma in_turn_member:
  assumes "in_turn fs s = Inr s'" "f \<in> set fs" "\<And>f. f \<in> set fs \<Longrightarrow> obeys R f"
  shows "\<exists>s1 s2. f s1 = Inr s2 \<and> R (fst s) (fst s1) \<and> R (fst s2) (fst s')"
  using assms
proof (induction fs arbitrary: s)
  case (Cons g fs)
  obtain s1 where s1: "g s = Inr s1" "in_turn fs s1 = Inr s'"
    using Cons.prems(1) by (auto split: sum.splits)
  have "obeys R g" "obeys R (in_turn fs)"
    using Cons.prems(3) by (simp_all add: obeys_in_turn)
  then have *: "R (fst s) (fst s1)" "R (fst s1) (fst s')"
    using s1 by (simp_all only: obeys_def) (metis left_by_simps(2))+
  show ?case
  proof (cases "f = g")
    case True
    then show ?thesis
      using s1(1) *(2) R_refl by blast
  next
    case False
    then obtain s2 s3 where "f s2 = Inr s3" "R (fst s1) (fst s2)" "R (fst s3) (fst s')"
      using Cons.IH [OF s1(2)] Cons.prems(2,3) by auto
    then show ?thesis
      using R_trans [OF *(1)] by blast
  qed
qed simp

end

section \<open>What a migration keeps\<close>

text \<open>Rows keep the value of every column they have, but for the flag that the backfill sets.\<close>

definition same_values :: "string \<Rightarrow> string list \<Rightarrow> raw_row \<Rightarrow> raw_row \<Rightarrow> bool" where
  "same_values t cols r r' = list_all (\<lambda>c. (t, c) = (''results'', ''ok'') \<or> r' c = r c) cols"

definition grows :: "raw_db \<Rightarrow> raw_db \<Rightarrow> bool" where
  "grows d d' \<longleftrightarrow> (\<forall>t tb. d t = Some tb \<longrightarrow> (\<exists>tb'. d' t = Some tb' \<and> set (rt_cols tb) \<subseteq> set (rt_cols tb')
     \<and> list_all2 (same_values t (rt_cols tb)) (rt_rows tb) (rt_rows tb')))"

text \<open>The tables of an older release have at least the columns the first release gave them.\<close>

definition base_ok :: "raw_db \<Rightarrow> bool" where
  "base_ok d \<longleftrightarrow> list_all (\<lambda>(t, cols). case d t of None \<Rightarrow> True | Some tb \<Rightarrow> set cols \<subseteq> set (rt_cols tb)) (created_first @ created_later)"

definition schema_ok :: "raw_db \<Rightarrow> bool" where
  "schema_ok d \<longleftrightarrow> list_all (\<lambda>(t, cols). list_all (has_column d t) cols) (created_first @ created_later)
     \<and> list_all (\<lambda>(t, c, _). has_column d t c) (added_first @ added_later)"

lemma same_values_refl [simp]: "same_values t cols r r"
  by (simp add: same_values_def list_all_iff)

lemma same_values_trans:
  "same_values t cols r r' \<Longrightarrow> same_values t cols' r' r'' \<Longrightarrow> set cols \<subseteq> set cols' \<Longrightarrow> same_values t cols r r''"
  unfolding same_values_def list_all_iff by (fastforce dest: subsetD)

lemma growsE:
  assumes "grows d d'" "d t = Some tb"
  obtains tb' where "d' t = Some tb'" "set (rt_cols tb) \<subseteq> set (rt_cols tb')" "list_all2 (same_values t (rt_cols tb)) (rt_rows tb) (rt_rows tb')"
  using assms unfolding grows_def by metis

lemma grows_trans:
  assumes "grows d e" "grows e f"
  shows "grows d f"
  unfolding grows_def
proof (intro allI impI)
  fix t tb
  assume "d t = Some tb"
  with assms(1) obtain tb' where e: "e t = Some tb'" "set (rt_cols tb) \<subseteq> set (rt_cols tb')"
      "list_all2 (same_values t (rt_cols tb)) (rt_rows tb) (rt_rows tb')"
    by (rule growsE)
  from assms(2) e(1) obtain tb'' where f: "f t = Some tb''" "set (rt_cols tb') \<subseteq> set (rt_cols tb'')"
      "list_all2 (same_values t (rt_cols tb')) (rt_rows tb') (rt_rows tb'')"
    by (rule growsE)
  have "list_all2 (same_values t (rt_cols tb)) (rt_rows tb) (rt_rows tb'')"
    by (rule list_all2_trans [OF _ e(3) f(3)]) (rule same_values_trans [OF _ _ e(2)])
  then show "\<exists>tb''. f t = Some tb'' \<and> set (rt_cols tb) \<subseteq> set (rt_cols tb'') \<and> list_all2 (same_values t (rt_cols tb)) (rt_rows tb) (rt_rows tb'')"
    using e(2) f(1,2) by blast
qed

definition upgrades :: "raw_db \<Rightarrow> raw_db \<Rightarrow> bool" where
  "upgrades d d' \<longleftrightarrow> grows d d' \<and> (base_ok d \<longrightarrow> base_ok d')"

interpretation upgrading: statement_order upgrades
proof
  show "upgrades d d" for d
    by (simp add: upgrades_def grows_def list.rel_refl)
  show "upgrades d e \<Longrightarrow> upgrades e f \<Longrightarrow> upgrades d f" for d e f
    using grows_trans by (auto simp: upgrades_def)
qed

lemma has_column_grows: "has_column d t c \<Longrightarrow> grows d d' \<Longrightarrow> has_column d' t c"
  by (fastforce simp: has_column_def grows_def split: option.splits)

lemma grows_base: "grows d d' \<Longrightarrow> dom d' = dom d \<Longrightarrow> base_ok d \<Longrightarrow> base_ok d'"
  by (fastforce simp: base_ok_def grows_def list_all_iff dom_def split: option.splits)

lemma created_distinct: "distinct (map fst (created_first @ created_later))"
  by code_simp

lemma create_upgrades:
  assumes "create_table tc d = Some d'" "tc \<in> set (created_first @ created_later)"
  shows "upgrades d d'"
proof (cases "d (fst tc)")
  case None
  then have d': "d' = d(fst tc \<mapsto> \<lparr>rt_cols = snd tc, rt_rows = []\<rparr>)"
    using assms(1) by (simp add: create_table_def)
  have "snd x = snd tc" if "x \<in> set (created_first @ created_later)" "fst x = fst tc" for x
    using eq_key_imp_eq_value [OF created_distinct, of "fst tc"] that assms(2) by (metis prod.collapse)
  then have "base_ok d'" if "base_ok d"
    using that by (fastforce simp: base_ok_def d' list_all_iff)
  moreover have "grows d d'"
    using None by (auto simp: grows_def d' list.rel_refl)
  ultimately show ?thesis
    by (simp add: upgrades_def)
qed (use assms(1) upgrading.R_refl in \<open>simp add: create_table_def\<close>)

lemma alter_upgrades: "alter_table t c v d = Some d' \<Longrightarrow> upgrades d d'"
proof -
  assume a: "alter_table t c v d = Some d'"
  then obtain tb where tb: "d t = Some tb" "c \<notin> set (rt_cols tb)"
      and d': "d' = d(t \<mapsto> \<lparr>rt_cols = rt_cols tb @ [c], rt_rows = map (\<lambda>r. r(c := v)) (rt_rows tb)\<rparr>)"
    by (auto simp: alter_table_def split: option.splits if_splits)
  have "grows d d'"
    using tb by (auto simp: grows_def d' list.rel_refl list_all2_conv_all_nth same_values_def list_all_iff)
  moreover have "dom d' = dom d"
    using tb by (auto simp: d')
  ultimately show ?thesis
    using grows_base by (auto simp: upgrades_def)
qed

lemma backfill_upgrades: "backfill d = Some d' \<Longrightarrow> upgrades d d'"
proof -
  assume a: "backfill d = Some d'"
  then obtain tb where tb: "d ''results'' = Some tb"
      and d': "d' = d(''results'' \<mapsto> tb\<lparr>rt_rows := map (\<lambda>r. if r ''error'' \<noteq> Sql_Text '''' then r(''ok'' := Sql_Int 0) else r) (rt_rows tb)\<rparr>)"
    by (auto simp: backfill_def split: if_splits)
  have "grows d d'"
    using tb by (auto simp: grows_def d' list.rel_refl list_all2_conv_all_nth same_values_def list_all_iff)
  moreover have "dom d' = dom d"
    using tb by (auto simp: d')
  ultimately show ?thesis
    using grows_base by (auto simp: upgrades_def)
qed

lemma obeys_add: "obeys upgrades (addColumnIfMissing fails tcv)"
proof -
  obtain t c v where tcv: "tcv = (t, c, v)"
    by (metis prod_cases3)
  have "obeys upgrades (in_turn [exec fails (alter_table t c v), exec fails backfill])"
    by (intro upgrading.obeys_in_turn) (auto intro: upgrading.obeys_exec alter_upgrades backfill_upgrades)
  then have turn: "upgrades (fst s) (left_by (in_turn [exec fails (alter_table t c v), exec fails backfill] s))" for s
    by (simp only: obeys_def)
  have "upgrades (fst s) (left_by (addColumnIfMissing fails tcv s))" for s
    using exec_cases [of fails Some s] turn upgrading.R_refl
    by (auto simp: tcv addColumnIfMissing_def simp del: in_turn.simps split: sum.split)
  then show ?thesis
    unfolding obeys_def by blast
qed

lemma obeys_create: "tc \<in> set (created_first @ created_later) \<Longrightarrow> obeys upgrades (exec fails (create_table tc))"
  by (intro upgrading.obeys_exec) (rule create_upgrades)

definition schema_steps :: "(nat \<Rightarrow> bool) \<Rightarrow> (raw_db \<times> nat \<Rightarrow> raw_db + raw_db \<times> nat) list" where
  "schema_steps fails = map (\<lambda>tc. exec fails (create_table tc)) created_first @ map (addColumnIfMissing fails) added_first
     @ map (\<lambda>tc. exec fails (create_table tc)) created_later @ map (addColumnIfMissing fails) added_later"

lemma migrate_schema_steps: "migrate_schema fails = in_turn (schema_steps fails)"
  by (simp add: migrate_schema_def schema_steps_def)

lemma obeys_schema_steps: "f \<in> set (schema_steps fails) \<Longrightarrow> obeys upgrades f"
  by (auto simp: schema_steps_def obeys_add intro!: obeys_create)

lemma migrate_schema_upgrades: "upgrades d (left_by (migrate_schema fails (d, n)))"
  using upgrading.obeys_in_turn [of "schema_steps fails"] obeys_schema_steps by (auto simp: migrate_schema_steps obeys_def)

section \<open>The schema is complete\<close>

lemma create_creates: "exec fails (create_table tc) s = Inr s' \<Longrightarrow> fst s' (fst tc) \<noteq> None"
  by (cases s) (auto simp: exec_def create_table_def split: if_splits option.splits)

lemma add_adds: "addColumnIfMissing fails (t, c, v) s = Inr s' \<Longrightarrow> has_column (fst s') t c"
proof -
  assume a: "addColumnIfMissing fails (t, c, v) s = Inr s'"
  have alter: "has_column d' t c" if "alter_table t c v d = Some d'" for d d'
    using that by (auto simp: alter_table_def has_column_def split: option.splits if_splits)
  have "has_column d'' t c" if "alter_table t c v d = Some d'" "backfill d' = Some d''" for d d' d''
    using alter [OF that(1)] has_column_grows backfill_upgrades [OF that(2)] by (simp add: upgrades_def)
  then show ?thesis
    using a by (cases s) (auto simp: addColumnIfMissing_def exec_def split: if_splits option.splits sum.splits)
qed

lemma base_columns: "base_ok d \<Longrightarrow> (t, cols) \<in> set (created_first @ created_later) \<Longrightarrow> d t \<noteq> None \<Longrightarrow> c \<in> set cols \<Longrightarrow> has_column d t c"
  by (fastforce simp: base_ok_def has_column_def list_all_iff split: option.splits)

lemma migrate_schema_complete:
  assumes "base_ok d" "migrate_schema fails (d, n) = Inr (d', n')"
  shows "schema_ok d'"
proof -
  have member: "\<exists>s1 s2. f s1 = Inr s2 \<and> upgrades d (fst s1) \<and> upgrades (fst s2) d'" if "f \<in> set (schema_steps fails)" for f
    using upgrading.in_turn_member [OF assms(2) [unfolded migrate_schema_steps] that] obeys_schema_steps by simp
  have "has_column d' t c" if tc: "(t, cols) \<in> set (created_first @ created_later)" "c \<in> set cols" for t cols c
  proof -
    have "exec fails (create_table (t, cols)) \<in> set (schema_steps fails)"
      using tc(1) by (auto simp: schema_steps_def)
    from member [OF this] obtain s1 s2 where s: "exec fails (create_table (t, cols)) s1 = Inr s2" "upgrades d (fst s1)" "upgrades (fst s2) d'"
      by blast
    have "upgrades (fst s1) (fst s2)"
      using obeys_create [OF tc(1), of fails] s(1) by (metis left_by_simps(2) obeys_def)
    then have "base_ok (fst s2)"
      using s(2) assms(1) by (simp add: upgrades_def)
    then show ?thesis
      using base_columns [OF _ tc(1) _ tc(2)] create_creates [OF s(1)] has_column_grows s(3) unfolding upgrades_def fst_conv by blast
  qed
  moreover have "has_column d' t c" if tc: "(t, c, v) \<in> set (added_first @ added_later)" for t c v
  proof -
    have "addColumnIfMissing fails (t, c, v) \<in> set (schema_steps fails)"
      using tc by (auto simp: schema_steps_def)
    from member [OF this] obtain s1 s2 where "addColumnIfMissing fails (t, c, v) s1 = Inr s2" "upgrades (fst s2) d'"
      by blast
    then show ?thesis
      using add_adds has_column_grows unfolding upgrades_def by blast
  qed
  ultimately show ?thesis
    by (auto simp: schema_ok_def list_all_iff simp del: set_append)
qed

text \<open>Without a refused statement the migration runs to its end: no statement is itself in error.\<close>

definition ready :: "raw_db \<Rightarrow> bool" where
  "ready d \<longleftrightarrow> base_ok d \<and> list_all (\<lambda>tc. d (fst tc) \<noteq> None) created_first"

lemma ready_upgrades: "ready d \<Longrightarrow> upgrades d d' \<Longrightarrow> ready d'"
  by (fastforce simp: ready_def upgrades_def grows_def list_all_iff)

lemma ready_error: "ready d \<Longrightarrow> has_column d ''results'' ''error''"
  by (rule base_columns) (auto simp: ready_def created_first_def)

lemma creates_run: "\<exists>d' n'. in_turn (map (\<lambda>tc. exec (\<lambda>_. False) (create_table tc)) tcs) (d, n) = Inr (d', n')"
  by (induction tcs arbitrary: d n) (simp_all add: exec_def create_table_def)

lemma add_runs:
  assumes "ready d" "t \<in> fst ` set created_first" "has_column d ''results'' ''ok'' \<or> (t, c) = (''results'', ''ok'')"
  shows "\<exists>d' n'. addColumnIfMissing (\<lambda>_. False) (t, c, v) (d, n) = Inr (d', n')"
proof (cases "has_column d t c")
  case False
  have "d t \<noteq> None"
    using assms(1,2) by (auto simp: ready_def list_all_iff)
  then obtain d1 where d1: "alter_table t c v d = Some d1"
    using False by (auto simp: alter_table_def has_column_def)
  then have "has_column d1 ''results'' ''error''" "has_column d1 ''results'' ''ok''"
    using alter_upgrades [OF d1] has_column_grows ready_error [OF assms(1)] assms(3)
    by (auto simp: upgrades_def alter_table_def has_column_def split: option.splits if_splits)
  then have "\<exists>d2. backfill d1 = Some d2"
    by (auto simp: backfill_def has_column_def split: option.splits)
  then show ?thesis
    using False d1 by (auto simp: addColumnIfMissing_def exec_def)
qed (simp add: addColumnIfMissing_def exec_def)

lemma adds_run:
  assumes "ready d" "has_column d ''results'' ''ok''" "list_all (\<lambda>(t, _). t \<in> fst ` set created_first) tcvs"
  shows "\<exists>d' n'. in_turn (map (addColumnIfMissing (\<lambda>_. False)) tcvs) (d, n) = Inr (d', n')"
  using assms
proof (induction tcvs arbitrary: d n)
  case (Cons tcv tcvs)
  obtain t c v where tcv: "tcv = (t, c, v)"
    by (metis prod_cases3)
  obtain d1 n1 where d1: "addColumnIfMissing (\<lambda>_. False) tcv (d, n) = Inr (d1, n1)"
    using add_runs [of d t c v n] Cons.prems tcv by auto
  have "upgrades d d1"
    using obeys_add [of "\<lambda>_. False" tcv] d1 by (metis fst_conv left_by_simps(2) obeys_def)
  then show ?case
    using Cons.IH [of d1 n1] Cons.prems d1 ready_upgrades has_column_grows by (auto simp: upgrades_def)
qed simp

lemma migrate_schema_runs:
  assumes "base_ok d"
  shows "\<exists>d' n'. migrate_schema (\<lambda>_. False) (d, 0) = Inr (d', n')"
proof -
  let ?f = "\<lambda>_. False"
  let ?create = "\<lambda>tcs. in_turn (map (\<lambda>tc. exec ?f (create_table tc)) tcs)" and ?add = "\<lambda>tcvs. in_turn (map (addColumnIfMissing ?f) tcvs)"
  have up: "upgrades a b" if "in_turn fs (a, m) = Inr (b, k)" "set fs \<subseteq> set (schema_steps ?f)" for fs a b m k
    using upgrading.obeys_in_turn [of fs] obeys_schema_steps that by (metis fst_conv left_by_simps(2) obeys_def subsetD)
  obtain d1 n1 where d1: "?create created_first (d, 0) = Inr (d1, n1)"
    using creates_run by blast
  have "d1 (fst tc) \<noteq> None" if "tc \<in> set created_first" for tc
  proof -
    have "exec ?f (create_table tc) \<in> set (map (\<lambda>tc. exec ?f (create_table tc)) created_first)"
      using that by auto
    moreover have "obeys upgrades f" if "f \<in> set (map (\<lambda>tc. exec ?f (create_table tc)) created_first)" for f
      using that obeys_create by auto
    ultimately obtain s1 s2 where s: "exec ?f (create_table tc) s1 = Inr s2" "upgrades (fst s2) d1"
      using upgrading.in_turn_member [OF d1] by (metis fst_conv)
    then show ?thesis
      using create_creates [OF s(1)] by (fastforce simp: upgrades_def grows_def)
  qed
  moreover have "upgrades d d1"
    using up [OF d1] by (auto simp: schema_steps_def)
  ultimately have ready: "ready d1"
    using assms by (auto simp: ready_def upgrades_def list_all_iff)
  obtain x xs where first: "added_first = (''results'', ''ok'', x) # xs" and xs: "list_all (\<lambda>(t, _). t \<in> fst ` set created_first) xs"
    by (simp add: added_first_def created_first_def)
  obtain d2 n2 where d2: "addColumnIfMissing ?f (''results'', ''ok'', x) (d1, n1) = Inr (d2, n2)"
    using add_runs [OF ready, of "''results''" "''ok''" x n1] by (auto simp: created_first_def)
  have d12: "upgrades d1 d2"
    using obeys_add [of ?f "(''results'', ''ok'', x)"] d2 by (metis fst_conv left_by_simps(2) obeys_def)
  have ok: "ready d2" "has_column d2 ''results'' ''ok''"
    using ready_upgrades [OF ready d12] add_adds [OF d2] by simp_all
  obtain d3 n3 where d3: "?add xs (d2, n2) = Inr (d3, n3)"
    using adds_run [OF ok xs] by blast
  obtain d4 n4 where d4: "?create created_later (d3, n3) = Inr (d4, n4)"
    using creates_run by blast
  have "upgrades d2 d3"
    by (rule up [OF d3]) (auto simp: schema_steps_def first)
  moreover have "upgrades d3 d4"
    by (rule up [OF d4]) (auto simp: schema_steps_def)
  ultimately have "upgrades d2 d4"
    by (rule upgrading.R_trans)
  then have "ready d4" "has_column d4 ''results'' ''ok''"
    using ok ready_upgrades has_column_grows by (auto simp: upgrades_def)
  then obtain d5 n5 where "?add added_later (d4, n4) = Inr (d5, n5)"
    using adds_run [of d4 added_later n4] by (auto simp: added_later_def created_first_def)
  then show ?thesis
    using d1 d2 d3 d4 by (simp add: migrate_schema_def in_turn_append first)
qed

text \<open>
  C6. The schema part of the migration, which creates tables and adds columns, resumes: interrupted at whatever
  statement, it is completed by the same part of the next start. Every table then has every column the program reads
  or writes, no row is lost, and every row has the value of every column it had, but for the health flag of results
  that recorded an error. The part of the migration that follows, on the rules, targets and tests, is not meant here:
  it deletes the tests of two abandoned types, and does not make up for every interruption (below).
\<close>

theorem upgrade_resumes:
  assumes "base_ok d"
  shows "case migrate_schema fails (d, 0) of
      Inr (d', _) \<Rightarrow> schema_ok d' \<and> grows d d'
    | Inl d1 \<Rightarrow> grows d d1 \<and> (\<exists>d' n. migrate_schema (\<lambda>_. False) (d1, 0) = Inr (d', n) \<and> schema_ok d' \<and> grows d d')"
proof (cases "migrate_schema fails (d, 0)")
  case (Inr s)
  then show ?thesis
    using migrate_schema_complete [OF assms, of fails 0 "fst s" "snd s"] migrate_schema_upgrades [of d fails 0]
    by (auto simp: upgrades_def)
next
  case (Inl d1)
  have "upgrades d d1"
    using migrate_schema_upgrades [of d fails 0] Inl by simp
  then have d1: "base_ok d1" "grows d d1"
    using assms by (simp_all add: upgrades_def)
  obtain d' n where d': "migrate_schema (\<lambda>_. False) (d1, 0) = Inr (d', n)"
    using migrate_schema_runs [OF d1(1)] by blast
  then have "schema_ok d'" "grows d1 d'"
    using migrate_schema_complete [OF d1(1)] migrate_schema_upgrades [of d1 "\<lambda>_. False" 0] by (auto simp: upgrades_def)
  then show ?thesis
    using Inl d1(2) d' grows_trans by auto
qed

definition old_file :: raw_db where
  "old_file = [''results'' \<mapsto> \<lparr>rt_cols = [''id'', ''agent_id'', ''test_id'', ''test_name'', ''test_type'', ''time'', ''error'', ''payload''],
     rt_rows = [(\<lambda>_. Sql_Text '''')(''id'' := Sql_Int 1)]\<rparr>]"

lemma old_file_base: "base_ok old_file"
  by (simp add: base_ok_def old_file_def created_first_def created_later_def)

theorem upgrade_resumes_witness:
  "base_ok old_file \<and> (\<exists>d' n. migrate_schema (\<lambda>_. False) (old_file, 0) = Inr (d', n) \<and> schema_ok d' \<and> grows old_file d')"
  using upgrade_resumes [OF old_file_base, of "\<lambda>_. False"] migrate_schema_runs [OF old_file_base] old_file_base
  by (auto split: sum.splits)

section \<open>The data of a start\<close>

text \<open>The constraints hold on, and no statement touches the two histories.\<close>

definition keeps :: "'p db \<Rightarrow> 'p db \<Rightarrow> bool" where
  "keeps d d' \<longleftrightarrow> (db_ok d \<longrightarrow> db_ok d') \<and> results d' = results d \<and> path_changes d' = path_changes d
     \<and> logHistory d' = logHistory d"

interpretation keeping: statement_order keeps
  by unfold_locales (simp_all add: keeps_def)

lemma insert_target_ok: "insert_target t d = Some d' \<Longrightarrow> db_ok d \<longrightarrow> db_ok d'"
  by (auto simp: insert_target_def intro: ok_CreateAlertTarget split: sum.splits)

lemma set_target_ids_ok: "set_target_ids r ids d = Some d' \<Longrightarrow> db_ok d \<longrightarrow> db_ok d'"
proof
  have "db_ok (d\<lparr>alert_rules := update_where P (\<lambda>r. r\<lparr>ar_TargetIds := ids\<rparr>) (alert_rules d)\<rparr>)" if "db_ok d" for P
    using that by (simp add: db_ok_simps)
  then show "set_target_ids r ids d = Some d' \<Longrightarrow> db_ok d \<Longrightarrow> db_ok d'"
    by (auto simp: set_target_ids_def)
qed

lemma delete_stale_links_ok: "delete_stale_links d = Some d' \<Longrightarrow> db_ok d \<longrightarrow> db_ok d'"
proof
  have "db_ok (d\<lparr>site_tests := filter P (site_tests d)\<rparr>)" if "db_ok d" for P
    using that by (simp add: db_ok_simps)
  then show "delete_stale_links d = Some d' \<Longrightarrow> db_ok d \<Longrightarrow> db_ok d'"
    by (auto simp: delete_stale_links_def)
qed

lemma delete_stale_tests_ok: "delete_stale_tests d = Some d' \<Longrightarrow> db_ok d \<longrightarrow> db_ok d'"
  using ok_cascade_tests by (auto simp: delete_stale_tests_def)

text \<open>The identity of a rule, and what migrating webhooks keeps: targets, and rules but for their target ids.\<close>

definition rule_key :: "AlertRule \<Rightarrow> string \<times> string \<times> string \<times> string" where
  "rule_key r = (ar_ID r, ar_TenantID r, ar_Name r, ar_WebhookURL r)"

definition hooks_kept :: "'p db \<Rightarrow> 'p db \<Rightarrow> bool" where
  "hooks_kept d d' \<longleftrightarrow> set (alert_targets d) \<subseteq> set (alert_targets d') \<and> map rule_key (alert_rules d') = map rule_key (alert_rules d)
     \<and> keeps d d'"

interpretation hooking: statement_order hooks_kept
  by unfold_locales (auto simp: hooks_kept_def keeps_def)

lemma insert_target_hooks: "insert_target t d = Some d' \<Longrightarrow> hooks_kept d d'"
  using insert_target_ok [of t d d'] by (auto simp: hooks_kept_def keeps_def insert_target_def CreateAlertTarget_def Let_def split: if_splits sum.splits)

lemma set_target_ids_hooks: "set_target_ids r ids d = Some d' \<Longrightarrow> hooks_kept d d'"
  using set_target_ids_ok [of r ids d d'] by (auto simp: hooks_kept_def keeps_def set_target_ids_def update_where_def rule_key_def)

lemma obeys_webhook_rule: "obeys hooks_kept (webhook_rule fails newIDs r)"
proof -
  have "obeys hooks_kept (in_turn [exec fails (insert_target t), exec fails (set_target_ids i ids)])" for t i ids
    by (intro hooking.obeys_in_turn) (auto intro: hooking.obeys_exec insert_target_hooks set_target_ids_hooks)
  then have turn: "hooks_kept (fst s) (left_by (in_turn [exec fails (insert_target t), exec fails (set_target_ids i ids)] s))" for s t i ids
    unfolding obeys_def by blast
  have "hooks_kept (fst s) (left_by (webhook_rule fails newIDs r s))" for s
    using exec_cases [of fails Some s] turn hooking.R_refl
    by (auto simp: webhook_rule_def Let_def simp del: in_turn.simps split: sum.split)
  then show ?thesis
    unfolding obeys_def by blast
qed

lemma obeys_migrateWebhookTargets: "obeys hooks_kept (migrateWebhookTargets fails newIDs)"
proof -
  have "obeys hooks_kept (in_turn (map (webhook_rule fails newIDs) rs))" for rs
    by (intro hooking.obeys_in_turn) (auto simp: obeys_webhook_rule)
  then have turn: "hooks_kept (fst s) (left_by (in_turn (map (webhook_rule fails newIDs) rs) s))" for s rs
    unfolding obeys_def by blast
  have "hooks_kept (fst s) (left_by (migrateWebhookTargets fails newIDs s))" for s
    using exec_cases [of fails Some s] turn hooking.R_refl
    by (auto simp: migrateWebhookTargets_def simp del: in_turn.simps split: sum.split)
  then show ?thesis
    unfolding obeys_def by blast
qed

lemma delete_stale_keeps: "delete_stale_links d = Some d' \<Longrightarrow> keeps d d'" "delete_stale_tests d = Some d' \<Longrightarrow> keeps d d'"
  using delete_stale_links_ok [of d d'] delete_stale_tests_ok [of d d']
  by (auto simp: keeps_def delete_stale_links_def delete_stale_tests_def cascade_tests_def cascade_rules_def)

lemma migrate_data_keeps: "keeps d (left_by (migrate_data fails newIDs (d, n)))"
proof -
  have "obeys keeps (migrateWebhookTargets fails newIDs)"
    using obeys_migrateWebhookTargets unfolding obeys_def hooks_kept_def by blast
  then have "obeys keeps (migrate_data fails newIDs)"
    unfolding migrate_data_def by (intro keeping.obeys_in_turn) (auto intro: keeping.obeys_exec delete_stale_keeps)
  then show ?thesis
    unfolding obeys_def by (metis fst_conv)
qed

lemma Open_data_ok: "db_ok d \<Longrightarrow> db_ok (left_by (Open_data fails newIDs d))"
  using migrate_data_keeps [of "d\<lparr>logHistory := defaultLogHistory\<rparr>" fails newIDs 0] ok_SetLogHistory [of d 1000]
  by (simp add: Open_data_def keeps_def SetLogHistory_def defaultLogHistory_def)

text \<open>After a complete migration every rule with a webhook has a target of its name.\<close>

lemma webhook_rule_hooks: "webhook_rule fails newIDs r s = Inr s' \<Longrightarrow> has_webhook r (fst s')"
  by (cases s) (auto simp: webhook_rule_def exec_def Let_def insert_target_def CreateAlertTarget_def set_target_ids_def has_webhook_def
      webhook_target_def split: if_splits sum.splits option.splits)

lemma has_webhook_mono: "has_webhook r d \<Longrightarrow> set (alert_targets d) \<subseteq> set (alert_targets d') \<Longrightarrow> has_webhook r d'"
  by (auto simp: has_webhook_def list_ex_iff)

lemma has_webhook_key: "rule_key r = rule_key r' \<Longrightarrow> has_webhook r d = has_webhook r' d"
  by (simp add: has_webhook_def rule_key_def)

lemma migrateWebhookTargets_hooks:
  assumes "migrateWebhookTargets fails newIDs s = Inr s'" "r \<in> set (alert_rules (fst s'))" "ar_WebhookURL r \<noteq> ''''"
  shows "has_webhook r (fst s')"
proof -
  let ?rs = "filter (\<lambda>r. ar_WebhookURL r \<noteq> '''') (alert_rules (fst s))"
  obtain n where run: "in_turn (map (webhook_rule fails newIDs) ?rs) (fst s, n) = Inr s'"
    using assms(1) exec_cases [of fails Some s] by (auto simp: migrateWebhookTargets_def split: sum.splits)
  have "hooks_kept (fst s) (fst s')"
    using obeys_migrateWebhookTargets [of fails newIDs] assms(1) by (metis left_by_simps(2) obeys_def)
  then have "rule_key r \<in> rule_key ` set (alert_rules (fst s))"
    using assms(2) by (metis hooks_kept_def image_eqI list.set_map)
  then obtain r' where r': "r' \<in> set ?rs" "rule_key r = rule_key r'"
    using assms(3) by (auto simp: rule_key_def)
  have "webhook_rule fails newIDs r' \<in> set (map (webhook_rule fails newIDs) ?rs)"
    using r'(1) by simp
  moreover have "obeys hooks_kept f" if "f \<in> set (map (webhook_rule fails newIDs) ?rs)" for f
    using that obeys_webhook_rule by auto
  ultimately obtain s1 s2 where "webhook_rule fails newIDs r' s1 = Inr s2" "hooks_kept (fst s2) (fst s')"
    using hooking.in_turn_member [OF run] by metis
  then have "has_webhook r' (fst s')"
    using webhook_rule_hooks has_webhook_mono by (metis hooks_kept_def)
  then show ?thesis
    using has_webhook_key [OF r'(2), of "fst s'"] by simp
qed

text \<open>What a start that succeeds has done, and that doing it again does nothing.\<close>

definition migrated :: "'p db \<Rightarrow> bool" where
  "migrated d \<longleftrightarrow> logHistory d = defaultLogHistory \<and> stale_tests d = {}
     \<and> list_all (\<lambda>r. ar_WebhookURL r \<noteq> '''' \<longrightarrow> has_webhook r d) (alert_rules d)"

lemma exec_never: "exec (\<lambda>_. False) f (d, n) = (case f d of None \<Rightarrow> Inl d | Some d' \<Rightarrow> Inr (d', Suc n))"
  by (simp add: exec_def)

lemma webhook_rules_idle:
  "list_all (\<lambda>r. has_webhook r d) rs \<Longrightarrow> in_turn (map (webhook_rule (\<lambda>_. False) newIDs) rs) (d, n) = Inr (d, n + length rs)"
  by (induction rs arbitrary: n) (simp_all add: webhook_rule_def exec_never)

lemma delete_stale_idle:
  assumes "stale_tests d = {}"
  shows "delete_stale_links d = Some d" "delete_stale_tests d = Some d"
  by (simp_all add: delete_stale_links_def delete_stale_tests_def assms cascade_tests_def cascade_rules_def delete_rows_def)

lemma migrated_idle:
  assumes "migrated d"
  shows "\<exists>m. Open_data (\<lambda>_. False) newIDs d = Inr (d, m)"
proof -
  have d: "d\<lparr>logHistory := defaultLogHistory\<rparr> = d"
    using assms by (cases d) (simp add: migrated_def)
  have "list_all (\<lambda>r. has_webhook r d) (filter (\<lambda>r. ar_WebhookURL r \<noteq> '''') (alert_rules d))"
    using assms by (simp add: migrated_def list_all_iff)
  moreover have "delete_stale_links d = Some d" "delete_stale_tests d = Some d"
    using assms delete_stale_idle [of d] by (simp_all add: migrated_def)
  ultimately show ?thesis
    by (simp add: Open_data_def d migrate_data_def migrateWebhookTargets_def exec_never webhook_rules_idle)
qed

lemma stale_cascade: "stale_tests (cascade_tests (stale_tests d) d) = {}"
  by (auto simp: stale_tests_def cascade_tests_def cascade_rules_def)

lemma Open_data_migrated:
  assumes "Open_data fails newIDs d = Inr (d', n)"
  shows "migrated d'"
proof -
  let ?d = "d\<lparr>logHistory := defaultLogHistory\<rparr>"
  obtain d1 n1 d2 n2 where d1: "migrateWebhookTargets fails newIDs (?d, 0) = Inr (d1, n1)"
      and d2: "exec fails delete_stale_links (d1, n1) = Inr (d2, n2)" and d': "exec fails delete_stale_tests (d2, n2) = Inr (d', n)"
    using assms by (auto simp: Open_data_def migrate_data_def split: sum.splits)
  have d2: "d2 = d1\<lparr>site_tests := filter (\<lambda>p. snd p \<notin> stale_tests d1) (site_tests d1)\<rparr>"
    using exec_cases [of fails delete_stale_links "(d1, n1)"] d2 by (auto simp: delete_stale_links_def)
  have d': "d' = cascade_tests (stale_tests d2) d2"
    using exec_cases [of fails delete_stale_tests "(d2, n2)"] d' by (auto simp: delete_stale_tests_def)
  then have "stale_tests d' = {}"
    by (simp add: stale_cascade)
  moreover have "set (alert_rules d') \<subseteq> set (alert_rules d1)" "alert_targets d' = alert_targets d1"
    by (auto simp: cascade_tests_def cascade_rules_def d' d2)
  moreover have "has_webhook r d1" if "r \<in> set (alert_rules d1)" "ar_WebhookURL r \<noteq> ''''" for r
    using migrateWebhookTargets_hooks [OF d1] that by simp
  moreover have "logHistory d' = defaultLogHistory"
    using migrate_data_keeps [of ?d fails newIDs 0] assms by (simp add: Open_data_def keeps_def)
  ultimately show ?thesis
    by (auto simp: migrated_def list_all_iff has_webhook_def)
qed

section \<open>Restarts\<close>

text \<open>
  Four methods write in two statements that no transaction joins: the inserts of results, path changes and log lines,
  each followed by the prune of its scope, and the new password, followed by the deletion of the user's sessions. A
  process that is killed in between, or whose second statement fails, leaves what the first one wrote; the method
  returns an error then.
\<close>

definition insert_result :: "'p Result \<Rightarrow> 'p db \<Rightarrow> 'p db result" where
  "insert_result r d =
     (if \<not> has_key ag_ID (re_AgentID r) (agents d) then Inl constraint_err
      else Inr (d\<lparr>results := insert_row (result_row r) (results d)\<rparr>))"

definition prune_results :: "'p Result \<Rightarrow> 'p db \<Rightarrow> 'p db" where
  "prune_results r d = d\<lparr>results := (results d)\<lparr>rows := prune re_ID (result_scope r) resultsPerTest (rows (results d))\<rparr>\<rparr>"

definition insert_path_change :: "PathChange \<Rightarrow> 'p db \<Rightarrow> 'p db result" where
  "insert_path_change c d =
     (if \<not> has_key ag_ID (pc_AgentID c) (agents d) then Inl constraint_err
      else Inr (d\<lparr>path_changes := insert_row (path_row c) (path_changes d)\<rparr>))"

definition prune_path_changes :: "PathChange \<Rightarrow> 'p db \<Rightarrow> 'p db" where
  "prune_path_changes c d =
     d\<lparr>path_changes := (path_changes d)\<lparr>rows := prune pc_ID (path_scope c) pathChangesPerTest (rows (path_changes d))\<rparr>\<rparr>"

definition insert_log :: "LogEntry \<Rightarrow> 'p db \<Rightarrow> 'p db" where
  "insert_log e d = d\<lparr>logs := insert_row (log_row e) (logs d)\<rparr>"

definition prune_logs :: "LogEntry \<Rightarrow> 'p db \<Rightarrow> 'p db" where
  "prune_logs e d = d\<lparr>logs := (logs d)\<lparr>rows := prune le_ID (log_scope e) (logHistory d) (rows (logs d))\<rparr>\<rparr>"

definition update_password :: "(string \<Rightarrow> string result) \<Rightarrow> string \<Rightarrow> string \<Rightarrow> 'p db \<Rightarrow> 'p db result" where
  "update_password bcrypt userID password d =
     (case bcrypt password of
        Inl e \<Rightarrow> Inl e
      | Inr hash \<Rightarrow>
          if \<not> has_key us_ID userID (users d) then Inl ErrNotFound
          else Inr (d\<lparr>users := update_where (\<lambda>u. us_ID u = userID) (\<lambda>u. u\<lparr>us_Hash := hash\<rparr>) (users d)\<rparr>))"

definition delete_sessions :: "string \<Rightarrow> 'p db \<Rightarrow> 'p db" where
  "delete_sessions userID d = d\<lparr>sessions := filter (\<lambda>s. sn_UserID s \<noteq> userID) (sessions d)\<rparr>"

lemma two_statements:
  "AddResult r d = map_sum id (prune_results r) (insert_result r d)"
  "AddPathChange c d = map_sum id (prune_path_changes c) (insert_path_change c d)"
  "InsertLog e d = prune_logs e (insert_log e d)"
  "SetPassword bcrypt u p d = map_sum id (delete_sessions u) (update_password bcrypt u p d)"
  by (auto simp: AddResult_def insert_result_def prune_results_def add_result_def AddPathChange_def insert_path_change_def
      prune_path_changes_def add_path_change_def InsertLog_def insert_log_def prune_logs_def add_log_def SetPassword_def
      update_password_def delete_sessions_def Let_def split: sum.split)

inductive cut_write :: "'p db \<Rightarrow> 'p db \<Rightarrow> bool" where
  cut_result: "insert_result r d = Inr d' \<Longrightarrow> cut_write d d'"
| cut_path_change: "insert_path_change c d = Inr d' \<Longrightarrow> cut_write d d'"
| cut_log: "cut_write d (insert_log e d)"
| cut_password: "update_password bcrypt u p d = Inr d' \<Longrightarrow> cut_write d d'"

lemma cut_write_ok: "cut_write d d' \<Longrightarrow> db_ok d \<Longrightarrow> db_ok d'"
proof (induction rule: cut_write.induct)
  case (cut_result r d d')
  then have "refs re_AgentID (rows (insert_row (result_row r) (results d))) ag_ID (agents d)" "wf_table re_ID (insert_row (result_row r) (results d))"
    by (auto simp: insert_result_def insert_row_def result_row_def db_ok_def ok_defs table_simps split: if_splits intro!: wf_insert_row [unfolded insert_row_def])
  with cut_result show ?case
    by (auto simp: insert_result_def db_ok_def ok_defs split: if_splits)
next
  case (cut_path_change c d d')
  then have "refs pc_AgentID (rows (insert_row (path_row c) (path_changes d))) ag_ID (agents d)" "wf_table pc_ID (insert_row (path_row c) (path_changes d))"
    by (auto simp: insert_path_change_def insert_row_def path_row_def db_ok_def ok_defs table_simps split: if_splits intro!: wf_insert_row [unfolded insert_row_def])
  with cut_path_change show ?case
    by (auto simp: insert_path_change_def db_ok_def ok_defs split: if_splits)
next
  case (cut_log d e)
  then show ?case
    by (simp add: insert_log_def db_ok_def ok_defs wf_insert_row log_row_def)
next
  case (cut_password bcrypt u p d d')
  then show ?case
    by (auto simp: update_password_def split: if_splits sum.splits) (simp_all add: filter_update_where db_ok_simps)
qed

text \<open>
  The life of a database: the methods of the store, complete or cut off between their statements, and starts of the
  server, which may fail anywhere.
\<close>

inductive life_step :: "'p db \<Rightarrow> 'p db \<Rightarrow> bool" where
  life_run: "store_step d d' \<Longrightarrow> life_step d d'"
| life_cut: "cut_write d d' \<Longrightarrow> life_step d d'"
| life_start: "life_step d (left_by (Open_data fails newIDs d))"

interpretation lifetime: inductive_invariant db_ok life_step db_ok
proof
  show "db_ok s'" if "db_ok s" "life_step s s'" for s s' :: "'p db"
    using that(2,1) by (cases rule: life_step.cases) (auto intro: store_step_ok cut_write_ok Open_data_ok)
qed simp

text \<open>
  C5. Through any life of a database, with restarts, starts that fail at any statement and writes that are cut off
  between their two statements, the constraints of the schema hold. A start that succeeds leaves no test of an abandoned
  type and a target for every rule with a webhook, and the next start then changes nothing. A cut-off insert may leave
  a history one row too long, but not for good: the next complete insert into it leaves the newest 5000 results (500
  path changes, or as many log lines as configured), with the new one.
\<close>

theorem restarts_keep_store:
  assumes "reach db_ok life_step d"
  shows "(case Open_data fails newIDs d of
        Inl d' \<Rightarrow> db_ok d'
      | Inr (d', _) \<Rightarrow> db_ok d' \<and> migrated d' \<and> (\<exists>m. Open_data (\<lambda>_. False) newIDs' d' = Inr (d', m)))
    \<and> (\<forall>r d'. AddResult r d = Inr d' \<longrightarrow> filter (result_scope r) (rows (results d')) =
         last_n 5000 (filter (result_scope r) (rows (results d)) @ [result_row r (last_id (results d) + 1)]))
    \<and> (\<forall>c d'. AddPathChange c d = Inr d' \<longrightarrow> filter (path_scope c) (rows (path_changes d')) =
         last_n 500 (filter (path_scope c) (rows (path_changes d)) @ [path_row c (last_id (path_changes d) + 1)]))
    \<and> (\<forall>e. le_Source e \<in> {''agent'', ''server''} \<longrightarrow> filter (log_scope e) (rows (logs (InsertLog e d))) =
         last_n (logHistory d) (filter (log_scope e) (rows (logs d)) @ [log_row e (last_id (logs d) + 1)]))"
proof -
  have ok: "db_ok d"
    using lifetime.inv_reach [OF assms] .
  then have "db_ok (left_by (Open_data fails newIDs d))"
    by (rule Open_data_ok)
  then have "case Open_data fails newIDs d of Inl d' \<Rightarrow> db_ok d'
      | Inr (d', _) \<Rightarrow> db_ok d' \<and> migrated d' \<and> (\<exists>m. Open_data (\<lambda>_. False) newIDs' d' = Inr (d', m))"
    using Open_data_migrated [of fails newIDs d] migrated_idle by (auto split: sum.split)
  moreover have "wf_table re_ID (results d)" "wf_table pc_ID (path_changes d)" "wf_table le_ID (logs d)"
    using ok by (simp_all add: db_ok_def ok_defs)
  note wf = this
  have "filter (result_scope r) (rows (results d')) =
        last_n 5000 (filter (result_scope r) (rows (results d)) @ [result_row r (last_id (results d) + 1)])" if "AddResult r d = Inr d'" for r d'
    using that result_history.add_scope [OF wf(1), of r] by (auto simp: AddResult_def resultsPerTest_def split: if_splits)
  moreover have "filter (path_scope c) (rows (path_changes d')) =
        last_n 500 (filter (path_scope c) (rows (path_changes d)) @ [path_row c (last_id (path_changes d) + 1)])" if "AddPathChange c d = Inr d'" for c d'
    using that path_history.add_scope [OF wf(2), of c] by (auto simp: AddPathChange_def pathChangesPerTest_def split: if_splits)
  moreover have "filter (log_scope e) (rows (logs (InsertLog e d))) =
        last_n (logHistory d) (filter (log_scope e) (rows (logs d)) @ [log_row e (last_id (logs d) + 1)])" if "le_Source e \<in> {''agent'', ''server''}" for e
    using that log_history.add_scope [OF wf(3), of e] by (auto simp: InsertLog_def valid_source_def)
  ultimately show ?thesis
    by blast
qed

text \<open>An instance with a rule that has a webhook, a test of an abandoned type and a log line whose prune was cut off.\<close>

definition stale_test :: TestDef where
  "stale_test = demo_test\<lparr>td_ID := ''x2'', td_Name := ''air'', td_Type := ''wlan_scan''\<rparr>"

definition hooked_rule :: AlertRule where
  "hooked_rule = demo_rule\<lparr>ar_WebhookURL := ''https://x/y''\<rparr>"

definition cut_line :: LogEntry where
  "cut_line = \<lparr>le_ID = 0, le_Time = 0, le_TenantID = '''', le_AgentID = '''', le_Source = ''server'', le_Scope = ''http'',
     le_Level = ''INFO'', le_Message = ''up''\<rparr>"

definition lived_db :: "TestResult db" where
  "lived_db = insert_log cut_line (demo_db\<lparr>tests := [demo_test, stale_test], alert_rules := [hooked_rule]\<rparr>)"

lemma lived_db_reached: "reach db_ok life_step lived_db"
proof -
  let ?d0 = "demo_db\<lparr>alert_rules := []\<rparr> :: TestResult db"
  let ?d1 = "demo_db\<lparr>tests := [demo_test, stale_test], alert_rules := []\<rparr> :: TestResult db"
  let ?d2 = "demo_db\<lparr>tests := [demo_test, stale_test], alert_rules := [hooked_rule]\<rparr> :: TestResult db"
  have "db_ok ?d0"
    by (simp add: db_ok_def ok_defs uniq_def refs_def demo_defs)
  then have "reach db_ok life_step ?d0"
    by (rule reach_init)
  moreover have "CreateTest ''x2'' stale_test ?d0 = Inr (stale_test, ?d1)"
    by (simp add: CreateTest_def has_key_def Let_def stale_test_def demo_db_def empty_db_def demo_defs)
  moreover have "CreateAlertRule ''r1'' hooked_rule ?d1 = Inr (hooked_rule, ?d2)"
    by (simp add: CreateAlertRule_def norm_rule_def has_key_def Let_def hooked_rule_def stale_test_def demo_db_def empty_db_def demo_defs)
  ultimately have "reach db_ok life_step ?d2"
    using reach_step life_run store_step.intros(15,35) by metis
  then show ?thesis
    unfolding lived_db_def by (rule reach_step) (intro life_cut cut_log)
qed

lemmas start_simps = Open_data_def migrate_data_def migrateWebhookTargets_def webhook_rule_def exec_def insert_target_def CreateAlertTarget_def
  set_target_ids_def has_webhook_def webhook_target_def has_key_def update_where_def delete_stale_links_def delete_stale_tests_def
  cascade_tests_def cascade_rules_def stale_tests_def Let_def

lemma stale_lived: "tests d = [demo_test, stale_test] \<Longrightarrow> stale_tests d = {''x2''}"
  by (simp add: stale_tests_def stale_test_def demo_defs del: set_filter)

theorem restarts_keep_store_witness:
  "\<exists>d' m. reach db_ok life_step lived_db \<and> Open_data (\<lambda>_. False) (\<lambda>_. ''n'') lived_db = Inr (d', m)
     \<and> migrated d' \<and> tests d' = [demo_test] \<and> map at_ID (alert_targets d') = [''n'']"
proof -
  have "case Open_data (\<lambda>_. False) (\<lambda>_. ''n'') lived_db of Inl _ \<Rightarrow> False
      | Inr (d', m) \<Rightarrow> tests d' = [demo_test] \<and> map at_ID (alert_targets d') = [''n'']"
    by (simp add: start_simps(1-16) Let_def stale_lived lived_db_def insert_log_def hooked_rule_def stale_test_def demo_defs)
  then show ?thesis
    using restarts_keep_store [OF lived_db_reached, where fails = "\<lambda>_. False" and newIDs = "\<lambda>_. ''n''"] lived_db_reached
    by (auto split: sum.splits)
qed

text \<open>
  A target of another type that bears the name of a rule's webhook stops the server for good: the check for an existing
  target asks for the type, the table's uniqueness does not.
\<close>

theorem taken_name_stops_server:
  assumes "db_ok d" "r \<in> set (alert_rules d)" "ar_WebhookURL r \<noteq> ''''"
    and "t \<in> set (alert_targets d)" "at_TenantID t = ar_TenantID r" "at_Name t = ar_Name r @ '' webhook''" "at_Type t \<noteq> ''webhook''"
  shows "\<exists>d'. Open_data fails newIDs d = Inl d'"
proof (rule ccontr)
  let ?d = "d\<lparr>logHistory := defaultLogHistory\<rparr>"
  assume "\<nexists>d'. Open_data fails newIDs d = Inl d'"
  then obtain s' where s': "migrateWebhookTargets fails newIDs (?d, 0) = Inr s'"
    by (auto simp: Open_data_def migrate_data_def split: sum.splits)
  then have kept: "hooks_kept ?d (fst s')"
    using obeys_migrateWebhookTargets [of fails newIDs] unfolding obeys_def by (metis fst_conv left_by_simps(2))
  have "rule_key ` set (alert_rules (fst s')) = rule_key ` set (alert_rules d)"
    using arg_cong [of _ _ set, OF kept [unfolded hooks_kept_def, THEN conjunct2, THEN conjunct1]] by simp
  then have "rule_key r \<in> rule_key ` set (alert_rules (fst s'))"
    using assms(2) by blast
  then obtain r' where r': "r' \<in> set (alert_rules (fst s'))" "rule_key r' = rule_key r"
    by (elim imageE) simp
  then have "has_webhook r (fst s')"
    using migrateWebhookTargets_hooks [OF s' r'(1)] has_webhook_key [OF r'(2), of "fst s'"] assms(3) by (simp add: rule_key_def)
  then obtain t' where t': "t' \<in> set (alert_targets (fst s'))" "at_TenantID t' = at_TenantID t" "at_Name t' = at_Name t" "at_Type t' = ''webhook''"
    by (auto simp: has_webhook_def list_ex_iff assms)
  have "db_ok ?d"
    using ok_SetLogHistory [OF assms(1), of 1000] by (simp add: SetLogHistory_def defaultLogHistory_def)
  then have "uniq (\<lambda>x. (at_TenantID x, at_Name x)) (alert_targets (fst s'))" "t \<in> set (alert_targets (fst s'))"
    using kept assms(4) by (auto simp: hooks_kept_def keeps_def db_ok_def ok_alert_targets_def)
  then have "t' = t"
    using t' by (auto simp: uniq_def distinct_map dest: inj_onD)
  then show False
    using t'(4) assms(7) by simp
qed

definition hook_rule :: AlertRule where
  "hook_rule = demo_rule\<lparr>ar_WebhookURL := ''https://x/y''\<rparr>"

definition mail_target :: AlertTarget where
  "mail_target = \<lparr>at_ID = ''g1'', at_TenantID = ''t1'', at_Name = ''gw down webhook'', at_Type = ''email'',
     at_Config = JObj [(''to'', JArr [JStr ''a@x''])]\<rparr>"

definition taken_db :: "TestResult db" where
  "taken_db = demo_db\<lparr>alert_rules := [hook_rule], alert_targets := [mail_target]\<rparr>"

lemmas taken_defs = taken_db_def hook_rule_def mail_target_def

theorem taken_name_stops_server_witness: "\<exists>d'. Open_data (\<lambda>_. False) (\<lambda>_. ''n'') taken_db = Inl d'"
proof (rule taken_name_stops_server [of taken_db hook_rule mail_target])
  show "db_ok taken_db"
    by (simp add: db_ok_def ok_defs uniq_def refs_def demo_defs taken_defs)
qed (simp_all add: taken_defs demo_defs)

text \<open>
  Three more ways in which rules and their webhooks part. A target that was deleted is there again after the next
  start, since the rule keeps its URL.
\<close>

theorem deleted_target_comes_back:
  assumes "Open_data fails newIDs (DeleteAlertTarget (at_ID t) d) = Inr (d', n)" "r \<in> set (alert_rules d')" "ar_WebhookURL r \<noteq> ''''"
  shows "has_webhook r d'"
  using Open_data_migrated [OF assms(1)] assms(2,3) by (simp add: migrated_def list_all_iff)

text \<open>The second of two rules of the same name is taken to have its target already, and never notifies.\<close>

definition target_ids :: "'p db + 'p db \<times> nat \<Rightarrow> string list list" where
  "target_ids x = map ar_TargetIds (alert_rules (left_by x))"

definition namesakes :: "TestResult db" where
  "namesakes = demo_db\<lparr>alert_rules := [hook_rule, hook_rule\<lparr>ar_ID := ''r2'', ar_WebhookURL := ''https://z''\<rparr>]\<rparr>"

lemma namesake_loses_webhook: "target_ids (Open_data (\<lambda>_. False) (\<lambda>_. ''n'') namesakes) = [[''n''], []]"
  by (auto simp: target_ids_def start_simps namesakes_def hook_rule_def demo_defs)

text \<open>A start interrupted between the target's insertion and the rule's update is not made up for by the next one.\<close>

lemma interrupted_start_loses_webhook:
  "target_ids (Open_data (\<lambda>_. False) (\<lambda>_. ''m'') (left_by (Open_data (\<lambda>n. n = 3) (\<lambda>_. ''n'') (demo_db\<lparr>alert_rules := [hook_rule]\<rparr> :: TestResult db)))) = [[]]"
  by (auto simp: target_ids_def start_simps hook_rule_def demo_defs)

end
