(* ===== verification/Go_Fmt.thy ===== *)
theory Go_Fmt
  imports Go_Strings
begin

text \<open>
  The formatting the server's messages use: \<open>%d\<close>, \<open>%.2f\<close> and \<open>time.RFC3339\<close> in UTC. \<open>%.2f\<close> rounds
  the exact value to the nearest hundredth, a tie going to the even one.
\<close>

section \<open>Decimal numbers\<close>

fun dec_digits :: "nat \<Rightarrow> string \<Rightarrow> string" where
  "dec_digits n acc =
     (if n < 10 then digit n # acc else dec_digits (n div 10) (digit (n mod 10) # acc))"

declare dec_digits.simps [simp del]

definition format_nat :: "nat \<Rightarrow> string" where
  "format_nat n = dec_digits n []"

definition format_int :: "int \<Rightarrow> string" where
  "format_int i = (if i < 0 then ''-'' @ format_nat (nat (- i)) else format_nat (nat i))"

definition pad_zero :: "nat \<Rightarrow> string \<Rightarrow> string" where
  "pad_zero w s = replicate (w - length s) (CHR ''0'') @ s"

lemma dec_digits_value: "atoi_digits 0 (dec_digits n acc) = atoi_digits n acc"
proof (induction n acc rule: dec_digits.induct)
  case (1 n acc)
  show ?case
  proof (cases "n < 10")
    case True
    then show ?thesis by (simp add: dec_digits.simps [of n] atoi_digits_def of_char_digit)
  next
    case False
    then have "atoi_digits 0 (dec_digits n acc) = atoi_digits (n div 10) (digit (n mod 10) # acc)"
      using "1.IH" by (simp add: dec_digits.simps [of n])
    also have "\<dots> = atoi_digits (10 * (n div 10) + n mod 10) acc"
      by (simp add: atoi_digits_def of_char_digit)
    finally show ?thesis by simp
  qed
qed

lemma format_nat_value: "atoi_digits 0 (format_nat n) = n"
  by (simp add: format_nat_def dec_digits_value)

lemma format_nat_inj: "format_nat m = format_nat n \<longleftrightarrow> m = n"
  by (metis format_nat_value)

section \<open>Two decimals\<close>

definition round_half_even :: "real \<Rightarrow> int" where
  "round_half_even x =
     (let f = \<lfloor>x\<rfloor>; r = x - of_int f
      in if r < 1 / 2 then f else if r > 1 / 2 then f + 1 else if even f then f else f + 1)"

definition format_f2 :: "real \<Rightarrow> string" where
  "format_f2 x =
     (let n = nat (round_half_even (\<bar>x\<bar> * 100));
          s = format_nat (n div 100) @ ''.'' @ pad_zero 2 (format_nat (n mod 100))
      in if x < 0 then ''-'' @ s else s)"

lemma round_half_even_near: "\<bar>of_int (round_half_even x) - x\<bar> \<le> 1 / 2"
  unfolding round_half_even_def Let_def by (auto; linarith)

section \<open>Timestamps\<close>

text \<open>The proleptic Gregorian date of a day number, day 0 being 1970-01-01.\<close>

definition civil_from_days :: "int \<Rightarrow> int \<times> int \<times> int" where
  "civil_from_days days =
     (let z = days + 719468; era = z div 146097; doe = z mod 146097;
          yoe = (doe - doe div 1460 + doe div 36524 - doe div 146096) div 365;
          doy = doe - (365 * yoe + yoe div 4 - yoe div 100);
          mp = (5 * doy + 2) div 153;
          d = doy - (153 * mp + 2) div 5 + 1;
          m = (if mp < 10 then mp + 3 else mp - 9);
          y = yoe + era * 400 + (if m \<le> 2 then 1 else 0)
      in (y, m, d))"

definition pad_int :: "nat \<Rightarrow> int \<Rightarrow> string" where
  "pad_int w i = pad_zero w (format_nat (nat i))"

definition format_rfc3339 :: "go_time \<Rightarrow> string" where
  "format_rfc3339 t =
     (let s = t div second; sod = s mod 86400; (y, m, d) = civil_from_days (s div 86400)
      in pad_int 4 y @ ''-'' @ pad_int 2 m @ ''-'' @ pad_int 2 d @ ''T'' @ pad_int 2 (sod div 3600)
         @ '':'' @ pad_int 2 (sod mod 3600 div 60) @ '':'' @ pad_int 2 (sod mod 60) @ ''Z'')"

text \<open>
  \<open>time.Parse(time.RFC3339, s)\<close> on the strict form: fixed-width fields, an optional fraction of a
  second, and \<open>Z\<close> or a numeric offset; a field out of range is an error.
\<close>

definition days_from_civil :: "int \<Rightarrow> int \<Rightarrow> int \<Rightarrow> int" where
  "days_from_civil y0 m d =
     (let y = (if m \<le> 2 then y0 - 1 else y0); era = y div 400; yoe = y mod 400;
          doy = (153 * (if m > 2 then m - 3 else m + 9) + 2) div 5 + d - 1;
          doe = yoe * 365 + yoe div 4 - yoe div 100 + doy
      in era * 146097 + doe - 719468)"

definition days_in_month :: "int \<Rightarrow> int \<Rightarrow> int" where
  "days_in_month y m =
     (if m = 2 then (if y mod 4 = 0 \<and> (y mod 100 \<noteq> 0 \<or> y mod 400 = 0) then 29 else 28)
      else if m = 4 \<or> m = 6 \<or> m = 9 \<or> m = 11 then 30 else 31)"

definition is_digit :: "char \<Rightarrow> bool" where
  "is_digit c \<longleftrightarrow> CHR ''0'' = c \<or> (48 < (of_char c :: nat) \<and> (of_char c :: nat) \<le> 57)"

definition parse_num :: "nat \<Rightarrow> nat \<Rightarrow> string \<Rightarrow> int option" where
  "parse_num i n s =
     (let ds = take n (drop i s)
      in if length ds = n \<and> list_all is_digit ds then Some (int (atoi_digits 0 ds)) else None)"

definition parse_frac :: "string \<Rightarrow> int \<times> string" where
  "parse_frac s =
     (case s of
        c # rest \<Rightarrow>
          (let ds = takeWhile is_digit rest
           in if (c = CHR ''.'' \<or> c = CHR '','') \<and> ds \<noteq> []
              then (int (atoi_digits 0 (take 9 ds)) * 10 ^ (9 - length (take 9 ds)), dropWhile is_digit rest)
              else (0, s))
      | [] \<Rightarrow> (0, s))"

definition parse_zone :: "string \<Rightarrow> int option" where
  "parse_zone s =
     (if s = ''Z'' then Some 0
      else if length s = 6 \<and> (s ! 0 = CHR ''+'' \<or> s ! 0 = CHR ''-'') \<and> s ! 3 = CHR '':'' then
        (case (parse_num 1 2 s, parse_num 4 2 s) of
           (Some h, Some m) \<Rightarrow>
             if h < 24 \<and> m < 60 then Some ((if s ! 0 = CHR ''-'' then - 1 else 1) * (h * 3600 + m * 60)) else None
         | _ \<Rightarrow> None)
      else None)"

definition parse_rfc3339 :: "string \<Rightarrow> go_time option" where
  "parse_rfc3339 s =
     (if length s < 20 \<or> s ! 4 \<noteq> CHR ''-'' \<or> s ! 7 \<noteq> CHR ''-'' \<or> s ! 10 \<noteq> CHR ''T''
         \<or> s ! 13 \<noteq> CHR '':'' \<or> s ! 16 \<noteq> CHR '':'' then None
      else case (parse_num 0 4 s, parse_num 5 2 s, parse_num 8 2 s) of
        (Some y, Some mo, Some d) \<Rightarrow>
          (case (parse_num 11 2 s, parse_num 14 2 s, parse_num 17 2 s) of
             (Some h, Some mi, Some sec) \<Rightarrow>
               (let (ns, rest) = parse_frac (drop 19 s)
                in case parse_zone rest of
                     None \<Rightarrow> None
                   | Some off \<Rightarrow>
                       if 1 \<le> mo \<and> mo \<le> 12 \<and> 1 \<le> d \<and> d \<le> days_in_month y mo \<and> h < 24 \<and> mi < 60 \<and> sec < 60
                       then Some ((days_from_civil y mo d * 86400 + h * 3600 + mi * 60 + sec - off) * second + ns)
                       else None)
           | _ \<Rightarrow> None)
      | _ \<Rightarrow> None)"

text \<open>\<open>%.0f\<close>\<close>

definition format_f0 :: "real \<Rightarrow> string" where
  "format_f0 x = (if x < 0 then ''-'' else '''') @ format_nat (nat (round_half_even \<bar>x\<bar>))"

end
