(* ===== verification/Go_Net.thy ===== *)
theory Go_Net
  imports Go_Fmt
begin

text \<open>
  Addresses and networks of Go's \<open>net\<close> and \<open>net/netip\<close> packages, as the sources use them:
  \<open>net.ParseIP\<close>, \<open>IP.To4\<close>, \<open>net.ParseCIDR\<close> and \<open>IPNet.Contains\<close>. An address with a zone is refused by
  both parsers, so a text with a percent sign never parses. Bytes are \<open>8 word\<close>s.
\<close>

unbundle bit_operations_syntax

section \<open>IPv4 fields\<close>

fun split_on :: "char \<Rightarrow> string \<Rightarrow> string list" where
  "split_on c [] = [[]]"
| "split_on c (x # xs) =
     (if x = c then [] # split_on c xs
      else case split_on c xs of [] \<Rightarrow> [[x]] | y # ys \<Rightarrow> (x # y) # ys)"

text \<open>One octet: one to three digits, no leading zero, at most 255.\<close>

definition parse_octet :: "string \<Rightarrow> u8 option" where
  "parse_octet s =
     (if s \<noteq> [] \<and> list_all is_digit s \<and> (hd s = CHR ''0'' \<longrightarrow> length s = 1) \<and> atoi_digits 0 s \<le> 255
      then Some (of_nat (atoi_digits 0 s)) else None)"

definition parseIPv4Fields :: "string \<Rightarrow> u8 list option" where
  "parseIPv4Fields s =
     (let fs = split_on (CHR ''.'') s
      in if length fs = 4 then those (map parse_octet fs) else None)"

section \<open>IPv6\<close>

definition hex_digit :: "char \<Rightarrow> nat option" where
  "hex_digit c =
     (let n = (of_char c :: nat)
      in if 48 \<le> n \<and> n \<le> 57 then Some (n - 48)
         else if 97 \<le> n \<and> n \<le> 102 then Some (n - 87)
         else if 65 \<le> n \<and> n \<le> 70 then Some (n - 55) else None)"

text \<open>The inner loop over one group: the number of digits, their value and the rest of the text.\<close>

fun take_hex :: "nat \<Rightarrow> nat \<Rightarrow> string \<Rightarrow> (nat \<times> nat \<times> string) option" where
  "take_hex off acc [] = Some (off, acc, [])"
| "take_hex off acc (c # cs) =
     (case hex_digit c of
        None \<Rightarrow> Some (off, acc, c # cs)
      | Some v \<Rightarrow> if off > 3 then None else take_hex (off + 1) (acc * 16 + v) cs)"

text \<open>
  The outer loop: \<open>ip\<close> is the part of the address filled so far and \<open>ell\<close> the position of the
  ellipsis.
\<close>

function parse_groups :: "u8 list \<Rightarrow> nat option \<Rightarrow> string \<Rightarrow> (u8 list \<times> nat option) option" where
  "parse_groups ip ell s =
     (if 16 \<le> length ip then (if s = [] then Some (ip, ell) else None)
      else case take_hex 0 0 s of
        None \<Rightarrow> None
      | Some (off, acc, rest) \<Rightarrow>
          if off = 0 then None
          else if rest \<noteq> [] \<and> hd rest = CHR ''.'' then
            (if (ell = None \<and> length ip \<noteq> 12) \<or> length ip + 4 > 16 then None
             else map_option (\<lambda>b. (ip @ b, ell)) (parseIPv4Fields s))
          else
            (let ip = ip @ [of_nat (acc div 256), of_nat (acc mod 256)]
             in case rest of
                  [] \<Rightarrow> Some (ip, ell)
                | c # rest \<Rightarrow>
                    if c \<noteq> CHR '':'' \<or> rest = [] then None
                    else if hd rest = CHR '':'' then
                      (if ell \<noteq> None then None
                       else if tl rest = [] then Some (ip, Some (length ip))
                       else parse_groups ip (Some (length ip)) (tl rest))
                    else parse_groups ip ell rest))"
  by pat_completeness auto
termination by (relation "measure (\<lambda>(ip, _, _). 16 - length ip)") auto

declare parse_groups.simps [simp del]

definition expand :: "u8 list \<times> nat option \<Rightarrow> u8 list option" where
  "expand g =
     (case g of (ip, ell) \<Rightarrow>
        if length ip < 16 then
          map_option (\<lambda>e. take e ip @ replicate (16 - length ip) 0 @ drop e ip) ell
        else if ell \<noteq> None then None else Some ip)"

definition parseIPv6 :: "string \<Rightarrow> u8 list option" where
  "parseIPv6 s =
     (if take 2 s = ''::'' then
        (if drop 2 s = [] then Some (replicate 16 0)
         else Option.bind (parse_groups [] (Some 0) (drop 2 s)) expand)
      else Option.bind (parse_groups [] None s) expand)"

section \<open>Addresses\<close>

datatype Addr = Addr4 "u8 list" | Addr6 "u8 list"

definition ParseAddr :: "string \<Rightarrow> Addr option" where
  "ParseAddr s =
     (case find (\<lambda>c. c = CHR ''.'' \<or> c = CHR '':'' \<or> c = CHR 0x25) s of
        None \<Rightarrow> None
      | Some c \<Rightarrow>
          if CHR 0x25 \<in> set s then None
          else if c = CHR ''.'' then map_option Addr4 (parseIPv4Fields s)
          else map_option Addr6 (parseIPv6 s))"

definition v4InV6Prefix :: "u8 list" where
  "v4InV6Prefix = replicate 10 0 @ [255, 255]"

fun As16 :: "Addr \<Rightarrow> u8 list" where
  "As16 (Addr4 b) = v4InV6Prefix @ b"
| "As16 (Addr6 b) = b"

fun BitLen :: "Addr \<Rightarrow> nat" where
  "BitLen (Addr4 _) = 32"
| "BitLen (Addr6 _) = 128"

definition ParseIP :: "string \<Rightarrow> u8 list option" where
  "ParseIP s = map_option As16 (ParseAddr s)"

definition To4 :: "u8 list \<Rightarrow> u8 list option" where
  "To4 ip =
     (if length ip = 4 then Some ip
      else if length ip = 16 \<and> take 12 ip = v4InV6Prefix then Some (drop 12 ip) else None)"

section \<open>Networks\<close>

record IPNet =
  net_IP :: "u8 list"
  net_Mask :: "u8 list"

definition CIDRMask :: "nat \<Rightarrow> nat \<Rightarrow> u8 list" where
  "CIDRMask ones bits = map (\<lambda>i. push_bit (8 - min 8 (ones - 8 * i)) 255) [0..<bits div 8]"

text \<open>\<open>IP.Mask\<close> on a sixteen-byte address: a four-byte mask applies to the IPv4 part.\<close>

definition mask_ip :: "u8 list \<Rightarrow> u8 list \<Rightarrow> u8 list" where
  "mask_ip ip m =
     (let ip = (if length m = 4 \<and> length ip = 16 \<and> take 12 ip = v4InV6Prefix then drop 12 ip else ip)
      in map2 (AND) ip m)"

definition parse_mask :: "string \<Rightarrow> nat option" where
  "parse_mask s = (if s \<noteq> [] \<and> list_all is_digit s \<and> atoi_digits 0 s < 0xFFFFFF then Some (atoi_digits 0 s) else None)"

definition cut :: "char \<Rightarrow> string \<Rightarrow> (string \<times> string) option" where
  "cut c s = map_option (\<lambda>i. (take i s, drop (i + 1) s)) (index_byte c s)"

definition ParseCIDR :: "string \<Rightarrow> IPNet option" where
  "ParseCIDR s =
     (case cut (CHR ''/'') s of
        None \<Rightarrow> None
      | Some (addr, msk) \<Rightarrow>
          (case (ParseAddr addr, parse_mask msk) of
             (Some a, Some n) \<Rightarrow>
               if n \<le> BitLen a
               then Some \<lparr>net_IP = mask_ip (As16 a) (CIDRMask n (BitLen a)), net_Mask = CIDRMask n (BitLen a)\<rparr>
               else None
           | _ \<Rightarrow> None))"

text \<open>\<open>IPNet.Contains\<close>: a network whose address reads as IPv4 uses the last four bytes of a long mask.\<close>

definition Contains :: "IPNet \<Rightarrow> u8 list \<Rightarrow> bool" where
  "Contains n ip =
     (let nn = (case To4 (net_IP n) of Some x \<Rightarrow> x | None \<Rightarrow> net_IP n);
          m = (if length (net_Mask n) = 16 \<and> length nn = 4 then drop 12 (net_Mask n) else net_Mask n);
          x = (case To4 ip of Some x \<Rightarrow> x | None \<Rightarrow> ip)
      in length x = length nn \<and> length m = length nn \<and> map2 (AND) nn m = map2 (AND) x m)"

section \<open>Parsed addresses have sixteen bytes\<close>

lemma those_length: "those xs = Some ys \<Longrightarrow> length ys = length xs"
  by (induction xs arbitrary: ys) (auto split: option.splits)

lemma parseIPv4Fields_length: "parseIPv4Fields s = Some b \<Longrightarrow> length b = 4"
  by (auto simp: parseIPv4Fields_def Let_def dest!: those_length split: if_splits)

lemma parse_groups_length:
  assumes "parse_groups ip ell s = Some (ip', ell')" "length ip \<le> 16" "even (length ip)" "\<forall>e. ell = Some e \<longrightarrow> e \<le> length ip"
  shows "length ip' \<le> 16 \<and> (\<forall>e. ell' = Some e \<longrightarrow> e \<le> length ip')"
  using assms
proof (induction ip ell s rule: parse_groups.induct)
  case (1 ip ell s)
  show ?case
  proof (cases "16 \<le> length ip")
    case True
    then show ?thesis using "1.prems" by (auto simp: parse_groups.simps [of ip] split: if_splits)
  next
    case False
    then have two: "length ip + 2 \<le> 16" using "1.prems"(3) by presburger
    obtain off acc rest where h: "take_hex 0 0 s = Some (off, acc, rest)"
      using "1.prems"(1) False by (auto simp: parse_groups.simps [of ip] split: option.splits)
    note P = "1.prems"(1) [unfolded parse_groups.simps [of ip ell s]]
    show ?thesis
    proof (cases "rest \<noteq> [] \<and> hd rest = CHR ''.''")
      case True
      then show ?thesis using P False h "1.prems"(4)
        by (fastforce simp: dest: parseIPv4Fields_length split: if_splits)
    next
      case nodot: False
      show ?thesis
      proof (cases rest)
        case Nil
        then show ?thesis using P False h nodot two "1.prems"(4) by (auto simp: Let_def split: if_splits)
      next
        case (Cons c rest')
        let ?ip = "ip @ [of_nat (acc div 256), of_nat (acc mod 256)]"
        note IH = "1.IH" [OF False h refl refl _ nodot refl Cons]
        show ?thesis
        proof (cases "hd rest' = CHR '':'' ")
          case True
          then show ?thesis
            using P False h nodot Cons two IH(1) "1.prems"(3) by (auto simp: Let_def split: if_splits)
        next
          case False2: False
          then show ?thesis
            using P False h nodot Cons two IH(2) "1.prems"(3,4) by (fastforce simp: Let_def split: if_splits)
        qed
      qed
    qed
  qed
qed

lemma expand_length: "length (fst g) \<le> 16 \<Longrightarrow> (\<forall>e. snd g = Some e \<longrightarrow> e \<le> length (fst g)) \<Longrightarrow> expand g = Some b \<Longrightarrow> length b = 16"
  by (cases g) (auto simp: expand_def split: if_splits)

lemma parseIPv6_length:
  assumes "parseIPv6 s = Some b"
  shows "length b = 16"
proof -
  have fin: "length b = 16" if g: "parse_groups [] ell t = Some g" "expand g = Some b" "ell = None \<or> ell = Some 0" for g t ell
  proof -
    have "length (fst g) \<le> 16 \<and> (\<forall>e. snd g = Some e \<longrightarrow> e \<le> length (fst g))"
      using parse_groups_length [of "[]" ell t "fst g" "snd g"] g by auto
    then show ?thesis using expand_length g(2) by blast
  qed
  show ?thesis
    using assms fin by (auto simp: parseIPv6_def Option.bind_eq_Some_conv split: if_splits)
qed

definition addr_bytes :: "Addr \<Rightarrow> bool" where
  "addr_bytes a = (case a of Addr4 b \<Rightarrow> length b = 4 | Addr6 b \<Rightarrow> length b = 16)"

lemma ParseAddr_bytes: "ParseAddr s = Some a \<Longrightarrow> addr_bytes a"
  by (auto simp: ParseAddr_def addr_bytes_def parseIPv6_length parseIPv4Fields_length split: option.splits if_splits)

lemma ParseIP_length: "ParseIP s = Some ip \<Longrightarrow> length ip = 16"
  by (auto simp: ParseIP_def v4InV6Prefix_def addr_bytes_def dest!: ParseAddr_bytes split: Addr.splits)

section \<open>Dotted IPv4 text\<close>

definition dotted :: "u8 list \<Rightarrow> string" where
  "dotted b = join ''.'' (map (\<lambda>x. format_nat (unat x)) b)"

lemma digit_zero: "digit 0 = CHR ''0''"
  by code_simp

lemma digit_is_digit: "d < 10 \<Longrightarrow> is_digit (digit d)"
  using digit_zero by (cases "d = 0") (simp_all add: is_digit_def of_char_digit)

lemma dec_digits_digits: "list_all is_digit acc \<Longrightarrow> list_all is_digit (dec_digits n acc)"
  by (induction n acc rule: dec_digits.induct) (simp add: dec_digits.simps digit_is_digit)

lemma format_nat_digits: "list_all is_digit (format_nat n)"
  by (simp add: format_nat_def dec_digits_digits)

lemma dec_digits_hd: "0 < n \<Longrightarrow> dec_digits n acc \<noteq> [] \<and> hd (dec_digits n acc) \<noteq> CHR ''0''"
proof (induction n acc rule: dec_digits.induct)
  case (1 n acc)
  show ?case
  proof (cases "n < 10")
    case True
    have "(of_char (digit n) :: nat) \<noteq> of_char (CHR ''0'')" using True 1 by (simp add: of_char_digit)
    then show ?thesis using True by (auto simp: dec_digits.simps [of n])
  next
    case False
    then show ?thesis using 1 by (simp add: dec_digits.simps [of n])
  qed
qed

lemma format_nat_hd: "0 < n \<Longrightarrow> format_nat n \<noteq> [] \<and> hd (format_nat n) \<noteq> CHR ''0''"
  using dec_digits_hd by (simp add: format_nat_def)

lemma parse_octet_format: "parse_octet (format_nat (unat (x :: u8))) = Some x"
proof (cases "unat x = 0")
  case True
  then have "x = 0" by (simp add: unat_eq_0)
  moreover have "format_nat 0 = ''0''" by (simp add: format_nat_def dec_digits.simps [of 0] digit_zero)
  moreover have "parse_octet ''0'' = Some 0" by code_simp
  ultimately show ?thesis by simp
next
  case False
  have "unat x \<le> 255" using unsigned_less [of x, where ?'a = nat] by simp
  then show ?thesis
    using False format_nat_digits [of "unat x"] format_nat_hd [of "unat x"]
    by (simp add: parse_octet_def format_nat_value)
qed

lemma split_on_none: "c \<notin> set s \<Longrightarrow> split_on c s = [s]"
  by (induction s) auto

lemma split_on_append: "c \<notin> set u \<Longrightarrow> split_on c (u @ c # v) = u # split_on c v"
  by (induction u) auto

lemma split_on_join: "xs \<noteq> [] \<Longrightarrow> \<forall>x \<in> set xs. c \<notin> set x \<Longrightarrow> split_on c (join [c] xs) = xs"
  by (induction "[c]" xs rule: join.induct) (auto simp: split_on_none split_on_append)

lemma digits_no_sep: "list_all is_digit s \<Longrightarrow> \<not> is_digit c \<Longrightarrow> c \<notin> set s"
  by (auto simp: list_all_iff)

lemma parseIPv4Fields_dotted:
  assumes "length b = 4"
  shows "parseIPv4Fields (dotted b) = Some b"
proof -
  have "\<not> is_digit (CHR ''.'')" by code_simp
  then have "\<forall>x \<in> set (map (\<lambda>x. format_nat (unat x)) b). CHR ''.'' \<notin> set x"
    using digits_no_sep [OF format_nat_digits] by simp
  then have "split_on (CHR ''.'') (dotted b) = map (\<lambda>x. format_nat (unat x)) b"
    using assms unfolding dotted_def by (intro split_on_join) auto
  moreover have "those (map (parse_octet \<circ> (\<lambda>x. format_nat (unat x))) b) = Some b"
    by (induction b) (simp_all add: parse_octet_format)
  ultimately show ?thesis using assms by (simp add: parseIPv4Fields_def Let_def)
qed

end
