(* ===== verification/Perfmon.thy ===== *)
theory Perfmon
  imports Go_Net
begin

text \<open>
  The agent-to-agent throughput test, \<open>internal/probe/perfmon.go\<close>: the allow-list, the wire protocol
  of both ends and the reflector. A connection is the list of bytes the peer sends before it closes
  its side; what an end writes is the list of bytes it returns. Sockets, deadlines and the clock are
  outside: how many bytes a peer gets through in a phase is an argument.
\<close>

section \<open>Allow-list\<close>

fun ParseCIDRs :: "string list \<Rightarrow> IPNet list result" where
  "ParseCIDRs [] = Inr []"
| "ParseCIDRs (e0 # es) =
     (let e = trim_space e0
      in if e = '''' then ParseCIDRs es
         else case (if CHR ''/'' \<in> set e then Inr e
                    else case ParseIP e of
                           None \<Rightarrow> Inl (Errorf ''invalid address %q'' [e])
                         | Some ip \<Rightarrow> Inr (e @ ''/'' @ (if To4 ip = None then ''128'' else ''32''))) of
                Inl err \<Rightarrow> Inl err
              | Inr e \<Rightarrow>
                  (case ParseCIDR e of
                     None \<Rightarrow> Inl (Wrapf ''invalid CIDR %q: %w'' [e] (ExtErr ''invalid CIDR address''))
                   | Some n \<Rightarrow> map_sum id ((#) n) (ParseCIDRs es)))"

definition connAllowed :: "string \<Rightarrow> IPNet list \<Rightarrow> bool" where
  "connAllowed remoteAddr allowed =
     (if allowed = [] then False
      else case split_host_port remoteAddr of
        Inl _ \<Rightarrow> False
      | Inr (host, _) \<Rightarrow> (case ParseIP host of None \<Rightarrow> False | Some ip \<Rightarrow> list_ex (\<lambda>n. Contains n ip) allowed))"

section \<open>Wire format\<close>

type_synonym bytes = "u8 list"

definition perfmonMagic :: bytes where
  "perfmonMagic = [0x4E, 0x4C, 0x50, 0x4D]"

definition perfmonVersion :: u8 where
  "perfmonVersion = 1"

definition perfmonPhaseUpload :: u8 where
  "perfmonPhaseUpload = 1"

definition perfmonPhaseDownload :: u8 where
  "perfmonPhaseDownload = 2"

definition perfmonMaxDuration :: u32 where
  "perfmonMaxDuration = 30"

text \<open>\<open>io.ReadFull\<close>: all \<open>n\<close> bytes and the rest of the stream, or an error if it ends before.\<close>

definition ReadFull :: "nat \<Rightarrow> bytes \<Rightarrow> (bytes \<times> bytes) option" where
  "ReadFull n s = (if n \<le> length s then Some (take n s, drop n s) else None)"

definition put_u32 :: "u32 \<Rightarrow> bytes" where
  "put_u32 w = [ucast (drop_bit 24 w), ucast (drop_bit 16 w), ucast (drop_bit 8 w), ucast w]"

fun get_u32 :: "bytes \<Rightarrow> u32" where
  "get_u32 (a # b # c # d # _) =
     push_bit 24 (ucast a) OR push_bit 16 (ucast b) OR push_bit 8 (ucast c) OR ucast d"
| "get_u32 _ = 0"

definition put_u64 :: "u64 \<Rightarrow> bytes" where
  "put_u64 w = put_u32 (ucast (drop_bit 32 w)) @ put_u32 (ucast w)"

definition get_u64 :: "bytes \<Rightarrow> u64" where
  "get_u64 s = push_bit 32 (ucast (get_u32 s)) OR ucast (get_u32 (drop 4 s))"

definition writeHandshake :: bytes where
  "writeHandshake = perfmonMagic @ [perfmonVersion]"

definition readHandshake :: "bytes \<Rightarrow> bytes option" where
  "readHandshake s =
     (case ReadFull (length perfmonMagic + 1) s of
        None \<Rightarrow> None
      | Some (buf, rest) \<Rightarrow>
          if take (length perfmonMagic) buf \<noteq> perfmonMagic \<or> buf ! length perfmonMagic \<noteq> perfmonVersion
          then None else Some rest)"

definition writePhaseHeader :: "u8 \<Rightarrow> u32 \<Rightarrow> bytes" where
  "writePhaseHeader phase durationSeconds = phase # put_u32 durationSeconds"

definition readPhaseHeader :: "bytes \<Rightarrow> (u8 \<times> u32 \<times> bytes) option" where
  "readPhaseHeader s =
     (case ReadFull 5 s of None \<Rightarrow> None | Some (buf, rest) \<Rightarrow> Some (buf ! 0, get_u32 (drop 1 buf), rest))"

definition writeByteCount :: "u64 \<Rightarrow> bytes" where
  "writeByteCount n = put_u64 n"

definition readByteCount :: "bytes \<Rightarrow> u64 option" where
  "readByteCount s = map_option (\<lambda>(buf, _). get_u64 buf) (ReadFull 8 s)"

section \<open>The reflector\<close>

text \<open>
  What the reflector does on one connection, by how far it gets: nothing, its half of the handshake,
  the byte count of an upload, or a stream of the given number of seconds. In the last two cases the
  handshake has been written before.
\<close>

datatype reflection = Dropped | Greeted | Counted u64 | Streamed u32

definition handleReflectorConn :: "bytes \<Rightarrow> reflection" where
  "handleReflectorConn s =
     (case readHandshake s of
        None \<Rightarrow> Dropped
      | Some s \<Rightarrow>
          (case readPhaseHeader s of
             None \<Rightarrow> Greeted
           | Some (phase, duration, s) \<Rightarrow>
               if duration = 0 \<or> duration > perfmonMaxDuration then Greeted
               else if phase = perfmonPhaseUpload then Counted (of_nat (length s))
               else if phase = perfmonPhaseDownload then Streamed duration
               else Greeted))"

fun reflected :: "bytes \<Rightarrow> reflection \<Rightarrow> bytes" where
  "reflected stream Dropped = []"
| "reflected stream Greeted = writeHandshake"
| "reflected stream (Counted n) = writeHandshake @ writeByteCount n"
| "reflected stream (Streamed d) = writeHandshake @ stream"

text \<open>One accepted connection: a peer outside the allow-list is dropped before the handshake.\<close>

definition serve_conn :: "IPNet list \<Rightarrow> string \<Rightarrow> bytes \<Rightarrow> reflection" where
  "serve_conn allowed remoteAddr s =
     (if \<not> connAllowed remoteAddr allowed then Dropped else handleReflectorConn s)"

section \<open>The client\<close>

definition perfmonDuration :: "u32 \<Rightarrow> u32" where
  "perfmonDuration d = (if d = 0 then 5 else d)"

text \<open>\<open>mbps\<close> of \<open>internal/probe/cloudflare.go\<close>.\<close>

definition mbps :: "int \<Rightarrow> go_time \<Rightarrow> float64" where
  "mbps n elapsed = (if elapsed \<le> 0 then 0 else of_int n * 8 / (of_int elapsed / of_int second) / 1000000)"

definition seconds :: "u32 \<Rightarrow> go_time" where
  "seconds d = uint d * second"

record PerfmonClientResult =
  pcl_Target :: string
  pcl_Success :: bool
  pcl_FailedStep :: string
  pcl_LatencyMs :: float64
  pcl_UploadMbps :: float64
  pcl_DownloadMbps :: float64
  pcl_DurationSeconds :: u32

text \<open>
  A peer as the client meets it: which step on the connection fails, the round trip, how many payload
  bytes leave in the time given, and the bytes that come back for all that was sent. A step is
  dialling, a write of the handshake or of the phase header, the payload, the half-close.
\<close>

datatype step = Dial | Greet | Header | Payload | HalfClose

record peer =
  pe_fails :: "step \<Rightarrow> bool"
  pe_rtt :: float64
  pe_sent :: nat
  pe_answer :: "bytes \<Rightarrow> bytes"

definition runUploadConn :: "peer \<Rightarrow> u32 \<Rightarrow> float64 \<times> float64 \<times> string" where
  "runUploadConn p durationSeconds =
     (if pe_fails p Dial then (0, 0, ''connect'')
      else if pe_fails p Greet then (0, 0, ''handshake'')
      else case readHandshake (pe_answer p (writeHandshake @ writePhaseHeader perfmonPhaseUpload durationSeconds
                  @ replicate (pe_sent p) 0)) of
        None \<Rightarrow> (0, 0, ''handshake'')
      | Some ans \<Rightarrow>
          if pe_fails p Header \<or> pe_fails p Payload \<or> pe_fails p HalfClose then (pe_rtt p, 0, ''upload'')
          else case readByteCount ans of
                 None \<Rightarrow> (pe_rtt p, 0, ''upload'')
               | Some n \<Rightarrow> (pe_rtt p, mbps (sint n) (seconds durationSeconds), ''''))"

definition runDownloadConn :: "peer \<Rightarrow> u32 \<Rightarrow> float64 \<times> string" where
  "runDownloadConn p durationSeconds =
     (if pe_fails p Dial then (0, ''connect'')
      else if pe_fails p Greet then (0, ''handshake'')
      else case readHandshake (pe_answer p (writeHandshake @ writePhaseHeader perfmonPhaseDownload durationSeconds)) of
        None \<Rightarrow> (0, ''handshake'')
      | Some data \<Rightarrow>
          if pe_fails p Header then (0, ''download'')
          else if pe_fails p Payload \<and> data = [] then (0, ''download'')
          else (mbps (int (length data)) (seconds durationSeconds), ''''))"

definition RunClient :: "peer \<Rightarrow> peer \<Rightarrow> string \<Rightarrow> u32 \<Rightarrow> PerfmonClientResult" where
  "RunClient pa pb target durationSeconds0 =
     (let durationSeconds = perfmonDuration durationSeconds0;
          out = \<lparr>pcl_Target = target, pcl_Success = False, pcl_FailedStep = '''', pcl_LatencyMs = 0, pcl_UploadMbps = 0,
                 pcl_DownloadMbps = 0, pcl_DurationSeconds = durationSeconds\<rparr>;
          (latencyMs, uploadMbps, failedStep) = runUploadConn pa durationSeconds
      in if failedStep \<noteq> '''' then out\<lparr>pcl_FailedStep := failedStep\<rparr>
         else let out = out\<lparr>pcl_LatencyMs := latencyMs, pcl_UploadMbps := uploadMbps\<rparr>;
                  (downloadMbps, failedStep) = runDownloadConn pb durationSeconds
              in if failedStep \<noteq> '''' then out\<lparr>pcl_FailedStep := failedStep\<rparr>
                 else out\<lparr>pcl_DownloadMbps := downloadMbps, pcl_Success := True\<rparr>)"

section \<open>Encodings\<close>

lemma byte_index: "n < (16::nat) \<or> 16 + (n - 16) = n" "n < (24::nat) \<or> 24 + (n - 24) = n"
  by auto

lemma get_put_u32: "get_u32 (put_u32 w @ s) = w"
proof (rule bit_word_eqI)
  fix n
  assume "n < LENGTH(32)"
  then show "bit (get_u32 (put_u32 w @ s)) n = bit w n"
    using byte_index [of n] by (auto simp: put_u32_def bit_simps)
qed

lemma length_put_u32 [simp]: "length (put_u32 w) = 4" "length (put_u64 v) = 8"
  by (simp_all add: put_u32_def put_u64_def)

lemma get_put_u64: "get_u64 (put_u64 w @ s) = w"
proof -
  have "drop 4 (put_u64 w @ s) = put_u32 (ucast w) @ s" by (simp add: put_u64_def put_u32_def)
  then have "get_u64 (put_u64 w @ s) = push_bit 32 (ucast (ucast (drop_bit 32 w) :: u32)) OR ucast (ucast w :: u32)"
    by (simp add: get_u64_def put_u64_def get_put_u32)
  also have "\<dots> = w" by (rule bit_word_eqI) (auto simp: bit_simps)
  finally show ?thesis .
qed

lemma read_write_handshake [simp]: "readHandshake (writeHandshake @ s) = Some s"
  by (simp add: readHandshake_def writeHandshake_def ReadFull_def perfmonMagic_def)

lemma read_write_header [simp]: "readPhaseHeader (writePhaseHeader ph d @ s) = Some (ph, d, s)"
  using get_put_u32 [of d "[]"] by (simp add: readPhaseHeader_def writePhaseHeader_def ReadFull_def put_u32_def)

lemma read_write_count [simp]: "readByteCount (writeByteCount n @ s) = Some n"
  using get_put_u64 [of n "[]"] by (simp add: readByteCount_def writeByteCount_def ReadFull_def)

lemmas read_write_end [simp] = read_write_handshake [of "[]", simplified] read_write_header [where s = "[]", simplified]
  read_write_count [where s = "[]", simplified]

section \<open>Properties\<close>

text \<open>A reflector as the client's peer, with a stream of \<open>down\<close> bytes for a download.\<close>

definition reflector_peer :: "nat \<Rightarrow> nat \<Rightarrow> float64 \<Rightarrow> peer" where
  "reflector_peer up down rtt = \<lparr>pe_fails = (\<lambda>_. False), pe_rtt = rtt, pe_sent = up,
     pe_answer = (\<lambda>s. reflected (replicate down 0) (handleReflectorConn s))\<rparr>"

text \<open>
  C24. Client and reflector agree: for a configured duration of at most thirty seconds a test against a
  reflector succeeds, and it reports exactly the throughput of the bytes that crossed, the upload as
  counted by the reflector and the download as counted by the client.
\<close>

theorem perfmon_client_meets_reflector:
  assumes "d \<le> 30" "int up < 2 ^ 63"
  shows "RunClient (reflector_peer up down rtt) (reflector_peer up down rtt) target d =
     \<lparr>pcl_Target = target, pcl_Success = True, pcl_FailedStep = '''', pcl_LatencyMs = rtt,
      pcl_UploadMbps = mbps (int up) (seconds (perfmonDuration d)),
      pcl_DownloadMbps = mbps (int down) (seconds (perfmonDuration d)),
      pcl_DurationSeconds = perfmonDuration d\<rparr>"
proof -
  let ?d = "perfmonDuration d"
  have d: "?d \<noteq> 0" "\<not> ?d > perfmonMaxDuration"
    using assms(1) by (auto simp: perfmonDuration_def perfmonMaxDuration_def not_less)
  have "sint (of_nat up :: u64) = int up"
    using assms(2) by (simp add: signed_of_nat signed_take_bit_int_eq_self)
  then have "runUploadConn (reflector_peer up down rtt) ?d = (rtt, mbps (int up) (seconds ?d), '''')"
    using d by (simp add: reflector_peer_def runUploadConn_def handleReflectorConn_def perfmonPhaseUpload_def)
  moreover have "runDownloadConn (reflector_peer up down rtt) ?d = (mbps (int down) (seconds ?d), '''')"
    using d by (simp add: reflector_peer_def runDownloadConn_def handleReflectorConn_def perfmonPhaseUpload_def
        perfmonPhaseDownload_def)
  ultimately show ?thesis by (simp add: RunClient_def Let_def)
qed

theorem perfmon_client_meets_reflector_witness:
  "pcl_Success (RunClient (reflector_peer 1000000 2000000 3) (reflector_peer 1000000 2000000 3) ''10.0.0.2:5201'' 10)"
proof -
  have "(10 :: u32) \<le> 30" "int 1000000 < 2 ^ 63" by simp_all
  then show ?thesis by (simp only: perfmon_client_meets_reflector) simp
qed

section \<open>The allow-list\<close>

lemma dotted_chars:
  assumes "c \<in> set (dotted b)"
  shows "is_digit c \<or> c = CHR ''.''"
proof -
  have "set (join sep xs) \<subseteq> set sep \<union> \<Union> (set ` set xs)" for sep xs
    by (induction sep xs rule: join.induct) auto
  then have "c = CHR ''.'' \<or> (\<exists>x \<in> set b. c \<in> set (format_nat (unat x)))"
    using assms by (fastforce simp: dotted_def)
  then show ?thesis using format_nat_digits by (metis list_all_iff)
qed

lemma not_dotted: "\<not> is_digit c \<Longrightarrow> c \<noteq> CHR ''.'' \<Longrightarrow> c \<notin> set (dotted b)"
  using dotted_chars by blast

lemma punctuation [simp]:
  "\<not> is_digit (CHR ''/'')" "\<not> is_digit (CHR '':'')" "\<not> is_digit (CHR ''['')" "\<not> is_digit (CHR '']'')"
  "\<not> is_digit (CHR 0x25)" "\<not> is_digit (CHR ''.'')"
  by code_simp+

lemma ParseAddr_dotted:
  assumes "length b = 4"
  shows "ParseAddr (dotted b) = Some (Addr4 b)"
proof -
  obtain x y z w where b: "b = [x, y, z, w]" using assms by (auto simp: length_Suc_conv numeral_eq_Suc)
  then have dot: "CHR ''.'' \<in> set (dotted b)" by (simp add: dotted_def)
  then obtain c where c: "find (\<lambda>c. c = CHR ''.'' \<or> c = CHR '':'' \<or> c = CHR 0x25) (dotted b) = Some c"
    by (cases "find (\<lambda>c. c = CHR ''.'' \<or> c = CHR '':'' \<or> c = CHR 0x25) (dotted b)") (auto simp: find_None_iff)
  then have "c \<in> set (dotted b)" "c = CHR ''.'' \<or> c = CHR '':'' \<or> c = CHR 0x25"
    by (auto simp: find_Some_iff in_set_conv_nth)
  then have "c = CHR ''.''" using not_dotted by auto
  then show ?thesis
    using c assms not_dotted [of "CHR 0x25" b] by (simp add: ParseAddr_def parseIPv4Fields_dotted)
qed

text \<open>Two addresses agree on their first \<open>n\<close> bits, the most significant bit of the first byte first.\<close>

definition same_prefix :: "nat \<Rightarrow> u8 list \<Rightarrow> u8 list \<Rightarrow> bool" where
  "same_prefix n a b \<longleftrightarrow> (\<forall>i < n. bit (a ! (i div 8)) (7 - i mod 8) = bit (b ! (i div 8)) (7 - i mod 8))"

lemma bit_mask_byte: "j < 8 \<Longrightarrow> bit (push_bit (8 - min 8 (n - 8 * i)) 255 :: u8) j \<longleftrightarrow> 8 * i + (7 - j) < n"
proof -
  assume j: "j < 8"
  have "bit (255 :: u8) k" if "k < 8" for k
    using that bit_mask_iff [of 8 k, where ?'a = u8] by (simp add: mask_eq_exp_minus_1)
  then show ?thesis using j by (auto simp: bit_simps)
qed

lemma CIDRMask_nth: "i < bits div 8 \<Longrightarrow> CIDRMask n bits ! i = push_bit (8 - min 8 (n - 8 * i)) 255"
  by (simp add: CIDRMask_def)

lemma masked_eq:
  assumes "length a = 4" "length b = 4" "n \<le> 32"
  shows "map2 (AND) a (CIDRMask n 32) = map2 (AND) b (CIDRMask n 32) \<longleftrightarrow> same_prefix n a b"
proof -
  have m: "length (CIDRMask n 32) = 4" by (simp add: CIDRMask_def)
  have "map2 (AND) a (CIDRMask n 32) = map2 (AND) b (CIDRMask n 32)
      \<longleftrightarrow> (\<forall>i < 4. a ! i AND CIDRMask n 32 ! i = b ! i AND CIDRMask n 32 ! i)"
    using assms m by (simp add: list_eq_iff_nth_eq)
  also have "\<dots> \<longleftrightarrow> (\<forall>i < 4. \<forall>j < 8. 8 * i + (7 - j) < n \<longrightarrow> bit (a ! i) j = bit (b ! i) j)"
    by (auto simp: CIDRMask_nth bit_eq_iff bit_and_iff bit_mask_byte possible_bit_def)
  also have "\<dots> \<longleftrightarrow> same_prefix n a b"
  proof
    assume L: "\<forall>i < 4. \<forall>j < 8. 8 * i + (7 - j) < n \<longrightarrow> bit (a ! i) j = bit (b ! i) j"
    show "same_prefix n a b" unfolding same_prefix_def
    proof (intro allI impI)
      fix k assume k: "k < n"
      have "k div 8 < 4" "7 - k mod 8 < 8" "8 * (k div 8) + (7 - (7 - k mod 8)) < n" using k assms(3) by auto
      then show "bit (a ! (k div 8)) (7 - k mod 8) = bit (b ! (k div 8)) (7 - k mod 8)" using L by blast
    qed
  next
    assume R: "same_prefix n a b"
    show "\<forall>i < 4. \<forall>j < 8. 8 * i + (7 - j) < n \<longrightarrow> bit (a ! i) j = bit (b ! i) j"
    proof (intro allI impI)
      fix i j :: nat assume "i < 4" "j < 8" and k: "8 * i + (7 - j) < n"
      define r where "r = 7 - j"
      have "r < 8" "7 - r = j" using \<open>j < 8\<close> by (auto simp: r_def)
      then have "(8 * i + r) div 8 = i" "(8 * i + r) mod 8 = r" by simp_all
      then have "(8 * i + (7 - j)) div 8 = i" "7 - (8 * i + (7 - j)) mod 8 = j"
        using \<open>7 - r = j\<close> by (simp_all flip: r_def)
      then show "bit (a ! i) j = bit (b ! i) j" using R k unfolding same_prefix_def by metis
    qed
  qed
  finally show ?thesis .
qed

lemma Contains_v4:
  assumes "length a = 4" "length b = 4" "n \<le> 32"
  shows "Contains \<lparr>net_IP = mask_ip (v4InV6Prefix @ a) (CIDRMask n 32), net_Mask = CIDRMask n 32\<rparr> (v4InV6Prefix @ b)
     \<longleftrightarrow> same_prefix n a b"
proof -
  have m: "length (CIDRMask n 32) = 4" "length v4InV6Prefix = 12" by (simp_all add: CIDRMask_def v4InV6Prefix_def)
  then have ip: "mask_ip (v4InV6Prefix @ a) (CIDRMask n 32) = map2 (AND) a (CIDRMask n 32)"
    using assms by (simp add: mask_ip_def)
  have idem: "map2 (AND) (map2 (AND) a ms) ms = map2 (AND) a ms" for ms :: "u8 list"
    by (induction a ms rule: list_induct2') (simp_all add: and.assoc)
  show ?thesis
    using assms m by (simp add: Contains_def ip To4_def idem masked_eq Let_def)
qed

lemma format_nat_nonempty: "format_nat n \<noteq> []"
proof (cases "0 < n")
  case False
  then show ?thesis by (simp add: format_nat_def dec_digits.simps [of 0])
qed (simp add: format_nat_hd)

lemma trim_space_plain: "\<forall>c \<in> set s. \<not> is_space c \<Longrightarrow> trim_space s = s"
proof -
  assume "\<forall>c \<in> set s. \<not> is_space c"
  then have "dropWhile is_space s = s" "dropWhile is_space (rev s) = rev s"
    using list.set_sel(1) [of s] list.set_sel(1) [of "rev s"] by (auto simp: dropWhile_eq_self_iff)
  then show ?thesis by (simp add: trim_space_def)
qed

lemma not_space: "is_digit c \<or> c = CHR ''.'' \<Longrightarrow> \<not> is_space c" "\<not> is_space (CHR ''/'')"
  by (auto simp: is_space_def is_digit_def)

text \<open>
  The allow-list means what it says: after an entry \<open>a/n\<close> the reflector serves an IPv4 peer exactly
  when its address agrees with \<open>a\<close> on the first \<open>n\<close> bits, and it drops every other peer before the
  handshake, whatever the peer sends.
\<close>

theorem allowlist_exact:
  assumes "length a = 4" "length b = 4" "n \<le> 32" "plain_port p"
  shows "\<exists>ns. ParseCIDRs [dotted a @ ''/'' @ format_nat n] = Inr ns
     \<and> (connAllowed (join_host_port (dotted b) p) ns \<longleftrightarrow> same_prefix n a b)
     \<and> (\<not> same_prefix n a b \<longrightarrow> serve_conn ns (join_host_port (dotted b) p) s = Dropped)"
proof -
  let ?e = "dotted a @ ''/'' @ format_nat n"
  let ?n = "\<lparr>net_IP = mask_ip (v4InV6Prefix @ a) (CIDRMask n 32), net_Mask = CIDRMask n 32\<rparr>"
  have "cut (CHR ''/'') ?e = Some (dotted a, format_nat n)"
    using index_byte_append [OF not_dotted [of "CHR ''/''"], of a "format_nat n"] by (simp add: cut_def)
  moreover have "parse_mask (format_nat n) = Some n"
    using assms(3) format_nat_digits [of n] format_nat_value [of n] format_nat_nonempty [of n]
    by (simp add: parse_mask_def)
  ultimately have "ParseCIDR ?e = Some ?n"
    using assms(1,3) by (simp add: ParseCIDR_def ParseAddr_dotted)
  moreover have "trim_space ?e = ?e" 
    using not_space(1) [OF dotted_chars, of _ a] format_nat_digits [of n]
    by (intro trim_space_plain) (auto simp: list_all_iff not_space)
  ultimately have ns: "ParseCIDRs [?e] = Inr [?n]" by simp
  have "plain_host (dotted b)" using not_dotted by (simp add: plain_host_def)
  then have "split_host_port (join_host_port (dotted b) p) = Inr (dotted b, p)"
    using assms(4) by (rule split_join_host_port)
  then have "connAllowed (join_host_port (dotted b) p) [?n] \<longleftrightarrow> same_prefix n a b"
    using assms by (simp add: connAllowed_def ParseIP_def ParseAddr_dotted Contains_v4)
  then show ?thesis using ns by (auto simp: serve_conn_def)
qed

theorem allowlist_exact_witness:
  "\<exists>ns. ParseCIDRs [dotted [10, 1, 2, 3] @ ''/'' @ format_nat 8] = Inr ns
     \<and> connAllowed (join_host_port (dotted [10, 9, 9, 9]) ''4711'') ns"
proof -
  have "same_prefix 8 [10, 1, 2, 3] [10, 9, 9, 9]" by (simp add: same_prefix_def)
  then show ?thesis using allowlist_exact [of "[10, 1, 2, 3]" "[10, 9, 9, 9]" 8 "''4711''"] by (auto simp: plain_port_def)
qed

end
