(* ===== verification/Wlan_Frames.thy ===== *)
theory Wlan_Frames
  imports Perfmon "HOL-Library.Monad_Syntax"
begin

text \<open>
  What an agent reads off the air: the frame parsers of \<open>internal/probe/wlansense.go\<close> and the channel
  arithmetic of \<open>wifi.go\<close>. Every byte comes from a stranger, so every index is checked: \<open>None\<close> is the
  panic of an index or a slice out of range, and \<open>ie_loop\<close>, the loop over the tagged elements, is a
  partial function whose value is also \<open>None\<close> if it does not return. The radiotap and 802.11 headers are
  decoded by gopacket; what \<open>processFrame\<close> uses of them is the record \<open>packet\<close>.
\<close>

unbundle bit_operations_syntax

section \<open>Checked access\<close>

definition byte_at :: "bytes \<Rightarrow> nat \<Rightarrow> u8 option" where
  "byte_at v i = (if i < length v then Some (v ! i) else None)"

definition slice :: "bytes \<Rightarrow> nat \<Rightarrow> nat \<Rightarrow> bytes option" where
  "slice v i j = (if i \<le> j \<and> j \<le> length v then Some (take (j - i) (drop i v)) else None)"

definition le16 :: "u8 \<Rightarrow> u8 \<Rightarrow> u32" where
  "le16 a b = ucast a OR push_bit 8 (ucast b)"

definition go_string :: "bytes \<Rightarrow> string" where
  "go_string v = map (\<lambda>b. char_of (unat b)) v"

section \<open>The RSN element\<close>

record rsnInfo =
  rsn_akms :: bytes
  rsn_ciphers :: bytes
  rsn_group :: u8
  rsn_caps :: u16
  rsn_capsOK :: bool

text \<open>The suite loops: \<open>n\<close> suites at most, from offset \<open>off\<close>; the types read and the new offset.\<close>

fun suites :: "nat \<Rightarrow> bytes \<Rightarrow> nat \<Rightarrow> (bytes \<times> nat) option" where
  "suites 0 v off = Some ([], off)"
| "suites (Suc n) v off =
     (if off + 4 \<le> length v
      then do { t \<leftarrow> byte_at v (off + 3); (ts, o') \<leftarrow> suites n v (off + 4); Some (t # ts, o') }
      else Some ([], off))"

definition parseRSN :: "bytes \<Rightarrow> rsnInfo option" where
  "parseRSN v =
     do { g \<leftarrow> (if length v \<ge> 6 then byte_at v 5 else Some 0);
          let r = \<lparr>rsn_akms = [], rsn_ciphers = [], rsn_group = g, rsn_caps = 0, rsn_capsOK = False\<rparr>;
          if 8 > length v then Some r
          else do {
            a \<leftarrow> byte_at v 6; b \<leftarrow> byte_at v 7; (cs, off) \<leftarrow> suites (unat (le16 a b)) v 8;
            let r = r\<lparr>rsn_ciphers := cs\<rparr>;
            if off + 2 > length v then Some r
            else do {
              a \<leftarrow> byte_at v off; b \<leftarrow> byte_at v (off + 1); (ks, off) \<leftarrow> suites (unat (le16 a b)) v (off + 2);
              let r = r\<lparr>rsn_akms := ks\<rparr>;
              if off + 2 \<le> length v
              then do { a \<leftarrow> byte_at v off; b \<leftarrow> byte_at v (off + 1);
                        Some (r\<lparr>rsn_caps := ucast (le16 a b), rsn_capsOK := True\<rparr>) }
              else Some r } } }"

section \<open>Names\<close>

definition suite_name :: "(u8 \<times> string) list \<Rightarrow> u8 \<Rightarrow> string" where
  "suite_name names b = (case map_of names b of Some s \<Rightarrow> s | None \<Rightarrow> ''type-'' @ format_nat (unat b))"

definition cipherNames :: "(u8 \<times> string) list" where
  "cipherNames = [(1, ''WEP-40''), (2, ''TKIP''), (4, ''CCMP''), (5, ''WEP-104''), (8, ''GCMP''), (9, ''GCMP-256''), (10, ''CCMP-256'')]"

definition akmNames :: "(u8 \<times> string) list" where
  "akmNames = [(1, ''802.1X''), (2, ''PSK''), (3, ''FT-802.1X''), (4, ''FT-PSK''), (5, ''802.1X-SHA256''), (6, ''PSK-SHA256''),
     (8, ''SAE''), (9, ''FT-SAE''), (11, ''802.1X-SuiteB''), (12, ''802.1X-SuiteB-192''), (13, ''FT-802.1X-SHA384''), (18, ''OWE'')]"

definition cipherName :: "u8 \<Rightarrow> string" where
  "cipherName b = suite_name cipherNames b"

text \<open>Each name once, in the order of first appearance.\<close>

fun firsts :: "string list \<Rightarrow> string list" where
  "firsts [] = []"
| "firsts (x # xs) = x # filter (\<lambda>y. y \<noteq> x) (firsts xs)"

definition middle_dot :: string where
  "middle_dot = [CHR 0x20, CHR 0xC2, CHR 0xB7, CHR 0x20]"

definition securityDetail :: "bytes \<Rightarrow> bytes \<Rightarrow> string" where
  "securityDetail akms ciphers =
     (let aParts = firsts (map (suite_name akmNames) akms); cParts = firsts (map (suite_name cipherNames) ciphers)
      in if aParts = [] then ''''
         else join ''+'' aParts @ (if cParts \<noteq> [] then middle_dot @ join ''/'' cParts else ''''))"

definition securityLabel :: "bool \<Rightarrow> bool \<Rightarrow> bool \<Rightarrow> bytes \<Rightarrow> string" where
  "securityLabel privacy hasWPA hasRSN akms =
     (if \<not> hasRSN \<and> \<not> hasWPA then (if privacy then ''WEP'' else ''Open'')
      else let dot1x = (\<exists>a \<in> set akms. a \<in> {1, 5}); psk = (\<exists>a \<in> set akms. a \<in> {2, 6});
               sae = (\<exists>a \<in> set akms. a \<in> {8, 9}); suiteB = (\<exists>a \<in> set akms. a \<in> {12, 13}); owe = (\<exists>a \<in> set akms. a = 18)
           in if owe then ''OWE'' else if sae \<and> psk then ''WPA2/WPA3'' else if sae then ''WPA3''
              else if suiteB then ''WPA3-Ent'' else if dot1x then ''WPA2-Ent'' else if psk \<and> hasWPA then ''WPA/WPA2''
              else if hasRSN then ''WPA2'' else ''WPA'')"

definition estimateMaxRate :: "bool \<Rightarrow> bool \<Rightarrow> bool \<Rightarrow> u32 \<Rightarrow> u32 \<Rightarrow> float64 \<Rightarrow> float64" where
  "estimateMaxRate ht vht he widthMHz streams legacyMax =
     (if \<not> he \<and> \<not> vht \<and> \<not> ht then legacyMax
      else let perStream = (if he then [(20, 143.4), (40, 287.1), (80, 600.5), (160, 1201.0)]
                            else if vht then [(20, 86.7), (40, 200.0), (80, 433.3), (160, 866.7)]
                            else [(20, 72.2), (40, 150.0)]);
               rate = (case map_of perStream widthMHz of
                         Some r \<Rightarrow> r
                       | None \<Rightarrow> fold (\<lambda>(w, r) rate. if w \<le> widthMHz \<and> r > rate then r else rate) perStream 0)
           in rate * of_nat (unat (if streams = 0 then 1 else streams)))"

section \<open>Beacons\<close>

record beaconInfo =
  bi_SSID :: string
  bi_Security :: string
  bi_Standards :: string
  bi_WidthMHz :: u32
  bi_BeaconIntervalTU :: u32
  bi_Country :: string
  bi_LoadPresent :: bool
  bi_LoadStations :: u32
  bi_LoadChannelUtilPct :: float64
  bi_SecurityDetail :: string
  bi_Roaming :: string
  bi_MFP :: string
  bi_GroupCipher :: string
  bi_DTIMPeriod :: u32
  bi_WPS :: bool
  bi_Streams :: u32
  bi_MaxRateMbps :: float64

text \<open>The variables of \<open>parseBeaconBody\<close> that the loop over the elements changes.\<close>

record scan =
  sc_info :: beaconInfo
  sc_hasRSN :: bool
  sc_hasWPA :: bool
  sc_akms :: bytes
  sc_ciphers :: bytes
  sc_ht :: bool
  sc_vht :: bool
  sc_he :: bool
  sc_eht :: bool
  sc_rm :: bool
  sc_ft :: bool
  sc_btm :: bool
  sc_htStreams :: u32
  sc_vhtStreams :: u32
  sc_legacyMax :: float64

definition empty_info :: beaconInfo where
  "empty_info = \<lparr>bi_SSID = '''', bi_Security = '''', bi_Standards = '''', bi_WidthMHz = 0, bi_BeaconIntervalTU = 0,
     bi_Country = '''', bi_LoadPresent = False, bi_LoadStations = 0, bi_LoadChannelUtilPct = 0, bi_SecurityDetail = '''',
     bi_Roaming = '''', bi_MFP = '''', bi_GroupCipher = '''', bi_DTIMPeriod = 0, bi_WPS = False, bi_Streams = 0, bi_MaxRateMbps = 0\<rparr>"

definition start_scan :: "beaconInfo \<Rightarrow> scan" where
  "start_scan info = \<lparr>sc_info = info, sc_hasRSN = False, sc_hasWPA = False, sc_akms = [], sc_ciphers = [], sc_ht = False,
     sc_vht = False, sc_he = False, sc_eht = False, sc_rm = False, sc_ft = False, sc_btm = False, sc_htStreams = 0,
     sc_vhtStreams = 0, sc_legacyMax = 0\<rparr>"

definition is_upper :: "u8 \<Rightarrow> bool" where
  "is_upper b \<longleftrightarrow> 65 \<le> b \<and> b \<le> 90"

definition rate_mbps :: "u8 \<Rightarrow> float64" where
  "rate_mbps r = of_nat (unat (r AND 0x7F)) * 0.5"

text \<open>The receive stream masks of an HT element, and the two-bit fields of a VHT receive map.\<close>

fun ht_streams :: "bytes \<Rightarrow> nat list \<Rightarrow> u32 \<Rightarrow> u32 option" where
  "ht_streams v [] n = Some n"
| "ht_streams v (s # ss) n =
     (if 3 + s < length v
      then do { b \<leftarrow> byte_at v (3 + s); ht_streams v ss (if b \<noteq> 0 then of_nat (s + 1) else n) }
      else Some n)"

definition vht_streams :: "u16 \<Rightarrow> u32 \<Rightarrow> u32" where
  "vht_streams rxMap n = fold (\<lambda>s n. if drop_bit (2 * s) rxMap AND 3 \<noteq> 3 then of_nat (s + 1) else n) [0..<8] n"

definition set_info :: "(beaconInfo \<Rightarrow> beaconInfo) \<Rightarrow> scan \<Rightarrow> scan" where
  "set_info f st = st\<lparr>sc_info := f (sc_info st)\<rparr>"

definition rsn_element :: "bytes \<Rightarrow> scan \<Rightarrow> scan option" where
  "rsn_element v st =
     do { r \<leftarrow> parseRSN v;
          let st = st\<lparr>sc_hasRSN := True, sc_akms := sc_akms st @ rsn_akms r, sc_ciphers := sc_ciphers st @ rsn_ciphers r\<rparr>;
          let st = (if rsn_group r \<noteq> 0 then set_info (\<lambda>i. i\<lparr>bi_GroupCipher := cipherName (rsn_group r)\<rparr>) st else st);
          Some (if rsn_capsOK r then
                  (if rsn_caps r AND 0x40 \<noteq> 0 then set_info (\<lambda>i. i\<lparr>bi_MFP := ''required''\<rparr>) st
                   else if rsn_caps r AND 0x80 \<noteq> 0 then set_info (\<lambda>i. i\<lparr>bi_MFP := ''capable''\<rparr>) st else st)
                else st) }"

text \<open>One tagged element with its value.\<close>

definition element :: "u8 \<Rightarrow> bytes \<Rightarrow> scan \<Rightarrow> scan option" where
  "element tag v st =
     (if tag = 0 then Some (if length v > 0 then set_info (\<lambda>i. i\<lparr>bi_SSID := go_string v\<rparr>) st else st)
      else if tag = 1 \<or> tag = 50 then
        Some (st\<lparr>sc_legacyMax := fold (\<lambda>r mx. if rate_mbps r > mx then rate_mbps r else mx) v (sc_legacyMax st)\<rparr>)
      else if tag = 5 then
        (if length v \<ge> 2 then do { p \<leftarrow> byte_at v 1; Some (set_info (\<lambda>i. i\<lparr>bi_DTIMPeriod := ucast p\<rparr>) st) } else Some st)
      else if tag = 7 then
        (if length v \<ge> 2 then
           do { a \<leftarrow> byte_at v 0; b \<leftarrow> byte_at v 1; cc \<leftarrow> slice v 0 2;
                Some (if is_upper a \<and> is_upper b then set_info (\<lambda>i. i\<lparr>bi_Country := go_string cc\<rparr>) st else st) }
         else Some st)
      else if tag = 11 then
        (if length v \<ge> 3 then
           do { a \<leftarrow> byte_at v 0; b \<leftarrow> byte_at v 1; c \<leftarrow> byte_at v 2;
                Some (set_info (\<lambda>i. i\<lparr>bi_LoadPresent := True, bi_LoadStations := le16 a b,
                   bi_LoadChannelUtilPct := of_nat (unat c) / 255 * 100\<rparr>) st) }
         else Some st)
      else if tag = 45 then
        do { n \<leftarrow> ht_streams v [0..<4] (sc_htStreams st); Some (st\<lparr>sc_ht := True, sc_htStreams := n\<rparr>) }
      else if tag = 48 then rsn_element v st
      else if tag = 54 then Some (st\<lparr>sc_ft := True\<rparr>)
      else if tag = 61 then
        (if length v \<ge> 2 then
           do { b \<leftarrow> byte_at v 1;
                Some (if b AND 3 \<noteq> 0 \<and> bi_WidthMHz (sc_info st) < 40 then set_info (\<lambda>i. i\<lparr>bi_WidthMHz := 40\<rparr>) st else st) }
         else Some st)
      else if tag = 70 then Some (st\<lparr>sc_rm := True\<rparr>)
      else if tag = 127 then
        (if length v \<ge> 3 then do { b \<leftarrow> byte_at v 2; Some (if b AND 8 \<noteq> 0 then st\<lparr>sc_btm := True\<rparr> else st) } else Some st)
      else if tag = 191 then
        (let st = st\<lparr>sc_vht := True\<rparr>
         in if length v \<ge> 6
            then do { a \<leftarrow> byte_at v 4; b \<leftarrow> byte_at v 5;
                      Some (st\<lparr>sc_vhtStreams := vht_streams (ucast (le16 a b)) (sc_vhtStreams st)\<rparr>) }
            else Some st)
      else if tag = 192 then
        (if length v \<ge> 3 then
           do { a \<leftarrow> byte_at v 0; c \<leftarrow> byte_at v 2;
                Some (if a \<ge> 1 then
                        (if c \<noteq> 0 \<or> a \<ge> 2 then set_info (\<lambda>i. i\<lparr>bi_WidthMHz := 160\<rparr>) st
                         else if bi_WidthMHz (sc_info st) < 80 then set_info (\<lambda>i. i\<lparr>bi_WidthMHz := 80\<rparr>) st else st)
                      else st) }
         else Some st)
      else if tag = 221 then
        (if length v \<ge> 4 then
           do { a \<leftarrow> byte_at v 0; b \<leftarrow> byte_at v 1; c \<leftarrow> byte_at v 2; ty \<leftarrow> byte_at v 3;
                Some (if a = 0 \<and> b = 0x50 \<and> c = 0xF2 then
                        (if ty = 1 then st\<lparr>sc_hasWPA := True\<rparr>
                         else if ty = 4 then set_info (\<lambda>i. i\<lparr>bi_WPS := True\<rparr>) st else st)
                      else st) }
         else Some st)
      else if tag = 255 then
        (if length v \<ge> 1 then
           do { x \<leftarrow> byte_at v 0;
                Some (if x = 35 then st\<lparr>sc_he := True\<rparr> else if x = 108 then st\<lparr>sc_eht := True\<rparr> else st) }
         else Some st)
      else Some st)"

text \<open>The loop over the elements: it ends at the first one that runs past the body.\<close>

partial_function (option) ie_loop :: "bytes \<Rightarrow> nat \<Rightarrow> scan \<Rightarrow> scan option" where
  "ie_loop data i st =
     (if i + 2 \<le> length data then
        do { tag \<leftarrow> byte_at data i; len \<leftarrow> byte_at data (i + 1);
             if i + 2 + unat len > length data then Some st
             else do { v \<leftarrow> slice data (i + 2) (i + 2 + unat len); st \<leftarrow> element tag v st;
                       ie_loop data (i + 2 + unat len) st } }
      else Some st)"

declare ie_loop.simps [code]

definition finish_scan :: "bool \<Rightarrow> scan \<Rightarrow> beaconInfo" where
  "finish_scan privacy st =
     (let gens = (if sc_ht st then [''n''] else []) @ (if sc_vht st then [''ac''] else []) @ (if sc_he st then [''ax''] else [])
                 @ (if sc_eht st then [''be''] else []);
          roam = (if sc_rm st then [''k''] else []) @ (if sc_ft st then [''r''] else []) @ (if sc_btm st then [''v''] else []);
          streams = max (sc_htStreams st) (sc_vhtStreams st)
      in (sc_info st)\<lparr>bi_Security := securityLabel privacy (sc_hasWPA st) (sc_hasRSN st) (sc_akms st),
           bi_SecurityDetail := securityDetail (sc_akms st) (sc_ciphers st), bi_Standards := join ''/'' gens,
           bi_Roaming := join ''/'' roam, bi_Streams := streams,
           bi_MaxRateMbps := estimateMaxRate (sc_ht st) (sc_vht st) (sc_he st \<or> sc_eht st) (bi_WidthMHz (sc_info st)) streams
             (sc_legacyMax st)\<rparr>)"

definition parseBeaconBody :: "bytes \<Rightarrow> beaconInfo option" where
  "parseBeaconBody body =
     (if length body < 12 then Some empty_info
      else do { a \<leftarrow> byte_at body 8; b \<leftarrow> byte_at body 9; c \<leftarrow> byte_at body 10; data \<leftarrow> slice body 12 (length body);
                st \<leftarrow> ie_loop data 0 (start_scan (empty_info\<lparr>bi_BeaconIntervalTU := le16 a b, bi_WidthMHz := 20\<rparr>));
                Some (finish_scan (c AND 0x10 \<noteq> 0) st) })"

end
