(* ===== verification/Result_State.thy ===== *)
theory Result_State
  imports Test_Config
begin

text \<open>
  How a result is judged: \<open>resultOK\<close> (\<open>internal/server/server.go\<close>), the numeric state of
  \<open>resultState\<close> (\<open>internal/server/alerts.go\<close>) that alert rules compare, and the colour of
  \<open>computeResultState\<close> (\<open>internal/store/overview.go\<close>) that the overview counts.
\<close>

definition resultOK :: "TestResult \<Rightarrow> bool" where
  "resultOK r =
     (if rs_Error r \<noteq> '''' then False
      else case rs_Result r of
        TestResult_Ping v \<Rightarrow> pi_PacketsReceived v > 0
      | TestResult_Dns v \<Rightarrow> dn_Success v
      | TestResult_Http v \<Rightarrow> ht_StatusCode v \<ge> 200 \<and> ht_StatusCode v < 400
      | TestResult_Tcp v \<Rightarrow> tc_Connected v
      | TestResult_WlanPassive v \<Rightarrow> wp_Networks v \<noteq> []
      | TestResult_Traceroute v \<Rightarrow> tr_Reached v
      | TestResult_Speedtest v \<Rightarrow> True
      | _ \<Rightarrow> True)"

definition resultState :: "TestResult \<Rightarrow> TestDef option \<Rightarrow> float64" where
  "resultState r test =
     (if rs_Error r \<noteq> '''' then 2
      else if \<not> resultOK r then 2
      else case test of None \<Rightarrow> 0 | Some t \<Rightarrow>
        if td_Thresholds t = RawEmpty then 0
        else case unmarshal_thresholds (td_Thresholds t) of None \<Rightarrow> 0 | Some th \<Rightarrow>
        case Get (td_Type t) of None \<Rightarrow> 0 | Some spec \<Rightarrow>
        case sp_Primary spec r of None \<Rightarrow> 0 | Some val \<Rightarrow>
          if sp_LowerIsWorse spec then
            (if th_Crit th > 0 \<and> val < th_Crit th then 2
             else if th_Warn th > 0 \<and> val < th_Warn th then 1 else 0)
          else
            (if th_Crit th > 0 \<and> val > th_Crit th then 2
             else if th_Warn th > 0 \<and> val > th_Warn th then 1 else 0))"

definition computeResultState :: "string \<Rightarrow> float64 \<Rightarrow> Thresholds option \<Rightarrow> string" where
  "computeResultState testType v thresholds =
     (case thresholds of None \<Rightarrow> ''green'' | Some th \<Rightarrow>
        if (case Get testType of None \<Rightarrow> False | Some spec \<Rightarrow> sp_LowerIsWorse spec) then
          (if th_Crit th > 0 \<and> v < th_Crit th then ''red''
           else if th_Warn th > 0 \<and> v < th_Warn th then ''orange'' else ''green'')
        else if th_Crit th > 0 \<and> v > th_Crit th then ''red''
        else if th_Warn th > 0 \<and> v > th_Warn th then ''orange'' else ''green'')"

definition colour_level :: "string \<Rightarrow> float64" where
  "colour_level c = (if c = ''red'' then 2 else if c = ''orange'' then 1 else 0)"

text \<open>The two judgements agree on every result that is OK and has a primary value.\<close>

lemma resultState_computeResultState:
  assumes "resultOK r" "td_Thresholds t \<noteq> RawEmpty" "Get (td_Type t) = Some spec"
    "sp_Primary spec r = Some v"
  shows "resultState r (Some t) =
           colour_level (computeResultState (td_Type t) v (unmarshal_thresholds (td_Thresholds t)))"
proof -
  have "rs_Error r = ''''" using assms(1) by (auto simp: resultOK_def split: if_splits)
  then show ?thesis
    using assms by (cases "unmarshal_thresholds (td_Thresholds t)")
      (auto simp: resultState_def computeResultState_def colour_level_def)
qed

lemma resultState_range: "resultState r t \<in> {0, 1, 2}"
  by (simp add: resultState_def split: option.split)

end
