(* ===== verification/Alert_Engine.thy ===== *)
theory Alert_Engine
  imports Store_Machine Result_State Go_Fmt
begin

text \<open>
  Alert evaluation: \<open>internal/server/alerts.go\<close>. The hysteresis counters \<open>Server.alertStates\<close> and
  the database are the state; the notifications handed to \<open>notifyTargets\<close> are collected as output.
  One call of \<open>evaluateAlerts\<close> is one atomic step: the counters are locked per rule and a stream's
  results are handled one after the other. Clock readings are arguments. The two counters are integers without
  a bound: a Go \<open>int\<close> that is counted up by one per result does not wrap in the lifetime of a process.
\<close>

section \<open>The hysteresis state machine\<close>

record alertState =
  breaches :: int
  goods :: int

definition zeroState :: alertState where
  "zeroState = \<lparr>breaches = 0, goods = 0\<rparr>"

datatype alertAction = alertNone | alertFire | alertResolve

definition clearCondition :: "AlertRule \<Rightarrow> float64 \<Rightarrow> bool" where
  "clearCondition rule v =
     (case ar_ClearThreshold rule of
        None \<Rightarrow> True
      | Some c \<Rightarrow>
          if ar_Operator rule = ''>'' then v < c
          else if ar_Operator rule = ''>='' then v < c
          else if ar_Operator rule = ''<'' then v > c
          else if ar_Operator rule = ''<='' then v > c
          else if ar_Operator rule = ''=='' then True
          else True)"

definition decideAlert :: "alertState \<Rightarrow> AlertRule \<Rightarrow> bool \<Rightarrow> float64 \<Rightarrow> alertState \<times> alertAction" where
  "decideAlert st rule breach v =
     (if breach then
        (let st = \<lparr>breaches = breaches st + 1, goods = 0\<rparr>
         in if breaches st \<ge> ar_ForCount rule then (st, alertFire) else (st, alertNone))
      else
        (let st = st\<lparr>breaches := 0\<rparr>
         in if \<not> clearCondition rule v then (st\<lparr>goods := 0\<rparr>, alertNone)
            else let st = st\<lparr>goods := goods st + 1\<rparr>
                 in if goods st \<ge> ar_ClearCount rule then (zeroState, alertResolve)
                    else (st, alertNone)))"

definition compare :: "float64 \<Rightarrow> string \<Rightarrow> float64 \<Rightarrow> bool" where
  "compare v op threshold =
     (if op = ''>'' then v > threshold
      else if op = ''>='' then v \<ge> threshold
      else if op = ''<'' then v < threshold
      else if op = ''<='' then v \<le> threshold
      else if op = ''=='' then v = threshold
      else False)"

text \<open>\<open>None\<close> is \<open>applicable = false\<close>; otherwise the pair is \<open>(breach, value)\<close>.\<close>

definition evalRule :: "AlertRule \<Rightarrow> TestResult \<Rightarrow> TestDef option \<Rightarrow> (bool \<times> float64) option" where
  "evalRule rule r test =
     (if ar_Metric rule = ''unhealthy'' then Some (\<not> resultOK r, 0)
      else if ar_Metric rule = ''state'' then
        (let stateLevel = resultState r test
         in Some (compare stateLevel (ar_Operator rule) (ar_Threshold rule), stateLevel))
      else if rs_Error r \<noteq> '''' then None
      else case MetricValue (ar_Metric rule) r of
             None \<Rightarrow> None
           | Some v \<Rightarrow> Some (compare v (ar_Operator rule) (ar_Threshold rule), v))"

section \<open>Firing and resolving\<close>

record connectedAgent =
  ca_agent :: Agent
  ca_tenant :: string

definition alertMessage :: "AlertRule \<Rightarrow> connectedAgent \<Rightarrow> string \<Rightarrow> float64 \<Rightarrow> string" where
  "alertMessage rule conn subject v =
     (let target = (if subject \<noteq> '''' then '' ['' @ subject @ '']'' else '''')
      in if ar_Metric rule = ''unhealthy''
         then ar_Name rule @ '': '' @ ar_TestName rule @ target @ '' is unhealthy on '' @ ag_Name (ca_agent conn)
         else ar_Name rule @ '': '' @ ar_Metric rule @ target @ '' '' @ ar_Operator rule @ '' ''
              @ format_f2 (ar_Threshold rule) @ '' (value '' @ format_f2 v @ '') on '' @ ag_Name (ca_agent conn))"

record notification =
  nf_TargetID :: string
  nf_Rule :: AlertRule
  nf_State :: string
  nf_Agent :: string
  nf_Value :: float64
  nf_Payload :: "(string \<times> json) list"

definition notifyTargets ::
  "go_time \<Rightarrow> AlertRule \<Rightarrow> connectedAgent \<Rightarrow> Alert \<Rightarrow> string \<Rightarrow> float64 \<Rightarrow> notification list" where
  "notifyTargets now rule conn alert state v =
     (if ar_TargetIds rule = [] then []
      else let payload =
             [(''state'', JStr state), (''rule'', JStr (ar_Name rule)), (''test'', JStr (ar_TestName rule)),
              (''metric'', JStr (ar_Metric rule)), (''threshold'', JFloat (ar_Threshold rule)),
              (''value'', JFloat v), (''tenant'', JStr (ca_tenant conn)),
              (''site'', JStr (ag_SiteName (ca_agent conn))), (''agent'', JStr (ag_Name (ca_agent conn))),
              (''message'', JStr (al_Message alert)), (''time'', JStr (format_rfc3339 now))]
           in map (\<lambda>targetID. \<lparr>nf_TargetID = targetID, nf_Rule = rule, nf_State = state,
                    nf_Agent = ag_Name (ca_agent conn), nf_Value = v, nf_Payload = payload\<rparr>)
                (ar_TargetIds rule))"

record 'p alerting =
  alertStates :: "string \<rightharpoonup> alertState"
  adb :: "'p db"
  notified :: "notification list"

definition fireAlert ::
  "go_time \<Rightarrow> AlertRule \<Rightarrow> connectedAgent \<Rightarrow> string \<Rightarrow> float64 \<Rightarrow> 'p alerting \<Rightarrow> 'p alerting" where
  "fireAlert now rule conn subject v s =
     (case ActiveAlert (ar_ID rule) (ag_ID (ca_agent conn)) subject (adb s) of
        Some _ \<Rightarrow> s
      | None \<Rightarrow>
          (case FireAlert now now (ar_ID rule) (ag_ID (ca_agent conn)) subject v
                  (alertMessage rule conn subject v) (adb s) of
             Inl _ \<Rightarrow> s
           | Inr (alert, d) \<Rightarrow>
               s\<lparr>adb := d, notified := notified s @ notifyTargets now rule conn alert ''firing'' v\<rparr>))"

definition resolveAlert ::
  "go_time \<Rightarrow> AlertRule \<Rightarrow> connectedAgent \<Rightarrow> string \<Rightarrow> 'p alerting \<Rightarrow> 'p alerting" where
  "resolveAlert now rule conn subject s =
     (case ActiveAlert (ar_ID rule) (ag_ID (ca_agent conn)) subject (adb s) of
        None \<Rightarrow> s
      | Some active \<Rightarrow>
          s\<lparr>adb := ResolveAlert now (al_ID active) (adb s),
            notified := notified s @ notifyTargets now rule conn (active\<lparr>al_State := ''resolved''\<rparr>)
                          ''resolved'' (al_Value active)\<rparr>)"

definition alertKey :: "string \<Rightarrow> string \<Rightarrow> string \<Rightarrow> string" where
  "alertKey ruleID agentID subject = ruleID @ ''|'' @ agentID @ ''|'' @ subject"

text \<open>The body of the loop over the rules.\<close>

definition evaluateRule ::
  "go_time \<Rightarrow> connectedAgent \<Rightarrow> TestResult \<Rightarrow> TestDef option \<Rightarrow> string \<Rightarrow> AlertRule \<Rightarrow> 'p alerting \<Rightarrow> 'p alerting" where
  "evaluateRule now conn r test subject rule s =
     (case evalRule rule r test of
        None \<Rightarrow> s
      | Some (breach, v) \<Rightarrow>
          (let key = alertKey (ar_ID rule) (ag_ID (ca_agent conn)) subject;
               (next, action) = decideAlert (case alertStates s key of None \<Rightarrow> zeroState | Some st \<Rightarrow> st)
                                  rule breach v;
               s = s\<lparr>alertStates := (if next = zeroState then (alertStates s)(key := None)
                                      else (alertStates s)(key \<mapsto> next))\<rparr>
           in case action of
                alertFire \<Rightarrow> fireAlert now rule conn subject v s
              | alertResolve \<Rightarrow> resolveAlert now rule conn subject s
              | alertNone \<Rightarrow> s))"

definition evaluateAlerts ::
  "go_time \<Rightarrow> connectedAgent \<Rightarrow> TestResult \<Rightarrow> TestDef option \<Rightarrow> 'p alerting \<Rightarrow> 'p alerting" where
  "evaluateAlerts now conn r test s =
     (if rs_TestId r = '''' then s
      else let rules = RulesForTest (rs_TestId r) (adb s)
           in if rules = [] then s
              else fold (evaluateRule now conn r test (SubjectOf r)) rules s)"

section \<open>Metrics no result can supply\<close>

text \<open>
  Two of the metrics the saas type registers, and that a rule may therefore name, can never be
  evaluated: the type of a result is taken from its payload, which for a saas test is an HTTP or a
  TCP result, so \<open>total_ms\<close> and \<open>cert_expiry_days\<close> apply to no result at all and a rule on them never
  fires and never resolves.
\<close>

theorem saas_metrics_never_apply:
  "''total_ms'' \<in> set AlertMetrics \<and> ''cert_expiry_days'' \<in> set AlertMetrics
   \<and> MetricValue ''total_ms'' r = None \<and> MetricValue ''cert_expiry_days'' r = None
   \<and> evalRule (rule\<lparr>ar_Metric := ''total_ms''\<rparr>) r test = None"
  by (auto simp: AlertMetrics_def specs_eq all_types_def spec_defs MetricValue_def OfResult_by_payload evalRule_def
      split: TestResult_Result.split)

section \<open>The machine against the history of samples\<close>

text \<open>
  A sample is the pair \<open>evalRule\<close> returns. Histories are newest first; \<open>hyst\<close> runs the machine on
  one from the empty state, and \<open>alert_active\<close> is the specification it implements: an alert becomes
  active when the last \<open>ForCount\<close> samples all breached, inactive when the last \<open>ClearCount\<close> all
  satisfied the clear condition, and otherwise stays as it was.
\<close>

type_synonym sample = "bool \<times> float64"

definition clears :: "AlertRule \<Rightarrow> sample \<Rightarrow> bool" where
  "clears rule s \<longleftrightarrow> \<not> fst s \<and> clearCondition rule (snd s)"

definition breach_streak :: "sample list \<Rightarrow> int" where
  "breach_streak h = int (length (takeWhile fst h))"

definition clear_streak :: "AlertRule \<Rightarrow> sample list \<Rightarrow> int" where
  "clear_streak rule h = int (length (takeWhile (clears rule) h))"

fun hyst :: "AlertRule \<Rightarrow> sample list \<Rightarrow> alertState \<times> alertAction" where
  "hyst rule [] = (zeroState, alertNone)"
| "hyst rule (s # h) = decideAlert (fst (hyst rule h)) rule (fst s) (snd s)"

fun hyst_active :: "AlertRule \<Rightarrow> sample list \<Rightarrow> bool" where
  "hyst_active rule [] = False"
| "hyst_active rule (s # h) =
     (case snd (hyst rule (s # h)) of
        alertFire \<Rightarrow> True | alertResolve \<Rightarrow> False | alertNone \<Rightarrow> hyst_active rule h)"

fun alert_active :: "AlertRule \<Rightarrow> sample list \<Rightarrow> bool" where
  "alert_active rule [] = False"
| "alert_active rule (s # h) =
     (if fst s \<and> ar_ForCount rule \<le> breach_streak (s # h) then True
      else if ar_ClearCount rule \<le> clear_streak rule (s # h) then False
      else alert_active rule h)"

lemma streak_Nil [simp]: "breach_streak [] = 0" "clear_streak rule [] = 0"
  by (simp_all add: breach_streak_def clear_streak_def)

lemma streak_Cons [simp]:
  "breach_streak (s # h) = (if fst s then 1 + breach_streak h else 0)"
  "clear_streak rule (s # h) = (if clears rule s then 1 + clear_streak rule h else 0)"
  by (simp_all add: breach_streak_def clear_streak_def)

lemma streak_nonneg [simp]: "0 \<le> breach_streak h" "0 \<le> clear_streak rule h"
  by (simp_all add: breach_streak_def clear_streak_def)

lemma Suc_mod_int:
  fixes g c :: int
  assumes "1 \<le> c"
  shows "(1 + g) mod c = (if c \<le> g mod c + 1 then 0 else g mod c + 1)"
proof -
  have "(1 + g) mod c = (g mod c + 1) mod c" by (metis add.commute mod_add_left_eq)
  moreover have "g mod c < c" "0 \<le> g mod c" using assms by simp_all
  ultimately show ?thesis by (cases "g mod c + 1 = c") auto
qed

lemma hyst_state:
  assumes "1 \<le> ar_ClearCount rule"
  shows "fst (hyst rule h) =
           \<lparr>breaches = breach_streak h, goods = clear_streak rule h mod ar_ClearCount rule\<rparr>"
proof (induction h)
  case Nil
  show ?case by (simp add: zeroState_def)
next
  case (Cons s h)
  then show ?case
    using Suc_mod_int [OF assms, of "clear_streak rule h"]
    by (auto simp: decideAlert_def zeroState_def clears_def Let_def)
qed

lemma dvd_Suc_iff:
  fixes g c :: int
  assumes "1 \<le> c"
  shows "c \<le> g mod c + 1 \<longleftrightarrow> c dvd 1 + g"
proof -
  have "0 \<le> g mod c" using assms by simp
  then have "(1 + g) mod c = 0 \<longleftrightarrow> c \<le> g mod c + 1"
    by (simp only: Suc_mod_int [OF assms] split: if_split) linarith
  then show ?thesis by (simp only: dvd_eq_mod_eq_0)
qed

lemma hyst_action:
  assumes "1 \<le> ar_ClearCount rule"
  shows "snd (hyst rule (s # h)) =
           (if fst s then if ar_ForCount rule \<le> breach_streak (s # h) then alertFire else alertNone
            else if clears rule s \<and> ar_ClearCount rule dvd clear_streak rule (s # h) then alertResolve
            else alertNone)"
  using hyst_state [OF assms, of h] dvd_Suc_iff [OF assms, of "clear_streak rule h"]
  by (auto simp: decideAlert_def clears_def Let_def add.commute)

lemma long_clear_inactive:
  "1 \<le> ar_ClearCount rule \<Longrightarrow> ar_ClearCount rule \<le> clear_streak rule h \<Longrightarrow> \<not> alert_active rule h"
  by (cases h) (auto simp: clears_def split: if_splits)

lemma hyst_active_spec:
  assumes "1 \<le> ar_ClearCount rule"
  shows "hyst_active rule h = alert_active rule h"
proof (induction h)
  case (Cons s h)
  have "ar_ClearCount rule dvd 1 + clear_streak rule h \<Longrightarrow> ar_ClearCount rule \<le> 1 + clear_streak rule h"
    using streak_nonneg(2) [of rule h] by (intro zdvd_imp_le) linarith+
  moreover have "\<not> alert_active rule h"
    if "ar_ClearCount rule \<le> 1 + clear_streak rule h" "\<not> ar_ClearCount rule dvd 1 + clear_streak rule h"
  proof -
    have "ar_ClearCount rule \<noteq> 1 + clear_streak rule h" using that(2) by auto
    then show ?thesis using that(1) long_clear_inactive [OF assms, of h] by simp
  qed
  ultimately show ?case
    using Cons hyst_action [OF assms, of s h] assms
    by (auto simp: clears_def split: alertAction.split simp del: hyst.simps)
qed simp

end
