(* ===== verification/Path_Change.thy ===== *)
theory Path_Change
  imports Alert_Engine Sample_Data
begin

text \<open>
  Route-change detection: \<open>internal/server/pathchange.go\<close> and the baseline of
  \<open>internal/store/pathchanges.go\<close>. A stored payload is the JSON document the decoder sees
  (\<open>raw_message\<close>); the protojson encoder that writes it is a parameter \<open>encode\<close> of the properties
  that need it. The address lookup of \<open>internal/asn\<close> is the argument \<open>lookup\<close> here, and the theory
  \<open>Asn\<close> models it.
\<close>

section \<open>The baseline\<close>

record TracerouteBaseline =
  tb_Hosts :: "string list"
  tb_Seen :: "string set list"
  tb_Lengths :: "nat set"

definition baselineRuns :: nat where
  "baselineRuns = 20"

definition empty_baseline :: TracerouteBaseline where
  "empty_baseline = \<lparr>tb_Hosts = [], tb_Seen = [], tb_Lengths = {}\<rparr>"

text \<open>One hop of one run: the slices grow to hold index \<open>i\<close>, then a gap is filled.\<close>

definition add_hop :: "nat \<times> string \<Rightarrow> TracerouteBaseline \<Rightarrow> TracerouteBaseline" where
  "add_hop ih b =
     (let (i, h) = ih; pad = Suc i - length (tb_Hosts b);
          hosts = tb_Hosts b @ replicate pad ''*''; seen = tb_Seen b @ replicate pad {}
      in b\<lparr>tb_Hosts := (if hosts ! i = ''*'' \<and> h \<noteq> ''*'' then hosts[i := h] else hosts),
           tb_Seen := (if h \<noteq> ''*'' then seen[i := insert h (seen ! i)] else seen)\<rparr>)"

definition add_run :: "string list \<Rightarrow> TracerouteBaseline \<Rightarrow> TracerouteBaseline" where
  "add_run hosts b =
     fold add_hop (enumerate 0 hosts) (b\<lparr>tb_Lengths := insert (length hosts) (tb_Lengths b)\<rparr>)"

definition hop_fields :: "string list" where
  "hop_fields = [''host'']"

definition unmarshal_hop :: "json \<Rightarrow> string option" where
  "unmarshal_hop j =
     (case unmarshal_object j of None \<Rightarrow> None | Some ms \<Rightarrow> dec as_str [] (members hop_fields ms ''host''))"

definition trace_fields :: "string list" where
  "trace_fields = [''reached'', ''hops'']"

definition as_hops :: "string list \<Rightarrow> json \<Rightarrow> string list option" where
  "as_hops d j = (case j of JNull \<Rightarrow> Some [] | JArr js \<Rightarrow> those (map unmarshal_hop js) | _ \<Rightarrow> None)"

definition as_trace :: "bool \<times> string list \<Rightarrow> json \<Rightarrow> (bool \<times> string list) option" where
  "as_trace d j =
     (case unmarshal_object j of None \<Rightarrow> None | Some ms \<Rightarrow>
      case dec as_bool (fst d) (members trace_fields ms ''reached'') of None \<Rightarrow> None | Some r \<Rightarrow>
      case dec as_hops (snd d) (members trace_fields ms ''hops'') of None \<Rightarrow> None | Some hs \<Rightarrow> Some (r, hs))"

definition mark_silent :: "string \<Rightarrow> string" where
  "mark_silent h = (if h = '''' then ''*'' else h)"

definition tracerouteHosts :: "raw_message \<Rightarrow> string list option" where
  "tracerouteHosts payload =
     (case payload of
        Raw j \<Rightarrow>
          (case unmarshal_object j of None \<Rightarrow> None | Some ms \<Rightarrow>
           case dec as_trace (False, []) (members [''traceroute''] ms ''traceroute'') of
             None \<Rightarrow> None
           | Some (reached, hops) \<Rightarrow>
               if hops = [] then None
               else let hosts = map mark_silent hops in Some (if reached then butlast hosts else hosts))
      | _ \<Rightarrow> None)"

definition TracerouteBaselineFor :: "string \<Rightarrow> string \<Rightarrow> raw_message db \<Rightarrow> TracerouteBaseline" where
  "TracerouteBaselineFor agentID testID d =
     fold (\<lambda>r b. case tracerouteHosts (re_Payload r) of None \<Rightarrow> b | Some hosts \<Rightarrow> add_run hosts b)
       (select_desc re_ID (\<lambda>r. re_AgentID r = agentID \<and> re_TestID r = testID \<and> re_TestType r = ''traceroute'')
          baselineRuns (rows (results d)))
       empty_baseline"

section \<open>Signatures and their differences\<close>

definition pathSignature :: "Hop list \<Rightarrow> bool \<Rightarrow> string list" where
  "pathSignature hops reached =
     (let sg = map (\<lambda>h. mark_silent (hop_Host h)) hops
      in if reached \<and> sg \<noteq> [] then butlast sg else sg)"

text \<open>The loop over the common prefix from index \<open>i\<close>, then the comparison of the lengths.\<close>

fun diff_from :: "nat \<Rightarrow> string list \<Rightarrow> string list \<Rightarrow> (u32 \<times> string \<times> string) option" where
  "diff_from i (f # fs) (t # ts) =
     (if f = ''*'' \<or> t = ''*'' \<or> f = t then diff_from (Suc i) fs ts else Some (of_nat (i + 1), f, t))"
| "diff_from i [] (t # ts) = Some (of_nat (i + 1), '''', t)"
| "diff_from i (f # fs) [] = Some (of_nat (i + 1), f, '''')"
| "diff_from i [] [] = None"

definition diffSignatures :: "string list \<Rightarrow> string list \<Rightarrow> (u32 \<times> string \<times> string) option" where
  "diffSignatures from to = diff_from 0 from to"

definition seenRecently :: "TracerouteBaseline \<Rightarrow> u32 \<Rightarrow> string \<Rightarrow> bool" where
  "seenRecently base ttl hop =
     (let i = uint ttl - 1
      in if hop = '''' \<or> i < 0 \<or> i \<ge> int (length (tb_Seen base)) then False
         else hop \<in> tb_Seen base ! nat i)"

section \<open>Classification\<close>

record Info =
  as_ASN :: u32
  as_Owner :: string
  as_Country :: string

definition networkLabel :: "Info \<Rightarrow> string" where
  "networkLabel info =
     (if as_Owner info = '''' then ''AS'' @ itoa (as_ASN info)
      else as_Owner info @ '' (AS'' @ itoa (as_ASN info) @ '')'')"

definition classifyChange :: "(string \<Rightarrow> Info option) \<Rightarrow> string \<Rightarrow> string \<Rightarrow> string \<times> string \<times> string" where
  "classifyChange lookup fromHop toHop =
     (let fromNet = (case lookup fromHop of None \<Rightarrow> '''' | Some i \<Rightarrow> networkLabel i);
          toNet = (case lookup toHop of None \<Rightarrow> '''' | Some i \<Rightarrow> networkLabel i)
      in case (lookup fromHop, lookup toHop) of
           (Some f, Some t) \<Rightarrow>
             (if as_ASN f = as_ASN t then (''intra-as'', fromNet, toNet) else (''inter-as'', fromNet, toNet))
         | _ \<Rightarrow> (''unknown'', fromNet, toNet))"

section \<open>Detection on ingest\<close>

text \<open>
  The decision part: the difference to report, or nothing. \<open>detectPathChange\<close> returns the result
  with its \<open>PathChanged\<close> mark and the database with the recorded event; an error of the insert is
  logged and the result stays marked.
\<close>

definition path_change_of :: "TracerouteBaseline \<Rightarrow> string list \<Rightarrow> (u32 \<times> string \<times> string) option" where
  "path_change_of base current =
     (if tb_Hosts base = [] \<or> current = [] then None
      else case diffSignatures (tb_Hosts base) current of
             None \<Rightarrow> None
           | Some (ttl, fromHop, toHop) \<Rightarrow>
               if seenRecently base ttl toHop then None
               else if (toHop = '''' \<or> fromHop = '''') \<and> length current \<in> tb_Lengths base then None
               else Some (ttl, fromHop, toHop))"

definition detectPathChange ::
  "(string \<Rightarrow> Info option) \<Rightarrow> go_time \<Rightarrow> connectedAgent \<Rightarrow> TestResult \<Rightarrow> TestDef option
     \<Rightarrow> raw_message db \<Rightarrow> TestResult \<times> raw_message db" where
  "detectPathChange lookup now conn r test d =
     (case GetTraceroute r of
        None \<Rightarrow> (r, d)
      | Some tr \<Rightarrow>
          if rs_TestId r = '''' \<or> tr_Hops tr = [] then (r, d)
          else
            let base = TracerouteBaselineFor (ag_ID (ca_agent conn)) (rs_TestId r) d;
                current = pathSignature (tr_Hops tr) (tr_Reached tr)
            in case path_change_of base current of
                 None \<Rightarrow> (r, d)
               | Some (ttl, fromHop, toHop) \<Rightarrow>
                   let r' = r\<lparr>rs_Result := TestResult_Traceroute (tr\<lparr>tr_PathChanged := True\<rparr>)\<rparr>;
                       (scope, fromNet, toNet) = classifyChange lookup fromHop toHop;
                       c = \<lparr>pc_ID = 0, pc_AgentID = ag_ID (ca_agent conn), pc_TestID = rs_TestId r,
                            pc_TestName = (case test of None \<Rightarrow> rs_TestName r | Some t \<Rightarrow> td_Name t),
                            pc_Time = (case rs_Time r of None \<Rightarrow> now | Some t \<Rightarrow> t),
                            pc_FirstDiffTTL = ttl, pc_FromHop = fromHop, pc_ToHop = toHop,
                            pc_FromSig = join '' '' (tb_Hosts base), pc_ToSig = join '' '' current,
                            pc_Scope = scope, pc_FromNetwork = fromNet, pc_ToNetwork = toNet\<rparr>
                   in (case AddPathChange c d of Inl _ \<Rightarrow> (r', d) | Inr d' \<Rightarrow> (r', d')))"

section \<open>What the baseline holds\<close>

definition hostAt :: "TracerouteBaseline \<Rightarrow> nat \<Rightarrow> string" where
  "hostAt b i = (if i < length (tb_Hosts b) then tb_Hosts b ! i else ''*'')"

definition seenAt :: "TracerouteBaseline \<Rightarrow> nat \<Rightarrow> string set" where
  "seenAt b i = (if i < length (tb_Seen b) then tb_Seen b ! i else {})"

definition aligned :: "TracerouteBaseline \<Rightarrow> bool" where
  "aligned b \<longleftrightarrow> length (tb_Seen b) = length (tb_Hosts b)"

lemma add_hop_facts:
  assumes "aligned b"
  shows "aligned (add_hop (k, h) b)"
    and "length (tb_Hosts (add_hop (k, h) b)) = max (length (tb_Hosts b)) (Suc k)"
    and "tb_Lengths (add_hop (k, h) b) = tb_Lengths b"
    and "hostAt (add_hop (k, h) b) i = (if i = k \<and> hostAt b k = ''*'' then h else hostAt b i)"
    and "seenAt (add_hop (k, h) b) i = (if i = k \<and> h \<noteq> ''*'' then insert h (seenAt b k) else seenAt b i)"
  using assms
  by (auto simp: add_hop_def aligned_def hostAt_def seenAt_def Let_def nth_append nth_list_update)

lemma add_hops_facts:
  assumes "aligned b"
  shows "aligned (fold add_hop (enumerate 0 hs) b)
    \<and> length (tb_Hosts (fold add_hop (enumerate 0 hs) b)) = max (length (tb_Hosts b)) (length hs)
    \<and> tb_Lengths (fold add_hop (enumerate 0 hs) b) = tb_Lengths b
    \<and> hostAt (fold add_hop (enumerate 0 hs) b) i =
        (if i < length hs \<and> hostAt b i = ''*'' then hs ! i else hostAt b i)
    \<and> seenAt (fold add_hop (enumerate 0 hs) b) i =
        (if i < length hs \<and> hs ! i \<noteq> ''*'' then insert (hs ! i) (seenAt b i) else seenAt b i)"
proof (induction hs arbitrary: i rule: rev_induct)
  case Nil
  then show ?case using assms by simp
next
  case (snoc h hs)
  let ?b = "fold add_hop (enumerate 0 hs) b"
  have "fold add_hop (enumerate 0 (hs @ [h])) b = add_hop (length hs, h) ?b"
    by (simp add: enumerate_append_eq)
  moreover have al: "aligned ?b" using snoc by blast
  ultimately show ?case
    using add_hop_facts [OF al, of "length hs" h] snoc
    by (auto simp: nth_append less_Suc_eq max_def)
qed

text \<open>
  The runs are taken newest first. \<open>answers i runs\<close> are the addresses that answered at index \<open>i\<close>.
\<close>

definition answers :: "nat \<Rightarrow> string list list \<Rightarrow> string list" where
  "answers i runs = filter (\<lambda>h. h \<noteq> ''*'') (map (\<lambda>r. r ! i) (filter (\<lambda>r. i < length r) runs))"

lemma answers_simps [simp]:
  "answers i [] = []"
  "answers i (rs @ [r]) = answers i rs @ (if i < length r \<and> r ! i \<noteq> ''*'' then [r ! i] else [])"
  by (simp_all add: answers_def)

definition baseline_of :: "string list list \<Rightarrow> TracerouteBaseline" where
  "baseline_of runs = fold add_run runs empty_baseline"

lemma baseline_Nil [simp]: "baseline_of [] = empty_baseline"
  by (simp add: baseline_of_def)

lemma empty_baseline_facts [simp]:
  "aligned empty_baseline" "hostAt empty_baseline i = ''*''" "seenAt empty_baseline i = {}"
  "tb_Hosts empty_baseline = []" "tb_Lengths empty_baseline = {}"
  by (simp_all add: empty_baseline_def aligned_def hostAt_def seenAt_def)

lemma add_run_facts:
  assumes "aligned b"
  shows "aligned (add_run r b)"
    and "length (tb_Hosts (add_run r b)) = max (length (tb_Hosts b)) (length r)"
    and "tb_Lengths (add_run r b) = insert (length r) (tb_Lengths b)"
    and "hostAt (add_run r b) i = (if i < length r \<and> hostAt b i = ''*'' then r ! i else hostAt b i)"
    and "seenAt (add_run r b) i =
           (if i < length r \<and> r ! i \<noteq> ''*'' then insert (r ! i) (seenAt b i) else seenAt b i)"
proof -
  let ?b = "b\<lparr>tb_Lengths := insert (length r) (tb_Lengths b)\<rparr>"
  have "aligned ?b" "hostAt ?b i = hostAt b i" "seenAt ?b i = seenAt b i" "tb_Hosts ?b = tb_Hosts b"
    using assms by (simp_all add: aligned_def hostAt_def seenAt_def)
  with add_hops_facts [of ?b r i]
  show "aligned (add_run r b)" "length (tb_Hosts (add_run r b)) = max (length (tb_Hosts b)) (length r)"
    "tb_Lengths (add_run r b) = insert (length r) (tb_Lengths b)"
    "hostAt (add_run r b) i = (if i < length r \<and> hostAt b i = ''*'' then r ! i else hostAt b i)"
    "seenAt (add_run r b) i =
       (if i < length r \<and> r ! i \<noteq> ''*'' then insert (r ! i) (seenAt b i) else seenAt b i)"
    by (simp_all add: add_run_def)
qed

lemma baseline_snoc: "baseline_of (rs @ [r]) = add_run r (baseline_of rs)"
  by (simp add: baseline_of_def)

lemma aligned_baseline [simp]: "aligned (baseline_of runs)"
  by (induction runs rule: rev_induct) (simp_all add: baseline_snoc add_run_facts)

lemma baseline_lengths: "tb_Lengths (baseline_of runs) = length ` set runs"
  by (induction runs rule: rev_induct) (simp_all add: baseline_snoc add_run_facts)

lemma baseline_length_max: "r \<in> set runs \<Longrightarrow> length r \<le> length (tb_Hosts (baseline_of runs))"
  by (induction runs rule: rev_induct) (auto simp: baseline_snoc add_run_facts)

lemma baseline_seen: "seenAt (baseline_of runs) i = set (answers i runs)"
  by (induction runs rule: rev_induct) (auto simp: baseline_snoc add_run_facts)

lemma answers_silent: "a \<in> set (answers i runs) \<Longrightarrow> a \<noteq> ''*''"
  by (simp add: answers_def)

lemma baseline_host: "hostAt (baseline_of runs) i = (case answers i runs of [] \<Rightarrow> ''*'' | a # _ \<Rightarrow> a)"
proof (induction runs rule: rev_induct)
  case Nil
  show ?case by simp
next
  case (snoc r rs)
  have "a \<noteq> ''*''" if "answers i rs = a # as" for a as
    using answers_silent [of a i rs] that by simp
  with snoc show ?case by (simp add: baseline_snoc add_run_facts split: list.split)
qed

lemma TracerouteBaselineFor_eq:
  "TracerouteBaselineFor a t d =
     baseline_of (List.map_filter (\<lambda>r. tracerouteHosts (re_Payload r))
       (select_desc re_ID (\<lambda>r. re_AgentID r = a \<and> re_TestID r = t \<and> re_TestType r = ''traceroute'')
          baselineRuns (rows (results d))))"
proof -
  have "fold (\<lambda>r b. case tracerouteHosts (re_Payload r) of None \<Rightarrow> b | Some hosts \<Rightarrow> add_run hosts b) rs b =
      fold add_run (List.map_filter (\<lambda>r. tracerouteHosts (re_Payload r)) rs) b" for rs :: "raw_message Result list" and b
    by (induction rs arbitrary: b) (auto simp: map_filter_simps split: option.split)
  then show ?thesis by (simp add: TracerouteBaselineFor_def baseline_of_def)
qed

section \<open>Differences\<close>

definition compat :: "string \<Rightarrow> string \<Rightarrow> bool" where
  "compat f t \<longleftrightarrow> f = ''*'' \<or> t = ''*'' \<or> f = t"

lemma diff_from_None: "diff_from i fs ts = None \<longleftrightarrow> list_all2 compat fs ts"
  by (induction i fs ts rule: diff_from.induct) (auto simp: compat_def)

text \<open>Where and how two signatures first differ, at index \<open>k\<close> of the remaining parts.\<close>

definition differs_at :: "nat \<Rightarrow> string list \<Rightarrow> string list \<Rightarrow> string \<Rightarrow> string \<Rightarrow> bool" where
  "differs_at k fs ts f t \<longleftrightarrow> (\<forall>j < k. compat (fs ! j) (ts ! j)) \<and>
     (k < length fs \<and> k < length ts \<and> f = fs ! k \<and> t = ts ! k \<and> \<not> compat f t
      \<or> k = length fs \<and> k < length ts \<and> f = '''' \<and> t = ts ! k
      \<or> k = length ts \<and> k < length fs \<and> f = fs ! k \<and> t = '''')"

lemma differs_at_Cons:
  "differs_at (Suc k) (x # fs) (y # ts) f t \<longleftrightarrow> compat x y \<and> differs_at k fs ts f t"
  by (auto simp: differs_at_def less_Suc_eq_0_disj)

lemma diff_from_Some:
  "diff_from i fs ts = Some (n, f, t) \<Longrightarrow> \<exists>k. n = of_nat (i + k + 1) \<and> differs_at k fs ts f t"
proof (induction i fs ts rule: diff_from.induct)
  case (1 i x fs y ts)
  show ?case
  proof (cases "compat x y")
    case True
    then obtain k where "n = of_nat (Suc i + k + 1)" "differs_at k fs ts f t"
      using 1 by (auto simp: compat_def)
    then show ?thesis using True by (intro exI [of _ "Suc k"]) (simp add: differs_at_Cons algebra_simps)
  next
    case False
    then have "n = of_nat (i + 0 + 1)" "differs_at 0 (x # fs) (y # ts) f t"
      using "1.prems" by (auto simp: compat_def differs_at_def)
    then show ?thesis by blast
  qed
qed (auto simp: differs_at_def intro!: exI [of _ 0])

lemma diff_from_at:
  "differs_at k fs ts f t \<Longrightarrow> diff_from i fs ts = Some (of_nat (i + k + 1), f, t)"
proof (induction k arbitrary: i fs ts)
  case 0
  then show ?case by (cases fs; cases ts) (auto simp: differs_at_def compat_def)
next
  case (Suc k)
  from Suc.prems obtain x fs' y ts' where e: "fs = x # fs'" "ts = y # ts'"
    by (cases fs; cases ts) (auto simp: differs_at_def)
  with Suc.prems have "compat x y" "differs_at k fs' ts' f t" by (simp_all add: differs_at_Cons)
  then show ?case using Suc.IH [of fs' ts' "Suc i"] e by (auto simp: compat_def algebra_simps)
qed

lemma uint_of_nat_Suc: "Suc k < 2 ^ 32 \<Longrightarrow> uint (of_nat (k + 1) :: u32) - 1 = int k"
  by (simp add: unsigned_of_nat take_bit_nat_eq_self uint_word_of_int_eq take_bit_int_eq_self
      flip: of_nat_Suc)

lemma seenRecently_at:
  assumes "aligned b" "Suc k < 2 ^ 32" "k < length (tb_Hosts b)"
  shows "seenRecently b (of_nat (k + 1)) h \<longleftrightarrow> h \<noteq> '''' \<and> h \<in> seenAt b k"
  using assms uint_of_nat_Suc [OF assms(2)]
  by (simp add: seenRecently_def seenAt_def aligned_def Let_def)

lemma path_change_quiet:
  assumes seen: "\<And>i. i < length cur \<Longrightarrow> cur ! i = ''*'' \<or> cur ! i \<in> set (answers i runs)"
    and len: "length cur \<in> length ` set runs" and fits: "Suc (length cur) < 2 ^ 32"
  shows "path_change_of (baseline_of runs) cur = None"
proof (cases "diffSignatures (tb_Hosts (baseline_of runs)) cur")
  case None
  then show ?thesis by (simp add: path_change_of_def)
next
  case (Some x)
  obtain n f t where x: "x = (n, f, t)" by (cases x)
  let ?b = "baseline_of runs"
  from Some obtain k where k: "n = of_nat (k + 1)" "differs_at k (tb_Hosts ?b) cur f t"
    using diff_from_Some [of 0] unfolding diffSignatures_def x by fastforce
  have "seenRecently ?b n t \<or> t = '''' \<or> f = ''''"
  proof (cases "k < length (tb_Hosts ?b) \<and> k < length cur")
    case True
    then have "t = cur ! k" "t \<noteq> ''*''" using k(2) by (auto simp: differs_at_def compat_def)
    then have "t \<in> seenAt ?b k" using seen [of k] True by (simp add: baseline_seen)
    then show ?thesis using seenRecently_at [of ?b k t] True fits k(1) by simp
  next
    case False
    then show ?thesis using k(2) by (auto simp: differs_at_def)
  qed
  then show ?thesis
    using Some len by (auto simp: path_change_of_def x baseline_lengths)
qed

lemma path_change_reported:
  assumes "k < length cur" "Suc k < 2 ^ 32" "a \<noteq> ''''" "cur ! k \<noteq> ''''"
    and old: "answers k runs = a # as" and new: "cur ! k \<noteq> ''*''" "cur ! k \<notin> set (answers k runs)"
    and pre: "\<And>j. j < k \<Longrightarrow> compat (hostAt (baseline_of runs) j) (cur ! j)"
  shows "path_change_of (baseline_of runs) cur = Some (of_nat (k + 1), a, cur ! k)"
proof -
  let ?b = "baseline_of runs"
  have h: "hostAt ?b k = a" "a \<noteq> ''*''" using old answers_silent [of a k runs] by (simp_all add: baseline_host)
  then have kb: "k < length (tb_Hosts ?b)" by (auto simp: hostAt_def split: if_splits)
  have "a \<noteq> cur ! k" using new(2) old by auto
  then have "differs_at k (tb_Hosts ?b) cur a (cur ! k)"
    using assms(1) kb h new(1) pre by (auto simp: differs_at_def hostAt_def compat_def split: if_splits)
  then have "diffSignatures (tb_Hosts ?b) cur = Some (of_nat (k + 1), a, cur ! k)"
    using diff_from_at [of k _ cur a _ 0] by (simp add: diffSignatures_def)
  moreover have "\<not> seenRecently ?b (of_nat (k + 1)) (cur ! k)"
    using seenRecently_at [OF _ assms(2) kb] new(2) by (simp add: baseline_seen)
  ultimately show ?thesis
    using assms(1,3,4) kb by (auto simp: path_change_of_def)
qed

section \<open>Properties\<close>

text \<open>The hop addresses of the stored runs that detection consults, newest run first.\<close>

definition run_window :: "string \<Rightarrow> string \<Rightarrow> raw_message db \<Rightarrow> string list list" where
  "run_window a t d = List.map_filter (\<lambda>r. tracerouteHosts (re_Payload r))
     (select_desc re_ID (\<lambda>r. re_AgentID r = a \<and> re_TestID r = t \<and> re_TestType r = ''traceroute'')
        20 (rows (results d)))"

lemma window_baseline: "TracerouteBaselineFor a t d = baseline_of (run_window a t d)"
  by (simp add: TracerouteBaselineFor_eq run_window_def baselineRuns_def)

text \<open>
  C15. The baseline holds, for every TTL, the most recent address that answered in the last twenty
  stored runs (or silence if none did), every address seen there, and every path length observed.
\<close>

theorem baseline_is_most_recent_answers:
  "hostAt (TracerouteBaselineFor a t d) i = (case answers i (run_window a t d) of [] \<Rightarrow> ''*'' | h # _ \<Rightarrow> h)
   \<and> seenAt (TracerouteBaselineFor a t d) i = set (answers i (run_window a t d))
   \<and> tb_Lengths (TracerouteBaselineFor a t d) = length ` set (run_window a t d)"
  by (simp add: window_baseline baseline_host baseline_seen baseline_lengths)

definition demo_payload :: "string list \<Rightarrow> raw_message" where
  "demo_payload hs = Raw (JObj [(''traceroute'', JObj [(''reached'', JBool False),
     (''hops'', JArr (map (\<lambda>h. JObj [(''host'', JStr h)]) hs))])])"

definition demo_row :: "int \<Rightarrow> string list \<Rightarrow> raw_message Result" where
  "demo_row i hs = \<lparr>re_ID = i, re_AgentID = ''a1'', re_TestID = ''x1'', re_TestName = ''gw'',
     re_TestType = ''traceroute'', re_Time = 0, re_Error = '''', re_OK = True, re_Payload = demo_payload hs\<rparr>"

definition demo_trace_db :: "raw_message db" where
  "demo_trace_db = demo_db\<lparr>results := \<lparr>rows = [demo_row 1 [''10.0.0.1'', ''10.0.9.1''],
     demo_row 2 [''10.0.0.2'', ''10.0.9.1'']], last_id = 2\<rparr>\<rparr>"

definition demo_hop :: "string \<Rightarrow> Hop" where
  "demo_hop h = \<lparr>hop_Ttl = 0, hop_Host = h, hop_HostName = '''', hop_LossPercent = 0, hop_AvgRttMs = 0,
     hop_BestRttMs = 0, hop_WorstRttMs = 0, hop_JitterMs = 0, hop_Sent = 0\<rparr>"

definition demo_trace :: "string list \<Rightarrow> TracerouteResult" where
  "demo_trace hs = \<lparr>tr_Target = ''t'', tr_TargetIp = '''', tr_Reached = False, tr_Status = '''',
     tr_FailureHop = 0, tr_RttMs = 0, tr_Demo = False, tr_Hops = map demo_hop hs, tr_DestinationState = '''',
     tr_Engine = '''', tr_PathChanged = False\<rparr>"

definition demo_trace_result :: "string list \<Rightarrow> TestResult" where
  "demo_trace_result hs = \<lparr>rs_Time = Some 7, rs_Error = '''', rs_TestId = ''x1'', rs_TestName = ''gw'',
     rs_Result = TestResult_Traceroute (demo_trace hs)\<rparr>"

definition demo_conn :: connectedAgent where
  "demo_conn = \<lparr>ca_agent = demo_agent, ca_tenant = ''acme''\<rparr>"

lemma demo_window:
  "run_window ''a1'' ''x1'' demo_trace_db = [[''10.0.0.2'', ''10.0.9.1''], [''10.0.0.1'', ''10.0.9.1'']]"
  by (simp add: run_window_def demo_trace_db_def demo_row_def select_desc_def map_filter_simps
      tracerouteHosts_def demo_payload_def as_trace_def as_hops_def unmarshal_hop_def unmarshal_object_def
      trace_fields_def hop_fields_def mark_silent_def)

lemma demo_trace_simps [simp]:
  "GetTraceroute (demo_trace_result hs) = Some (demo_trace hs)" "rs_TestId (demo_trace_result hs) = ''x1''"
  "ag_ID (ca_agent demo_conn) = ''a1''" "tr_Hops (demo_trace hs) = map demo_hop hs"
  "tr_Reached (demo_trace hs) = False" "hop_Host (demo_hop h) = h"
  by (simp_all add: demo_trace_result_def demo_conn_def demo_agent_def demo_trace_def demo_hop_def)

lemma demo_trace_db_ok: "db_ok demo_trace_db"
  by (simp add: db_ok_def ok_defs uniq_def refs_def demo_defs demo_trace_db_def demo_row_def wf_table_def)

lemma all_less_two: "(\<forall>i < Suc (Suc 0). P i) \<longleftrightarrow> P 0 \<and> P (Suc 0)"
  by (auto simp: less_Suc_eq)

lemma detect_quiet:
  fixes d :: "raw_message db"
  assumes tr: "GetTraceroute r = Some tr"
    and "cur = pathSignature (tr_Hops tr) (tr_Reached tr)"
    and runs: "runs = run_window (ag_ID (ca_agent conn)) (rs_TestId r) d"
    and "\<forall>i < length cur. cur ! i = ''*'' \<or> cur ! i \<in> set (answers i runs)"
    and "length cur \<in> length ` set runs" "Suc (length cur) < 2 ^ 32"
  shows "detectPathChange lookup now conn r test d = (r, d)"
proof -
  have "path_change_of (TracerouteBaselineFor (ag_ID (ca_agent conn)) (rs_TestId r) d) cur = None"
    unfolding window_baseline using assms by (intro path_change_quiet) auto
  then show ?thesis using tr assms(2) by (simp add: detectPathChange_def Let_def)
qed

text \<open>
  No false alarm: a run in which every hop is silent or answers from an address already seen at
  that TTL in the window, and whose length the window has observed, is never reported as a path
  change and leaves the result and the database unchanged.
\<close>

theorem detect_quiet_on_seen_path:
  fixes d :: "raw_message db"
  assumes tr: "GetTraceroute r = Some tr"
    and "cur = pathSignature (tr_Hops tr) (tr_Reached tr)"
    and runs: "runs = run_window (ag_ID (ca_agent conn)) (rs_TestId r) d"
    and "\<forall>i < length cur. cur ! i = ''*'' \<or> cur ! i \<in> set (answers i runs)"
    and "length cur \<in> length ` set runs" "Suc (length cur) < 2 ^ 32"
  shows "detectPathChange lookup now conn r test d = (r, d)"
  using assms by (rule detect_quiet)

theorem detect_quiet_on_seen_path_witness:
  "detectPathChange (\<lambda>_. None) 0 demo_conn (demo_trace_result [''10.0.0.1'', '''']) None demo_trace_db
     = (demo_trace_result [''10.0.0.1'', ''''], demo_trace_db)"
  by (rule detect_quiet_on_seen_path [OF demo_trace_simps(1) refl refl])
    (simp_all add: demo_window pathSignature_def mark_silent_def answers_def all_less_two)

text \<open>
  No missed reroute at the first differing hop: when the hops before TTL \<open>k + 1\<close> agree with the
  baseline and that hop answers from an address the window has never seen there, while an address
  is on record for it, the result is marked and one path change with that TTL and both addresses is
  recorded.
\<close>

theorem detect_reports_new_hop:
  fixes d :: "raw_message db"
  assumes ok: "db_ok d" "has_key ag_ID (ag_ID (ca_agent conn)) (agents d)"
    and tr: "GetTraceroute r = Some tr" "rs_TestId r \<noteq> ''''"
    and cur: "cur = pathSignature (tr_Hops tr) (tr_Reached tr)"
    and runs: "runs = run_window (ag_ID (ca_agent conn)) (rs_TestId r) d"
    and k: "k < length cur" "Suc k < 2 ^ 32" "a \<noteq> ''''" "cur ! k \<noteq> ''''" "answers k runs = a # as"
      "cur ! k \<noteq> ''*''" "cur ! k \<notin> set (answers k runs)"
    and pre: "\<And>j. j < k \<Longrightarrow> compat (hostAt (baseline_of runs) j) (cur ! j)"
  shows "\<exists>c d'. detectPathChange lookup now conn r test d =
             (r\<lparr>rs_Result := TestResult_Traceroute (tr\<lparr>tr_PathChanged := True\<rparr>)\<rparr>, d')
           \<and> c \<in> set (rows (path_changes d')) \<and> pc_FirstDiffTTL c = of_nat (k + 1)
           \<and> pc_FromHop c = a \<and> pc_ToHop c = cur ! k \<and> pc_AgentID c = ag_ID (ca_agent conn)
           \<and> pc_TestID c = rs_TestId r"
proof -
  have pc: "path_change_of (TracerouteBaselineFor (ag_ID (ca_agent conn)) (rs_TestId r) d) cur
      = Some (of_nat (k + 1), a, cur ! k)"
    unfolding window_baseline using path_change_reported [OF k(1-5)] k pre runs by simp
  have "tr_Hops tr \<noteq> []" using k(1) cur by (auto simp: pathSignature_def)
  moreover obtain sc fn tn where "classifyChange lookup a (cur ! k) = (sc, fn, tn)"
    by (metis prod_cases3)
  ultimately obtain c where c: "detectPathChange lookup now conn r test d =
      (r\<lparr>rs_Result := TestResult_Traceroute (tr\<lparr>tr_PathChanged := True\<rparr>)\<rparr>, d\<lparr>path_changes := add_path_change c (path_changes d)\<rparr>)"
    and f: "pc_FirstDiffTTL c = of_nat (k + 1)" "pc_FromHop c = a" "pc_ToHop c = cur ! k"
      "pc_AgentID c = ag_ID (ca_agent conn)" "pc_TestID c = rs_TestId r"
    using tr pc ok(2) cur by (auto simp: detectPathChange_def AddPathChange_def Let_def)
  have "wf_table pc_ID (path_changes d)" using ok(1) by (simp add: db_ok_def ok_path_changes_def)
  then have "path_row c (last_id (path_changes d) + 1) \<in> set (rows (add_path_change c (path_changes d)))"
    by (rule path_history.add_newest) (simp_all add: pathChangesPerTest_def)
  then show ?thesis using c f
    by (intro exI [of _ "path_row c (last_id (path_changes d) + 1)"] exI) (auto simp: path_row_def)
qed

theorem detect_reports_new_hop_witness:
  "\<exists>d'. detectPathChange (\<lambda>_. None) 0 demo_conn (demo_trace_result [''10.0.0.2'', ''10.0.7.7'']) None demo_trace_db
     = ((demo_trace_result [''10.0.0.2'', ''10.0.7.7''])\<lparr>rs_Result := TestResult_Traceroute
          ((demo_trace [''10.0.0.2'', ''10.0.7.7''])\<lparr>tr_PathChanged := True\<rparr>)\<rparr>, d')
     \<and> (\<exists>c \<in> set (rows (path_changes d')). pc_FromHop c = ''10.0.9.1'' \<and> pc_ToHop c = ''10.0.7.7'')"
proof -
  have "has_key ag_ID (ag_ID (ca_agent demo_conn)) (agents demo_trace_db)"
    by (simp add: has_key_def demo_trace_db_def demo_agent_def)
  note R = detect_reports_new_hop [OF demo_trace_db_ok this demo_trace_simps(1) _ refl refl, where k = 1
      and a = "''10.0.9.1''" and as = "[''10.0.9.1'']"]
  show ?thesis
    using R [of "[''10.0.0.2'', ''10.0.7.7'']" "\<lambda>_. None" 0 None]
    by (simp add: demo_window pathSignature_def mark_silent_def answers_def baseline_host compat_def) blast
qed

text \<open>
  A benign alternation hides a reroute behind it: only the first difference is examined, so when
  an early hop flips back to an address already seen, a later hop that answers from an address never
  seen before is not reported, although the first appearance of a new address is meant to be.
\<close>

theorem alternation_masks_reroute:
  "path_change_of (baseline_of [[''a'', ''x''], [''b'', ''x'']]) [''b'', ''new''] = None
   \<and> path_change_of (baseline_of [[''a'', ''x''], [''b'', ''x'']]) [''a'', ''new''] = Some (2, ''x'', ''new'')
   \<and> ''new'' \<notin> set (answers 1 [[''a'', ''x''], [''b'', ''x'']])"
  by (simp add: path_change_of_def diffSignatures_def seenRecently_def baseline_of_def add_run_def add_hop_def
      empty_baseline_def answers_def enumerate_eq_zip)

end
