(* ===== verification/Asn.thy ===== *)
theory Asn
  imports Path_Change Perfmon
begin

text \<open>
  The address table of \<open>internal/asn\<close>: the lookup of \<open>asn.go\<close>, the generator of \<open>gen/main.go\<close> that
  writes the embedded files and the IEEE prefix lookup of \<open>internal/oui\<close>, which has the same shape. An
  embedded file is its decompressed content, \<open>None\<close> if it is not a gzip stream; the lines of a text are
  those \<open>bufio.Scanner\<close> yields.
\<close>

text \<open>Evaluation compares decimal values as integers.\<close>

lemma parse_mask_code [code]:
  "parse_mask s = (if s \<noteq> [] \<and> list_all is_digit s \<and> int (atoi_digits 0 s) < 0xFFFFFF then Some (atoi_digits 0 s) else None)"
  by (simp add: parse_mask_def)

section \<open>Tables\<close>

record ipRange =
  rg_start :: u32
  rg_end :: u32
  rg_asn :: u32

definition covers :: "u32 \<Rightarrow> ipRange \<Rightarrow> bool" where
  "covers addr r \<longleftrightarrow> rg_start r \<le> addr \<and> addr \<le> rg_end r"

text \<open>Each record is three big-endian words; a trailing part of a record is dropped.\<close>

function load_ranges :: "bytes \<Rightarrow> ipRange list" where
  "load_ranges blob =
     (if length blob < 12 then []
      else \<lparr>rg_start = get_u32 blob, rg_end = get_u32 (drop 4 blob), rg_asn = get_u32 (drop 8 blob)\<rparr>
             # load_ranges (drop 12 blob))"
  by pat_completeness auto
termination by (relation "measure length") auto

declare load_ranges.simps [simp del]

definition ParseUint32 :: "string \<Rightarrow> u32 option" where
  "ParseUint32 s =
     (if s \<noteq> [] \<and> list_all is_digit s \<and> int (atoi_digits 0 s) < 2 ^ 32 then Some (of_nat (atoi_digits 0 s)) else None)"

definition load_name :: "string \<Rightarrow> (u32 \<times> Info) option" where
  "load_name line =
     (let parts = split_on (CHR 0x09) line
      in if length parts < 2 then None
         else map_option (\<lambda>n. (n, \<lparr>as_ASN = n, as_Owner = parts ! 1,
                as_Country = (if length parts > 2 then parts ! 2 else '''')\<rparr>)) (ParseUint32 (parts ! 0)))"

definition load_names :: "string list \<Rightarrow> u32 \<rightharpoonup> Info" where
  "load_names ls = fold (\<lambda>line m. case load_name line of None \<Rightarrow> m | Some (n, i) \<Rightarrow> m(n \<mapsto> i)) ls Map.empty"

definition asn_load :: "bytes option \<Rightarrow> string list option \<Rightarrow> ipRange list \<times> (u32 \<rightharpoonup> Info)" where
  "asn_load rangeData nameData =
     ((case rangeData of None \<Rightarrow> [] | Some blob \<Rightarrow> load_ranges blob),
      (case nameData of None \<Rightarrow> Map.empty | Some ls \<Rightarrow> load_names ls))"

section \<open>Binary search\<close>

text \<open>The loop of \<open>sort.Search\<close> over the half-open interval of candidates.\<close>

function search_loop :: "(nat \<Rightarrow> bool) \<Rightarrow> nat \<Rightarrow> nat \<Rightarrow> nat" where
  "search_loop f i j =
     (if i < j then
        (let h = (i + j) div 2 in if \<not> f h then search_loop f (h + 1) j else search_loop f i h)
      else i)"
  by pat_completeness auto
termination by (relation "measure (\<lambda>(f, i, j). j - i)") auto

declare search_loop.simps [simp del]

definition Search :: "nat \<Rightarrow> (nat \<Rightarrow> bool) \<Rightarrow> nat" where
  "Search n f = search_loop f 0 n"

section \<open>Lookup\<close>

definition range_of :: "ipRange list \<Rightarrow> u32 \<Rightarrow> ipRange option" where
  "range_of ranges addr =
     (let i = Search (length ranges) (\<lambda>i. rg_end (ranges ! i) \<ge> addr)
      in if i \<ge> length ranges \<or> rg_start (ranges ! i) > addr then None else Some (ranges ! i))"

definition asn_Lookup :: "ipRange list \<times> (u32 \<rightharpoonup> Info) \<Rightarrow> string \<Rightarrow> Info option" where
  "asn_Lookup table ip =
     (case ParseIP ip of
        None \<Rightarrow> None
      | Some parsed \<Rightarrow>
          (case To4 parsed of
             None \<Rightarrow> None
           | Some v4 \<Rightarrow>
               (case range_of (fst table) (get_u32 v4) of
                  None \<Rightarrow> None
                | Some r \<Rightarrow>
                    (case snd table (rg_asn r) of
                       Some info \<Rightarrow> Some info
                     | None \<Rightarrow> Some \<lparr>as_ASN = rg_asn r, as_Owner = '''', as_Country = ''''\<rparr>))))"

section \<open>The generator\<close>

text \<open>\<open>strings.Fields\<close> on ASCII white space.\<close>

fun fields_acc :: "string \<Rightarrow> string \<Rightarrow> string list" where
  "fields_acc w [] = (if w = [] then [] else [rev w])"
| "fields_acc w (c # cs) =
     (if is_space c then (if w = [] then fields_acc [] cs else rev w # fields_acc [] cs)
      else fields_acc (c # w) cs)"

definition Fields :: "string \<Rightarrow> string list" where
  "Fields s = fields_acc [] s"

text \<open>\<open>IPMask.Size\<close>: a mask that is not ones followed by zeros has size 0 of 0.\<close>

definition byte_ones :: "u8 \<Rightarrow> nat option" where
  "byte_ones v = find (\<lambda>k. v = push_bit (8 - k) 255) [0..<9]"

fun mask_ones :: "u8 list \<Rightarrow> nat option" where
  "mask_ones [] = Some 0"
| "mask_ones (v # vs) =
     (if v = 255 then map_option ((+) 8) (mask_ones vs)
      else if list_all ((=) 0) vs then byte_ones v else None)"

definition mask_Size :: "u8 list \<Rightarrow> nat \<times> nat" where
  "mask_Size m = (case mask_ones m of None \<Rightarrow> (0, 0) | Some n \<Rightarrow> (n, 8 * length m))"

definition read_prefix :: "string \<Rightarrow> ipRange option" where
  "read_prefix line =
     (case Fields line of
        [prefix, num] \<Rightarrow>
          (case ParseCIDR prefix of
             None \<Rightarrow> None
           | Some cidr \<Rightarrow>
               (case To4 (net_IP cidr) of
                  None \<Rightarrow> None
                | Some v4 \<Rightarrow>
                    (case ParseUint32 num of
                       None \<Rightarrow> None
                     | Some asn \<Rightarrow>
                         (let start = get_u32 v4; (ones, bits) = mask_Size (net_Mask cidr)
                          in Some \<lparr>rg_start = start, rg_end = start + (push_bit (bits - ones) 1 - 1), rg_asn = asn\<rparr>))))
      | _ \<Rightarrow> None)"

definition readTable :: "string list \<Rightarrow> ipRange list" where
  "readTable ls = List.map_filter read_prefix ls"

text \<open>\<open>merge\<close>: the ranges written so far are kept newest first.\<close>

fun merge_into :: "ipRange list \<Rightarrow> ipRange \<Rightarrow> ipRange list" where
  "merge_into [] r = [r]"
| "merge_into (l # out) r =
     (if rg_asn l = rg_asn r \<and> rg_start r \<le> rg_end l + 1
      then (if rg_end r > rg_end l then l\<lparr>rg_end := rg_end r\<rparr> # out else l # out)
      else r # l # out)"

definition merge :: "ipRange list \<Rightarrow> ipRange list" where
  "merge ranges = rev (foldl merge_into [] ranges)"

definition write_range :: "ipRange \<Rightarrow> bytes" where
  "write_range r = put_u32 (rg_start r) @ put_u32 (rg_end r) @ put_u32 (rg_asn r)"

definition writeRanges :: "ipRange list \<Rightarrow> bytes" where
  "writeRanges ranges = concat (map write_range ranges)"

text \<open>
  The ranges that \<open>main\<close> writes. \<open>sort.Slice\<close> is not stable, so the order of ranges with the same start
  is an argument: any permutation of the table sorted by start.
\<close>

definition sorted_table :: "ipRange list \<Rightarrow> ipRange list \<Rightarrow> bool" where
  "sorted_table ranges table \<longleftrightarrow> sorted (map rg_start ranges) \<and> set ranges = set table"

text \<open>The description of one AS: \<open>last_index\<close> and \<open>cut_at\<close> are \<open>strings.LastIndex\<close> and \<open>strings.Cut\<close>.\<close>

fun cut_at :: "string \<Rightarrow> string \<Rightarrow> (string \<times> string) option" where
  "cut_at sep [] = (if sep = [] then Some ([], []) else None)"
| "cut_at sep (c # cs) =
     (if has_prefix (c # cs) sep then Some ([], drop (length sep) (c # cs))
      else map_option (\<lambda>(u, v). (c # u, v)) (cut_at sep cs))"

fun last_index :: "string \<Rightarrow> string \<Rightarrow> nat option" where
  "last_index sep [] = (if sep = [] then Some 0 else None)"
| "last_index sep (c # cs) =
     (case last_index sep cs of Some i \<Rightarrow> Some (Suc i) | None \<Rightarrow> if has_prefix (c # cs) sep then Some 0 else None)"

definition split_country :: "string \<Rightarrow> string \<times> string" where
  "split_country desc =
     (case last_index '', '' desc of
        Some i \<Rightarrow> if length desc - i = 4 then (take i desc, drop (i + 2) desc) else (desc, '''')
      | None \<Rightarrow> (desc, ''''))"

definition read_name :: "(u32 \<Rightarrow> bool) \<Rightarrow> string \<Rightarrow> (u32 \<times> string \<times> string) option" where
  "read_name used line =
     (case cut_at '' '' (trim_space line) of
        None \<Rightarrow> None
      | Some (num, desc) \<Rightarrow>
          (case ParseUint32 num of
             None \<Rightarrow> None
           | Some asn \<Rightarrow>
               if \<not> used asn then None
               else let (desc, country) = split_country (trim_space desc);
                        desc = (case cut_at '' - '' desc of Some (_, long) \<Rightarrow> long | None \<Rightarrow> desc)
                    in Some (asn, trim_space (take 60 desc), country)))"

definition readNames :: "(u32 \<Rightarrow> bool) \<Rightarrow> string list \<Rightarrow> u32 \<rightharpoonup> string \<times> string" where
  "readNames used ls = fold (\<lambda>line m. case read_name used line of None \<Rightarrow> m | Some (n, x) \<Rightarrow> m(n \<mapsto> x)) ls Map.empty"

definition name_line :: "u32 \<Rightarrow> string \<times> string \<Rightarrow> string" where
  "name_line a n = format_nat (unat a) @ CHR 0x09 # fst n @ CHR 0x09 # snd n"

section \<open>Manufacturers\<close>

definition oui_load :: "string list option \<Rightarrow> string \<rightharpoonup> string" where
  "oui_load ouiData =
     (case ouiData of
        None \<Rightarrow> Map.empty
      | Some ls \<Rightarrow> fold (\<lambda>line m. case cut (CHR 0x09) line of None \<Rightarrow> m | Some (p, n) \<Rightarrow> m(p \<mapsto> n)) ls Map.empty)"

definition ascii_upper :: "char \<Rightarrow> char" where
  "ascii_upper c = (let n = (of_char c :: nat) in if 97 \<le> n \<and> n \<le> 122 then char_of (n - 32) else c)"

definition oui_Lookup :: "(string \<rightharpoonup> string) \<Rightarrow> string \<Rightarrow> string" where
  "oui_Lookup table mac =
     (let hex = map ascii_upper (filter (\<lambda>c. c \<notin> {CHR '':'', CHR ''-'', CHR ''.''}) mac)
      in if length hex < 6 then ''''
         else if hex ! 1 \<in> {CHR ''2'', CHR ''6'', CHR ''A'', CHR ''E''} then ''''
         else case table (take 6 hex) of None \<Rightarrow> '''' | Some n \<Rightarrow> n)"

end
