(* ===== verification/Wlan_Sense.thy ===== *)
theory Wlan_Sense
  imports Wlan_Frames Asn
begin

text \<open>
  The maps a sweep fills from its frames (\<open>recordNetwork\<close>, \<open>processFrame\<close> of
  \<open>internal/probe/wlansense.go\<close>) and the parsers of the \<open>iw\<close> tool's output (\<open>wlansense.go\<close>,
  \<open>wifi.go\<close>). The records \<open>probe_WlanStation\<close> and \<open>probe_WlanNetwork\<close> are the types \<open>WlanStation\<close> and
  \<open>WlanNetwork\<close> of package \<open>probe\<close>.
\<close>

section \<open>Channels\<close>

definition channelAndBand :: "u32 \<Rightarrow> u32 \<times> string" where
  "channelAndBand freq =
     (if freq = 2484 then (14, ''2.4 GHz'')
      else if freq \<ge> 2412 \<and> freq \<le> 2472 then ((freq - 2407) div 5, ''2.4 GHz'')
      else if freq \<ge> 5160 \<and> freq \<le> 5885 then ((freq - 5000) div 5, ''5 GHz'')
      else if freq \<ge> 5955 \<and> freq \<le> 7115 then ((freq - 5950) div 5, ''6 GHz'')
      else (0, ''''))"

section \<open>The output of iw\<close>

text \<open>An output is the list of its lines.\<close>

definition cut_prefix :: "string \<Rightarrow> string \<Rightarrow> string option" where
  "cut_prefix p s = (if has_prefix s p then Some (drop (length p) s) else None)"

fun parsePhyName :: "string list \<Rightarrow> string" where
  "parsePhyName [] = ''''"
| "parsePhyName (l # ls) =
     (let line = trim_space l
      in case cut_prefix ''wiphy '' line of
           Some v \<Rightarrow> ''phy'' @ trim_space v
         | None \<Rightarrow> (case cut_prefix ''phy#'' line of Some v \<Rightarrow> ''phy'' @ trim_space v | None \<Rightarrow> parsePhyName ls))"

fun contains :: "string \<Rightarrow> string \<Rightarrow> bool" where
  "contains s sub = (has_prefix s sub \<or> (case s of [] \<Rightarrow> False | _ # cs \<Rightarrow> contains cs sub))"

text \<open>The field before the first \<open>MHz\<close> that is not the first field.\<close>

fun before_mhz :: "string list \<Rightarrow> string option" where
  "before_mhz (f # g # fs) = (if g = ''MHz'' then Some f else before_mhz (g # fs))"
| "before_mhz _ = None"

definition line_channel :: "string \<Rightarrow> u32 option" where
  "line_channel l =
     (let line = trim_space l
      in if \<not> contains line ''MHz ['' \<or> contains line ''disabled'' then None
         else case Option.bind (before_mhz (Fields line)) ParseUint32 of
                None \<Rightarrow> None
              | Some freq \<Rightarrow> (let ch = fst (channelAndBand freq) in if ch > 0 then Some ch else None))"

definition parseIWPhyChannels :: "string list \<Rightarrow> u32 list" where
  "parseIWPhyChannels ls =
     (let channels = rev (remdups (rev (List.map_filter line_channel ls)))
      in filter (\<lambda>ch. ch \<le> 14) channels @ filter (\<lambda>ch. \<not> ch \<le> 14) channels)"

record WirelessInterface =
  wi_Name :: string
  wi_PHY :: string
  wi_SupportsMonitor :: bool

record iwdev =
  iw_ifaces :: "WirelessInterface list"
  iw_phy :: string
  iw_cur :: "WirelessInterface option"
  iw_monitor :: "string list"

definition iw_flush :: "iwdev \<Rightarrow> iwdev" where
  "iw_flush st =
     (case iw_cur st of
        None \<Rightarrow> st
      | Some c \<Rightarrow>
          st\<lparr>iw_ifaces := iw_ifaces st @ [if wi_PHY c \<in> set (iw_monitor st) then c\<lparr>wi_SupportsMonitor := True\<rparr> else c],
             iw_cur := None\<rparr>)"

definition iw_line :: "string \<Rightarrow> iwdev \<Rightarrow> iwdev" where
  "iw_line l st =
     (let line = trim_space l
      in if has_prefix line ''phy#'' then st\<lparr>iw_phy := ''phy'' @ drop 4 line\<rparr>
         else if has_prefix line ''Interface '' then
           (iw_flush st)\<lparr>iw_cur := Some \<lparr>wi_Name = drop 10 line, wi_PHY = iw_phy st, wi_SupportsMonitor = False\<rparr>\<rparr>
         else case iw_cur st of
                None \<Rightarrow> st
              | Some c \<Rightarrow>
                  if has_prefix line ''type '' \<and> drop 5 line = ''monitor''
                  then st\<lparr>iw_cur := Some (c\<lparr>wi_SupportsMonitor := True\<rparr>), iw_monitor := iw_phy st # iw_monitor st\<rparr>
                  else st)"

definition parseIWDev :: "string list \<Rightarrow> WirelessInterface list" where
  "parseIWDev ls = iw_ifaces (iw_flush (fold iw_line ls \<lparr>iw_ifaces = [], iw_phy = '''', iw_cur = None, iw_monitor = []\<rparr>))"

fun phy_modes :: "bool \<Rightarrow> string list \<Rightarrow> bool" where
  "phy_modes inModes [] = False"
| "phy_modes inModes (l # ls) =
     (let line = trim_space l
      in if has_prefix line ''Supported interface modes:'' then phy_modes True ls
         else if \<not> inModes then phy_modes False ls
         else if \<not> has_prefix line ''*'' then False
         else if trim_space (drop 1 line) = ''monitor'' then True else phy_modes True ls)"

definition phyInfoSupportsMonitor :: "string list \<Rightarrow> bool" where
  "phyInfoSupportsMonitor ls = phy_modes False ls"

definition deriveSecurity :: "bool \<Rightarrow> bool \<Rightarrow> bool \<Rightarrow> bool \<Rightarrow> string" where
  "deriveSecurity rsn wpa sae privacy =
     (if rsn \<and> sae then ''WPA3'' else if rsn then ''WPA2'' else if wpa then ''WPA'' else if privacy then ''WEP'' else ''Open'')"

section \<open>Addresses\<close>

definition isUnicastMAC :: "string \<Rightarrow> bool" where
  "isUnicastMAC mac =
     (if length mac < 2 \<or> mac = ''00:00:00:00:00:00'' then False
      else case (hex_digit (mac ! 0), hex_digit (mac ! 1)) of
             (Some _, Some lo) \<Rightarrow> even lo
           | _ \<Rightarrow> False)"

section \<open>Networks\<close>

record probe_WlanNetwork =
  pn_BSSID :: string
  pn_SSID :: string
  pn_Channel :: u32
  pn_FreqMHz :: u32
  pn_RSSIdBm :: int
  pn_Beacons :: u32
  pn_Security :: string
  pn_Standards :: string
  pn_WidthMHz :: u32
  pn_BeaconIntervalTU :: u32
  pn_Country :: string
  pn_LoadPresent :: bool
  pn_LoadStations :: u32
  pn_LoadChannelUtilPct :: float64
  pn_SecurityDetail :: string
  pn_Roaming :: string
  pn_MFP :: string
  pn_GroupCipher :: string
  pn_DTIMPeriod :: u32
  pn_WPS :: bool
  pn_Streams :: u32
  pn_MaxRateMbps :: float64
  pn_LastSeenMs :: int

definition new_network :: "string \<Rightarrow> int \<Rightarrow> probe_WlanNetwork" where
  "new_network bssid rssi = \<lparr>pn_BSSID = bssid, pn_SSID = '''', pn_Channel = 0, pn_FreqMHz = 0, pn_RSSIdBm = rssi, pn_Beacons = 0,
     pn_Security = '''', pn_Standards = '''', pn_WidthMHz = 0, pn_BeaconIntervalTU = 0, pn_Country = '''', pn_LoadPresent = False,
     pn_LoadStations = 0, pn_LoadChannelUtilPct = 0, pn_SecurityDetail = '''', pn_Roaming = '''', pn_MFP = '''',
     pn_GroupCipher = '''', pn_DTIMPeriod = 0, pn_WPS = False, pn_Streams = 0, pn_MaxRateMbps = 0, pn_LastSeenMs = 0\<rparr>"

definition keep_str :: "string \<Rightarrow> string \<Rightarrow> string" where
  "keep_str new old = (if new \<noteq> '''' then new else old)"

definition merge_info :: "beaconInfo \<Rightarrow> int \<Rightarrow> int \<Rightarrow> probe_WlanNetwork \<Rightarrow> probe_WlanNetwork" where
  "merge_info info rssi nowMs n =
     n\<lparr>pn_SSID := keep_str (bi_SSID info) (pn_SSID n),
       pn_Security := keep_str (bi_Security info) (pn_Security n),
       pn_Standards := keep_str (bi_Standards info) (pn_Standards n),
       pn_WidthMHz := (if bi_WidthMHz info > pn_WidthMHz n then bi_WidthMHz info else pn_WidthMHz n),
       pn_BeaconIntervalTU := (if bi_BeaconIntervalTU info > 0 then bi_BeaconIntervalTU info else pn_BeaconIntervalTU n),
       pn_Country := keep_str (bi_Country info) (pn_Country n),
       pn_LoadPresent := (bi_LoadPresent info \<or> pn_LoadPresent n),
       pn_LoadStations := (if bi_LoadPresent info then bi_LoadStations info else pn_LoadStations n),
       pn_LoadChannelUtilPct := (if bi_LoadPresent info then bi_LoadChannelUtilPct info else pn_LoadChannelUtilPct n),
       pn_SecurityDetail := keep_str (bi_SecurityDetail info) (pn_SecurityDetail n),
       pn_Roaming := keep_str (bi_Roaming info) (pn_Roaming n),
       pn_MFP := keep_str (bi_MFP info) (pn_MFP n),
       pn_GroupCipher := keep_str (bi_GroupCipher info) (pn_GroupCipher n),
       pn_DTIMPeriod := (if bi_DTIMPeriod info > 0 then bi_DTIMPeriod info else pn_DTIMPeriod n),
       pn_WPS := (bi_WPS info \<or> pn_WPS n),
       pn_Streams := (if bi_Streams info > pn_Streams n then bi_Streams info else pn_Streams n),
       pn_MaxRateMbps := (if bi_MaxRateMbps info > pn_MaxRateMbps n then bi_MaxRateMbps info else pn_MaxRateMbps n),
       pn_RSSIdBm := (if rssi > pn_RSSIdBm n then rssi else pn_RSSIdBm n),
       pn_LastSeenMs := nowMs, pn_Beacons := pn_Beacons n + 1\<rparr>"

type_synonym networks = "string \<rightharpoonup> probe_WlanNetwork"

definition recordNetwork :: "string \<Rightarrow> beaconInfo \<Rightarrow> int \<Rightarrow> int \<Rightarrow> networks \<Rightarrow> networks" where
  "recordNetwork bssid info rssi nowMs nets =
     (if \<not> isUnicastMAC bssid then nets
      else let n = (case nets bssid of None \<Rightarrow> new_network bssid rssi | Some n \<Rightarrow> n)
           in nets(bssid \<mapsto> merge_info info rssi nowMs n))"

section \<open>Stations\<close>

record probe_WlanStation =
  ps_MAC :: string
  ps_BSSID :: string
  ps_SSID :: string
  ps_RSSIdBm :: int
  ps_RSSIAvgdBm :: int
  ps_RateMbps :: float64
  ps_MCS :: int
  ps_Frames :: u32
  ps_ProbeOnly :: bool
  ps_LastSeenMs :: int

type_synonym stations = "string \<rightharpoonup> probe_WlanStation"

text \<open>
  What \<open>processFrame\<close> reads of a decoded frame: the radiotap values (bad checksum, signal, rate in half
  megabits, MCS if known), the frame type, the direction flags, the three addresses (\<open>None\<close> when the
  field has no bytes) and the body. A frame in which gopacket finds no radiotap or no 802.11 layer is of
  \<open>OtherType\<close>: \<open>processFrame\<close> returns without a change.
\<close>

datatype frame_type = MgmtBeacon | MgmtProbeResp | MgmtProbeReq | Data | OtherType

record radiotap =
  rt_BadFCS :: bool
  rt_DBMAntennaSignal :: int
  rt_Rate :: u8
  rt_MCS :: "u8 option"

record packet =
  pk_RadioTap :: "radiotap list"
  pk_Type :: frame_type
  pk_ToDS :: bool
  pk_FromDS :: bool
  pk_Address1 :: "string option"
  pk_Address2 :: "string option"
  pk_Address3 :: "string option"
  pk_Payload :: bytes

text \<open>\<open>HardwareAddr.String\<close> of an empty address is the empty string.\<close>

definition addr_string :: "string option \<Rightarrow> string" where
  "addr_string x = (case x of None \<Rightarrow> '''' | Some s \<Rightarrow> s)"

definition pkt_rssi :: "radiotap list \<Rightarrow> int" where
  "pkt_rssi rts = fold (\<lambda>rt rssi. if rssi = -50 \<and> rt_DBMAntennaSignal rt \<noteq> 0 then rt_DBMAntennaSignal rt else rssi) rts (-50)"

definition pkt_rate :: "radiotap list \<Rightarrow> float64" where
  "pkt_rate rts = fold (\<lambda>rt r. if rt_Rate rt \<noteq> 0 then of_nat (unat (rt_Rate rt)) * 0.5 else r) rts 0"

definition pkt_mcs :: "radiotap list \<Rightarrow> int" where
  "pkt_mcs rts = fold (\<lambda>rt m. case rt_MCS rt of None \<Rightarrow> m | Some x \<Rightarrow> uint x) rts (-1)"

text \<open>The station and the access point of a data frame.\<close>

definition data_addresses :: "packet \<Rightarrow> string \<times> string" where
  "data_addresses p =
     (let a1 = addr_string (pk_Address1 p); a2 = addr_string (pk_Address2 p); a3 = addr_string (pk_Address3 p)
      in if pk_ToDS p \<and> \<not> pk_FromDS p then (a2, a1)
         else if \<not> pk_ToDS p \<and> pk_FromDS p then (a1, a2)
         else if pk_ToDS p \<and> pk_FromDS p then (a2, a1)
         else (a2, a3))"

definition probe_request :: "packet \<Rightarrow> int \<Rightarrow> stations \<Rightarrow> stations" where
  "probe_request p nowMs sts =
     (let mac = addr_string (pk_Address2 p)
      in if \<not> isUnicastMAC mac then sts
         else case sts mac of
                Some _ \<Rightarrow> sts
              | None \<Rightarrow> sts(mac \<mapsto> \<lparr>ps_MAC = mac, ps_BSSID = '''', ps_SSID = '''', ps_RSSIdBm = pkt_rssi (pk_RadioTap p),
                  ps_RSSIAvgdBm = 0, ps_RateMbps = 0, ps_MCS = 0, ps_Frames = 0, ps_ProbeOnly = True, ps_LastSeenMs = nowMs\<rparr>))"

definition data_frame :: "packet \<Rightarrow> int \<Rightarrow> stations \<Rightarrow> stations" where
  "data_frame p nowMs sts =
     (if pk_Address1 p = None \<or> pk_Address2 p = None \<or> pk_Address3 p = None then sts
      else let (mac, bssid) = data_addresses p; rssi = pkt_rssi (pk_RadioTap p); rate = pkt_rate (pk_RadioTap p);
               mcs = pkt_mcs (pk_RadioTap p)
           in if \<not> isUnicastMAC mac then sts
              else case sts mac of
                None \<Rightarrow> sts(mac \<mapsto> \<lparr>ps_MAC = mac, ps_BSSID = bssid, ps_SSID = '''', ps_RSSIdBm = rssi, ps_RSSIAvgdBm = 0,
                  ps_RateMbps = rate, ps_MCS = mcs, ps_Frames = 1, ps_ProbeOnly = False, ps_LastSeenMs = nowMs\<rparr>)
              | Some s \<Rightarrow> sts(mac \<mapsto> s\<lparr>ps_RSSIdBm := (if ps_RSSIdBm s < rssi then rssi else ps_RSSIdBm s),
                  ps_RateMbps := (if rate > 0 then rate else ps_RateMbps s), ps_MCS := (if mcs \<ge> 0 then mcs else ps_MCS s),
                  ps_Frames := ps_Frames s + 1, ps_LastSeenMs := nowMs\<rparr>))"

definition processFrame :: "packet \<Rightarrow> int \<Rightarrow> stations \<times> networks \<Rightarrow> (stations \<times> networks) option" where
  "processFrame p nowMs maps =
     (if list_ex rt_BadFCS (pk_RadioTap p) then Some maps
      else case pk_Type p of
        MgmtBeacon \<Rightarrow> do { info \<leftarrow> parseBeaconBody (pk_Payload p);
          Some (fst maps, recordNetwork (addr_string (pk_Address3 p)) info (pkt_rssi (pk_RadioTap p)) nowMs (snd maps)) }
      | MgmtProbeResp \<Rightarrow> do { info \<leftarrow> parseBeaconBody (pk_Payload p);
          Some (fst maps, recordNetwork (addr_string (pk_Address3 p)) info (pkt_rssi (pk_RadioTap p)) nowMs (snd maps)) }
      | MgmtProbeReq \<Rightarrow> Some (probe_request p nowMs (fst maps), snd maps)
      | Data \<Rightarrow> Some (data_frame p nowMs (fst maps), snd maps)
      | OtherType \<Rightarrow> Some maps)"

end
