(* ===== verification/Agent_Wlan.thy ===== *)
theory Agent_Wlan
  imports Wlan_Sense Wire "HOL-Library.AList"
begin

text \<open>
  What an agent keeps between passive sweeps (\<open>internal/agent/scheduler.go\<close>): \<open>mergeWlanRetained\<close> with
  its helpers, the channels worth watching, and \<open>runWlanPassive\<close>. A retained map is an association list
  with distinct keys; the order in which Go walks a map is arbitrary and every list built from a walk is
  sorted before it is used. The outcome of a probe is an argument.
\<close>

section \<open>Events\<close>

record probe_WlanRoamEvent =
  pe_ClientMAC :: string
  pe_SSID :: string
  pe_FromBSSID :: string
  pe_ToBSSID :: string
  pe_FromChannel :: u32
  pe_ToChannel :: u32
  pe_FromRSSIdBm :: int
  pe_ToRSSIdBm :: int
  pe_RoamTimeMs :: float64
  pe_DetectedAtMs :: int

type_synonym 'r sightings = "(string \<times> 'r) list"

record wlanPassiveState =
  ws_InterestingChannels :: "u32 list"
  ws_LastFullSweep :: go_time
  ws_Networks :: "probe_WlanNetwork sightings"
  ws_Stations :: "probe_WlanStation sightings"

definition new_state :: wlanPassiveState where
  "new_state = \<lparr>ws_InterestingChannels = [], ws_LastFullSweep = 0, ws_Networks = [], ws_Stations = []\<rparr>"

definition wlanRetention :: go_time where
  "wlanRetention = 10 * minute"

definition UnixMilli :: "go_time \<Rightarrow> int" where
  "UnixMilli t = t div 1000000"

section \<open>Retention\<close>

definition stamp_network :: "int \<Rightarrow> probe_WlanNetwork \<Rightarrow> probe_WlanNetwork" where
  "stamp_network nowMs n = (if pn_LastSeenMs n = 0 then n\<lparr>pn_LastSeenMs := nowMs\<rparr> else n)"

definition stamp_station :: "int \<Rightarrow> probe_WlanStation \<Rightarrow> probe_WlanStation" where
  "stamp_station nowMs s = (if ps_LastSeenMs s = 0 then s\<lparr>ps_LastSeenMs := nowMs\<rparr> else s)"

definition sight :: "('r \<Rightarrow> string) \<Rightarrow> 'r \<Rightarrow> 'r sightings \<Rightarrow> 'r sightings" where
  "sight key r m = AList.update (key r) r m"

definition keep_fresh :: "('r \<Rightarrow> int) \<Rightarrow> int \<Rightarrow> 'r sightings \<Rightarrow> 'r sightings" where
  "keep_fresh seen cutoff m = filter (\<lambda>(_, r). \<not> seen r < cutoff) m"

text \<open>A missing network reads as the zero value.\<close>

definition channelOf :: "probe_WlanNetwork sightings \<Rightarrow> string \<Rightarrow> u32" where
  "channelOf nets bssid = (case map_of nets bssid of None \<Rightarrow> 0 | Some n \<Rightarrow> pn_Channel n)"

definition ssidFor :: "probe_WlanStation \<Rightarrow> probe_WlanNetwork sightings \<Rightarrow> string" where
  "ssidFor s nets =
     (if ps_SSID s \<noteq> '''' then ps_SSID s
      else case map_of nets (ps_BSSID s) of None \<Rightarrow> '''' | Some n \<Rightarrow> pn_SSID n)"

definition roamEvent ::
  "string \<Rightarrow> string \<Rightarrow> probe_WlanStation \<Rightarrow> probe_WlanStation \<Rightarrow> (string \<Rightarrow> u32) \<Rightarrow> probe_WlanRoamEvent" where
  "roamEvent mac ssid old next channel =
     (let roamMs = ps_LastSeenMs next - ps_LastSeenMs old
      in \<lparr>pe_ClientMAC = mac, pe_SSID = ssid, pe_FromBSSID = ps_BSSID old, pe_ToBSSID = ps_BSSID next,
          pe_FromChannel = channel (ps_BSSID old), pe_ToChannel = channel (ps_BSSID next),
          pe_FromRSSIdBm = ps_RSSIdBm old, pe_ToRSSIdBm = ps_RSSIdBm next,
          pe_RoamTimeMs = of_int (if roamMs < 0 then 0 else roamMs), pe_DetectedAtMs = ps_LastSeenMs next\<rparr>)"

definition roamed :: "probe_WlanStation option \<Rightarrow> probe_WlanStation \<Rightarrow> bool" where
  "roamed old s =
     (case old of None \<Rightarrow> False | Some o' \<Rightarrow> ps_BSSID o' \<noteq> '''' \<and> ps_BSSID s \<noteq> '''' \<and> ps_BSSID o' \<noteq> ps_BSSID s)"

definition merge_station ::
  "probe_WlanNetwork sightings \<Rightarrow> int \<Rightarrow> probe_WlanStation
   \<Rightarrow> probe_WlanStation sightings \<times> probe_WlanRoamEvent list \<Rightarrow> probe_WlanStation sightings \<times> probe_WlanRoamEvent list" where
  "merge_station nets nowMs s0 acc =
     (let s = stamp_station nowMs s0; stas = fst acc; old = map_of stas (ps_MAC s);
          roams = (if roamed old s then snd acc @ [roamEvent (ps_MAC s) (ssidFor s nets) (the old) s (channelOf nets)] else snd acc)
      in (sight ps_MAC s stas, roams))"

definition disconnect :: "probe_WlanNetwork sightings \<Rightarrow> int \<Rightarrow> string \<times> probe_WlanStation \<Rightarrow> probe_WlanRoamEvent" where
  "disconnect nets nowMs ks =
     (let s = snd ks
      in \<lparr>pe_ClientMAC = fst ks, pe_SSID = ssidFor s nets, pe_FromBSSID = ps_BSSID s, pe_ToBSSID = '''',
          pe_FromChannel = channelOf nets (ps_BSSID s), pe_ToChannel = 0, pe_FromRSSIdBm = ps_RSSIdBm s,
          pe_ToRSSIdBm = 0, pe_RoamTimeMs = 0, pe_DetectedAtMs = nowMs\<rparr>)"

definition mergeWlanRetained ::
  "wlanPassiveState \<Rightarrow> probe_WlanNetwork list \<Rightarrow> probe_WlanStation list \<Rightarrow> go_time
   \<Rightarrow> wlanPassiveState \<times> probe_WlanNetwork list \<times> probe_WlanStation list \<times> probe_WlanRoamEvent list" where
  "mergeWlanRetained state networks stations now =
     (let nowMs = UnixMilli now; cutoff = UnixMilli (now - wlanRetention);
          nets = fold (\<lambda>n. sight pn_BSSID (stamp_network nowMs n)) networks (ws_Networks state);
          (stas, roams) = fold (merge_station nets nowMs) stations (ws_Stations state, []);
          nets' = keep_fresh pn_LastSeenMs cutoff nets;
          stas' = keep_fresh ps_LastSeenMs cutoff stas;
          gone = filter (\<lambda>(_, s). ps_LastSeenMs s < cutoff \<and> ps_BSSID s \<noteq> '''') stas
      in (state\<lparr>ws_Networks := nets', ws_Stations := stas'\<rparr>,
          sort_key pn_BSSID (map snd nets'), sort_key ps_MAC (map snd stas'),
          sort_key pe_DetectedAtMs (roams @ map (disconnect nets' nowMs) gone)))"

definition extractInterestingChannels :: "probe_WlanNetwork list \<Rightarrow> probe_WlanStation list \<Rightarrow> u32 list" where
  "extractInterestingChannels networks stations = sort (remdups (filter (\<lambda>ch. ch > 0) (map pn_Channel networks)))"

section \<open>Results\<close>

record SenseResult =
  sn_Interface :: string
  sn_Stations :: "probe_WlanStation list"
  sn_Channels :: "WlanChannelStat list"
  sn_Networks :: "probe_WlanNetwork list"
  sn_SweepMs :: u32

definition pb_station :: "probe_WlanStation \<Rightarrow> WlanStation" where
  "pb_station s = \<lparr>st_MAC = ps_MAC s, st_BSSID = ps_BSSID s, st_SSID = ps_SSID s, st_RSSIdBm = ps_RSSIdBm s,
     st_RSSIAvgdBm = ps_RSSIAvgdBm s, st_RateMbps = ps_RateMbps s, st_MCS = ps_MCS s, st_Frames = ps_Frames s,
     st_ProbeOnly = ps_ProbeOnly s, st_LastSeenMs = ps_LastSeenMs s\<rparr>"

definition pb_network :: "probe_WlanNetwork \<Rightarrow> WlanNetwork" where
  "pb_network n = \<lparr>nw_BSSID = pn_BSSID n, nw_SSID = pn_SSID n, nw_Channel = pn_Channel n, nw_FreqMHz = pn_FreqMHz n,
     nw_RSSIdBm = pn_RSSIdBm n, nw_Beacons = pn_Beacons n, nw_Security = pn_Security n, nw_Standards = pn_Standards n,
     nw_WidthMHz = pn_WidthMHz n, nw_BeaconIntervalTU = pn_BeaconIntervalTU n, nw_Country = pn_Country n,
     nw_LoadPresent = pn_LoadPresent n, nw_LoadStations = pn_LoadStations n,
     nw_LoadChannelUtilPct = pn_LoadChannelUtilPct n, nw_SecurityDetail = pn_SecurityDetail n, nw_Roaming = pn_Roaming n,
     nw_MFP = pn_MFP n, nw_GroupCipher = pn_GroupCipher n, nw_DTIMPeriod = pn_DTIMPeriod n, nw_WPS = pn_WPS n,
     nw_Streams = pn_Streams n, nw_MaxRateMbps = pn_MaxRateMbps n, nw_LastSeenMs = pn_LastSeenMs n\<rparr>"

definition pb_roam :: "probe_WlanRoamEvent \<Rightarrow> WlanRoamEvent" where
  "pb_roam e = \<lparr>ro_ClientMAC = pe_ClientMAC e, ro_SSID = pe_SSID e, ro_FromBSSID = pe_FromBSSID e, ro_ToBSSID = pe_ToBSSID e,
     ro_FromChannel = pe_FromChannel e, ro_ToChannel = pe_ToChannel e, ro_FromRSSIdBm = pe_FromRSSIdBm e,
     ro_ToRSSIdBm = pe_ToRSSIdBm e, ro_RoamTimeMs = pe_RoamTimeMs e, ro_DetectedAtMs = pe_DetectedAtMs e\<rparr>"

definition wlanPassiveResult ::
  "bool \<Rightarrow> SenseResult \<Rightarrow> probe_WlanStation list \<Rightarrow> probe_WlanNetwork list \<Rightarrow> probe_WlanRoamEvent list \<Rightarrow> WlanPassiveResult" where
  "wlanPassiveResult demo sweep stations networks roams =
     \<lparr>wp_Interface = sn_Interface sweep, wp_Demo = demo, wp_Stations = map pb_station stations,
      wp_Channels = sn_Channels sweep, wp_SweepMs = sn_SweepMs sweep, wp_Networks = map pb_network networks,
      wp_RoamEvents = map pb_roam roams\<rparr>"

definition empty_passive :: "string \<Rightarrow> WlanPassiveResult" where
  "empty_passive iface = \<lparr>wp_Interface = iface, wp_Demo = False, wp_Stations = [], wp_Channels = [], wp_SweepMs = 0,
     wp_Networks = [], wp_RoamEvents = []\<rparr>"

text \<open>
  How a probe ends for its caller: its context was cancelled meanwhile, it failed with an error, or it
  gave a result.
\<close>

datatype 'r outcome = Cancelled | Failed string | Finished 'r

definition newResult :: "go_time \<Rightarrow> pb_TestSpec \<Rightarrow> TestResult" where
  "newResult now spec = \<lparr>rs_Time = Some now, rs_Error = '''', rs_TestId = ts_Id spec, rs_TestName = ts_Name spec,
     rs_Result = TestResult_None\<rparr>"

text \<open>\<open>%q\<close> of an interface name: quotes and backslashes are escaped.\<close>

definition quoted :: "string \<Rightarrow> string" where
  "quoted s = CHR 0x22 # concat (map (\<lambda>c. if c = CHR 0x22 \<or> c = CHR 0x5C then [CHR 0x5C, c] else [c]) s) @ [CHR 0x22]"

text \<open>The interface of a sweep: the override if it can be used, else the first that can monitor.\<close>

definition sweep_interface :: "string \<Rightarrow> WirelessInterface list \<Rightarrow> bool \<Rightarrow> string + string" where
  "sweep_interface override detected demo =
     (let chosen =
        (if override = '''' then
           Inr (case find wi_SupportsMonitor detected of None \<Rightarrow> '''' | Some d \<Rightarrow> wi_Name d)
         else if detected = [] then Inr override
         else case find (\<lambda>d. wi_Name d = override) detected of
                None \<Rightarrow> Inl (''interface '' @ quoted override @ '' not found'')
              | Some d \<Rightarrow> (if wi_SupportsMonitor d then Inr override
                           else Inl (''interface '' @ quoted override @ '' is not monitor-capable'')))
      in case chosen of
           Inl e \<Rightarrow> Inl e
         | Inr iface \<Rightarrow> (if iface = '''' \<and> \<not> demo then Inl ''no monitor-capable wireless interface available'' else Inr iface))"

definition full_sweep :: "wlanPassiveState option \<Rightarrow> go_time \<Rightarrow> bool" where
  "full_sweep state now =
     (case state of None \<Rightarrow> True
      | Some st \<Rightarrow> ws_InterestingChannels st = [] \<or> now - ws_LastFullSweep st \<ge> wlanRetention)"

text \<open>
  One run at \<open>now\<close> whose sweep ends at \<open>later\<close>. The empty channel list stands for the whole spectrum. The
  result is \<open>None\<close> when the run was abandoned.
\<close>

definition passive_result :: "go_time \<Rightarrow> pb_TestSpec \<Rightarrow> string \<Rightarrow> WlanPassiveResult \<Rightarrow> TestResult" where
  "passive_result now spec err r = (newResult now spec)\<lparr>rs_Error := err, rs_Result := TestResult_WlanPassive r\<rparr>"

definition runWlanPassive ::
  "string \<Rightarrow> WirelessInterface list \<Rightarrow> bool \<Rightarrow> (string \<Rightarrow> u32 list \<Rightarrow> SenseResult outcome) \<Rightarrow> go_time \<Rightarrow> go_time
   \<Rightarrow> pb_TestSpec \<Rightarrow> (string \<rightharpoonup> wlanPassiveState) \<Rightarrow> TestResult list \<times> (string \<rightharpoonup> wlanPassiveState)" where
  "runWlanPassive override detected demo sense now later spec states =
     (case sweep_interface override detected demo of
        Inl e \<Rightarrow> ([passive_result now spec e (empty_passive '''')], states)
      | Inr iface \<Rightarrow>
          (let old = states (ts_Id spec); full = full_sweep old now;
               channels = (if full then [] else ws_InterestingChannels (the old))
           in case sense iface channels of
                Cancelled \<Rightarrow> ([], states)
              | Failed e \<Rightarrow> ([passive_result now spec e (empty_passive iface)], states)
              | Finished sweep \<Rightarrow>
                  (let state = (case old of None \<Rightarrow> new_state | Some st \<Rightarrow> st);
                       state = (if full then state\<lparr>ws_LastFullSweep := later\<rparr> else state);
                       (state, networks, stations, roams) = mergeWlanRetained state (sn_Networks sweep) (sn_Stations sweep) later;
                       interesting = extractInterestingChannels networks stations;
                       interesting = (if interesting = [] \<and> ws_InterestingChannels state \<noteq> []
                                      then ws_InterestingChannels state else interesting);
                       state = state\<lparr>ws_InterestingChannels := interesting\<rparr>
                   in ([passive_result now spec '''' (wlanPassiveResult demo sweep stations networks roams)],
                       states(ts_Id spec \<mapsto> state)))))"

end
