(* ===== verification/Agent_Run.thy ===== *)
theory Agent_Run
  imports Agent_Wlan
begin

text \<open>
  How an agent runs the tests it was given (\<open>internal/agent/scheduler.go\<close>): the functions that turn what
  a probe measured into results, the loop that reacts to configurations and commands, and the ticker of a
  test. What the probes measure, the clock and whether the context of a run is still alive are arguments,
  indexed by the position of the call in its loop.
\<close>

section \<open>What the probes return\<close>

record probe_SpeedtestResult =
  sp_ServerName :: string
  sp_ServerCountry :: string
  sp_LatencyMs :: float64
  sp_DownloadMbps :: float64
  sp_UploadMbps :: float64
  sp_UserIP :: string
  sp_UserISP :: string

record probe_PingResult =
  pp_Target :: string
  pp_PacketsSent :: int
  pp_PacketsReceived :: int
  pp_LossPercent :: float64
  pp_MinRttMs :: float64
  pp_AvgRttMs :: float64
  pp_MaxRttMs :: float64

record probe_HTTPResult =
  hr_URL :: string
  hr_StatusCode :: int
  hr_DNSMs :: float64
  hr_ConnectMs :: float64
  hr_TLSMs :: float64
  hr_TTFBMs :: float64
  hr_TotalMs :: float64
  hr_CertExpiryDays :: float64
  hr_ServerIP :: string

record probe_Hop =
  ph_TTL :: u32
  ph_Host :: string
  ph_HostName :: string
  ph_LossPercent :: float64
  ph_AvgRttMs :: float64
  ph_BestRttMs :: float64
  ph_WorstRttMs :: float64
  ph_JitterMs :: float64
  ph_Sent :: u32

record probe_TracerouteResult =
  pt_Target :: string
  pt_TargetIP :: string
  pt_Reached :: bool
  pt_Status :: string
  pt_FailureHop :: u32
  pt_RttMs :: float64
  pt_Demo :: bool
  pt_Hops :: "probe_Hop list"
  pt_DestinationState :: string
  pt_Engine :: string

record WlanActiveOpts =
  wo_SSID :: string
  wo_Security :: string
  wo_Password :: string
  wo_Identity :: string
  wo_CACertPEM :: string
  wo_InsecureSkipVerify :: bool
  wo_ThroughputURL :: string
  wo_MACMode :: string

record WlanActiveOutcome =
  wc_Interface :: string
  wc_SSID :: string
  wc_BSSID :: string
  wc_Success :: bool
  wc_FailedStep :: string
  wc_ScanMs :: float64
  wc_AssociateMs :: float64
  wc_AuthenticateMs :: float64
  wc_DHCPMs :: float64
  wc_IP :: string
  wc_Netmask :: string
  wc_Gateway :: string
  wc_DNSServers :: "string list"
  wc_ThroughputMbps :: float64
  wc_ThroughputMs :: float64
  wc_RSSIdBm :: int
  wc_NoiseDBm :: int
  wc_SNRdB :: float64
  wc_TxRetryPct :: float64
  wc_TxPackets :: u32
  wc_TxRetries :: u32
  wc_MAC :: string
  wc_GatewayPingLossPct :: float64
  wc_GatewayPingRttMs :: float64
  wc_TotalMs :: float64

text \<open>The providers of a speed test; an unknown name falls back to Ookla.\<close>

datatype speedtest_provider = Ookla | NDT7 | Cloudflare

definition speedtestProviders :: "(string \<times> speedtest_provider) list" where
  "speedtestProviders = [('''', Ookla), (''ookla'', Ookla), (''ndt7'', NDT7), (''cloudflare'', Cloudflare)]"

text \<open>
  The probes of one run. A DNS query gives nothing only when the run was abandoned; a TCP connect gives
  its result with or without an error, or nothing when the run was abandoned.
\<close>

record probes =
  pr_now :: "nat \<Rightarrow> go_time"
  pr_alive :: "nat \<Rightarrow> bool"
  pr_demo :: bool
  pr_detected :: "WirelessInterface list"
  pr_Speedtest :: "speedtest_provider \<Rightarrow> probe_SpeedtestResult outcome"
  pr_Ping :: "nat \<Rightarrow> string \<Rightarrow> int \<Rightarrow> probe_PingResult outcome"
  pr_DNSQuery :: "nat \<Rightarrow> string \<Rightarrow> string \<Rightarrow> DnsResult option"
  pr_HTTPCheck :: "nat \<Rightarrow> string \<Rightarrow> u32 \<Rightarrow> bool \<Rightarrow> probe_HTTPResult outcome"
  pr_TCPConnect :: "nat \<Rightarrow> string \<Rightarrow> u32 \<Rightarrow> (TcpResult \<times> string option) option"
  pr_Sense :: "string \<Rightarrow> u32 list \<Rightarrow> SenseResult outcome"
  pr_WlanActive :: "string \<Rightarrow> WlanActiveOpts \<Rightarrow> WlanActiveOutcome outcome"
  pr_RunClient :: "string \<Rightarrow> u32 \<Rightarrow> PerfmonClientResult outcome"
  pr_Traceroute :: "string \<Rightarrow> string \<Rightarrow> u32 \<Rightarrow> u32 \<Rightarrow> u32 \<Rightarrow> u16 \<Rightarrow> probe_TracerouteResult outcome"

section \<open>Runs\<close>

definition with_result :: "string \<Rightarrow> TestResult_Result \<Rightarrow> TestResult \<Rightarrow> TestResult" where
  "with_result err x r = r\<lparr>rs_Error := err, rs_Result := x\<rparr>"

definition runSpeedtest :: "probes \<Rightarrow> pb_TestSpec \<Rightarrow> string \<Rightarrow> TestResult list" where
  "runSpeedtest p spec provider =
     (let runner = (case map_of speedtestProviders provider of None \<Rightarrow> Ookla | Some r \<Rightarrow> r);
          reported = (if provider = '''' then ''ookla'' else provider)
      in case pr_Speedtest p runner of
           Cancelled \<Rightarrow> []
         | Failed e \<Rightarrow>
             [with_result e (TestResult_Speedtest \<lparr>sr_ServerName = '''', sr_ServerCountry = '''', sr_LatencyMs = 0,
                sr_DownloadMbps = 0, sr_UploadMbps = 0, sr_UserIp = '''', sr_UserIsp = '''', sr_Provider = reported\<rparr>)
                (newResult (pr_now p 0) spec)]
         | Finished r \<Rightarrow>
             [with_result '''' (TestResult_Speedtest \<lparr>sr_ServerName = sp_ServerName r, sr_ServerCountry = sp_ServerCountry r,
                sr_LatencyMs = sp_LatencyMs r, sr_DownloadMbps = sp_DownloadMbps r, sr_UploadMbps = sp_UploadMbps r,
                sr_UserIp = sp_UserIP r, sr_UserIsp = sp_UserISP r, sr_Provider = reported\<rparr>) (newResult (pr_now p 0) spec)])"

definition empty_ping :: "string \<Rightarrow> PingResult" where
  "empty_ping target = \<lparr>pi_Target = target, pi_PacketsSent = 0, pi_PacketsReceived = 0, pi_LossPercent = 0, pi_MinRttMs = 0,
     pi_AvgRttMs = 0, pi_MaxRttMs = 0\<rparr>"

definition pb_ping :: "string \<Rightarrow> probe_PingResult \<Rightarrow> PingResult" where
  "pb_ping target r = \<lparr>pi_Target = target, pi_PacketsSent = of_int (pp_PacketsSent r),
     pi_PacketsReceived = of_int (pp_PacketsReceived r), pi_LossPercent = pp_LossPercent r, pi_MinRttMs = pp_MinRttMs r,
     pi_AvgRttMs = pp_AvgRttMs r, pi_MaxRttMs = pp_MaxRttMs r\<rparr>"

fun runPings :: "probes \<Rightarrow> pb_TestSpec \<Rightarrow> u32 \<Rightarrow> nat \<Rightarrow> string list \<Rightarrow> TestResult list" where
  "runPings p spec count i [] = []"
| "runPings p spec count i (target # targets) =
     (case pr_Ping p i target (uint count) of
        Cancelled \<Rightarrow> []
      | Failed e \<Rightarrow>
          with_result e (TestResult_Ping (empty_ping target)) (newResult (pr_now p i) spec) # runPings p spec count (i + 1) targets
      | Finished r \<Rightarrow>
          with_result '''' (TestResult_Ping (pb_ping target r)) (newResult (pr_now p i) spec) # runPings p spec count (i + 1) targets)"

text \<open>The two loops of \<open>runDNS\<close> as one, over the pairs of a server and a query.\<close>

fun runDNS :: "probes \<Rightarrow> pb_TestSpec \<Rightarrow> nat \<Rightarrow> (string \<times> string) list \<Rightarrow> TestResult list" where
  "runDNS p spec i [] = []"
| "runDNS p spec i ((server, query) # rest) =
     (case pr_DNSQuery p i query server of
        None \<Rightarrow> []
      | Some r \<Rightarrow> with_result '''' (TestResult_Dns r) (newResult (pr_now p i) spec) # runDNS p spec (i + 1) rest)"

definition empty_http :: "string \<Rightarrow> HttpResult" where
  "empty_http url = \<lparr>ht_Url = url, ht_StatusCode = 0, ht_DnsMs = 0, ht_ConnectMs = 0, ht_TlsMs = 0, ht_TtfbMs = 0,
     ht_TotalMs = 0, ht_CertExpiryDays = -1, ht_ServerIp = ''''\<rparr>"

definition pb_http :: "probe_HTTPResult \<Rightarrow> HttpResult" where
  "pb_http r = \<lparr>ht_Url = hr_URL r, ht_StatusCode = of_int (hr_StatusCode r), ht_DnsMs = hr_DNSMs r, ht_ConnectMs = hr_ConnectMs r,
     ht_TlsMs = hr_TLSMs r, ht_TtfbMs = hr_TTFBMs r, ht_TotalMs = hr_TotalMs r, ht_CertExpiryDays = hr_CertExpiryDays r,
     ht_ServerIp = hr_ServerIP r\<rparr>"

definition runHTTP :: "probes \<Rightarrow> pb_TestSpec \<Rightarrow> nat \<Rightarrow> string \<Rightarrow> u32 \<Rightarrow> bool \<Rightarrow> TestResult list" where
  "runHTTP p spec i url timeout skipVerify =
     (case pr_HTTPCheck p i url timeout skipVerify of
        Cancelled \<Rightarrow> []
      | Failed e \<Rightarrow> [with_result e (TestResult_Http (empty_http url)) (newResult (pr_now p i) spec)]
      | Finished r \<Rightarrow> [with_result '''' (TestResult_Http (pb_http r)) (newResult (pr_now p i) spec)])"

fun runTCP :: "probes \<Rightarrow> pb_TestSpec \<Rightarrow> u32 \<Rightarrow> nat \<Rightarrow> string list \<Rightarrow> TestResult list" where
  "runTCP p spec timeout i [] = []"
| "runTCP p spec timeout i (target # targets) =
     (case pr_TCPConnect p i target timeout of
        None \<Rightarrow> []
      | Some (r, err) \<Rightarrow>
          with_result (case err of None \<Rightarrow> '''' | Some e \<Rightarrow> e) (TestResult_Tcp r) (newResult (pr_now p i) spec)
          # runTCP p spec timeout (i + 1) targets)"

fun runSaas :: "probes \<Rightarrow> pb_TestSpec \<Rightarrow> nat \<Rightarrow> SaasEndpoint list \<Rightarrow> TestResult list" where
  "runSaas p spec i [] = []"
| "runSaas p spec i (ep # eps) =
     (if se_Kind ep = ''https'' then runHTTP p spec i (se_Target ep) 0 False
      else if se_Kind ep = ''tcp'' then runTCP p spec 0 i [se_Target ep] else [])
     @ (if pr_alive p i then runSaas p spec (i + 1) eps else [])"

definition active_opts :: "pb_WlanActiveParams \<Rightarrow> WlanActiveOpts" where
  "active_opts q = \<lparr>wo_SSID = pwa_Ssid q, wo_Security = pwa_Security q, wo_Password = pwa_Password q,
     wo_Identity = pwa_Identity q, wo_CACertPEM = pwa_CaCertPem q, wo_InsecureSkipVerify = pwa_InsecureSkipVerify q,
     wo_ThroughputURL = pwa_ThroughputUrl q, wo_MACMode = pwa_MacMode q\<rparr>"

definition empty_active :: "string \<Rightarrow> string \<Rightarrow> WlanActiveResult" where
  "empty_active iface ssid = \<lparr>wa_Interface = iface, wa_Ssid = ssid, wa_Bssid = '''', wa_Demo = False, wa_Success = False,
     wa_FailedStep = '''', wa_ScanMs = 0, wa_AssociateMs = 0, wa_AuthenticateMs = 0, wa_DhcpMs = 0, wa_Ip = '''',
     wa_Netmask = '''', wa_Gateway = '''', wa_DnsServers = [], wa_ThroughputMbps = 0, wa_ThroughputMs = 0, wa_RssiDbm = 0,
     wa_NoiseDbm = 0, wa_SnrDb = 0, wa_TxRetryPct = 0, wa_TxPackets = 0, wa_TxRetries = 0, wa_Mac = '''',
     wa_GatewayPingLossPct = 0, wa_GatewayPingRttMs = 0, wa_TotalMs = 0\<rparr>"

definition pb_active :: "bool \<Rightarrow> WlanActiveOutcome \<Rightarrow> WlanActiveResult" where
  "pb_active demo o' = \<lparr>wa_Interface = wc_Interface o', wa_Ssid = wc_SSID o', wa_Bssid = wc_BSSID o', wa_Demo = demo,
     wa_Success = wc_Success o', wa_FailedStep = wc_FailedStep o', wa_ScanMs = wc_ScanMs o', wa_AssociateMs = wc_AssociateMs o',
     wa_AuthenticateMs = wc_AuthenticateMs o', wa_DhcpMs = wc_DHCPMs o', wa_Ip = wc_IP o', wa_Netmask = wc_Netmask o',
     wa_Gateway = wc_Gateway o', wa_DnsServers = wc_DNSServers o', wa_ThroughputMbps = wc_ThroughputMbps o',
     wa_ThroughputMs = wc_ThroughputMs o', wa_RssiDbm = wc_RSSIdBm o', wa_NoiseDbm = wc_NoiseDBm o', wa_SnrDb = wc_SNRdB o',
     wa_TxRetryPct = wc_TxRetryPct o', wa_TxPackets = wc_TxPackets o', wa_TxRetries = wc_TxRetries o', wa_Mac = wc_MAC o',
     wa_GatewayPingLossPct = wc_GatewayPingLossPct o', wa_GatewayPingRttMs = wc_GatewayPingRttMs o', wa_TotalMs = wc_TotalMs o'\<rparr>"

definition runWlanActive :: "string \<Rightarrow> probes \<Rightarrow> pb_TestSpec \<Rightarrow> pb_WlanActiveParams \<Rightarrow> TestResult list" where
  "runWlanActive override p spec params =
     (let iface = (if override = '''' \<and> \<not> pr_demo p then
                     (case pr_detected p of [] \<Rightarrow> '''' | d # _ \<Rightarrow> wi_Name d)
                   else override);
          result = newResult (pr_now p 0) spec
      in if iface = '''' \<and> \<not> pr_demo p
         then [with_result ''no wireless interface available'' (TestResult_WlanActive (empty_active '''' (pwa_Ssid params))) result]
         else case pr_WlanActive p iface (active_opts params) of
                Cancelled \<Rightarrow> []
              | Failed e \<Rightarrow> [with_result e (TestResult_WlanActive (empty_active iface (pwa_Ssid params))) result]
              | Finished o' \<Rightarrow>
                  [with_result (if wc_Success o' then '''' else wc_FailedStep o' @ '' step failed'')
                     (TestResult_WlanActive (pb_active (pr_demo p) o')) result])"

definition runPerfmon :: "probes \<Rightarrow> pb_TestSpec \<Rightarrow> string \<Rightarrow> u32 \<Rightarrow> TestResult list" where
  "runPerfmon p spec target duration =
     (case pr_RunClient p target duration of
        Cancelled \<Rightarrow> []
      | Failed e \<Rightarrow>
          [with_result e (TestResult_Perfmon \<lparr>pf_Target = target, pf_Success = False, pf_FailedStep = '''', pf_LatencyMs = 0,
             pf_UploadMbps = 0, pf_DownloadMbps = 0, pf_DurationSeconds = 0\<rparr>) (newResult (pr_now p 0) spec)]
      | Finished o' \<Rightarrow>
          [with_result (if pcl_Success o' then '''' else pcl_FailedStep o' @ '' step failed'')
             (TestResult_Perfmon \<lparr>pf_Target = pcl_Target o', pf_Success = pcl_Success o', pf_FailedStep = pcl_FailedStep o',
                pf_LatencyMs = pcl_LatencyMs o', pf_UploadMbps = pcl_UploadMbps o', pf_DownloadMbps = pcl_DownloadMbps o',
                pf_DurationSeconds = pcl_DurationSeconds o'\<rparr>) (newResult (pr_now p 0) spec)])"

text \<open>FNV-1a over the bytes of the test id, and its low half.\<close>

definition fnv32a :: "string \<Rightarrow> u32" where
  "fnv32a s = fold (\<lambda>c h. (h XOR of_nat (of_char c)) * 16777619) s 2166136261"

definition flowIDFor :: "string \<Rightarrow> u16" where
  "flowIDFor testID = ucast (fnv32a testID)"

definition pb_hop :: "probe_Hop \<Rightarrow> Hop" where
  "pb_hop h = \<lparr>hop_Ttl = ph_TTL h, hop_Host = ph_Host h, hop_HostName = ph_HostName h, hop_LossPercent = ph_LossPercent h,
     hop_AvgRttMs = ph_AvgRttMs h, hop_BestRttMs = ph_BestRttMs h, hop_WorstRttMs = ph_WorstRttMs h,
     hop_JitterMs = ph_JitterMs h, hop_Sent = ph_Sent h\<rparr>"

definition empty_trace :: "string \<Rightarrow> TracerouteResult" where
  "empty_trace target = \<lparr>tr_Target = target, tr_TargetIp = '''', tr_Reached = False, tr_Status = ''error'', tr_FailureHop = 0,
     tr_RttMs = 0, tr_Demo = False, tr_Hops = [], tr_DestinationState = '''', tr_Engine = '''', tr_PathChanged = False\<rparr>"

definition pb_trace :: "probe_TracerouteResult \<Rightarrow> TracerouteResult" where
  "pb_trace r = \<lparr>tr_Target = pt_Target r, tr_TargetIp = pt_TargetIP r, tr_Reached = pt_Reached r, tr_Status = pt_Status r,
     tr_FailureHop = pt_FailureHop r, tr_RttMs = pt_RttMs r, tr_Demo = pt_Demo r, tr_Hops = map pb_hop (pt_Hops r),
     tr_DestinationState = pt_DestinationState r, tr_Engine = pt_Engine r, tr_PathChanged = False\<rparr>"

definition runTraceroute :: "probes \<Rightarrow> pb_TestSpec \<Rightarrow> string \<Rightarrow> string \<Rightarrow> u32 \<Rightarrow> u32 \<Rightarrow> u32 \<Rightarrow> TestResult list" where
  "runTraceroute p spec target protocol port maxHops probesPerHop =
     (case pr_Traceroute p target protocol port maxHops probesPerHop (flowIDFor (ts_Id spec)) of
        Cancelled \<Rightarrow> []
      | Failed e \<Rightarrow> [with_result e (TestResult_Traceroute (empty_trace target)) (newResult (pr_now p 0) spec)]
      | Finished r \<Rightarrow> [with_result '''' (TestResult_Traceroute (pb_trace r)) (newResult (pr_now p 0) spec)])"

text \<open>One run of a test, with the override of the interface and the retained passive states.\<close>

definition runTest ::
  "string \<Rightarrow> probes \<Rightarrow> pb_TestSpec \<Rightarrow> (string \<rightharpoonup> wlanPassiveState) \<Rightarrow> TestResult list \<times> (string \<rightharpoonup> wlanPassiveState)" where
  "runTest override p spec states =
     (case ts_Params spec of
        TestSpec_Unset \<Rightarrow> ([], states)
      | TestSpec_Speedtest provider \<Rightarrow> (runSpeedtest p spec provider, states)
      | TestSpec_Ping targets count \<Rightarrow> (runPings p spec count 0 targets, states)
      | TestSpec_Dns queries servers \<Rightarrow> (runDNS p spec 0 (List.product servers queries), states)
      | TestSpec_Http url timeout skipVerify \<Rightarrow> (runHTTP p spec 0 url timeout skipVerify, states)
      | TestSpec_Tcp targets timeout \<Rightarrow> (runTCP p spec timeout 0 targets, states)
      | TestSpec_Traceroute target protocol port maxHops probesPerHop \<Rightarrow>
          (runTraceroute p spec target protocol port maxHops probesPerHop, states)
      | TestSpec_WlanPassive \<Rightarrow>
          runWlanPassive override (pr_detected p) (pr_demo p) (pr_Sense p) (pr_now p 0) (pr_now p 1) spec states
      | TestSpec_WlanActive params \<Rightarrow> (runWlanActive override p spec params, states)
      | TestSpec_Perfmon target duration \<Rightarrow> (runPerfmon p spec target duration, states)
      | TestSpec_Saas svc endpoints \<Rightarrow> (runSaas p spec 0 endpoints, states))"

end
