(* ===== verification/Metrics.thy ===== *)
theory Metrics
  imports Result_State Go_Fmt
begin

text \<open>
  The Prometheus metrics of \<open>internal/server/metrics.go\<close>: an update is one \<open>Set\<close> of a gauge or one
  \<open>Inc\<close> of a counter, named with its label values, and each method of \<open>Metrics\<close> is the list of
  updates it makes, in order. \<open>apply_updates\<close> is their effect on the exposed values.
\<close>

datatype update = Set (up_Name: string) (up_Labels: "string list") (up_Value: float64)
  | Inc (up_Name: string) (up_Labels: "string list")

type_synonym exposition = "string \<times> string list \<Rightarrow> float64 option"

fun apply_update :: "update \<Rightarrow> exposition \<Rightarrow> exposition" where
  "apply_update (Set n ls v) x = x((n, ls) \<mapsto> v)"
| "apply_update (Inc n ls) x = x((n, ls) \<mapsto> (case x (n, ls) of None \<Rightarrow> 1 | Some v \<Rightarrow> v + 1))"

definition apply_updates :: "update list \<Rightarrow> exposition \<Rightarrow> exposition" where
  "apply_updates us x = fold apply_update us x"

definition b2f :: "bool \<Rightarrow> float64" where
  "b2f b = (if b then 1 else 0)"

definition SetConnected :: "string \<Rightarrow> string \<Rightarrow> string \<Rightarrow> bool \<Rightarrow> update list" where
  "SetConnected tenant site client up =
     [Set ''agent_connected'' [tenant, site, client] (b2f up)]"

definition SetAgentHealth :: "string \<Rightarrow> string \<Rightarrow> string \<Rightarrow> string \<Rightarrow> update list" where
  "SetAgentHealth tenant site client status =
     [Set ''agent_health'' [tenant, site, client]
        (if status = ''healthy'' then 0 else if status = ''degraded'' then 1
         else if status = ''unhealthy'' then 2 else - 1)]"

record pb_AgentStats =
  as_Time :: "go_time option"
  as_CpuPercent :: float64
  as_MemUsedBytes :: u64
  as_MemTotalBytes :: u64
  as_DiskUsedBytes :: u64
  as_DiskTotalBytes :: u64
  as_AgentCpuPercent :: float64
  as_AgentMemBytes :: u64
  as_PidCount :: u32
  as_UptimeSeconds :: u64

definition u64_float :: "u64 \<Rightarrow> float64" where
  "u64_float w = of_nat (unat w)"

definition RecordAgentStats :: "string \<Rightarrow> string \<Rightarrow> string \<Rightarrow> pb_AgentStats \<Rightarrow> update list" where
  "RecordAgentStats tenant site client stats =
     (let labels = [tenant, site, client]
      in [Set ''agent_cpu_percent'' labels (as_CpuPercent stats),
          Set ''agent_memory_used_bytes'' labels (u64_float (as_MemUsedBytes stats)),
          Set ''agent_memory_total_bytes'' labels (u64_float (as_MemTotalBytes stats)),
          Set ''agent_disk_used_bytes'' labels (u64_float (as_DiskUsedBytes stats)),
          Set ''agent_disk_total_bytes'' labels (u64_float (as_DiskTotalBytes stats))])"

definition Record :: "string \<Rightarrow> string \<Rightarrow> string \<Rightarrow> TestResult \<Rightarrow> update list" where
  "Record tenant site client r =
     (let base = [tenant, site, client, rs_TestName r];
          total = (\<lambda>ty. Inc ''results_received_total'' (base @ [ty]));
          errs = (\<lambda>ty. Inc ''test_errors_total'' (base @ [ty]));
          failed = rs_Error r \<noteq> ''''
      in case rs_Result r of
        TestResult_Speedtest v \<Rightarrow>
          total ''speedtest'' # (if failed then [errs ''speedtest'']
            else [Set ''speedtest_download_mbps'' base (sr_DownloadMbps v),
                  Set ''speedtest_upload_mbps'' base (sr_UploadMbps v),
                  Set ''speedtest_latency_ms'' base (sr_LatencyMs v)])
      | TestResult_Ping v \<Rightarrow>
          total ''ping'' # (if failed then [errs ''ping'']
            else let labels = base @ [pi_Target v]
                 in [Set ''ping_rtt_min_ms'' labels (pi_MinRttMs v), Set ''ping_rtt_avg_ms'' labels (pi_AvgRttMs v),
                     Set ''ping_rtt_max_ms'' labels (pi_MaxRttMs v),
                     Set ''ping_packet_loss_percent'' labels (pi_LossPercent v)])
      | TestResult_Dns v \<Rightarrow>
          total ''dns'' # (if failed then [errs ''dns'']
            else let labels = base @ [dn_Server v, dn_Query v]
                 in [Set ''dns_resolve_time_ms'' labels (dn_ResolveTimeMs v),
                     Set ''dns_success'' labels (b2f (dn_Success v))])
      | TestResult_Http v \<Rightarrow>
          (let labels = base @ [ht_Url v]
           in total ''http'' # (if failed then [errs ''http'', Set ''http_up'' labels 0]
             else [Set ''http_total_ms'' labels (ht_TotalMs v), Set ''http_ttfb_ms'' labels (ht_TtfbMs v),
                   Set ''http_cert_expiry_days'' labels (ht_CertExpiryDays v),
                   Set ''http_up'' labels (b2f (ht_StatusCode v \<ge> 200 \<and> ht_StatusCode v < 400))]))
      | TestResult_Tcp v \<Rightarrow>
          (let labels = base @ [tc_Target v]
           in total ''tcp'' # (if failed \<or> \<not> tc_Connected v then [errs ''tcp'', Set ''tcp_up'' labels 0]
             else [Set ''tcp_connect_ms'' labels (tc_ConnectMs v), Set ''tcp_up'' labels 1]))
      | TestResult_WlanActive v \<Rightarrow> total ''wlan_active'' # (if failed then [errs ''wlan_active''] else [])
      | TestResult_Perfmon v \<Rightarrow>
          total ''perfmon'' # (if failed then [errs ''perfmon'']
            else let labels = base @ [pf_Target v]
                 in [Set ''perfmon_download_mbps'' labels (pf_DownloadMbps v),
                     Set ''perfmon_upload_mbps'' labels (pf_UploadMbps v),
                     Set ''perfmon_latency_ms'' labels (pf_LatencyMs v)])
      | TestResult_WlanPassive v \<Rightarrow>
          total ''wlan_passive'' # (if failed then [errs ''wlan_passive'']
            else [Set ''wlan_aps_visible'' (base @ [wp_Interface v]) (of_nat (length (wp_Networks v))),
                  Set ''wlan_stations'' (base @ [wp_Interface v]) (of_nat (length (wp_Stations v)))]
                 @ map (\<lambda>ch. Set ''wlan_channel_utilization_pct'' (base @ [itoa (ch_Channel ch)]) (ch_UtilizationPct ch))
                     (wp_Channels v))
      | TestResult_Traceroute v \<Rightarrow>
          (let labels = base @ [tr_Target v]
           in total ''traceroute'' # (if failed then [errs ''traceroute'', Set ''path_reached'' labels 0]
             else [Set ''path_reached'' labels (b2f (tr_Reached v)),
                   Set ''path_hops'' labels (of_nat (length (tr_Hops v))), Set ''path_rtt_ms'' labels (tr_RttMs v)]))
      | TestResult_None \<Rightarrow> [])"

text \<open>
  \<open>NewMetrics\<close> registers the metrics: a gauge or a counter with its name and label names. The library panics on a
  name that is registered twice and on a value list that is not as long as the labels.
\<close>

datatype metric_kind = GaugeVec | CounterVec

definition metric_base :: "string list" where
  "metric_base = [''tenant'', ''site'', ''client'', ''test'']"

definition metric_labels :: "string list" where
  "metric_labels = [''tenant'', ''site'', ''client'']"

definition NewMetrics :: "(metric_kind \<times> string \<times> string list) list" where
  "NewMetrics =
     [(GaugeVec, ''agent_connected'', [''tenant'', ''site'', ''client'']), (GaugeVec, ''agent_health'', [''tenant'', ''site'', ''client'']),
      (CounterVec, ''results_received_total'', metric_base @ [''type'']), (CounterVec, ''test_errors_total'', metric_base @ [''type'']),
      (GaugeVec, ''agent_cpu_percent'', metric_labels), (GaugeVec, ''agent_memory_used_bytes'', metric_labels),
      (GaugeVec, ''agent_memory_total_bytes'', metric_labels), (GaugeVec, ''agent_disk_used_bytes'', metric_labels),
      (GaugeVec, ''agent_disk_total_bytes'', metric_labels),
      (GaugeVec, ''speedtest_download_mbps'', metric_base), (GaugeVec, ''speedtest_upload_mbps'', metric_base),
      (GaugeVec, ''speedtest_latency_ms'', metric_base),
      (GaugeVec, ''perfmon_download_mbps'', metric_base @ [''target'']), (GaugeVec, ''perfmon_upload_mbps'', metric_base @ [''target'']),
      (GaugeVec, ''perfmon_latency_ms'', metric_base @ [''target'']),
      (GaugeVec, ''ping_rtt_min_ms'', metric_base @ [''target'']), (GaugeVec, ''ping_rtt_avg_ms'', metric_base @ [''target'']),
      (GaugeVec, ''ping_rtt_max_ms'', metric_base @ [''target'']), (GaugeVec, ''ping_packet_loss_percent'', metric_base @ [''target'']),
      (GaugeVec, ''dns_resolve_time_ms'', metric_base @ [''server'', ''query'']), (GaugeVec, ''dns_success'', metric_base @ [''server'', ''query'']),
      (GaugeVec, ''http_total_ms'', metric_base @ [''url'']), (GaugeVec, ''http_ttfb_ms'', metric_base @ [''url'']),
      (GaugeVec, ''http_cert_expiry_days'', metric_base @ [''url'']), (GaugeVec, ''http_up'', metric_base @ [''url'']),
      (GaugeVec, ''tcp_connect_ms'', metric_base @ [''target'']), (GaugeVec, ''tcp_up'', metric_base @ [''target'']),
      (GaugeVec, ''wlan_aps_visible'', metric_base @ [''interface'']), (GaugeVec, ''wlan_stations'', metric_base @ [''interface'']),
      (GaugeVec, ''wlan_channel_utilization_pct'', metric_base @ [''channel'']),
      (GaugeVec, ''path_rtt_ms'', metric_base @ [''target'']), (GaugeVec, ''path_hops'', metric_base @ [''target'']),
      (GaugeVec, ''path_reached'', metric_base @ [''target''])]"

definition update_kind :: "update \<Rightarrow> metric_kind" where
  "update_kind u = (case u of Set _ _ _ \<Rightarrow> GaugeVec | Inc _ _ \<Rightarrow> CounterVec)"

definition registered_for :: "update \<Rightarrow> bool" where
  "registered_for u = list_ex (\<lambda>(k, n, ls). k = update_kind u \<and> n = up_Name u \<and> length ls = length (up_Labels u)) NewMetrics"

section \<open>Properties\<close>

lemma apply_updates_Cons [simp]: "apply_updates (u # us) x = apply_updates us (apply_update u x)"
  by (simp add: apply_updates_def)

lemma apply_updates_Nil [simp]: "apply_updates [] x = x"
  by (simp add: apply_updates_def)

text \<open>
  The up gauges agree with the health verdict: after recording an HTTP, TCP or traceroute result
  its \<open>http_up\<close>, \<open>tcp_up\<close> or \<open>path_reached\<close> gauge is 1 exactly when \<open>resultOK\<close> accepts the result and 0
  otherwise.
\<close>

theorem up_gauges_agree:
  "apply_updates (Record t s c \<lparr>rs_Time = tm, rs_Error = e, rs_TestId = i, rs_TestName = n, rs_Result = TestResult_Http h\<rparr>) x
       (''http_up'', [t, s, c, n, ht_Url h])
     = Some (b2f (resultOK \<lparr>rs_Time = tm, rs_Error = e, rs_TestId = i, rs_TestName = n, rs_Result = TestResult_Http h\<rparr>))
   \<and> apply_updates (Record t s c \<lparr>rs_Time = tm, rs_Error = e, rs_TestId = i, rs_TestName = n, rs_Result = TestResult_Tcp k\<rparr>) x
       (''tcp_up'', [t, s, c, n, tc_Target k])
     = Some (b2f (resultOK \<lparr>rs_Time = tm, rs_Error = e, rs_TestId = i, rs_TestName = n, rs_Result = TestResult_Tcp k\<rparr>))
   \<and> apply_updates (Record t s c \<lparr>rs_Time = tm, rs_Error = e, rs_TestId = i, rs_TestName = n, rs_Result = TestResult_Traceroute r\<rparr>) x
       (''path_reached'', [t, s, c, n, tr_Target r])
     = Some (b2f (resultOK \<lparr>rs_Time = tm, rs_Error = e, rs_TestId = i, rs_TestName = n, rs_Result = TestResult_Traceroute r\<rparr>))"
  by (auto simp: Record_def resultOK_def b2f_def Let_def)

lemma registered_channels:
  "list_all registered_for (map (\<lambda>ch. Set ''wlan_channel_utilization_pct'' [t, s, c, n, itoa (ch_Channel ch)] (ch_UtilizationPct ch)) chs)"
  by (simp add: list_all_iff registered_for_def NewMetrics_def update_kind_def metric_base_def)

lemma registered_Record: "list_all registered_for (Record t s c r)"
  by (simp add: Record_def Let_def list_all_append registered_channels split: TestResult_Result.split)
    (simp add: registered_for_def NewMetrics_def update_kind_def metric_base_def)

text \<open>
  No metric is registered twice, and every update that a connection, a health change, the statistics of an agent or a
  result of any type makes is of a registered metric of its kind, with a value for each of its labels: neither
  registration nor recording panics.
\<close>

theorem updates_are_registered:
  "distinct (map (fst \<circ> snd) NewMetrics) \<and> list_all registered_for (SetConnected t s c up) \<and> list_all registered_for (SetAgentHealth t s c st)
     \<and> list_all registered_for (RecordAgentStats t s c stats) \<and> list_all registered_for (Record t s c r)"
proof (intro conjI)
  show "distinct (map (fst \<circ> snd) NewMetrics)"
    by code_simp
qed (simp_all add: registered_Record SetConnected_def SetAgentHealth_def RecordAgentStats_def Let_def registered_for_def NewMetrics_def update_kind_def metric_labels_def)

end
