(* ===== verification/Server_State.thy ===== *)
theory Server_State
  imports Path_Change Metrics
begin

text \<open>
  The state of \<open>Server\<close> (\<open>internal/server/server.go\<close>): the database, the registry of connected
  agents, the hysteresis counters, the reconnect windows and the exposed metrics. A
  \<open>*connectedAgent\<close> is the number of a connection object; \<open>sv_conns\<close> and \<open>sv_push\<close> hold the objects
  and their push channels, so that two connections of the same agent are different objects.
\<close>

record chan =
  ch_buf :: "ServerMessage list"
  ch_closed :: bool

definition push_capacity :: nat where
  "push_capacity = 4"

record server =
  sv_db :: "raw_message db"
  sv_MTLS :: bool
  sv_conns :: "nat \<Rightarrow> connectedAgent option"
  sv_push :: "nat \<Rightarrow> chan"
  sv_connected :: "string \<rightharpoonup> nat"
  sv_next :: nat
  sv_alertStates :: "string \<rightharpoonup> alertState"
  sv_notified :: "notification list"
  sv_reconnectCount :: "string \<Rightarrow> nat"
  sv_reconnectTimes :: "string \<Rightarrow> go_time list"
  sv_metrics :: exposition

definition New :: "raw_message db \<Rightarrow> bool \<Rightarrow> server" where
  "New st mtls = \<lparr>sv_db = st, sv_MTLS = mtls, sv_conns = (\<lambda>_. None),
     sv_push = (\<lambda>_. \<lparr>ch_buf = [], ch_closed = False\<rparr>), sv_connected = Map.empty, sv_next = 0,
     sv_alertStates = Map.empty, sv_notified = [], sv_reconnectCount = (\<lambda>_. 0),
     sv_reconnectTimes = (\<lambda>_. []), sv_metrics = (\<lambda>_. None)\<rparr>"

definition record_metrics :: "update list \<Rightarrow> server \<Rightarrow> server" where
  "record_metrics us s = s\<lparr>sv_metrics := apply_updates us (sv_metrics s)\<rparr>"

definition AgentConnected :: "string \<Rightarrow> server \<Rightarrow> bool" where
  "AgentConnected agentID s \<longleftrightarrow> sv_connected s agentID \<noteq> None"

text \<open>
  A non-blocking send, \<open>select { case c <- m: ... default: }\<close>: a panic (\<open>None\<close>) when the channel is
  closed, otherwise queued if there is room and dropped if not.
\<close>

definition send :: "nat \<Rightarrow> ServerMessage \<Rightarrow> server \<Rightarrow> (bool \<times> server) option" where
  "send c m s =
     (let ch = sv_push s c
      in if ch_closed ch then None
         else if length (ch_buf ch) < push_capacity
         then Some (True, s\<lparr>sv_push := (sv_push s)(c := ch\<lparr>ch_buf := ch_buf ch @ [m]\<rparr>)\<rparr>)
         else Some (False, s))"

section \<open>Reconnect window\<close>

definition recordReconnect :: "go_time \<Rightarrow> string \<Rightarrow> server \<Rightarrow> server" where
  "recordReconnect now agentID s =
     (let cutoff = now - 15 * minute;
          filtered = filter (\<lambda>t. t > cutoff) (sv_reconnectTimes s agentID) @ [now]
      in s\<lparr>sv_reconnectTimes := (sv_reconnectTimes s)(agentID := filtered),
           sv_reconnectCount := (sv_reconnectCount s)(agentID := length filtered)\<rparr>)"

text \<open>At the moment of a reconnect the count is the number of reconnects of the last 15 minutes.\<close>

fun reconnects :: "string \<Rightarrow> go_time list \<Rightarrow> server \<Rightarrow> server" where
  "reconnects a [] s = s"
| "reconnects a (t # ts) s = reconnects a ts (recordReconnect t a s)"

lemma filter_filter_le:
  fixes a :: go_time
  shows "a \<le> b \<Longrightarrow> filter (\<lambda>t. t > b) (filter (\<lambda>t. t > a) ts) = filter (\<lambda>t. t > b) ts"
  by (auto intro!: filter_cong)

lemma reconnects_times:
  assumes "sorted (ts @ [t])" "\<forall>u \<in> set (sv_reconnectTimes s a). True"
  shows "sv_reconnectTimes (reconnects a (ts @ [t]) s) a =
           filter (\<lambda>u. u > t - 15 * minute) (sv_reconnectTimes s a @ ts) @ [t]"
  using assms(1)
proof (induction ts arbitrary: s)
  case Nil
  then show ?case by (simp add: recordReconnect_def Let_def)
next
  case (Cons u ts)
  have u: "u - 15 * minute \<le> t - 15 * minute" using Cons.prems by simp
  show ?case
    using Cons.IH [of "recordReconnect u a s"] Cons.prems
    by (simp add: recordReconnect_def Let_def filter_filter_le [OF u] del: filter_filter)
qed

end
