(* ===== verification/Agent_Health.thy ===== *)
theory Agent_Health
  imports Server_State "HOL-Library.Monad_Syntax"
begin

text \<open>
  Agent health: \<open>internal/server/health.go\<close>. The clock reading is an argument; \<open>stats.Time\<close> is parsed
  from the snapshot the server itself wrote.
\<close>

datatype HealthStatus = HealthHealthy | HealthDegraded | HealthUnhealthy | HealthUnknown

definition health_name :: "HealthStatus \<Rightarrow> string" where
  "health_name h = (case h of HealthHealthy \<Rightarrow> ''healthy'' | HealthDegraded \<Rightarrow> ''degraded''
     | HealthUnhealthy \<Rightarrow> ''unhealthy'' | HealthUnknown \<Rightarrow> ''unknown'')"

record HealthEvaluation =
  he_Status :: HealthStatus
  he_Reasons :: "string list"
  he_UptimeSeconds :: u64

text \<open>The map of the code has no entry for \<open>unknown\<close>, which therefore reads as 0.\<close>

definition status_order :: "HealthStatus \<Rightarrow> int" where
  "status_order h = (case h of HealthHealthy \<Rightarrow> 0 | HealthDegraded \<Rightarrow> 1 | HealthUnhealthy \<Rightarrow> 2 | HealthUnknown \<Rightarrow> 0)"

definition updateWorstStatus :: "HealthStatus \<Rightarrow> HealthStatus \<Rightarrow> HealthStatus" where
  "updateWorstStatus current new = (if status_order new > status_order current then new else current)"

record AgentStats =
  st_Time :: go_time
  st_AgentCpuPercent :: float64
  st_AgentMemBytes :: u64
  st_PidCount :: u32
  st_UptimeSeconds :: u64
  st_CpuPercent :: float64
  st_MemUsedBytes :: u64
  st_MemTotalBytes :: u64
  st_DiskUsedBytes :: u64
  st_DiskTotalBytes :: u64

definition stats_fields :: "string list" where
  "stats_fields = [''time'', ''agentCpuPercent'', ''agentMemBytes'', ''pidCount'', ''uptimeSeconds'',
     ''cpuPercent'', ''memUsedBytes'', ''memTotalBytes'', ''diskUsedBytes'', ''diskTotalBytes'']"

fun as_u64 :: "u64 \<Rightarrow> json \<Rightarrow> u64 option" where
  "as_u64 d JNull = Some d"
| "as_u64 d (JInt n) = (if 0 \<le> n \<and> n < 2 ^ 64 then Some (word_of_int n) else None)"
| "as_u64 d _ = None"

definition unmarshal_stats :: "raw_message \<Rightarrow> AgentStats option" where
  "unmarshal_stats raw =
     (case raw of
        Raw j \<Rightarrow> do {
          ms \<leftarrow> unmarshal_object j;
          tm \<leftarrow> dec as_str [] (members stats_fields ms ''time'');
          acpu \<leftarrow> dec as_float 0 (members stats_fields ms ''agentCpuPercent'');
          amem \<leftarrow> dec as_u64 0 (members stats_fields ms ''agentMemBytes'');
          pids \<leftarrow> dec as_u32 0 (members stats_fields ms ''pidCount'');
          up \<leftarrow> dec as_u64 0 (members stats_fields ms ''uptimeSeconds'');
          cpu \<leftarrow> dec as_float 0 (members stats_fields ms ''cpuPercent'');
          mu \<leftarrow> dec as_u64 0 (members stats_fields ms ''memUsedBytes'');
          mt \<leftarrow> dec as_u64 0 (members stats_fields ms ''memTotalBytes'');
          du \<leftarrow> dec as_u64 0 (members stats_fields ms ''diskUsedBytes'');
          dt \<leftarrow> dec as_u64 0 (members stats_fields ms ''diskTotalBytes'');
          t \<leftarrow> parse_rfc3339 tm;
          Some \<lparr>st_Time = t, st_AgentCpuPercent = acpu, st_AgentMemBytes = amem, st_PidCount = pids,
                st_UptimeSeconds = up, st_CpuPercent = cpu, st_MemUsedBytes = mu, st_MemTotalBytes = mt,
                st_DiskUsedBytes = du, st_DiskTotalBytes = dt\<rparr>}
      | _ \<Rightarrow> None)"

definition getLatestAgentStats :: "string \<Rightarrow> server \<Rightarrow> AgentStats option" where
  "getLatestAgentStats agentID s =
     (case sv_connected s agentID of
        None \<Rightarrow> None
      | Some c \<Rightarrow>
          (case sv_conns s c of
             None \<Rightarrow> None
           | Some conn \<Rightarrow>
               (if ag_Stats (ca_agent conn) = RawEmpty then None else unmarshal_stats (ag_Stats (ca_agent conn)))))"

text \<open>One indicator: its reason, if any, and the level it asks for.\<close>

type_synonym indicator = "(string \<times> HealthStatus) option"

definition cpu_indicator :: "AgentStats \<Rightarrow> indicator" where
  "cpu_indicator stats =
     (if st_AgentCpuPercent stats > 20
      then Some (''agent CPU share '' @ format_f0 (st_AgentCpuPercent stats) @ ''%'', HealthDegraded) else None)"

definition pid_indicator :: "AgentStats \<Rightarrow> indicator" where
  "pid_indicator stats =
     (let reason = itoa (st_PidCount stats) @ '' processes in container''
      in if st_PidCount stats > 1500 then Some (reason, HealthUnhealthy)
         else if st_PidCount stats > 500 then Some (reason, HealthDegraded) else None)"

definition stale_indicator :: "go_time \<Rightarrow> bool \<Rightarrow> AgentStats \<Rightarrow> indicator" where
  "stale_indicator now conn stats =
     (let statAge = now - st_Time stats; reason = ''no stats for '' @ format_f0 (of_int statAge / of_int minute) @ '' min''
      in if \<not> conn then None
         else if statAge > 5 * minute then Some (reason, HealthUnhealthy)
         else if statAge > 2 * minute then Some (reason, HealthDegraded) else None)"

definition flap_indicator :: "nat \<Rightarrow> indicator" where
  "flap_indicator flaps =
     (let reason = format_nat flaps @ '' reconnects in 15m''
      in if flaps \<ge> 6 then Some (reason, HealthUnhealthy)
         else if flaps \<ge> 3 then Some (reason, HealthDegraded) else None)"

definition error_indicator :: "nat \<Rightarrow> indicator" where
  "error_indicator n =
     (let reason = format_nat n @ '' agent errors in 15m''
      in if n \<ge> 10 then Some (reason, HealthUnhealthy)
         else if n \<ge> 2 then Some (reason, HealthDegraded) else None)"

definition add_indicator :: "indicator \<Rightarrow> string list \<times> HealthStatus \<Rightarrow> string list \<times> HealthStatus" where
  "add_indicator i acc =
     (case i of None \<Rightarrow> acc | Some (reason, level) \<Rightarrow> (fst acc @ [reason], updateWorstStatus (snd acc) level))"

definition indicators :: "go_time \<Rightarrow> string \<Rightarrow> AgentStats \<Rightarrow> server \<Rightarrow> indicator list" where
  "indicators now agentID stats s =
     [cpu_indicator stats, pid_indicator stats, stale_indicator now (AgentConnected agentID s) stats,
      flap_indicator (sv_reconnectCount s agentID),
      error_indicator (CountAgentErrors agentID (now - 15 * minute) (sv_db s))]"

definition EvaluateAgentHealth :: "go_time \<Rightarrow> Agent \<Rightarrow> server \<Rightarrow> HealthEvaluation" where
  "EvaluateAgentHealth now agent s =
     (case getLatestAgentStats (ag_ID agent) s of
        None \<Rightarrow> \<lparr>he_Status = HealthUnknown, he_Reasons = [], he_UptimeSeconds = 0\<rparr>
      | Some stats \<Rightarrow>
          if st_UptimeSeconds stats = 0
          then \<lparr>he_Status = HealthUnknown, he_Reasons = [], he_UptimeSeconds = 0\<rparr>
          else let (reasons, level) = fold add_indicator (indicators now (ag_ID agent) stats s) ([], HealthHealthy)
               in \<lparr>he_Status = level, he_Reasons = reasons, he_UptimeSeconds = st_UptimeSeconds stats\<rparr>)"

section \<open>The verdict is the worst indicator\<close>

definition levels :: "indicator list \<Rightarrow> HealthStatus list" where
  "levels is = map snd (List.map_filter id is)"

lemma levels_simps [simp]:
  "levels [] = []" "levels (None # is) = levels is" "levels (Some (r, h) # is) = h # levels is"
  by (simp_all add: levels_def map_filter_simps)

definition reasons :: "indicator list \<Rightarrow> string list" where
  "reasons is = map fst (List.map_filter id is)"

lemma reasons_simps [simp]:
  "reasons [] = []" "reasons (None # is) = reasons is" "reasons (Some (r, h) # is) = r # reasons is"
  by (simp_all add: reasons_def map_filter_simps)

lemma fold_indicators:
  assumes "l \<noteq> HealthUnknown" "\<forall>h \<in> set (levels is). h \<noteq> HealthUnknown \<and> h \<noteq> HealthHealthy"
  shows "fst (fold add_indicator is (rs, l)) = rs @ reasons is
    \<and> snd (fold add_indicator is (rs, l)) =
        (if HealthUnhealthy \<in> insert l (set (levels is)) then HealthUnhealthy
         else if HealthDegraded \<in> insert l (set (levels is)) then HealthDegraded else HealthHealthy)"
  using assms
proof (induction "is" arbitrary: rs l)
  case Nil
  then show ?case by (cases l) simp_all
next
  case (Cons i "is")
  show ?case
  proof (cases i)
    case None
    then show ?thesis using Cons by (simp add: add_indicator_def)
  next
    case (Some p)
    obtain r h where p: "p = (r, h)" by (cases p)
    with Cons.prems Some have h: "h = HealthDegraded \<or> h = HealthUnhealthy"
      by (cases h) simp_all
    then have "updateWorstStatus l h \<noteq> HealthUnknown" using Cons.prems(1)
      by (auto simp: updateWorstStatus_def)
    moreover have "\<forall>h \<in> set (levels is). h \<noteq> HealthUnknown \<and> h \<noteq> HealthHealthy"
      using Cons.prems(2) Some p by simp
    ultimately have IH: "fst (fold add_indicator is (rs @ [r], updateWorstStatus l h)) =
        (rs @ [r]) @ reasons is"
      "snd (fold add_indicator is (rs @ [r], updateWorstStatus l h)) =
        (if HealthUnhealthy \<in> insert (updateWorstStatus l h) (set (levels is)) then HealthUnhealthy
         else if HealthDegraded \<in> insert (updateWorstStatus l h) (set (levels is)) then HealthDegraded
         else HealthHealthy)"
      using Cons.IH [of "updateWorstStatus l h" "rs @ [r]"] by blast+
    have "fold add_indicator (i # is) (rs, l) = fold add_indicator is (rs @ [r], updateWorstStatus l h)"
      using Some p by (simp add: add_indicator_def)
    moreover have "reasons (i # is) = r # reasons is" "levels (i # is) = h # levels is"
      using Some p by simp_all
    ultimately show ?thesis
      using h Cons.prems(1) IH
      by (elim disjE; cases l) (simp_all add: updateWorstStatus_def status_order_def)
  qed
qed

lemma indicator_levels:
  "\<forall>h \<in> set (levels (indicators now a stats s)). h \<noteq> HealthUnknown \<and> h \<noteq> HealthHealthy"
  by (auto simp: indicators_def levels_def List.map_filter_def cpu_indicator_def pid_indicator_def stale_indicator_def
      flap_indicator_def error_indicator_def Let_def split: if_splits)

section \<open>Properties\<close>

lemma EvaluateAgentHealth_eq:
  assumes "getLatestAgentStats (ag_ID agent) s = Some stats" "st_UptimeSeconds stats \<noteq> 0"
  shows "he_Reasons (EvaluateAgentHealth now agent s) = reasons (indicators now (ag_ID agent) stats s)"
    and "he_Status (EvaluateAgentHealth now agent s) =
        (let ls = levels (indicators now (ag_ID agent) stats s)
         in if HealthUnhealthy \<in> set ls then HealthUnhealthy
            else if HealthDegraded \<in> set ls then HealthDegraded else HealthHealthy)"
  using assms fold_indicators [OF _ indicator_levels, where l = HealthHealthy and rs = "[]" and now1 = now
      and a1 = "ag_ID agent" and stats1 = stats and s1 = s]
  by (simp_all add: EvaluateAgentHealth_def Let_def case_prod_beta)

lemma levels_unhealthy:
  "HealthUnhealthy \<in> set (levels (indicators now a stats s)) \<longleftrightarrow>
     st_PidCount stats > 1500 \<or> AgentConnected a s \<and> now - st_Time stats > 5 * minute
     \<or> sv_reconnectCount s a \<ge> 6 \<or> CountAgentErrors a (now - 15 * minute) (sv_db s) \<ge> 10"
  by (simp add: indicators_def levels_def map_filter_simps cpu_indicator_def pid_indicator_def stale_indicator_def
      flap_indicator_def error_indicator_def Let_def)

lemma reasons_levels: "reasons is = [] \<longleftrightarrow> levels is = []"
  by (simp add: reasons_def levels_def)

lemma status_healthy:
  assumes "\<forall>h \<in> set ls. h \<noteq> HealthUnknown \<and> h \<noteq> HealthHealthy"
  shows "(if HealthUnhealthy \<in> set ls then HealthUnhealthy
          else if HealthDegraded \<in> set ls then HealthDegraded else HealthHealthy) = HealthHealthy \<longleftrightarrow> ls = []"
proof (cases ls)
  case (Cons h hs)
  with assms show ?thesis by (cases h) auto
qed simp

text \<open>
  The health verdict of an agent that reports self-metrics is the worst of its indicators: it is
  unhealthy exactly when one of the four critical conditions holds (more than 1500 processes, no
  stats for more than five minutes, six reconnects, ten errors), healthy exactly when no reason is
  given, and never unknown.
\<close>

theorem health_is_worst_indicator:
  assumes "getLatestAgentStats (ag_ID agent) s = Some stats" "st_UptimeSeconds stats \<noteq> 0"
  shows "(he_Status (EvaluateAgentHealth now agent s) = HealthUnhealthy \<longleftrightarrow>
            st_PidCount stats > 1500 \<or> now - st_Time stats > 5 * minute
            \<or> sv_reconnectCount s (ag_ID agent) \<ge> 6
            \<or> CountAgentErrors (ag_ID agent) (now - 15 * minute) (sv_db s) \<ge> 10)
         \<and> (he_Status (EvaluateAgentHealth now agent s) = HealthHealthy \<longleftrightarrow>
              he_Reasons (EvaluateAgentHealth now agent s) = [])
         \<and> he_Status (EvaluateAgentHealth now agent s) \<noteq> HealthUnknown"
proof -
  have "AgentConnected (ag_ID agent) s"
    using assms(1) by (auto simp: getLatestAgentStats_def AgentConnected_def split: option.splits)
  then show ?thesis
    using status_healthy [OF indicator_levels, of now "ag_ID agent" stats s]
    unfolding EvaluateAgentHealth_eq [OF assms] Let_def reasons_levels
    by (auto simp: levels_unhealthy split: if_splits)
qed

definition demo_stats :: json where
  "demo_stats = JObj [(''time'', JStr ''1970-01-01T00:00:00Z''), (''pidCount'', JInt 12), (''uptimeSeconds'', JInt 60)]"

definition demo_server :: server where
  "demo_server = (New demo_db False)\<lparr>sv_connected := [''a1'' \<mapsto> 0],
     sv_conns := (\<lambda>_. Some \<lparr>ca_agent = demo_agent\<lparr>ag_Stats := Raw demo_stats\<rparr>, ca_tenant = ''acme''\<rparr>)\<rparr>"

lemma demo_server_stats:
  "\<exists>stats. getLatestAgentStats ''a1'' demo_server = Some stats \<and> st_UptimeSeconds stats \<noteq> 0 \<and> st_Time stats = 0
     \<and> st_PidCount stats = 12"
proof -
  have "parse_rfc3339 ''1970-01-01T00:00:00Z'' = Some 0" by code_simp
  then show ?thesis
    by (simp add: getLatestAgentStats_def demo_server_def unmarshal_stats_def demo_stats_def unmarshal_object_def
        stats_fields_def)
qed

theorem health_is_worst_indicator_witness:
  "he_Status (EvaluateAgentHealth (6 * minute) demo_agent demo_server) = HealthUnhealthy
   \<and> he_Status (EvaluateAgentHealth minute demo_agent demo_server) \<noteq> HealthUnhealthy"
proof -
  have i: "ag_ID demo_agent = ''a1''" by (simp add: demo_agent_def)
  obtain stats where st: "getLatestAgentStats (ag_ID demo_agent) demo_server = Some stats"
    "st_UptimeSeconds stats \<noteq> 0" "st_Time stats = 0" "st_PidCount stats = 12"
    using demo_server_stats i by auto
  note H = health_is_worst_indicator [OF st(1,2)]
  have "sv_reconnectCount demo_server x = 0" "CountAgentErrors x t (sv_db demo_server) = 0" for x t
    by (simp_all add: demo_server_def New_def CountAgentErrors_def)
  then show ?thesis
    using H [of "6 * minute"] H [of minute] st(3,4) by (simp add: minute_def second_def)
qed

text \<open>
  The reconnect window is not sliding: the count is only recomputed on the next reconnect, so an
  agent that reconnected six times in its first minute and has been stable ever since is still
  reported with "6 reconnects in 15m" at any later time, although no reconnect lies in the window.
\<close>

theorem reconnect_count_goes_stale:
  "\<exists>s. (\<forall>now. flap_indicator (sv_reconnectCount s ''a1'') = Some (''6 reconnects in 15m'', HealthUnhealthy))
     \<and> filter (\<lambda>t. t > 60 * minute - 15 * minute) (sv_reconnectTimes s ''a1'') = []
     \<and> s = reconnects ''a1'' [0, 1, 2, 3, 4, 5] (New demo_db False)"
proof -
  let ?s = "reconnects ''a1'' [0, 1, 2, 3, 4, 5] (New demo_db False)"
  have "sv_reconnectTimes ?s ''a1'' = [0, 1, 2, 3, 4, 5]" "sv_reconnectCount ?s ''a1'' = 6"
    by (simp_all add: recordReconnect_def New_def minute_def second_def Let_def)
  moreover have "format_nat 6 = ''6''" by code_simp
  ultimately show ?thesis
    by (intro exI [of _ ?s]) (simp add: flap_indicator_def minute_def second_def)
qed

end
