(* ===== verification/Control_Stream.thy ===== *)
theory Control_Stream
  imports Agent_Health
begin

text \<open>
  The control stream: \<open>internal/server/server.go\<close> and \<open>internal/server/unclaimed.go\<close>. Registration
  and the message handlers are functions on the server state. A stream's life is four of them:
  \<open>stream_open\<close> (up to the first config), \<open>stream_recv\<close>, \<open>stream_push\<close> (forwarding a queued push) and
  \<open>stream_close\<close> (the deferred clean-up). gRPC itself, TLS and the protojson encoder are outside: the
  certificate's common name, the random ids, the clock and \<open>encode\<close> are arguments.
\<close>

section \<open>What an agent is configured with\<close>

definition requiredCapability :: "string \<Rightarrow> string" where
  "requiredCapability testType =
     (case Get testType of None \<Rightarrow> testType | Some sp \<Rightarrow> sp_Capability sp)"

definition isPerfmonSource :: "TestDef \<Rightarrow> string \<Rightarrow> bool" where
  "isPerfmonSource t agentID =
     (case td_Params t of
        Raw j \<Rightarrow>
          (case unmarshal_object j of None \<Rightarrow> False | Some ms \<Rightarrow>
           case unmarshal_perfmon ms of None \<Rightarrow> False | Some p \<Rightarrow> pm_SourceAgentID p = agentID)
      | _ \<Rightarrow> False)"

text \<open>
  Decoding into \<open>[]string\<close> when the error is only logged: an element of another type stays empty, a
  document that is not an array decodes to nothing.
\<close>

definition lenient_strs :: "raw_message \<Rightarrow> string list" where
  "lenient_strs raw =
     (case raw of
        Raw (JArr js) \<Rightarrow> map (\<lambda>j. case j of JStr x \<Rightarrow> x | _ \<Rightarrow> '''') js
      | _ \<Rightarrow> [])"

definition perfmonReflectorConfigFor :: "Agent \<Rightarrow> PerfmonReflectorConfig" where
  "perfmonReflectorConfigFor a =
     \<lparr>pr_Enabled = ag_PerfmonReflectorEnabled a, pr_Port = ag_PerfmonReflectorPort a,
      pr_AllowedCidrs = (case ag_PerfmonAllowedCIDRs a of
                           Raw j \<Rightarrow> (case as_strs [] j of None \<Rightarrow> [] | Some cs \<Rightarrow> cs) | _ \<Rightarrow> [])\<rparr>"

definition unsupported :: "string list \<Rightarrow> TestDef \<Rightarrow> bool" where
  "unsupported caps t \<longleftrightarrow> caps \<noteq> [] \<and> requiredCapability (td_Type t) \<notin> set caps"

definition pushed_spec :: "Agent \<Rightarrow> TestDef \<Rightarrow> pb_TestSpec option" where
  "pushed_spec a t =
     (if unsupported (lenient_strs (ag_Capabilities a)) t then None
      else if td_Type t = ''perfmon'' \<and> \<not> isPerfmonSource t (ag_ID a) then None
      else case TestSpec t of Inl _ \<Rightarrow> None | Inr sp \<Rightarrow> Some sp)"

definition ConfigForAgent :: "Agent \<Rightarrow> 'p db \<Rightarrow> pb_Config \<times> string list" where
  "ConfigForAgent a d =
     (let ts = TestsForSite (ag_SiteID a) d; caps = lenient_strs (ag_Capabilities a)
      in (\<lparr>cfg_Tests = List.map_filter (pushed_spec a) ts,
           cfg_PerfmonReflector = perfmonReflectorConfigFor a,
           cfg_WlanSensorInterface = ag_WlanSensorInterface a\<rparr>,
          map td_Name (filter (unsupported caps) ts)))"

section \<open>Registration\<close>

record NetworkInterface =
  ni_Name :: string
  ni_Wireless :: bool
  ni_SupportsMonitor :: bool
  ni_SpeedMbps :: u32
  ni_IpAddress :: string

record Register =
  rg_ClientId :: string
  rg_Token :: string
  rg_Version :: string
  rg_NetworkInterfaces :: "NetworkInterface list"
  rg_Capabilities :: "string list"

text \<open>A repeated field with no elements is nil.\<close>

definition marshalNetworkInterfaces :: "NetworkInterface list \<Rightarrow> raw_message" where
  "marshalNetworkInterfaces ifaces =
     (if ifaces = [] then RawEmpty
      else Raw (JArr (map (\<lambda>w. JObj [(''name'', JStr (ni_Name w)), (''wireless'', JBool (ni_Wireless w)),
             (''supportsMonitor'', JBool (ni_SupportsMonitor w)), (''speedMbps'', of_u32 (ni_SpeedMbps w)),
             (''ipAddress'', JStr (ni_IpAddress w))]) ifaces)))"

definition legacyCapabilities :: "string list" where
  "legacyCapabilities = [''speedtest'', ''ping'', ''dns'', ''http'', ''tcp'', ''wlan'']"

definition isLegacyCapabilities :: "string list \<Rightarrow> bool" where
  "isLegacyCapabilities caps = (caps = legacyCapabilities)"

definition tenantName :: "string \<Rightarrow> 'p db \<Rightarrow> string" where
  "tenantName tenantID d =
     (case find (\<lambda>t. tn_ID t = tenantID) (ListTenants d) of None \<Rightarrow> tenantID | Some t \<Rightarrow> tn_Name t)"

definition reported_caps :: "Register \<Rightarrow> raw_message" where
  "reported_caps r =
     (if rg_Capabilities r \<noteq> [] \<and> \<not> isLegacyCapabilities (rg_Capabilities r)
      then Raw (of_strs (rg_Capabilities r)) else RawEmpty)"

definition handleUnclaimedRegister ::
  "string \<Rightarrow> go_time \<Rightarrow> Tenant \<Rightarrow> Register \<Rightarrow> 'p db \<Rightarrow> go_error \<times> 'p db" where
  "handleUnclaimedRegister newid now tenant r d =
     (let clientID = (if rg_ClientId r = '''' then ''unknown'' else rg_ClientId r);
          d' = (case UpsertUnclaimedAgent newid now (tn_ID tenant) clientID (rg_Version r)
                       (reported_caps r) (marshalNetworkInterfaces (rg_NetworkInterfaces r)) d of
                  Inl _ \<Rightarrow> d | Inr d' \<Rightarrow> d')
      in (Errorf ''FailedPrecondition: agent not yet claimed; waiting for site assignment in the UI'' [], d'))"

record agentSession =
  se_agent :: Agent
  se_tenant :: string

definition report_interfaces :: "Register \<Rightarrow> Agent \<times> 'p db \<Rightarrow> Agent \<times> 'p db" where
  "report_interfaces r ad =
     (let data = marshalNetworkInterfaces (rg_NetworkInterfaces r); (a, d) = ad
      in if data = RawEmpty then ad
         else (a\<lparr>ag_NetworkInterfaces := data\<rparr>, SetAgentNetworkInterfaces (ag_ID a) data d))"

definition report_capabilities :: "Register \<Rightarrow> Agent \<times> 'p db \<Rightarrow> Agent \<times> 'p db" where
  "report_capabilities r ad =
     (let data = reported_caps r; (a, d) = ad
      in if data = RawEmpty then ad
         else (a\<lparr>ag_Capabilities := data\<rparr>, SetAgentCapabilities (ag_ID a) data d))"

definition report_version :: "Register \<Rightarrow> Agent \<times> 'p db \<Rightarrow> Agent \<times> 'p db" where
  "report_version r ad =
     (let v = rg_Version r; (a, d) = ad
      in if v \<noteq> '''' \<and> v \<noteq> ag_Version a
         then (a\<lparr>ag_Version := v\<rparr>, SetAgentVersion (ag_ID a) v d) else ad)"

definition registerAgent ::
  "string \<Rightarrow> go_time \<Rightarrow> bool \<Rightarrow> Register option \<Rightarrow> string \<Rightarrow> 'p db \<Rightarrow> agentSession result \<times> 'p db" where
  "registerAgent newid now mtls reg peerCN d =
     (case reg of
        None \<Rightarrow> (Inl (Errorf ''Unauthenticated: first message must be a register message with a token'' []), d)
      | Some r \<Rightarrow>
          if rg_Token r = ''''
          then (Inl (Errorf ''Unauthenticated: first message must be a register message with a token'' []), d)
          else case GetAgentByToken (rg_Token r) d of
            Inl e \<Rightarrow>
              (if e = ErrNotFound \<and> \<not> mtls then
                 (case GetTenantByEnrollToken (rg_Token r) d of
                    Inr tenant \<Rightarrow>
                      (case handleUnclaimedRegister newid now tenant r d of (err, d') \<Rightarrow> (Inl err, d'))
                  | Inl _ \<Rightarrow> (Inl (Errorf ''Unauthenticated: invalid agent token'' []), d))
               else (Inl (Errorf ''Unauthenticated: invalid agent token'' []), d))
          | Inr agent \<Rightarrow>
              if mtls \<and> peerCN \<noteq> ag_Name agent
              then (Inl (Errorf ''Unauthenticated: client certificate does not match agent'' []), d)
              else
                let (agent, d) = report_version r (report_capabilities r (report_interfaces r (agent, d)))
                in (Inr \<lparr>se_agent = agent, se_tenant = tenantName (ag_TenantID agent) d\<rparr>, d))"

section \<open>Message handlers\<close>

definition alerting_of :: "server \<Rightarrow> raw_message alerting" where
  "alerting_of s = \<lparr>alertStates = sv_alertStates s, adb = sv_db s, notified = sv_notified s\<rparr>"

definition with_alerting :: "server \<Rightarrow> raw_message alerting \<Rightarrow> server" where
  "with_alerting s x = s\<lparr>sv_alertStates := alertStates x, sv_db := adb x, sv_notified := notified x\<rparr>"

definition handleResult ::
  "(TestResult \<Rightarrow> raw_message result) \<Rightarrow> (string \<Rightarrow> Info option) \<Rightarrow> go_time \<Rightarrow> connectedAgent \<Rightarrow> TestResult
     \<Rightarrow> server \<Rightarrow> server" where
  "handleResult encode lookup now conn r0 s0 =
     (let s = record_metrics (Record (ca_tenant conn) (ag_SiteName (ca_agent conn)) (ag_Name (ca_agent conn)) r0) s0;
          test = (case GetTest (rs_TestId r0) (sv_db s) of Inl _ \<Rightarrow> None | Inr t \<Rightarrow> Some t);
          testType = (case test of None \<Rightarrow> TypeOf r0 | Some t \<Rightarrow> td_Type t);
          (r, d) = detectPathChange lookup now conn r0 test (sv_db s)
      in case encode r of
           Inl _ \<Rightarrow> s\<lparr>sv_db := d\<rparr>
         | Inr payload \<Rightarrow>
             let row = \<lparr>re_ID = 0, re_AgentID = ag_ID (ca_agent conn), re_TestID = rs_TestId r,
                        re_TestName = rs_TestName r, re_TestType = testType,
                        re_Time = (case rs_Time r of None \<Rightarrow> now | Some t \<Rightarrow> t),
                        re_Error = rs_Error r, re_OK = resultOK r, re_Payload = payload\<rparr>;
                 d' = (case AddResult row d of Inl _ \<Rightarrow> d | Inr d' \<Rightarrow> d')
             in with_alerting s (evaluateAlerts now conn r test (alerting_of (s\<lparr>sv_db := d'\<rparr>))))"

record pb_LogEntry =
  pl_Time :: "go_time option"
  pl_Level :: string
  pl_Message :: string
  pl_Scope :: string

definition handleAgentLog :: "go_time \<Rightarrow> connectedAgent \<Rightarrow> pb_LogEntry \<Rightarrow> server \<Rightarrow> server" where
  "handleAgentLog now conn l s =
     s\<lparr>sv_db := InsertLog \<lparr>le_ID = 0, le_Time = (case pl_Time l of None \<Rightarrow> now | Some t \<Rightarrow> t),
        le_TenantID = ag_TenantID (ca_agent conn), le_AgentID = ag_ID (ca_agent conn), le_Source = ''agent'',
        le_Scope = pl_Scope l, le_Level = pl_Level l, le_Message = pl_Message l\<rparr> (sv_db s)\<rparr>"

definition of_u64 :: "u64 \<Rightarrow> json" where
  "of_u64 w = JInt (uint w)"

text \<open>A nil timestamp reads as the Unix epoch.\<close>

definition stats_snapshot :: "pb_AgentStats \<Rightarrow> json" where
  "stats_snapshot st =
     JObj [(''time'', JStr (format_rfc3339 (case as_Time st of None \<Rightarrow> 0 | Some t \<Rightarrow> t))),
           (''cpuPercent'', JFloat (as_CpuPercent st)), (''memUsedBytes'', of_u64 (as_MemUsedBytes st)),
           (''memTotalBytes'', of_u64 (as_MemTotalBytes st)), (''diskUsedBytes'', of_u64 (as_DiskUsedBytes st)),
           (''diskTotalBytes'', of_u64 (as_DiskTotalBytes st)), (''agentCpuPercent'', JFloat (as_AgentCpuPercent st)),
           (''agentMemBytes'', of_u64 (as_AgentMemBytes st)), (''pidCount'', of_u32 (as_PidCount st)),
           (''uptimeSeconds'', of_u64 (as_UptimeSeconds st))]"

definition handleAgentStats :: "go_time \<Rightarrow> nat \<Rightarrow> connectedAgent \<Rightarrow> pb_AgentStats option \<Rightarrow> server \<Rightarrow> server" where
  "handleAgentStats now c conn stats s =
     (case stats of
        None \<Rightarrow> s
      | Some st \<Rightarrow>
          (let snapshot = stats_snapshot st;
               conn = conn\<lparr>ca_agent := (ca_agent conn)\<lparr>ag_Stats := Raw snapshot\<rparr>\<rparr>;
               agent = ca_agent conn;
               s = s\<lparr>sv_db := SetAgentStats (ag_ID agent) snapshot (sv_db s), sv_conns := (sv_conns s)(c \<mapsto> conn)\<rparr>;
               s = record_metrics (RecordAgentStats (ca_tenant conn) (ag_SiteName agent) (ag_Name agent) st) s;
               health = EvaluateAgentHealth now agent s
           in record_metrics (SetAgentHealth (ca_tenant conn) (ag_SiteName agent) (ag_Name agent)
                 (health_name (he_Status health))) s))"

section \<open>Streams\<close>

datatype AgentMessage =
    AgentMessage_Register Register
  | AgentMessage_Result TestResult
  | AgentMessage_Log pb_LogEntry
  | AgentMessage_Stats "pb_AgentStats option"

definition GetRegister :: "AgentMessage \<Rightarrow> Register option" where
  "GetRegister m = (case m of AgentMessage_Register r \<Rightarrow> Some r | _ \<Rightarrow> None)"

definition close_chan :: "nat \<Rightarrow> server \<Rightarrow> server" where
  "close_chan c s = s\<lparr>sv_push := (sv_push s)(c := (sv_push s c)\<lparr>ch_closed := True\<rparr>)\<rparr>"

definition set_connected :: "connectedAgent \<Rightarrow> bool \<Rightarrow> server \<Rightarrow> server" where
  "set_connected conn up s =
     record_metrics (SetConnected (ca_tenant conn) (ag_SiteName (ca_agent conn)) (ag_Name (ca_agent conn)) up) s"

text \<open>
  The registration of the new connection under the lock: an older connection of the same agent has
  its channel closed and is replaced.
\<close>

definition admit :: "connectedAgent \<Rightarrow> server \<Rightarrow> nat \<times> server" where
  "admit conn s =
     (let c = sv_next s; aid = ag_ID (ca_agent conn);
          s = (case sv_connected s aid of None \<Rightarrow> s | Some old \<Rightarrow> close_chan old s)
      in (c, s\<lparr>sv_conns := (sv_conns s)(c \<mapsto> conn), sv_push := (sv_push s)(c := \<lparr>ch_buf = [], ch_closed = False\<rparr>),
               sv_connected := (sv_connected s)(aid \<mapsto> c), sv_next := c + 1\<rparr>))"

definition stream_open ::
  "string \<Rightarrow> go_time \<Rightarrow> AgentMessage \<Rightarrow> string \<Rightarrow> server \<Rightarrow> (nat \<times> pb_Config) result \<times> server" where
  "stream_open newid now first peerCN s =
     (case registerAgent newid now (sv_MTLS s) (GetRegister first) peerCN (sv_db s) of
        (Inl e, d) \<Rightarrow> (Inl e, s\<lparr>sv_db := d\<rparr>)
      | (Inr ss, d) \<Rightarrow>
          (let conn = \<lparr>ca_agent = se_agent ss, ca_tenant = se_tenant ss\<rparr>;
               (c, s) = admit conn (s\<lparr>sv_db := d\<rparr>);
               s = recordReconnect now (ag_ID (ca_agent conn)) s;
               s = set_connected conn True s
           in (Inr (c, fst (ConfigForAgent (ca_agent conn) (sv_db s))), s)))"

definition stream_recv ::
  "(TestResult \<Rightarrow> raw_message result) \<Rightarrow> (string \<Rightarrow> Info option) \<Rightarrow> go_time \<Rightarrow> nat \<Rightarrow> AgentMessage \<Rightarrow> server \<Rightarrow> server" where
  "stream_recv encode lookup now c m s =
     (case sv_conns s c of
        None \<Rightarrow> s
      | Some conn \<Rightarrow>
          (case m of
             AgentMessage_Result r \<Rightarrow> handleResult encode lookup now conn r s
           | AgentMessage_Log l \<Rightarrow> handleAgentLog now conn l s
           | AgentMessage_Stats st \<Rightarrow> handleAgentStats now c conn st s
           | AgentMessage_Register _ \<Rightarrow> s))"

text \<open>
  Receiving from the push channel: a queued message is sent on the stream; a closed and empty
  channel ends the stream; an open and empty one blocks (\<open>None\<close>).
\<close>

definition stream_push :: "nat \<Rightarrow> server \<Rightarrow> ((ServerMessage result) \<times> server) option" where
  "stream_push c s =
     (case ch_buf (sv_push s c) of
        m # ms \<Rightarrow> Some (Inr m, s\<lparr>sv_push := (sv_push s)(c := (sv_push s c)\<lparr>ch_buf := ms\<rparr>)\<rparr>)
      | [] \<Rightarrow>
          if ch_closed (sv_push s c)
          then Some (Inl (Errorf ''Aborted: replaced by a new connection for the same agent'' []), s)
          else None)"

text \<open>
  The deferred function. The labels are those captured when the stream was opened, so they are an
  argument.
\<close>

definition stream_close :: "nat \<Rightarrow> connectedAgent \<Rightarrow> server \<Rightarrow> server" where
  "stream_close c opened s =
     (let aid = ag_ID (ca_agent opened);
          s = (if sv_connected s aid = Some c then s\<lparr>sv_connected := (sv_connected s)(aid := None)\<rparr> else s)
      in set_connected opened False s)"

section \<open>Pushes from the API\<close>

text \<open>
  \<open>None\<close> is the panic of a send on a closed channel. The source holds the lock for the lookup only and sends after
  releasing it; these are the calls with nothing in between, and the steps of \<open>Control_Properties\<close> let anything happen
  between the lookup and the send.
\<close>

fun PushConfigs :: "string list \<Rightarrow> server \<Rightarrow> (nat \<times> server) option" where
  "PushConfigs [] s = Some (0, s)"
| "PushConfigs (aid # ids) s =
     (case sv_connected s aid of
        None \<Rightarrow> PushConfigs ids s
      | Some c \<Rightarrow>
          (case sv_conns s c of
             None \<Rightarrow> PushConfigs ids s
           | Some conn \<Rightarrow>
               (case send c (ServerMessage_Config (fst (ConfigForAgent (ca_agent conn) (sv_db s)))) s of
                  None \<Rightarrow> None
                | Some (queued, s) \<Rightarrow>
                    map_option (\<lambda>(n, s). ((if queued then 1 else 0) + n, s)) (PushConfigs ids s))))"

definition RefreshAgent :: "string \<Rightarrow> server \<Rightarrow> (nat \<times> server) option" where
  "RefreshAgent aid s =
     (case sv_connected s aid of
        None \<Rightarrow> Some (0, s)
      | Some c \<Rightarrow>
          (case (sv_conns s c, GetAgent aid (sv_db s)) of
             (Some conn, Inr fresh) \<Rightarrow>
               (let s = (if ag_SiteName fresh \<noteq> ag_SiteName (ca_agent conn) \<or> ag_Name fresh \<noteq> ag_Name (ca_agent conn)
                         then set_connected (conn\<lparr>ca_agent := fresh\<rparr>) True (set_connected conn False s) else s)
                in PushConfigs [aid] (s\<lparr>sv_conns := (sv_conns s)(c \<mapsto> conn\<lparr>ca_agent := fresh\<rparr>)\<rparr>))
           | _ \<Rightarrow> Some (0, s)))"

definition RunTest :: "string \<Rightarrow> string \<Rightarrow> server \<Rightarrow> (bool \<times> server) option" where
  "RunTest aid testID s =
     (case sv_connected s aid of None \<Rightarrow> Some (False, s) | Some c \<Rightarrow> send c (ServerMessage_RunTest testID) s)"

end
