(* ===== verification/Agent_Loop.thy ===== *)
theory Agent_Loop
  imports Agent_Run Control_Stream
begin

text \<open>
  The agent process around its tests (\<open>internal/agent/agent.go\<close>, \<open>scheduler.go\<close>, \<open>discover.go\<close>,
  \<open>logbuffer.go\<close>) and the log handler it shares with the server (\<open>internal/logtee\<close>, \<open>server/logsink.go\<close>):
  the schedule loop as a step function on its events, the ticker, the reflector that follows the
  configuration, reconnecting with a growing delay, finding the server in DNS, registering, and the
  buffer that holds log lines until they are sent.
\<close>

section \<open>The schedule\<close>

datatype Command_Type = TYPE_UNSPECIFIED | RUN_TEST

record pb_Command =
  cm_Type :: Command_Type
  cm_TestId :: string

datatype sched_event = GotConfig pb_Config | GotCommand pb_Command | StreamDone

text \<open>
  What a step does to the running tests: cancel the context of all of them, start one on its ticker, run
  one at once, reconcile the reflector, set the interface of the sensor, or log.
\<close>

datatype sched_action =
    CancelTests
  | StartTest pb_TestSpec
  | RunNow pb_TestSpec
  | Reconcile PerfmonReflectorConfig
  | SetWlanIface string
  | LogIdle
  | LogUnknownTest string

record sched =
  sd_specs :: "string \<rightharpoonup> pb_TestSpec"
  sd_started :: bool
  sd_returned :: bool

definition start_schedule :: sched where
  "start_schedule = \<lparr>sd_specs = Map.empty, sd_started = False, sd_returned = False\<rparr>"

definition cancel_tests :: "sched \<Rightarrow> sched_action list" where
  "cancel_tests s = (if sd_started s then [CancelTests] else [])"

fun schedule_step :: "sched_event \<Rightarrow> sched \<Rightarrow> sched \<times> sched_action list" where
  "schedule_step (GotConfig cfg) s =
     (s\<lparr>sd_specs := fold (\<lambda>spec m. m(ts_Id spec \<mapsto> spec)) (cfg_Tests cfg) Map.empty, sd_started := True\<rparr>,
      cancel_tests s @ map StartTest (cfg_Tests cfg) @ (if cfg_Tests cfg = [] then [LogIdle] else [])
        @ [Reconcile (cfg_PerfmonReflector cfg), SetWlanIface (cfg_WlanSensorInterface cfg)])"
| "schedule_step (GotCommand cmd) s =
     (s, if cm_Type cmd = RUN_TEST then
           (case sd_specs s (cm_TestId cmd) of Some spec \<Rightarrow> [RunNow spec] | None \<Rightarrow> [LogUnknownTest (cm_TestId cmd)])
         else [])"
| "schedule_step StreamDone s = (s\<lparr>sd_returned := True\<rparr>, cancel_tests s)"

fun schedule :: "sched_event list \<Rightarrow> sched \<Rightarrow> sched \<times> sched_action list" where
  "schedule [] s = (s, [])"
| "schedule (e # es) s =
     (if sd_returned s then (s, [])
      else let (s', acts) = schedule_step e s; (s'', acts') = schedule es s' in (s'', acts @ acts'))"

text \<open>The tests on their tickers after some actions.\<close>

fun running_after :: "sched_action list \<Rightarrow> pb_TestSpec list \<Rightarrow> pb_TestSpec list" where
  "running_after [] run = run"
| "running_after (CancelTests # acts) run = running_after acts []"
| "running_after (StartTest spec # acts) run = running_after acts (run @ [spec])"
| "running_after (_ # acts) run = running_after acts run"

section \<open>The ticker of a test\<close>

definition tick_interval :: "u32 \<Rightarrow> go_time" where
  "tick_interval intervalSeconds = uint (if intervalSeconds = 0 then 60 else intervalSeconds) * second"

text \<open>
  When the runs start, given how long each takes. A ticker holds one tick: if one came since the last was
  taken (at \<open>c\<close>), the next run starts as soon as the last is over, else with the next tick.
\<close>

fun runEvery :: "go_time \<Rightarrow> go_time \<Rightarrow> go_time \<Rightarrow> go_time \<Rightarrow> go_time list \<Rightarrow> go_time list" where
  "runEvery t s0 c st [] = [st]"
| "runEvery t s0 c st (d # ds) =
     (let f = st + d; next = (if (c - s0) div t < (f - s0) div t then f else s0 + ((f - s0) div t + 1) * t)
      in st # runEvery t s0 next next ds)"

section \<open>The reflector\<close>

definition hex_char :: "nat \<Rightarrow> char" where
  "hex_char n = (if n < 10 then char_of (48 + n) else char_of (87 + n))"

fun hex_digits :: "nat \<Rightarrow> string" where
  "hex_digits n = (if n < 16 then [hex_char n] else hex_digits (n div 16) @ [hex_char (n mod 16)])"

declare hex_digits.simps [simp del]

text \<open>\<open>IP.String\<close>: dotted for IPv4, else hexadecimal groups with the longest run of zeros left out.\<close>

fun groups :: "u8 list \<Rightarrow> nat list" where
  "groups (a # b # bs) = (256 * unat a + unat b) # groups bs"
| "groups _ = []"

definition zeros_at :: "nat list \<Rightarrow> nat \<Rightarrow> nat" where
  "zeros_at gs i = length (takeWhile (\<lambda>g. g = 0) (drop i gs))"

definition longest_zeros :: "nat list \<Rightarrow> nat \<times> nat" where
  "longest_zeros gs = foldl (\<lambda>best i. if zeros_at gs i > snd best then (i, zeros_at gs i) else best) (0, 1) [0..<length gs]"

definition IP_String :: "u8 list \<Rightarrow> string" where
  "IP_String ip =
     (case To4 ip of
        Some v4 \<Rightarrow> dotted v4
      | None \<Rightarrow>
          (let gs = groups ip; (i, n) = longest_zeros gs
           in if n \<ge> 2 then join '':'' (map hex_digits (take i gs)) @ ''::'' @ join '':'' (map hex_digits (drop (i + n) gs))
              else join '':'' (map hex_digits gs)))"

text \<open>\<open>IPNet.String\<close> for the contiguous masks that \<open>ParseCIDR\<close> gives.\<close>

definition IPNet_String :: "IPNet \<Rightarrow> string" where
  "IPNet_String n =
     (let ip = (case To4 (net_IP n) of Some v4 \<Rightarrow> v4 | None \<Rightarrow> net_IP n);
          m = (if length (net_Mask n) = 16 \<and> length ip = 4 then drop 12 (net_Mask n) else net_Mask n)
      in if length ip \<noteq> length m then ''<nil>''
         else IP_String ip @ ''/'' @ format_nat (sum_list (map (\<lambda>b. length (filter (bit b) [0..<8])) m)))"

definition sameCIDRs :: "IPNet list \<Rightarrow> IPNet list \<Rightarrow> bool" where
  "sameCIDRs a b = (length a = length b \<and> list_all2 (\<lambda>x y. IPNet_String x = IPNet_String y) a b)"

text \<open>
  The reflector of an agent: the port and the allow-list it runs with, and the ports of cancelled
  listeners whose goroutine has not closed the socket yet.
\<close>

record reflector =
  rf_running :: "(u32 \<times> IPNet list) option"
  rf_closing :: "u32 list"

definition cancel_reflector :: "reflector \<Rightarrow> reflector" where
  "cancel_reflector r =
     (case rf_running r of None \<Rightarrow> r
      | Some (port, _) \<Rightarrow> r\<lparr>rf_running := None, rf_closing := port # rf_closing r\<rparr>)"

text \<open>
  The goroutine of a cancelled listener closes its socket: \<open>listener_closed\<close>. A new listener needs the
  port to be free, and whatever else the host asks (\<open>can_listen\<close>). \<open>prompt\<close> says whether the goroutine of
  the listener that a restart cancels closes its socket before the new one is opened: nothing waits for it.
\<close>

definition listener_closed :: "u32 \<Rightarrow> reflector \<Rightarrow> reflector" where
  "listener_closed port r = r\<lparr>rf_closing := removeAll port (rf_closing r)\<rparr>"

definition reconcilePerfmonReflector :: "bool \<Rightarrow> (u32 \<Rightarrow> bool) \<Rightarrow> PerfmonReflectorConfig option \<Rightarrow> reflector \<Rightarrow> reflector" where
  "reconcilePerfmonReflector prompt can_listen cfg r =
     (case cfg of
        None \<Rightarrow> cancel_reflector r
      | Some c \<Rightarrow>
          if \<not> (pr_Enabled c \<and> pr_Port c \<noteq> 0) then cancel_reflector r
          else case ParseCIDRs (pr_AllowedCidrs c) of
                 Inl _ \<Rightarrow> r
               | Inr allowed \<Rightarrow>
                   if (case rf_running r of None \<Rightarrow> False | Some (port, old) \<Rightarrow> port = pr_Port c \<and> sameCIDRs old allowed) then r
                   else let r = cancel_reflector r; r = (if prompt then listener_closed (pr_Port c) r else r)
                        in if pr_Port c \<in> set (rf_closing r) \<or> \<not> can_listen (pr_Port c) then r
                           else r\<lparr>rf_running := Some (pr_Port c, allowed)\<rparr>)"

section \<open>Reconnecting\<close>

definition reconnectMinDelay :: go_time where
  "reconnectMinDelay = second"

definition reconnectMaxDelay :: go_time where
  "reconnectMaxDelay = 30 * second"

text \<open>The delays of \<open>Run\<close> before each new attempt, given how long each stream was up.\<close>

fun Run_delays :: "go_time \<Rightarrow> go_time list \<Rightarrow> go_time list" where
  "Run_delays delay [] = []"
| "Run_delays delay (up # ups) =
     (let delay = (if up > minute then reconnectMinDelay else delay); next = delay * 2
      in delay # Run_delays (if next > reconnectMaxDelay then reconnectMaxDelay else next) ups)"

section \<open>Discovery\<close>

record SRV =
  srv_Target :: string
  srv_Port :: u16

definition DiscoverAddr :: string where
  "DiscoverAddr = ''auto''"

definition discoverHostName :: string where
  "discoverHostName = ''net-lama''"

definition discoverPort :: nat where
  "discoverPort = 50051"

definition discoverFallback :: string where
  "discoverFallback = ''localhost:50051''"

definition trim_suffix_dot :: "string \<Rightarrow> string" where
  "trim_suffix_dot s = (if s \<noteq> [] \<and> last s = CHR ''.'' then butlast s else s)"

text \<open>A nil record is \<open>None\<close>.\<close>

definition srvAddr :: "SRV option list \<Rightarrow> string" where
  "srvAddr recs =
     (case recs of
        Some rec # _ \<Rightarrow>
          (let host = trim_suffix_dot (srv_Target rec)
           in if host = '''' \<or> srv_Port rec = 0 then '''' else join_host_port host (format_nat (unat (srv_Port rec))))
      | _ \<Rightarrow> '''')"

text \<open>The answers of the resolver are arguments, \<open>None\<close> where the lookup fails.\<close>

definition discoverServer :: "SRV option list option \<Rightarrow> string list option \<Rightarrow> string" where
  "discoverServer srv hosts =
     (let addr = (case srv of None \<Rightarrow> '''' | Some recs \<Rightarrow> srvAddr recs)
      in if addr \<noteq> '''' then addr
         else case hosts of
                Some (h # hs) \<Rightarrow> join_host_port discoverHostName (format_nat discoverPort)
              | _ \<Rightarrow> discoverFallback)"

definition server_addr :: "string \<Rightarrow> SRV option list option \<Rightarrow> string list option \<Rightarrow> string" where
  "server_addr ServerAddr srv hosts =
     (if ServerAddr = '''' \<or> ServerAddr = DiscoverAddr then discoverServer srv hosts else ServerAddr)"

section \<open>Registering\<close>

definition hasMonitorCapableIface :: "WirelessInterface list \<Rightarrow> bool" where
  "hasMonitorCapableIface ifs = list_ex wi_SupportsMonitor ifs"

text \<open>What the host offers: the native traceroute, demo modes, privilege and the supplicant.\<close>

record host =
  hs_traceroute :: bool
  hs_traceroute_demo :: bool
  hs_wlan_demo :: bool
  hs_privileged :: bool
  hs_wpa_supplicant :: bool

definition DetectCapabilities :: "host \<Rightarrow> WirelessInterface list \<Rightarrow> string list" where
  "DetectCapabilities h wifaces =
     [''ping'', ''dns'', ''http'', ''tcp'', ''speedtest'', ''perfmon'', ''saas'']
     @ (if hs_traceroute h \<or> hs_traceroute_demo h then [''traceroute''] else [])
     @ (if hs_wlan_demo h \<or> hasMonitorCapableIface wifaces \<and> hs_privileged h then [''wlan''] else [])
     @ (if hs_wlan_demo h then [''wlan_active'']
        else if wifaces \<noteq> [] \<and> hs_privileged h \<and> hs_wpa_supplicant h then [''wlan_active''] else [])"

definition wireless_of :: "NetworkInterface list \<Rightarrow> WirelessInterface list" where
  "wireless_of ifs = map (\<lambda>n. \<lparr>wi_Name = ni_Name n, wi_PHY = '''', wi_SupportsMonitor = ni_SupportsMonitor n\<rparr>) (filter ni_Wireless ifs)"

definition register_message :: "string \<Rightarrow> string \<Rightarrow> string \<Rightarrow> host \<Rightarrow> NetworkInterface list \<Rightarrow> AgentMessage" where
  "register_message clientID token version h ifs =
     AgentMessage_Register \<lparr>rg_ClientId = clientID, rg_Token = token, rg_Version = version, rg_NetworkInterfaces = ifs,
       rg_Capabilities = DetectCapabilities h (wireless_of ifs)\<rparr>"

section \<open>Log lines\<close>

record log_Entry =
  en_Time :: go_time
  en_Level :: string
  en_Message :: string
  en_Scope :: string

record logRingBuffer =
  lb_entries :: "log_Entry list"
  lb_capacity :: nat

definition logBufferCapacity :: nat where
  "logBufferCapacity = 200"

definition newLogRingBuffer :: "nat \<Rightarrow> logRingBuffer" where
  "newLogRingBuffer capacity = \<lparr>lb_entries = [], lb_capacity = capacity\<rparr>"

text \<open>Slicing off the first entry of an empty buffer is a panic: \<open>None\<close>.\<close>

definition Push :: "log_Entry \<Rightarrow> logRingBuffer \<Rightarrow> logRingBuffer option" where
  "Push e b =
     (if length (lb_entries b) \<ge> lb_capacity b then
        (case lb_entries b of [] \<Rightarrow> None | x # xs \<Rightarrow> Some (b\<lparr>lb_entries := xs @ [e]\<rparr>))
      else Some (b\<lparr>lb_entries := lb_entries b @ [e]\<rparr>))"

definition Drain :: "logRingBuffer \<Rightarrow> log_Entry list \<times> logRingBuffer" where
  "Drain b = (lb_entries b, b\<lparr>lb_entries := []\<rparr>)"

definition pb_log :: "log_Entry \<Rightarrow> pb_LogEntry" where
  "pb_log e = \<lparr>pl_Time = Some (en_Time e), pl_Level = en_Level e, pl_Message = en_Message e, pl_Scope = en_Scope e\<rparr>"

text \<open>
  Sending the drained entries one by one; \<open>sends n\<close> is whether the \<open>n\<close>-th send succeeds. The messages
  sent, and whether the stream failed.
\<close>

fun send_logs :: "(nat \<Rightarrow> bool) \<Rightarrow> nat \<Rightarrow> log_Entry list \<Rightarrow> AgentMessage list \<times> bool" where
  "send_logs sends n [] = ([], False)"
| "send_logs sends n (e # es) =
     (if sends n then let (ms, failed) = send_logs sends (n + 1) es in (AgentMessage_Log (pb_log e) # ms, failed) else ([], True))"

definition sendBufferedLogs :: "(nat \<Rightarrow> bool) \<Rightarrow> logRingBuffer \<Rightarrow> AgentMessage list \<times> bool \<times> logRingBuffer" where
  "sendBufferedLogs sends b = (let (es, b) = Drain b; (ms, failed) = send_logs sends 0 es in (ms, failed, b))"

text \<open>
  The teeing handler: a record at level Info (0) or above becomes an entry whose message carries the bound
  and the own attributes, and whose scope says whether one of them names a test.
\<close>

type_synonym attr = "string \<times> string"

record log_record =
  lr_Time :: go_time
  lr_Level :: int
  lr_Message :: string
  lr_Attrs :: "attr list"

text \<open>\<open>slog.Level.String\<close>.\<close>

definition Level_String :: "int \<Rightarrow> string" where
  "Level_String l =
     (let str = (\<lambda>base d. if d = 0 then base else base @ (if d > 0 then ''+'' else '''') @ format_int d)
      in if l < 0 then str ''DEBUG'' (l + 4) else if l < 4 then str ''INFO'' l
         else if l < 8 then str ''WARN'' (l - 4) else str ''ERROR'' (l - 8))"

definition formatMessage :: "attr list \<Rightarrow> log_record \<Rightarrow> string" where
  "formatMessage bound r = lr_Message r @ concat (map (\<lambda>(k, v). '' '' @ k @ ''='' @ v) (bound @ lr_Attrs r))"

definition Handle :: "attr list \<Rightarrow> log_record \<Rightarrow> log_Entry option" where
  "Handle bound r =
     (if lr_Level r \<ge> 0
      then Some \<lparr>en_Time = lr_Time r, en_Level = Level_String (lr_Level r), en_Message = formatMessage bound r,
             en_Scope = (if list_ex (\<lambda>(k, v). k = ''test'') (bound @ lr_Attrs r) then ''test'' else ''agent'')\<rparr>
      else None)"

definition WithAttrs :: "attr list \<Rightarrow> attr list \<Rightarrow> attr list" where
  "WithAttrs attrs bound = bound @ attrs"

text \<open>The sink of the server: a bounded channel, a writer that stores its entries, and a drop counter.\<close>

definition serverLogBuffer :: nat where
  "serverLogBuffer = 500"

record logsink =
  ls_chan :: "LogEntry list"
  ls_drops :: nat

definition sink_entry :: "log_Entry \<Rightarrow> LogEntry" where
  "sink_entry e = \<lparr>le_ID = 0, le_Time = en_Time e, le_TenantID = '''', le_AgentID = '''', le_Source = ''server'', le_Scope = '''',
     le_Level = en_Level e, le_Message = en_Message e\<rparr>"

definition sink :: "log_Entry \<Rightarrow> logsink \<Rightarrow> logsink" where
  "sink e s =
     (if length (ls_chan s) < serverLogBuffer then s\<lparr>ls_chan := ls_chan s @ [sink_entry e]\<rparr> else s\<lparr>ls_drops := ls_drops s + 1\<rparr>)"

definition sink_write :: "logsink \<Rightarrow> 'p db \<Rightarrow> logsink \<times> 'p db" where
  "sink_write s d = (case ls_chan s of [] \<Rightarrow> (s, d) | e # es \<Rightarrow> (s\<lparr>ls_chan := es\<rparr>, InsertLog e d))"

end
