(* ===== verification/Store_Tokens.thy ===== *)
theory Store_Tokens
  imports Agent_Loop
begin

text \<open>
  The random ids and secrets of the store (\<open>newID\<close>, \<open>NewToken\<close>, \<open>NewPassword\<close>, \<open>NewEnrollToken\<close> of \<open>store.go\<close>). The bytes that
  \<open>crypto/rand\<close> draws are the argument.
\<close>

definition hex_encode :: "u8 list \<Rightarrow> string" where
  "hex_encode bs = concat (map (\<lambda>b. [hex_char (unat b div 16), hex_char (unat b mod 16)]) bs)"

definition newID :: "u8 list \<Rightarrow> string" where
  "newID b = hex_encode (take 16 b)"

definition NewToken :: "u8 list \<Rightarrow> string" where
  "NewToken b = hex_encode (take 32 b)"

definition NewPassword :: "u8 list \<Rightarrow> string" where
  "NewPassword b = take 16 (NewToken b)"

definition NewEnrollToken :: "u8 list \<Rightarrow> string" where
  "NewEnrollToken b = ''nle_'' @ hex_encode (take 32 b)"

lemma hex_char_inj:
  assumes "i < 16" "j < 16" "hex_char i = hex_char j"
  shows "i = j"
proof -
  have code: "of_char (hex_char k) = (if k < 10 then 48 + k else 87 + k)" if "k < 16" for k
    using that by (simp add: hex_char_def)
  have "(if i < 10 then 48 + i else 87 + i) = (if j < 10 then 48 + j else 87 + j)"
    using code [OF assms(1)] code [OF assms(2)] assms(3) by simp
  then show ?thesis
    by (simp split: if_splits)
qed

lemma hex_char_letters: "i < 16 \<Longrightarrow> hex_char i \<noteq> CHR ''n''"
proof -
  have "\<forall>i \<in> {..<16}. hex_char i \<noteq> CHR ''n''"
    by code_simp
  then show "i < 16 \<Longrightarrow> hex_char i \<noteq> CHR ''n''"
    by blast
qed

lemma byte_halves: "unat (b :: u8) div 16 < 16" "unat b mod 16 < 16"
  using unsigned_less [of b, where 'a = nat] by simp_all

lemma hex_encode_Cons [simp]:
  "hex_encode [] = ''''" "hex_encode (b # bs) = hex_char (unat b div 16) # hex_char (unat b mod 16) # hex_encode bs"
  by (simp_all add: hex_encode_def)

lemma hex_encode_length: "length (hex_encode bs) = 2 * length bs"
  by (induction bs) simp_all

lemma hex_encode_inj: "hex_encode bs = hex_encode cs \<longleftrightarrow> bs = cs"
proof (induction bs arbitrary: cs)
  case Nil
  then show ?case
    by (cases cs) simp_all
next
  case (Cons b bs)
  have "b = c" if "hex_char (unat b div 16) = hex_char (unat c div 16)" "hex_char (unat b mod 16) = hex_char (unat c mod 16)" for c :: u8
    using hex_char_inj that byte_halves by (metis div_mult_mod_eq word_unat_eq_iff)
  then show ?case
    using Cons by (cases cs) auto
qed

text \<open>
  Different draws give different ids, tokens and enrolment tokens, and no enrolment token is the token of an agent, so that a device
  cannot register with the one as if it were the other.
\<close>

theorem tokens_tell_apart:
  assumes "length a = 32" "length b = 32"
  shows "(NewToken a = NewToken b) = (a = b)" "(NewEnrollToken a = NewEnrollToken b) = (a = b)" "NewEnrollToken a \<noteq> NewToken b"
    "length (NewToken a) = 64" "length (NewPassword a) = 16"
proof -
  obtain c cs where "b = c # cs"
    using assms(2) by (cases b) simp_all
  then show "NewEnrollToken a \<noteq> NewToken b"
    using hex_char_letters [OF byte_halves(1) [of c]] by (auto simp: NewEnrollToken_def NewToken_def)
qed (simp_all add: NewToken_def NewEnrollToken_def NewPassword_def hex_encode_inj hex_encode_length assms)

end
