(* ===== verification/Alert_Tracking.thy ===== *)
theory Alert_Tracking
  imports Alert_Engine Sample_Data
begin

text \<open>
  The alert engine as a whole: after any sequence of results, from any agents and about any
  subjects, a rule has a firing alert in the database for an agent and a subject exactly when the
  samples of that rule, agent and subject make it active; and there is never more than one.
\<close>

section \<open>The active alert\<close>

definition firing_uniq :: "'p db \<Rightarrow> bool" where
  "firing_uniq d \<longleftrightarrow> uniq alert_key (filter firing (rows (alerts d)))"

lemma sort_key_empty: "sort_key f xs = [] \<longleftrightarrow> xs = []"
  by (metis length_0_conv length_sort)

lemma ActiveAlert_None:
  "ActiveAlert r a s d = None \<longleftrightarrow> (\<forall>x \<in> set (rows (alerts d)). firing x \<longrightarrow> alert_key x \<noteq> (r, a, s))"
proof -
  let ?P = "\<lambda>x. al_RuleID x = r \<and> al_AgentID x = a \<and> al_Subject x = s \<and> firing x"
  have "ActiveAlert r a s d = None \<longleftrightarrow> select_desc al_ID ?P 1 (rows (alerts d)) = []"
    by (simp add: ActiveAlert_def split: list.split)
  also have "\<dots> \<longleftrightarrow> filter ?P (rows (alerts d)) = []"
    by (simp add: select_desc_def sort_key_empty)
  finally show ?thesis by (auto simp: filter_empty_conv)
qed

lemma ActiveAlert_SomeD:
  assumes "ActiveAlert r a s d = Some x"
  obtains y where "y \<in> set (rows (alerts d))" "firing y" "alert_key y = (r, a, s)" "al_ID x = al_ID y"
proof -
  let ?P = "\<lambda>x. al_RuleID x = r \<and> al_AgentID x = a \<and> al_Subject x = s \<and> firing x"
  from assms obtain y ys where "select_desc al_ID ?P 1 (rows (alerts d)) = y # ys"
    and x: "x = y\<lparr>al_ResolvedAt := None\<rparr>"
    by (auto simp: ActiveAlert_def split: list.splits)
  then have "y \<in> set (select_desc al_ID ?P 1 (rows (alerts d)))" by simp
  from set_select_desc [OF this] show ?thesis using that [of y] x by auto
qed

lemma uniq_ids: "wf_table rid t \<Longrightarrow> uniq rid (rows t)"
  by (auto simp: wf_table_def uniq_def strict_sorted_iff)

lemma uniqD: "uniq f rs \<Longrightarrow> x \<in> set rs \<Longrightarrow> y \<in> set rs \<Longrightarrow> f x = f y \<Longrightarrow> x = y"
  by (simp add: uniq_def distinct_map inj_on_def)

text \<open>Resolving: exactly the alert with the id stops firing.\<close>

lemma filter_ResolveAlert:
  "filter firing (rows (alerts (ResolveAlert n i d))) =
     filter (\<lambda>x. firing x \<and> al_ID x \<noteq> i) (rows (alerts d))"
proof -
  have "filter firing (update_where (\<lambda>a. al_ID a = i)
          (\<lambda>a. a\<lparr>al_State := ''resolved'', al_ResolvedAt := Some n\<rparr>) rs) =
        filter (\<lambda>x. firing x \<and> al_ID x \<noteq> i) rs" for rs
    by (induction rs) (auto simp: update_where_def)
  then show ?thesis by (simp add: ResolveAlert_def)
qed

lemma ActiveAlert_firing:
  "ActiveAlert r a s d = None \<longleftrightarrow> (r, a, s) \<notin> alert_key ` set (filter firing (rows (alerts d)))"
  by (auto simp: ActiveAlert_None)

lemma ResolveAlert_active:
  assumes "db_ok d" "firing_uniq d" "ActiveAlert r a s d = Some x"
  shows "ActiveAlert r' a' s' (ResolveAlert n (al_ID x) d) = None
           \<longleftrightarrow> (r', a', s') = (r, a, s) \<or> ActiveAlert r' a' s' d = None"
proof -
  obtain y where y: "y \<in> set (rows (alerts d))" "firing y" "alert_key y = (r, a, s)" "al_ID x = al_ID y"
    using assms(3) by (rule ActiveAlert_SomeD)
  have id: "z = y" if "z \<in> set (rows (alerts d))" "al_ID z = al_ID y" for z
    using uniqD [of al_ID "rows (alerts d)" z y] uniq_ids that y(1) assms(1)
    by (auto simp: db_ok_def ok_alerts_def)
  let ?F = "set (filter firing (rows (alerts d)))"
  have "inj_on alert_key ?F" "y \<in> ?F"
    using assms(2) y(1,2) by (simp_all only: firing_uniq_def uniq_def distinct_map) simp
  then have "alert_key ` (?F - {y}) = alert_key ` ?F - {(r, a, s)}"
    using inj_on_image_set_diff [of alert_key ?F ?F "{y}"] y(3) by simp
  moreover have "set (filter (\<lambda>z. firing z \<and> al_ID z \<noteq> al_ID x) (rows (alerts d))) = ?F - {y}"
    using y(4) id by auto
  ultimately show ?thesis
    unfolding ActiveAlert_firing filter_ResolveAlert by (simp only: Diff_iff singleton_iff) blast
qed

lemma FireAlert_firing:
  assumes "FireAlert n n' r a s v m d = Inr (x, d')"
  obtains y where "filter firing (rows (alerts d')) = filter firing (rows (alerts d)) @ [y]"
    "alert_key y = (r, a, s)"
  using assms by (auto simp: FireAlert_def insert_row_def Let_def split: if_splits)

lemma FireAlert_active:
  assumes "FireAlert n n' r a s v m d = Inr (x, d')"
  shows "ActiveAlert r' a' s' d' = None \<longleftrightarrow> (r', a', s') \<noteq> (r, a, s) \<and> ActiveAlert r' a' s' d = None"
proof -
  obtain y where "filter firing (rows (alerts d')) = filter firing (rows (alerts d)) @ [y]"
    "alert_key y = (r, a, s)"
    using assms by (rule FireAlert_firing)
  then show ?thesis unfolding ActiveAlert_firing by auto
qed

lemma FireAlert_uniq:
  assumes "FireAlert n n' r a s v m d = Inr (x, d')" "firing_uniq d" "ActiveAlert r a s d = None"
  shows "firing_uniq d'"
proof -
  obtain y where "filter firing (rows (alerts d')) = filter firing (rows (alerts d)) @ [y]"
    "alert_key y = (r, a, s)"
    using assms(1) by (rule FireAlert_firing)
  then show ?thesis
    using assms(2,3) unfolding firing_uniq_def ActiveAlert_firing by (simp only: uniq_snoc has_key_def) simp
qed

lemma ResolveAlert_uniq: "firing_uniq d \<Longrightarrow> firing_uniq (ResolveAlert n i d)"
  unfolding firing_uniq_def filter_ResolveAlert
  using uniq_filter [of alert_key "filter firing (rows (alerts d))" "\<lambda>x. al_ID x \<noteq> i"]
  by (simp add: conj_commute)

section \<open>One rule\<close>

definition alert_inv :: "'p alerting \<Rightarrow> bool" where
  "alert_inv s \<longleftrightarrow> db_ok (adb s) \<and> firing_uniq (adb s)"

lemma alert_inv_fire: "alert_inv s \<Longrightarrow> alert_inv (fireAlert now rule conn subj v s)"
  by (auto simp: fireAlert_def alert_inv_def split: option.splits sum.splits
      intro: FireAlert_uniq ok_FireAlert)

lemma alert_inv_resolve: "alert_inv s \<Longrightarrow> alert_inv (resolveAlert now rule conn subj s)"
  by (auto simp: resolveAlert_def alert_inv_def ResolveAlert_uniq ok_ResolveAlert split: option.splits)

lemma alert_inv_states [simp]: "alert_inv (s\<lparr>alertStates := m\<rparr>) = alert_inv s"
  by (simp add: alert_inv_def)

lemma alert_inv_rule: "alert_inv s \<Longrightarrow> alert_inv (evaluateRule now conn r test subj rule s)"
  by (auto simp: evaluateRule_def Let_def alert_inv_fire alert_inv_resolve
      split: option.split prod.split alertAction.split)

text \<open>The tables the engine reads do not change.\<close>

definition same_config :: "'p db \<Rightarrow> 'p db \<Rightarrow> bool" where
  "same_config d d' \<longleftrightarrow> alert_rules d' = alert_rules d \<and> agents d' = agents d \<and> tests d' = tests d"

lemma same_config_fire: "same_config (adb s) (adb (fireAlert now rule conn subj v s))"
  by (auto simp: fireAlert_def FireAlert_def same_config_def Let_def split: option.splits sum.splits if_splits)

lemma same_config_resolve: "same_config (adb s) (adb (resolveAlert now rule conn subj s))"
  by (simp add: resolveAlert_def ResolveAlert_def same_config_def split: option.splits)

lemma same_config_refl: "same_config d d"
  by (simp add: same_config_def)

lemma same_config_trans: "same_config d1 d2 \<Longrightarrow> same_config d2 d3 \<Longrightarrow> same_config d1 d3"
  by (simp add: same_config_def)

lemma same_config_rule: "same_config (adb s) (adb (evaluateRule now conn r test subj rule s))"
  using same_config_fire [of "s\<lparr>alertStates := m\<rparr>" for m] same_config_resolve [of "s\<lparr>alertStates := m\<rparr>" for m]
  by (auto simp: evaluateRule_def Let_def same_config_refl split: option.split prod.split alertAction.split)

lemma fire_active:
  assumes "has_key ar_ID (ar_ID rule) (alert_rules (adb s))" "has_key ag_ID (ag_ID (ca_agent conn)) (agents (adb s))"
  shows "ActiveAlert r a u (adb (fireAlert now rule conn subj v s)) = None
           \<longleftrightarrow> (r, a, u) \<noteq> (ar_ID rule, ag_ID (ca_agent conn), subj) \<and> ActiveAlert r a u (adb s) = None"
proof (cases "ActiveAlert (ar_ID rule) (ag_ID (ca_agent conn)) subj (adb s)")
  case None
  obtain x d' where f: "FireAlert now now (ar_ID rule) (ag_ID (ca_agent conn)) subj v
      (alertMessage rule conn subj v) (adb s) = Inr (x, d')"
    using assms by (simp add: FireAlert_def Let_def)
  then show ?thesis using None FireAlert_active [OF f] by (simp add: fireAlert_def)
next
  case (Some x)
  then show ?thesis by (auto simp: fireAlert_def)
qed

lemma resolve_active:
  assumes "alert_inv s"
  shows "ActiveAlert r a u (adb (resolveAlert now rule conn subj s)) = None
           \<longleftrightarrow> (r, a, u) = (ar_ID rule, ag_ID (ca_agent conn), subj) \<or> ActiveAlert r a u (adb s) = None"
proof (cases "ActiveAlert (ar_ID rule) (ag_ID (ca_agent conn)) subj (adb s)")
  case None
  then show ?thesis by (auto simp: resolveAlert_def)
next
  case (Some x)
  then show ?thesis
    using assms ResolveAlert_active [OF _ _ Some] by (simp add: resolveAlert_def alert_inv_def)
qed

section \<open>Counters and alerts follow the history\<close>

text \<open>
  \<open>tracks rule a u s h\<close>: for the agent \<open>a\<close> and the subject \<open>u\<close>, the counters and the stored alert of
  the rule are those of the samples \<open>h\<close>.
\<close>

definition counters :: "'p alerting \<Rightarrow> string \<Rightarrow> alertState" where
  "counters s key = (case alertStates s key of None \<Rightarrow> zeroState | Some st \<Rightarrow> st)"

definition tracks :: "AlertRule \<Rightarrow> string \<Rightarrow> string \<Rightarrow> 'p alerting \<Rightarrow> sample list \<Rightarrow> bool" where
  "tracks rule a u s h \<longleftrightarrow> counters s (alertKey (ar_ID rule) a u) = fst (hyst rule h)
     \<and> (ActiveAlert (ar_ID rule) a u (adb s) \<noteq> None \<longleftrightarrow> hyst_active rule h)"

lemma states_fire [simp]: "alertStates (fireAlert now rule conn subj v s) = alertStates s"
  by (simp add: fireAlert_def split: option.split sum.split)

lemma states_resolve [simp]: "alertStates (resolveAlert now rule conn subj s) = alertStates s"
  by (simp add: resolveAlert_def split: option.split)

lemma counters_cong: "alertStates s = alertStates s' \<Longrightarrow> counters s = counters s'"
  by (simp add: counters_def fun_eq_iff)

definition set_counter :: "string \<Rightarrow> alertState \<Rightarrow> 'p alerting \<Rightarrow> 'p alerting" where
  "set_counter key nxt s = s\<lparr>alertStates := (if nxt = zeroState then (alertStates s)(key := None)
                                              else (alertStates s)(key \<mapsto> nxt))\<rparr>"

lemma counters_set_counter [simp]:
  "counters (set_counter key nxt s) key' = (if key' = key then nxt else counters s key')"
  by (simp add: set_counter_def counters_def)

lemma adb_set_counter [simp]: "adb (set_counter key nxt s) = adb s"
  by (simp add: set_counter_def)

lemma evaluateRule_unfold:
  "evaluateRule now conn r test subj rule s =
     (case evalRule rule r test of
        None \<Rightarrow> s
      | Some smp \<Rightarrow>
          (let key = alertKey (ar_ID rule) (ag_ID (ca_agent conn)) subj;
               d = decideAlert (counters s key) rule (fst smp) (snd smp);
               s = set_counter key (fst d) s
           in case snd d of
                alertFire \<Rightarrow> fireAlert now rule conn subj (snd smp) s
              | alertResolve \<Rightarrow> resolveAlert now rule conn subj s
              | alertNone \<Rightarrow> s))"
  by (simp only: evaluateRule_def counters_def set_counter_def Let_def case_prod_beta)

lemma alert_inv_set_counter [simp]: "alert_inv (set_counter k n s) = alert_inv s"
  by (simp add: alert_inv_def)

lemma evaluateRule_tracks:
  assumes inv: "alert_inv s" and t: "tracks rule (ag_ID (ca_agent conn)) subj s h"
    and k: "has_key ar_ID (ar_ID rule) (alert_rules (adb s))"
      "has_key ag_ID (ag_ID (ca_agent conn)) (agents (adb s))"
    and e: "evalRule rule r test = Some smp"
  shows "tracks rule (ag_ID (ca_agent conn)) subj (evaluateRule now conn r test subj rule s) (smp # h)"
proof -
  let ?key = "alertKey (ar_ID rule) (ag_ID (ca_agent conn)) subj"
  define s' where "s' = set_counter ?key (fst (hyst rule (smp # h))) s"
  have c: "counters s ?key = fst (hyst rule h)" using t by (simp add: tracks_def)
  have act: "ActiveAlert (ar_ID rule) (ag_ID (ca_agent conn)) subj (adb s') \<noteq> None \<longleftrightarrow> hyst_active rule h"
    using t by (simp add: tracks_def s'_def)
  have ev: "evaluateRule now conn r test subj rule s =
      (case snd (hyst rule (smp # h)) of
         alertFire \<Rightarrow> fireAlert now rule conn subj (snd smp) s'
       | alertResolve \<Rightarrow> resolveAlert now rule conn subj s' | alertNone \<Rightarrow> s')"
    unfolding evaluateRule_unfold e c s'_def Let_def hyst.simps by simp
  have cs: "counters s' ?key = fst (hyst rule (smp # h))" by (simp add: s'_def)
  have k': "has_key ar_ID (ar_ID rule) (alert_rules (adb s'))"
      "has_key ag_ID (ag_ID (ca_agent conn)) (agents (adb s'))" "alert_inv s'"
    using k inv by (simp_all add: s'_def)
  show ?thesis
  proof (cases "snd (hyst rule (smp # h))")
    case alertNone
    then show ?thesis using ev cs act by (simp add: tracks_def del: hyst.simps)
  next
    case alertFire
    then show ?thesis
      using ev cs fire_active [OF k'(1,2), of "ar_ID rule" "ag_ID (ca_agent conn)" subj now subj]
      by (simp add: tracks_def counters_cong [of "fireAlert _ _ _ _ _ s'" s'] del: hyst.simps)
  next
    case alertResolve
    then show ?thesis
      using ev cs resolve_active [OF k'(3), of "ar_ID rule" "ag_ID (ca_agent conn)" subj now rule conn subj]
      by (simp add: tracks_def counters_cong [of "resolveAlert _ _ _ _ s'" s'] del: hyst.simps)
  qed
qed

text \<open>Evaluating a rule leaves every other key alone.\<close>

lemma evaluateRule_frame:
  assumes "alert_inv s"
    and "alertKey (ar_ID q) a u \<noteq> alertKey (ar_ID rule) (ag_ID (ca_agent conn)) subj"
  shows "tracks q a u (evaluateRule now conn r test subj rule s) h = tracks q a u s h"
proof -
  have ne: "(ar_ID q, a, u) \<noteq> (ar_ID rule, ag_ID (ca_agent conn), subj)" using assms(2) by auto
  have fire: "(ActiveAlert (ar_ID q) a u (adb (fireAlert now rule conn subj v s')) = None) =
      (ActiveAlert (ar_ID q) a u (adb s') = None)" for v s'
    using ne by (auto simp: fireAlert_def split: option.split sum.split
        dest!: FireAlert_active [where r' = "ar_ID q" and a' = a and s' = u])
  have res: "(ActiveAlert (ar_ID q) a u (adb (resolveAlert now rule conn subj s')) = None) =
      (ActiveAlert (ar_ID q) a u (adb s') = None)" if "alert_inv s'" for s'
    using ne resolve_active [OF that, of "ar_ID q" a u now rule conn subj] by blast
  have tf: "tracks q a u (fireAlert now rule conn subj v s') h = tracks q a u s' h" for v s'
    using fire [of v s'] by (simp add: tracks_def counters_cong [of "fireAlert now rule conn subj v s'" s'])
  have tr: "tracks q a u (resolveAlert now rule conn subj s') h = tracks q a u s' h" if "alert_inv s'" for s'
    using res [OF that] by (simp add: tracks_def counters_cong [of "resolveAlert now rule conn subj s'" s'])
  have ts: "tracks q a u (set_counter (alertKey (ar_ID rule) (ag_ID (ca_agent conn)) subj) n s) h
      = tracks q a u s h" for n
    using assms(2) by (simp add: tracks_def)
  show ?thesis
    using assms(1) by (simp add: evaluateRule_unfold Let_def tf tr ts split: option.split alertAction.split)
qed

section \<open>Sequences of results\<close>

record event =
  ev_now :: go_time
  ev_conn :: connectedAgent
  ev_result :: TestResult
  ev_test :: "TestDef option"

definition evaluate :: "event \<Rightarrow> 'p alerting \<Rightarrow> 'p alerting" where
  "evaluate e s = evaluateAlerts (ev_now e) (ev_conn e) (ev_result e) (ev_test e) s"

text \<open>The sample an event gives to a rule for an agent and a subject, if any.\<close>

definition sample_of :: "AlertRule \<Rightarrow> string \<Rightarrow> string \<Rightarrow> event \<Rightarrow> sample option" where
  "sample_of rule a u e =
     (if rs_TestId (ev_result e) = ar_TestID rule \<and> ag_ID (ca_agent (ev_conn e)) = a
         \<and> SubjectOf (ev_result e) = u
      then evalRule rule (ev_result e) (ev_test e) else None)"

text \<open>The newest-first history after the events \<open>es\<close>.\<close>

definition history :: "AlertRule \<Rightarrow> string \<Rightarrow> string \<Rightarrow> event list \<Rightarrow> sample list" where
  "history rule a u es = rev (List.map_filter (sample_of rule a u) es)"

definition bar_free :: "string \<Rightarrow> bool" where
  "bar_free s \<longleftrightarrow> CHR ''|'' \<notin> set s"

lemma bar_split:
  "bar_free x \<Longrightarrow> bar_free y \<Longrightarrow> x @ ''|'' @ xs = y @ ''|'' @ ys \<longleftrightarrow> x = y \<and> xs = ys"
proof (induction x arbitrary: y)
  case Nil
  then show ?case by (cases y) (auto simp: bar_free_def)
next
  case (Cons c x)
  then show ?case by (cases y) (auto simp: bar_free_def)
qed

lemma alertKey_inj:
  assumes "bar_free r" "bar_free r'" "bar_free a" "bar_free a'"
  shows "alertKey r a u = alertKey r' a' u' \<longleftrightarrow> (r, a, u) = (r', a', u')"
  using assms by (simp only: alertKey_def bar_split prod.inject)

lemma fold_rules_inv: "alert_inv s \<Longrightarrow> alert_inv (fold (evaluateRule now conn r test subj) rules s)"
  by (induction rules arbitrary: s) (simp_all add: alert_inv_rule)

lemma fold_rules_config: "same_config (adb s) (adb (fold (evaluateRule now conn r test subj) rules s))"
  by (induction rules arbitrary: s) (auto simp: same_config_refl intro: same_config_trans same_config_rule)

lemma evaluate_inv: "alert_inv s \<Longrightarrow> alert_inv (evaluate e s)"
  by (simp add: evaluate_def evaluateAlerts_def Let_def fold_rules_inv)

lemma evaluate_config: "same_config (adb s) (adb (evaluate e s))"
  by (simp add: evaluate_def evaluateAlerts_def Let_def fold_rules_config same_config_refl)

lemma fold_rules_frame:
  assumes "alert_inv s" "\<forall>p \<in> set rules. alertKey (ar_ID q) a u \<noteq> alertKey (ar_ID p) (ag_ID (ca_agent conn)) subj"
  shows "tracks q a u (fold (evaluateRule now conn r test subj) rules s) h = tracks q a u s h"
  using assms by (induction rules arbitrary: s) (simp_all add: evaluateRule_frame alert_inv_rule)

lemma join_test_SomeD: "join_test d x = Some p \<Longrightarrow> ar_ID p = ar_ID x \<and> ar_TestID p = ar_TestID x"
  by (auto simp: join_test_def)

lemma map_filter_eq: "List.map_filter f xs = map (the \<circ> f) (filter (\<lambda>x. f x \<noteq> None) xs)"
  by (induction xs) (auto simp: List.map_filter_def)

lemma RulesForTest_row:
  assumes "p \<in> set (RulesForTest t d)"
  obtains x where "x \<in> set (alert_rules d)" "ar_ID p = ar_ID x" "ar_TestID x = t" "ar_TestID p = t"
proof -
  from assms obtain x where "x \<in> set (alert_rules d)" "ar_TestID x = t" "join_test d x = Some p"
    by (auto simp: RulesForTest_def map_filter_eq)
  then show ?thesis using that [of x] join_test_SomeD [of d x p] by simp
qed

lemma RulesForTest_ids:
  assumes "uniq ar_ID (alert_rules d)"
  shows "distinct (map ar_ID (RulesForTest t d))"
proof -
  let ?P = "\<lambda>x. join_test d x \<noteq> None" and ?Q = "\<lambda>r. ar_TestID r = t"
  have "map ar_ID (RulesForTest t d) = map ar_ID (filter ?P (filter ?Q (alert_rules d)))"
    by (auto simp: RulesForTest_def map_filter_eq dest: join_test_SomeD)
  then show ?thesis
    using assms uniq_filter [OF uniq_filter [OF assms, of ?Q], of ?P] by (simp only: uniq_def)
qed

lemma RulesForTest_same_id:
  assumes "uniq ar_ID (alert_rules d)" "p \<in> set (RulesForTest t d)" "q \<in> set (RulesForTest t' d)"
    "ar_ID p = ar_ID q"
  shows "p = q \<and> t = t'"
proof -
  obtain x where x: "x \<in> set (alert_rules d)" "ar_ID p = ar_ID x" "ar_TestID x = t" "ar_TestID p = t"
    using assms(2) by (rule RulesForTest_row)
  obtain y where y: "y \<in> set (alert_rules d)" "ar_ID q = ar_ID y" "ar_TestID y = t'" "ar_TestID q = t'"
    using assms(3) by (rule RulesForTest_row)
  have "x = y" using uniqD [OF assms(1) x(1) y(1)] x y assms(4) by simp
  then have t: "t = t'" using x y by simp
  then show ?thesis
    using t assms(2,3,4) RulesForTest_ids [OF assms(1), of t] by (auto simp: distinct_map inj_on_def)
qed

lemma evaluate_tracks:
  assumes inv: "alert_inv s" and t: "tracks rule a u s h"
    and rule: "rule \<in> set (RulesForTest (ar_TestID rule) (adb s))" "ar_TestID rule \<noteq> ''''"
    and agent: "has_key ag_ID a (agents (adb s))"
    and ids: "\<forall>p \<in> set (alert_rules (adb s)). bar_free (ar_ID p)" "bar_free a"
      "bar_free (ag_ID (ca_agent (ev_conn e)))"
  shows "tracks rule a u (evaluate e s) (case sample_of rule a u e of None \<Rightarrow> h | Some x \<Rightarrow> x # h)"
proof -
  let ?b = "ag_ID (ca_agent (ev_conn e))" and ?v = "SubjectOf (ev_result e)"
    and ?rules = "RulesForTest (rs_TestId (ev_result e)) (adb s)"
    and ?ev = "evaluateRule (ev_now e) (ev_conn e) (ev_result e) (ev_test e) (SubjectOf (ev_result e))"
  have u: "uniq ar_ID (alert_rules (adb s))" using inv by (simp add: alert_inv_def db_ok_def ok_alert_rules_def)
  have free: "bar_free (ar_ID p)" if "p \<in> set (RulesForTest t' (adb s))" for p t'
    using RulesForTest_row [OF that] ids(1) by metis
  have key: "alertKey (ar_ID rule) a u = alertKey (ar_ID p) ?b ?v
      \<longleftrightarrow> p = rule \<and> rs_TestId (ev_result e) = ar_TestID rule \<and> ?b = a \<and> ?v = u" if "p \<in> set ?rules" for p
  proof -
    have "ar_ID rule = ar_ID p \<longleftrightarrow> p = rule \<and> rs_TestId (ev_result e) = ar_TestID rule"
      using RulesForTest_same_id [OF u rule(1) that] by auto
    then show ?thesis
      using alertKey_inj [OF free [OF rule(1)] free [OF that] ids(2,3), of u ?v] by auto
  qed
  have ev: "evaluate e s = (if rs_TestId (ev_result e) = '''' then s else fold ?ev ?rules s)"
    by (simp add: evaluate_def evaluateAlerts_def Let_def)
  show ?thesis
  proof (cases "rs_TestId (ev_result e) = ar_TestID rule \<and> ?b = a \<and> ?v = u")
    case False
    then have "\<forall>p \<in> set ?rules. alertKey (ar_ID rule) a u \<noteq> alertKey (ar_ID p) ?b ?v" using key by blast
    from fold_rules_frame [OF inv this] False t show ?thesis by (auto simp: ev sample_of_def)
  next
    case True
    from rule(1) True obtain us vs where sp: "?rules = us @ rule # vs"
      by (metis split_list)
    have d: "p \<noteq> rule" if "p \<in> set us \<union> set vs" for p
      using RulesForTest_ids [OF u, of "rs_TestId (ev_result e)"] that by (auto simp: sp)
    then have fus: "\<forall>p \<in> set us. alertKey (ar_ID rule) a u \<noteq> alertKey (ar_ID p) ?b ?v"
      and fvs: "\<forall>p \<in> set vs. alertKey (ar_ID rule) a u \<noteq> alertKey (ar_ID p) ?b ?v"
      using key sp by auto
    define s1 where "s1 = fold ?ev us s"
    have inv1: "alert_inv s1" and t1: "tracks rule a u s1 h" and c1: "same_config (adb s) (adb s1)"
      unfolding s1_def using inv t fold_rules_inv fold_rules_frame [OF inv fus] fold_rules_config by auto
    have k: "has_key ar_ID (ar_ID rule) (alert_rules (adb s1))" "has_key ag_ID ?b (agents (adb s1))"
      using c1 agent True RulesForTest_row [OF rule(1)] by (auto simp: same_config_def has_key_def)
    have "tracks rule a u (?ev rule s1) (case sample_of rule a u e of None \<Rightarrow> h | Some x \<Rightarrow> x # h)"
    proof (cases "evalRule rule (ev_result e) (ev_test e)")
      case None
      then show ?thesis using t1 True by (simp add: sample_of_def evaluateRule_def)
    next
      case (Some smp)
      then show ?thesis
        using evaluateRule_tracks [OF inv1 _ k Some, of ?v h] t1 True by (simp add: sample_of_def)
    qed
    moreover have "evaluate e s = fold ?ev vs (?ev rule s1)"
      using True rule(2) unfolding ev sp s1_def by simp
    ultimately show ?thesis
      using fold_rules_frame [OF alert_inv_rule [OF inv1] fvs] by simp
  qed
qed

lemma same_config_rules: "same_config d d' \<Longrightarrow> RulesForTest t d' = RulesForTest t d"
proof -
  assume "same_config d d'"
  then have "join_test d' = join_test d" "alert_rules d' = alert_rules d"
    by (simp_all add: same_config_def join_test_def fun_eq_iff)
  then show ?thesis by (simp add: RulesForTest_def)
qed

definition conns_bar_free :: "event list \<Rightarrow> bool" where
  "conns_bar_free es \<longleftrightarrow> (\<forall>e \<in> set es. bar_free (ag_ID (ca_agent (ev_conn e))))"

text \<open>A rule watching its test, and an agent, with ids as \<open>newID\<close> makes them.\<close>

definition watched :: "AlertRule \<Rightarrow> string \<Rightarrow> 'p db \<Rightarrow> bool" where
  "watched rule a d \<longleftrightarrow> rule \<in> set (RulesForTest (ar_TestID rule) d) \<and> ar_TestID rule \<noteq> ''''
     \<and> has_key ag_ID a (agents d) \<and> bar_free a \<and> (\<forall>p \<in> set (alert_rules d). bar_free (ar_ID p))"

lemma watched_config: "same_config d d' \<Longrightarrow> watched rule a d' = watched rule a d"
  by (simp add: watched_def same_config_rules) (simp add: same_config_def)

lemma run_tracks:
  assumes "alert_inv s" "tracks rule a u s h" "watched rule a (adb s)" "conns_bar_free es"
  shows "tracks rule a u (fold evaluate es s) (history rule a u es @ h)"
  using assms
proof (induction es arbitrary: s h)
  case Nil
  then show ?case by (simp add: history_def List.map_filter_def)
next
  case (Cons e es)
  let ?h = "case sample_of rule a u e of None \<Rightarrow> h | Some x \<Rightarrow> x # h"
  have "tracks rule a u (evaluate e s) ?h"
    using Cons.prems by (intro evaluate_tracks) (auto simp: watched_def conns_bar_free_def)
  moreover have "watched rule a (adb (evaluate e s))"
    using Cons.prems watched_config [OF evaluate_config] by blast
  ultimately have "tracks rule a u (fold evaluate es (evaluate e s)) (history rule a u es @ ?h)"
    using Cons by (auto simp: evaluate_inv conns_bar_free_def)
  moreover have "history rule a u (e # es) @ h = history rule a u es @ ?h"
    by (auto simp: history_def List.map_filter_def split: option.split)
  ultimately show ?case by simp
qed

lemma run_inv: "alert_inv s \<Longrightarrow> alert_inv (fold evaluate es s)"
  by (induction es arbitrary: s) (simp_all add: evaluate_inv)

definition start :: "'p db \<Rightarrow> 'p alerting" where
  "start d = \<lparr>alertStates = Map.empty, adb = d, notified = []\<rparr>"

lemma tracks_start: "ActiveAlert (ar_ID rule) a u d = None \<Longrightarrow> tracks rule a u (start d) []"
  by (simp add: tracks_def start_def counters_def)

section \<open>Properties\<close>

text \<open>
  C2. The hysteresis machine implements the documented rule: after any history of samples it has
  fired and not resolved exactly when the specification says so (the last \<open>ForCount\<close> samples in a
  row breached; it clears when the last \<open>ClearCount\<close> samples in a row satisfied the clear
  condition; a sample in the dead band changes nothing).
\<close>

theorem decideAlert_implements_spec:
  assumes "1 \<le> ar_ClearCount rule"
  shows "hyst_active rule h = alert_active rule h
    \<and> fst (decideAlert (fst (hyst rule h)) rule (fst s) (snd s)) =
           \<lparr>breaches = breach_streak (s # h), goods = clear_streak rule (s # h) mod ar_ClearCount rule\<rparr>"
  using hyst_active_spec [OF assms] hyst_state [OF assms, of "s # h"] by simp_all

theorem decideAlert_implements_spec_witness:
  "hyst_active demo_rule [(True, 1), (True, 1)] \<and> \<not> hyst_active demo_rule [(False, 0), (True, 1), (True, 1)]"
proof -
  have "1 \<le> ar_ClearCount demo_rule" by (simp add: demo_rule_def)
  from decideAlert_implements_spec [OF this, of "[(True, 1), (True, 1)]"]
    decideAlert_implements_spec [OF this, of "[(False, 0), (True, 1), (True, 1)]"]
  show ?thesis by (simp add: clears_def clearCondition_def demo_rule_def)
qed

text \<open>
  C1. Alert lifecycle, end to end: starting with no counters and no firing alert, after any sequence
  of results, from any agents, of any tests and about any subjects, the database has a firing alert
  for a rule, an agent and a subject exactly when the history of that rule's samples for that agent
  and subject makes it active. Results of other agents, tests and subjects never interfere.
\<close>

theorem alert_lifecycle:
  assumes "db_ok d" "\<forall>x \<in> set (rows (alerts d)). \<not> firing x"
    and "watched rule a d" "conns_bar_free es" "1 \<le> ar_ClearCount rule"
  shows "ActiveAlert (ar_ID rule) a u (adb (fold evaluate es (start d))) \<noteq> None
           \<longleftrightarrow> alert_active rule (history rule a u es)"
proof -
  have inv: "alert_inv (start d)"
    using assms(1,2) by (simp add: alert_inv_def start_def firing_uniq_def)
  have "tracks rule a u (fold evaluate es (start d)) (history rule a u es)"
    using run_tracks [OF inv tracks_start, of rule a u es] assms by (simp add: ActiveAlert_None start_def)
  then show ?thesis by (simp add: tracks_def hyst_active_spec [OF assms(5)])
qed

definition demo_event :: "string \<Rightarrow> event" where
  "demo_event err = \<lparr>ev_now = 0, ev_conn = \<lparr>ca_agent = demo_agent, ca_tenant = ''acme''\<rparr>,
     ev_result = \<lparr>rs_Time = None, rs_Error = err, rs_TestId = ''x1'', rs_TestName = ''gw'',
                  rs_Result = TestResult_None\<rparr>, ev_test = None\<rparr>"

definition joined_rule :: AlertRule where
  "joined_rule = demo_rule\<lparr>ar_TestName := ''gw''\<rparr>"

lemma demo_watched: "watched joined_rule ''a1'' demo_db"
  by (simp add: watched_def RulesForTest_def join_test_def joined_rule_def has_key_def bar_free_def
      demo_defs List.map_filter_def)

lemma demo_sample:
  "sample_of joined_rule ''a1'' '''' (demo_event err) = Some (err \<noteq> '''', 0)"
  by (simp add: sample_of_def demo_event_def joined_rule_def demo_defs SubjectOf_def OfResult_by_payload
      evalRule_def resultOK_def)

theorem alert_lifecycle_witness:
  "ActiveAlert ''r1'' ''a1'' '''' (adb (fold evaluate [demo_event ''e'', demo_event ''e''] (start (demo_db :: TestResult db)))) \<noteq> None
   \<and> ActiveAlert ''r1'' ''a1'' '''' (adb (fold evaluate [demo_event ''e'', demo_event '''', demo_event ''e''] (start (demo_db :: TestResult db)))) = None"
proof -
  have r: "ar_ID joined_rule = ''r1''" "ar_ForCount joined_rule = 2" "ar_ClearCount joined_rule = 1"
    "ar_ClearThreshold joined_rule = None"
    by (simp_all add: joined_rule_def demo_rule_def)
  have b: "conns_bar_free [demo_event x, demo_event y]" "conns_bar_free [demo_event x, demo_event y, demo_event z]" for x y z
    by (simp_all add: conns_bar_free_def demo_event_def demo_agent_def bar_free_def)
  note L = alert_lifecycle [OF demo_db_ok [where ?'a = TestResult] _ demo_watched _, of _ "''''"]
  show ?thesis
    using L [OF _ b(1) [of "''e''" "''e''"]] L [OF _ b(2) [of "''e''" "''''" "''e''"]]
    by (simp add: r history_def map_filter_simps demo_sample clears_def clearCondition_def)
qed

text \<open>
  C3. There is never more than one firing alert for the same rule, agent and subject, and the
  schema's constraints hold, after any sequence of results.
\<close>

theorem one_firing_alert:
  assumes "db_ok d" "firing_uniq d"
  shows "firing_uniq (adb (fold evaluate es (start d))) \<and> db_ok (adb (fold evaluate es (start d)))"
  using run_inv [of "start d" es] assms by (simp add: alert_inv_def start_def)

theorem one_firing_alert_witness:
  "firing_uniq (adb (fold evaluate [demo_event ''e'', demo_event ''e'', demo_event ''e''] (start (demo_db :: TestResult db))))"
proof -
  have "firing_uniq (demo_db :: TestResult db)" by (simp add: firing_uniq_def)
  from one_firing_alert [OF demo_db_ok this] show ?thesis by blast
qed

end
