(* ===== verification/Control_Properties.thy ===== *)
theory Control_Properties
  imports Control_Stream Alert_Tracking
begin

text \<open>
  What the control stream guarantees: who is admitted, what is pushed to whom, and that the registry
  of connections stays consistent under any interleaving of streams, API pushes and store changes;
  and the two interleavings under which it does not behave as meant.
\<close>

section \<open>The registry\<close>

definition conn_open :: "server \<Rightarrow> string \<Rightarrow> nat \<Rightarrow> bool" where
  "conn_open s aid c \<longleftrightarrow> c < sv_next s \<and> \<not> ch_closed (sv_push s c)
     \<and> (\<exists>conn. sv_conns s c = Some conn \<and> ag_ID (ca_agent conn) = aid)"

definition registry_ok :: "server \<Rightarrow> bool" where
  "registry_ok s \<longleftrightarrow> (\<forall>aid c. sv_connected s aid = Some c \<longrightarrow> conn_open s aid c)
     \<and> (\<forall>c. length (ch_buf (sv_push s c)) \<le> push_capacity)"

text \<open>Updates that the registry does not see.\<close>

lemma registry_ok_cong:
  assumes "sv_connected s' = sv_connected s" "sv_next s' = sv_next s" "sv_push s' = sv_push s"
    "sv_conns s' = sv_conns s"
  shows "registry_ok s' = registry_ok s"
  using assms by (simp add: registry_ok_def conn_open_def)

lemma registry_ok_metrics [simp]: "registry_ok (record_metrics us s) = registry_ok s"
  by (rule registry_ok_cong) (simp_all add: record_metrics_def)

lemma registry_ok_set_connected [simp]: "registry_ok (set_connected conn up s) = registry_ok s"
  by (simp add: set_connected_def)

lemma registry_ok_db [simp]: "registry_ok (s\<lparr>sv_db := d\<rparr>) = registry_ok s"
  by (rule registry_ok_cong) simp_all

lemma registry_ok_reconnect [simp]: "registry_ok (recordReconnect now a s) = registry_ok s"
  by (rule registry_ok_cong) (simp_all add: recordReconnect_def Let_def)

lemma registry_ok_alerting [simp]: "registry_ok (with_alerting s x) = registry_ok s"
  by (rule registry_ok_cong) (simp_all add: with_alerting_def)






lemma admit_facts:
  assumes "admit conn s = (c, s')"
  shows "c = sv_next s" "sv_next s' = Suc c" "sv_conns s' = (sv_conns s)(c \<mapsto> conn)"
    "sv_connected s' = (sv_connected s)(ag_ID (ca_agent conn) \<mapsto> c)" "sv_metrics s' = sv_metrics s"
    "sv_push s' k = (if k = c then \<lparr>ch_buf = [], ch_closed = False\<rparr>
       else if sv_connected s (ag_ID (ca_agent conn)) = Some k then (sv_push s k)\<lparr>ch_closed := True\<rparr>
       else sv_push s k)"
  using assms by (auto simp: admit_def close_chan_def Let_def split: option.splits)








text \<open>A send on a channel that is open does not panic.\<close>

lemma send_open: "\<not> ch_closed (sv_push s c) \<Longrightarrow> \<exists>b s'. send c m s = Some (b, s')"
  by (cases "length (ch_buf (sv_push s c)) < push_capacity") (auto simp: send_def Let_def)

lemma GetAgent_ID: "GetAgent aid d = Inr a \<Longrightarrow> ag_ID a = aid"
  by (auto simp: GetAgent_def first_agent_def List.map_filter_def scanAgent_def filter_eq_Cons_iff
      split: list.splits option.splits)

section \<open>The server as a transition system\<close>

text \<open>
  Streams open, receive, forward pushes and close in any order, and the store changes underneath by any of its
  operations. A push of the API is not one step: it looks the connection up under the lock, releases it, and sends, or
  puts the agent's new record into the connection, later. The state has the lookups whose sends are still to come, with
  the agent that was asked for, and anything can happen before them. A send on a closed channel is a panic, and no
  step: the process is gone.
\<close>

type_synonym lookups = "(string \<times> nat) list"

inductive server_step :: "server \<times> lookups \<Rightarrow> server \<times> lookups \<Rightarrow> bool" where
  step_open: "stream_open i now m cn s = (x, s') \<Longrightarrow> server_step (s, ls) (s', ls)"
| step_recv: "server_step (s, ls) (stream_recv en lk now c m s, ls)"
| step_push: "stream_push c s = Some (x, s') \<Longrightarrow> server_step (s, ls) (s', ls)"
| step_close: "server_step (s, ls) (stream_close c opened s, ls)"
| step_store: "store_step (sv_db s) d \<Longrightarrow> server_step (s, ls) (s\<lparr>sv_db := d\<rparr>, ls)"
| step_lookup: "sv_connected s aid = Some c \<Longrightarrow> server_step (s, ls) (s, (aid, c) # ls)"
| step_refresh: "(aid, c) \<in> set ls \<Longrightarrow> sv_conns s c = Some conn \<Longrightarrow> ag_ID fresh = aid \<Longrightarrow>
    server_step (s, ls) (record_metrics us (s\<lparr>sv_conns := (sv_conns s)(c \<mapsto> conn\<lparr>ca_agent := fresh\<rparr>)\<rparr>), ls)"
| step_send: "(aid, c) \<in> set ls \<Longrightarrow> send c m s = Some (b, s') \<Longrightarrow> server_step (s, ls) (s', remove1 (aid, c) ls)"
| step_give_up: "server_step (s, ls) (s, remove1 l ls)"














text \<open>
  The pushes of the API, each as a whole, are such steps with nothing in between: the lookup, the refresh of the
  record, the send.
\<close>

lemma lookup_and_send:
  assumes "sv_connected s aid = Some c" "send c m s = Some (b, s')"
  shows "server_step\<^sup>*\<^sup>* (s, ls) (s', ls)"
proof -
  have "server_step (s, ls) (s, (aid, c) # ls)" using assms(1) by (rule step_lookup)
  moreover have "server_step (s, (aid, c) # ls) (s', ls)" using step_send [of aid c "(aid, c) # ls" m s b s'] assms(2) by simp
  ultimately show ?thesis by simp
qed

lemma RunTest_steps: "RunTest aid t s = Some (b, s') \<Longrightarrow> server_step\<^sup>*\<^sup>* (s, ls) (s', ls)"
  using lookup_and_send by (fastforce simp: RunTest_def split: option.splits)

lemma PushConfigs_steps: "PushConfigs ids s = Some (n, s') \<Longrightarrow> server_step\<^sup>*\<^sup>* (s, ls) (s', ls)"
proof (induction ids s arbitrary: n rule: PushConfigs.induct)
  case (2 aid ids s)
  show ?case
  proof (cases "sv_connected s aid")
    case (Some c)
    show ?thesis
    proof (cases "sv_conns s c")
      case conn: (Some conn)
      obtain b s1 n1 where s1: "send c (ServerMessage_Config (fst (ConfigForAgent (ca_agent conn) (sv_db s)))) s = Some (b, s1)"
          "PushConfigs ids s1 = Some (n1, s')"
        using 2(4) Some conn by (auto split: option.splits)
      show ?thesis
        using rtranclp_trans [OF lookup_and_send [OF Some s1(1)] 2(3) [OF Some conn s1(1) refl s1(2)]] .
    qed (use 2 Some in simp)
  qed (use 2 in simp)
qed simp

lemma RefreshAgent_steps:
  assumes "RefreshAgent aid s = Some (n, s')"
  shows "server_step\<^sup>*\<^sup>* (s, ls) (s', ls)"
proof (cases "sv_connected s aid")
  case (Some c)
  show ?thesis
  proof (cases "sv_conns s c = None \<or> (\<exists>e. GetAgent aid (sv_db s) = Inl e)")
    case False
    then obtain conn fresh where f: "sv_conns s c = Some conn" "GetAgent aid (sv_db s) = Inr fresh"
      by (cases "GetAgent aid (sv_db s)") auto
    define us where "us = (if ag_SiteName fresh \<noteq> ag_SiteName (ca_agent conn) \<or> ag_Name fresh \<noteq> ag_Name (ca_agent conn)
      then SetConnected (ca_tenant conn) (ag_SiteName (ca_agent conn)) (ag_Name (ca_agent conn)) False
        @ SetConnected (ca_tenant conn) (ag_SiteName fresh) (ag_Name fresh) True else [])"
    let ?s = "record_metrics us (s\<lparr>sv_conns := (sv_conns s)(c \<mapsto> conn\<lparr>ca_agent := fresh\<rparr>)\<rparr>)"
    have "(if ag_SiteName fresh \<noteq> ag_SiteName (ca_agent conn) \<or> ag_Name fresh \<noteq> ag_Name (ca_agent conn)
        then set_connected (conn\<lparr>ca_agent := fresh\<rparr>) True (set_connected conn False s) else s)\<lparr>sv_conns := (sv_conns s)(c \<mapsto> conn\<lparr>ca_agent := fresh\<rparr>)\<rparr> = ?s"
      by (rule server.equality) (simp_all add: us_def set_connected_def record_metrics_def apply_updates_def)
    moreover have "sv_conns (if ag_SiteName fresh \<noteq> ag_SiteName (ca_agent conn) \<or> ag_Name fresh \<noteq> ag_Name (ca_agent conn)
        then set_connected (conn\<lparr>ca_agent := fresh\<rparr>) True (set_connected conn False s) else s) = sv_conns s"
      by (simp add: set_connected_def record_metrics_def)
    ultimately have "PushConfigs [aid] ?s = Some (n, s')"
      using assms Some f by (simp add: RefreshAgent_def Let_def del: PushConfigs.simps)
    moreover have "server_step (s, ls) (s, (aid, c) # ls)" "server_step (s, (aid, c) # ls) (?s, (aid, c) # ls)"
        "server_step (?s, (aid, c) # ls) (?s, ls)"
      using Some f GetAgent_ID [OF f(2)] step_give_up [of ?s "(aid, c) # ls" "(aid, c)"] by (auto intro: step_lookup step_refresh)
    ultimately show ?thesis
      using PushConfigs_steps [of "[aid]" ?s n s' ls] by (meson converse_rtranclp_into_rtranclp)
  qed (use assms Some in \<open>auto simp: RefreshAgent_def split: option.splits\<close>)
qed (use assms in \<open>simp add: RefreshAgent_def\<close>)


definition demo_register :: AgentMessage where
  "demo_register = AgentMessage_Register \<lparr>rg_ClientId = ''c'', rg_Token = ''secret'', rg_Version = '''',
     rg_NetworkInterfaces = [], rg_Capabilities = []\<rparr>"

definition demo_session_agent :: Agent where
  "demo_session_agent = demo_agent\<lparr>ag_SiteName := ''hq'', ag_NetworkInterfaces := Raw (JArr []),
     ag_Capabilities := Raw (JArr []), ag_PerfmonAllowedCIDRs := Raw (JArr [])\<rparr>"

definition demo_open :: "server \<Rightarrow> server" where
  "demo_open s = snd (stream_open ''i'' 0 demo_register '''' s)"

abbreviation "demo_idle \<equiv> New (demo_db :: raw_message db) False"

lemma demo_registerAgent:
  "registerAgent ''i'' 0 False (GetRegister demo_register) '''' (demo_db :: raw_message db) =
     (Inr \<lparr>se_agent = demo_session_agent, se_tenant = ''acme''\<rparr>, demo_db)"
  by (simp add: registerAgent_def GetRegister_def demo_register_def GetAgentByToken_def first_agent_def
      map_filter_simps scanAgent_def demo_defs raw_or_def report_version_def report_capabilities_def
      report_interfaces_def marshalNetworkInterfaces_def reported_caps_def tenantName_def ListTenants_def
      demo_session_agent_def)

lemma demo_session_agent_simps [simp]:
  "ag_ID demo_session_agent = ''a1''" "ag_SiteName demo_session_agent = ''hq''" "ag_Name demo_session_agent = ''pi''"
  by (simp_all add: demo_session_agent_def demo_agent_def)

lemma demo_stream_open:
  assumes "sv_MTLS s = False" "sv_db s = demo_db"
  shows "stream_open ''i'' 0 demo_register '''' s =
    (let conn = \<lparr>ca_agent = demo_session_agent, ca_tenant = ''acme''\<rparr>; (c, t) = admit conn (s\<lparr>sv_db := demo_db\<rparr>);
         t = set_connected conn True (recordReconnect 0 ''a1'' t)
     in (Inr (c, fst (ConfigForAgent demo_session_agent (sv_db t))), t))"
  using assms demo_registerAgent by (simp add: stream_open_def)



text \<open>
  An API push races with a reconnect: \<open>PushConfigs\<close>, \<open>RefreshAgent\<close> and \<open>RunTest\<close> look the
  connection up under the lock but send after releasing it. If the same agent opens a new stream in
  between, the old channel has been closed and the send panics.
\<close>

theorem push_panics_after_reconnect:
  assumes "sv_connected s aid = Some c" "c < sv_next s"
    and "stream_open i now m cn s = (Inr (c', cfg), s')" "sv_connected s' aid = Some c'"
  shows "send c msg s' = None"
proof -
  obtain ss d where r: "registerAgent i now (sv_MTLS s) (GetRegister m) cn (sv_db s) = (Inr ss, d)"
    using assms(3) by (auto simp: stream_open_def split: prod.splits sum.splits)
  let ?conn = "\<lparr>ca_agent = se_agent ss, ca_tenant = se_tenant ss\<rparr>"
  obtain k t where a: "admit ?conn (s\<lparr>sv_db := d\<rparr>) = (k, t)" by fastforce
  have "s' = set_connected ?conn True (recordReconnect now (ag_ID (se_agent ss)) t)" "c' = k"
    using assms(3) r a by (auto simp: stream_open_def Let_def)
  then have push: "sv_push s' = sv_push t" and conn: "sv_connected s' = sv_connected t"
    by (simp_all add: set_connected_def record_metrics_def recordReconnect_def Let_def)
  note f = admit_facts [OF a]
  have "aid = ag_ID (se_agent ss)"
    using assms(1,2,4) conn f \<open>c' = k\<close> by (auto split: if_splits)
  moreover have "c \<noteq> k" using assms(2) f(1) by simp
  ultimately have "ch_closed (sv_push s' c)" using assms(1) f(6) [of c] push by simp
  then show ?thesis by (simp add: send_def Let_def)
qed

theorem push_panics_after_reconnect_witness:
  "sv_connected (demo_open demo_idle) ''a1'' = Some 0
   \<and> send 0 (ServerMessage_RunTest ''x1'') (demo_open (demo_open demo_idle)) = None"
proof -
  let ?s = "demo_open demo_idle"
  have 1: "sv_connected ?s ''a1'' = Some 0" "sv_next ?s = 1" "sv_MTLS ?s = False" "sv_db ?s = demo_db"
    by (simp_all add: demo_open_def demo_stream_open New_def admit_def recordReconnect_def set_connected_def
        record_metrics_def Let_def)
  obtain cfg where 2: "stream_open ''i'' 0 demo_register '''' ?s = (Inr (1, cfg), demo_open ?s)"
    using 1(2) by (simp add: demo_open_def [of "demo_open _"] demo_stream_open [OF 1(3,4)] admit_def Let_def)
  have 3: "sv_connected (demo_open ?s) ''a1'' = Some 1"
    using 1(2) by (simp add: demo_open_def [of "demo_open _"] demo_stream_open [OF 1(3,4)] admit_def
        recordReconnect_def set_connected_def record_metrics_def Let_def)
  from push_panics_after_reconnect [OF 1(1) _ 2 3] 1 show ?thesis by simp
qed

text \<open>
  After a reconnect the connected gauge is wrong: when the replaced stream ends, its deferred
  clean-up resets the agent's gauge to 0 although the new connection is registered.
\<close>

theorem connected_gauge_reset_by_old_stream:
  assumes "sv_connected s (ag_ID (ca_agent opened)) = Some c'" "c' \<noteq> c"
  shows "AgentConnected (ag_ID (ca_agent opened)) (stream_close c opened s)
     \<and> sv_metrics (stream_close c opened s)
         (''agent_connected'', [ca_tenant opened, ag_SiteName (ca_agent opened), ag_Name (ca_agent opened)]) = Some 0"
  using assms by (simp add: stream_close_def set_connected_def record_metrics_def SetConnected_def AgentConnected_def
      b2f_def Let_def)

theorem connected_gauge_reset_by_old_stream_witness:
  "AgentConnected ''a1'' (stream_close 0 \<lparr>ca_agent = demo_session_agent, ca_tenant = ''acme''\<rparr> (demo_open (demo_open demo_idle)))"
proof -
  let ?s = "demo_open demo_idle"
  have 1: "sv_next ?s = 1" "sv_MTLS ?s = False" "sv_db ?s = demo_db"
    by (simp_all add: demo_open_def demo_stream_open New_def admit_def recordReconnect_def set_connected_def
        record_metrics_def Let_def)
  have "sv_connected (demo_open ?s) ''a1'' = Some 1"
    using 1(1) by (simp add: demo_open_def [of "demo_open _"] demo_stream_open [OF 1(2,3)] admit_def
        recordReconnect_def set_connected_def record_metrics_def Let_def)
  then show ?thesis
    using connected_gauge_reset_by_old_stream
      [of "demo_open ?s" "\<lparr>ca_agent = demo_session_agent, ca_tenant = ''acme''\<rparr>" 1 0] by simp
qed

section \<open>Admission\<close>

lemma GetAgentByToken_row:
  assumes "GetAgentByToken k d = Inr a"
  obtains x where "x \<in> set (agents d)" "ag_Token x = k" "ag_ID a = ag_ID x" "ag_TenantID a = ag_TenantID x"
    "ag_Name a = ag_Name x" "ag_SiteID a = ag_SiteID x"
proof -
  have "a \<in> set (List.map_filter (scanAgent d) (filter (\<lambda>a. ag_Token a = k) (agents d)))"
    using assms by (simp add: GetAgentByToken_def first_agent_def split: list.splits)
  then obtain x where "x \<in> set (agents d)" "ag_Token x = k" "scanAgent d x = Some a"
    by (auto simp: map_filter_eq)
  then show ?thesis using that [of x] by (auto simp: scanAgent_def split: option.splits)
qed

lemma report_keeps:
  "ag_ID (fst (report_version r (report_capabilities r (report_interfaces r (a, d))))) = ag_ID a"
  "ag_TenantID (fst (report_version r (report_capabilities r (report_interfaces r (a, d))))) = ag_TenantID a"
  "ag_Name (fst (report_version r (report_capabilities r (report_interfaces r (a, d))))) = ag_Name a"
  by (simp_all add: report_version_def report_capabilities_def report_interfaces_def Let_def case_prod_beta)

lemma registerAgent_identity:
  assumes "registerAgent newid now mtls reg peerCN d = (Inr ss, d')"
  shows "\<exists>r x. reg = Some r \<and> rg_Token r \<noteq> '''' \<and> x \<in> set (agents d) \<and> ag_Token x = rg_Token r
     \<and> ag_ID (se_agent ss) = ag_ID x \<and> ag_TenantID (se_agent ss) = ag_TenantID x
     \<and> (mtls \<longrightarrow> peerCN = ag_Name x)"
proof -
  from assms obtain r a where r: "reg = Some r" "rg_Token r \<noteq> ''''" "GetAgentByToken (rg_Token r) d = Inr a"
    "\<not> (mtls \<and> peerCN \<noteq> ag_Name a)"
    "se_agent ss = fst (report_version r (report_capabilities r (report_interfaces r (a, d))))"
    by (auto simp: registerAgent_def handleUnclaimedRegister_def Let_def case_prod_beta
        split: option.splits if_splits sum.splits)
  obtain x where "x \<in> set (agents d)" "ag_Token x = rg_Token r" "ag_ID a = ag_ID x" "ag_TenantID a = ag_TenantID x"
    "ag_Name a = ag_Name x"
    using r(3) by (rule GetAgentByToken_row)
  then show ?thesis using r by (intro exI [of _ r] exI [of _ x]) (auto simp: report_keeps)
qed

text \<open>
  C12. Only a claimed agent is admitted: a session is granted only to a register message whose
  non-empty token is the token of a stored agent, under that agent's id and tenant, and with mTLS on
  only when the verified certificate's common name is that agent's name.
\<close>

theorem registerAgent_authenticates:
  assumes "registerAgent newid now mtls reg peerCN d = (Inr ss, d')"
  shows "\<exists>r x. reg = Some r \<and> rg_Token r \<noteq> '''' \<and> x \<in> set (agents d) \<and> ag_Token x = rg_Token r
     \<and> ag_ID (se_agent ss) = ag_ID x \<and> ag_TenantID (se_agent ss) = ag_TenantID x
     \<and> (mtls \<longrightarrow> peerCN = ag_Name x)"
  using assms by (rule registerAgent_identity)

theorem registerAgent_authenticates_witness:
  "\<exists>ss d'. registerAgent ''i'' 0 False (GetRegister demo_register) '''' (demo_db :: raw_message db) = (Inr ss, d')
     \<and> ag_TenantID (se_agent ss) = ''t1''"
proof -
  have "ag_TenantID (se_agent \<lparr>se_agent = demo_session_agent, se_tenant = ''acme''\<rparr>) = ''t1''"
    using registerAgent_authenticates [OF demo_registerAgent] by (auto simp: demo_agent_def)
  then show ?thesis using demo_registerAgent by blast
qed

lemma Upsert_ok:
  assumes "has_key tn_ID t (tenants d)" "\<not> has_key un_ID newid (unclaimed_agents d)"
  shows "\<exists>e. UpsertUnclaimedAgent newid now t cid v caps ifs d = Inr e"
  using assms by (cases "has_key (\<lambda>u. (un_TenantID u, un_ClientID u)) (t, cid) (unclaimed_agents d)")
    (simp_all add: UpsertUnclaimedAgent_def)

lemma Upsert_key:
  assumes "UpsertUnclaimedAgent newid now t cid v caps ifs d = Inr e"
  shows "agents e = agents d" "has_key (\<lambda>u. (un_TenantID u, un_ClientID u)) (t, cid) (unclaimed_agents e)"
proof -
  have snoc: "has_key f (f x) (rs @ [x])" for f :: "UnclaimedAgent \<Rightarrow> string \<times> string" and x rs
    by (simp add: has_key_def)
  show "agents e = agents d" "has_key (\<lambda>u. (un_TenantID u, un_ClientID u)) (t, cid) (unclaimed_agents e)"
    using assms snoc [of "\<lambda>u. (un_TenantID u, un_ClientID u)" "\<lparr>un_ID = newid, un_TenantID = t, un_ClientID = cid,
        un_Version = v, un_Capabilities = caps, un_NetworkInterfaces = ifs, un_FirstSeen = now, un_LastSeen = now\<rparr>"]
    by (auto simp: UpsertUnclaimedAgent_def Let_def has_key_update_where split: if_splits)
qed

lemma one_match: "uniq f rs \<Longrightarrow> has_key f k rs \<Longrightarrow> length (filter (\<lambda>x. f x = k) rs) = 1"
proof (induction rs)
  case (Cons a rs)
  have "filter (\<lambda>x. f x = f a) rs = []" using Cons.prems(1) unfolding uniq_def filter_empty_conv
    by (metis distinct.simps(2) image_eqI list.map(2) set_map)
  then show ?case using Cons by (auto simp: uniq_def has_key_def)
qed (simp add: has_key_def)

text \<open>
  C13. A device that presents a tenant's enrollment token is never admitted, and no agent changes. Without mutual TLS the
  stream ends with the precondition error that tells it to wait, and the device is on record as unclaimed for that
  tenant exactly once; with mutual TLS there is no enrollment: the token is refused as invalid and nothing is recorded.
\<close>

theorem enrollment_token_never_admits:
  assumes "db_ok d" "rg_Token r \<noteq> ''''" "GetAgentByToken (rg_Token r) d = Inl ErrNotFound"
    and "GetTenantByEnrollToken (rg_Token r) d = Inr tenant" "\<not> has_key un_ID newid (unclaimed_agents d)"
  shows "registerAgent newid now True (Some r) peerCN d = (Inl (Errorf ''Unauthenticated: invalid agent token'' []), d)
     \<and> (\<exists>d'. registerAgent newid now False (Some r) peerCN d =
             (Inl (Errorf ''FailedPrecondition: agent not yet claimed; waiting for site assignment in the UI'' []), d')
           \<and> agents d' = agents d
           \<and> length (filter (\<lambda>u. un_TenantID u = tn_ID tenant
                              \<and> un_ClientID u = (if rg_ClientId r = '''' then ''unknown'' else rg_ClientId r))
                (unclaimed_agents d')) = 1)"
proof -
  let ?cid = "if rg_ClientId r = '''' then ''unknown'' else rg_ClientId r"
  let ?key = "\<lambda>u. (un_TenantID u, un_ClientID u)"
  have t: "has_key tn_ID (tn_ID tenant) (tenants d)"
    using assms(2,4) by (auto simp: GetTenantByEnrollToken_def has_key_def split: option.splits dest: find_SomeD)
  with assms(5) obtain e where e: "UpsertUnclaimedAgent newid now (tn_ID tenant) ?cid (rg_Version r) (reported_caps r)
      (marshalNetworkInterfaces (rg_NetworkInterfaces r)) d = Inr e"
    using Upsert_ok by blast
  have "registerAgent newid now False (Some r) peerCN d =
      (Inl (Errorf ''FailedPrecondition: agent not yet claimed; waiting for site assignment in the UI'' []), e)"
    using assms(2,3,4) e by (simp add: registerAgent_def handleUnclaimedRegister_def Let_def)
  moreover have "registerAgent newid now True (Some r) peerCN d = (Inl (Errorf ''Unauthenticated: invalid agent token'' []), d)"
    using assms(2,3) by (simp add: registerAgent_def)
  moreover have ok: "uniq ?key (unclaimed_agents e)"
    using ok_UpsertUnclaimedAgent [OF assms(1) e] by (simp add: db_ok_def ok_unclaimed_def)
  moreover have "agents e = agents d" "has_key ?key (tn_ID tenant, ?cid) (unclaimed_agents e)"
    using Upsert_key [OF e] .
  ultimately show ?thesis using one_match [OF ok, of "(tn_ID tenant, ?cid)"] by simp
qed

definition demo_device :: Register where
  "demo_device = \<lparr>rg_ClientId = ''box'', rg_Token = ''tok'', rg_Version = ''1'', rg_NetworkInterfaces = [],
     rg_Capabilities = [''ping'']\<rparr>"

theorem enrollment_token_never_admits_witness:
  "\<exists>d'. registerAgent ''n'' 0 False (Some demo_device) '''' (demo_db :: raw_message db) =
      (Inl (Errorf ''FailedPrecondition: agent not yet claimed; waiting for site assignment in the UI'' []), d')
     \<and> length (filter (\<lambda>u. un_TenantID u = ''t1'' \<and> un_ClientID u = ''box'') (unclaimed_agents d')) = 1"
proof -
  have a: "rg_Token demo_device \<noteq> ''''" "GetAgentByToken (rg_Token demo_device) (demo_db :: raw_message db) = Inl ErrNotFound"
    "GetTenantByEnrollToken (rg_Token demo_device) (demo_db :: raw_message db) = Inr demo_tenant"
    "\<not> has_key un_ID ''n'' (unclaimed_agents (demo_db :: raw_message db))"
    by (simp_all add: demo_device_def GetAgentByToken_def first_agent_def map_filter_simps demo_defs
        GetTenantByEnrollToken_def has_key_def)
  from enrollment_token_never_admits [OF demo_db_ok a, of 0 "''''"] show ?thesis
    by (auto simp: demo_device_def demo_tenant_def)
qed

section \<open>Configuration\<close>

text \<open>
  Which tests an agent is meant to run: it has reported no capabilities, or the one the test needs, and a perfmon test
  is pinned to it.
\<close>

definition supports :: "string list \<Rightarrow> TestDef \<Rightarrow> bool" where
  "supports caps t \<longleftrightarrow> (caps \<noteq> [] \<longrightarrow> requiredCapability (td_Type t) \<in> set caps)"

definition meant_for :: "Agent \<Rightarrow> string list \<Rightarrow> TestDef \<Rightarrow> bool" where
  "meant_for a caps t \<longleftrightarrow> supports caps t \<and> (td_Type t = ''perfmon'' \<longrightarrow> isPerfmonSource t (ag_ID a))"

lemma lenient_reported: "lenient_strs (Raw (JArr (map JStr caps))) = caps"
  by (simp add: lenient_strs_def comp_def)

lemma pushed_meant:
  assumes "lenient_strs (ag_Capabilities a) = caps"
  shows "pushed_spec a t = (if meant_for a caps t then (case TestSpec t of Inl _ \<Rightarrow> None | Inr sp \<Rightarrow> Some sp) else None)"
  using assms by (auto simp: pushed_spec_def meant_for_def supports_def unsupported_def)

lemma unsupported_supports: "unsupported caps = (\<lambda>t. \<not> supports caps t)"
  by (auto simp: unsupported_def supports_def)

lemma perfmon_source_unique: "isPerfmonSource t x \<Longrightarrow> isPerfmonSource t y \<Longrightarrow> x = y"
  by (auto simp: isPerfmonSource_def split: raw_message.splits option.splits)

lemma map_filter_meant:
  assumes "lenient_strs (ag_Capabilities a) = caps"
  shows "map Inr (List.map_filter (pushed_spec a) ts) = filter is_ok (map TestSpec (filter (meant_for a caps) ts))"
  by (induction ts) (simp_all add: List.map_filter_simps pushed_meant [OF assms] is_ok_def split: sum.split)

lemma ids_meant:
  assumes "lenient_strs (ag_Capabilities a) = caps" "\<forall>t \<in> set ts. ValidateTestDef t = Inr t"
  shows "map ts_Id (List.map_filter (pushed_spec a) ts) = map td_ID (filter (meant_for a caps) ts)"
  using assms(2)
proof (induction ts)
  case (Cons t ts)
  obtain sp where "TestSpec t = Inr sp" "ts_Id sp = td_ID t"
    using TestSpec_validated [of t t] Cons.prems by auto
  then show ?case
    using Cons by (simp add: List.map_filter_simps pushed_meant [OF assms(1)])
qed (simp add: List.map_filter_simps)

text \<open>
  C14. The configuration pushed to an agent that reported its capabilities: the tests are exactly those of its site that
  it is meant to run, in their order, each as its specification, with none left out whose definition is a validated
  one; the skipped list names exactly the tests of the site that it does not support; and no perfmon test is meant for two
  agents.
\<close>

theorem config_pushes_supported_tests:
  assumes "ag_Capabilities a = Raw (JArr (map JStr caps))" "ConfigForAgent a d = (cfg, skipped)"
  shows "map Inr (cfg_Tests cfg) = filter is_ok (map TestSpec (filter (meant_for a caps) (TestsForSite (ag_SiteID a) d)))
    \<and> skipped = map td_Name (filter (\<lambda>t. \<not> supports caps t) (TestsForSite (ag_SiteID a) d))
    \<and> ((\<forall>t \<in> set (TestsForSite (ag_SiteID a) d). ValidateTestDef t = Inr t) \<longrightarrow>
         map ts_Id (cfg_Tests cfg) = map td_ID (filter (meant_for a caps) (TestsForSite (ag_SiteID a) d)))
    \<and> (td_Type t = ''perfmon'' \<and> meant_for a caps t \<and> meant_for b caps' t \<longrightarrow> ag_ID a = ag_ID b)"
proof -
  have caps: "lenient_strs (ag_Capabilities a) = caps"
    using assms(1) by (simp add: lenient_reported)
  have "cfg_Tests cfg = List.map_filter (pushed_spec a) (TestsForSite (ag_SiteID a) d)"
    using assms(2) by (auto simp: ConfigForAgent_def Let_def)
  moreover have "skipped = map td_Name (filter (\<lambda>t. \<not> supports caps t) (TestsForSite (ag_SiteID a) d))"
    using assms(2) by (auto simp: ConfigForAgent_def Let_def caps unsupported_supports)
  moreover have "td_Type t = ''perfmon'' \<and> meant_for a caps t \<and> meant_for b caps' t \<Longrightarrow> ag_ID a = ag_ID b"
    using perfmon_source_unique by (auto simp: meant_for_def)
  ultimately show ?thesis
    using map_filter_meant [OF caps] ids_meant [OF caps] by auto
qed

definition demo_valid_test :: TestDef where
  "demo_valid_test = demo_test\<lparr>td_Params := Raw (marshal_params (P_Ping \<lparr>pp_Targets = [''10.0.0.1''], pp_Count = 4\<rparr>))\<rparr>"

definition capable_agent :: Agent where
  "capable_agent = demo_session_agent\<lparr>ag_Capabilities := Raw (JArr [JStr ''ping''])\<rparr>"

definition two_tests_db :: "raw_message db" where
  "two_tests_db = demo_db\<lparr>tests := [demo_valid_test, demo_test\<lparr>td_ID := ''x2'', td_Name := ''speed'', td_Type := ''speedtest''\<rparr>],
     site_tests := [(''s1'', ''x1''), (''s1'', ''x2'')]\<rparr>"

theorem config_pushes_supported_tests_witness:
  "\<exists>cfg. ConfigForAgent capable_agent two_tests_db = (cfg, [''speed''])
     \<and> map Inr (cfg_Tests cfg) = filter is_ok (map TestSpec [demo_valid_test])"
proof -
  obtain cfg skipped where c: "ConfigForAgent capable_agent two_tests_db = (cfg, skipped)"
    by fastforce
  have a: "ag_Capabilities capable_agent = Raw (JArr (map JStr [''ping'']))"
    by (simp add: capable_agent_def)
  have "filter (meant_for capable_agent [''ping'']) (TestsForSite (ag_SiteID capable_agent) two_tests_db) = [demo_valid_test]"
      "map td_Name (filter (\<lambda>t. \<not> supports [''ping''] t) (TestsForSite (ag_SiteID capable_agent) two_tests_db)) = [''speed'']"
    by (simp_all add: TestsForSite_def two_tests_db_def capable_agent_def demo_session_agent_def demo_agent_def demo_valid_test_def demo_test_def
        meant_for_def supports_def requiredCapability_def Get_registered spec_defs)
  then show ?thesis
    using config_pushes_supported_tests [OF a c] c by auto
qed

end
