(* ===== verification/Ingest_Properties.thy ===== *)
theory Ingest_Properties
  imports Control_Properties
begin

text \<open>
  Result ingest, \<open>handleResult\<close>, across its components: path-change detection, the result table and
  the alert engine. The protojson encoder is a parameter; \<open>protojson_law\<close> states the part of its
  documented JSON mapping that the store's decoder relies on.
\<close>

section \<open>The encoder's law\<close>

definition encodes_hop :: "json \<Rightarrow> Hop \<Rightarrow> bool" where
  "encodes_hop j h \<longleftrightarrow> (\<exists>ms. j = JObj ms \<and> members hop_fields ms ''host'' = [JStr (hop_Host h)])"

definition encodes_trace :: "raw_message \<Rightarrow> TracerouteResult \<Rightarrow> bool" where
  "encodes_trace p tr \<longleftrightarrow> (\<exists>ms tms hs. p = Raw (JObj ms) \<and> members [''traceroute''] ms ''traceroute'' = [JObj tms]
     \<and> members trace_fields tms ''reached'' = [JBool (tr_Reached tr)]
     \<and> members trace_fields tms ''hops'' = [JArr hs] \<and> list_all2 encodes_hop hs (tr_Hops tr))"

definition protojson_law :: "(TestResult \<Rightarrow> raw_message result) \<Rightarrow> bool" where
  "protojson_law encode \<longleftrightarrow> (\<forall>r tr. rs_Result r = TestResult_Traceroute tr \<longrightarrow>
     (\<exists>p. encode r = Inr p \<and> encodes_trace p tr))"

lemma those_hops: "list_all2 encodes_hop hs hops \<Longrightarrow> those (map unmarshal_hop hs) = Some (map hop_Host hops)"
  by (induction hs hops rule: list_all2_induct) (auto simp: encodes_hop_def unmarshal_hop_def unmarshal_object_def)

text \<open>What the store reads back of a stored run is the signature the server computed.\<close>

lemma stored_hosts:
  assumes "encodes_trace p tr" "tr_Hops tr \<noteq> []"
  shows "tracerouteHosts p = Some (pathSignature (tr_Hops tr) (tr_Reached tr))"
proof -
  from assms(1) obtain ms tms hs where p: "p = Raw (JObj ms)" "members [''traceroute''] ms ''traceroute'' = [JObj tms]"
    "members trace_fields tms ''reached'' = [JBool (tr_Reached tr)]" "members trace_fields tms ''hops'' = [JArr hs]"
    "list_all2 encodes_hop hs (tr_Hops tr)"
    by (auto simp: encodes_trace_def)
  have "as_trace (False, []) (JObj tms) = Some (tr_Reached tr, map hop_Host (tr_Hops tr))"
    using p(3,4) those_hops [OF p(5)] by (simp add: as_trace_def unmarshal_object_def as_hops_def)
  then show ?thesis
    using p(1,2) assms(2) by (simp add: tracerouteHosts_def unmarshal_object_def pathSignature_def Let_def comp_def)
qed

section \<open>What each part leaves alone\<close>

lemma detect_cases:
  "snd (detectPathChange lk now conn r test d) = d
   \<or> (\<exists>c. AddPathChange c d = Inr (snd (detectPathChange lk now conn r test d)))"
  by (auto simp: detectPathChange_def Let_def case_prod_beta split: option.split sum.split)

lemma detect_db:
  "results (snd (detectPathChange lk now conn r test d)) = results d"
  "agents (snd (detectPathChange lk now conn r test d)) = agents d"
  "db_ok d \<Longrightarrow> db_ok (snd (detectPathChange lk now conn r test d))"
proof -
  consider (same) "snd (detectPathChange lk now conn r test d) = d"
    | (added) c where "AddPathChange c d = Inr (snd (detectPathChange lk now conn r test d))"
    using detect_cases by blast
  then have "results (snd (detectPathChange lk now conn r test d)) = results d
    \<and> agents (snd (detectPathChange lk now conn r test d)) = agents d
    \<and> (db_ok d \<longrightarrow> db_ok (snd (detectPathChange lk now conn r test d)))"
  proof cases
    case added
    then show ?thesis
      using ok_AddPathChange [OF _ added] by (cases "has_key ag_ID (pc_AgentID c) (agents d)")
        (auto simp: AddPathChange_def simp del: ok_AddPathChange dest!: sym [of "d\<lparr>path_changes := _\<rparr>"])
  qed simp
  then show
    "results (snd (detectPathChange lk now conn r test d)) = results d"
    "agents (snd (detectPathChange lk now conn r test d)) = agents d"
    "db_ok d \<Longrightarrow> db_ok (snd (detectPathChange lk now conn r test d))"
    by simp_all
qed

lemma GetTraceroute_Some: "GetTraceroute r = Some tr \<longleftrightarrow> rs_Result r = TestResult_Traceroute tr"
  by (cases "rs_Result r") auto

lemma detect_marks:
  "fst (detectPathChange lk now conn r test d) = r
   \<or> (\<exists>tr. GetTraceroute r = Some tr \<and> fst (detectPathChange lk now conn r test d) =
        r\<lparr>rs_Result := TestResult_Traceroute (tr\<lparr>tr_PathChanged := True\<rparr>)\<rparr>)"
  by (simp add: detectPathChange_def Let_def case_prod_beta split: option.split sum.split)

lemma detect_result:
  assumes "GetTraceroute r = Some tr"
  obtains b where "fst (detectPathChange lk now conn r test d) =
     r\<lparr>rs_Result := TestResult_Traceroute (tr\<lparr>tr_PathChanged := b\<rparr>)\<rparr>"
  using detect_marks [of lk now conn r test d]
proof
  assume "fst (detectPathChange lk now conn r test d) = r"
  also have "r = r\<lparr>rs_Result := TestResult_Traceroute (tr\<lparr>tr_PathChanged := tr_PathChanged tr\<rparr>)\<rparr>"
    using assms by (simp add: GetTraceroute_Some)
  finally show thesis by (rule that)
next
  assume "\<exists>tr. GetTraceroute r = Some tr \<and> fst (detectPathChange lk now conn r test d) =
    r\<lparr>rs_Result := TestResult_Traceroute (tr\<lparr>tr_PathChanged := True\<rparr>)\<rparr>"
  then show thesis
    using assms by (elim exE conjE) (rule that [of True], simp)
qed

lemma detect_same_fields:
  "rs_TestId (fst (detectPathChange lk now conn r test d)) = rs_TestId r"
  "resultOK (fst (detectPathChange lk now conn r test d)) = resultOK r"
  using detect_marks [of lk now conn r test d] by (auto simp: resultOK_def GetTraceroute_Some)

definition alert_frame :: "'p db \<Rightarrow> 'p db \<Rightarrow> bool" where
  "alert_frame d d' \<longleftrightarrow> results d' = results d \<and> path_changes d' = path_changes d \<and> (db_ok d \<longrightarrow> db_ok d')"

lemma alert_frame_trans: "alert_frame d1 d2 \<Longrightarrow> alert_frame d2 d3 \<Longrightarrow> alert_frame d1 d3"
  by (simp add: alert_frame_def)

lemma alert_frame_fire: "alert_frame (adb s) (adb (fireAlert now rule conn subj v s))"
proof -
  have "alert_frame d d'" if "FireAlert n n' r a u v m d = Inr (al, d')" for n n' r a u v m al and d d' :: "'a db"
    using that ok_FireAlert [OF _ that] by (auto simp: alert_frame_def FireAlert_def Let_def split: if_splits)
  then show ?thesis
    by (auto simp: fireAlert_def alert_frame_def split: option.split sum.split)
qed

lemma alert_frame_resolve: "alert_frame (adb s) (adb (resolveAlert now rule conn subj s))"
  using ok_ResolveAlert by (auto simp: resolveAlert_def alert_frame_def ResolveAlert_def split: option.split)

lemma alert_frame_rule: "alert_frame (adb s) (adb (evaluateRule now conn r test subj rule s))"
  using alert_frame_fire [of "s\<lparr>alertStates := m\<rparr>" for m] alert_frame_resolve [of "s\<lparr>alertStates := m\<rparr>" for m]
  by (auto simp: evaluateRule_def Let_def alert_frame_def split: option.split prod.split alertAction.split)

lemma alert_frame_evaluate: "alert_frame (adb s) (adb (evaluateAlerts now conn r test s))"
proof -
  have "alert_frame (adb s) (adb (fold (evaluateRule now conn r test subj) rules s))" for rules subj
  proof (induction rules arbitrary: s)
    case Nil
    then show ?case by (simp add: alert_frame_def)
  next
    case (Cons rule rules)
    then show ?case using alert_frame_trans [OF alert_frame_rule Cons.IH] by simp
  qed
  then show ?thesis by (simp add: evaluateAlerts_def Let_def alert_frame_def)
qed

lemma record_metrics_frame [simp]: "sv_db (record_metrics us s) = sv_db s"
  by (simp add: record_metrics_def)

lemma with_alerting_db [simp]: "sv_db (with_alerting s a) = adb a" "adb (alerting_of s) = sv_db s"
  by (simp_all add: with_alerting_def alerting_of_def)

section \<open>The row a result leaves\<close>

definition ingested_type :: "TestResult \<Rightarrow> 'p db \<Rightarrow> string" where
  "ingested_type r d = (case GetTest (rs_TestId r) d of Inl _ \<Rightarrow> TypeOf r | Inr t \<Rightarrow> td_Type t)"

lemma handleResult_db:
  assumes "encode (fst (detectPathChange lk now conn r
      (case GetTest (rs_TestId r) (sv_db s) of Inl _ \<Rightarrow> None | Inr t \<Rightarrow> Some t) (sv_db s))) = Inr payload"
    and k: "has_key ag_ID (ag_ID (ca_agent conn)) (agents (sv_db s))"
  obtains row where
    "results (sv_db (handleResult encode lk now conn r s)) = add_result row (results (sv_db s))"
    "re_AgentID row = ag_ID (ca_agent conn)" "re_TestID row = rs_TestId r"
    "re_TestType row = ingested_type r (sv_db s)" "re_OK row = resultOK r" "re_Payload row = payload"
    "db_ok (sv_db s) \<Longrightarrow> db_ok (sv_db (handleResult encode lk now conn r s))"
proof -
  define test where "test = (case GetTest (rs_TestId r) (sv_db s) of Inl _ \<Rightarrow> None | Inr t \<Rightarrow> Some t)"
  define r' where "r' = fst (detectPathChange lk now conn r test (sv_db s))"
  define d where "d = snd (detectPathChange lk now conn r test (sv_db s))"
  define row where "row = \<lparr>re_ID = 0, re_AgentID = ag_ID (ca_agent conn), re_TestID = rs_TestId r',
      re_TestName = rs_TestName r', re_TestType = ingested_type r (sv_db s),
      re_Time = (case rs_Time r' of None \<Rightarrow> now | Some t \<Rightarrow> t), re_Error = rs_Error r', re_OK = resultOK r',
      re_Payload = payload\<rparr>"
  have dd: "detectPathChange lk now conn r test (sv_db s) = (r', d)" by (simp add: r'_def d_def)
  have enc: "encode r' = Inr payload" using assms(1) by (simp add: r'_def test_def)
  have k': "has_key ag_ID (re_AgentID row) (agents d)" using k by (simp add: row_def d_def detect_db)
  then have add: "AddResult row d = Inr (d\<lparr>results := add_result row (results d)\<rparr>)" by (simp add: AddResult_def)
  have type: "(case test of None \<Rightarrow> TypeOf r | Some t \<Rightarrow> td_Type t) = ingested_type r (sv_db s)"
    by (simp add: test_def ingested_type_def split: sum.split)
  define s' where "s' = record_metrics (Record (ca_tenant conn) (ag_SiteName (ca_agent conn)) (ag_Name (ca_agent conn)) r) s"
  have "handleResult encode lk now conn r s =
      with_alerting s' (evaluateAlerts now conn r' test
        (alerting_of (s'\<lparr>sv_db := d\<lparr>results := add_result row (results d)\<rparr>\<rparr>)))"
    using dd enc type add by (simp add: handleResult_def Let_def s'_def flip: test_def row_def)
  then have frame: "alert_frame (d\<lparr>results := add_result row (results d)\<rparr>) (sv_db (handleResult encode lk now conn r s))"
    using alert_frame_evaluate [of "alerting_of (s'\<lparr>sv_db := d\<lparr>results := add_result row (results d)\<rparr>\<rparr>)"] by simp
  show thesis
  proof (rule that [of row])
    show "results (sv_db (handleResult encode lk now conn r s)) = add_result row (results (sv_db s))"
      using frame by (simp add: alert_frame_def d_def detect_db)
    show "db_ok (sv_db (handleResult encode lk now conn r s))" if "db_ok (sv_db s)"
      using frame ok_AddResult [OF _ add] detect_db(3) [OF that, of lk now conn r test]
      by (simp add: alert_frame_def d_def)
  qed (simp_all add: row_def r'_def detect_same_fields)
qed

lemma evaluateAlerts_path_changes:
  "path_changes (adb (evaluateAlerts now conn r test s)) = path_changes (adb s)"
  by (rule alert_frame_evaluate [unfolded alert_frame_def, THEN conjunct2, THEN conjunct1])

lemma handleResult_quiet:
  assumes "detectPathChange lk now conn r
      (case GetTest (rs_TestId r) (sv_db s) of Inl _ \<Rightarrow> None | Inr t \<Rightarrow> Some t) (sv_db s) = (r, sv_db s)"
  shows "path_changes (sv_db (handleResult encode lk now conn r s)) = path_changes (sv_db s)"
  using assms by (auto simp: handleResult_def Let_def AddResult_def evaluateAlerts_path_changes split: sum.split)

lemma law_encodes:
  assumes "protojson_law encode" "GetTraceroute r = Some tr"
  obtains p where "encode (fst (detectPathChange lk now conn r test d)) = Inr p" "encodes_trace p tr"
proof -
  obtain b where r': "fst (detectPathChange lk now conn r test d) =
      r\<lparr>rs_Result := TestResult_Traceroute (tr\<lparr>tr_PathChanged := b\<rparr>)\<rparr>"
    using detect_result [OF assms(2)] by blast
  obtain p where "encode (fst (detectPathChange lk now conn r test d)) = Inr p"
    "encodes_trace p (tr\<lparr>tr_PathChanged := b\<rparr>)"
    using assms(1) unfolding protojson_law_def r' by (metis TestResult.select_convs(5) TestResult.surjective TestResult.update_convs(5))
  then show thesis using that by (simp add: encodes_trace_def)
qed

lemma last_n_newest: "0 < n \<Longrightarrow> x \<in> set (last_n n (xs @ [x]))"
  by (cases n) (simp_all add: last_n_snoc)

lemma newest_run_in_window:
  assumes "wf_table re_ID (results d)" "tracerouteHosts (re_Payload row) = Some hs" "re_TestType row = ''traceroute''"
    and d': "results d' = add_result row (results d)"
  shows "hs \<in> set (run_window (re_AgentID row) (re_TestID row) d')"
proof -
  let ?P = "\<lambda>r. re_AgentID r = re_AgentID row \<and> re_TestID r = re_TestID row \<and> re_TestType r = ''traceroute''"
  let ?new = "result_row row (last_id (results d) + 1)"
  let ?rs = "filter ?P (filter (result_scope row) (rows (results d')))"
  have scope: "filter (result_scope row) (rows (results d')) =
      last_n 4999 (filter (result_scope row) (rows (results d))) @ [?new]"
    using result_history.add_scope [OF assms(1), of row] last_n_snoc [of 4999]
    by (simp add: d' resultsPerTest_def)
  have "?P ?new" using assms(3) by (simp add: result_row_def)
  then have "?new \<in> set (last_n 20 ?rs)" by (simp add: scope last_n_newest)
  moreover have "filter ?P (rows (results d')) = ?rs" by (auto simp: result_scope_def intro!: filter_cong)
  moreover have "sorted_wrt (<) (map re_ID (rows (results d')))"
    using result_history.wf_add [OF assms(1), of row] by (simp add: d' wf_table_def)
  ultimately have "?new \<in> set (select_desc re_ID ?P 20 (rows (results d')))"
    by (simp add: select_desc_sorted)
  moreover have "tracerouteHosts (re_Payload ?new) = Some hs" using assms(2) by (simp add: result_row_def)
  ultimately show ?thesis by (force simp: run_window_def List.map_filter_def)
qed

lemma own_answers: "r \<in> set runs \<Longrightarrow> i < length r \<Longrightarrow> r ! i = ''*'' \<or> r ! i \<in> set (answers i runs)"
  by (auto simp: answers_def)

section \<open>Properties\<close>

text \<open>
  C9. Ingest is complete and typed: for an agent on record, whatever the route detection does, a
  result that encodes is stored as exactly one new row that carries the agent, the test, the type of
  the test's current definition (or the type of the payload when there is none) and the computed
  verdict, in the bounded history of its test; and the database stays well-formed through
  detection, storing and alert evaluation.
\<close>

theorem ingest_stores_result:
  assumes "\<And>r'. rs_TestId r' = rs_TestId r \<Longrightarrow> is_ok (encode r')"
    and "has_key ag_ID (ag_ID (ca_agent conn)) (agents (sv_db s))" "db_ok (sv_db s)"
  shows "\<exists>row. results (sv_db (handleResult encode lk now conn r s)) = add_result row (results (sv_db s))
     \<and> re_AgentID row = ag_ID (ca_agent conn) \<and> re_TestID row = rs_TestId r
     \<and> re_TestType row = (case GetTest (rs_TestId r) (sv_db s) of Inl _ \<Rightarrow> TypeOf r | Inr t \<Rightarrow> td_Type t)
     \<and> re_OK row = resultOK r \<and> db_ok (sv_db (handleResult encode lk now conn r s))"
proof -
  obtain p where p: "encode (fst (detectPathChange lk now conn r
      (case GetTest (rs_TestId r) (sv_db s) of Inl _ \<Rightarrow> None | Inr t \<Rightarrow> Some t) (sv_db s))) = Inr p"
    using assms(1) detect_same_fields(1) by (metis is_ok_iff)
  show ?thesis
    by (rule handleResult_db [where encode = encode, OF p assms(2)]) (use assms(3) in \<open>auto simp add: ingested_type_def\<close>)
qed

definition demo_encode :: "TestResult \<Rightarrow> raw_message result" where
  "demo_encode r = Inr (case rs_Result r of
     TestResult_Traceroute tr \<Rightarrow> Raw (JObj [(''traceroute'', JObj [(''reached'', JBool (tr_Reached tr)),
       (''hops'', JArr (map (\<lambda>h. JObj [(''host'', JStr (hop_Host h))]) (tr_Hops tr)))])])
   | _ \<Rightarrow> Raw (JObj []))"

lemma demo_encode_law: "protojson_law demo_encode"
  by (auto simp: protojson_law_def demo_encode_def encodes_trace_def encodes_hop_def trace_fields_def hop_fields_def
      list_all2_map1 intro!: list_all2_refl)

abbreviation "demo_ingest \<equiv> New demo_trace_db False"

lemma demo_ingest_facts:
  "has_key ag_ID (ag_ID (ca_agent demo_conn)) (agents (sv_db demo_ingest))" "db_ok (sv_db demo_ingest)"
  using demo_trace_db_ok by (simp_all add: New_def demo_trace_db_def demo_agent_def has_key_def)

theorem ingest_stores_result_witness:
  "\<exists>row. results (sv_db (handleResult demo_encode (\<lambda>_. None) 7 demo_conn (demo_trace_result [''10.0.0.3'']) demo_ingest))
     = add_result row (results demo_trace_db) \<and> re_TestType row = ''ping''"
proof -
  have "GetTest ''x1'' demo_trace_db = Inr demo_test"
    by (simp add: GetTest_def demo_trace_db_def demo_test_def)
  then show ?thesis
    using ingest_stores_result [OF _ demo_ingest_facts, of "demo_trace_result [''10.0.0.3'']" demo_encode "\<lambda>_. None" 7]
    by (auto simp: demo_encode_def New_def demo_test_def)
qed

text \<open>
  C10. A reroute is reported once: as soon as a traceroute run has been ingested, a further run of the
  same test on the same agent that follows the same path adds no path change, whatever was in the
  history before.
\<close>

theorem same_path_reported_once:
  assumes law: "protojson_law encode"
    and ok: "has_key ag_ID (ag_ID (ca_agent conn)) (agents (sv_db s))" "db_ok (sv_db s)"
    and tr: "GetTraceroute r = Some tr" "tr_Hops tr \<noteq> []"
    and type: "\<And>t. GetTest (rs_TestId r) (sv_db s) = Inr t \<Longrightarrow> td_Type t = ''traceroute''"
    and again: "GetTraceroute r2 = Some tr2" "rs_TestId r2 = rs_TestId r"
      "pathSignature (tr_Hops tr2) (tr_Reached tr2) = pathSignature (tr_Hops tr) (tr_Reached tr)"
    and fits: "Suc (length (tr_Hops tr)) < 2 ^ 32"
    and s1: "s1 = handleResult encode lk now conn r s"
  shows "path_changes (sv_db (handleResult encode lk2 now2 conn r2 s1)) = path_changes (sv_db s1)"
proof -
  let ?sig = "pathSignature (tr_Hops tr) (tr_Reached tr)"
  obtain p where p: "encode (fst (detectPathChange lk now conn r
      (case GetTest (rs_TestId r) (sv_db s) of Inl _ \<Rightarrow> None | Inr t \<Rightarrow> Some t) (sv_db s))) = Inr p" "encodes_trace p tr"
    using law_encodes [OF law tr(1)] by blast
  have "TypeOf r = ''traceroute''" using tr(1) by (simp add: GetTraceroute_Some TypeOf_def OfResult_by_payload spec_defs)
  then have ty: "ingested_type r (sv_db s) = ''traceroute''"
    using type by (auto simp: ingested_type_def split: sum.split)
  obtain row where row: "results (sv_db s1) = add_result row (results (sv_db s))"
    "re_AgentID row = ag_ID (ca_agent conn)" "re_TestID row = rs_TestId r" "re_TestType row = ''traceroute''"
    "re_Payload row = p"
    using handleResult_db [where encode = encode, OF p(1) ok(1)] ty s1 by metis
  have "wf_table re_ID (results (sv_db s))" using ok(2) by (simp add: db_ok_def ok_results_def)
  from newest_run_in_window [OF this _ row(4,1)]
  have in_window: "?sig \<in> set (run_window (ag_ID (ca_agent conn)) (rs_TestId r2) (sv_db s1))"
    using stored_hosts [OF p(2) tr(2)] row again(2) by simp
  have "length ?sig \<le> length (tr_Hops tr)" by (simp add: pathSignature_def Let_def)
  then show ?thesis
    using in_window own_answers [OF in_window] fits again
    by (intro handleResult_quiet detect_quiet [OF again(1) refl refl]) auto
qed

theorem same_path_reported_once_witness:
  "path_changes (sv_db (handleResult demo_encode (\<lambda>_. None) 8 demo_conn ((demo_trace_result [''10.0.0.3''])\<lparr>rs_TestId := ''x2''\<rparr>)
       (handleResult demo_encode (\<lambda>_. None) 7 demo_conn ((demo_trace_result [''10.0.0.3''])\<lparr>rs_TestId := ''x2''\<rparr>) demo_ingest)))
   = path_changes (sv_db (handleResult demo_encode (\<lambda>_. None) 7 demo_conn
       ((demo_trace_result [''10.0.0.3''])\<lparr>rs_TestId := ''x2''\<rparr>) demo_ingest))"
proof -
  have "GetTest ''x2'' demo_trace_db \<noteq> Inr t" for t
    by (simp add: GetTest_def demo_trace_db_def demo_test_def)
  then show ?thesis
    by (intro same_path_reported_once [OF demo_encode_law demo_ingest_facts, where tr = "demo_trace [''10.0.0.3'']"
          and ?tr2.0 = "demo_trace [''10.0.0.3'']"])
      (simp_all add: New_def demo_trace_result_def)
qed

end
