(* ===== verification/Throttle.thy ===== *)
theory Throttle
  imports Go_Strings
begin

text \<open>
  The budget of failed authentication attempts: \<open>internal/api/throttle.go\<close>. The map of entries is a
  partial function; the pruning loop of \<open>allow\<close> is its restriction to the entries whose window has
  not passed. The clock is an argument. Each of \<open>allow\<close>, \<open>fail\<close> and \<open>success\<close> holds the lock on its own, and the
  password is checked between them: requests are served as sequences of these calls, in any interleaving. One request
  that is served while no other is at work is an \<open>attempt\<close>.
\<close>

section \<open>Model\<close>

definition maxAuthFailures :: nat where
  "maxAuthFailures = 10"

definition authWindow :: go_time where
  "authWindow = minute"

record throttleEntry =
  te_failures :: nat
  te_first :: go_time

type_synonym throttle = "string \<rightharpoonup> throttleEntry"

definition newThrottle :: throttle where
  "newThrottle = Map.empty"

definition expired :: "go_time \<Rightarrow> throttleEntry \<Rightarrow> bool" where
  "expired now e \<longleftrightarrow> now - te_first e > authWindow"

definition prune_expired :: "go_time \<Rightarrow> throttle \<Rightarrow> throttle" where
  "prune_expired now t = (\<lambda>k. case t k of None \<Rightarrow> None | Some e \<Rightarrow> if expired now e then None else Some e)"

definition allow :: "go_time \<Rightarrow> string \<Rightarrow> throttle \<Rightarrow> bool \<times> throttle" where
  "allow now key t =
     (let t = prune_expired now t
      in (case t key of None \<Rightarrow> True | Some e \<Rightarrow> te_failures e < maxAuthFailures, t))"

definition fail :: "go_time \<Rightarrow> string \<Rightarrow> throttle \<Rightarrow> bool \<times> throttle" where
  "fail now key t =
     (let fresh = \<lparr>te_failures = 0, te_first = now\<rparr>;
          e = (case t key of None \<Rightarrow> fresh | Some e \<Rightarrow> if expired now e then fresh else e);
          e = e\<lparr>te_failures := te_failures e + 1\<rparr>
      in (te_failures e = maxAuthFailures, t(key \<mapsto> e)))"

definition success :: "string \<Rightarrow> throttle \<Rightarrow> throttle" where
  "success key t = t(key := None)"

text \<open>\<open>net.SplitHostPort\<close> is that of \<open>Go_Strings\<close>.\<close>

definition clientIP :: "string \<Rightarrow> string" where
  "clientIP remoteAddr = (case split_host_port remoteAddr of Inl _ \<Rightarrow> remoteAddr | Inr (host, _) \<Rightarrow> host)"

definition throttleKey :: "string \<Rightarrow> string \<Rightarrow> string" where
  "throttleKey username remoteAddr = username @ ''|'' @ clientIP remoteAddr"

section \<open>Attempts\<close>

datatype outcome = Blocked | Failed | Succeeded

text \<open>One attempt at time \<open>now\<close>; \<open>good\<close> says whether the password check would succeed.\<close>

definition attempt :: "go_time \<Rightarrow> string \<Rightarrow> bool \<Rightarrow> throttle \<Rightarrow> outcome \<times> throttle" where
  "attempt now key good t =
     (case allow now key t of
        (False, t) \<Rightarrow> (Blocked, t)
      | (True, t) \<Rightarrow> if good then (Succeeded, success key t) else (Failed, snd (fail now key t)))"

type_synonym attempt = "go_time \<times> string \<times> bool"

fun after_attempts :: "attempt list \<Rightarrow> throttle \<Rightarrow> throttle" where
  "after_attempts [] t = t"
| "after_attempts ((now, k, good) # as) t = after_attempts as (snd (attempt now k good t))"

section \<open>Requests in parallel\<close>

text \<open>
  The calls of all requests, in the order in which they hold the lock: \<open>Ask\<close> is \<open>allow\<close> at the head of a request, and
  a request that was admitted has its password checked and then calls \<open>fail\<close> (\<open>Wrong\<close>) or \<open>success\<close> (\<open>Right\<close>). The
  state has the number of checks at work for each key.
\<close>

datatype call = Ask string | Wrong string | Right string

fun throttle_call :: "go_time \<times> call \<Rightarrow> throttle \<times> (string \<Rightarrow> nat) \<Rightarrow> throttle \<times> (string \<Rightarrow> nat)" where
  "throttle_call (now, Ask k) (t, busy) = (let (ok, t') = allow now k t in (t', if ok then busy(k := busy k + 1) else busy))"
| "throttle_call (now, Wrong k) (t, busy) = (snd (fail now k t), busy(k := busy k - 1))"
| "throttle_call (now, Right k) (t, busy) = (success k t, busy(k := busy k - 1))"

text \<open>
  An order of calls that can happen, with never more than \<open>n\<close> checks at work for \<open>key\<close>: only an admitted request
  answers.
\<close>

fun possible :: "nat \<Rightarrow> string \<Rightarrow> (go_time \<times> call) list \<Rightarrow> throttle \<times> (string \<Rightarrow> nat) \<Rightarrow> bool" where
  "possible n key [] s = True"
| "possible n key ((now, c) # cs) s =
     ((case c of Ask _ \<Rightarrow> True | Wrong k \<Rightarrow> 0 < snd s k | Right k \<Rightarrow> 0 < snd s k)
      \<and> snd (throttle_call (now, c) s) key \<le> n \<and> possible n key cs (throttle_call (now, c) s))"

text \<open>The times at which a password for \<open>key\<close> was checked and found wrong.\<close>

definition rejected :: "string \<Rightarrow> (go_time \<times> call) list \<Rightarrow> go_time list" where
  "rejected key cs = map fst (filter (\<lambda>(_, c). c = Wrong key) cs)"

text \<open>An attempt is a request whose calls come one directly after the other.\<close>

lemma attempt_calls:
  "snd (attempt now key good t) =
     fst (if fst (allow now key t) then throttle_call (now, if good then Right key else Wrong key) (throttle_call (now, Ask key) (t, \<lambda>_. 0))
          else throttle_call (now, Ask key) (t, \<lambda>_. 0))"
  by (simp add: attempt_def split: prod.split bool.split)

section \<open>One attempt\<close>

text \<open>What counts of an entry at time \<open>now\<close>: an expired one is as good as none.\<close>

definition live :: "go_time \<Rightarrow> throttle \<Rightarrow> string \<Rightarrow> throttleEntry option" where
  "live now t key = prune_expired now t key"

lemma live_def': "live now t key = (case t key of None \<Rightarrow> None | Some e \<Rightarrow> if expired now e then None else Some e)"
  by (simp add: live_def prune_expired_def)

lemma attempt_other: "k \<noteq> key \<Longrightarrow> snd (attempt now k good t) key = live now t key"
  by (auto simp: attempt_def allow_def Let_def fail_def success_def live_def split: option.split bool.split)

lemma attempt_own:
  "attempt now key good t =
     (case live now t key of
        None \<Rightarrow> (if good then (Succeeded, (prune_expired now t)(key := None))
               else (Failed, (prune_expired now t)(key \<mapsto> \<lparr>te_failures = 1, te_first = now\<rparr>)))
      | Some e \<Rightarrow> if te_failures e < maxAuthFailures
               then (if good then (Succeeded, (prune_expired now t)(key := None))
                     else (Failed, (prune_expired now t)(key \<mapsto> e\<lparr>te_failures := te_failures e + 1\<rparr>)))
               else (Blocked, prune_expired now t))"
proof -
  have "\<not> expired now e" if "prune_expired now t key = Some e" for e
    using that by (auto simp: prune_expired_def split: option.splits if_splits)
  then show ?thesis
    by (auto simp: attempt_def allow_def fail_def success_def live_def Let_def split: option.split)
qed

section \<open>Windows\<close>

text \<open>
  The failures on a key fall into windows: at most \<open>cap\<close> of them, all within
  \<open>authWindow\<close> of the first, and the next window starts later than that.
\<close>

definition window :: "nat \<Rightarrow> go_time list \<Rightarrow> bool" where
  "window cap g \<longleftrightarrow> g \<noteq> [] \<and> length g \<le> cap \<and> (\<forall>x \<in> set g. hd g \<le> x \<and> x \<le> hd g + authWindow)"

fun windows :: "nat \<Rightarrow> go_time list list \<Rightarrow> bool" where
  "windows cap [] = True"
| "windows cap (g # gs) = (window cap g \<and> (gs \<noteq> [] \<longrightarrow> hd (hd gs) > hd g + authWindow) \<and> windows cap gs)"

definition opened :: "nat \<Rightarrow> throttleEntry option \<Rightarrow> go_time list \<Rightarrow> bool" where
  "opened cap e g = (case e of
     None \<Rightarrow> g = []
   | Some e \<Rightarrow> (g = [] \<or> length g + te_failures e \<le> cap)
            \<and> (\<forall>x \<in> set g. te_first e \<le> x \<and> x \<le> te_first e + authWindow))"

definition past :: "throttleEntry option \<Rightarrow> go_time \<Rightarrow> bool" where
  "past e x = (case e of None \<Rightarrow> True | Some e \<Rightarrow> x > te_first e + authWindow)"

definition split_failures :: "nat \<Rightarrow> throttleEntry option \<Rightarrow> go_time list \<Rightarrow> bool" where
  "split_failures cap e fs \<longleftrightarrow>
     (\<exists>g gs. fs = g @ concat gs \<and> opened cap e g \<and> windows cap gs \<and> (gs \<noteq> [] \<longrightarrow> past e (hd (hd gs))))"

lemma split_None: "split_failures cap None fs \<longleftrightarrow> (\<exists>gs. fs = concat gs \<and> windows cap gs)"
  by (auto simp: split_failures_def opened_def past_def)

lemma windows_hd: "windows cap gs \<Longrightarrow> gs \<noteq> [] \<Longrightarrow> hd (hd gs) \<in> set (concat gs)"
  by (cases gs) (auto simp: window_def)

lemma split_expired:
  assumes "split_failures cap None fs" "\<forall>x \<in> set fs. now \<le> x" "expired now e"
  shows "split_failures cap (Some e) fs"
proof -
  obtain gs where gs: "fs = concat gs" "windows cap gs" using assms(1) by (auto simp: split_None)
  have "hd (hd gs) \<ge> now" if "gs \<noteq> []" using windows_hd [OF gs(2) that] assms(2) gs(1) by auto
  then show ?thesis
    unfolding split_failures_def using gs assms(3)
    by (intro exI [of _ "[]"] exI [of _ gs]) (auto simp: opened_def past_def expired_def)
qed

text \<open>A failure opens a new window, or counts against the one that is open.\<close>

lemma split_new:
  assumes "split_failures cap (Some \<lparr>te_failures = 1, te_first = now\<rparr>) fs" "past e now" "0 < cap"
  shows "split_failures cap e (now # fs)"
proof -
  obtain g gs where g: "fs = g @ concat gs" "opened cap (Some \<lparr>te_failures = 1, te_first = now\<rparr>) g" "windows cap gs"
    "gs \<noteq> [] \<longrightarrow> hd (hd gs) > now + authWindow"
    using assms(1) by (auto simp: split_failures_def past_def)
  have "windows cap ((now # g) # gs)"
    using g(2-4) assms(3) by (auto simp: window_def opened_def authWindow_def minute_def second_def)
  then show ?thesis
    unfolding split_failures_def using g(1) assms(2)
    by (intro exI [of _ "[]"] exI [of _ "(now # g) # gs"]) (auto simp: opened_def split: option.split)
qed

lemma split_more:
  assumes "split_failures cap (Some (e\<lparr>te_failures := te_failures e + 1\<rparr>)) fs" "\<not> expired now e" "te_first e \<le> now"
    "te_failures e < cap"
  shows "split_failures cap (Some e) (now # fs)"
proof -
  obtain g gs where g: "fs = g @ concat gs" "opened cap (Some (e\<lparr>te_failures := te_failures e + 1\<rparr>)) g" "windows cap gs"
    "gs \<noteq> [] \<longrightarrow> past (Some e) (hd (hd gs))"
    using assms(1) by (auto simp: split_failures_def past_def)
  have "opened cap (Some e) (now # g)" using g(2) assms(2-4) by (auto simp: opened_def expired_def)
  then show ?thesis
    unfolding split_failures_def using g by (intro exI [of _ "now # g"] exI [of _ gs]) auto
qed

lemma rejected_simps [simp]:
  "rejected key [] = []" "rejected key ((now, c) # cs) = (if c = Wrong key then now # rejected key cs else rejected key cs)"
  by (simp_all add: rejected_def)

lemma rejected_ge: "sorted (now # map fst cs) \<Longrightarrow> \<forall>x \<in> set (rejected key cs). now \<le> x"
  by (auto simp: rejected_def)

text \<open>Entries never start in the future of the attempts.\<close>

definition started :: "go_time \<Rightarrow> throttle \<Rightarrow> bool" where
  "started now t \<longleftrightarrow> (\<forall>k e. t k = Some e \<longrightarrow> te_first e \<le> now)"

lemma started_prune: "started now t \<Longrightarrow> started now (prune_expired now' t)"
  by (auto simp: started_def prune_expired_def split: option.splits if_splits)

lemma started_call:
  assumes "started now t" "now \<le> now'"
  shows "started now' (fst (throttle_call (now', c) (t, busy)))"
proof -
  have "started now' t"
    using assms by (fastforce simp: started_def)
  then show ?thesis
    by (cases c) (auto simp: allow_def fail_def success_def started_def Let_def prune_expired_def split: option.splits if_splits)
qed

text \<open>
  What a key's entry has counted and the checks at work for it come to at most nine more than may be at work at
  once: a check is admitted only below ten failures.
\<close>

definition budget :: "nat \<Rightarrow> throttleEntry option \<Rightarrow> nat \<Rightarrow> bool" where
  "budget n e b \<longleftrightarrow> b \<le> n \<and> (case e of None \<Rightarrow> True | Some e \<Rightarrow> te_failures e + b \<le> 9 + n)"

lemma call_Ask:
  "fst (throttle_call (now, Ask k) (t, busy)) key = live now t key"
  "budget n (t key) (busy key) \<Longrightarrow> snd (throttle_call (now, Ask k) (t, busy)) key \<le> n \<Longrightarrow>
     budget n (live now t key) (snd (throttle_call (now, Ask k) (t, busy)) key)"
  by (auto simp: allow_def Let_def live_def' budget_def prune_expired_def maxAuthFailures_def split: option.splits if_splits)

lemma call_other: "c \<noteq> Ask k \<Longrightarrow> k \<noteq> key \<Longrightarrow> c = Wrong k \<or> c = Right k \<Longrightarrow>
    fst (throttle_call (now, c) (t, busy)) key = t key \<and> snd (throttle_call (now, c) (t, busy)) key = busy key"
  by (auto simp: fail_def success_def Let_def)

lemma call_Wrong:
  "fst (throttle_call (now, Wrong key) (t, busy)) key =
     Some (case live now t key of None \<Rightarrow> \<lparr>te_failures = 1, te_first = now\<rparr> | Some e \<Rightarrow> e\<lparr>te_failures := te_failures e + 1\<rparr>)"
  by (auto simp: fail_def Let_def live_def' split: option.splits)

lemma rejected_split:
  assumes "sorted (now # map fst cs)" "started now t" "budget n (t key) (busy key)" "possible n key cs (t, busy)"
    "\<forall>(_, c) \<in> set cs. c \<noteq> Right key"
  shows "split_failures (9 + n) (t key) (rejected key cs)"
  using assms
proof (induction cs arbitrary: now t busy)
  case Nil
  then show ?case by (auto simp: split_failures_def opened_def split: option.split intro!: exI [of _ "[]"])
next
  case (Cons a cs)
  obtain now' c where a: "a = (now', c)" by (cases a)
  obtain t' busy' where s': "throttle_call (now', c) (t, busy) = (t', busy')" by (cases "throttle_call (now', c) (t, busy)")
  have le: "now \<le> now'" "sorted (now' # map fst cs)" using Cons.prems(1) a by auto
  have st: "started now' t'" using started_call [OF Cons.prems(2) le(1), of c busy] by (simp add: s')
  have poss: "busy' key \<le> n" "possible n key cs (t', busy')" using Cons.prems(4) by (simp_all add: a s')
  have IH: "budget n (t' key) (busy' key) \<Longrightarrow> split_failures (9 + n) (t' key) (rejected key cs)"
    using Cons.IH [OF le(2) st _ poss(2)] Cons.prems(5) by auto
  have ge: "\<forall>x \<in> set (rejected key cs). now' \<le> x" using rejected_ge [OF le(2)] .
  consider (ask) k where "c = Ask k" | (other) k where "c = Wrong k \<or> c = Right k" "k \<noteq> key" | (wrong) "c = Wrong key"
    using Cons.prems(5) a by (cases c) auto
  then show ?case
  proof cases
    case ask
    have t': "t' key = live now' t key" and "budget n (live now' t key) (busy' key)"
      using call_Ask(1) [of now' k t busy key] call_Ask(2) [of n t key busy now' k] Cons.prems(3) poss(1) s' ask by simp_all
    then have "split_failures (9 + n) (live now' t key) (rejected key cs)"
      using IH by simp
    then have "split_failures (9 + n) (t key) (rejected key cs)"
      using split_expired [OF _ ge] by (auto simp: live_def' split: option.splits if_splits)
    then show ?thesis by (simp add: a ask)
  next
    case other
    then have "t' key = t key" "busy' key = busy key"
      using call_other [of c k key now' t busy] s' by auto
    then show ?thesis using IH Cons.prems(3) other by (auto simp: a)
  next
    case wrong
    have b: "0 < busy key" "busy' key = busy key - 1"
      using Cons.prems(4) s' by (auto simp: a wrong)
    have t': "t' key = Some (case live now' t key of None \<Rightarrow> \<lparr>te_failures = 1, te_first = now'\<rparr> | Some e \<Rightarrow> e\<lparr>te_failures := te_failures e + 1\<rparr>)"
      using call_Wrong [of now' key t busy] s' wrong by simp
    show ?thesis
    proof (cases "live now' t key")
      case None
      then have "past (t key) now'"
        by (auto simp: past_def live_def' expired_def split: option.splits if_splits)
      moreover have "budget n (t' key) (busy' key)"
        using b Cons.prems(3) None t' by (auto simp: budget_def)
      ultimately show ?thesis
        using split_new IH t' None by (simp add: a wrong)
    next
      case (Some e)
      then have e: "t key = Some e" "\<not> expired now' e" by (auto simp: live_def' split: option.splits if_splits)
      have "te_first e \<le> now'" using e(1) Cons.prems(2) le(1) by (force simp: started_def)
      moreover have "te_failures e < 9 + n" "budget n (t' key) (busy' key)"
        using b Cons.prems(3) Some t' e(1) by (auto simp: budget_def)
      ultimately show ?thesis
        using split_more [OF _ e(2)] IH t' Some e(1) by (simp add: a wrong)
    qed
  qed
qed

section \<open>Properties\<close>

definition in_minute :: "go_time \<Rightarrow> go_time list \<Rightarrow> nat" where
  "in_minute a xs = length (filter (\<lambda>x. a \<le> x \<and> x \<le> a + authWindow) xs)"

lemma in_minute_append [simp]: "in_minute a (xs @ ys) = in_minute a xs + in_minute a ys"
  by (simp add: in_minute_def)

lemma in_minute_0: "\<forall>x \<in> set xs. x < a \<or> a + authWindow < x \<Longrightarrow> in_minute a xs = 0"
  by (auto simp: in_minute_def filter_empty_conv)

lemma windows_later: "windows cap (g # gs) \<Longrightarrow> x \<in> set (concat gs) \<Longrightarrow> x > hd g + authWindow"
proof (induction gs arbitrary: g)
  case (Cons h hs)
  have h: "window cap h" "hd h > hd g + authWindow" "windows cap (h # hs)" using Cons.prems(1) by auto
  consider "x \<in> set h" | "x \<in> set (concat hs)" using Cons.prems(2) by auto
  then show ?case
  proof cases
    case 1
    then show ?thesis using h(1,2) by (fastforce simp: window_def)
  next
    case 2
    then have "x > hd h + authWindow" using Cons.IH h(3) by blast
    then show ?thesis using h(2) by (simp add: authWindow_def minute_def second_def)
  qed
qed simp

lemma in_minute_window: "window cap g \<Longrightarrow> in_minute a g \<le> cap"
  unfolding in_minute_def window_def by (meson le_trans length_filter_le)

lemma windows_start_inside:
  assumes "windows cap (g # gs)" "a \<le> hd g"
  shows "in_minute a (concat (g # gs)) \<le> cap"
proof -
  have "x > a + authWindow" if "x \<in> set (concat gs)" for x
    using windows_later [OF assms(1) that] assms(2) by simp
  then have "in_minute a (concat gs) = 0" by (intro in_minute_0) auto
  then show ?thesis using in_minute_window [of cap g a] assms(1) by simp
qed

lemma windows_within: "windows cap gs \<Longrightarrow> in_minute a (concat gs) \<le> 2 * cap - 1"
proof (induction gs)
  case Nil
  then show ?case by (simp add: in_minute_def)
next
  case (Cons g gs)
  have g: "window cap g" "windows cap gs" using Cons.prems by auto
  consider (inside) "a \<le> hd g" | (none) "in_minute a g = 0" | (both) y where "hd g < a" "y \<in> set g" "a \<le> y"
    by (cases "in_minute a g = 0") (fastforce simp: in_minute_def filter_empty_conv)+
  then show ?case
  proof cases
    case inside
    then show ?thesis using windows_start_inside [OF Cons.prems inside] by simp
  next
    case none
    then show ?thesis using Cons.IH g(2) by simp
  next
    case both
    obtain x xs where gx: "g = x # xs" using g(1) by (cases g) (auto simp: window_def)
    have "length xs \<le> cap - 1" using g(1) gx by (auto simp: window_def)
    then have few: "in_minute a g \<le> cap - 1"
      using both(1) gx le_trans [OF length_filter_le] by (simp add: in_minute_def)
    have "in_minute a (concat gs) \<le> cap"
    proof (cases gs)
      case Nil
      then show ?thesis by (simp add: in_minute_def)
    next
      case (Cons h hs)
      have "y \<le> hd g + authWindow" using both(2) g(1) by (auto simp: window_def)
      then have "a \<le> hd h" using \<open>windows cap (g # gs)\<close> both(3) Cons by auto
      then show ?thesis using windows_start_inside [of cap h hs a] g(2) Cons by simp
    qed
    then show ?thesis using few by simp
  qed
qed

text \<open>
  C17. The guessing budget, with requests served in parallel: as long as no password for a key is right, and at most
  \<open>n\<close> passwords for it are being checked at any one time, at most \<open>17 + 2 * n\<close> are checked and rejected for it in any
  interval of one minute, wherever the interval starts and however the calls of all requests interleave. Served one
  after the other that is fewer than twenty: each window of the throttle admits ten, and an interval can meet the
  tail of one window and the head of the next.
\<close>

theorem throttle_bounds_guessing:
  assumes "sorted (map fst cs)" "possible n key cs (newThrottle, \<lambda>_. 0)" "\<forall>(_, c) \<in> set cs. c \<noteq> Right key"
  shows "length (filter (\<lambda>x. a \<le> x \<and> x \<le> a + minute) (rejected key cs)) \<le> 17 + 2 * n"
proof -
  define now where "now = (case cs of [] \<Rightarrow> 0 | c # _ \<Rightarrow> fst c)"
  have "sorted (now # map fst cs)" using assms(1) by (fastforce simp: now_def split: list.split)
  moreover have "started now newThrottle" by (simp add: started_def newThrottle_def)
  moreover have "budget n (newThrottle key) 0" by (simp add: budget_def newThrottle_def)
  ultimately have "split_failures (9 + n) (newThrottle key) (rejected key cs)"
    using rejected_split [of now cs newThrottle n key "\<lambda>_. 0"] assms(2,3) by simp
  then obtain gs where "rejected key cs = concat gs" "windows (9 + n) gs"
    by (auto simp: newThrottle_def split_None)
  then show ?thesis using windows_within [of "9 + n" gs a] by (simp add: in_minute_def authWindow_def)
qed

text \<open>Two requests at work at once, one refused in the end.\<close>

definition demo_calls :: "(go_time \<times> call) list" where
  "demo_calls = (let k = ''bob|::1'' in [(5, Ask k), (5, Ask k), (6, Wrong k), (6, Wrong k)]
     @ concat (replicate 8 [(7, Ask k), (7, Wrong k)]) @ [(9, Ask k), (9, Ask k)])"

theorem throttle_bounds_guessing_witness:
  "possible 2 ''bob|::1'' demo_calls (newThrottle, \<lambda>_. 0) \<and> length (rejected ''bob|::1'' demo_calls) = 10
     \<and> length (filter (\<lambda>x. 0 \<le> x \<and> x \<le> 0 + minute) (rejected ''bob|::1'' demo_calls)) \<le> 17 + 2 * 2"
proof -
  have p: "possible 2 ''bob|::1'' demo_calls (newThrottle, \<lambda>_. 0)" "length (rejected ''bob|::1'' demo_calls) = 10"
    by code_simp+
  have "sorted (map fst demo_calls)" "\<forall>(_, c) \<in> set demo_calls. c \<noteq> Right ''bob|::1''"
    by code_simp+
  from throttle_bounds_guessing [OF this(1) p(1) this(2), of 0] p show ?thesis
    by blast
qed

text \<open>
  The budget is no bound on requests made at once: any number of them are admitted together, before the first is
  counted, and all their passwords are checked.
\<close>

lemma possible_asks:
  "busy key + k \<le> m \<Longrightarrow> possible m key cs (newThrottle, busy(key := busy key + k)) \<Longrightarrow>
     possible m key (replicate k (now, Ask key) @ cs) (newThrottle, busy)"
  by (induction k arbitrary: busy) (simp_all add: allow_def newThrottle_def prune_expired_def Let_def)

lemma possible_wrongs: "k \<le> busy key \<Longrightarrow> busy key \<le> m \<Longrightarrow> possible m key (replicate k (now, Wrong key)) (t, busy)"
  by (induction k arbitrary: t busy) simp_all

theorem parallel_guesses_admitted:
  "possible n key (replicate n (now, Ask key) @ replicate n (now, Wrong key)) (newThrottle, \<lambda>_. 0)
   \<and> length (rejected key (replicate n (now, Ask key) @ replicate n (now, Wrong key))) = n"
  by (simp add: possible_asks possible_wrongs rejected_def)

lemma locked_stays:
  assumes "t key = Some e" "\<not> te_failures e < maxAuthFailures" "\<forall>(u, _, _) \<in> set as. \<not> expired u e"
  shows "after_attempts as t key = Some e"
  using assms
proof (induction as t rule: after_attempts.induct)
  case (2 now k good as t)
  have "\<not> expired now e" using "2.prems"(3) by simp
  then have l: "live now t key = Some e" using "2.prems"(1) by (simp add: live_def')
  have "snd (attempt now k good t) key = Some e"
  proof (cases "k = key")
    case True
    then show ?thesis using l "2.prems"(2) by (simp add: attempt_own live_def)
  next
    case False
    then show ?thesis using l by (simp add: attempt_other)
  qed
  then show ?case using 2 by simp
qed simp

text \<open>
  C18. A lockout ends: when an attempt is blocked there is a moment, no later than one minute from now,
  such that the next attempt after it is not blocked, however many attempts on whatever keys are
  made until then. Hammering a locked account does not extend the lock.
\<close>

theorem lockout_ends:
  assumes "fst (attempt now key good t) = Blocked" "started now t"
  shows "\<exists>deadline \<le> now + minute. \<forall>as now' good'.
           (\<forall>(u, _, _) \<in> set as. now \<le> u \<and> u \<le> deadline) \<longrightarrow> deadline < now' \<longrightarrow>
           fst (attempt now' key good' (after_attempts as t)) \<noteq> Blocked"
proof -
  obtain e where l: "live now t key = Some e" and full: "\<not> te_failures e < maxAuthFailures"
    using assms(1) by (auto simp: attempt_own split: option.splits if_splits)
  then have e: "t key = Some e" by (auto simp: live_def' split: option.splits if_splits)
  let ?deadline = "te_first e + authWindow"
  have "fst (attempt now' key good' (after_attempts as t)) \<noteq> Blocked"
    if "\<forall>(u, _, _) \<in> set as. now \<le> u \<and> u \<le> ?deadline" "?deadline < now'" for as now' good'
  proof -
    have "after_attempts as t key = Some e"
      using that(1) by (intro locked_stays [of t key e, OF e full]) (auto simp: expired_def)
    then show ?thesis using that(2) by (simp add: attempt_own live_def' expired_def)
  qed
  moreover have "?deadline \<le> now + minute" using assms(2) e by (auto simp: started_def authWindow_def)
  ultimately show ?thesis by (intro exI [of _ ?deadline]) auto
qed

definition demo_locked :: throttle where
  "demo_locked = [''bob|::1'' \<mapsto> \<lparr>te_failures = 10, te_first = 0\<rparr>]"

theorem lockout_ends_witness:
  "fst (attempt 5 ''bob|::1'' True demo_locked) = Blocked
   \<and> (\<exists>deadline \<le> 5 + minute. fst (attempt (deadline + 1) ''bob|::1'' True demo_locked) \<noteq> Blocked)"
proof -
  have b: "fst (attempt 5 ''bob|::1'' True demo_locked) = Blocked"
    by (simp add: attempt_own live_def' demo_locked_def expired_def maxAuthFailures_def duration_defs authWindow_def)
  have "started 5 demo_locked" by (simp add: started_def demo_locked_def)
  from lockout_ends [OF b this] obtain deadline :: int where d: "deadline \<le> 5 + minute" and
    A: "\<forall>as now' good'. (\<forall>(u, _, _) \<in> set as. 5 \<le> u \<and> u \<le> deadline) \<longrightarrow> deadline < now' \<longrightarrow>
      fst (attempt now' ''bob|::1'' good' (after_attempts as demo_locked)) \<noteq> Blocked" by blast
  have "fst (attempt (deadline + 1) ''bob|::1'' True (after_attempts [] demo_locked)) \<noteq> Blocked"
    by (rule A [rule_format]) simp_all
  then show ?thesis using b d by auto
qed

end
