(* ===== verification/Overview.thy ===== *)
theory Overview
  imports Store_Properties Result_State
begin

text \<open>
  The health rollup of \<open>internal/store/overview.go\<close>. The protojson decoder behind
  \<open>testtype.DecodeResult\<close> is the argument \<open>decode\<close>, and \<open>now\<close> is the clock.
\<close>

section \<open>Records\<close>

record TestHealth =
  hh_TestID :: string
  hh_Name :: string
  hh_Type :: string
  hh_Checks :: nat
  hh_OK :: nat
  hh_Agents :: nat
  hh_AgentNames :: "string list"
  hh_Status :: string
  hh_LastSeen :: "go_time option"
  hh_Series :: "float64 list"
  hh_Unit :: string
  hh_Current :: "float64 option"

record SiteHealth =
  sh_SiteID :: string
  sh_Healthy :: nat
  sh_Degraded :: nat
  sh_Failing :: nat
  sh_NoData :: nat

record Overview =
  ov_Sites :: nat
  ov_Agents :: nat
  ov_AgentsConnected :: nat
  ov_Tests :: nat
  ov_ActiveAlerts :: nat
  ov_TestHealth :: "TestHealth list"
  ov_SiteHealth :: "SiteHealth list"

section \<open>One test\<close>

definition primaryMetric :: "('p \<Rightarrow> TestResult option) \<Rightarrow> string \<Rightarrow> 'p \<Rightarrow> float64 option" where
  "primaryMetric decode testType payload =
     (case Get testType of
        None \<Rightarrow> None
      | Some spec \<Rightarrow> (case decode payload of None \<Rightarrow> None | Some r \<Rightarrow> sp_Primary spec r))"

text \<open>The rows of a join of results with agents, for a tenant, a test and optionally one site.\<close>

definition of_test :: "string \<Rightarrow> string \<Rightarrow> string \<Rightarrow> 'p db \<Rightarrow> 'p Result \<Rightarrow> bool" where
  "of_test tenantID siteID testID d r =
     (case agent_of d (re_AgentID r) of
        None \<Rightarrow> False
      | Some a \<Rightarrow> ag_TenantID a = tenantID \<and> re_TestID r = testID \<and> (siteID = '''' \<or> ag_SiteID a = siteID))"

definition windowSec :: "TestDef \<Rightarrow> u32" where
  "windowSec t =
     (let w = td_IntervalSeconds t * 3; w = (if w < 90 then 90 else w) in if w > 3600 then 3600 else w)"

definition test_thresholds :: "TestDef \<Rightarrow> Thresholds option" where
  "test_thresholds t = (if td_Thresholds t = RawEmpty then None else unmarshal_thresholds (td_Thresholds t))"

definition window :: "go_time \<Rightarrow> string \<Rightarrow> string \<Rightarrow> TestDef \<Rightarrow> 'p db \<Rightarrow> 'p Result list" where
  "window now tenantID siteID t d =
     filter (\<lambda>r. of_test tenantID siteID (td_ID t) d r \<and> re_Time r \<ge> now - uint (windowSec t) * second) (rows (results d))"

record tally =
  ty_checks :: nat
  ty_ok :: nat
  ty_red :: nat
  ty_orange :: nat

definition count_result :: "('p \<Rightarrow> TestResult option) \<Rightarrow> TestDef \<Rightarrow> 'p Result \<Rightarrow> tally \<Rightarrow> tally" where
  "count_result decode t r y =
     (let y = y\<lparr>ty_checks := ty_checks y + 1\<rparr>;
          y = (if re_OK r then y\<lparr>ty_ok := ty_ok y + 1\<rparr> else y)
      in if re_OK r \<and> test_thresholds t \<noteq> None then
           (case primaryMetric decode (td_Type t) (re_Payload r) of
              None \<Rightarrow> y
            | Some v \<Rightarrow>
                (let state = computeResultState (td_Type t) v (test_thresholds t)
                 in if state = ''red'' then y\<lparr>ty_red := ty_red y + 1\<rparr>
                    else if state = ''orange'' then y\<lparr>ty_orange := ty_orange y + 1\<rparr> else y))
         else y)"

definition no_results :: tally where
  "no_results = \<lparr>ty_checks = 0, ty_ok = 0, ty_red = 0, ty_orange = 0\<rparr>"

definition judge :: "tally \<Rightarrow> string" where
  "judge y =
     (if ty_checks y = 0 then ''nodata''
      else if ty_red y > 0 then ''failing''
      else if ty_orange y > 0 then ''degraded''
      else if ty_ok y = ty_checks y then ''healthy''
      else if ty_ok y = 0 then ''failing''
      else ''degraded'')"

text \<open>The status, the numbers of checks and of healthy ones, and the names of the agents that reported.\<close>

definition testStatus ::
  "('p \<Rightarrow> TestResult option) \<Rightarrow> go_time \<Rightarrow> string \<Rightarrow> string \<Rightarrow> TestDef \<Rightarrow> 'p db \<Rightarrow> string \<times> nat \<times> nat \<times> string list" where
  "testStatus decode now tenantID siteID t d =
     (let rs = window now tenantID siteID t d; y = fold (count_result decode t) rs no_results;
          names = sort (remdups (List.map_filter (\<lambda>r. map_option ag_Name (agent_of d (re_AgentID r))) rs))
      in (judge y, ty_checks y, ty_ok y, names))"

definition extractSeries ::
  "('p \<Rightarrow> TestResult option) \<Rightarrow> string \<Rightarrow> string \<Rightarrow> string \<Rightarrow> string \<Rightarrow> 'p db \<Rightarrow> string \<times> float64 list \<times> float64 option" where
  "extractSeries decode testType testID tenantID siteID d =
     (case Get testType of
        None \<Rightarrow> ('''', [], None)
      | Some spec \<Rightarrow>
          (let newest = select_desc re_ID (of_test tenantID siteID testID d) 30 (rows (results d));
               series = rev (List.map_filter (\<lambda>r. primaryMetric decode testType (re_Payload r)) newest)
           in (sp_Unit spec, series, if series = [] then None else Some (last series))))"

definition last_seen :: "string \<Rightarrow> string \<Rightarrow> string \<Rightarrow> 'p db \<Rightarrow> go_time option" where
  "last_seen tenantID siteID testID d =
     (case select_desc re_ID (of_test tenantID siteID testID d) 1 (rows (results d)) of [] \<Rightarrow> None | r # _ \<Rightarrow> Some (re_Time r))"

definition test_health :: "('p \<Rightarrow> TestResult option) \<Rightarrow> go_time \<Rightarrow> string \<Rightarrow> string \<Rightarrow> 'p db \<Rightarrow> TestDef \<Rightarrow> TestHealth" where
  "test_health decode now tenantID siteID d t =
     (let (status, checks, okSum, names) = testStatus decode now tenantID siteID t d;
          h = \<lparr>hh_TestID = td_ID t, hh_Name = td_Name t, hh_Type = td_Type t, hh_Checks = 0, hh_OK = 0, hh_Agents = 0,
               hh_AgentNames = [], hh_Status = ''nodata'', hh_LastSeen = None, hh_Series = [], hh_Unit = '''', hh_Current = None\<rparr>
      in if checks = 0 then h
         else let (unt, series, cur) = extractSeries decode (td_Type t) (td_ID t) tenantID siteID d
              in h\<lparr>hh_Status := status, hh_Checks := checks, hh_OK := okSum, hh_Agents := length names,
                   hh_AgentNames := names, hh_LastSeen := last_seen tenantID siteID (td_ID t) d,
                   hh_Unit := unt, hh_Series := series, hh_Current := cur\<rparr>)"

section \<open>One tenant\<close>

definition count_status :: "string \<Rightarrow> SiteHealth \<Rightarrow> SiteHealth" where
  "count_status status r =
     (if status = ''healthy'' then r\<lparr>sh_Healthy := sh_Healthy r + 1\<rparr>
      else if status = ''degraded'' then r\<lparr>sh_Degraded := sh_Degraded r + 1\<rparr>
      else if status = ''failing'' then r\<lparr>sh_Failing := sh_Failing r + 1\<rparr>
      else r\<lparr>sh_NoData := sh_NoData r + 1\<rparr>)"

text \<open>One assigned test of a site: the site's rollup is created when it is first met.\<close>

definition roll_up :: "string \<Rightarrow> string \<Rightarrow> SiteHealth list \<Rightarrow> SiteHealth list" where
  "roll_up siteID status rs =
     (let rs = (if has_key sh_SiteID siteID rs then rs
                else rs @ [\<lparr>sh_SiteID = siteID, sh_Healthy = 0, sh_Degraded = 0, sh_Failing = 0, sh_NoData = 0\<rparr>])
      in update_where (\<lambda>r. sh_SiteID r = siteID) (count_status status) rs)"

definition assigned :: "string \<Rightarrow> string \<Rightarrow> 'p db \<Rightarrow> (string \<times> string) list" where
  "assigned tenantID siteID d =
     sort_key fst (filter (\<lambda>p. (\<exists>s \<in> set (sites d). si_ID s = fst p \<and> si_TenantID s = tenantID)
                               \<and> (siteID = '''' \<or> fst p = siteID)) (site_tests d))"

definition site_rollups ::
  "('p \<Rightarrow> TestResult option) \<Rightarrow> go_time \<Rightarrow> string \<Rightarrow> TestDef list \<Rightarrow> (string \<times> string) list \<Rightarrow> 'p db \<Rightarrow> SiteHealth list" where
  "site_rollups decode now tenantID ts ps d =
     fold (\<lambda>p rs. case find (\<lambda>t. td_ID t = snd p) ts of
             None \<Rightarrow> rs
           | Some t \<Rightarrow> roll_up (fst p) (fst (testStatus decode now tenantID (fst p) t d)) rs) ps []"

definition count_site_alerts :: "string \<Rightarrow> string \<Rightarrow> 'p db \<Rightarrow> nat" where
  "count_site_alerts tenantID siteID d =
     length (filter (\<lambda>a. firing a \<and>
       (\<exists>r \<in> set (alert_rules d). ar_ID r = al_RuleID a \<and>
          (\<exists>t \<in> set (tests d). td_ID t = ar_TestID r \<and> td_TenantID t = tenantID \<and> (siteID, td_ID t) \<in> set (site_tests d))))
       (rows (alerts d)))"

definition TenantOverview :: "('p \<Rightarrow> TestResult option) \<Rightarrow> go_time \<Rightarrow> string \<Rightarrow> string \<Rightarrow> 'p db \<Rightarrow> Overview" where
  "TenantOverview decode now tenantID siteID d =
     (let ts = (if siteID \<noteq> '''' then TestsForSite siteID d else ListTests tenantID d)
      in \<lparr>ov_Sites = (if siteID \<noteq> '''' then 1 else length (filter (\<lambda>s. si_TenantID s = tenantID) (sites d))),
          ov_Agents = length (filter (\<lambda>a. ag_TenantID a = tenantID \<and> (siteID = '''' \<or> ag_SiteID a = siteID)) (agents d)),
          ov_AgentsConnected = 0,
          ov_Tests = length ts,
          ov_ActiveAlerts = (if siteID \<noteq> '''' then count_site_alerts tenantID siteID d else CountActiveAlerts tenantID d),
          ov_TestHealth = map (test_health decode now tenantID siteID d) ts,
          ov_SiteHealth = site_rollups decode now tenantID ts (assigned tenantID siteID d) d\<rparr>)"

section \<open>When a test is healthy\<close>

lemma count_fold:
  "ty_checks (fold (count_result decode t) rs y) = ty_checks y + length rs"
  "ty_ok (fold (count_result decode t) rs y) = ty_ok y + length (filter re_OK rs)"
  by (induction rs arbitrary: y) (auto simp: count_result_def Let_def split: option.split)

definition coloured :: "('p \<Rightarrow> TestResult option) \<Rightarrow> TestDef \<Rightarrow> string \<Rightarrow> 'p Result \<Rightarrow> bool" where
  "coloured decode t c r \<longleftrightarrow> re_OK r \<and> test_thresholds t \<noteq> None \<and>
     (case primaryMetric decode (td_Type t) (re_Payload r) of
        None \<Rightarrow> False | Some v \<Rightarrow> computeResultState (td_Type t) v (test_thresholds t) = c)"

lemma count_fold_states:
  "ty_red (fold (count_result decode t) rs y) = ty_red y + length (filter (coloured decode t ''red'') rs)"
  "ty_orange (fold (count_result decode t) rs y) = ty_orange y + length (filter (coloured decode t ''orange'') rs)"
  by (induction rs arbitrary: y) (auto simp: count_result_def coloured_def Let_def split: option.split)

text \<open>
  A test is reported healthy exactly when it has results in its window, every one of them is OK and
  none has a primary value past a threshold; it is reported without data exactly when the window is
  empty, and failing exactly when a result is past the critical threshold, or none is OK.
\<close>

theorem testStatus_healthy:
  "let status = fst (testStatus decode now tenantID siteID t d); rs = window now tenantID siteID t d
   in (status = ''healthy'' \<longleftrightarrow> rs \<noteq> [] \<and> list_all (\<lambda>r. re_OK r \<and> \<not> coloured decode t ''red'' r \<and> \<not> coloured decode t ''orange'' r) rs)
      \<and> (status = ''nodata'' \<longleftrightarrow> rs = [])
      \<and> (status = ''failing'' \<longleftrightarrow> rs \<noteq> [] \<and> (list_ex (coloured decode t ''red'') rs \<or> list_all (\<lambda>r. re_OK r = False) rs))"
proof -
  let ?rs = "window now tenantID siteID t d" and ?y = "fold (count_result decode t) (window now tenantID siteID t d) no_results"
  have ok: "length (filter re_OK ?rs) = length ?rs \<longleftrightarrow> list_all re_OK ?rs"
    using filter_id_conv [of re_OK ?rs] length_filter_less [of _ ?rs re_OK] by (fastforce simp: list_all_iff)
  have pos: "0 < length (filter P ?rs) \<longleftrightarrow> list_ex P ?rs" for P
    by (simp add: list_ex_iff filter_empty_conv)
  have none: "length (filter P ?rs) = 0 \<longleftrightarrow> \<not> list_ex P ?rs" for P
    by (simp add: list_ex_iff filter_empty_conv)
  have off: "list_all (\<lambda>r. re_OK r = False) ?rs \<longleftrightarrow> \<not> list_ex re_OK ?rs"
    by (auto simp: list_all_iff list_ex_iff)
  have dead: "\<not> list_ex re_OK ?rs \<Longrightarrow> \<not> list_ex (coloured decode t c) ?rs" for c
    by (auto simp: coloured_def list_ex_iff)
  have all: "list_all (\<lambda>r. re_OK r \<and> \<not> coloured decode t ''red'' r \<and> \<not> coloured decode t ''orange'' r) ?rs
      \<longleftrightarrow> list_all re_OK ?rs \<and> \<not> list_ex (coloured decode t ''red'') ?rs \<and> \<not> list_ex (coloured decode t ''orange'') ?rs"
    by (auto simp: list_all_iff list_ex_iff)
  have ex: "?rs \<noteq> [] \<Longrightarrow> list_all re_OK ?rs \<Longrightarrow> list_ex re_OK ?rs" by (cases ?rs) auto
  have y: "ty_checks ?y = length ?rs" "ty_ok ?y = length (filter re_OK ?rs)"
    "ty_red ?y = length (filter (coloured decode t ''red'') ?rs)"
    "ty_orange ?y = length (filter (coloured decode t ''orange'') ?rs)"
    by (simp_all add: count_fold count_fold_states no_results_def)
  have s: "fst (testStatus decode now tenantID siteID t d) = judge ?y"
    by (simp add: testStatus_def Let_def)
  show ?thesis
    using dead [of "''red''"] dead [of "''orange''"] ex
    unfolding s Let_def judge_def y all ok pos none off by (auto split: if_splits)
qed

section \<open>The rollup of a site\<close>

definition site_total :: "SiteHealth \<Rightarrow> nat" where
  "site_total h = sh_Healthy h + sh_Degraded h + sh_Failing h + sh_NoData h"

definition totals_ok :: "(string \<Rightarrow> nat) \<Rightarrow> SiteHealth list \<Rightarrow> bool" where
  "totals_ok f rs \<longleftrightarrow> uniq sh_SiteID rs \<and> (\<forall>h \<in> set rs. site_total h = f (sh_SiteID h))
     \<and> (\<forall>i. f i > 0 \<longleftrightarrow> has_key sh_SiteID i rs)"

lemma count_status_simps [simp]:
  "sh_SiteID (count_status st r) = sh_SiteID r" "site_total (count_status st r) = site_total r + 1"
  by (simp_all add: count_status_def site_total_def)

lemma roll_up_totals:
  assumes "totals_ok f rs"
  shows "totals_ok (f(i := f i + 1)) (roll_up i st rs)"
proof -
  define qs where "qs = (if has_key sh_SiteID i rs then rs
    else rs @ [\<lparr>sh_SiteID = i, sh_Healthy = 0, sh_Degraded = 0, sh_Failing = 0, sh_NoData = 0\<rparr>])"
  have q: "roll_up i st rs = update_where (\<lambda>r. sh_SiteID r = i) (count_status st) qs"
    by (simp add: roll_up_def qs_def Let_def)
  have "uniq sh_SiteID qs" "\<forall>h \<in> set qs. site_total h = f (sh_SiteID h)" "has_key sh_SiteID i qs"
    "\<forall>j. j \<noteq> i \<longrightarrow> has_key sh_SiteID j qs = has_key sh_SiteID j rs"
    using assms by (auto simp: qs_def totals_ok_def table_simps site_total_def has_key_def)
  moreover from this have "\<forall>h \<in> set (roll_up i st rs). site_total h = (f(i := f i + 1)) (sh_SiteID h)"
    by (auto simp: q update_where_def)
  ultimately show ?thesis
    using assms unfolding totals_ok_def by (simp add: q uniq_update_where has_key_update_where) 
qed

text \<open>The assignments whose test is among those the overview lists.\<close>

definition listed_pairs :: "string \<Rightarrow> string \<Rightarrow> 'p db \<Rightarrow> (string \<times> string) list" where
  "listed_pairs tenantID siteID d = filter (\<lambda>p. has_key td_ID (snd p)
     (if siteID \<noteq> '''' then TestsForSite siteID d else ListTests tenantID d)) (assigned tenantID siteID d)"

text \<open>
  The rollup of an overview has one row per site with assigned tests, and in each row the numbers
  of healthy, degraded, failing and silent tests add up to the tests assigned to that site: no
  assignment is dropped or counted twice.
\<close>

theorem site_rollups_total:
  "distinct (map sh_SiteID (ov_SiteHealth (TenantOverview decode now tenantID siteID d)))
    \<and> set (map sh_SiteID (ov_SiteHealth (TenantOverview decode now tenantID siteID d))) = fst ` set (listed_pairs tenantID siteID d)
    \<and> list_all (\<lambda>h. site_total h = length (filter (\<lambda>p. fst p = sh_SiteID h) (listed_pairs tenantID siteID d)))
         (ov_SiteHealth (TenantOverview decode now tenantID siteID d))"
proof -
  define ts where "ts = (if siteID \<noteq> '''' then TestsForSite siteID d else ListTests tenantID d)"
  let ?step = "\<lambda>p rs. case find (\<lambda>t. td_ID t = snd p) ts of None \<Rightarrow> rs
     | Some t \<Rightarrow> roll_up (fst p) (fst (testStatus decode now tenantID (fst p) t d)) rs"
  let ?n = "\<lambda>qs i. length (filter (\<lambda>p. fst p = i) (filter (\<lambda>p. has_key td_ID (snd p) ts) qs))"
  have step: "totals_ok (\<lambda>i. f i + ?n qs i) (fold ?step qs rs)" if "totals_ok f rs" for f qs rs
    using that
  proof (induction qs arbitrary: f rs)
    case Nil
    then show ?case by simp
  next
    case (Cons p qs)
    show ?case
    proof (cases "find (\<lambda>t. td_ID t = snd p) ts")
      case None
      then have "\<not> has_key td_ID (snd p) ts" by (auto simp: has_key_def find_None_iff)
      then show ?thesis using Cons None by simp
    next
      case (Some t)
      then have k: "has_key td_ID (snd p) ts" by (auto simp: has_key_def dest!: find_SomeD intro: rev_image_eqI)
      have "(\<lambda>i. (f(fst p := f (fst p) + 1)) i + ?n qs i) = (\<lambda>i. f i + ?n (p # qs) i)"
        using k by auto
      then show ?thesis
        using Cons.IH [OF roll_up_totals [OF Cons.prems, of "fst p"]] Some by simp
    qed
  qed
  have "totals_ok (\<lambda>i. 0) []" by (simp add: totals_ok_def has_key_def)
  from step [OF this, of "assigned tenantID siteID d"]
  have "totals_ok (?n (assigned tenantID siteID d)) (ov_SiteHealth (TenantOverview decode now tenantID siteID d))"
    by (simp add: TenantOverview_def Let_def ts_def [symmetric] site_rollups_def)
  moreover have "listed_pairs tenantID siteID d = filter (\<lambda>p. has_key td_ID (snd p) ts) (assigned tenantID siteID d)"
    by (simp add: listed_pairs_def ts_def)
  ultimately have t: "totals_ok (\<lambda>i. length (filter (\<lambda>p. fst p = i) (listed_pairs tenantID siteID d)))
      (ov_SiteHealth (TenantOverview decode now tenantID siteID d))" by (simp only:)
  have "(i \<in> sh_SiteID ` set (ov_SiteHealth (TenantOverview decode now tenantID siteID d)))
      = (i \<in> fst ` set (listed_pairs tenantID siteID d))" for i
  proof -
    have "(i \<in> fst ` set P) = (0 < length (filter (\<lambda>p. fst p = i) P))" for P :: "(string \<times> string) list"
      by (auto simp: filter_empty_conv)
    then show ?thesis using t unfolding totals_ok_def has_key_def by metis
  qed
  with t show ?thesis by (auto simp: totals_ok_def uniq_def list_all_iff)
qed

end
