(* ===== verification/Roaming.thy ===== *)
theory Roaming
  imports Path_Change "HOL-Library.Monad_Syntax" "HOL-Library.Multiset"
begin

text \<open>
  The roaming summary of \<open>internal/store/wlanroaming.go\<close>. The 64-bit and 32-bit differences wrap.
  \<open>sort.Slice\<close> may order events of the same millisecond either way, so the sorting function is an argument,
  of which only that it sorts by the time is known. The clock is read once.
\<close>

section \<open>Records\<close>

record rawEvent =
  rw_ClientMac :: string
  rw_Ssid :: string
  rw_FromBssid :: string
  rw_ToBssid :: string
  rw_FromChannel :: u32
  rw_ToChannel :: u32
  rw_FromRssiDbm :: int
  rw_ToRssiDbm :: int
  rw_RoamTimeMs :: float64
  rw_DetectedAtMs :: int

record rawNetwork =
  rn_Bssid :: string
  rn_Ssid :: string
  rn_RssiDbm :: int

record WlanRoamEntry =
  we_ClientMAC :: string
  we_SSID :: string
  we_FromBSSID :: string
  we_ToBSSID :: string
  we_FromChannel :: u32
  we_ToChannel :: u32
  we_FromRSSIdBm :: int
  we_ToRSSIdBm :: int
  we_RoamTimeMs :: float64
  we_DetectedAtMs :: int
  we_Classification :: string
  we_DurationMs :: float64

record WlanRoamingSummary =
  ws_GoodRoams :: nat
  ws_SuboptimalRoams :: nat
  ws_BadRoams :: nat
  ws_PingPongClients :: nat
  ws_StickyClients :: nat
  ws_Disconnects :: nat
  ws_Events :: "WlanRoamEntry list"

definition pingPongWindowMs :: int where
  "pingPongWindowMs = 5 * 60 * 1000"

definition stickyRSSIGapDB :: int where
  "stickyRSSIGapDB = 10"

definition stickyMinDwellMs :: float64 where
  "stickyMinDwellMs = 5 * 60 * 1000"

definition wrap64 :: "int \<Rightarrow> int" where
  "wrap64 n = sint (word_of_int n :: 64 word)"

definition wrap32 :: "int \<Rightarrow> int" where
  "wrap32 n = sint (word_of_int n :: 32 word)"

section \<open>Decoding the stored payload\<close>

fun as_int32 :: "int \<Rightarrow> json \<Rightarrow> int option" where
  "as_int32 d JNull = Some d"
| "as_int32 d (JInt n) = (if - (2 ^ 31) \<le> n \<and> n < 2 ^ 31 then Some n else None)"
| "as_int32 d _ = None"

text \<open>An \<open>int64\<close> field with the option \<open>,string\<close>: the number is in a JSON string.\<close>

definition parse_int64 :: "string \<Rightarrow> int option" where
  "parse_int64 s =
     (let (neg, ds) = (case s of c # cs \<Rightarrow> if c = CHR ''-'' then (True, cs) else (False, s) | [] \<Rightarrow> (False, []));
          n = (if neg then - int (atoi_digits 0 ds) else int (atoi_digits 0 ds))
      in if ds \<noteq> [] \<and> list_all is_digit ds \<and> - (2 ^ 63) \<le> n \<and> n < 2 ^ 63 then Some n else None)"

fun as_quoted_int64 :: "int \<Rightarrow> json \<Rightarrow> int option" where
  "as_quoted_int64 d JNull = Some d"
| "as_quoted_int64 d (JStr s) = (if s = ''null'' then Some d else parse_int64 s)"
| "as_quoted_int64 d _ = None"

definition event_fields :: "string list" where
  "event_fields = [''clientMac'', ''ssid'', ''fromBssid'', ''toBssid'', ''fromChannel'', ''toChannel'',
     ''fromRssiDbm'', ''toRssiDbm'', ''roamTimeMs'', ''detectedAtMs'']"

definition decode_event :: "json \<Rightarrow> rawEvent option" where
  "decode_event j =
     do { ms \<leftarrow> unmarshal_object j;
          c \<leftarrow> dec as_str [] (members event_fields ms ''clientMac'');
          s \<leftarrow> dec as_str [] (members event_fields ms ''ssid'');
          fb \<leftarrow> dec as_str [] (members event_fields ms ''fromBssid'');
          tb \<leftarrow> dec as_str [] (members event_fields ms ''toBssid'');
          fc \<leftarrow> dec as_u32 0 (members event_fields ms ''fromChannel'');
          tc \<leftarrow> dec as_u32 0 (members event_fields ms ''toChannel'');
          fr \<leftarrow> dec as_int32 0 (members event_fields ms ''fromRssiDbm'');
          tr \<leftarrow> dec as_int32 0 (members event_fields ms ''toRssiDbm'');
          rt \<leftarrow> dec as_float 0 (members event_fields ms ''roamTimeMs'');
          da \<leftarrow> dec as_quoted_int64 0 (members event_fields ms ''detectedAtMs'');
        Some \<lparr>rw_ClientMac = c, rw_Ssid = s, rw_FromBssid = fb, rw_ToBssid = tb, rw_FromChannel = fc, rw_ToChannel = tc,
              rw_FromRssiDbm = fr, rw_ToRssiDbm = tr, rw_RoamTimeMs = rt, rw_DetectedAtMs = da\<rparr> }"

definition network_fields :: "string list" where
  "network_fields = [''bssid'', ''ssid'', ''rssiDbm'']"

definition decode_network :: "json \<Rightarrow> rawNetwork option" where
  "decode_network j =
     do { ms \<leftarrow> unmarshal_object j;
          b \<leftarrow> dec as_str [] (members network_fields ms ''bssid'');
          s \<leftarrow> dec as_str [] (members network_fields ms ''ssid'');
          r \<leftarrow> dec as_int32 0 (members network_fields ms ''rssiDbm'');
        Some \<lparr>rn_Bssid = b, rn_Ssid = s, rn_RssiDbm = r\<rparr> }"

definition as_array :: "(json \<Rightarrow> 'a option) \<Rightarrow> 'a list \<Rightarrow> json \<Rightarrow> 'a list option" where
  "as_array f d j = (case j of JNull \<Rightarrow> Some [] | JArr js \<Rightarrow> those (map f js) | _ \<Rightarrow> None)"

definition passive_fields :: "string list" where
  "passive_fields = [''roamEvents'', ''networks'']"

definition as_passive :: "rawEvent list \<times> rawNetwork list \<Rightarrow> json \<Rightarrow> (rawEvent list \<times> rawNetwork list) option" where
  "as_passive d j =
     (case unmarshal_object j of None \<Rightarrow> None | Some ms \<Rightarrow>
      case dec (as_array decode_event) (fst d) (members passive_fields ms ''roamEvents'') of None \<Rightarrow> None | Some es \<Rightarrow>
      case dec (as_array decode_network) (snd d) (members passive_fields ms ''networks'') of None \<Rightarrow> None | Some ns \<Rightarrow>
        Some (es, ns))"

definition decode_passive :: "raw_message \<Rightarrow> (rawEvent list \<times> rawNetwork list) option" where
  "decode_passive payload =
     (case payload of
        Raw j \<Rightarrow>
          (case unmarshal_object j of None \<Rightarrow> None | Some ms \<Rightarrow>
             dec as_passive ([], []) (members [''wlanPassive''] ms ''wlanPassive''))
      | _ \<Rightarrow> None)"

section \<open>Collecting the events\<close>

text \<open>All events, and the networks of the latest sweep with its time in milliseconds.\<close>

record gathered =
  gt_all :: "rawEvent list"
  gt_networks :: "rawNetwork list"
  gt_networksAtMs :: int

definition gather :: "raw_message Result \<Rightarrow> gathered \<Rightarrow> gathered" where
  "gather r g =
     (case decode_passive (re_Payload r) of
        None \<Rightarrow> g
      | Some (es, ns) \<Rightarrow>
          (let g = g\<lparr>gt_all := gt_all g @ es\<rparr>
           in if gt_networksAtMs g = 0 \<and> ns \<noteq> []
              then g\<lparr>gt_networksAtMs := re_Time r div 1000000, gt_networks := ns\<rparr> else g))"

definition bestRSSIBySSID :: "rawNetwork list \<Rightarrow> string \<rightharpoonup> int" where
  "bestRSSIBySSID ns =
     fold (\<lambda>n m. if rn_Ssid n = '''' then m
            else case m (rn_Ssid n) of
                   None \<Rightarrow> m(rn_Ssid n \<mapsto> rn_RssiDbm n)
                 | Some cur \<Rightarrow> if rn_RssiDbm n > cur then m(rn_Ssid n \<mapsto> rn_RssiDbm n) else m) ns Map.empty"

section \<open>Ping-pong\<close>

definition bounce :: "rawEvent \<Rightarrow> rawEvent \<Rightarrow> bool" where
  "bounce prev cur \<longleftrightarrow> rw_FromBssid prev \<noteq> '''' \<and> rw_ToBssid cur = rw_FromBssid prev \<and> rw_FromBssid cur = rw_ToBssid prev
     \<and> wrap64 (rw_DetectedAtMs cur - rw_DetectedAtMs prev) \<le> pingPongWindowMs"

fun bounces :: "rawEvent list \<Rightarrow> bool" where
  "bounces (p # c # es) = (bounce p c \<or> bounces (c # es))"
| "bounces _ = False"

definition clients :: "rawEvent list \<Rightarrow> string list" where
  "clients all = remdups (map rw_ClientMac all)"

definition pingPong :: "rawEvent list \<Rightarrow> string list" where
  "pingPong all = filter (\<lambda>m. bounces (filter (\<lambda>e. rw_ClientMac e = m) all)) (clients all)"

section \<open>The event log\<close>

definition classify :: "rawEvent \<Rightarrow> string" where
  "classify e =
     (if rw_ToBssid e = '''' then ''disconnect''
      else if rw_FromRssiDbm e = 0 \<or> rw_ToRssiDbm e = 0 then ''''
      else let delta = wrap32 (rw_ToRssiDbm e - rw_FromRssiDbm e)
           in if delta \<ge> 0 then ''good'' else if delta > -5 then ''suboptimal'' else ''bad'')"

definition entry_of :: "int \<Rightarrow> rawEvent \<Rightarrow> WlanRoamEntry" where
  "entry_of end_ms e =
     \<lparr>we_ClientMAC = rw_ClientMac e, we_SSID = rw_Ssid e, we_FromBSSID = rw_FromBssid e, we_ToBSSID = rw_ToBssid e,
      we_FromChannel = rw_FromChannel e, we_ToChannel = rw_ToChannel e, we_FromRSSIdBm = rw_FromRssiDbm e,
      we_ToRSSIdBm = rw_ToRssiDbm e, we_RoamTimeMs = rw_RoamTimeMs e, we_DetectedAtMs = rw_DetectedAtMs e,
      we_Classification = classify e,
      we_DurationMs = (if rw_ToBssid e \<noteq> '''' then of_int (wrap64 (end_ms - rw_DetectedAtMs e)) else 0)\<rparr>"

definition count_class :: "string \<Rightarrow> WlanRoamingSummary \<Rightarrow> WlanRoamingSummary" where
  "count_class c s =
     (if c = ''disconnect'' then s\<lparr>ws_Disconnects := ws_Disconnects s + 1\<rparr>
      else if c = ''good'' then s\<lparr>ws_GoodRoams := ws_GoodRoams s + 1\<rparr>
      else if c = ''suboptimal'' then s\<lparr>ws_SuboptimalRoams := ws_SuboptimalRoams s + 1\<rparr>
      else if c = ''bad'' then s\<lparr>ws_BadRoams := ws_BadRoams s + 1\<rparr> else s)"

text \<open>
  The loop from the last event to the first: \<open>nextEventMs\<close> holds each client's next event. The list is
  given in the order of the walk.
\<close>

fun walk :: "int \<Rightarrow> (string \<rightharpoonup> int) \<Rightarrow> rawEvent list \<Rightarrow> WlanRoamingSummary \<Rightarrow> WlanRoamingSummary" where
  "walk now_ms nextEventMs [] s = s"
| "walk now_ms nextEventMs (e # es) s =
     (let end_ms = (case nextEventMs (rw_ClientMac e) of None \<Rightarrow> now_ms | Some t \<Rightarrow> t);
          s = count_class (classify e) s
      in walk now_ms (nextEventMs(rw_ClientMac e \<mapsto> rw_DetectedAtMs e)) es
           (s\<lparr>ws_Events := ws_Events s @ [entry_of end_ms e]\<rparr>))"

section \<open>Sticky clients\<close>

definition is_sticky :: "(string \<rightharpoonup> int) \<Rightarrow> WlanRoamEntry \<Rightarrow> bool" where
  "is_sticky best e \<longleftrightarrow> we_ToBSSID e \<noteq> '''' \<and>
     (case best (we_SSID e) of
        None \<Rightarrow> False
      | Some b \<Rightarrow> we_DurationMs e \<ge> stickyMinDwellMs \<and> wrap32 (b - we_ToRSSIdBm e) \<ge> stickyRSSIGapDB)"

fun sticky :: "(string \<rightharpoonup> int) \<Rightarrow> string set \<Rightarrow> WlanRoamEntry list \<Rightarrow> nat" where
  "sticky best seenClient [] = 0"
| "sticky best seenClient (e # es) =
     (if we_ClientMAC e \<in> seenClient then sticky best seenClient es
      else (if is_sticky best e then 1 else 0) + sticky best (insert (we_ClientMAC e) seenClient) es)"

section \<open>The summary\<close>

definition empty_summary :: WlanRoamingSummary where
  "empty_summary = \<lparr>ws_GoodRoams = 0, ws_SuboptimalRoams = 0, ws_BadRoams = 0, ws_PingPongClients = 0,
     ws_StickyClients = 0, ws_Disconnects = 0, ws_Events = []\<rparr>"

definition summarize :: "(rawEvent list \<Rightarrow> rawEvent list) \<Rightarrow> int \<Rightarrow> rawEvent list \<Rightarrow> rawNetwork list \<Rightarrow> WlanRoamingSummary" where
  "summarize srt now_ms all0 ns =
     (let all = srt all0;
          s = walk now_ms Map.empty (rev all) (empty_summary\<lparr>ws_PingPongClients := length (pingPong all)\<rparr>)
      in s\<lparr>ws_StickyClients := sticky (bestRSSIBySSID ns) {} (ws_Events s)\<rparr>)"

definition WlanRoaming :: "(rawEvent list \<Rightarrow> rawEvent list) \<Rightarrow> go_time \<Rightarrow> ResultFilter \<Rightarrow> raw_message db \<Rightarrow> WlanRoamingSummary" where
  "WlanRoaming srt now f d =
     (let f = f\<lparr>rf_TestType := ''wlan_passive'', rf_Limit := (if rf_Limit f \<le> 0 then 2000 else rf_Limit f)\<rparr>;
          g = fold gather (ListResults f d) \<lparr>gt_all = [], gt_networks = [], gt_networksAtMs = 0\<rparr>
      in summarize srt (now div 1000000) (gt_all g) (gt_networks g))"

section \<open>The log against its definition\<close>

text \<open>
  What the log should hold, in chronological order: each event ends when the next event of the same
  client starts, or now.
\<close>

definition next_of :: "int \<Rightarrow> rawEvent list \<Rightarrow> string \<Rightarrow> int" where
  "next_of now_ms later mac =
     (case find (\<lambda>x. rw_ClientMac x = mac) later of None \<Rightarrow> now_ms | Some x \<Rightarrow> rw_DetectedAtMs x)"

fun roam_log :: "int \<Rightarrow> rawEvent list \<Rightarrow> WlanRoamEntry list" where
  "roam_log now_ms [] = []"
| "roam_log now_ms (e # later) = entry_of (next_of now_ms later (rw_ClientMac e)) e # roam_log now_ms later"

text \<open>The part of the log for the events of \<open>pre\<close>, which \<open>post\<close> follows.\<close>

fun log_before :: "int \<Rightarrow> rawEvent list \<Rightarrow> rawEvent list \<Rightarrow> WlanRoamEntry list" where
  "log_before now_ms [] post = []"
| "log_before now_ms (e # pre) post =
     entry_of (next_of now_ms (pre @ post) (rw_ClientMac e)) e # log_before now_ms pre post"

lemma log_before_Nil: "log_before now_ms pre [] = roam_log now_ms pre"
  by (induction pre) auto

lemma log_before_snoc:
  "log_before now_ms (pre @ [e]) post = log_before now_ms pre (e # post) @ [entry_of (next_of now_ms post (rw_ClientMac e)) e]"
  by (induction pre) auto

lemma ws_Events_count_class [simp]: "ws_Events (count_class c s) = ws_Events s"
  by (simp add: count_class_def)

lemma walk_events:
  assumes "nx = (\<lambda>m. map_option rw_DetectedAtMs (find (\<lambda>x. rw_ClientMac x = m) post))"
  shows "ws_Events (walk now_ms nx (rev pre) s) = ws_Events s @ rev (log_before now_ms pre post)"
  using assms
proof (induction pre arbitrary: nx post s rule: rev_induct)
  case Nil
  then show ?case by simp
next
  case (snoc e pre)
  have "(case nx (rw_ClientMac e) of None \<Rightarrow> now_ms | Some t \<Rightarrow> t) = next_of now_ms post (rw_ClientMac e)"
    by (simp add: snoc.prems next_of_def split: option.split)
  moreover have "nx(rw_ClientMac e \<mapsto> rw_DetectedAtMs e) =
      (\<lambda>m. map_option rw_DetectedAtMs (find (\<lambda>x. rw_ClientMac x = m) (e # post)))"
    by (auto simp: snoc.prems)
  note IH = snoc.IH [OF this]
  ultimately show ?case by (simp add: Let_def IH log_before_snoc)
qed

definition class_counts :: "WlanRoamingSummary \<Rightarrow> nat \<times> nat \<times> nat \<times> nat" where
  "class_counts s = (ws_GoodRoams s, ws_SuboptimalRoams s, ws_BadRoams s, ws_Disconnects s)"

definition counted :: "WlanRoamEntry list \<Rightarrow> nat \<times> nat \<times> nat \<times> nat" where
  "counted es =
     (let n = (\<lambda>c. length (filter (\<lambda>e. we_Classification e = c) es))
      in (n ''good'', n ''suboptimal'', n ''bad'', n ''disconnect''))"

lemma counted_snoc:
  assumes "class_counts s = counted (ws_Events s)" "we_Classification x = c"
  shows "class_counts ((count_class c s)\<lparr>ws_Events := ws_Events s @ [x]\<rparr>) = counted (ws_Events s @ [x])"
  using assms by (auto simp: class_counts_def counted_def count_class_def Let_def)

lemma class_entry_of [simp]: "we_Classification (entry_of end_ms e) = classify e"
  by (simp add: entry_of_def)

lemma walk_counts:
  "class_counts s = counted (ws_Events s) \<Longrightarrow>
     class_counts (walk now_ms nx es s) = counted (ws_Events (walk now_ms nx es s))"
proof (induction es arbitrary: nx s)
  case Nil
  then show ?case by simp
next
  case (Cons e es)
  show ?case
    unfolding walk.simps Let_def
    by (rule Cons.IH) (simp add: counted_snoc [OF Cons.prems])
qed

lemma summarize_log:
  "ws_Events (summarize srt now_ms all ns) = rev (roam_log now_ms (srt all))
   \<and> class_counts (summarize srt now_ms all ns) = counted (ws_Events (summarize srt now_ms all ns))"
proof -
  let ?start = "empty_summary\<lparr>ws_PingPongClients := length (pingPong (srt all))\<rparr>"
  let ?s = "walk now_ms Map.empty (rev (srt all)) ?start"
  have "ws_Events ?s = rev (roam_log now_ms (srt all))"
    using walk_events [where nx = Map.empty and post = "[]" and pre = "srt all" and s = ?start] by (simp add: log_before_Nil empty_summary_def)
  moreover have "class_counts ?s = counted (ws_Events ?s)"
    by (rule walk_counts) (simp add: class_counts_def counted_def empty_summary_def)
  ultimately show ?thesis
    by (simp add: summarize_def Let_def class_counts_def)
qed

section \<open>What the summary is of\<close>

text \<open>
  The rows a roaming query reads: of the passive sweeps that match the filter the newest ones, 2000 at most (a limit
  over that counts as 100). The events of a row are those its payload decodes to.
\<close>

definition sweeps :: "ResultFilter \<Rightarrow> raw_message db \<Rightarrow> raw_message Result list" where
  "sweeps f d =
     last_n (if rf_Limit f \<le> 0 then 2000 else if rf_Limit f > 2000 then 100 else nat (rf_Limit f))
       (filter (\<lambda>r. re_TestType r = ''wlan_passive'' \<and> result_matches d (f\<lparr>rf_TestType := ''''\<rparr>) r) (rows (results d)))"

definition events_in :: "raw_message Result \<Rightarrow> rawEvent list" where
  "events_in r = (case decode_passive (re_Payload r) of None \<Rightarrow> [] | Some (es, _) \<Rightarrow> es)"

text \<open>
  The class of an event, by the gain of signal in dB; nothing is said of an event whose signal strengths are not within
  a thousand dB of 0. Times are milliseconds of the next hundred million years.
\<close>

definition roam_class :: "rawEvent \<Rightarrow> string" where
  "roam_class e =
     (if rw_ToBssid e = '''' then ''disconnect''
      else if 0 \<in> {rw_FromRssiDbm e, rw_ToRssiDbm e} then ''''
      else if rw_ToRssiDbm e \<ge> rw_FromRssiDbm e then ''good''
      else if rw_FromRssiDbm e - rw_ToRssiDbm e \<in> {1..4} then ''suboptimal''
      else ''bad'')"

definition plain_rssi :: "rawEvent \<Rightarrow> bool" where
  "plain_rssi e \<longleftrightarrow> \<bar>rw_FromRssiDbm e\<bar> \<le> 1000 \<and> \<bar>rw_ToRssiDbm e\<bar> \<le> 1000"

definition plain_time :: "int \<Rightarrow> bool" where
  "plain_time t \<longleftrightarrow> 0 \<le> t \<and> t < 2 ^ 62"

text \<open>The entry of an event, with those after it: it lasts until the next one of the same client, or until now.\<close>

definition logs_event :: "int \<Rightarrow> rawEvent list \<Rightarrow> rawEvent \<Rightarrow> WlanRoamEntry \<Rightarrow> bool" where
  "logs_event now_ms later e w \<longleftrightarrow>
     (we_ClientMAC w, we_SSID w, we_FromBSSID w, we_ToBSSID w) = (rw_ClientMac e, rw_Ssid e, rw_FromBssid e, rw_ToBssid e)
     \<and> (we_FromChannel w, we_ToChannel w, we_FromRSSIdBm w, we_ToRSSIdBm w) = (rw_FromChannel e, rw_ToChannel e, rw_FromRssiDbm e, rw_ToRssiDbm e)
     \<and> (we_RoamTimeMs w, we_DetectedAtMs w) = (rw_RoamTimeMs e, rw_DetectedAtMs e)
     \<and> (plain_rssi e \<longrightarrow> we_Classification w = roam_class e)
     \<and> (let until = (case filter (\<lambda>x. rw_ClientMac x = rw_ClientMac e) later of [] \<Rightarrow> now_ms | x # _ \<Rightarrow> rw_DetectedAtMs x)
        in plain_time (rw_DetectedAtMs e) \<and> plain_time until \<longrightarrow>
             we_DurationMs w = (if rw_ToBssid e = '''' then 0 else of_int (until - rw_DetectedAtMs e)))"

lemma wrap32_plain: "\<bar>n\<bar> < 2 ^ 31 \<Longrightarrow> wrap32 n = n"
  by (simp add: wrap32_def signed_of_int signed_take_bit_int_eq_self)

lemma wrap64_plain: "\<bar>n\<bar> < 2 ^ 63 \<Longrightarrow> wrap64 n = n"
  by (simp add: wrap64_def signed_of_int signed_take_bit_int_eq_self)

lemma classify_plain: "plain_rssi e \<Longrightarrow> classify e = roam_class e"
proof -
  assume "plain_rssi e"
  then have "wrap32 (rw_ToRssiDbm e - rw_FromRssiDbm e) = rw_ToRssiDbm e - rw_FromRssiDbm e"
    by (intro wrap32_plain) (auto simp: plain_rssi_def abs_if split: if_splits)
  then show ?thesis
    by (auto simp: classify_def roam_class_def Let_def)
qed

lemma next_of_filter:
  "next_of now_ms later mac = (case filter (\<lambda>x. rw_ClientMac x = mac) later of [] \<Rightarrow> now_ms | x # _ \<Rightarrow> rw_DetectedAtMs x)"
  by (induction later) (auto simp: next_of_def)

lemma entry_logs: "logs_event now_ms later e (entry_of (next_of now_ms later (rw_ClientMac e)) e)"
  using classify_plain [of e] wrap64_plain [of "next_of now_ms later (rw_ClientMac e) - rw_DetectedAtMs e"]
  by (auto simp: logs_event_def entry_of_def plain_time_def Let_def simp flip: next_of_filter)

lemma roam_log_nth: "i < length es \<Longrightarrow> logs_event now_ms (drop (Suc i) es) (es ! i) (roam_log now_ms es ! i)"
proof (induction es arbitrary: i)
  case (Cons e es)
  then show ?case
    using entry_logs by (cases i) simp_all
qed simp

lemma length_roam_log [simp]: "length (roam_log now_ms es) = length es"
  by (induction es) simp_all

lemma gather_all: "gt_all (fold gather rs g) = gt_all g @ concat (map events_in rs)"
  by (induction rs arbitrary: g) (auto simp: gather_def events_in_def Let_def split: option.split)

lemma ListResults_sweeps:
  assumes "db_ok d"
  shows "ListResults (f\<lparr>rf_TestType := ''wlan_passive'', rf_Limit := (if rf_Limit f \<le> 0 then 2000 else rf_Limit f)\<rparr>) d = rev (sweeps f d)"
proof -
  have "sorted_wrt (<) (map re_ID (rows (results d)))"
    using assms by (simp add: db_ok_def ok_results_def wf_table_def)
  moreover have "result_matches d (f\<lparr>rf_TestType := ''wlan_passive'', rf_Limit := n\<rparr>)
        = (\<lambda>r. re_TestType r = ''wlan_passive'' \<and> result_matches d (f\<lparr>rf_TestType := ''''\<rparr>) r)"
      "result_matches d (f\<lparr>rf_TestType := ''wlan_passive''\<rparr>)
        = (\<lambda>r. re_TestType r = ''wlan_passive'' \<and> result_matches d (f\<lparr>rf_TestType := ''''\<rparr>) r)" for n
    by (auto simp: result_matches_def fun_eq_iff split: option.splits)
  ultimately show ?thesis
    by (simp add: ListResults_def sweeps_def clamp_limit_def select_desc_sorted)
qed

definition sorts :: "(rawEvent list \<Rightarrow> rawEvent list) \<Rightarrow> bool" where
  "sorts srt \<longleftrightarrow> (\<forall>xs. mset (srt xs) = mset xs \<and> sorted (map rw_DetectedAtMs (srt xs)))"

text \<open>
  C25. The roaming log of a query is of the events of the sweeps it retains, each exactly once: there is a chronological
  order of all of them, such that the log, read from its end, has for each event in turn an entry with its data, its
  class by the gain of signal, and the time until the next event of the same client in that order, or until now. The
  four counters are the numbers of entries of each class.
\<close>

theorem roaming_log_exact:
  assumes "sorts srt" "db_ok d"
  shows "\<exists>all. mset all = mset (concat (map events_in (sweeps f d))) \<and> sorted (map rw_DetectedAtMs all)
    \<and> length (ws_Events (WlanRoaming srt now f d)) = length all
    \<and> (\<forall>i < length all. logs_event (now div 1000000) (drop (Suc i) all) (all ! i) (rev (ws_Events (WlanRoaming srt now f d)) ! i))
    \<and> class_counts (WlanRoaming srt now f d) = counted (ws_Events (WlanRoaming srt now f d))"
proof -
  let ?events = "concat (map events_in (rev (sweeps f d)))"
  obtain ns where s: "WlanRoaming srt now f d = summarize srt (now div 1000000) ?events ns"
    by (simp add: WlanRoaming_def Let_def ListResults_sweeps [OF assms(2)] gather_all)
  have "mset ?events = mset (concat (map events_in (sweeps f d)))"
    by (simp add: mset_concat rev_map [symmetric] sum_list_rev)
  then show ?thesis
    using summarize_log [of srt "now div 1000000" ?events ns] assms(1) roam_log_nth [of _ "srt ?events"]
    by (intro exI [of _ "srt ?events"]) (simp add: s sorts_def)
qed

definition sweep_payload :: json where
  "sweep_payload = JObj [(''wlanPassive'', JObj [(''roamEvents'', JArr [
     JObj [(''clientMac'', JStr ''c''), (''ssid'', JStr ''n''), (''fromBssid'', JStr ''a''), (''toBssid'', JStr ''b''),
       (''fromRssiDbm'', JInt (-60)), (''toRssiDbm'', JInt (-63)), (''detectedAtMs'', JStr ''2000'')],
     JObj [(''clientMac'', JStr ''c''), (''ssid'', JStr ''n''), (''fromBssid'', JStr ''b''), (''toBssid'', JStr ''a''),
       (''fromRssiDbm'', JInt (-70)), (''toRssiDbm'', JInt (-60)), (''detectedAtMs'', JStr ''1000'')]])])]"

definition sweep_db :: "raw_message db" where
  "sweep_db = demo_db\<lparr>results := \<lparr>rows = [\<lparr>re_ID = 1, re_AgentID = ''a1'', re_TestID = ''x9'', re_TestName = ''air'', re_TestType = ''wlan_passive'',
     re_Time = 5, re_Error = '''', re_OK = True, re_Payload = Raw sweep_payload\<rparr>], last_id = 1\<rparr>\<rparr>"

definition sweep_filter :: ResultFilter where
  "sweep_filter = \<lparr>rf_TenantID = ''t1'', rf_SiteID = '''', rf_AgentID = '''', rf_TestID = '''', rf_TestType = '''', rf_Since = None, rf_Limit = 0\<rparr>"

theorem roaming_log_exact_witness:
  "\<exists>a b. {rw_DetectedAtMs a, rw_DetectedAtMs b} = {1000, 2000} \<and> rw_DetectedAtMs a \<le> rw_DetectedAtMs b
     \<and> (\<exists>x y. ws_Events (WlanRoaming (sort_key rw_DetectedAtMs) 3000000000 sweep_filter sweep_db) = [y, x]
          \<and> logs_event 3000 [b] a x \<and> logs_event 3000 [] b y)"
proof -
  let ?es = "concat (map events_in (sweeps sweep_filter sweep_db))"
  let ?ws = "ws_Events (WlanRoaming (sort_key rw_DetectedAtMs) 3000000000 sweep_filter sweep_db)"
  have "db_ok sweep_db"
    by (simp add: sweep_db_def db_ok_def ok_defs uniq_def refs_def wf_table_def demo_defs)
  moreover have "sorts (sort_key rw_DetectedAtMs)"
    by (simp add: sorts_def)
  ultimately obtain all where all: "mset all = mset ?es" "sorted (map rw_DetectedAtMs all)" "length ?ws = length all"
      "\<forall>i < length all. logs_event 3000 (drop (Suc i) all) (all ! i) (rev ?ws ! i)"
    using roaming_log_exact [of "sort_key rw_DetectedAtMs" sweep_db sweep_filter 3000000000] by auto
  have ev: "map rw_DetectedAtMs ?es = [2000, 1000]"
    by code_simp
  have "length all = 2"
    using mset_eq_length [OF all(1)] arg_cong [OF ev, of length] by simp
  then obtain a b where ab: "all = [a, b]"
    by (auto simp: length_Suc_conv numeral_2_eq_2)
  obtain y x where xy: "?ws = [y, x]"
    using all(3) ab by (auto simp: length_Suc_conv)
  have "rw_DetectedAtMs ` set all = {2000, 1000}"
    using mset_eq_setD [OF all(1)] arg_cong [OF ev, of set] by simp
  then show ?thesis
    using all(2,4) ab xy by (intro exI [of _ a] exI [of _ b]) (auto simp: less_Suc_eq)
qed

end
