(* ===== verification/Api_Core.thy ===== *)
theory Api_Core
  imports Control_Properties Throttle Perfmon Store_Properties Overview Roaming Asn
begin

text \<open>
  The HTTP API's common parts: \<open>api.go\<close> (state, authentication, helpers), \<open>scope.go\<close> (the one place
  where tenant scoping is decided), \<open>auth.go\<close> (login, logout, password change) of \<open>internal/api\<close>.

  A request body is the JSON value it holds (\<open>None\<close> if it is not JSON), a query is the function
  \<open>url.Values.Get\<close>, and a response is its status, its body and the session cookie it sets. Fresh ids
  and tokens, the clock, bcrypt, the key digest, the version, the protojson decoder
  the embedded address and manufacturer tables and the order \<open>sort.Slice\<close> leaves come from the record \<open>env\<close>.
\<close>

section \<open>State, requests and responses\<close>

record env =
  en_now :: go_time
  en_id :: string
  en_token :: string
  en_password :: string
  en_bcrypt :: "string \<Rightarrow> string result"
  en_compare :: "string \<Rightarrow> string \<Rightarrow> bool"
  en_digest :: "string \<Rightarrow> string"
  en_version :: string
  en_decode :: "raw_message \<Rightarrow> TestResult option"
  en_asn :: "ipRange list \<times> (u32 \<rightharpoonup> Info)"
  en_oui :: "string \<rightharpoonup> string"
  en_sort :: "rawEvent list \<Rightarrow> rawEvent list"

record API =
  ap_Server :: server
  ap_authThrottle :: throttle

abbreviation ap_db :: "API \<Rightarrow> raw_message db" where
  "ap_db a \<equiv> sv_db (ap_Server a)"

definition set_db :: "raw_message db \<Rightarrow> API \<Rightarrow> API" where
  "set_db d a = a\<lparr>ap_Server := (ap_Server a)\<lparr>sv_db := d\<rparr>\<rparr>"

definition New_API :: "server \<Rightarrow> API" where
  "New_API srv = \<lparr>ap_Server = srv, ap_authThrottle = newThrottle\<rparr>"

record Health =
  hl_Status :: string
  hl_Reasons :: "string list"
  hl_UptimeSeconds :: u64

record agentView =
  av_Agent :: Agent
  av_Connected :: bool
  av_Health :: "Health option"
  av_PerfmonAddr :: string
  av_ManagementAddr :: string

record testTypeView =
  tv_Type :: string
  tv_Capability :: string
  tv_Unit :: string
  tv_LowerIsWorse :: bool
  tv_Metrics :: "string list"

datatype body =
    NoBody
  | ErrorBody string
  | ErrorOf go_error
  | UserBody User
  | MeBody User string
  | UserList "User list"
  | TenantBody string string
  | TenantList "Tenant list"
  | SiteBody Site
  | SiteList "(Site \<times> nat \<times> string list) list"
  | TestBody TestDef
  | TestList "TestDef list"
  | AgentBody agentView
  | AgentList "agentView list"
  | UnclaimedList "UnclaimedAgent list"
  | TokenBody string
  | PasswordBody string nat
  | TypeList "testTypeView list"
  | ServiceList "Service list"
  | ResultList "raw_message Result list"
  | PathChangeList "PathChange list"
  | LogList "LogEntry list"
  | RuleBody AlertRule
  | RuleList "AlertRule list"
  | TargetBody AlertTarget
  | TargetList "AlertTarget list"
  | AlertList "listed_alert list"
  | KeyBody string
  | KeyList "api_key_row list"
  | PushedBody nat
  | FlagBody string
  | NameMap "(string \<times> string) list"
  | InfoMap "(string \<times> Info) list"
  | OverviewBody Overview
  | RoamingBody WlanRoamingSummary

record response =
  rp_Status :: nat
  rp_Body :: body
  rp_Cookie :: "string option"

definition writeJSON :: "nat \<Rightarrow> body \<Rightarrow> response" where
  "writeJSON status v = \<lparr>rp_Status = status, rp_Body = v, rp_Cookie = None\<rparr>"

definition writeError :: "nat \<Rightarrow> string \<Rightarrow> response" where
  "writeError status msg = writeJSON status (ErrorBody msg)"

definition noContent :: response where
  "noContent = writeJSON 204 NoBody"

text \<open>A body that does not decode is answered with status 400 and the handler returns.\<close>

definition decodeBody :: "(json \<Rightarrow> 'r option) \<Rightarrow> json option \<Rightarrow> API \<Rightarrow> ('r \<Rightarrow> response \<times> API) \<Rightarrow> response \<times> API" where
  "decodeBody decode b a k =
     (case Option.bind b decode of
        None \<Rightarrow> (writeError 400 ''invalid JSON body'', a)
      | Some req \<Rightarrow> k req)"

definition with_db :: "API \<Rightarrow> raw_message db result \<Rightarrow> nat \<Rightarrow> (raw_message db \<Rightarrow> response \<times> API) \<Rightarrow> response \<times> API" where
  "with_db a res status k = (case res of Inl e \<Rightarrow> (writeJSON status (ErrorOf e), a) | Inr d \<Rightarrow> k d)"

section \<open>Scope\<close>

definition tenantScope :: "User \<Rightarrow> string \<Rightarrow> string option" where
  "tenantScope user requested =
     (if u_IsAdmin user then (if requested \<noteq> '''' then Some requested else None)
      else if requested \<noteq> '''' \<and> requested \<noteq> u_TenantID user then None
      else Some (u_TenantID user))"

definition tenantFilter :: "User \<Rightarrow> string \<Rightarrow> string option" where
  "tenantFilter user requested = (if u_IsAdmin user then Some requested else tenantScope user requested)"

definition mayAccess :: "User \<Rightarrow> string \<Rightarrow> bool" where
  "mayAccess user tenantID \<longleftrightarrow> u_IsAdmin user \<or> u_TenantID user = tenantID"

text \<open>
  \<open>scoped\<close> and \<open>inTenant\<close> continue with the row, or answer and stop. \<open>tenantOf\<close> is the method of the
  row's type (\<open>internal/store/tenant.go\<close>).
\<close>

definition scoped :: "('t \<Rightarrow> string) \<Rightarrow> User \<Rightarrow> string \<Rightarrow> 't result \<Rightarrow> API \<Rightarrow> ('t \<Rightarrow> response \<times> API) \<Rightarrow> response \<times> API" where
  "scoped tenantOf user what got a k =
     (case got of
        Inl _ \<Rightarrow> (writeError 404 (what @ '' not found''), a)
      | Inr row \<Rightarrow> if mayAccess user (tenantOf row) then k row else (writeError 404 (what @ '' not found''), a))"

definition in_tenant :: "('t \<Rightarrow> string) \<Rightarrow> string \<Rightarrow> 't result \<Rightarrow> bool" where
  "in_tenant tenantOf tenantID got = (case got of Inl _ \<Rightarrow> False | Inr row \<Rightarrow> tenantOf row = tenantID)"

definition inTenant ::
  "('t \<Rightarrow> string) \<Rightarrow> string \<Rightarrow> string \<Rightarrow> string \<Rightarrow> 't result \<Rightarrow> API \<Rightarrow> ('t \<Rightarrow> response \<times> API) \<Rightarrow> response \<times> API" where
  "inTenant tenantOf tenantID what rid got a k =
     (case got of
        Inl _ \<Rightarrow> (writeError 400 (''unknown '' @ what @ '': '' @ rid), a)
      | Inr row \<Rightarrow>
          if tenantOf row \<noteq> tenantID then (writeError 400 (''unknown '' @ what @ '': '' @ rid), a) else k row)"

definition need_tenant :: "User \<Rightarrow> string \<Rightarrow> API \<Rightarrow> (string \<Rightarrow> response \<times> API) \<Rightarrow> response \<times> API" where
  "need_tenant user requested a k =
     (case tenantScope user requested of None \<Rightarrow> (writeError 400 ''tenantId is required'', a) | Some t \<Rightarrow> k t)"

section \<open>Authentication\<close>

definition bearer :: string where
  "bearer = ''Bearer ''"

text \<open>The \<open>Authorization\<close> header (empty when absent) and the session cookie.\<close>

definition auth :: "env \<Rightarrow> string \<Rightarrow> string option \<Rightarrow> (User \<Rightarrow> API \<Rightarrow> response \<times> API) \<Rightarrow> API \<Rightarrow> response \<times> API" where
  "auth e hdr cookie k a =
     (if hdr \<noteq> '''' then
        (if \<not> has_prefix hdr bearer \<or> drop (length bearer) hdr = ''''
         then (writeError 401 ''malformed Authorization header'', a)
         else case APIKeyUser (en_digest e) (en_now e) (drop (length bearer) hdr) (ap_db a) of
                (Inl _, d) \<Rightarrow> (writeError 401 ''invalid API key'', set_db d a)
              | (Inr user, d) \<Rightarrow> k user (set_db d a))
      else case cookie of
             None \<Rightarrow> (writeError 401 ''not logged in'', a)
           | Some token \<Rightarrow>
               (case SessionUser (en_now e) token (ap_db a) of
                  Inl _ \<Rightarrow> (writeError 401 ''session expired'', a)
                | Inr user \<Rightarrow> k user a))"

definition admin :: "(User \<Rightarrow> API \<Rightarrow> response \<times> API) \<Rightarrow> User \<Rightarrow> API \<Rightarrow> response \<times> API" where
  "admin k user a = (if \<not> u_IsAdmin user then (writeError 403 ''admin access required'', a) else k user a)"

section \<open>Field decoding\<close>

definition str_field :: "string list \<Rightarrow> (string \<times> json) list \<Rightarrow> string \<Rightarrow> string option" where
  "str_field fs ms f = dec as_str [] (members fs ms f)"

definition login_fields :: "string list" where
  "login_fields = [''username'', ''password'']"

definition decode_login :: "json \<Rightarrow> (string \<times> string) option" where
  "decode_login j =
     do { ms \<leftarrow> unmarshal_object j; u \<leftarrow> str_field login_fields ms ''username'';
          p \<leftarrow> str_field login_fields ms ''password''; Some (u, p) }"

definition password_fields :: "string list" where
  "password_fields = [''currentPassword'', ''password'']"

definition decode_password :: "json \<Rightarrow> (string \<times> string) option" where
  "decode_password j =
     do { ms \<leftarrow> unmarshal_object j; c \<leftarrow> str_field password_fields ms ''currentPassword'';
          p \<leftarrow> str_field password_fields ms ''password''; Some (c, p) }"

section \<open>Login, logout and passwords\<close>

definition logAuthFailure :: "env \<Rightarrow> string \<Rightarrow> API \<Rightarrow> API" where
  "logAuthFailure e key a = a\<lparr>ap_authThrottle := snd (fail (en_now e) key (ap_authThrottle a))\<rparr>"

definition too_many :: response where
  "too_many = writeError 429 ''too many failed attempts, try again later''"

definition handleLogin :: "env \<Rightarrow> string \<Rightarrow> json option \<Rightarrow> API \<Rightarrow> response \<times> API" where
  "handleLogin e remoteAddr b a =
     decodeBody decode_login b a (\<lambda>(username, password).
       let key = throttleKey username remoteAddr;
           (ok, th) = allow (en_now e) key (ap_authThrottle a);
           a = a\<lparr>ap_authThrottle := th\<rparr>
       in if \<not> ok then (too_many, a)
          else case Authenticate (en_compare e) username password (ap_db a) of
                 Inl _ \<Rightarrow> (writeError 401 ''invalid username or password'', logAuthFailure e key a)
               | Inr user \<Rightarrow>
                   (let a = a\<lparr>ap_authThrottle := success key (ap_authThrottle a)\<rparr>
                    in case CreateSession (en_token e) (en_now e) (u_ID user) (ap_db a) of
                         Inl _ \<Rightarrow> (writeError 500 ''creating session failed'', a)
                       | Inr d \<Rightarrow> ((writeJSON 200 (UserBody user))\<lparr>rp_Cookie := Some (en_token e)\<rparr>, set_db d a)))"

definition handleLogout :: "string option \<Rightarrow> API \<Rightarrow> response \<times> API" where
  "handleLogout cookie a =
     (noContent\<lparr>rp_Cookie := Some ''''\<rparr>,
      case cookie of None \<Rightarrow> a | Some token \<Rightarrow> set_db (DeleteSession token (ap_db a)) a)"

text \<open>The check of the current password in the self-service flow; \<open>Inl\<close> is the answer that ends it.\<close>

definition check_current :: "env \<Rightarrow> User \<Rightarrow> string \<Rightarrow> string \<Rightarrow> API \<Rightarrow> (response \<times> API) + API" where
  "check_current e user remoteAddr current a =
     (let key = throttleKey (u_Username user) remoteAddr;
          (ok, th) = allow (en_now e) key (ap_authThrottle a);
          a = a\<lparr>ap_authThrottle := th\<rparr>
      in if \<not> ok then Inl (too_many, a)
         else case Authenticate (en_compare e) (u_Username user) current (ap_db a) of
                Inl _ \<Rightarrow> Inl (writeError 401 ''current password is incorrect'', logAuthFailure e key a)
              | Inr _ \<Rightarrow> Inr (a\<lparr>ap_authThrottle := success key (ap_authThrottle a)\<rparr>))"

text \<open>The rest of the handler, once the caller may set the password.\<close>

definition store_password :: "env \<Rightarrow> string \<Rightarrow> string \<Rightarrow> User \<Rightarrow> API \<Rightarrow> response \<times> API" where
  "store_password e uid password user a =
     (case SetPassword (en_bcrypt e) uid password (ap_db a) of
        Inl err \<Rightarrow> ((if err = ErrNotFound then writeError 404 ''user not found'' else writeJSON 500 (ErrorOf err)), a)
      | Inr d \<Rightarrow>
          if uid = u_ID user then
            (case CreateSession (en_token e) (en_now e) (u_ID user) d of
               Inl _ \<Rightarrow> (writeError 500 ''creating session failed'', set_db d a)
             | Inr d \<Rightarrow> (noContent\<lparr>rp_Cookie := Some (en_token e)\<rparr>, set_db d a))
          else let (revoked, d) = DeleteAPIKeysForUser uid d
               in (writeJSON 200 (PasswordBody password revoked), set_db d a))"

definition handleSetPassword :: "env \<Rightarrow> string \<Rightarrow> string \<Rightarrow> json option \<Rightarrow> User \<Rightarrow> API \<Rightarrow> response \<times> API" where
  "handleSetPassword e remoteAddr uid b user a =
     decodeBody decode_password b a (\<lambda>(current, password0).
       let self = (uid = u_ID user);
           password = (if password0 = '''' \<and> \<not> self then en_password e else password0)
       in if \<not> self \<and> \<not> u_IsAdmin user then (writeError 403 ''admin access required'', a)
          else if length password < 8 then (writeError 400 ''password must be at least 8 characters'', a)
          else case (if self then check_current e user remoteAddr current a else Inr a) of
                 Inl out \<Rightarrow> out
               | Inr a \<Rightarrow> store_password e uid password user a)"

definition handleMe :: "env \<Rightarrow> User \<Rightarrow> API \<Rightarrow> response \<times> API" where
  "handleMe e user a = (writeJSON 200 (MeBody user (en_version e)), a)"

end
