(* ===== verification/Api_Handlers.thy ===== *)
theory Api_Handlers
  imports Api_Core
begin

text \<open>
  The handlers of \<open>tenants.go\<close>, \<open>apikeys.go\<close>, \<open>sites.go\<close>, \<open>agents.go\<close>, \<open>unclaimed.go\<close>, \<open>alerts.go\<close>,
  \<open>logs.go\<close>, \<open>pathchanges.go\<close>, \<open>testtypes.go\<close> and \<open>saas.go\<close> of \<open>internal/api\<close>. A panic of a send inside a
  push is recovered by \<open>net/http\<close>, which aborts the request (\<open>aborted\<close>); the registry invariant of
  \<open>Control_Properties\<close> excludes it in reachable states.
\<close>

definition aborted :: response where
  "aborted = writeJSON 0 NoBody"

definition pushing :: "(nat \<times> server) option \<Rightarrow> API \<Rightarrow> (nat \<Rightarrow> response) \<Rightarrow> response \<times> API" where
  "pushing res a k = (case res of None \<Rightarrow> (aborted, a) | Some (n, s) \<Rightarrow> (k n, a\<lparr>ap_Server := s\<rparr>))"

section \<open>Tenants and users\<close>

definition handleListTenants :: "User \<Rightarrow> API \<Rightarrow> response \<times> API" where
  "handleListTenants user a = (writeJSON 200 (TenantList (ListTenants (ap_db a))), a)"

definition decode_name :: "json \<Rightarrow> string option" where
  "decode_name j = do { ms \<leftarrow> unmarshal_object j; str_field [''name''] ms ''name'' }"

definition handleCreateTenant :: "env \<Rightarrow> json option \<Rightarrow> User \<Rightarrow> API \<Rightarrow> response \<times> API" where
  "handleCreateTenant e b user a =
     decodeBody decode_name b a (\<lambda>nm0.
       let nm = trim_space nm0
       in if nm = '''' then (writeError 400 ''tenant name is required'', a)
          else with_db a (CreateTenant (en_id e) nm (ap_db a)) 409
                 (\<lambda>d. (writeJSON 201 (TenantBody (en_id e) nm), set_db d a)))"

definition handleDeleteTenant :: "string \<Rightarrow> User \<Rightarrow> API \<Rightarrow> response \<times> API" where
  "handleDeleteTenant tid user a = (noContent, set_db (DeleteTenant tid (ap_db a)) a)"

definition handleListUsers :: "User \<Rightarrow> API \<Rightarrow> response \<times> API" where
  "handleListUsers user a = (writeJSON 200 (UserList (ListUsers (ap_db a))), a)"

definition user_fields :: "string list" where
  "user_fields = [''tenantId'', ''username'', ''password'', ''isAdmin'']"

definition decode_user :: "json \<Rightarrow> (string \<times> string \<times> string \<times> bool) option" where
  "decode_user j =
     do { ms \<leftarrow> unmarshal_object j; t \<leftarrow> str_field user_fields ms ''tenantId'';
          u \<leftarrow> str_field user_fields ms ''username''; p \<leftarrow> str_field user_fields ms ''password'';
          adm \<leftarrow> dec as_bool False (members user_fields ms ''isAdmin''); Some (t, u, p, adm) }"

definition handleCreateUser :: "env \<Rightarrow> json option \<Rightarrow> User \<Rightarrow> API \<Rightarrow> response \<times> API" where
  "handleCreateUser e b user a =
     decodeBody decode_user b a (\<lambda>(tenantID, username0, password, isAdmin).
       let username = trim_space username0
       in if username = '''' \<or> password = '''' then (writeError 400 ''username and password are required'', a)
          else if length password < 8 then (writeError 400 ''password must be at least 8 characters'', a)
          else if \<not> isAdmin \<and> tenantID = '''' then (writeError 400 ''non-admin users need a tenantId'', a)
          else with_db a (CreateUser (en_bcrypt e) (en_id e) tenantID username password isAdmin (ap_db a)) 409
                 (\<lambda>d. (writeJSON 201 (UserBody \<lparr>u_ID = en_id e, u_TenantID = tenantID, u_Username = username,
                          u_IsAdmin = isAdmin\<rparr>), set_db d a)))"

definition handleDeleteUser :: "string \<Rightarrow> User \<Rightarrow> API \<Rightarrow> response \<times> API" where
  "handleDeleteUser uid user a =
     (if uid = u_ID user then (writeError 400 ''cannot delete your own user'', a)
      else (noContent, set_db (DeleteUser uid (ap_db a)) a))"

section \<open>API keys\<close>

definition handleListAPIKeys :: "User \<Rightarrow> API \<Rightarrow> response \<times> API" where
  "handleListAPIKeys user a = (writeJSON 200 (KeyList (ListAPIKeys (u_ID user) (ap_db a))), a)"

definition handleCreateAPIKey :: "env \<Rightarrow> json option \<Rightarrow> User \<Rightarrow> API \<Rightarrow> response \<times> API" where
  "handleCreateAPIKey e b user a =
     decodeBody decode_name b a (\<lambda>nm0.
       let nm = trim_space nm0
       in if nm = '''' then (writeError 400 ''name is required'', a)
          else case CreateAPIKey (en_digest e) (en_id e) (en_token e) (en_now e) (u_ID user) nm (ap_db a) of
                 Inl err \<Rightarrow> (writeJSON 500 (ErrorOf err), a)
               | Inr (secret, d) \<Rightarrow> (writeJSON 201 (KeyBody secret), set_db d a))"

definition handleDeleteAPIKey :: "string \<Rightarrow> User \<Rightarrow> API \<Rightarrow> response \<times> API" where
  "handleDeleteAPIKey kid user a =
     (case DeleteAPIKey kid (u_ID user) (ap_db a) of
        Inl err \<Rightarrow> ((if err = ErrNotFound then writeError 404 ''api key not found'' else writeJSON 500 (ErrorOf err)), a)
      | Inr d \<Rightarrow> (noContent, set_db d a))"

section \<open>Sites\<close>

definition handleListSites :: "(string \<Rightarrow> string) \<Rightarrow> User \<Rightarrow> API \<Rightarrow> response \<times> API" where
  "handleListSites q user a =
     need_tenant user (q ''tenantId'') a (\<lambda>t. (writeJSON 200 (SiteList (ListSites t (ap_db a))), a))"

definition site_fields :: "string list" where
  "site_fields = [''name'', ''tenantId'']"

definition decode_site :: "json \<Rightarrow> (string \<times> string) option" where
  "decode_site j =
     do { ms \<leftarrow> unmarshal_object j; n \<leftarrow> str_field site_fields ms ''name'';
          t \<leftarrow> str_field site_fields ms ''tenantId''; Some (n, t) }"

definition handleCreateSite :: "env \<Rightarrow> json option \<Rightarrow> User \<Rightarrow> API \<Rightarrow> response \<times> API" where
  "handleCreateSite e b user a =
     decodeBody decode_site b a (\<lambda>(nm0, requested).
       need_tenant user requested a (\<lambda>tenantID.
         let nm = trim_space nm0
         in if nm = '''' then (writeError 400 ''site name is required'', a)
            else with_db a (CreateSite (en_id e) tenantID nm (ap_db a)) 409
                   (\<lambda>d. (writeJSON 201 (SiteBody \<lparr>si_ID = en_id e, si_TenantID = tenantID, si_Name = nm\<rparr>), set_db d a))))"

text \<open>
  The field \<open>Agents\<close> of the site that \<open>GetSite\<close> returns: the query selects the id, the tenant and the
  name only, so it has its zero value.
\<close>

definition site_Agents :: "Site \<Rightarrow> nat" where
  "site_Agents s = 0"

definition handleDeleteSite :: "string \<Rightarrow> User \<Rightarrow> API \<Rightarrow> response \<times> API" where
  "handleDeleteSite sid user a =
     scoped si_TenantID user ''site'' (GetSite sid (ap_db a)) a (\<lambda>site.
       if site_Agents site > 0 then (writeError 409 ''site still has agents; delete or move them first'', a)
       else (noContent, set_db (DeleteSite (si_ID site) (ap_db a)) a))"

definition decode_test_ids :: "json \<Rightarrow> string list option" where
  "decode_test_ids j = do { ms \<leftarrow> unmarshal_object j; dec as_strs [] (members [''testIds''] ms ''testIds'') }"

definition pushSite :: "string \<Rightarrow> API \<Rightarrow> (nat \<times> server) option" where
  "pushSite siteID a = PushConfigs (AgentIDsForSite siteID (ap_db a)) (ap_Server a)"

fun all_in_tenant :: "('t \<Rightarrow> string) \<Rightarrow> string \<Rightarrow> string \<Rightarrow> (string \<Rightarrow> 't result) \<Rightarrow> string list \<Rightarrow> response option" where
  "all_in_tenant tenantOf tenantID what look [] = None"
| "all_in_tenant tenantOf tenantID what look (i # is) =
     (if in_tenant tenantOf tenantID (look i) then all_in_tenant tenantOf tenantID what look is
      else Some (writeError 400 (''unknown '' @ what @ '': '' @ i)))"

definition handleSetSiteTests :: "string \<Rightarrow> json option \<Rightarrow> User \<Rightarrow> API \<Rightarrow> response \<times> API" where
  "handleSetSiteTests sid b user a =
     scoped si_TenantID user ''site'' (GetSite sid (ap_db a)) a (\<lambda>site.
       decodeBody decode_test_ids b a (\<lambda>testIDs.
         case all_in_tenant td_TenantID (si_TenantID site) ''test'' (\<lambda>i. GetTest i (ap_db a)) testIDs of
           Some r \<Rightarrow> (r, a)
         | None \<Rightarrow> with_db a (SetSiteTests (si_ID site) testIDs (ap_db a)) 500
                     (\<lambda>d. let a = set_db d a in pushing (pushSite (si_ID site) a) a (\<lambda>n. writeJSON 200 (PushedBody n)))))"

section \<open>Test definitions\<close>

definition validatePerfmonSource :: "string \<Rightarrow> string \<Rightarrow> raw_message \<Rightarrow> 'p db \<Rightarrow> go_error option" where
  "validatePerfmonSource tenantID testType params d =
     (if testType \<noteq> ''perfmon'' then None
      else case params of
        Raw j \<Rightarrow>
          (case do { ms \<leftarrow> unmarshal_object j; str_field [''sourceAgentId''] ms ''sourceAgentId'' } of
             None \<Rightarrow> Some (ExtErr ''json'')
           | Some src \<Rightarrow>
               if in_tenant ag_TenantID tenantID (GetAgent src d) then None
               else Some (Errorf ''perfmon source agent not found in this tenant'' []))
      | _ \<Rightarrow> Some (ExtErr ''json''))"

definition handleListTests :: "(string \<Rightarrow> string) \<Rightarrow> User \<Rightarrow> API \<Rightarrow> response \<times> API" where
  "handleListTests q user a =
     need_tenant user (q ''tenantId'') a (\<lambda>t. (writeJSON 200 (TestList (ListTests t (ap_db a))), a))"

definition test_fields :: "string list" where
  "test_fields = [''id'', ''tenantId'', ''name'', ''type'', ''intervalSeconds'', ''params'', ''thresholds'']"

definition as_raw :: "raw_message \<Rightarrow> json \<Rightarrow> raw_message option" where
  "as_raw d j = Some (Raw j)"

definition decode_test :: "json \<Rightarrow> TestDef option" where
  "decode_test j =
     do { ms \<leftarrow> unmarshal_object j; i \<leftarrow> str_field test_fields ms ''id''; t \<leftarrow> str_field test_fields ms ''tenantId'';
          n \<leftarrow> str_field test_fields ms ''name''; ty \<leftarrow> str_field test_fields ms ''type'';
          iv \<leftarrow> dec as_u32 0 (members test_fields ms ''intervalSeconds'');
          p \<leftarrow> dec as_raw RawEmpty (members test_fields ms ''params'');
          th \<leftarrow> dec as_raw RawEmpty (members test_fields ms ''thresholds'');
          Some \<lparr>td_ID = i, td_TenantID = t, td_Name = n, td_Type = ty, td_IntervalSeconds = iv,
                td_Params = p, td_Thresholds = th\<rparr> }"

definition handleCreateTest :: "env \<Rightarrow> json option \<Rightarrow> User \<Rightarrow> API \<Rightarrow> response \<times> API" where
  "handleCreateTest e b user a =
     decodeBody decode_test b a (\<lambda>req.
       need_tenant user (td_TenantID req) a (\<lambda>tenantID.
         case ValidateTestDef (req\<lparr>td_TenantID := tenantID, td_Name := trim_space (td_Name req)\<rparr>) of
           Inl err \<Rightarrow> (writeJSON 400 (ErrorOf err), a)
         | Inr req \<Rightarrow>
             (case validatePerfmonSource tenantID (td_Type req) (td_Params req) (ap_db a) of
                Some err \<Rightarrow> (writeJSON 400 (ErrorOf err), a)
              | None \<Rightarrow>
                  (case CreateTest (en_id e) req (ap_db a) of
                     Inl err \<Rightarrow> (writeJSON 409 (ErrorOf err), a)
                   | Inr (test, d) \<Rightarrow> (writeJSON 201 (TestBody test), set_db d a)))))"

definition handleUpdateTest :: "string \<Rightarrow> json option \<Rightarrow> User \<Rightarrow> API \<Rightarrow> response \<times> API" where
  "handleUpdateTest tid b user a =
     scoped td_TenantID user ''test'' (GetTest tid (ap_db a)) a (\<lambda>test.
       decodeBody decode_test b a (\<lambda>req.
         case ValidateTestDef (test\<lparr>td_Name := trim_space (td_Name req), td_IntervalSeconds := td_IntervalSeconds req,
                td_Params := td_Params req, td_Thresholds := td_Thresholds req\<rparr>) of
           Inl err \<Rightarrow> (writeJSON 400 (ErrorOf err), a)
         | Inr test \<Rightarrow>
             (case validatePerfmonSource (td_TenantID test) (td_Type test) (td_Params test) (ap_db a) of
                Some err \<Rightarrow> (writeJSON 400 (ErrorOf err), a)
              | None \<Rightarrow>
                  with_db a (UpdateTest test (ap_db a)) 500
                    (\<lambda>d. let a = set_db d a
                         in pushing (PushConfigs (AgentIDsForTest (td_ID test) d) (ap_Server a)) a
                              (\<lambda>n. writeJSON 200 (PushedBody n))))))"

definition handleDeleteTest :: "string \<Rightarrow> User \<Rightarrow> API \<Rightarrow> response \<times> API" where
  "handleDeleteTest tid user a =
     scoped td_TenantID user ''test'' (GetTest tid (ap_db a)) a (\<lambda>test.
       let agentIDs = AgentIDsForTest (td_ID test) (ap_db a); a = set_db (DeleteTest (td_ID test) (ap_db a)) a
       in pushing (PushConfigs agentIDs (ap_Server a)) a (\<lambda>_. noContent))"

section \<open>Agents\<close>

definition newAgentView :: "Agent \<Rightarrow> bool \<Rightarrow> Health option \<Rightarrow> agentView" where
  "newAgentView agent up health =
     \<lparr>av_Agent = agent, av_Connected = up, av_Health = health,
      av_PerfmonAddr = ResolvedPerfmonAddr agent, av_ManagementAddr = ResolvedManagementAddr agent\<rparr>"

definition view_health :: "HealthEvaluation \<Rightarrow> Health" where
  "view_health h =
     (if he_Status h \<noteq> HealthUnknown
      then \<lparr>hl_Status = health_name (he_Status h), hl_Reasons = he_Reasons h, hl_UptimeSeconds = he_UptimeSeconds h\<rparr>
      else \<lparr>hl_Status = health_name (he_Status h), hl_Reasons = [], hl_UptimeSeconds = 0\<rparr>)"

definition handleListAgents :: "env \<Rightarrow> (string \<Rightarrow> string) \<Rightarrow> User \<Rightarrow> API \<Rightarrow> response \<times> API" where
  "handleListAgents e q user a =
     (case tenantFilter user (q ''tenantId'') of
        None \<Rightarrow> (writeError 403 ''no access to this tenant'', a)
      | Some tenantID \<Rightarrow>
          (writeJSON 200 (AgentList (map (\<lambda>agent0.
             let agent = agent0\<lparr>ag_Token := ''''\<rparr>
             in newAgentView agent (AgentConnected (ag_ID agent) (ap_Server a))
                  (Some (view_health (EvaluateAgentHealth (en_now e) agent (ap_Server a)))))
             (ListAgents tenantID (ap_db a)))), a))"

definition agent_fields :: "string list" where
  "agent_fields = [''name'', ''siteId'']"

definition decode_agent :: "json \<Rightarrow> (string \<times> string) option" where
  "decode_agent j =
     do { ms \<leftarrow> unmarshal_object j; n \<leftarrow> str_field agent_fields ms ''name'';
          s \<leftarrow> str_field agent_fields ms ''siteId''; Some (n, s) }"

definition handleCreateAgent :: "env \<Rightarrow> json option \<Rightarrow> User \<Rightarrow> API \<Rightarrow> response \<times> API" where
  "handleCreateAgent e b user a =
     decodeBody decode_agent b a (\<lambda>(nm0, siteID).
       let nm = trim_space nm0
       in if nm = '''' \<or> siteID = '''' then (writeError 400 ''agent name and siteId are required'', a)
          else scoped si_TenantID user ''site'' (GetSite siteID (ap_db a)) a (\<lambda>site.
                 case CreateAgent (en_id e) (en_token e) (si_TenantID site) (si_ID site) nm (ap_db a) of
                   Inl err \<Rightarrow> (writeJSON 409 (ErrorOf err), a)
                 | Inr (agent, d) \<Rightarrow>
                     (writeJSON 201 (AgentBody (newAgentView (agent\<lparr>ag_SiteName := si_Name site\<rparr>) False None)), set_db d a)))"

record update_req =
  ur_Name :: string
  ur_SiteID :: string
  ur_WlanSensorInterface :: string
  ur_PerfmonReflectorEnabled :: bool
  ur_PerfmonReflectorPort :: u32
  ur_PerfmonReflectorInterface :: string
  ur_PerfmonAllowedCIDRs :: "string list option"

text \<open>A \<open>[]string\<close> field whose nil value matters: nil is encoded as \<open>null\<close>, an empty list as \<open>[]\<close>.\<close>

definition as_slice :: "string list option \<Rightarrow> json \<Rightarrow> string list option option" where
  "as_slice d j = (case j of JNull \<Rightarrow> Some None | _ \<Rightarrow> map_option Some (as_strs [] j))"

definition of_slice :: "string list option \<Rightarrow> json" where
  "of_slice ss = (case ss of None \<Rightarrow> JNull | Some ss \<Rightarrow> of_strs ss)"

definition elems :: "string list option \<Rightarrow> string list" where
  "elems ss = (case ss of None \<Rightarrow> [] | Some ss \<Rightarrow> ss)"

definition update_fields :: "string list" where
  "update_fields = [''name'', ''siteId'', ''wlanSensorInterface'', ''perfmonReflectorEnabled'',
     ''perfmonReflectorPort'', ''perfmonReflectorInterface'', ''perfmonAllowedCidrs'']"

definition decode_update :: "json \<Rightarrow> update_req option" where
  "decode_update j =
     do { ms \<leftarrow> unmarshal_object j; n \<leftarrow> str_field update_fields ms ''name'';
          s \<leftarrow> str_field update_fields ms ''siteId''; w \<leftarrow> str_field update_fields ms ''wlanSensorInterface'';
          en \<leftarrow> dec as_bool False (members update_fields ms ''perfmonReflectorEnabled'');
          port \<leftarrow> dec as_u32 0 (members update_fields ms ''perfmonReflectorPort'');
          ifc \<leftarrow> str_field update_fields ms ''perfmonReflectorInterface'';
          cidrs \<leftarrow> dec as_slice None (members update_fields ms ''perfmonAllowedCidrs'');
          Some \<lparr>ur_Name = n, ur_SiteID = s, ur_WlanSensorInterface = w, ur_PerfmonReflectorEnabled = en,
                ur_PerfmonReflectorPort = port, ur_PerfmonReflectorInterface = ifc, ur_PerfmonAllowedCIDRs = cidrs\<rparr> }"

definition handleUpdateAgent :: "string \<Rightarrow> json option \<Rightarrow> User \<Rightarrow> API \<Rightarrow> response \<times> API" where
  "handleUpdateAgent aid b user a =
     scoped ag_TenantID user ''agent'' (GetAgent aid (ap_db a)) a (\<lambda>agent.
       decodeBody decode_update b a (\<lambda>req.
         let nm = trim_space (ur_Name req)
         in if nm = '''' \<or> ur_SiteID req = '''' then (writeError 400 ''agent name and siteId are required'', a)
            else if ur_PerfmonReflectorEnabled req \<and> ur_PerfmonReflectorPort req = 0
            then (writeError 400 ''perfmon reflector port is required when enabled'', a)
            else case ParseCIDRs (elems (ur_PerfmonAllowedCIDRs req)) of
              Inl err \<Rightarrow> (writeJSON 400 (ErrorOf (Wrapf ''perfmon allowed CIDRs: %w'' [] err)), a)
            | Inr _ \<Rightarrow>
                inTenant si_TenantID (ag_TenantID agent) ''site'' (ur_SiteID req) (GetSite (ur_SiteID req) (ap_db a)) a (\<lambda>site.
                  with_db a (UpdateAgent (ag_ID agent) nm (si_ID site) (ap_db a)) 409 (\<lambda>d.
                    let d = SetAgentWlanSensorInterface (ag_ID agent) (ur_WlanSensorInterface req) d;
                        d = SetAgentPerfmonReflector (ag_ID agent) (ur_PerfmonReflectorEnabled req)
                              (ur_PerfmonReflectorPort req) (ur_PerfmonReflectorInterface req)
                              (Raw (of_slice (ur_PerfmonAllowedCIDRs req))) d;
                        a = set_db d a
                    in pushing (RefreshAgent (ag_ID agent) (ap_Server a)) a (\<lambda>n. writeJSON 200 (PushedBody n))))))"

definition decode_run :: "json \<Rightarrow> string option" where
  "decode_run j = do { ms \<leftarrow> unmarshal_object j; str_field [''testId''] ms ''testId'' }"

definition handleRunTest :: "string \<Rightarrow> json option \<Rightarrow> User \<Rightarrow> API \<Rightarrow> response \<times> API" where
  "handleRunTest aid b user a =
     scoped ag_TenantID user ''agent'' (GetAgent aid (ap_db a)) a (\<lambda>agent.
       decodeBody decode_run b a (\<lambda>testID.
         if testID = '''' then (writeError 400 ''testId is required'', a)
         else if testID \<notin> set (SiteTestIDs (ag_SiteID agent) (ap_db a))
         then (writeError 400 ''test is not assigned to this agent's site'', a)
         else case RunTest (ag_ID agent) testID (ap_Server a) of
                None \<Rightarrow> (aborted, a)
              | Some (queued, s) \<Rightarrow>
                  ((if queued then writeJSON 200 (FlagBody ''triggered'') else writeError 409 ''agent is offline''),
                   a\<lparr>ap_Server := s\<rparr>)))"

definition handleDeleteAgent :: "string \<Rightarrow> User \<Rightarrow> API \<Rightarrow> response \<times> API" where
  "handleDeleteAgent aid user a =
     scoped ag_TenantID user ''agent'' (GetAgent aid (ap_db a)) a (\<lambda>agent.
       (noContent, set_db (DeleteAgent (ag_ID agent) (ap_db a)) a))"

section \<open>Unclaimed agents and enrollment\<close>

definition handleListUnclaimedAgents :: "(string \<Rightarrow> string) \<Rightarrow> User \<Rightarrow> API \<Rightarrow> response \<times> API" where
  "handleListUnclaimedAgents q user a =
     (case tenantFilter user (q ''tenantId'') of
        None \<Rightarrow> (writeError 403 ''no access to this tenant'', a)
      | Some t \<Rightarrow> (writeJSON 200 (UnclaimedList (ListUnclaimedAgents t (ap_db a))), a))"

text \<open>What was reported while pending is carried over to the new agent.\<close>

definition carry_over :: "UnclaimedAgent \<Rightarrow> Agent \<times> 'p db \<Rightarrow> Agent \<times> 'p db" where
  "carry_over un ad =
     (let (ag, d) = ad;
          (ag, d) = (if un_Capabilities un = RawEmpty then (ag, d)
            else (ag\<lparr>ag_Capabilities := un_Capabilities un\<rparr>, SetAgentCapabilities (ag_ID ag) (un_Capabilities un) d));
          (ag, d) = (if un_NetworkInterfaces un = RawEmpty then (ag, d)
            else (ag\<lparr>ag_NetworkInterfaces := un_NetworkInterfaces un\<rparr>,
                  SetAgentNetworkInterfaces (ag_ID ag) (un_NetworkInterfaces un) d))
      in if un_Version un = '''' then (ag, d)
         else (ag\<lparr>ag_Version := un_Version un\<rparr>, SetAgentVersion (ag_ID ag) (un_Version un) d))"

definition handleClaimAgent :: "env \<Rightarrow> string \<Rightarrow> json option \<Rightarrow> User \<Rightarrow> API \<Rightarrow> response \<times> API" where
  "handleClaimAgent e uid b user a =
     scoped un_TenantID user ''unclaimed agent'' (GetUnclaimedAgent uid (ap_db a)) a (\<lambda>un.
       decodeBody decode_agent b a (\<lambda>(nm0, siteID).
         let nm = trim_space nm0
         in if nm = '''' \<or> siteID = '''' then (writeError 400 ''agent name and siteId are required'', a)
            else inTenant si_TenantID (un_TenantID un) ''site'' siteID (GetSite siteID (ap_db a)) a (\<lambda>site.
                   case CreateAgent (en_id e) (en_token e) (un_TenantID un) (si_ID site) nm (ap_db a) of
                     Inl err \<Rightarrow> (writeJSON 409 (ErrorOf err), a)
                   | Inr (agent, d) \<Rightarrow>
                       (let (agent, d) = carry_over un (agent\<lparr>ag_SiteName := si_Name site\<rparr>, d)
                        in (writeJSON 201 (AgentBody (newAgentView agent False None)),
                            set_db (DeleteUnclaimedAgent (un_ID un) d) a)))))"

definition handleDismissUnclaimedAgent :: "string \<Rightarrow> User \<Rightarrow> API \<Rightarrow> response \<times> API" where
  "handleDismissUnclaimedAgent uid user a =
     scoped un_TenantID user ''unclaimed agent'' (GetUnclaimedAgent uid (ap_db a)) a (\<lambda>un.
       (writeJSON 200 (FlagBody ''deleted''), set_db (DeleteUnclaimedAgent (un_ID un) (ap_db a)) a))"

definition handleGetEnrollToken :: "(string \<Rightarrow> string) \<Rightarrow> User \<Rightarrow> API \<Rightarrow> response \<times> API" where
  "handleGetEnrollToken q user a =
     need_tenant user (q ''tenantId'') a (\<lambda>t.
       case GetTenantEnrollToken t (ap_db a) of
         Inl err \<Rightarrow> (writeJSON 500 (ErrorOf err), a)
       | Inr token \<Rightarrow> (writeJSON 200 (TokenBody token), a))"

definition decode_tenant_id :: "json \<Rightarrow> string option" where
  "decode_tenant_id j = do { ms \<leftarrow> unmarshal_object j; str_field [''tenantId''] ms ''tenantId'' }"

text \<open>An empty body (\<open>ContentLength\<close> zero) is the outer \<open>None\<close>.\<close>

definition handleGenerateEnrollToken :: "env \<Rightarrow> json option option \<Rightarrow> User \<Rightarrow> API \<Rightarrow> response \<times> API" where
  "handleGenerateEnrollToken e b user a =
     (let go = (\<lambda>requested. need_tenant user requested a (\<lambda>t.
          let (token, d) = SetTenantEnrollToken (en_token e) t (ap_db a)
          in (writeJSON 200 (TokenBody token), set_db d a)))
      in case b of None \<Rightarrow> go '''' | Some b \<Rightarrow> decodeBody decode_tenant_id b a go)"

definition handleRevokeEnrollToken :: "(string \<Rightarrow> string) \<Rightarrow> User \<Rightarrow> API \<Rightarrow> response \<times> API" where
  "handleRevokeEnrollToken q user a =
     need_tenant user (q ''tenantId'') a (\<lambda>t.
       (writeJSON 200 (FlagBody ''revoked''), set_db (RevokeTenantEnrollToken t (ap_db a)) a))"

end
