(* ===== verification/Api_Alerts.thy ===== *)
theory Api_Alerts
  imports Api_Handlers
begin

text \<open>
  Alert rules and targets (\<open>alerts.go\<close>) and the read-only views (\<open>agents.go\<close>, \<open>pathchanges.go\<close>,
  \<open>logs.go\<close>, \<open>testtypes.go\<close>, \<open>saas.go\<close>) of \<open>internal/api\<close>, and the routes that \<open>Register\<close> mounts
  (\<open>api.go\<close>): \<open>dispatch\<close> is the handler of a route, \<open>serve\<close> one request, authenticated the way its
  route demands.
\<close>

section \<open>Alert rules\<close>

definition validMetrics :: "string set" where
  "validMetrics = {''unhealthy'', ''state''} \<union> set AlertMetrics"

definition validOperators :: "string list" where
  "validOperators = [''>'', ''>='', ''<'', ''<='', ''=='']"

definition validTargetTypes :: "string list" where
  "validTargetTypes = [''webhook'', ''email'', ''script'', ''snmp'']"

definition handleListAlertRules :: "(string \<Rightarrow> string) \<Rightarrow> User \<Rightarrow> API \<Rightarrow> response \<times> API" where
  "handleListAlertRules q user a =
     need_tenant user (q ''tenantId'') a (\<lambda>t. (writeJSON 200 (RuleList (ListAlertRules t (ap_db a))), a))"

definition rule_fields :: "string list" where
  "rule_fields = [''id'', ''tenantId'', ''testId'', ''testName'', ''name'', ''metric'', ''operator'', ''threshold'',
     ''forCount'', ''clearThreshold'', ''clearCount'', ''targetIds'', ''webhookUrl'']"

fun as_int64 :: "int \<Rightarrow> json \<Rightarrow> int option" where
  "as_int64 d JNull = Some d"
| "as_int64 d (JInt n) = (if - (2 ^ 63) \<le> n \<and> n < 2 ^ 63 then Some n else None)"
| "as_int64 d _ = None"

definition as_float_ptr :: "float64 option \<Rightarrow> json \<Rightarrow> float64 option option" where
  "as_float_ptr d j = (case j of JNull \<Rightarrow> Some None | _ \<Rightarrow> map_option Some (as_float 0 j))"

definition decode_rule :: "json \<Rightarrow> AlertRule option" where
  "decode_rule j =
     do { ms \<leftarrow> unmarshal_object j; i \<leftarrow> str_field rule_fields ms ''id''; t \<leftarrow> str_field rule_fields ms ''tenantId'';
          x \<leftarrow> str_field rule_fields ms ''testId''; xn \<leftarrow> str_field rule_fields ms ''testName'';
          n \<leftarrow> str_field rule_fields ms ''name''; m \<leftarrow> str_field rule_fields ms ''metric'';
          opr \<leftarrow> str_field rule_fields ms ''operator''; th \<leftarrow> dec as_float 0 (members rule_fields ms ''threshold'');
          fc \<leftarrow> dec as_int64 0 (members rule_fields ms ''forCount'');
          ct \<leftarrow> dec as_float_ptr None (members rule_fields ms ''clearThreshold'');
          cc \<leftarrow> dec as_int64 0 (members rule_fields ms ''clearCount'');
          tg \<leftarrow> dec as_strs [] (members rule_fields ms ''targetIds''); w \<leftarrow> str_field rule_fields ms ''webhookUrl'';
          Some \<lparr>ar_ID = i, ar_TenantID = t, ar_TestID = x, ar_TestName = xn, ar_Name = n, ar_Metric = m,
                ar_Operator = opr, ar_Threshold = th, ar_ForCount = fc, ar_ClearThreshold = ct, ar_ClearCount = cc,
                ar_TargetIds = tg, ar_WebhookURL = w\<rparr> }"

definition at_least_one :: "int \<Rightarrow> int" where
  "at_least_one n = (if n < 1 then 1 else n)"

text \<open>The checks of metric, operator and level, with the operator as it is stored.\<close>

definition check_condition :: "AlertRule \<Rightarrow> response + string" where
  "check_condition req =
     (if ar_Metric req \<notin> validMetrics then Inl (writeError 400 ''invalid metric'')
      else if ar_Metric req \<noteq> ''unhealthy'' \<and> ar_Metric req \<noteq> ''state'' then
        (if ar_Operator req \<notin> set validOperators then Inl (writeError 400 ''invalid operator'') else Inr (ar_Operator req))
      else if ar_Metric req = ''state'' then
        (if ar_Threshold req \<noteq> 1 \<and> ar_Threshold req \<noteq> 2
         then Inl (writeError 400 ''state level must be 1 (orange) or 2 (red)'') else Inr ''>='')
      else Inr (ar_Operator req))"

definition handleCreateAlertRule :: "env \<Rightarrow> json option \<Rightarrow> User \<Rightarrow> API \<Rightarrow> response \<times> API" where
  "handleCreateAlertRule e b user a =
     decodeBody decode_rule b a (\<lambda>req.
       need_tenant user (ar_TenantID req) a (\<lambda>tenantID.
         let nm = trim_space (ar_Name req)
         in if nm = '''' then (writeError 400 ''rule name is required'', a)
            else inTenant td_TenantID tenantID ''test'' (ar_TestID req) (GetTest (ar_TestID req) (ap_db a)) a (\<lambda>_.
              case check_condition req of
                Inl r \<Rightarrow> (r, a)
              | Inr op \<Rightarrow>
                  (case all_in_tenant at_TenantID tenantID ''alert target'' (\<lambda>i. GetAlertTarget i (ap_db a)) (ar_TargetIds req) of
                     Some r \<Rightarrow> (r, a)
                   | None \<Rightarrow>
                       (case CreateAlertRule (en_id e) (req\<lparr>ar_TenantID := tenantID, ar_Name := nm, ar_Operator := op,
                               ar_ForCount := at_least_one (ar_ForCount req),
                               ar_ClearCount := at_least_one (ar_ClearCount req)\<rparr>) (ap_db a) of
                          Inl err \<Rightarrow> (writeJSON 409 (ErrorOf err), a)
                        | Inr (rule, d) \<Rightarrow> (writeJSON 201 (RuleBody rule), set_db d a))))))"

definition handleDeleteAlertRule :: "string \<Rightarrow> User \<Rightarrow> API \<Rightarrow> response \<times> API" where
  "handleDeleteAlertRule rid user a =
     scoped ar_TenantID user ''rule'' (GetAlertRule rid (ap_db a)) a (\<lambda>rule.
       (noContent, set_db (DeleteAlertRule (ar_ID rule) (ap_db a)) a))"

definition handleUpdateAlertRule :: "string \<Rightarrow> json option \<Rightarrow> User \<Rightarrow> API \<Rightarrow> response \<times> API" where
  "handleUpdateAlertRule rid b user a =
     scoped ar_TenantID user ''rule'' (GetAlertRule rid (ap_db a)) a (\<lambda>rule.
       decodeBody decode_rule b a (\<lambda>req.
         let nm = trim_space (ar_Name req)
         in if nm = '''' then (writeError 400 ''rule name is required'', a)
            else case check_condition req of
              Inl r \<Rightarrow> (r, a)
            | Inr op \<Rightarrow>
                (case all_in_tenant at_TenantID (ar_TenantID rule) ''alert target'' (\<lambda>i. GetAlertTarget i (ap_db a)) (ar_TargetIds req) of
                   Some r \<Rightarrow> (r, a)
                 | None \<Rightarrow>
                     (let (updated, d) = UpdateAlertRule (rule\<lparr>ar_Name := nm, ar_Metric := ar_Metric req, ar_Operator := op,
                            ar_Threshold := ar_Threshold req, ar_ForCount := at_least_one (ar_ForCount req),
                            ar_ClearCount := at_least_one (ar_ClearCount req), ar_ClearThreshold := ar_ClearThreshold req,
                            ar_TargetIds := ar_TargetIds req\<rparr>) (ap_db a)
                      in (writeJSON 200 (RuleBody updated), set_db d a)))))"

section \<open>Alert targets\<close>

definition handleListAlertTargets :: "(string \<Rightarrow> string) \<Rightarrow> User \<Rightarrow> API \<Rightarrow> response \<times> API" where
  "handleListAlertTargets q user a =
     need_tenant user (q ''tenantId'') a (\<lambda>t. (writeJSON 200 (TargetList (ListAlertTargets t (ap_db a))), a))"

text \<open>A \<open>map[string]any\<close>: the last member with a key counts; nil is \<open>JNull\<close>.\<close>

definition map_get :: "json \<Rightarrow> string \<Rightarrow> json option" where
  "map_get j k =
     (case j of
        JObj ms \<Rightarrow> (case filter (\<lambda>m. fst m = k) ms of [] \<Rightarrow> None | m # ms \<Rightarrow> Some (snd (last (m # ms))))
      | _ \<Rightarrow> None)"

definition as_map :: "json \<Rightarrow> json \<Rightarrow> json option" where
  "as_map d j = (case j of JNull \<Rightarrow> Some JNull | JObj ms \<Rightarrow> Some (JObj ms) | _ \<Rightarrow> None)"

definition nonempty_string :: "json option \<Rightarrow> bool" where
  "nonempty_string v = (case v of Some (JStr s) \<Rightarrow> s \<noteq> '''' | _ \<Rightarrow> False)"

fun is_string :: "json \<Rightarrow> bool" where
  "is_string (JStr _) = True"
| "is_string _ = False"

definition validateTargetConfig :: "string \<Rightarrow> json \<Rightarrow> bool" where
  "validateTargetConfig targetType config =
     (if targetType = ''webhook'' then nonempty_string (map_get config ''url'')
      else if targetType = ''email'' then
        (case map_get config ''to'' of Some (JArr ts) \<Rightarrow> ts \<noteq> [] \<and> list_all is_string ts | _ \<Rightarrow> False)
      else if targetType = ''script'' then nonempty_string (map_get config ''path'')
      else if targetType = ''snmp'' then nonempty_string (map_get config ''host'')
      else False)"

definition target_fields :: "string list" where
  "target_fields = [''id'', ''tenantId'', ''name'', ''type'', ''config'']"

definition decode_target :: "json \<Rightarrow> AlertTarget option" where
  "decode_target j =
     do { ms \<leftarrow> unmarshal_object j; i \<leftarrow> str_field target_fields ms ''id''; t \<leftarrow> str_field target_fields ms ''tenantId'';
          n \<leftarrow> str_field target_fields ms ''name''; ty \<leftarrow> str_field target_fields ms ''type'';
          c \<leftarrow> dec as_map JNull (members target_fields ms ''config'');
          Some \<lparr>at_ID = i, at_TenantID = t, at_Name = n, at_Type = ty, at_Config = (if c = JNull then JObj [] else c)\<rparr> }"

definition handleCreateAlertTarget :: "env \<Rightarrow> json option \<Rightarrow> User \<Rightarrow> API \<Rightarrow> response \<times> API" where
  "handleCreateAlertTarget e b user a =
     decodeBody decode_target b a (\<lambda>req.
       need_tenant user (at_TenantID req) a (\<lambda>tenantID.
         let nm = trim_space (at_Name req)
         in if at_Type req = ''script'' \<and> \<not> u_IsAdmin user
            then (writeError 403 ''script targets require admin access'', a)
            else if nm = '''' then (writeError 400 ''target name is required'', a)
            else if at_Type req \<notin> set validTargetTypes then (writeError 400 ''invalid target type'', a)
            else if \<not> validateTargetConfig (at_Type req) (at_Config req)
            then (writeError 400 (''invalid config for target type '' @ at_Type req), a)
            else case CreateAlertTarget (en_id e) (req\<lparr>at_TenantID := tenantID, at_Name := nm\<rparr>) (ap_db a) of
                   Inl err \<Rightarrow> (writeJSON 409 (ErrorOf err), a)
                 | Inr (target, d) \<Rightarrow> (writeJSON 201 (TargetBody target), set_db d a)))"

definition handleUpdateAlertTarget :: "string \<Rightarrow> json option \<Rightarrow> User \<Rightarrow> API \<Rightarrow> response \<times> API" where
  "handleUpdateAlertTarget tid b user a =
     scoped at_TenantID user ''target'' (GetAlertTarget tid (ap_db a)) a (\<lambda>target.
       if at_Type target = ''script'' \<and> \<not> u_IsAdmin user
       then (writeError 403 ''script targets require admin access'', a)
       else decodeBody decode_target b a (\<lambda>req.
         let nm = trim_space (at_Name req)
         in if nm = '''' then (writeError 400 ''target name is required'', a)
            else if at_Type req \<notin> set validTargetTypes then (writeError 400 ''invalid target type'', a)
            else if \<not> validateTargetConfig (at_Type req) (at_Config req)
            then (writeError 400 (''invalid config for target type '' @ at_Type req), a)
            else case UpdateAlertTarget (target\<lparr>at_Name := nm, at_Type := at_Type req, at_Config := at_Config req\<rparr>) (ap_db a) of
                   Inl err \<Rightarrow> (writeJSON 500 (ErrorOf err), a)
                 | Inr (updated, d) \<Rightarrow> (writeJSON 200 (TargetBody updated), set_db d a)))"

definition handleDeleteAlertTarget :: "string \<Rightarrow> User \<Rightarrow> API \<Rightarrow> response \<times> API" where
  "handleDeleteAlertTarget tid user a =
     scoped at_TenantID user ''target'' (GetAlertTarget tid (ap_db a)) a (\<lambda>target.
       (noContent, set_db (DeleteAlertTarget (at_ID target) (ap_db a)) a))"

section \<open>Read-only views\<close>

text \<open>\<open>strconv.Atoi\<close> with the error ignored: 0 for bad syntax, the nearest \<open>int64\<close> out of range.\<close>

definition clamp_int64 :: "int \<Rightarrow> int" where
  "clamp_int64 n = (if n < - (2 ^ 63) then - (2 ^ 63) else if n \<ge> 2 ^ 63 then 2 ^ 63 - 1 else n)"

definition Atoi :: "string \<Rightarrow> int" where
  "Atoi s =
     (let (neg, ds) = (case s of c # cs \<Rightarrow> if c = CHR ''-'' then (True, cs) else if c = CHR ''+'' then (False, cs) else (False, s)
                       | [] \<Rightarrow> (False, []))
      in if ds = [] \<or> \<not> list_all is_digit ds then 0
         else clamp_int64 (if neg then - int (atoi_digits 0 ds) else int (atoi_digits 0 ds)))"

definition handleListAlerts :: "(string \<Rightarrow> string) \<Rightarrow> User \<Rightarrow> API \<Rightarrow> response \<times> API" where
  "handleListAlerts q user a =
     need_tenant user (q ''tenantId'') a (\<lambda>t.
       (writeJSON 200 (AlertList (ListAlerts t (Atoi (q ''limit'')) (ap_db a))), a))"

text \<open>The \<open>since\<close> parameter: absent, a time, or an error. The zero \<open>time.Time\<close> means no bound.\<close>

definition zero_time :: go_time where
  "zero_time = - 62135596800 * second"

definition since_param :: "string \<Rightarrow> go_time option option" where
  "since_param s =
     (if s = '''' then Some None
      else map_option (\<lambda>t. if t = zero_time then None else Some t) (parse_rfc3339 s))"

definition handleListResults :: "(string \<Rightarrow> string) \<Rightarrow> User \<Rightarrow> API \<Rightarrow> response \<times> API" where
  "handleListResults q user a =
     need_tenant user (q ''tenantId'') a (\<lambda>t.
       case since_param (q ''since'') of
         None \<Rightarrow> (writeError 400 ''since must be RFC3339'', a)
       | Some since \<Rightarrow>
           (writeJSON 200 (ResultList (ListResults \<lparr>rf_TenantID = t, rf_SiteID = q ''siteId'', rf_AgentID = q ''agentId'',
              rf_TestID = q ''testId'', rf_TestType = q ''type'', rf_Since = since, rf_Limit = Atoi (q ''limit'')\<rparr> (ap_db a))), a))"

definition handleListPathChanges :: "(string \<Rightarrow> string) \<Rightarrow> User \<Rightarrow> API \<Rightarrow> response \<times> API" where
  "handleListPathChanges q user a =
     need_tenant user (q ''tenantId'') a (\<lambda>t.
       case since_param (q ''since'') of
         None \<Rightarrow> (writeError 400 ''since must be RFC3339'', a)
       | Some since \<Rightarrow>
           (writeJSON 200 (PathChangeList (ListPathChanges \<lparr>pcf_TenantID = t, pcf_AgentID = q ''agentId'',
              pcf_TestID = q ''testId'', pcf_Since = since, pcf_Limit = Atoi (q ''limit'')\<rparr> (ap_db a))), a))"

definition handleListLogs :: "(string \<Rightarrow> string) \<Rightarrow> User \<Rightarrow> API \<Rightarrow> response \<times> API" where
  "handleListLogs q user a =
     (if q ''source'' = ''server'' \<and> \<not> u_IsAdmin user then (writeError 403 ''admin access required'', a)
      else case tenantFilter user (q ''tenantId'') of
        None \<Rightarrow> (writeError 403 ''not your tenant'', a)
      | Some t \<Rightarrow>
          (writeJSON 200 (LogList (ListLogs \<lparr>lf_TenantID = (if q ''source'' \<noteq> ''server'' then t else ''''),
             lf_AgentID = q ''agentId'', lf_Source = q ''source'', lf_Level = q ''level'', lf_Limit = Atoi (q ''limit'')\<rparr> (ap_db a))), a))"

definition handleListTestTypes :: "User \<Rightarrow> API \<Rightarrow> response \<times> API" where
  "handleListTestTypes user a =
     (writeJSON 200 (TypeList (map (\<lambda>s. \<lparr>tv_Type = sp_Type s, tv_Capability = sp_Capability s, tv_Unit = sp_Unit s,
        tv_LowerIsWorse = sp_LowerIsWorse s, tv_Metrics = MetricNames s\<rparr>) All)), a)"

definition handleListSaasServices :: "User \<Rightarrow> API \<Rightarrow> response \<times> API" where
  "handleListSaasServices user a = (writeJSON 200 (ServiceList saas_All), a)"

definition comma_list :: "string \<Rightarrow> string list" where
  "comma_list s = remdups (filter (\<lambda>x. x \<noteq> '''') (map trim_space (split_on (CHR '','') s)))"

definition handleOUILookup :: "env \<Rightarrow> (string \<Rightarrow> string) \<Rightarrow> User \<Rightarrow> API \<Rightarrow> response \<times> API" where
  "handleOUILookup e q user a =
     (writeJSON 200 (NameMap (List.map_filter (\<lambda>mac.
        let v = oui_Lookup (en_oui e) mac in if v \<noteq> '''' then Some (mac, v) else None) (comma_list (q ''macs'')))), a)"

definition handleASNLookup :: "env \<Rightarrow> (string \<Rightarrow> string) \<Rightarrow> User \<Rightarrow> API \<Rightarrow> response \<times> API" where
  "handleASNLookup e q user a =
     (writeJSON 200 (InfoMap (List.map_filter (\<lambda>ip. map_option (Pair ip) (asn_Lookup (en_asn e) ip)) (comma_list (q ''ips'')))), a)"

definition handleWlanRoaming :: "env \<Rightarrow> (string \<Rightarrow> string) \<Rightarrow> User \<Rightarrow> API \<Rightarrow> response \<times> API" where
  "handleWlanRoaming e q user a =
     need_tenant user (q ''tenantId'') a (\<lambda>t.
       case (if q ''since'' = '''' then Some (Some (en_now e - 7 * 24 * 60 * minute)) else since_param (q ''since'')) of
         None \<Rightarrow> (writeError 400 ''since must be RFC3339'', a)
       | Some since \<Rightarrow>
           (writeJSON 200 (RoamingBody (WlanRoaming (en_sort e) (en_now e) \<lparr>rf_TenantID = t, rf_SiteID = q ''siteId'', rf_AgentID = q ''agentId'',
              rf_TestID = '''', rf_TestType = '''', rf_Since = since, rf_Limit = 0\<rparr> (ap_db a))), a))"

definition handleOverview :: "env \<Rightarrow> (string \<Rightarrow> string) \<Rightarrow> User \<Rightarrow> API \<Rightarrow> response \<times> API" where
  "handleOverview e q user a =
     need_tenant user (q ''tenantId'') a (\<lambda>t.
       let siteID = q ''siteId'';
           up = filter (\<lambda>ag. (siteID = '''' \<or> ag_SiteID ag = siteID) \<and> AgentConnected (ag_ID ag) (ap_Server a)) (ListAgents t (ap_db a));
           out = (writeJSON 200 (OverviewBody ((TenantOverview (en_decode e) (en_now e) t siteID (ap_db a))
                    \<lparr>ov_AgentsConnected := length up\<rparr>)), a)
       in if siteID \<noteq> '''' then inTenant si_TenantID t ''site'' siteID (GetSite siteID (ap_db a)) a (\<lambda>_. out) else out)"

section \<open>Routes\<close>

text \<open>
  One constructor per route that needs a user, with the path value, the query and the body where the
  handler reads them. The client address is that of the connection.
\<close>

datatype request =
    GetMe
  | GetTenants
  | PostTenant "json option"
  | DeleteTenantReq string
  | GetUsers
  | PostUser "json option"
  | DeleteUserReq string
  | PostPassword string string "json option"
  | GetSites "string \<Rightarrow> string"
  | PostSite "json option"
  | DeleteSiteReq string
  | PutSiteTests string "json option"
  | GetTests "string \<Rightarrow> string"
  | PostTest "json option"
  | PutTest string "json option"
  | DeleteTestReq string
  | GetAgents "string \<Rightarrow> string"
  | PostAgent "json option"
  | PutAgent string "json option"
  | PostRun string "json option"
  | DeleteAgentReq string
  | GetUnclaimed "string \<Rightarrow> string"
  | PostClaim string "json option"
  | DeleteUnclaimed string
  | GetEnroll "string \<Rightarrow> string"
  | PostEnroll "json option option"
  | DeleteEnroll "string \<Rightarrow> string"
  | GetTestTypes
  | GetSaasServices
  | GetResults "string \<Rightarrow> string"
  | GetOUI "string \<Rightarrow> string"
  | GetASN "string \<Rightarrow> string"
  | GetRoaming "string \<Rightarrow> string"
  | GetPathChanges "string \<Rightarrow> string"
  | GetOverview "string \<Rightarrow> string"
  | GetLogs "string \<Rightarrow> string"
  | GetRules "string \<Rightarrow> string"
  | PostRule "json option"
  | PutRule string "json option"
  | DeleteRuleReq string
  | GetTargets "string \<Rightarrow> string"
  | PostTarget "json option"
  | PutTarget string "json option"
  | DeleteTargetReq string
  | GetAlerts "string \<Rightarrow> string"
  | GetKeys
  | PostKey "json option"
  | DeleteKey string

text \<open>The handler of a route, once the user is known.\<close>

fun dispatch :: "env \<Rightarrow> request \<Rightarrow> User \<Rightarrow> API \<Rightarrow> response \<times> API" where
  "dispatch e GetMe = handleMe e"
| "dispatch e GetTenants = admin handleListTenants"
| "dispatch e (PostTenant b) = admin (handleCreateTenant e b)"
| "dispatch e (DeleteTenantReq i) = admin (handleDeleteTenant i)"
| "dispatch e GetUsers = admin handleListUsers"
| "dispatch e (PostUser b) = admin (handleCreateUser e b)"
| "dispatch e (DeleteUserReq i) = admin (handleDeleteUser i)"
| "dispatch e (PostPassword remote i b) = handleSetPassword e remote i b"
| "dispatch e (GetSites q) = handleListSites q"
| "dispatch e (PostSite b) = handleCreateSite e b"
| "dispatch e (DeleteSiteReq i) = handleDeleteSite i"
| "dispatch e (PutSiteTests i b) = handleSetSiteTests i b"
| "dispatch e (GetTests q) = handleListTests q"
| "dispatch e (PostTest b) = handleCreateTest e b"
| "dispatch e (PutTest i b) = handleUpdateTest i b"
| "dispatch e (DeleteTestReq i) = handleDeleteTest i"
| "dispatch e (GetAgents q) = handleListAgents e q"
| "dispatch e (PostAgent b) = handleCreateAgent e b"
| "dispatch e (PutAgent i b) = handleUpdateAgent i b"
| "dispatch e (PostRun i b) = handleRunTest i b"
| "dispatch e (DeleteAgentReq i) = handleDeleteAgent i"
| "dispatch e (GetUnclaimed q) = handleListUnclaimedAgents q"
| "dispatch e (PostClaim i b) = handleClaimAgent e i b"
| "dispatch e (DeleteUnclaimed i) = handleDismissUnclaimedAgent i"
| "dispatch e (GetEnroll q) = handleGetEnrollToken q"
| "dispatch e (PostEnroll b) = handleGenerateEnrollToken e b"
| "dispatch e (DeleteEnroll q) = handleRevokeEnrollToken q"
| "dispatch e GetTestTypes = handleListTestTypes"
| "dispatch e GetSaasServices = handleListSaasServices"
| "dispatch e (GetResults q) = handleListResults q"
| "dispatch e (GetOUI q) = handleOUILookup e q"
| "dispatch e (GetASN q) = handleASNLookup e q"
| "dispatch e (GetRoaming q) = handleWlanRoaming e q"
| "dispatch e (GetPathChanges q) = handleListPathChanges q"
| "dispatch e (GetOverview q) = handleOverview e q"
| "dispatch e (GetLogs q) = handleListLogs q"
| "dispatch e (GetRules q) = handleListAlertRules q"
| "dispatch e (PostRule b) = handleCreateAlertRule e b"
| "dispatch e (PutRule i b) = handleUpdateAlertRule i b"
| "dispatch e (DeleteRuleReq i) = handleDeleteAlertRule i"
| "dispatch e (GetTargets q) = handleListAlertTargets q"
| "dispatch e (PostTarget b) = handleCreateAlertTarget e b"
| "dispatch e (PutTarget i b) = handleUpdateAlertTarget i b"
| "dispatch e (DeleteTargetReq i) = handleDeleteAlertTarget i"
| "dispatch e (GetAlerts q) = handleListAlerts q"
| "dispatch e GetKeys = handleListAPIKeys"
| "dispatch e (PostKey b) = handleCreateAPIKey e b"
| "dispatch e (DeleteKey i) = handleDeleteAPIKey i"

text \<open>The routes as they are mounted: each handler behind \<open>auth\<close>, and those of administrators behind \<open>admin\<close> as well.\<close>

fun route :: "env \<Rightarrow> string \<Rightarrow> string option \<Rightarrow> request \<Rightarrow> API \<Rightarrow> response \<times> API" where
  "route e hdr cookie GetMe = auth e hdr cookie (handleMe e)"
| "route e hdr cookie GetTenants = auth e hdr cookie (admin handleListTenants)"
| "route e hdr cookie (PostTenant b) = auth e hdr cookie (admin (handleCreateTenant e b))"
| "route e hdr cookie (DeleteTenantReq i) = auth e hdr cookie (admin (handleDeleteTenant i))"
| "route e hdr cookie GetUsers = auth e hdr cookie (admin handleListUsers)"
| "route e hdr cookie (PostUser b) = auth e hdr cookie (admin (handleCreateUser e b))"
| "route e hdr cookie (DeleteUserReq i) = auth e hdr cookie (admin (handleDeleteUser i))"
| "route e hdr cookie (PostPassword remote i b) = auth e hdr cookie (handleSetPassword e remote i b)"
| "route e hdr cookie (GetSites q) = auth e hdr cookie (handleListSites q)"
| "route e hdr cookie (PostSite b) = auth e hdr cookie (handleCreateSite e b)"
| "route e hdr cookie (DeleteSiteReq i) = auth e hdr cookie (handleDeleteSite i)"
| "route e hdr cookie (PutSiteTests i b) = auth e hdr cookie (handleSetSiteTests i b)"
| "route e hdr cookie (GetTests q) = auth e hdr cookie (handleListTests q)"
| "route e hdr cookie (PostTest b) = auth e hdr cookie (handleCreateTest e b)"
| "route e hdr cookie (PutTest i b) = auth e hdr cookie (handleUpdateTest i b)"
| "route e hdr cookie (DeleteTestReq i) = auth e hdr cookie (handleDeleteTest i)"
| "route e hdr cookie (GetAgents q) = auth e hdr cookie (handleListAgents e q)"
| "route e hdr cookie (PostAgent b) = auth e hdr cookie (handleCreateAgent e b)"
| "route e hdr cookie (PutAgent i b) = auth e hdr cookie (handleUpdateAgent i b)"
| "route e hdr cookie (PostRun i b) = auth e hdr cookie (handleRunTest i b)"
| "route e hdr cookie (DeleteAgentReq i) = auth e hdr cookie (handleDeleteAgent i)"
| "route e hdr cookie (GetUnclaimed q) = auth e hdr cookie (handleListUnclaimedAgents q)"
| "route e hdr cookie (PostClaim i b) = auth e hdr cookie (handleClaimAgent e i b)"
| "route e hdr cookie (DeleteUnclaimed i) = auth e hdr cookie (handleDismissUnclaimedAgent i)"
| "route e hdr cookie (GetEnroll q) = auth e hdr cookie (handleGetEnrollToken q)"
| "route e hdr cookie (PostEnroll b) = auth e hdr cookie (handleGenerateEnrollToken e b)"
| "route e hdr cookie (DeleteEnroll q) = auth e hdr cookie (handleRevokeEnrollToken q)"
| "route e hdr cookie GetTestTypes = auth e hdr cookie handleListTestTypes"
| "route e hdr cookie GetSaasServices = auth e hdr cookie handleListSaasServices"
| "route e hdr cookie (GetResults q) = auth e hdr cookie (handleListResults q)"
| "route e hdr cookie (GetOUI q) = auth e hdr cookie (handleOUILookup e q)"
| "route e hdr cookie (GetASN q) = auth e hdr cookie (handleASNLookup e q)"
| "route e hdr cookie (GetRoaming q) = auth e hdr cookie (handleWlanRoaming e q)"
| "route e hdr cookie (GetPathChanges q) = auth e hdr cookie (handleListPathChanges q)"
| "route e hdr cookie (GetOverview q) = auth e hdr cookie (handleOverview e q)"
| "route e hdr cookie (GetLogs q) = auth e hdr cookie (handleListLogs q)"
| "route e hdr cookie (GetRules q) = auth e hdr cookie (handleListAlertRules q)"
| "route e hdr cookie (PostRule b) = auth e hdr cookie (handleCreateAlertRule e b)"
| "route e hdr cookie (PutRule i b) = auth e hdr cookie (handleUpdateAlertRule i b)"
| "route e hdr cookie (DeleteRuleReq i) = auth e hdr cookie (handleDeleteAlertRule i)"
| "route e hdr cookie (GetTargets q) = auth e hdr cookie (handleListAlertTargets q)"
| "route e hdr cookie (PostTarget b) = auth e hdr cookie (handleCreateAlertTarget e b)"
| "route e hdr cookie (PutTarget i b) = auth e hdr cookie (handleUpdateAlertTarget i b)"
| "route e hdr cookie (DeleteTargetReq i) = auth e hdr cookie (handleDeleteAlertTarget i)"
| "route e hdr cookie (GetAlerts q) = auth e hdr cookie (handleListAlerts q)"
| "route e hdr cookie GetKeys = auth e hdr cookie handleListAPIKeys"
| "route e hdr cookie (PostKey b) = auth e hdr cookie (handleCreateAPIKey e b)"
| "route e hdr cookie (DeleteKey i) = auth e hdr cookie (handleDeleteAPIKey i)"

lemma route_auth [simp]: "route e hdr cookie r = auth e hdr cookie (dispatch e r)"
  by (cases r) simp_all

declare route.simps [simp del]

datatype http =
    Login string "json option"
  | Logout "string option"
  | Authed string "string option" request

text \<open>One HTTP request: login and logout need no user, all others the header or the cookie.\<close>

fun serve :: "env \<Rightarrow> http \<Rightarrow> API \<Rightarrow> response \<times> API" where
  "serve e (Login remote b) a = handleLogin e remote b a"
| "serve e (Logout cookie) a = handleLogout cookie a"
| "serve e (Authed hdr cookie r) a = route e hdr cookie r a"

end
