(* ===== verification/Tenant_Frame.thy ===== *)
theory Tenant_Frame
  imports Store_Properties
begin

text \<open>
  What one tenant owns in the database, and which store operations leave it alone. \<open>data_of\<close> is the
  database restricted to the rows of a tenant; \<open>safe u\<close> relates two databases when the step between
  them keeps the invariant and, unless \<open>u\<close> is an administrator, changes nothing of another tenant and
  nothing of another user's account. The locale \<open>frame\<close> is the contract of such relations, which the
  HTTP handlers are checked against.
\<close>

section \<open>References stay within a tenant\<close>

definition site_links :: "'p db \<Rightarrow> (string \<times> string) set" where
  "site_links d = (\<lambda>s. (si_ID s, si_TenantID s)) ` set (sites d)"

definition test_links :: "'p db \<Rightarrow> (string \<times> string) set" where
  "test_links d = (\<lambda>t. (td_ID t, td_TenantID t)) ` set (tests d)"

definition agent_links :: "'p db \<Rightarrow> (string \<times> string) set" where
  "agent_links d = (\<lambda>a. (ag_SiteID a, ag_TenantID a)) ` set (agents d)"

definition rule_links :: "'p db \<Rightarrow> (string \<times> string) set" where
  "rule_links d = (\<lambda>r. (ar_TestID r, ar_TenantID r)) ` set (alert_rules d)"

definition agree :: "(string \<times> string) set \<Rightarrow> (string \<times> string) set \<Rightarrow> bool" where
  "agree X Y \<longleftrightarrow> (\<forall>i t u. (i, t) \<in> X \<longrightarrow> (i, u) \<in> Y \<longrightarrow> t = u)"

definition linked ::
  "(string \<times> string) set \<Rightarrow> (string \<times> string) set \<Rightarrow> (string \<times> string) set \<Rightarrow> (string \<times> string) set \<Rightarrow> (string \<times> string) set \<Rightarrow> bool" where
  "linked S X A R P \<longleftrightarrow> agree A S \<and> agree R X \<and> (\<forall>i j t u. (i, j) \<in> P \<longrightarrow> (i, t) \<in> S \<longrightarrow> (j, u) \<in> X \<longrightarrow> t = u)"

definition consistent :: "'p db \<Rightarrow> bool" where
  "consistent d \<longleftrightarrow> linked (site_links d) (test_links d) (agent_links d) (rule_links d) (set (site_tests d))"

lemma linked_mono:
  "linked S X A R P \<Longrightarrow> S' \<subseteq> S \<Longrightarrow> X' \<subseteq> X \<Longrightarrow> A' \<subseteq> A \<Longrightarrow> R' \<subseteq> R \<Longrightarrow> P' \<subseteq> P \<Longrightarrow> linked S' X' A' R' P'"
  unfolding linked_def agree_def by blast

lemma linked_site:
  assumes "linked S X A R P" "\<And>v. (i, v) \<notin> A" "\<And>j. (i, j) \<notin> P"
  shows "linked (insert (i, t) S) X A R P"
  using assms unfolding linked_def agree_def by fast

lemma linked_test:
  assumes "linked S X A R P" "\<And>v. (i, v) \<notin> R" "\<And>j. (j, i) \<notin> P"
  shows "linked S (insert (i, t) X) A R P"
  using assms unfolding linked_def agree_def by fast

lemma linked_agent:
  assumes "linked S X A R P" "\<And>u. (i, u) \<in> S \<Longrightarrow> t = u"
  shows "linked S X (insert (i, t) A) R P"
  using assms unfolding linked_def agree_def by fast

lemma linked_rule:
  assumes "linked S X A R P" "\<And>u. (i, u) \<in> X \<Longrightarrow> t = u"
  shows "linked S X A (insert (i, t) R) P"
  using assms unfolding linked_def agree_def by fast

lemma linked_pair:
  assumes "linked S X A R P" "\<And>t u. (i, t) \<in> S \<Longrightarrow> (j, u) \<in> X \<Longrightarrow> t = u"
  shows "linked S X A R (insert (i, j) P)"
  using assms unfolding linked_def by fast

lemmas link_defs = site_links_def test_links_def agent_links_def rule_links_def

lemma consistent_mono:
  assumes "consistent d" "site_links d' \<subseteq> site_links d" "test_links d' \<subseteq> test_links d"
    "agent_links d' \<subseteq> agent_links d" "rule_links d' \<subseteq> rule_links d" "set (site_tests d') \<subseteq> set (site_tests d)"
  shows "consistent d'"
  using assms unfolding consistent_def by (rule linked_mono)

lemma image_update_where:
  assumes "\<And>r. f (h r) = f r"
  shows "f ` set (update_where P h rs) = f ` set rs"
  using map_update_where [of f h P rs, OF assms] by (simp flip: set_map)

definition db_inv :: "'p db \<Rightarrow> bool" where
  "db_inv d \<longleftrightarrow> db_ok d \<and> consistent d"

lemma inv_same_links:
  assumes "db_inv d" "db_ok d'" "site_links d' = site_links d" "test_links d' = test_links d"
    "agent_links d' = agent_links d" "rule_links d' = rule_links d" "site_tests d' = site_tests d"
  shows "db_inv d'"
  using assms by (simp add: db_inv_def consistent_def)

section \<open>The rows of a tenant\<close>

definition data_of :: "string \<Rightarrow> 'p db \<Rightarrow> 'p db" where
  "data_of T d =
     (let ss = filter (\<lambda>s. si_TenantID s = T) (sites d); as = filter (\<lambda>a. ag_TenantID a = T) (agents d);
          rs = filter (\<lambda>r. ar_TenantID r = T) (alert_rules d)
      in d\<lparr>tenants := filter (\<lambda>t. tn_ID t = T) (tenants d), users := [], sessions := [], api_keys := [],
           sites := ss, tests := filter (\<lambda>t. td_TenantID t = T) (tests d),
           site_tests := filter (\<lambda>p. fst p \<in> si_ID ` set ss) (site_tests d), agents := as,
           results := (results d)\<lparr>rows := filter (\<lambda>r. re_AgentID r \<in> ag_ID ` set as) (rows (results d))\<rparr>,
           path_changes := (path_changes d)\<lparr>rows := filter (\<lambda>c. pc_AgentID c \<in> ag_ID ` set as) (rows (path_changes d))\<rparr>,
           alert_rules := rs,
           alerts := (alerts d)\<lparr>rows := filter (\<lambda>x. al_RuleID x \<in> ar_ID ` set rs \<and> al_AgentID x \<in> ag_ID ` set as) (rows (alerts d))\<rparr>,
           unclaimed_agents := filter (\<lambda>x. un_TenantID x = T) (unclaimed_agents d),
           alert_targets := filter (\<lambda>x. at_TenantID x = T) (alert_targets d)\<rparr>)"

definition other_accounts :: "string \<Rightarrow> 'p db \<Rightarrow> user_row list \<times> session_row list \<times> api_key_row list" where
  "other_accounts uid d =
     (filter (\<lambda>x. us_ID x \<noteq> uid) (users d), filter (\<lambda>x. sn_UserID x \<noteq> uid) (sessions d),
      filter (\<lambda>x. ak_UserID x \<noteq> uid) (api_keys d))"

lemma filter_skip: "(\<And>x. x \<in> set xs \<Longrightarrow> P x \<Longrightarrow> Q x) \<Longrightarrow> filter P (filter Q xs) = filter P xs"
  by (induction xs) auto

lemma filter_update_skip:
  "(\<And>x. x \<in> set xs \<Longrightarrow> Q x \<Longrightarrow> \<not> P x \<and> \<not> P (h x)) \<Longrightarrow> filter P (update_where Q h xs) = filter P xs"
  by (induction xs) (auto simp: update_where_def)

section \<open>Safe steps\<close>

definition safe :: "User \<Rightarrow> 'p db \<Rightarrow> 'p db \<Rightarrow> bool" where
  "safe u d d' \<longleftrightarrow> (db_inv d \<longrightarrow> db_inv d' \<and> (\<not> u_IsAdmin u \<longrightarrow>
     (\<forall>T. T \<noteq> u_TenantID u \<longrightarrow> data_of T d' = data_of T d) \<and> other_accounts (u_ID u) d' = other_accounts (u_ID u) d))"

locale frame =
  fixes R :: "'s \<Rightarrow> 's \<Rightarrow> bool"
  assumes refl: "R s s"
    and trans: "R s s' \<Longrightarrow> R s' s'' \<Longrightarrow> R s s''"
begin

lemma chain: "R\<^sup>*\<^sup>* s s' \<Longrightarrow> R s s'"
  by (induction rule: rtranclp_induct) (auto intro: refl trans)

end

interpretation safe: frame "safe u"
  by unfold_locales (auto simp: safe_def)

lemma safeI:
  assumes "db_inv d \<Longrightarrow> db_inv d'"
    and "\<And>T. db_inv d \<Longrightarrow> \<not> u_IsAdmin u \<Longrightarrow> T \<noteq> u_TenantID u \<Longrightarrow> data_of T d' = data_of T d"
    and "db_inv d \<Longrightarrow> \<not> u_IsAdmin u \<Longrightarrow> other_accounts (u_ID u) d' = other_accounts (u_ID u) d"
  shows "safe u d d'"
  using assms by (auto simp: safe_def)

text \<open>Steps that touch only a user's own account.\<close>

lemma safe_account:
  assumes "db_inv d \<Longrightarrow> db_ok d'" "d' = d\<lparr>users := us, sessions := ss, api_keys := ks\<rparr>"
    "\<not> u_IsAdmin u \<Longrightarrow> other_accounts (u_ID u) d' = other_accounts (u_ID u) d"
  shows "safe u d d'"
proof (rule safeI)
  assume i: "db_inv d"
  show "db_inv d'" by (rule inv_same_links [OF i assms(1) [OF i]]) (simp_all add: assms(2) link_defs)
qed (use assms(2,3) in \<open>simp_all add: data_of_def\<close>)

text \<open>Steps that touch only the tables of one tenant's data.\<close>

lemma safe_data:
  assumes "db_inv d \<Longrightarrow> db_inv d'" "users d' = users d" "sessions d' = sessions d" "api_keys d' = api_keys d"
    "\<And>T. db_inv d \<Longrightarrow> \<not> u_IsAdmin u \<Longrightarrow> T \<noteq> u_TenantID u \<Longrightarrow> data_of T d' = data_of T d"
  shows "safe u d d'"
  by (rule safeI) (use assms in \<open>simp_all add: other_accounts_def\<close>)

section \<open>The store's operations\<close>

abbreviation may :: "User \<Rightarrow> string \<Rightarrow> bool" where
  "may u T \<equiv> u_IsAdmin u \<or> u_TenantID u = T"

lemma inv_ok: "db_inv d \<Longrightarrow> db_ok d"
  by (simp add: db_inv_def)

text \<open>Accounts: a user's own session, password and keys.\<close>

lemma safe_CreateSession: "CreateSession k now (u_ID u) d = Inr d' \<Longrightarrow> safe u d d'"
  by (rule safe_account [where us = "users d" and ss = "sessions d'" and ks = "api_keys d"])
    (auto simp: CreateSession_def other_accounts_def dest: inv_ok intro: ok_CreateSession split: if_splits)

lemma safe_SetPassword:
  assumes "SetPassword bc uid p d = Inr d'" "u_IsAdmin u \<or> uid = u_ID u"
  shows "safe u d d'"
proof -
  from assms(1) obtain h where d': "d' = d\<lparr>users := update_where (\<lambda>x. us_ID x = uid) (\<lambda>x. x\<lparr>us_Hash := h\<rparr>) (users d),
      sessions := filter (\<lambda>x. sn_UserID x \<noteq> uid) (sessions d)\<rparr>"
    by (auto simp: SetPassword_def split: sum.splits if_splits)
  show ?thesis
  proof (rule safe_account [where us = "users d'" and ss = "sessions d'" and ks = "api_keys d"])
    show "db_ok d'" if "db_inv d" using ok_SetPassword [OF inv_ok [OF that] assms(1)] .
    show "other_accounts (u_ID u) d' = other_accounts (u_ID u) d" if "\<not> u_IsAdmin u"
      using assms(2) that by (simp add: d' other_accounts_def filter_update_skip filter_skip del: filter_filter)
  qed (simp add: d')
qed

lemma safe_CreateAPIKey: "CreateAPIKey h i raw now (u_ID u) n d = Inr (sec, d') \<Longrightarrow> safe u d d'"
  by (rule safe_account [where us = "users d" and ss = "sessions d" and ks = "api_keys d'"])
    (auto simp: CreateAPIKey_def other_accounts_def Let_def dest: inv_ok intro: ok_CreateAPIKey split: if_splits)

lemma safe_DeleteAPIKey:
  assumes "DeleteAPIKey k (u_ID u) d = Inr d'"
  shows "safe u d d'"
proof -
  from assms have d': "d' = d\<lparr>api_keys := filter (\<lambda>x. \<not> (ak_ID x = k \<and> ak_UserID x = u_ID u)) (api_keys d)\<rparr>"
    by (auto simp: DeleteAPIKey_def Let_def split: if_splits)
  show ?thesis
  proof (rule safe_account [where us = "users d" and ss = "sessions d" and ks = "api_keys d'"])
    show "db_ok d'" if "db_inv d" using ok_DeleteAPIKey [OF inv_ok [OF that] assms] .
    show "other_accounts (u_ID u) d' = other_accounts (u_ID u) d"
      by (simp add: d' other_accounts_def filter_skip del: filter_filter)
  qed (simp add: d')
qed

lemma safe_APIKeyUser:
  assumes "APIKeyUser h now sec d = (Inr u, d')"
  shows "safe u d d'"
proof -
  from assms obtain k x where "us_ID x = ak_UserID k" and u: "u = scan_user x"
    and k: "k \<in> set (api_keys d)"
    and d': "d' = d\<lparr>api_keys := update_where (\<lambda>x. ak_ID x = ak_ID k) (\<lambda>x. x\<lparr>ak_LastUsedAt := Some now\<rparr>) (api_keys d)\<rparr>"
    by (auto simp: APIKeyUser_def dest!: find_SomeD split: option.splits)
  then have uid: "u_ID u = ak_UserID k" by (auto simp: scan_user_def)
  have same: "ak_UserID y = ak_UserID k" if "db_inv d" "y \<in> set (api_keys d)" "ak_ID y = ak_ID k" for y
    using that k by (auto simp: db_inv_def db_ok_def ok_api_keys_def uniq_def distinct_map inj_on_def)
  show ?thesis
  proof (rule safeI)
    assume i: "db_inv d"
    have "db_ok d'" using ok_APIKeyUser [OF inv_ok [OF i], of h now sec] assms by simp
    then show "db_inv d'" by (rule inv_same_links [OF i]) (simp_all add: d' link_defs)
    show "other_accounts (u_ID u) d' = other_accounts (u_ID u) d"
      using same [OF i] by (auto simp: d' other_accounts_def uid intro!: filter_update_skip)
  qed (simp add: d' data_of_def)
qed

text \<open>Administration of accounts and tenants: the invariant is all there is to keep.\<close>

lemma safe_admin:
  assumes "u_IsAdmin u" "db_inv d \<Longrightarrow> db_inv d'"
  shows "safe u d d'"
  using assms by (simp add: safe_def)

lemma inv_DeleteAPIKeysForUser: "db_inv d \<Longrightarrow> db_inv (snd (DeleteAPIKeysForUser i d))"
  by (rule inv_same_links [OF _ ok_DeleteAPIKeysForUser]) (auto simp: db_inv_def DeleteAPIKeysForUser_def link_defs)

lemma inv_CreateTenant: "CreateTenant i n d = Inr d' \<Longrightarrow> db_inv d \<Longrightarrow> db_inv d'"
  by (rule inv_same_links [of d]) (auto simp: CreateTenant_def link_defs dest: inv_ok intro: ok_CreateTenant split: if_splits)

lemma inv_CreateUser:
  assumes "CreateUser bc i t n p a d = Inr d'" "db_inv d"
  shows "db_inv d'"
proof -
  from assms(1) obtain us where "d' = d\<lparr>users := us\<rparr>"
    unfolding CreateUser_def by (auto simp: Let_def split: sum.splits if_splits)
  then show ?thesis
    using inv_same_links [OF assms(2) ok_CreateUser [OF inv_ok [OF assms(2)] assms(1)]] by (simp add: link_defs)
qed

lemma inv_DeleteUser: "db_inv d \<Longrightarrow> db_inv (DeleteUser i d)"
  by (rule inv_same_links [OF _ ok_DeleteUser]) (auto simp: DeleteUser_def cascade_users_def link_defs db_inv_def)

lemma consistent_cascades:
  assumes "consistent d"
  shows "consistent (cascade_agents A d)" "consistent (cascade_rules A d)" "consistent (cascade_users A d)"
    "consistent (drop_tenant t d)"
  by (rule consistent_mono [OF assms]; force simp: cascade_agents_def cascade_rules_def cascade_users_def drop_tenant_def link_defs)+

lemma consistent_sites_tests:
  assumes "consistent d"
  shows "consistent (cascade_sites A d)" "consistent (cascade_tests A d)"
  by (rule consistent_mono [OF assms];
      force simp: cascade_sites_def cascade_tests_def cascade_agents_def cascade_rules_def link_defs Let_def)+

lemma inv_DeleteTenant: "db_inv d \<Longrightarrow> db_inv (DeleteTenant t d)"
  unfolding db_inv_def
  by (simp add: ok_DeleteTenant)
    (simp add: DeleteTenant_def cascade_tenant_eq clear_tenant_def Let_def consistent_cascades consistent_sites_tests)

text \<open>Sites and tests.\<close>

lemma safe_CreateSite:
  assumes "CreateSite i t n d = Inr d'" "may u t"
  shows "safe u d d'"
proof -
  let ?s = "\<lparr>si_ID = i, si_TenantID = t, si_Name = n\<rparr>"
  from assms(1) have d': "d' = d\<lparr>sites := sites d @ [?s]\<rparr>" and new: "\<not> has_key si_ID i (sites d)"
    by (auto simp: CreateSite_def split: if_splits)
  show ?thesis
  proof (rule safe_data)
    assume v: "db_inv d"
    have "(i, v) \<notin> agent_links d" for v
      using v new by (auto simp: db_inv_def db_ok_def ok_agents_def refs_def has_key_def link_defs)
    moreover have "(i, j) \<notin> set (site_tests d)" for j
      using v new by (auto simp: db_inv_def db_ok_def ok_site_tests_def refs_def has_key_def)
    moreover have "site_links d' = insert (i, t) (site_links d)" by (simp add: d' site_links_def)
    ultimately have "consistent d'"
      using v linked_site [of "site_links d" "test_links d" "agent_links d" "rule_links d" "set (site_tests d)" i t]
      by (simp add: db_inv_def consistent_def d' test_links_def agent_links_def rule_links_def)
    then show "db_inv d'" using ok_CreateSite [OF inv_ok [OF v] assms(1)] by (simp add: db_inv_def)
  qed (use assms(2) in \<open>auto simp: d' data_of_def Let_def\<close>)
qed

lemma safe_CreateTest:
  assumes "CreateTest i t0 d = Inr (t, d')" "may u (td_TenantID t0)"
  shows "safe u d d'"
proof -
  from assms(1) have t: "t = t0\<lparr>td_ID := i\<rparr>" and d': "d' = d\<lparr>tests := tests d @ [t]\<rparr>" and new: "\<not> has_key td_ID i (tests d)"
    by (auto simp: CreateTest_def Let_def split: if_splits)
  show ?thesis
  proof (rule safe_data)
    assume v: "db_inv d"
    have "(i, v) \<notin> rule_links d" for v
      using v new by (auto simp: db_inv_def db_ok_def ok_alert_rules_def refs_def has_key_def link_defs)
    moreover have "(j, i) \<notin> set (site_tests d)" for j
      using v new by (auto simp: db_inv_def db_ok_def ok_site_tests_def refs_def has_key_def)
    moreover have "test_links d' = insert (i, td_TenantID t) (test_links d)" by (simp add: d' t test_links_def)
    ultimately have "consistent d'"
      using v linked_test [of "site_links d" "test_links d" "agent_links d" "rule_links d" "set (site_tests d)" i "td_TenantID t"]
      by (simp add: db_inv_def consistent_def d' site_links_def agent_links_def rule_links_def)
    then show "db_inv d'" using ok_CreateTest [OF inv_ok [OF v] assms(1)] by (simp add: db_inv_def)
  qed (use assms(2) in \<open>auto simp: d' t data_of_def Let_def\<close>)
qed

text \<open>A row found by its id, and what the key makes of it.\<close>

lemma same_row: "uniq f xs \<Longrightarrow> x \<in> set xs \<Longrightarrow> y \<in> set xs \<Longrightarrow> f x = f y \<Longrightarrow> x = y"
  by (auto simp: uniq_def distinct_map inj_on_def)

lemma found:
  "GetSite i d = Inr s \<Longrightarrow> s \<in> set (sites d)" "GetTest i d = Inr t \<Longrightarrow> t \<in> set (tests d)"
  "GetUnclaimedAgent i d = Inr un \<Longrightarrow> un \<in> set (unclaimed_agents d)"
  "GetAlertRule i d = Inr ru \<Longrightarrow> ru \<in> set (alert_rules d)" "GetAlertTarget i d = Inr tg \<Longrightarrow> tg \<in> set (alert_targets d)"
  by (auto simp: GetSite_def GetTest_def GetUnclaimedAgent_def GetAlertRule_def GetAlertTarget_def
      dest: find_SomeD split: option.splits)

lemmas inv_uniq = db_inv_def db_ok_def ok_sites_def ok_tests_def ok_agents_def ok_alert_rules_def
  ok_unclaimed_def ok_alert_targets_def

lemma inv_same:
  assumes "db_inv d"
  shows "x \<in> set (sites d) \<Longrightarrow> y \<in> set (sites d) \<Longrightarrow> si_ID x = si_ID y \<Longrightarrow> x = y"
    "v \<in> set (tests d) \<Longrightarrow> w \<in> set (tests d) \<Longrightarrow> td_ID v = td_ID w \<Longrightarrow> v = w"
    "a \<in> set (agents d) \<Longrightarrow> b \<in> set (agents d) \<Longrightarrow> ag_ID a = ag_ID b \<Longrightarrow> a = b"
    "r \<in> set (alert_rules d) \<Longrightarrow> q \<in> set (alert_rules d) \<Longrightarrow> ar_ID r = ar_ID q \<Longrightarrow> r = q"
    "m \<in> set (unclaimed_agents d) \<Longrightarrow> n \<in> set (unclaimed_agents d) \<Longrightarrow> un_ID m = un_ID n \<Longrightarrow> m = n"
    "g \<in> set (alert_targets d) \<Longrightarrow> h \<in> set (alert_targets d) \<Longrightarrow> at_ID g = at_ID h \<Longrightarrow> g = h"
  using assms same_row by (auto simp: inv_uniq)

lemma safe_if: "(db_inv d \<Longrightarrow> safe u d d') \<Longrightarrow> safe u d d'"
  by (auto simp: safe_def)

text \<open>Deletions, in the order of the cascades.\<close>

lemma filter_disjoint:
  assumes "\<And>x. x \<in> I \<Longrightarrow> x \<notin> A"
  shows "filter (\<lambda>r. f r \<in> I) (filter (\<lambda>r. f r \<notin> A) xs) = filter (\<lambda>r. f r \<in> I) xs"
    "filter (\<lambda>r. P r \<and> f r \<in> I) (filter (\<lambda>r. f r \<notin> A) xs) = filter (\<lambda>r. P r \<and> f r \<in> I) xs"
    "filter (\<lambda>r. f r \<in> I \<and> P r) (filter (\<lambda>r. f r \<notin> A) xs) = filter (\<lambda>r. f r \<in> I \<and> P r) xs"
  using assms by (auto intro!: filter_skip simp del: filter_filter)

lemma data_of_cascade_agents:
  assumes "\<And>a. a \<in> set (agents d) \<Longrightarrow> ag_TenantID a = T \<Longrightarrow> ag_ID a \<notin> A"
  shows "data_of T (cascade_agents A d) = data_of T d"
proof -
  have a: "filter (\<lambda>a. ag_TenantID a = T) (filter (\<lambda>a. ag_ID a \<notin> A) (agents d)) = filter (\<lambda>a. ag_TenantID a = T) (agents d)"
    using assms by (intro filter_skip) auto
  have "x \<notin> A" if "x \<in> ag_ID ` set (filter (\<lambda>a. ag_TenantID a = T) (agents d))" for x
    using that assms by auto
  note disj = filter_disjoint [OF this]
  show ?thesis
    unfolding data_of_def Let_def cascade_agents_def
    by (simp add: a disj delete_rows_def del: filter_filter set_filter)
qed

lemma data_of_cascade_rules:
  assumes "\<And>r. r \<in> set (alert_rules d) \<Longrightarrow> ar_TenantID r = T \<Longrightarrow> ar_ID r \<notin> R"
  shows "data_of T (cascade_rules R d) = data_of T d"
proof -
  have a: "filter (\<lambda>r. ar_TenantID r = T) (filter (\<lambda>r. ar_ID r \<notin> R) (alert_rules d)) = filter (\<lambda>r. ar_TenantID r = T) (alert_rules d)"
    using assms by (intro filter_skip) auto
  have "x \<notin> R" if "x \<in> ar_ID ` set (filter (\<lambda>r. ar_TenantID r = T) (alert_rules d))" for x
    using that assms by auto
  note disj = filter_disjoint [OF this]
  show ?thesis
    unfolding data_of_def Let_def cascade_rules_def
    by (simp add: a disj delete_rows_def del: filter_filter set_filter)
qed

lemma safe_DeleteSite:
  assumes "s \<in> set (sites d)" "may u (si_TenantID s)"
  shows "safe u d (DeleteSite (si_ID s) d)"
proof (rule safe_data)
  show "db_inv (DeleteSite (si_ID s) d)" if "db_inv d"
    using that by (simp add: db_inv_def ok_DeleteSite) (simp add: DeleteSite_def consistent_sites_tests)
  fix T assume v: "db_inv d" and T: "\<not> u_IsAdmin u" "T \<noteq> u_TenantID u"
  let ?d = "cascade_agents (ag_ID ` {a \<in> set (agents d). ag_SiteID a \<in> {si_ID s}}) d"
  have own: "ag_TenantID a = u_TenantID u" if "a \<in> set (agents d)" "ag_SiteID a = si_ID s" for a
    using v that assms T unfolding db_inv_def consistent_def linked_def agree_def link_defs
    by (metis (mono_tags, lifting) image_eqI)
  have d: "data_of T ?d = data_of T d"
    using own T inv_same(3) [OF v] by (intro data_of_cascade_agents) auto
  have f: "filter (\<lambda>x. si_TenantID x = T) (filter (\<lambda>x. si_ID x \<noteq> si_ID s) (sites d)) = filter (\<lambda>x. si_TenantID x = T) (sites d)"
    using inv_same(1) [OF v _ assms(1)] assms(2) T by (intro filter_skip) auto
  moreover have "x \<noteq> si_ID s" if "x \<in> si_ID ` set (filter (\<lambda>x. si_TenantID x = T) (sites d))" for x
    using inv_same(1) [OF v _ assms(1)] assms(2) T that by auto
  then have p: "filter (\<lambda>p. fst p \<in> si_ID ` set (filter (\<lambda>x. si_TenantID x = T) (sites d))) (filter (\<lambda>p. fst p \<noteq> si_ID s) (site_tests d))
      = filter (\<lambda>p. fst p \<in> si_ID ` set (filter (\<lambda>x. si_TenantID x = T) (sites d))) (site_tests d)"
    by (intro filter_skip) auto
  have "sites ?d = sites d" "site_tests ?d = site_tests d" by (simp_all add: cascade_agents_def)
  then have "data_of T (DeleteSite (si_ID s) d) = data_of T ?d"
    by (simp add: DeleteSite_def cascade_sites_def Let_def data_of_def f p del: filter_filter set_filter)
  then show "data_of T (DeleteSite (si_ID s) d) = data_of T d" using d by simp
qed (simp_all add: DeleteSite_def cascade_sites_def cascade_agents_def Let_def)

lemma safe_DeleteTest:
  assumes "t \<in> set (tests d)" "may u (td_TenantID t)"
  shows "safe u d (DeleteTest (td_ID t) d)"
proof (rule safe_data)
  show "db_inv (DeleteTest (td_ID t) d)" if "db_inv d"
    using that by (simp add: db_inv_def ok_DeleteTest) (simp add: DeleteTest_def consistent_sites_tests)
  fix T assume v: "db_inv d" and T: "\<not> u_IsAdmin u" "T \<noteq> u_TenantID u"
  let ?d = "cascade_rules (ar_ID ` {r \<in> set (alert_rules d). ar_TestID r \<in> {td_ID t}}) d"
  have own: "ar_TenantID r = u_TenantID u" if "r \<in> set (alert_rules d)" "ar_TestID r = td_ID t" for r
    using v that assms T unfolding db_inv_def consistent_def linked_def agree_def link_defs
    by (metis (mono_tags, lifting) image_eqI)
  have d: "data_of T ?d = data_of T d"
    using own T inv_same(4) [OF v] by (intro data_of_cascade_rules) auto
  have f: "filter (\<lambda>x. td_TenantID x = T) (filter (\<lambda>x. td_ID x \<noteq> td_ID t) (tests d)) = filter (\<lambda>x. td_TenantID x = T) (tests d)"
    using inv_same(2) [OF v _ assms(1)] assms(2) T by (intro filter_skip) auto
  have "si_TenantID s = u_TenantID u" if "s \<in> set (sites d)" "(si_ID s, td_ID t) \<in> set (site_tests d)" for s
    using v that assms T unfolding db_inv_def consistent_def linked_def link_defs
    by (metis (mono_tags, lifting) image_eqI)
  then have p: "filter (\<lambda>p. fst p \<in> si_ID ` set (filter (\<lambda>x. si_TenantID x = T) (sites d))) (filter (\<lambda>p. snd p \<noteq> td_ID t) (site_tests d))
      = filter (\<lambda>p. fst p \<in> si_ID ` set (filter (\<lambda>x. si_TenantID x = T) (sites d))) (site_tests d)"
    using T(2) by (intro filter_skip) force
  have "sites ?d = sites d" "site_tests ?d = site_tests d" "tests ?d = tests d" by (simp_all add: cascade_rules_def)
  then have "data_of T (DeleteTest (td_ID t) d) = data_of T ?d"
    by (simp add: DeleteTest_def cascade_tests_def Let_def data_of_def f p del: filter_filter set_filter)
  then show "data_of T (DeleteTest (td_ID t) d) = data_of T d" using d by simp
qed (simp_all add: DeleteTest_def cascade_tests_def cascade_rules_def Let_def)

text \<open>The tests of a site.\<close>

lemma insert_site_tests_frame:
  "insert_site_tests si ts d = Inr d' \<Longrightarrow>
     \<exists>new. d' = d\<lparr>site_tests := site_tests d @ new\<rparr> \<and> set new \<subseteq> Pair si ` set ts"
proof (induction si ts d rule: insert_site_tests.induct)
  case (1 si d)
  then show ?case by (intro exI [of _ "[]"]) simp
next
  case (2 si t ts d)
  then obtain new where n: "d' = (d\<lparr>site_tests := site_tests d @ [(si, t)]\<rparr>)\<lparr>site_tests := site_tests d @ [(si, t)] @ new\<rparr>"
      "set new \<subseteq> Pair si ` set ts"
    by (auto split: if_splits)
  then show ?case by (intro exI [of _ "(si, t) # new"]) auto
qed

lemma linked_pairs:
  assumes "linked S X A R P" "\<And>i j t u. (i, j) \<in> Q \<Longrightarrow> (i, t) \<in> S \<Longrightarrow> (j, u) \<in> X \<Longrightarrow> t = u"
  shows "linked S X A R (P \<union> Q)"
  using assms unfolding linked_def by blast

lemma safe_SetSiteTests:
  assumes "SetSiteTests (si_ID s) ts d = Inr d'" "s \<in> set (sites d)" "may u (si_TenantID s)"
    "\<And>i t. i \<in> set ts \<Longrightarrow> t \<in> set (tests d) \<Longrightarrow> td_ID t = i \<Longrightarrow> td_TenantID t = si_TenantID s"
  shows "safe u d d'"
proof -
  from insert_site_tests_frame [OF assms(1) [unfolded SetSiteTests_def]] obtain new where
    d': "d' = d\<lparr>site_tests := filter (\<lambda>p. fst p \<noteq> si_ID s) (site_tests d) @ new\<rparr>" and n: "set new \<subseteq> Pair (si_ID s) ` set ts"
    by auto
  show ?thesis
  proof (rule safe_data)
    assume v: "db_inv d"
    have "linked (site_links d) (test_links d) (agent_links d) (rule_links d)
        (set (filter (\<lambda>p. fst p \<noteq> si_ID s) (site_tests d)) \<union> set new)"
    proof (rule linked_pairs)
      show "linked (site_links d) (test_links d) (agent_links d) (rule_links d) (set (filter (\<lambda>p. fst p \<noteq> si_ID s) (site_tests d)))"
        using v unfolding db_inv_def consistent_def by (auto elim: linked_mono)
      fix i j t x assume "(i, j) \<in> set new" "(i, t) \<in> site_links d" "(j, x) \<in> test_links d"
      with n assms(2,4) inv_same(1) [OF v] show "t = x" by (fastforce simp: site_links_def test_links_def)
    qed
    then show "db_inv d'"
      using ok_SetSiteTests [OF inv_ok [OF v] assms(1)] by (simp add: db_inv_def consistent_def d' link_defs)
    fix T assume T: "\<not> u_IsAdmin u" "T \<noteq> u_TenantID u"
    let ?I = "si_ID ` set (filter (\<lambda>x. si_TenantID x = T) (sites d))"
    have "si_ID s \<notin> ?I" using inv_same(1) [OF v _ assms(2)] assms(3) T by auto
    moreover from this n have "filter (\<lambda>p. fst p \<in> ?I) new = []" by (auto simp: filter_empty_conv)
    moreover have "filter (\<lambda>p. fst p \<in> ?I) (filter (\<lambda>p. fst p \<noteq> si_ID s) (site_tests d)) = filter (\<lambda>p. fst p \<in> ?I) (site_tests d)"
      using calculation(1) by (intro filter_skip) metis
    ultimately show "data_of T d' = data_of T d"
      by (simp add: d' data_of_def Let_def del: filter_filter set_filter)
  qed (simp_all add: d')
qed

lemma safe_UpdateTest:
  assumes "UpdateTest t d = Inr d'" "x \<in> set (tests d)" "td_ID t = td_ID x" "may u (td_TenantID x)"
  shows "safe u d d'"
proof -
  let ?h = "\<lambda>x. x\<lparr>td_Name := td_Name t, td_IntervalSeconds := td_IntervalSeconds t, td_Params := td_Params t, td_Thresholds := td_Thresholds t\<rparr>"
  from assms(1) have d': "d' = d\<lparr>tests := update_where (\<lambda>x. td_ID x = td_ID t) ?h (tests d)\<rparr>"
    by (auto simp: UpdateTest_def Let_def split: if_splits)
  show ?thesis
  proof (rule safe_data)
    assume v: "db_inv d"
    show "db_inv d'"
      by (rule inv_same_links [OF v ok_UpdateTest [OF inv_ok [OF v] assms(1)]]) (simp_all add: d' link_defs image_update_where)
    fix T assume T: "\<not> u_IsAdmin u" "T \<noteq> u_TenantID u"
    have "filter (\<lambda>x. td_TenantID x = T) (update_where (\<lambda>x. td_ID x = td_ID t) ?h (tests d)) = filter (\<lambda>x. td_TenantID x = T) (tests d)"
      using inv_same(2) [OF v _ assms(2)] assms(3,4) T by (intro filter_update_skip) auto
    then show "data_of T d' = data_of T d" by (simp add: d' data_of_def Let_def)
  qed (simp_all add: d')
qed

text \<open>Agents. A user owns an agent id when every row with that id is of a tenant the user may access.\<close>

definition owns_agent :: "User \<Rightarrow> string \<Rightarrow> 'p db \<Rightarrow> bool" where
  "owns_agent u aid d \<longleftrightarrow> (\<forall>a \<in> set (agents d). ag_ID a = aid \<longrightarrow> may u (ag_TenantID a))"

lemma GetAgent_row:
  assumes "GetAgent aid d = Inr a"
  shows "\<exists>r \<in> set (agents d). ag_ID r = ag_ID a \<and> ag_TenantID r = ag_TenantID a \<and> ag_SiteID r = ag_SiteID a \<and> ag_ID a = aid"
proof -
  from assms obtain r where "r \<in> set (agents d)" "ag_ID r = aid" "scanAgent d r = Some a"
    by (auto simp: GetAgent_def first_agent_def List.map_filter_def filter_eq_Cons_iff split: list.splits option.splits)
      (metis in_set_conv_decomp option.collapse)
  then show ?thesis by (auto simp: scanAgent_def split: option.splits)
qed

lemma owns_found:
  assumes "db_inv d" "GetAgent aid d = Inr a" "may u (ag_TenantID a)"
  shows "owns_agent u (ag_ID a) d"
  using GetAgent_row [OF assms(2)] inv_same(3) [OF assms(1)] assms(3) unfolding owns_agent_def by metis

lemma data_of_update_agents:
  assumes "owns_agent u aid d" "\<not> u_IsAdmin u" "T \<noteq> u_TenantID u" "\<And>a. ag_TenantID (h a) = ag_TenantID a"
  shows "data_of T (d\<lparr>agents := update_where (\<lambda>a. ag_ID a = aid) h (agents d)\<rparr>) = data_of T d"
proof -
  have "filter (\<lambda>a. ag_TenantID a = T) (update_where (\<lambda>a. ag_ID a = aid) h (agents d)) = filter (\<lambda>a. ag_TenantID a = T) (agents d)"
    using assms by (intro filter_update_skip) (auto simp: owns_agent_def)
  then show ?thesis by (simp add: data_of_def Let_def)
qed

lemma safe_set_agent:
  assumes "owns_agent u aid d" "\<And>a. ag_ID (h a) = ag_ID a" "\<And>a. ag_TenantID (h a) = ag_TenantID a"
    "\<And>a. ag_SiteID (h a) = ag_SiteID a" "\<And>a. ag_Name (h a) = ag_Name a" "\<And>a. ag_Token (h a) = ag_Token a"
  shows "safe u d (set_agent aid h d)"
proof (rule safe_data)
  assume v: "db_inv d"
  show "db_inv (set_agent aid h d)"
    by (rule inv_same_links [OF v ok_set_agent [OF inv_ok [OF v]]])
      (use assms in \<open>simp_all add: set_agent_def link_defs image_update_where\<close>)
qed (use assms in \<open>simp_all add: set_agent_def data_of_update_agents\<close>)

lemma owns_set_agent:
  "owns_agent u aid d \<Longrightarrow> (\<And>a. ag_ID (h a) = ag_ID a) \<Longrightarrow> (\<And>a. ag_TenantID (h a) = ag_TenantID a) \<Longrightarrow>
     owns_agent u aid (set_agent k h d)"
  by (auto simp: owns_agent_def set_agent_def update_where_def)

lemma safe_UpdateAgent:
  assumes "UpdateAgent aid n (si_ID s) d = Inr d'" "owns_agent u aid d" "s \<in> set (sites d)"
    "\<And>a. a \<in> set (agents d) \<Longrightarrow> ag_ID a = aid \<Longrightarrow> ag_TenantID a = si_TenantID s"
  shows "safe u d d'" "owns_agent u aid d'"
proof -
  let ?h = "\<lambda>a. a\<lparr>ag_Name := n, ag_SiteID := si_ID s\<rparr>"
  from assms(1) have d': "d' = d\<lparr>agents := update_where (\<lambda>a. ag_ID a = aid) ?h (agents d)\<rparr>"
    by (auto simp: UpdateAgent_def Let_def split: if_splits)
  show "owns_agent u aid d'" using owns_set_agent [OF assms(2), of ?h aid] by (simp add: d' set_agent_def)
  show "safe u d d'"
  proof (rule safe_data)
    assume v: "db_inv d"
    have l: "agent_links d' \<subseteq> insert (si_ID s, si_TenantID s) (agent_links d)"
      using assms(4) by (auto simp: d' agent_links_def update_where_def)
    have "linked (site_links d) (test_links d) (insert (si_ID s, si_TenantID s) (agent_links d)) (rule_links d) (set (site_tests d))"
      using v inv_same(1) [OF v _ assms(3)]
      by (intro linked_agent) (auto simp: db_inv_def consistent_def site_links_def)
    then have "linked (site_links d) (test_links d) (agent_links d') (rule_links d) (set (site_tests d))"
      by (rule linked_mono) (use l in simp_all)
    then have "consistent d'" by (simp add: consistent_def) (simp add: d' site_links_def test_links_def rule_links_def)
    then show "db_inv d'" using ok_UpdateAgent [OF inv_ok [OF v] assms(1)] by (simp add: db_inv_def)
  qed (use assms(2) in \<open>simp_all add: d' data_of_update_agents\<close>)
qed

lemma safe_CreateAgent:
  assumes "CreateAgent i k (si_TenantID s) (si_ID s) n d = Inr (a, d')" "s \<in> set (sites d)" "may u (si_TenantID s)"
  shows "safe u d d'" "owns_agent u i d'" "ag_ID a = i"
proof -
  from assms(1) have d': "d' = d\<lparr>agents := agents d @ [a]\<rparr>" and a: "ag_ID a = i" "ag_TenantID a = si_TenantID s" "ag_SiteID a = si_ID s"
    and new: "\<not> has_key ag_ID i (agents d)"
    by (auto simp: CreateAgent_def Let_def split: if_splits)
  show "ag_ID a = i" by (rule a)
  show "owns_agent u i d'" using new assms(3) a by (auto simp: d' owns_agent_def has_key_def intro: rev_image_eqI)
  show "safe u d d'"
  proof (rule safe_data)
    assume v: "db_inv d"
    have "linked (site_links d) (test_links d) (insert (si_ID s, si_TenantID s) (agent_links d)) (rule_links d) (set (site_tests d))"
      using v inv_same(1) [OF v _ assms(2)]
      by (intro linked_agent) (auto simp: db_inv_def consistent_def site_links_def)
    then have "consistent d'" by (simp add: consistent_def d' link_defs a)
    then show "db_inv d'" using ok_CreateAgent [OF inv_ok [OF v] assms(1)] by (simp add: db_inv_def)
  qed (use assms(3) a in \<open>auto simp: d' data_of_def Let_def\<close>)
qed

lemma safe_DeleteAgent:
  assumes "owns_agent u aid d"
  shows "safe u d (DeleteAgent aid d)"
proof (rule safe_data)
  show "db_inv (DeleteAgent aid d)" if "db_inv d"
    using that by (simp add: db_inv_def ok_DeleteAgent) (simp add: DeleteAgent_def consistent_cascades)
  show "data_of T (DeleteAgent aid d) = data_of T d" if "\<not> u_IsAdmin u" "T \<noteq> u_TenantID u" for T
    unfolding DeleteAgent_def using assms that by (intro data_of_cascade_agents) (auto simp: owns_agent_def)
qed (simp_all add: DeleteAgent_def cascade_agents_def)

lemma safe_DeleteUnclaimedAgent:
  assumes "x \<in> set (unclaimed_agents d)" "may u (un_TenantID x)"
  shows "safe u d (DeleteUnclaimedAgent (un_ID x) d)"
proof (rule safe_data)
  assume v: "db_inv d"
  show "db_inv (DeleteUnclaimedAgent (un_ID x) d)"
    by (rule inv_same_links [OF v ok_DeleteUnclaimedAgent [OF inv_ok [OF v]]]) (simp_all add: DeleteUnclaimedAgent_def link_defs)
  fix T assume T: "\<not> u_IsAdmin u" "T \<noteq> u_TenantID u"
  have "filter (\<lambda>y. un_TenantID y = T) (filter (\<lambda>y. un_ID y \<noteq> un_ID x) (unclaimed_agents d)) = filter (\<lambda>y. un_TenantID y = T) (unclaimed_agents d)"
    using inv_same(5) [OF v _ assms(1)] assms(2) T by (intro filter_skip) auto
  then show "data_of T (DeleteUnclaimedAgent (un_ID x) d) = data_of T d"
    by (simp add: DeleteUnclaimedAgent_def data_of_def Let_def del: filter_filter)
qed (simp_all add: DeleteUnclaimedAgent_def)

lemma safe_enroll:
  assumes "may u t"
  shows "safe u d (snd (SetTenantEnrollToken k t d))" "safe u d (RevokeTenantEnrollToken t d)"
proof -
  have f: "filter (\<lambda>x. tn_ID x = T) (update_where (\<lambda>x. tn_ID x = t) (\<lambda>x. x\<lparr>tn_EnrollToken := v\<rparr>) xs) = filter (\<lambda>x. tn_ID x = T) xs"
    if "\<not> u_IsAdmin u" "T \<noteq> u_TenantID u" for T v xs
    using that assms by (intro filter_update_skip) auto
  have g: "safe u d (d\<lparr>tenants := update_where (\<lambda>x. tn_ID x = t) (\<lambda>x. x\<lparr>tn_EnrollToken := w\<rparr>) (tenants d)\<rparr>)" for w
  proof (rule safe_data)
    assume v: "db_inv d"
    show "db_inv (d\<lparr>tenants := update_where (\<lambda>x. tn_ID x = t) (\<lambda>x. x\<lparr>tn_EnrollToken := w\<rparr>) (tenants d)\<rparr>)"
      by (rule inv_same_links [OF v ok_SetTenantEnrollToken [OF inv_ok [OF v], of w t, unfolded SetTenantEnrollToken_def snd_conv]])
        (simp_all add: link_defs)
  qed (simp_all add: data_of_def Let_def f)
  show "safe u d (snd (SetTenantEnrollToken k t d))" "safe u d (RevokeTenantEnrollToken t d)"
    using g by (simp_all add: SetTenantEnrollToken_def RevokeTenantEnrollToken_def)
qed

text \<open>Alert rules and targets.\<close>

lemma safe_CreateAlertRule:
  assumes "CreateAlertRule i r0 d = Inr (r, d')" "x \<in> set (tests d)" "ar_TestID r0 = td_ID x"
    "td_TenantID x = ar_TenantID r0" "may u (ar_TenantID r0)"
  shows "safe u d d'"
proof -
  from assms(1) have d': "d' = d\<lparr>alert_rules := alert_rules d @ [r\<lparr>ar_TestName := ''''\<rparr>]\<rparr>"
    and r: "ar_TenantID r = ar_TenantID r0" "ar_TestID r = ar_TestID r0"
    by (auto simp: CreateAlertRule_def norm_rule_def Let_def split: if_splits)
  show ?thesis
  proof (rule safe_data)
    assume v: "db_inv d"
    have "linked (site_links d) (test_links d) (agent_links d) (insert (td_ID x, td_TenantID x) (rule_links d)) (set (site_tests d))"
      using v inv_same(2) [OF v _ assms(2)]
      by (intro linked_rule) (auto simp: db_inv_def consistent_def test_links_def)
    then have "consistent d'" by (simp add: consistent_def d' link_defs r assms(3,4))
    then show "db_inv d'" using ok_CreateAlertRule [OF inv_ok [OF v] assms(1)] by (simp add: db_inv_def)
  qed (use assms(5) r in \<open>auto simp: d' data_of_def Let_def\<close>)
qed

lemma safe_DeleteAlertRule:
  assumes "r \<in> set (alert_rules d)" "may u (ar_TenantID r)"
  shows "safe u d (DeleteAlertRule (ar_ID r) d)"
proof (rule safe_data)
  assume v: "db_inv d"
  then show "db_inv (DeleteAlertRule (ar_ID r) d)"
    by (simp add: db_inv_def ok_DeleteAlertRule) (simp add: DeleteAlertRule_def consistent_cascades)
  show "data_of T (DeleteAlertRule (ar_ID r) d) = data_of T d" if "\<not> u_IsAdmin u" "T \<noteq> u_TenantID u" for T
    unfolding DeleteAlertRule_def using inv_same(4) [OF v _ assms(1)] assms(2) that by (intro data_of_cascade_rules) auto
qed (simp_all add: DeleteAlertRule_def cascade_rules_def)

lemma safe_UpdateAlertRule:
  assumes "x \<in> set (alert_rules d)" "may u (ar_TenantID x)" "ar_ID r = ar_ID x"
  shows "safe u d (snd (UpdateAlertRule r d))"
proof -
  define h where "h = (\<lambda>x :: AlertRule. x\<lparr>ar_Name := ar_Name (norm_rule r), ar_Metric := ar_Metric (norm_rule r),
     ar_Operator := ar_Operator (norm_rule r), ar_Threshold := ar_Threshold (norm_rule r), ar_ForCount := ar_ForCount (norm_rule r),
     ar_ClearThreshold := ar_ClearThreshold (norm_rule r), ar_ClearCount := ar_ClearCount (norm_rule r),
     ar_TargetIds := ar_TargetIds (norm_rule r), ar_WebhookURL := ar_WebhookURL (norm_rule r)\<rparr>)"
  have h: "ar_TestID (h y) = ar_TestID y" "ar_TenantID (h y) = ar_TenantID y" for y by (simp_all add: h_def)
  have d': "snd (UpdateAlertRule r d) = d\<lparr>alert_rules := update_where (\<lambda>y. ar_ID y = ar_ID x) h (alert_rules d)\<rparr>" (is "_ = ?d")
    by (simp add: UpdateAlertRule_def h_def Let_def norm_rule_def assms(3))
  show ?thesis
  proof (rule safe_data)
    assume v: "db_inv d"
    show "db_inv (snd (UpdateAlertRule r d))"
      by (rule inv_same_links [OF v ok_UpdateAlertRule [OF inv_ok [OF v]]]) (simp_all add: d' link_defs image_update_where h)
    fix T assume T: "\<not> u_IsAdmin u" "T \<noteq> u_TenantID u"
    have f: "filter (\<lambda>y. ar_TenantID y = T) (update_where (\<lambda>y. ar_ID y = ar_ID x) h (alert_rules d)) = filter (\<lambda>y. ar_TenantID y = T) (alert_rules d)"
      using inv_same(4) [OF v _ assms(1)] assms(2) T h by (intro filter_update_skip) auto
    then show "data_of T (snd (UpdateAlertRule r d)) = data_of T d" by (simp add: d' data_of_def Let_def)
  qed (simp_all add: d')
qed

lemma safe_CreateAlertTarget:
  assumes "CreateAlertTarget i t0 d = Inr (t, d')" "may u (at_TenantID t0)"
  shows "safe u d d'"
proof -
  from assms(1) have d': "d' = d\<lparr>alert_targets := alert_targets d @ [t0\<lparr>at_ID := i\<rparr>]\<rparr>"
    by (auto simp: CreateAlertTarget_def Let_def split: if_splits)
  show ?thesis
  proof (rule safe_data)
    show "db_inv d'" if "db_inv d"
      by (rule inv_same_links [OF that ok_CreateAlertTarget [OF inv_ok [OF that] assms(1)]]) (simp_all add: d' link_defs)
  qed (use assms(2) in \<open>auto simp: d' data_of_def Let_def\<close>)
qed

lemma safe_UpdateAlertTarget:
  assumes "UpdateAlertTarget t d = Inr (t', d')" "x \<in> set (alert_targets d)" "at_ID t = at_ID x" "may u (at_TenantID x)"
  shows "safe u d d'"
proof -
  define h where "h = (\<lambda>y :: AlertTarget. y\<lparr>at_Name := at_Name t, at_Type := at_Type t, at_Config := at_Config t\<rparr>)"
  from assms(1) have d': "d' = d\<lparr>alert_targets := update_where (\<lambda>y. at_ID y = at_ID t) h (alert_targets d)\<rparr>"
    by (auto simp: UpdateAlertTarget_def Let_def h_def split: if_splits)
  show ?thesis
  proof (rule safe_data)
    assume v: "db_inv d"
    show "db_inv d'"
      by (rule inv_same_links [OF v ok_UpdateAlertTarget [OF inv_ok [OF v] assms(1)]]) (simp_all add: d' link_defs)
    fix T assume T: "\<not> u_IsAdmin u" "T \<noteq> u_TenantID u"
    have "filter (\<lambda>y. at_TenantID y = T) (update_where (\<lambda>y. at_ID y = at_ID t) h (alert_targets d)) = filter (\<lambda>y. at_TenantID y = T) (alert_targets d)"
      using inv_same(6) [OF v _ assms(2)] assms(3,4) T by (intro filter_update_skip) (auto simp: h_def)
    then show "data_of T d' = data_of T d" by (simp add: d' data_of_def Let_def)
  qed (simp_all add: d')
qed

lemma safe_DeleteAlertTarget:
  assumes "x \<in> set (alert_targets d)" "may u (at_TenantID x)"
  shows "safe u d (DeleteAlertTarget (at_ID x) d)"
proof (rule safe_data)
  assume v: "db_inv d"
  show "db_inv (DeleteAlertTarget (at_ID x) d)"
    by (rule inv_same_links [OF v ok_DeleteAlertTarget [OF inv_ok [OF v]]]) (simp_all add: DeleteAlertTarget_def link_defs)
  fix T assume T: "\<not> u_IsAdmin u" "T \<noteq> u_TenantID u"
  have "filter (\<lambda>y. at_TenantID y = T) (filter (\<lambda>y. at_ID y \<noteq> at_ID x) (alert_targets d)) = filter (\<lambda>y. at_TenantID y = T) (alert_targets d)"
    using inv_same(6) [OF v _ assms(1)] assms(2) T by (intro filter_skip) auto
  then show "data_of T (DeleteAlertTarget (at_ID x) d) = data_of T d"
    by (simp add: DeleteAlertTarget_def data_of_def Let_def del: filter_filter)
qed (simp_all add: DeleteAlertTarget_def)

end
