(* ===== verification/Api_Properties.thy ===== *)
theory Api_Properties
  imports Api_Alerts Tenant_Frame
begin

text \<open>
  What the HTTP API guarantees: every request keeps the database's constraints and the references
  within each tenant, and a request of a user who is not an administrator changes nothing of another
  tenant or another account. The locale \<open>handlers\<close> holds the rules for the building blocks of a
  handler, for any reflexive and transitive relation on databases.
\<close>

section \<open>The building blocks\<close>

locale handlers = frame R for R :: "raw_message db \<Rightarrow> raw_message db \<Rightarrow> bool"
begin

lemma stop: "R (ap_db a) (ap_db (snd (r, a)))"
  by (simp add: refl)

lemma decode:
  assumes "\<And>req. R (ap_db a) (ap_db (snd (k req)))"
  shows "R (ap_db a) (ap_db (snd (decodeBody f b a k)))"
  using assms by (simp add: decodeBody_def refl split: option.split)

lemma with_db:
  assumes "\<And>d. res = Inr d \<Longrightarrow> R (ap_db a) (ap_db (snd (k d)))"
  shows "R (ap_db a) (ap_db (snd (with_db a res st k)))"
  using assms by (simp add: with_db_def refl split: sum.split)

lemma need_tenant:
  assumes "\<And>t. mayAccess user t \<Longrightarrow> R (ap_db a) (ap_db (snd (k t)))"
  shows "R (ap_db a) (ap_db (snd (need_tenant user req a k)))"
  using assms by (auto simp: need_tenant_def tenantScope_def mayAccess_def refl split: option.split)

lemma scoped:
  assumes "\<And>row. got = Inr row \<Longrightarrow> mayAccess user (f row) \<Longrightarrow> R (ap_db a) (ap_db (snd (k row)))"
  shows "R (ap_db a) (ap_db (snd (scoped f user what got a k)))"
  using assms by (simp add: scoped_def refl split: sum.split)

lemma inTenant:
  assumes "\<And>row. got = Inr row \<Longrightarrow> f row = t \<Longrightarrow> R (ap_db a) (ap_db (snd (k row)))"
  shows "R (ap_db a) (ap_db (snd (inTenant f t what rid got a k)))"
  using assms by (simp add: inTenant_def refl split: sum.split)

lemma pushing:
  assumes "R d (ap_db a)" "\<And>n s. res = Some (n, s) \<Longrightarrow> sv_db s = ap_db a"
  shows "R d (ap_db (snd (pushing res a k)))"
proof (cases res)
  case None
  then show ?thesis using assms(1) by (simp add: pushing_def)
next
  case (Some p)
  then obtain n s where "res = Some (n, s)" by (cases p) auto
  with assms(2) [OF this] assms(1) show ?thesis by (simp add: pushing_def)
qed

lemmas blocks = decode with_db need_tenant scoped inTenant

end

interpretation safe_api: handlers "safe u"
  by unfold_locales

lemma set_db_simps [simp]: "ap_db (set_db d a) = d" "ap_authThrottle (set_db d a) = ap_authThrottle a"
  by (simp_all add: set_db_def)

section \<open>Pushes leave the database alone\<close>

lemma send_db: "send c m s = Some (b, s') \<Longrightarrow> sv_db s' = sv_db s"
  by (auto simp: send_def Let_def split: if_splits)

lemma PushConfigs_db: "PushConfigs ids s = Some (n, s') \<Longrightarrow> sv_db s' = sv_db s"
proof (induction ids arbitrary: s n)
  case Nil
  then show ?case by simp
next
  case (Cons aid ids)
  show ?case
  proof (cases "Option.bind (sv_connected s aid) (sv_conns s)")
    case None
    then have "PushConfigs ids s = Some (n, s')"
      using Cons.prems by (auto simp: Option.bind_eq_None_conv split: option.splits)
    then show ?thesis by (rule Cons.IH)
  next
    case (Some conn)
    then obtain c b t m where "sv_connected s aid = Some c" "sv_conns s c = Some conn"
      and t: "send c (ServerMessage_Config (fst (ConfigForAgent (ca_agent conn) (sv_db s)))) s = Some (b, t)"
      and p: "PushConfigs ids t = Some (m, s')"
      using Cons.prems by (auto simp: Option.bind_eq_Some_conv split: option.splits)
    then show ?thesis using Cons.IH [OF p] send_db [OF t] by simp
  qed
qed

lemma set_connected_db [simp]: "sv_db (set_connected conn up s) = sv_db s"
  by (simp add: set_connected_def record_metrics_def)

lemma RefreshAgent_db:
  assumes "RefreshAgent aid s = Some (n, s')"
  shows "sv_db s' = sv_db s"
proof -
  have "s' = s \<or> (\<exists>t m. sv_db t = sv_db s \<and> PushConfigs [aid] t = Some (m, s'))"
    using assms unfolding RefreshAgent_def Let_def
    by (auto simp del: PushConfigs.simps split: option.splits sum.splits if_splits intro: exI [rotated])
  then show ?thesis using PushConfigs_db by fastforce
qed

lemma RunTest_db: "RunTest aid t s = Some (b, s') \<Longrightarrow> sv_db s' = sv_db s"
  by (auto simp: RunTest_def dest: send_db split: option.splits)

section \<open>Reads\<close>

lemma read_only:
  "snd (handleMe e u a) = a" "snd (handleListTenants u a) = a" "snd (handleListUsers u a) = a"
  "snd (handleListSites q u a) = a" "snd (handleListTests q u a) = a" "snd (handleListAgents e q u a) = a"
  "snd (handleListUnclaimedAgents q u a) = a" "snd (handleGetEnrollToken q u a) = a" "snd (handleListTestTypes u a) = a"
  "snd (handleListSaasServices u a) = a" "snd (handleListResults q u a) = a" "snd (handleOUILookup e q u a) = a"
  "snd (handleASNLookup e q u a) = a" "snd (handleWlanRoaming e q u a) = a" "snd (handleListPathChanges q u a) = a"
  "snd (handleOverview e q u a) = a" "snd (handleListLogs q u a) = a" "snd (handleListAlertRules q u a) = a"
  "snd (handleListAlertTargets q u a) = a" "snd (handleListAlerts q u a) = a" "snd (handleListAPIKeys u a) = a"
  unfolding handleMe_def handleListTenants_def handleListUsers_def handleListSites_def handleListTests_def
    handleListAgents_def handleListUnclaimedAgents_def handleGetEnrollToken_def handleListTestTypes_def
    handleListSaasServices_def handleListResults_def handleOUILookup_def handleASNLookup_def handleWlanRoaming_def
    handleListPathChanges_def handleOverview_def handleListLogs_def handleListAlertRules_def handleListAlertTargets_def
    handleListAlerts_def handleListAPIKeys_def need_tenant_def inTenant_def Let_def
  by (auto split: option.splits sum.splits)

section \<open>Writes\<close>

lemma mayI: "mayAccess u t \<Longrightarrow> may u t"
  by (simp add: mayAccess_def)

lemma safe_handleCreateSite: "safe u (ap_db a) (ap_db (snd (handleCreateSite e b u a)))"
proof -
  have "safe u (ap_db a) d" if "mayAccess u t" "CreateSite (en_id e) t n (ap_db a) = Inr d" for t n d
    by (rule safe_CreateSite [OF that(2) mayI [OF that(1)]])
  then show ?thesis
    unfolding handleCreateSite_def Let_def
    by (intro safe_api.decode) (auto intro!: safe_api.need_tenant safe_api.with_db safe.refl)
qed

lemma safe_handleDeleteSite: "safe u (ap_db a) (ap_db (snd (handleDeleteSite i u a)))"
  unfolding handleDeleteSite_def
  by (intro safe_api.scoped) (auto simp: site_Agents_def mayAccess_def intro: safe_DeleteSite found(1))

lemma all_in_tenantD: "all_in_tenant f t w look is = None \<Longrightarrow> i \<in> set is \<Longrightarrow> \<exists>r. look i = Inr r \<and> f r = t"
  by (induction f t w look "is" rule: all_in_tenant.induct) (auto simp: in_tenant_def split: if_splits sum.splits)

lemma GetTest_row: "GetTest i d = Inr t \<Longrightarrow> t \<in> set (tests d) \<and> td_ID t = i"
  by (auto simp: GetTest_def dest: find_SomeD split: option.splits)

lemma api_SetSiteTests:
  assumes "GetSite i d = Inr s" "mayAccess u (si_TenantID s)" "SetSiteTests (si_ID s) ts d = Inr d'"
    "all_in_tenant td_TenantID (si_TenantID s) w (\<lambda>i. GetTest i d) ts = None"
  shows "safe u d d'"
proof (rule safe_if, rule safe_SetSiteTests [OF assms(3) found(1) [OF assms(1)] mayI [OF assms(2)]])
  fix j t assume v: "db_inv d" and j: "j \<in> set ts" "t \<in> set (tests d)" "td_ID t = j"
  obtain x where "GetTest j d = Inr x" "td_TenantID x = si_TenantID s"
    using all_in_tenantD [OF assms(4) j(1)] by blast
  with GetTest_row [of j] inv_same(2) [OF v] j show "td_TenantID t = si_TenantID s" by metis
qed

lemma safe_handleSetSiteTests: "safe u (ap_db a) (ap_db (snd (handleSetSiteTests i b u a)))"
  unfolding handleSetSiteTests_def Let_def
  using api_SetSiteTests [of i "ap_db a" _ u]
  by (intro safe_api.scoped safe_api.decode)
    (auto simp: pushSite_def safe.refl intro!: safe_api.with_db safe_api.pushing dest!: PushConfigs_db split: option.split)

lemma ValidateTestDef_keeps: "ValidateTestDef t = Inr t' \<Longrightarrow> td_ID t' = td_ID t \<and> td_TenantID t' = td_TenantID t"
  by (auto simp: ValidateTestDef_def split: if_splits option.splits sum.splits)

lemma api_CreateTest:
  assumes "mayAccess u t" "ValidateTestDef (req\<lparr>td_TenantID := t, td_Name := n\<rparr>) = Inr req'" "CreateTest i req' d = Inr (x, d')"
  shows "safe u d d'"
  using safe_CreateTest [OF assms(3)] ValidateTestDef_keeps [OF assms(2)] mayI [OF assms(1)] by simp

lemma safe_handleCreateTest: "safe u (ap_db a) (ap_db (snd (handleCreateTest e b u a)))"
  unfolding handleCreateTest_def
  using api_CreateTest [of u]
  by (intro safe_api.decode safe_api.need_tenant) (auto simp: safe.refl split: sum.split option.split)

lemma api_UpdateTest:
  assumes "GetTest i d = Inr test" "mayAccess u (td_TenantID test)" "UpdateTest x d = Inr d'"
    "ValidateTestDef (test\<lparr>td_Name := n, td_IntervalSeconds := v, td_Params := p, td_Thresholds := h\<rparr>) = Inr x"
  shows "safe u d d'"
  using safe_UpdateTest [OF assms(3) found(2) [OF assms(1)]] ValidateTestDef_keeps [OF assms(4)] mayI [OF assms(2)] by simp

lemma safe_handleUpdateTest: "safe u (ap_db a) (ap_db (snd (handleUpdateTest i b u a)))"
  unfolding handleUpdateTest_def Let_def
  using api_UpdateTest [of i _ _ u]
  by (intro safe_api.scoped safe_api.decode)
    (auto simp: safe.refl intro!: safe_api.with_db safe_api.pushing dest!: PushConfigs_db split: sum.split option.split)

lemma safe_handleDeleteTest: "safe u (ap_db a) (ap_db (snd (handleDeleteTest i u a)))"
  unfolding handleDeleteTest_def Let_def
  by (intro safe_api.scoped safe_api.pushing) (auto simp: mayAccess_def dest!: PushConfigs_db intro: safe_DeleteTest found(2))

text \<open>Agents.\<close>

lemma api_CreateAgent:
  assumes "GetSite sid d = Inr s" "mayAccess u (si_TenantID s)" "CreateAgent i k (si_TenantID s) (si_ID s) n d = Inr (x, d')"
  shows "safe u d d'"
  by (rule safe_CreateAgent [OF assms(3) found(1) [OF assms(1)] mayI [OF assms(2)]])

lemma safe_handleCreateAgent: "safe u (ap_db a) (ap_db (snd (handleCreateAgent e b u a)))"
  unfolding handleCreateAgent_def Let_def
  using api_CreateAgent [of _ "ap_db a" _ u]
  by (intro safe_api.decode) (auto simp: safe.refl intro!: safe_api.scoped split: sum.split)

lemma safe_update_agent:
  assumes "GetAgent i d = Inr ag" "may u (ag_TenantID ag)" "GetSite sid d = Inr s" "si_TenantID s = ag_TenantID ag"
    "UpdateAgent (ag_ID ag) n (si_ID s) d = Inr d'"
  shows "safe u d (SetAgentPerfmonReflector (ag_ID ag) en port ifc cidrs (SetAgentWlanSensorInterface (ag_ID ag) w d'))"
proof (rule safe_if)
  assume v: "db_inv d"
  note own = owns_found [OF v assms(1,2)]
  have tenant: "ag_TenantID x = si_TenantID s" if "x \<in> set (agents d)" "ag_ID x = ag_ID ag" for x
    using GetAgent_row [OF assms(1)] inv_same(3) [OF v] assms(4) that by metis
  note u1 = safe_UpdateAgent [OF assms(5) own found(1) [OF assms(3)] tenant]
  let ?d = "SetAgentWlanSensorInterface (ag_ID ag) w d'"
  have "safe u d' ?d" "owns_agent u (ag_ID ag) ?d"
    unfolding SetAgentWlanSensorInterface_def using u1(2) by (auto intro!: safe_set_agent owns_set_agent)
  moreover from this(2) have "safe u ?d (SetAgentPerfmonReflector (ag_ID ag) en port ifc cidrs ?d)"
    unfolding SetAgentPerfmonReflector_def by (intro safe_set_agent) simp_all
  ultimately show "safe u d (SetAgentPerfmonReflector (ag_ID ag) en port ifc cidrs ?d)"
    using u1(1) safe.trans by blast
qed

lemma safe_handleUpdateAgent: "safe u (ap_db a) (ap_db (snd (handleUpdateAgent i b u a)))"
  unfolding handleUpdateAgent_def Let_def
  using safe_update_agent [of i "ap_db a" _ u]
  by (intro safe_api.scoped safe_api.decode)
    (auto simp: safe.refl mayAccess_def intro!: safe_api.inTenant safe_api.with_db safe_api.pushing
      dest!: RefreshAgent_db split: sum.split)

lemma safe_handleRunTest: "safe u (ap_db a) (ap_db (snd (handleRunTest i b u a)))"
  unfolding handleRunTest_def
  by (intro safe_api.scoped safe_api.decode) (auto simp: safe.refl dest!: RunTest_db split: option.split)

lemma safe_handleDeleteAgent: "safe u (ap_db a) (ap_db (snd (handleDeleteAgent i u a)))"
proof -
  have "safe u (ap_db a) (DeleteAgent (ag_ID ag) (ap_db a))"
    if "GetAgent i (ap_db a) = Inr ag" "mayAccess u (ag_TenantID ag)" for ag
    by (rule safe_if) (rule safe_DeleteAgent [OF owns_found [OF _ that(1) mayI [OF that(2)]]])
  then show ?thesis unfolding handleDeleteAgent_def by (intro safe_api.scoped) auto
qed

text \<open>Unclaimed agents and enrollment.\<close>

lemma safe_carry_over:
  assumes "carry_over un (ag, d) = (ag', d')" "owns_agent u (ag_ID ag) d"
  shows "safe u d d'"
proof -
  define d1 where "d1 = (if un_Capabilities un = RawEmpty then d else SetAgentCapabilities (ag_ID ag) (un_Capabilities un) d)"
  define d2 where "d2 = (if un_NetworkInterfaces un = RawEmpty then d1 else SetAgentNetworkInterfaces (ag_ID ag) (un_NetworkInterfaces un) d1)"
  have d': "d' = (if un_Version un = '''' then d2 else SetAgentVersion (ag_ID ag) (un_Version un) d2)"
    using assms(1) by (auto simp: carry_over_def Let_def d1_def d2_def split: if_splits)
  have 1: "safe u d d1" "owns_agent u (ag_ID ag) d1"
    using assms(2) by (auto simp: d1_def SetAgentCapabilities_def safe.refl intro!: safe_set_agent owns_set_agent)
  then have 2: "safe u d1 d2" "owns_agent u (ag_ID ag) d2"
    by (auto simp: d2_def SetAgentNetworkInterfaces_def safe.refl intro!: safe_set_agent owns_set_agent)
  then have "safe u d2 d'"
    by (auto simp: d' SetAgentVersion_def safe.refl intro!: safe_set_agent)
  then show ?thesis using 1(1) 2(1) safe.trans by blast
qed

lemma unclaimed_carry_over: "carry_over un (ag, d) = (ag', d') \<Longrightarrow> unclaimed_agents d' = unclaimed_agents d"
  by (auto simp: carry_over_def Let_def set_agent_defs set_agent_def split: if_splits)

lemma api_claim:
  assumes "GetUnclaimedAgent i d = Inr un" "mayAccess u (un_TenantID un)" "GetSite sid d = Inr s" "si_TenantID s = un_TenantID un"
    "CreateAgent j k (un_TenantID un) (si_ID s) n d = Inr (ag, d1)" "carry_over un (ag\<lparr>ag_SiteName := sn\<rparr>, d1) = (ag', d2)"
  shows "safe u d (DeleteUnclaimedAgent (un_ID un) d2)"
proof -
  have "may u (si_TenantID s)" using assms(2,4) by (simp add: mayAccess_def)
  note c = safe_CreateAgent [OF assms(5) [folded assms(4)] found(1) [OF assms(3)] this]
  have "safe u d1 d2" by (rule safe_carry_over [OF assms(6)]) (simp add: c)
  moreover have "unclaimed_agents d2 = unclaimed_agents d"
    using unclaimed_carry_over [OF assms(6)] assms(5) by (auto simp: CreateAgent_def Let_def split: if_splits)
  then have "safe u d2 (DeleteUnclaimedAgent (un_ID un) d2)"
    using found(3) [OF assms(1)] mayI [OF assms(2)] by (intro safe_DeleteUnclaimedAgent) simp_all
  ultimately show ?thesis using c(1) safe.trans by blast
qed

lemma safe_handleClaimAgent: "safe u (ap_db a) (ap_db (snd (handleClaimAgent e i b u a)))"
  unfolding handleClaimAgent_def Let_def
  using api_claim [of i "ap_db a" _ u]
  by (intro safe_api.scoped safe_api.decode)
    (auto simp: safe.refl intro!: safe_api.inTenant split: sum.split prod.split)

lemma safe_handleDismissUnclaimedAgent: "safe u (ap_db a) (ap_db (snd (handleDismissUnclaimedAgent i u a)))"
  unfolding handleDismissUnclaimedAgent_def
  by (intro safe_api.scoped) (auto simp: mayAccess_def intro: safe_DeleteUnclaimedAgent found(3))

lemma api_enroll:
  "mayAccess u t \<Longrightarrow> safe u d (snd (SetTenantEnrollToken k t d))"
  "mayAccess u t \<Longrightarrow> safe u d (RevokeTenantEnrollToken t d)"
  by (auto dest!: mayI intro: safe_enroll)

lemma safe_handleEnrollToken:
  "safe u (ap_db a) (ap_db (snd (handleGenerateEnrollToken e eb u a)))"
  "safe u (ap_db a) (ap_db (snd (handleRevokeEnrollToken q u a)))"
proof -
  have k: "safe u (ap_db a) (ap_db (snd (need_tenant u requested a (\<lambda>t. let (token, d) = SetTenantEnrollToken (en_token e) t (ap_db a)
          in (writeJSON 200 (TokenBody token), set_db d a)))))" for requested
    by (rule safe_api.need_tenant) (simp add: api_enroll case_prod_beta)
  then show "safe u (ap_db a) (ap_db (snd (handleGenerateEnrollToken e eb u a)))"
    by (auto simp: handleGenerateEnrollToken_def Let_def intro!: safe_api.decode split: option.split)
  show "safe u (ap_db a) (ap_db (snd (handleRevokeEnrollToken q u a)))"
    unfolding handleRevokeEnrollToken_def by (rule safe_api.need_tenant) (simp add: api_enroll)
qed

text \<open>Alert rules and targets.\<close>

lemma api_CreateAlertRule:
  assumes "mayAccess u t" "GetTest (ar_TestID r) d = Inr x" "td_TenantID x = t"
    "CreateAlertRule i (r\<lparr>ar_TenantID := t, ar_Name := n, ar_Operator := p, ar_ForCount := f, ar_ClearCount := c\<rparr>) d = Inr (r', d')"
  shows "safe u d d'"
  by (rule safe_CreateAlertRule [OF assms(4)]) (use assms GetTest_row [OF assms(2)] mayI [OF assms(1)] in simp_all)

lemma safe_handleCreateAlertRule: "safe u (ap_db a) (ap_db (snd (handleCreateAlertRule e b u a)))"
  unfolding handleCreateAlertRule_def Let_def
  using api_CreateAlertRule [of u _ _ "ap_db a"]
  by (intro safe_api.decode safe_api.need_tenant)
    (auto simp: safe.refl intro!: safe_api.inTenant split: sum.split option.split)

lemma safe_handleDeleteAlertRule: "safe u (ap_db a) (ap_db (snd (handleDeleteAlertRule i u a)))"
  unfolding handleDeleteAlertRule_def
  by (intro safe_api.scoped) (auto simp: mayAccess_def intro: safe_DeleteAlertRule found(4))

lemma api_UpdateAlertRule:
  assumes "GetAlertRule i d = Inr x" "mayAccess u (ar_TenantID x)" "ar_ID r = ar_ID x"
  shows "safe u d (snd (UpdateAlertRule r d))"
  by (rule safe_UpdateAlertRule [OF found(4) [OF assms(1)] mayI [OF assms(2)] assms(3)])

lemma safe_handleUpdateAlertRule: "safe u (ap_db a) (ap_db (snd (handleUpdateAlertRule i b u a)))"
  unfolding handleUpdateAlertRule_def Let_def
  using api_UpdateAlertRule [of i "ap_db a" _ u]
  by (intro safe_api.scoped safe_api.decode) (auto simp: safe.refl case_prod_beta split: sum.split option.split)

lemma api_CreateAlertTarget:
  assumes "mayAccess u t" "CreateAlertTarget i (r\<lparr>at_TenantID := t, at_Name := n\<rparr>) d = Inr (r', d')"
  shows "safe u d d'"
  by (rule safe_CreateAlertTarget [OF assms(2)]) (use mayI [OF assms(1)] in simp)

lemma safe_handleCreateAlertTarget: "safe u (ap_db a) (ap_db (snd (handleCreateAlertTarget e b u a)))"
  unfolding handleCreateAlertTarget_def Let_def
  using api_CreateAlertTarget [of u]
  by (intro safe_api.decode safe_api.need_tenant) (auto simp: safe.refl split: sum.split)

lemma api_UpdateAlertTarget:
  assumes "GetAlertTarget i d = Inr x" "mayAccess u (at_TenantID x)" "UpdateAlertTarget (x\<lparr>at_Name := n, at_Type := ty, at_Config := c\<rparr>) d = Inr (r, d')"
  shows "safe u d d'"
  by (rule safe_UpdateAlertTarget [OF assms(3) found(5) [OF assms(1)] _ mayI [OF assms(2)]]) simp

lemma safe_handleUpdateAlertTarget: "safe u (ap_db a) (ap_db (snd (handleUpdateAlertTarget i b u a)))"
  unfolding handleUpdateAlertTarget_def Let_def
  using api_UpdateAlertTarget [of i "ap_db a" _ u]
  by (intro safe_api.scoped) (auto simp: safe.refl intro!: safe_api.decode split: sum.split)

lemma safe_handleDeleteAlertTarget: "safe u (ap_db a) (ap_db (snd (handleDeleteAlertTarget i u a)))"
  unfolding handleDeleteAlertTarget_def
  by (intro safe_api.scoped) (auto simp: mayAccess_def intro: safe_DeleteAlertTarget found(5))

text \<open>Accounts and administration.\<close>

lemma check_current_db: "check_current e u r c a = Inl out \<Longrightarrow> ap_db (snd out) = ap_db a"
  "check_current e u r c a = Inr a' \<Longrightarrow> ap_db a' = ap_db a"
  by (auto simp: check_current_def logAuthFailure_def Let_def split: if_splits sum.splits prod.splits)

lemma api_SetPassword:
  assumes "SetPassword bc i p d = Inr d'" "u_IsAdmin u \<or> i = u_ID u"
  shows "safe u d d'" "CreateSession k now (u_ID u) d' = Inr d'' \<Longrightarrow> safe u d d''"
    "u_IsAdmin u \<Longrightarrow> safe u d (snd (DeleteAPIKeysForUser i d'))"
proof -
  show s: "safe u d d'" by (rule safe_SetPassword [OF assms])
  show "safe u d d''" if "CreateSession k now (u_ID u) d' = Inr d''"
    using s safe_CreateSession [OF that] safe.trans by blast
  show "safe u d (snd (DeleteAPIKeysForUser i d'))" if "u_IsAdmin u"
    using s safe_admin [OF that inv_DeleteAPIKeysForUser] safe.trans by blast
qed

lemma safe_store_password:
  assumes "u_IsAdmin u \<or> i = u_ID u"
  shows "safe u (ap_db a) (ap_db (snd (store_password e i p u a)))"
  using assms api_SetPassword [of "en_bcrypt e" i p "ap_db a" _ u]
  by (auto simp: store_password_def safe.refl case_prod_beta split: sum.split)

lemma safe_handleSetPassword: "safe u (ap_db a) (ap_db (snd (handleSetPassword e r i b u a)))"
proof -
  have f: "safe u (ap_db a) (ap_db (snd (store_password e i p u a')))"
    if "check_current e u r c a = Inr a'" "i = u_ID u" for a' p c
    using safe_store_password [of u i a'] check_current_db(2) [OF that(1)] that(2) by simp
  show ?thesis
    unfolding handleSetPassword_def Let_def
    using f safe_store_password [of u i a] check_current_db(1) [of e u r _ a]
    by (intro safe_api.decode) (auto simp: safe.refl split: sum.split)
qed

lemma safe_handleAPIKey:
  "safe u (ap_db a) (ap_db (snd (handleCreateAPIKey e b u a)))" "safe u (ap_db a) (ap_db (snd (handleDeleteAPIKey i u a)))"
proof -
  show "safe u (ap_db a) (ap_db (snd (handleCreateAPIKey e b u a)))"
    unfolding handleCreateAPIKey_def Let_def
    by (intro safe_api.decode) (auto simp: safe.refl intro: safe_CreateAPIKey split: sum.split)
  show "safe u (ap_db a) (ap_db (snd (handleDeleteAPIKey i u a)))"
    by (auto simp: handleDeleteAPIKey_def safe.refl intro: safe_DeleteAPIKey split: sum.split)
qed

lemma api_admin:
  assumes "u_IsAdmin u"
  shows "CreateTenant i n d = Inr d' \<Longrightarrow> safe u d d'" "CreateUser bc i t n p adm d = Inr d' \<Longrightarrow> safe u d d'"
  using safe_admin [OF assms] inv_CreateTenant inv_CreateUser by blast+

lemma safe_admin_handlers:
  assumes "u_IsAdmin u"
  shows "safe u (ap_db a) (ap_db (snd (handleCreateTenant e b u a)))" "safe u (ap_db a) (ap_db (snd (handleDeleteTenant i u a)))"
    "safe u (ap_db a) (ap_db (snd (handleCreateUser e b u a)))" "safe u (ap_db a) (ap_db (snd (handleDeleteUser i u a)))"
proof -
  show "safe u (ap_db a) (ap_db (snd (handleCreateTenant e b u a)))"
    unfolding handleCreateTenant_def Let_def using api_admin(1) [OF assms]
    by (intro safe_api.decode) (auto simp: safe.refl intro!: safe_api.with_db)
  show "safe u (ap_db a) (ap_db (snd (handleCreateUser e b u a)))"
    unfolding handleCreateUser_def Let_def using api_admin(2) [OF assms]
    by (intro safe_api.decode) (auto simp: safe.refl intro!: safe_api.with_db)
  show "safe u (ap_db a) (ap_db (snd (handleDeleteTenant i u a)))" "safe u (ap_db a) (ap_db (snd (handleDeleteUser i u a)))"
    by (simp_all add: handleDeleteTenant_def handleDeleteUser_def safe.refl safe_admin [OF assms] inv_DeleteTenant inv_DeleteUser)
qed

section \<open>Every route\<close>

lemma safe_admin_route:
  assumes "u_IsAdmin u \<Longrightarrow> safe u (ap_db a) (ap_db (snd (k u a)))"
  shows "safe u (ap_db a) (ap_db (snd (admin k u a)))"
  using assms by (simp add: admin_def safe.refl)

lemmas safe_handlers = safe_handleCreateSite safe_handleDeleteSite safe_handleSetSiteTests safe_handleCreateTest
  safe_handleUpdateTest safe_handleDeleteTest safe_handleCreateAgent safe_handleUpdateAgent safe_handleRunTest
  safe_handleDeleteAgent safe_handleClaimAgent safe_handleDismissUnclaimedAgent safe_handleEnrollToken
  safe_handleCreateAlertRule safe_handleDeleteAlertRule safe_handleUpdateAlertRule safe_handleCreateAlertTarget
  safe_handleUpdateAlertTarget safe_handleDeleteAlertTarget safe_handleSetPassword safe_handleAPIKey

lemma dispatch_safe: "safe u (ap_db a) (ap_db (snd (dispatch e r u a)))"
  by (cases r) (simp_all add: safe_handlers safe_admin_route safe_admin_handlers read_only safe.refl)

text \<open>The user a request runs as.\<close>

definition caller :: "env \<Rightarrow> string \<Rightarrow> string option \<Rightarrow> raw_message db \<Rightarrow> User option" where
  "caller e hdr cookie d =
     (if hdr \<noteq> '''' then
        (if has_prefix hdr bearer \<and> drop (length bearer) hdr \<noteq> ''''
         then (case fst (APIKeyUser (en_digest e) (en_now e) (drop (length bearer) hdr) d) of Inl _ \<Rightarrow> None | Inr u \<Rightarrow> Some u)
         else None)
      else case cookie of
             None \<Rightarrow> None
           | Some token \<Rightarrow> (case SessionUser (en_now e) token d of Inl _ \<Rightarrow> None | Inr u \<Rightarrow> Some u))"

lemma APIKeyUser_refused: "fst (APIKeyUser h now sec d) = Inl er \<Longrightarrow> APIKeyUser h now sec d = (Inl er, d)"
  by (auto simp: APIKeyUser_def split: option.splits)

lemma set_db_same [simp]: "set_db (ap_db a) a = a"
  by (simp add: set_db_def)

lemma auth_refused: "caller e hdr cookie (ap_db a) = None \<Longrightarrow> snd (auth e hdr cookie k a) = a \<and> rp_Status (fst (auth e hdr cookie k a)) = 401"
  by (auto simp: caller_def auth_def writeError_def writeJSON_def dest!: APIKeyUser_refused
      split: if_splits sum.splits option.splits prod.splits)

lemma auth_as:
  assumes "caller e hdr cookie (ap_db a) = Some u"
  shows "\<exists>a'. auth e hdr cookie k a = k u a' \<and> safe u (ap_db a) (ap_db a')"
proof (cases "hdr = ''''")
  case True
  then show ?thesis
    using assms by (auto simp: caller_def auth_def split: option.splits sum.splits intro: safe.refl)
next
  case False
  obtain d where "APIKeyUser (en_digest e) (en_now e) (drop (length bearer) hdr) (ap_db a) = (Inr u, d)"
    using assms False by (cases "APIKeyUser (en_digest e) (en_now e) (drop (length bearer) hdr) (ap_db a)")
      (auto simp: caller_def split: if_splits sum.splits)
  moreover from this have "safe u (ap_db a) d" by (rule safe_APIKeyUser)
  ultimately show ?thesis
    using assms False by (intro exI [of _ "set_db d a"]) (auto simp: caller_def auth_def split: if_splits)
qed

lemma serve_as:
  assumes "caller e hdr cookie (ap_db a) = Some u"
  shows "safe u (ap_db a) (ap_db (snd (serve e (Authed hdr cookie r) a)))"
proof -
  obtain a' where "auth e hdr cookie (dispatch e r) a = dispatch e r u a'" "safe u (ap_db a) (ap_db a')"
    using auth_as [OF assms] by blast
  then show ?thesis using dispatch_safe [of u a' e r] safe.trans by simp
qed

text \<open>
  C19. A request of a user who is not an administrator, whatever its route, path, query and body, leaves
  every row of every other tenant exactly as it was: its sites, tests, assignments, agents, results, path
  changes, rules, alerts, unclaimed agents, targets and its enrollment token. It also leaves the accounts,
  sessions and API keys of all other users as they were.
\<close>

theorem api_tenant_isolation:
  assumes "db_inv (ap_db a)" "caller e hdr cookie (ap_db a) = Some u" "\<not> u_IsAdmin u" "T \<noteq> u_TenantID u"
  shows "data_of T (ap_db (snd (serve e (Authed hdr cookie r) a))) = data_of T (ap_db a)
     \<and> other_accounts (u_ID u) (ap_db (snd (serve e (Authed hdr cookie r) a))) = other_accounts (u_ID u) (ap_db a)"
  using serve_as [OF assms(2), of r] assms(1,3,4) by (simp add: safe_def del: serve.simps)

text \<open>
  Whom a request may be from, said of the tables alone: with an \<open>Authorization\<close> header, a user who has an API key of
  which the header bears the secret after \<open>Bearer\<close> and a space; without one, a user who has a session with the token of
  the cookie that has not expired.
\<close>

definition request_of :: "env \<Rightarrow> string \<Rightarrow> string option \<Rightarrow> raw_message db \<Rightarrow> user_row \<Rightarrow> bool" where
  "request_of e hdr cookie d x \<longleftrightarrow> x \<in> set (users d)
     \<and> (if hdr = '''' then \<exists>token. cookie = Some token \<and> (\<exists>s \<in> set (sessions d). sn_Token s = token \<and> sn_UserID s = us_ID x \<and> en_now e < sn_ExpiresAt s)
        else \<exists>secret. secret \<noteq> '''' \<and> hdr = ''Bearer '' @ secret \<and> (\<exists>k \<in> set (api_keys d). ak_UserID k = us_ID x \<and> ak_KeyHash k = en_digest e secret))"

lemma session_of:
  assumes "db_ok d"
  shows "SessionUser now token d = Inr u \<longleftrightarrow>
    (\<exists>x \<in> set (users d). u = scan_user x \<and> (\<exists>s \<in> set (sessions d). sn_Token s = token \<and> sn_UserID s = us_ID x \<and> now < sn_ExpiresAt s))"
proof -
  have users: "find (\<lambda>u. us_ID u = us_ID x) (users d) = Some x" if "x \<in> set (users d)" for x
    using find_user(1) [OF assms that] .
  have uniq: "find (\<lambda>s'. sn_Token s' = sn_Token s \<and> now < sn_ExpiresAt s') (sessions d) = Some s" if "s \<in> set (sessions d)" "now < sn_ExpiresAt s" for s
  proof -
    have "s' = s" if "s' \<in> set (sessions d)" "sn_Token s' = sn_Token s" for s'
      using assms that \<open>s \<in> set (sessions d)\<close> by (auto simp: db_ok_def ok_sessions_def uniq_def distinct_map inj_on_def)
    then show ?thesis
      using that by (cases "find (\<lambda>s'. sn_Token s' = sn_Token s \<and> now < sn_ExpiresAt s') (sessions d)")
        (auto simp: find_None_iff dest: find_SomeD)
  qed
  show ?thesis
  proof
    assume "SessionUser now token d = Inr u"
    then show "\<exists>x \<in> set (users d). u = scan_user x \<and> (\<exists>s \<in> set (sessions d). sn_Token s = token \<and> sn_UserID s = us_ID x \<and> now < sn_ExpiresAt s)"
      by (fastforce simp: SessionUser_def split: option.splits dest: find_SomeD)
  next
    assume "\<exists>x \<in> set (users d). u = scan_user x \<and> (\<exists>s \<in> set (sessions d). sn_Token s = token \<and> sn_UserID s = us_ID x \<and> now < sn_ExpiresAt s)"
    then show "SessionUser now token d = Inr u"
      using users uniq by (auto simp: SessionUser_def split: option.split)
  qed
qed

lemma key_of:
  assumes "db_ok d"
  shows "fst (APIKeyUser h now secret d) = Inr u \<longleftrightarrow>
    (\<exists>x \<in> set (users d). u = scan_user x \<and> (\<exists>k \<in> set (api_keys d). ak_UserID k = us_ID x \<and> ak_KeyHash k = h secret))"
proof -
  have users: "find (\<lambda>u. us_ID u = us_ID x) (users d) = Some x" if "x \<in> set (users d)" for x
    using find_user(1) [OF assms that] .
  have uniq: "find (\<lambda>k'. ak_KeyHash k' = ak_KeyHash k \<and> has_key us_ID (ak_UserID k') (users d)) (api_keys d) = Some k"
    if "k \<in> set (api_keys d)" "x \<in> set (users d)" "ak_UserID k = us_ID x" for k x
  proof -
    have "k' = k" if "k' \<in> set (api_keys d)" "ak_KeyHash k' = ak_KeyHash k" for k'
      using assms that \<open>k \<in> set (api_keys d)\<close> by (auto simp: db_ok_def ok_api_keys_def uniq_def distinct_map inj_on_def)
    then show ?thesis
      using that by (cases "find (\<lambda>k'. ak_KeyHash k' = ak_KeyHash k \<and> has_key us_ID (ak_UserID k') (users d)) (api_keys d)")
        (auto simp: find_None_iff has_key_def dest: find_SomeD)
  qed
  show ?thesis
  proof
    assume "fst (APIKeyUser h now secret d) = Inr u"
    then show "\<exists>x \<in> set (users d). u = scan_user x \<and> (\<exists>k \<in> set (api_keys d). ak_UserID k = us_ID x \<and> ak_KeyHash k = h secret)"
      by (fastforce simp: APIKeyUser_def split: option.splits dest: find_SomeD)
  next
    assume "\<exists>x \<in> set (users d). u = scan_user x \<and> (\<exists>k \<in> set (api_keys d). ak_UserID k = us_ID x \<and> ak_KeyHash k = h secret)"
    then obtain x k where x: "x \<in> set (users d)" "u = scan_user x" "k \<in> set (api_keys d)" "ak_UserID k = us_ID x" "ak_KeyHash k = h secret"
      by blast
    then show "fst (APIKeyUser h now secret d) = Inr u"
      using users [OF x(1)] uniq [OF x(3,1,4)] by (simp add: APIKeyUser_def)
  qed
qed

lemma caller_request_of:
  assumes "db_ok d"
  shows "caller e hdr cookie d = Some u \<longleftrightarrow> (\<exists>x. request_of e hdr cookie d x \<and> u = scan_user x)"
proof (cases "hdr = ''''")
  case True
  show ?thesis
  proof (cases cookie)
    case None
    then show ?thesis
      using True by (simp add: caller_def request_of_def)
  next
    case (Some token)
    have "caller e hdr cookie d = Some u \<longleftrightarrow> SessionUser (en_now e) token d = Inr u"
      using True Some by (auto simp: caller_def split: sum.splits)
    then show ?thesis
      using session_of [OF assms, of "en_now e" token u] True Some by (auto simp: request_of_def)
  qed
next
  case False
  show ?thesis
  proof (cases "has_prefix hdr bearer \<and> drop (length bearer) hdr \<noteq> ''''")
    case True
    define secret where "secret = drop (length bearer) hdr"
    have hdr: "hdr = ''Bearer '' @ secret" "secret \<noteq> ''''"
      using True by (auto simp: secret_def bearer_def has_prefix_iff)
    have "caller e hdr cookie d = Some u \<longleftrightarrow> fst (APIKeyUser (en_digest e) (en_now e) secret d) = Inr u"
      using True False by (auto simp: caller_def secret_def split: sum.splits)
    then show ?thesis
      using key_of [OF assms, of "en_digest e" "en_now e" secret u] hdr by (auto simp: request_of_def)
  next
    case stranger: False
    then have "\<nexists>secret. secret \<noteq> '''' \<and> hdr = ''Bearer '' @ secret"
      by (auto simp: bearer_def has_prefix_iff)
    then show ?thesis
      using False stranger by (auto simp: caller_def request_of_def)
  qed
qed

lemma set_keys_same: "set_db ((ap_db a)\<lparr>api_keys := api_keys (ap_db a)\<rparr>) a = a"
  by (simp add: set_db_def)

text \<open>
  C21. On every route but login and logout a request that nobody's unexpired session or API key stands behind is answered
  with status 401 and changes nothing: neither the database nor the throttle nor a connected agent's queue. A request
  with a session or key is handled as its owner's, and as nobody else's.
\<close>

theorem api_refuses_strangers:
  assumes "db_ok (ap_db a)"
  shows "(if \<exists>x. request_of e hdr cookie (ap_db a) x
          then \<forall>x. request_of e hdr cookie (ap_db a) x \<longrightarrow>
            (\<exists>keys. serve e (Authed hdr cookie r) a = dispatch e r (scan_user x) (set_db ((ap_db a)\<lparr>api_keys := keys\<rparr>) a))
          else rp_Status (fst (serve e (Authed hdr cookie r) a)) = 401 \<and> snd (serve e (Authed hdr cookie r) a) = a)"
proof -
  have "rp_Status (fst (serve e (Authed hdr cookie r) a)) = 401 \<and> snd (serve e (Authed hdr cookie r) a) = a"
    if "\<nexists>x. request_of e hdr cookie (ap_db a) x"
  proof -
    have "caller e hdr cookie (ap_db a) = None"
      using that caller_request_of [OF assms, of e hdr cookie] by (cases "caller e hdr cookie (ap_db a)") auto
    then show ?thesis
      using auth_refused by simp
  qed
  moreover have "\<exists>keys. serve e (Authed hdr cookie r) a = dispatch e r (scan_user x) (set_db ((ap_db a)\<lparr>api_keys := keys\<rparr>) a)"
    if "request_of e hdr cookie (ap_db a) x" for x
  proof -
    have "caller e hdr cookie (ap_db a) = Some (scan_user x)"
      using that caller_request_of [OF assms, of e hdr cookie] by blast
    moreover have "\<exists>keys. k (scan_user x) a = k (scan_user x) (set_db ((ap_db a)\<lparr>api_keys := keys\<rparr>) a)" for k :: "User \<Rightarrow> API \<Rightarrow> response \<times> API"
      using set_keys_same [of a] by (intro exI [of _ "api_keys (ap_db a)"]) simp
    ultimately show ?thesis
      by (auto simp: caller_def auth_def APIKeyUser_def split: if_splits option.splits sum.splits)
  qed
  ultimately show ?thesis
    by simp
qed

lemma inv_handleLogin: "db_inv (ap_db a) \<Longrightarrow> db_inv (ap_db (snd (handleLogin e r b a)))"
proof -
  have k: "db_inv d'" if "CreateSession tok now (u_ID x) d = Inr d'" "db_inv d" for tok now d d' and x :: User
    using safe_CreateSession [OF that(1)] that(2) by (simp add: safe_def)
  show "db_inv (ap_db a) \<Longrightarrow> db_inv (ap_db (snd (handleLogin e r b a)))"
    using k by (auto simp: handleLogin_def decodeBody_def logAuthFailure_def Let_def split: option.split prod.split sum.split)
qed

lemma inv_DeleteSession: "db_inv d \<Longrightarrow> db_inv (DeleteSession k d)"
  by (rule inv_same_links [OF _ ok_DeleteSession]) (auto simp: DeleteSession_def link_defs db_inv_def)

lemma inv_serve: "db_inv (ap_db a) \<Longrightarrow> db_inv (ap_db (snd (serve e q a)))"
proof (cases q)
  case (Login r b)
  then show "db_inv (ap_db a) \<Longrightarrow> ?thesis" by (simp add: inv_handleLogin)
next
  case (Logout c)
  then show "db_inv (ap_db a) \<Longrightarrow> ?thesis" by (auto simp: handleLogout_def inv_DeleteSession split: option.split)
next
  case (Authed hdr cookie r)
  assume "db_inv (ap_db a)"
  then show ?thesis
    using serve_as [of e hdr cookie a _ r] auth_refused [of e hdr cookie a "dispatch e r"] Authed
    by (cases "caller e hdr cookie (ap_db a)") (auto simp: safe_def)
qed

text \<open>
  C20. No sequence of HTTP requests, of any users and in any order, breaks the database: all constraints
  of the schema hold, every agent is in a site of its own tenant, every rule watches a test of its own
  tenant, and every test assigned to a site is of the site's tenant.
\<close>

theorem api_keeps_invariant:
  assumes "db_inv (ap_db a)"
  shows "db_inv (ap_db (fold (\<lambda>(e, q) a. snd (serve e q a)) qs a))"
  using assms by (induction qs arbitrary: a) (auto simp: inv_serve)

section \<open>Examples\<close>

text \<open>A tenant with one user, logged in, one site with an agent and a webhook target; and a second tenant.\<close>

definition demo_env :: env where
  "demo_env = \<lparr>en_now = 0, en_id = ''n1'', en_token = ''tk'', en_password = ''changeme'', en_bcrypt = Inr, en_compare = (=),
     en_digest = (\<lambda>x. x), en_version = ''dev'', en_decode = (\<lambda>_. None), en_asn = ([], Map.empty), en_oui = Map.empty, en_sort = sort_key rw_DetectedAtMs\<rparr>"

definition demo_target :: AlertTarget where
  "demo_target = \<lparr>at_ID = ''g1'', at_TenantID = ''t1'', at_Name = ''hook'', at_Type = ''webhook'',
     at_Config = JObj [(''url'', JStr ''http://x'')]\<rparr>"

definition api_db :: "raw_message db" where
  "api_db = demo_db\<lparr>tenants := [demo_tenant, \<lparr>tn_ID = ''t2'', tn_Name = ''other'', tn_EnrollToken = ''o''\<rparr>],
     users := [demo_user], sessions := [\<lparr>sn_Token = ''k'', sn_UserID = ''u1'', sn_ExpiresAt = 100\<rparr>],
     alert_targets := [demo_target]\<rparr>"

definition demo_api :: API where
  "demo_api = New_API (New api_db False)"

lemma demo_api_db [simp]: "ap_db demo_api = api_db"
  by (simp add: demo_api_def New_API_def New_def)

lemma api_db_simps [simp]:
  "tenants api_db = [demo_tenant, \<lparr>tn_ID = ''t2'', tn_Name = ''other'', tn_EnrollToken = ''o''\<rparr>]"
  "users api_db = [demo_user]" "sessions api_db = [\<lparr>sn_Token = ''k'', sn_UserID = ''u1'', sn_ExpiresAt = 100\<rparr>]"
  "alert_targets api_db = [demo_target]" "sites api_db = [demo_site]" "agents api_db = [demo_agent]"
  "api_keys api_db = []"
  by (simp_all add: api_db_def)

lemma api_db_inv: "db_inv api_db"
  by (simp add: db_inv_def db_ok_def ok_defs uniq_def refs_def consistent_def linked_def agree_def link_defs
      api_db_def demo_user_def demo_target_def demo_defs)

lemma demo_caller: "caller demo_env '''' (Some ''k'') api_db = Some (scan_user demo_user)"
  by (simp add: caller_def SessionUser_def demo_env_def demo_user_def)

lemma demo_user_scan: "u_IsAdmin (scan_user demo_user) = False" "u_TenantID (scan_user demo_user) = ''t1''"
  by (simp_all add: scan_user_def demo_user_def)

theorem api_tenant_isolation_witness:
  "data_of ''t2'' (ap_db (snd (serve demo_env (Authed '''' (Some ''k'') (DeleteSiteReq ''s1'')) demo_api))) = data_of ''t2'' api_db"
proof -
  have "db_inv (ap_db demo_api)" "caller demo_env '''' (Some ''k'') (ap_db demo_api) = Some (scan_user demo_user)"
    using api_db_inv demo_caller by simp_all
  from api_tenant_isolation [OF this, of "''t2''" "DeleteSiteReq ''s1''"] show ?thesis
    by (simp add: demo_user_scan del: serve.simps)
qed

text \<open>The session of the sample expires at 100: it is good at 99 and refused at 100.\<close>

theorem api_refuses_strangers_witness:
  "rp_Status (fst (serve (demo_env\<lparr>en_now := 100\<rparr>) (Authed '''' (Some ''k'') GetMe) demo_api)) = 401
     \<and> (\<exists>keys. serve (demo_env\<lparr>en_now := 99\<rparr>) (Authed '''' (Some ''k'') GetMe) demo_api
          = dispatch (demo_env\<lparr>en_now := 99\<rparr>) GetMe (scan_user demo_user) (set_db (api_db\<lparr>api_keys := keys\<rparr>) demo_api))"
proof -
  have ok: "db_ok (ap_db demo_api)"
    using api_db_inv by (simp add: db_inv_def)
  have "\<nexists>x. request_of (demo_env\<lparr>en_now := 100\<rparr>) '''' (Some ''k'') (ap_db demo_api) x"
      "request_of (demo_env\<lparr>en_now := 99\<rparr>) '''' (Some ''k'') (ap_db demo_api) demo_user"
    by (simp_all add: request_of_def demo_user_def)
  then show ?thesis
    using api_refuses_strangers [OF ok, of "demo_env\<lparr>en_now := 100\<rparr>" "''''" "Some ''k''" GetMe]
      api_refuses_strangers [OF ok, of "demo_env\<lparr>en_now := 99\<rparr>" "''''" "Some ''k''" GetMe]
    by (auto simp del: serve.simps split: if_splits)
qed

theorem api_keeps_invariant_witness:
  "db_inv (ap_db (fold (\<lambda>(e, q) a. snd (serve e q a)) [(demo_env, Authed '''' (Some ''k'') (DeleteSiteReq ''s1''))] demo_api))"
  by (rule api_keeps_invariant) (simp add: api_db_inv)

section \<open>A site with agents can be deleted\<close>

text \<open>
  The guard of the delete-site handler against a site that still has agents never fires, because the
  lookup it uses does not fill in the number of agents: any caller who may access a site gets status 204,
  and the site's agents are gone with it.
\<close>

theorem delete_site_takes_agents:
  assumes "GetSite sid (ap_db a) = Inr s" "mayAccess u (si_TenantID s)"
  shows "rp_Status (fst (handleDeleteSite sid u a)) = 204
    \<and> agents (ap_db (snd (handleDeleteSite sid u a))) = filter (\<lambda>x. ag_ID x \<notin> ag_ID ` set (filter (\<lambda>x. ag_SiteID x = sid) (agents (ap_db a)))) (agents (ap_db a))"
proof -
  have "si_ID s = sid" using assms(1) by (auto simp: GetSite_def dest!: find_SomeD split: option.splits)
  then show ?thesis
    using assms by (simp add: handleDeleteSite_def scoped_def site_Agents_def noContent_def writeJSON_def DeleteSite_def
        cascade_sites_def cascade_agents_def Let_def)
qed

theorem delete_site_takes_agents_witness:
  "agents (ap_db (snd (handleDeleteSite ''s1'' (scan_user demo_user) demo_api))) = [] \<and> agents (ap_db demo_api) = [demo_agent]"
proof -
  have "GetSite ''s1'' (ap_db demo_api) = Inr demo_site" "mayAccess (scan_user demo_user) (si_TenantID demo_site)"
    by (simp_all add: GetSite_def mayAccess_def demo_user_scan demo_site_def)
  from delete_site_takes_agents [OF this] show ?thesis by (simp add: demo_agent_def)
qed

section \<open>Script targets\<close>

text \<open>
  Creating a script target needs an administrator, but an update is checked against the target's old
  type only: a user who is refused a script target with status 403 gets one by turning a webhook target
  into it.
\<close>

theorem script_target_by_update:
  "let script = Some (JObj [(''name'', JStr ''hook''), (''type'', JStr ''script''), (''config'', JObj [(''path'', JStr ''/bin/x'')])]);
       session = Authed '''' (Some ''k'')
   in rp_Status (fst (serve demo_env (session (PostTarget script)) demo_api)) = 403
      \<and> rp_Status (fst (serve demo_env (session (PutTarget ''g1'' script)) demo_api)) = 200
      \<and> map at_Type (alert_targets (ap_db (snd (serve demo_env (session (PutTarget ''g1'' script)) demo_api)))) = [''script'']"
proof -
  let ?j = "JObj [(''name'', JStr ''hook''), (''type'', JStr ''script''), (''config'', JObj [(''path'', JStr ''/bin/x'')])]"
  have j: "decode_target ?j = Some \<lparr>at_ID = '''', at_TenantID = '''', at_Name = ''hook'', at_Type = ''script'',
      at_Config = JObj [(''path'', JStr ''/bin/x'')]\<rparr>"
    by code_simp
  have t: "trim_space ''hook'' = ''hook''" "validateTargetConfig ''script'' (JObj [(''path'', JStr ''/bin/x'')])"
    by code_simp+
  have s: "SessionUser 0 ''k'' api_db = Inr (scan_user demo_user)"
    by (simp add: SessionUser_def demo_user_def)
  show ?thesis
    by (simp add: auth_def s demo_env_def [THEN arg_cong, of en_now] handleCreateAlertTarget_def handleUpdateAlertTarget_def
        decodeBody_def j t need_tenant_def tenantScope_def demo_user_scan scoped_def mayAccess_def GetAlertTarget_def
        UpdateAlertTarget_def update_where_def uniq_def demo_target_def validTargetTypes_def writeError_def writeJSON_def Let_def)
qed

end
