(* ===== verification/Asn_Properties.thy ===== *)
theory Asn_Properties
  imports Asn
begin

text \<open>
  What the address table guarantees: the binary search of a table of disjoint ranges finds exactly the
  range that covers an address, the generator's merge announces the same addresses with the same AS as
  the routing table it was given, and the written file loads back. A table with nested ranges, which
  the generator produces when the routing table has a more specific prefix of another AS, breaks the
  search.
\<close>

section \<open>Binary search\<close>

lemma search_loop_least:
  assumes "\<forall>h k. h \<le> k \<longrightarrow> k < n \<longrightarrow> f h \<longrightarrow> f k"
    and "\<forall>k < i. \<not> f k" "\<forall>k. j \<le> k \<longrightarrow> k < n \<longrightarrow> f k" "i \<le> j" "j \<le> n"
  shows "search_loop f i j \<le> n \<and> (\<forall>k < search_loop f i j. \<not> f k) \<and> (\<forall>k. search_loop f i j \<le> k \<longrightarrow> k < n \<longrightarrow> f k)"
  using assms
proof (induction f i j rule: search_loop.induct)
  case (1 f i j)
  show ?case
  proof (cases "i < j")
    case False
    then have "search_loop f i j = i" by (subst search_loop.simps) simp
    then show ?thesis using "1.prems" False by simp
  next
    case True
    let ?h = "(i + j) div 2"
    have h: "i \<le> ?h" "?h < j" "?h \<le> n" "?h < n" using True "1.prems"(5) by auto
    show ?thesis
    proof (cases "f ?h")
      case t: True
      have "\<forall>k. ?h \<le> k \<longrightarrow> k < n \<longrightarrow> f k" using "1.prems"(1) t by blast
      then have "search_loop f i ?h \<le> n \<and> (\<forall>k < search_loop f i ?h. \<not> f k)
          \<and> (\<forall>k. search_loop f i ?h \<le> k \<longrightarrow> k < n \<longrightarrow> f k)"
        using t by (intro "1.IH"(2) [OF True refl _ "1.prems"(1,2) _ h(1,3)]) blast+
      moreover have "search_loop f i j = search_loop f i ?h"
        using True t by (subst search_loop.simps) (simp add: Let_def)
      ultimately show ?thesis by metis
    next
      case fl: False
      have "\<forall>k < ?h + 1. \<not> f k"
        using "1.prems"(1) fl h(4) by (metis Suc_eq_plus1 less_Suc_eq_le)
      then have "search_loop f (?h + 1) j \<le> n \<and> (\<forall>k < search_loop f (?h + 1) j. \<not> f k)
          \<and> (\<forall>k. search_loop f (?h + 1) j \<le> k \<longrightarrow> k < n \<longrightarrow> f k)"
        using fl h(2) by (intro "1.IH"(1) [OF True refl _ "1.prems"(1) _ "1.prems"(3) _ "1.prems"(5)]) auto
      moreover have "search_loop f i j = search_loop f (?h + 1) j"
        using True fl by (subst search_loop.simps) (simp add: Let_def)
      ultimately show ?thesis by metis
    qed
  qed
qed

lemma Search_least:
  assumes "\<forall>h k. h \<le> k \<longrightarrow> k < n \<longrightarrow> f h \<longrightarrow> f k"
  shows "Search n f \<le> n \<and> (\<forall>k < Search n f. \<not> f k) \<and> (\<forall>k. Search n f \<le> k \<longrightarrow> k < n \<longrightarrow> f k)"
  unfolding Search_def using assms by (intro search_loop_least) auto

section \<open>Lookup in a table of disjoint ranges\<close>

definition disjoint_ranges :: "ipRange list \<Rightarrow> bool" where
  "disjoint_ranges rs \<longleftrightarrow>
     sorted_wrt (\<lambda>r q. rg_end r < rg_start q) rs \<and> list_all (\<lambda>r. rg_start r \<le> rg_end r) rs"

lemma disjoint_nth:
  assumes "disjoint_ranges rs" "h < k" "k < length rs"
  shows "rg_end (rs ! h) < rg_start (rs ! k)" "rg_start (rs ! k) \<le> rg_end (rs ! k)"
  using assms by (auto simp: disjoint_ranges_def sorted_wrt_iff_nth_less list_all_length)

lemma range_of_find:
  assumes "disjoint_ranges rs"
  shows "range_of rs addr = find (covers addr) rs"
proof -
  let ?f = "\<lambda>i. rg_end (rs ! i) \<ge> addr"
  let ?i = "Search (length rs) ?f"
  have "?f k" if "h \<le> k" "k < length rs" "?f h" for h k
    using disjoint_nth [OF assms, of h k] that by (cases "h = k") auto
  then have S: "\<forall>k < ?i. \<not> ?f k" "\<forall>k. ?i \<le> k \<longrightarrow> k < length rs \<longrightarrow> ?f k"
    using Search_least [of "length rs" ?f] by blast+
  have before: "\<not> covers addr (rs ! k)" if "k < ?i" for k
    using S(1) that by (simp add: covers_def)
  show ?thesis
  proof (cases "?i < length rs")
    case False
    then have "find (covers addr) rs = None"
      using before by (auto simp: find_None_iff in_set_conv_nth)
    then show ?thesis using False by (simp add: range_of_def Let_def)
  next
    case True
    show ?thesis
    proof (cases "rg_start (rs ! ?i) > addr")
      case gt: True
      have "\<not> covers addr (rs ! k)" if "k < length rs" for k
      proof (cases "k \<le> ?i")
        case True
        then show ?thesis using before [of k] gt by (cases "k = ?i") (auto simp: covers_def)
      next
        case False
        then show ?thesis using disjoint_nth(1) [OF assms, of ?i k] that S(2) True by (force simp: covers_def)
      qed
      then have "find (covers addr) rs = None" by (auto simp: find_None_iff in_set_conv_nth)
      then show ?thesis using gt by (simp add: range_of_def Let_def)
    next
      case False
      then have "covers addr (rs ! ?i)" using S(2) True by (simp add: covers_def)
      then have "find (covers addr) rs = Some (rs ! ?i)"
        unfolding find_Some_iff using True before by blast
      then show ?thesis using False True by (simp add: range_of_def Let_def)
    qed
  qed
qed

text \<open>
  In a table whose ranges are sorted and disjoint, the binary search finds exactly the range that
  covers an IPv4 address given in dotted notation: the answer is the named network of that range, the
  bare number when the AS has no name, and nothing when no range covers the address.
\<close>

theorem Lookup_exact:
  assumes "disjoint_ranges ranges" "length b = 4"
  shows "asn_Lookup (ranges, names) (dotted b) =
           map_option (\<lambda>r. case names (rg_asn r) of Some i \<Rightarrow> i
                            | None \<Rightarrow> \<lparr>as_ASN = rg_asn r, as_Owner = '''', as_Country = ''''\<rparr>)
             (find (covers (get_u32 b)) ranges)"
proof -
  have "ParseIP (dotted b) = Some (v4InV6Prefix @ b)" using assms(2) by (simp add: ParseIP_def ParseAddr_dotted)
  moreover have "To4 (v4InV6Prefix @ b) = Some b" using assms(2) by (simp add: To4_def v4InV6Prefix_def)
  ultimately show ?thesis
    by (simp add: asn_Lookup_def range_of_find [OF assms(1)] split: option.split)
qed

text \<open>A table of two ranges of different networks, and an address of the second.\<close>

definition demo_ranges :: "ipRange list" where
  "demo_ranges = [\<lparr>rg_start = 0x01000000, rg_end = 0x010000FF, rg_asn = 7\<rparr>,
     \<lparr>rg_start = 0x01000200, rg_end = 0x010002FF, rg_asn = 9\<rparr>]"

theorem Lookup_exact_witness:
  "asn_Lookup (demo_ranges, Map.empty) (dotted [1, 0, 2, 5]) = Some \<lparr>as_ASN = 9, as_Owner = '''', as_Country = ''''\<rparr>
   \<and> asn_Lookup (demo_ranges, Map.empty) (dotted [1, 0, 1, 5]) = None"
proof -
  have "disjoint_ranges demo_ranges" by code_simp
  note L = Lookup_exact [OF this, where names = Map.empty]
  have "find (covers (get_u32 [1, 0, 2, 5])) demo_ranges = Some \<lparr>rg_start = 0x01000200, rg_end = 0x010002FF, rg_asn = 9\<rparr>"
    "find (covers (get_u32 [1, 0, 1, 5])) demo_ranges = None"
    by code_simp+
  then show ?thesis using L [of "[1, 0, 2, 5]"] L [of "[1, 0, 1, 5]"] by simp
qed

section \<open>The generated table\<close>

text \<open>Which addresses a table announces for which AS.\<close>

definition announced :: "ipRange list \<Rightarrow> (u32 \<times> u32) set" where
  "announced rs = {(addr, rg_asn r) | addr r. r \<in> set rs \<and> covers addr r}"

definition announces :: "ipRange \<Rightarrow> (u32 \<times> u32) set" where
  "announces r = {(addr, rg_asn r) | addr. covers addr r}"

lemma announced_simps [simp]:
  "announced [] = {}" "announced (r # rs) = announces r \<union> announced rs"
  by (auto simp: announced_def announces_def)

lemma announced_set: "set rs = set qs \<Longrightarrow> announced rs = announced qs"
  by (simp add: announced_def)

text \<open>
  Extending a range by an overlapping or adjacent one. At the end of the address space \<open>rg_end l + 1\<close>
  wraps to zero, and only a range that starts at zero is then merged.
\<close>

lemma covers_extend:
  assumes "rg_start l \<le> rg_start r" "rg_start r \<le> rg_end r" "rg_start r \<le> rg_end l + 1"
  shows "covers a (l\<lparr>rg_end := max (rg_end l) (rg_end r)\<rparr>) \<longleftrightarrow> covers a l \<or> covers a r"
proof -
  have "rg_start r \<le> a" if "rg_end l < a"
    using inc_le [OF that] assms(3) by (rule order_trans [rotated])
  then have "rg_start r \<le> a \<or> a \<le> rg_end l" by (cases "rg_end l < a") auto
  then show ?thesis using assms by (auto simp: covers_def max_def not_le)
qed

lemma announced_merge_into:
  assumes "rg_start r \<le> rg_end r" "out \<noteq> [] \<Longrightarrow> rg_start (hd out) \<le> rg_start r"
  shows "announced (merge_into out r) = announces r \<union> announced out"
proof (cases out)
  case Nil
  then show ?thesis by simp
next
  case (Cons l ls)
  show ?thesis
  proof (cases "rg_asn l = rg_asn r \<and> rg_start r \<le> rg_end l + 1")
    case True
    let ?m = "l\<lparr>rg_end := max (rg_end l) (rg_end r)\<rparr>"
    have "merge_into out r = ?m # ls" using True Cons by (auto simp: max_def not_le)
    moreover have "announces ?m = announces l \<union> announces r"
      using True assms Cons by (auto simp: announces_def covers_extend)
    ultimately show ?thesis using Cons by (auto simp only: announced_simps)
  next
    case False
    then show ?thesis using Cons by auto
  qed
qed

lemma merge_into_hd:
  "out \<noteq> [] \<Longrightarrow> rg_start (hd out) \<le> rg_start r \<Longrightarrow> rg_start (hd (merge_into out r)) \<le> rg_start r"
  by (cases out) auto

lemma merge_into_nonempty: "merge_into out r \<noteq> []"
  by (cases out) auto

lemma announced_foldl:
  assumes "sorted (map rg_start rs)" "\<forall>r \<in> set rs. rg_start r \<le> rg_end r"
    "out \<noteq> [] \<Longrightarrow> \<forall>r \<in> set rs. rg_start (hd out) \<le> rg_start r"
  shows "announced (foldl merge_into out rs) = announced out \<union> announced rs"
  using assms
proof (induction rs arbitrary: out)
  case Nil
  then show ?case by simp
next
  case (Cons r rs)
  have "rg_start (hd (merge_into out r)) \<le> rg_start r"
    using Cons.prems(3) by (cases "out = []") (auto intro: merge_into_hd)
  then have "\<forall>q \<in> set rs. rg_start (hd (merge_into out r)) \<le> rg_start q"
    using Cons.prems(1) by auto
  then have "announced (foldl merge_into (merge_into out r) rs) = announced (merge_into out r) \<union> announced rs"
    using Cons by simp
  moreover have "announced (merge_into out r) = announces r \<union> announced out"
    using Cons.prems by (intro announced_merge_into) auto
  ultimately show ?case by (auto simp only: foldl.simps announced_simps)
qed

lemma load_write: "load_ranges (writeRanges rs) = rs"
proof (induction rs)
  case Nil
  then show ?case by (simp add: writeRanges_def load_ranges.simps [of "[]"])
next
  case (Cons r rs)
  let ?b = "writeRanges rs"
  have w: "writeRanges (r # rs) = put_u32 (rg_start r) @ put_u32 (rg_end r) @ put_u32 (rg_asn r) @ ?b"
    by (simp add: writeRanges_def write_range_def)
  have d: "drop 4 (writeRanges (r # rs)) = put_u32 (rg_end r) @ put_u32 (rg_asn r) @ ?b"
    "drop 8 (writeRanges (r # rs)) = put_u32 (rg_asn r) @ ?b" "drop 12 (writeRanges (r # rs)) = ?b"
    by (simp_all add: w drop_append)
  show ?case
    by (subst load_ranges.simps) (simp add: d Cons.IH, simp add: w get_put_u32)
qed

text \<open>
  The file the generator writes, loaded back by the lookup package, announces exactly the
  addresses of the routing table it was made from, each with the same AS: merging adjacent prefixes
  loses and adds nothing, up to the last address of the space, where the end plus one wraps.
\<close>

theorem generated_table_announces:
  assumes "sorted_table ranges (readTable ls)" "list_all (\<lambda>r. rg_start r \<le> rg_end r) (readTable ls)"
  shows "announced (fst (asn_load (Some (writeRanges (merge ranges))) names)) = announced (readTable ls)"
proof -
  have s: "sorted (map rg_start ranges)" "set ranges = set (readTable ls)"
    using assms(1) by (auto simp: sorted_table_def)
  moreover from assms(2) s(2) have "\<forall>r \<in> set ranges. rg_start r \<le> rg_end r" by (simp add: list_all_iff)
  ultimately have "announced (foldl merge_into [] ranges) = announced ranges"
    using announced_foldl [of ranges "[]"] by simp
  then have "announced (merge ranges) = announced ranges"
    using announced_set [of "merge ranges" "foldl merge_into [] ranges"] by (simp add: merge_def)
  then show ?thesis using announced_set [OF s(2)] by (simp add: asn_load_def load_write)
qed

theorem generated_table_announces_witness:
  "announced (fst (asn_load (Some (writeRanges (merge (readTable [''1.0.0.0/25 7'', ''1.0.0.128/25 7''])))) None))
     = announced (readTable [''1.0.0.0/25 7'', ''1.0.0.128/25 7''])"
proof -
  let ?t = "readTable [''1.0.0.0/25 7'', ''1.0.0.128/25 7'']"
  have t: "?t = [\<lparr>rg_start = 0x01000000, rg_end = 0x0100007F, rg_asn = 7\<rparr>,
      \<lparr>rg_start = 0x01000080, rg_end = 0x010000FF, rg_asn = 7\<rparr>]"
    by code_simp
  have "sorted_table ?t ?t" unfolding t sorted_table_def by simp
  moreover have "list_all (\<lambda>r. rg_start r \<le> rg_end r) ?t" unfolding t by simp
  ultimately show ?thesis by (rule generated_table_announces)
qed

section \<open>Nested announcements\<close>

text \<open>
  A more specific prefix of another AS is not merged into the prefix around it, so the ends of the
  generated ranges are not sorted, which the binary search assumes: with 1.0.128.0/17 announced by one
  AS and 1.0.197.0/24 by another, an address of the first that lies behind the second is not found, and
  an address of the second is reported as the first's.
\<close>

theorem nested_prefix_breaks_lookup:
  "let table = asn_load (Some (writeRanges (merge (readTable [''1.0.128.0/17 13'', ''1.0.197.0/24 17''])))) None
   in (0x0100C601, 13) \<in> announced (fst table) \<and> asn_Lookup table ''1.0.198.1'' = None
      \<and> (0x0100C501, 17) \<in> announced (fst table) \<and> map_option as_ASN (asn_Lookup table ''1.0.197.1'') \<noteq> Some 17"
proof -
  let ?rs = "[\<lparr>rg_start = 0x01008000, rg_end = 0x0100FFFF, rg_asn = 13\<rparr>,
      \<lparr>rg_start = 0x0100C500, rg_end = 0x0100C5FF, rg_asn = 17\<rparr>]"
  have "merge (readTable [''1.0.128.0/17 13'', ''1.0.197.0/24 17'']) = ?rs" by code_simp
  then have t: "asn_load (Some (writeRanges (merge (readTable [''1.0.128.0/17 13'', ''1.0.197.0/24 17''])))) None
      = (?rs, Map.empty)"
    by (simp add: asn_load_def load_write)
  have p: "ParseIP ''1.0.198.1'' = Some (v4InV6Prefix @ [1, 0, 198, 1])"
    "ParseIP ''1.0.197.1'' = Some (v4InV6Prefix @ [1, 0, 197, 1])"
    "To4 (v4InV6Prefix @ [1, 0, 198, 1]) = Some [1, 0, 198, 1]"
    "To4 (v4InV6Prefix @ [1, 0, 197, 1]) = Some [1, 0, 197, 1]"
    "range_of ?rs (get_u32 [1, 0, 198, 1]) = None"
    "range_of ?rs (get_u32 [1, 0, 197, 1]) = Some \<lparr>rg_start = 0x01008000, rg_end = 0x0100FFFF, rg_asn = 13\<rparr>"
    by code_simp+
  then have "asn_Lookup (?rs, Map.empty) ''1.0.198.1'' = None"
    "map_option as_ASN (asn_Lookup (?rs, Map.empty) ''1.0.197.1'') \<noteq> Some 17"
    by (simp_all add: asn_Lookup_def del: get_u32.simps)
  moreover have "(0x0100C601, 13) \<in> announced ?rs" "(0x0100C501, 17) \<in> announced ?rs"
    by (simp_all add: announces_def covers_def)
  ultimately show ?thesis unfolding t by simp
qed

end
