(* ===== verification/Asn_Generate.thy ===== *)
theory Asn_Generate
  imports Asn_Properties
begin

text \<open>
  The table generator as a whole (\<open>main\<close> and \<open>writeNames\<close> of \<open>internal/asn/gen/main.go\<close>), and that the lookup of
  \<open>internal/asn\<close> on the files it writes says what the published files say.
\<close>

text \<open>\<open>keys\<close> is the order in which the map is walked; the numbers are sorted before they are written.\<close>

definition writeNames :: "u32 list \<Rightarrow> (u32 \<rightharpoonup> string \<times> string) \<Rightarrow> string list" where
  "writeNames keys names = map (\<lambda>a. name_line a (the (names a))) (sort keys)"

definition used_by :: "ipRange list \<Rightarrow> u32 \<Rightarrow> bool" where
  "used_by merged a = list_ex (\<lambda>r. rg_asn r = a) merged"

text \<open>
  The contents of the two files, or \<open>None\<close> when one of the inputs cannot be read. \<open>sort_slice\<close> is the result of \<open>sort.Slice\<close>.
\<close>

definition gen_main ::
  "(ipRange list \<Rightarrow> ipRange list) \<Rightarrow> ((u32 \<rightharpoonup> string \<times> string) \<Rightarrow> u32 list) \<Rightarrow> string list option \<Rightarrow> string list option
   \<Rightarrow> (bytes \<times> string list) option" where
  "gen_main sort_slice keys table autnums =
     (case table of
        None \<Rightarrow> None
      | Some ls \<Rightarrow>
          (let merged = merge (sort_slice (readTable ls))
           in case autnums of
                None \<Rightarrow> None
              | Some ns \<Rightarrow>
                  (let names = readNames (used_by merged) ns
                   in Some (writeRanges merged, writeNames (keys names) names))))"

text \<open>What the published files say of an address: the AS of the prefix that holds it, with its name and country if it has one.\<close>

definition as_info :: "(u32 \<rightharpoonup> string \<times> string) \<Rightarrow> u32 \<Rightarrow> Info" where
  "as_info names a =
     (case names a of
        Some (desc, country) \<Rightarrow> \<lparr>as_ASN = a, as_Owner = desc, as_Country = country\<rparr>
      | None \<Rightarrow> \<lparr>as_ASN = a, as_Owner = '''', as_Country = ''''\<rparr>)"

section \<open>Merging keeps ranges disjoint\<close>

definition apart :: "ipRange \<Rightarrow> ipRange \<Rightarrow> bool" where
  "apart r q \<longleftrightarrow> rg_end r < rg_start q"

text \<open>No two prefixes of a table overlap.\<close>

definition disjoint_table :: "ipRange list \<Rightarrow> bool" where
  "disjoint_table rs \<longleftrightarrow> distinct rs \<and> list_all (\<lambda>r. rg_start r \<le> rg_end r) rs
     \<and> list_all (\<lambda>r. list_all (\<lambda>q. r = q \<or> apart r q \<or> apart q r) rs) rs"

lemma disjoint_tableD:
  "disjoint_table rs \<Longrightarrow> r \<in> set rs \<Longrightarrow> q \<in> set rs \<Longrightarrow> rg_start r \<le> rg_end r \<and> (r = q \<or> apart r q \<or> apart q r)"
  unfolding disjoint_table_def list_all_iff by blast

lemma apart_ordered: "rg_start r \<le> rg_start q \<Longrightarrow> rg_start q \<le> rg_end q \<Longrightarrow> apart r q \<or> apart q r \<Longrightarrow> rg_end r < rg_start q"
  unfolding apart_def by (meson leD order_trans)

lemma apart_eq: "apart = (\<lambda>r q. rg_end r < rg_start q)"
  by (simp add: fun_eq_iff apart_def)

lemma disjoint_sorted:
  assumes "disjoint_table rs" "sorted (map rg_start qs)" "distinct qs" "set qs = set rs"
  shows "disjoint_ranges qs"
proof -
  have "rg_end (qs ! h) < rg_start (qs ! k)" if "h < k" "k < length qs" for h k
  proof -
    have "rg_start (qs ! h) \<le> rg_start (qs ! k)"
      using assms(2) that by (simp add: sorted_iff_nth_mono_less)
    moreover have "qs ! h \<noteq> qs ! k"
      using assms(3) that by (simp add: nth_eq_iff_index_eq)
    moreover have "qs ! h \<in> set rs" "qs ! k \<in> set rs"
      using that by (simp_all flip: assms(4))
    moreover from this have "rg_start (qs ! k) \<le> rg_end (qs ! k)" "qs ! h = qs ! k \<or> apart (qs ! h) (qs ! k) \<or> apart (qs ! k) (qs ! h)"
      using disjoint_tableD [OF assms(1), of "qs ! k" "qs ! h"] disjoint_tableD [OF assms(1), of "qs ! h" "qs ! k"] by simp_all
    ultimately show ?thesis
      using apart_ordered [of "qs ! h" "qs ! k"] by simp
  qed
  then show ?thesis
    using assms(1,4) by (simp add: disjoint_ranges_def disjoint_table_def sorted_wrt_iff_nth_less list_all_iff)
qed

lemma merge_into_disjoint:
  "sorted_wrt apart (rev out @ r # rs) \<Longrightarrow> sorted_wrt apart (rev (merge_into out r) @ rs)"
  by (cases out) (auto simp: sorted_wrt_append apart_def)

lemma foldl_merge_disjoint: "sorted_wrt apart (rev out @ rs) \<Longrightarrow> sorted_wrt apart (rev (foldl merge_into out rs))"
  by (induction rs arbitrary: out) (simp_all add: merge_into_disjoint)

lemma foldl_merge_nonempty:
  "list_all (\<lambda>r. rg_start r \<le> rg_end r) (out @ rs) \<Longrightarrow> list_all (\<lambda>r. rg_start r \<le> rg_end r) (foldl merge_into out rs)"
proof (induction rs arbitrary: out)
  case (Cons r rs)
  have "list_all (\<lambda>r. rg_start r \<le> rg_end r) (merge_into out r @ rs)"
    using Cons.prems by (cases out) auto
  then show ?case
    using Cons.IH by simp
qed simp

lemma merge_disjoint: "disjoint_ranges rs \<Longrightarrow> disjoint_ranges (merge rs)"
  using foldl_merge_disjoint [of "[]" rs] foldl_merge_nonempty [of "[]" rs]
  by (simp add: disjoint_ranges_def merge_def apart_eq)

text \<open>In a disjoint table an address has at most one range, which determines its AS.\<close>

lemma find_announced:
  assumes "disjoint_table rs \<or> disjoint_ranges rs"
  shows "map_option rg_asn (find (covers addr) rs) = Some a \<longleftrightarrow> (addr, a) \<in> announced rs"
proof -
  have same: "r = q" if rq: "r \<in> set rs" "q \<in> set rs" "covers addr r" "covers addr q" for r q
  proof (cases "disjoint_table rs")
    case True
    then show ?thesis
      using disjoint_tableD [OF True rq(1,2)] rq(3,4) by (auto simp: apart_def covers_def)
  next
    case False
    then have d: "disjoint_ranges rs"
      using assms by blast
    obtain h k where "h < length rs" "k < length rs" "r = rs ! h" "q = rs ! k"
      using rq(1,2) by (auto simp: in_set_conv_nth)
    then show ?thesis
      using disjoint_nth(1) [OF d, of h k] disjoint_nth(1) [OF d, of k h] rq(3,4) by (cases h k rule: linorder_cases) (auto simp: covers_def)
  qed
  show ?thesis
  proof (cases "find (covers addr) rs")
    case None
    then have "\<not> covers addr r" if "r \<in> set rs" for r
      using that by (simp add: find_None_iff)
    then show ?thesis
      using None by (auto simp: announced_def)
  next
    case (Some r)
    then have "r \<in> set rs" "covers addr r"
      by (auto simp: find_Some_iff)
    then show ?thesis
      using Some same by (auto simp: announced_def)
  qed
qed

lemma used_announced: "list_all (\<lambda>r. rg_start r \<le> rg_end r) rs \<Longrightarrow> used_by rs a \<longleftrightarrow> (\<exists>addr. (addr, a) \<in> announced rs)"
  unfolding used_by_def announced_def list_all_iff list_ex_iff covers_def by blast

section \<open>Names are read as they were written\<close>

lemma ParseUint32_format: "ParseUint32 (format_nat (unat a)) = Some a"
proof -
  have "uint a < 2 ^ LENGTH(32)"
    by (rule unsigned_less)
  then show ?thesis
    using format_nat_digits [of "unat a"] format_nat_nonempty [of "unat a"] by (simp add: ParseUint32_def format_nat_value)
qed

lemma tab_no_digit: "\<not> is_digit (CHR 0x09)"
  by code_simp

lemma load_name_line:
  assumes "CHR 0x09 \<notin> set (fst n)" "CHR 0x09 \<notin> set (snd n)"
  shows "load_name (name_line a n) = Some (a, \<lparr>as_ASN = a, as_Owner = fst n, as_Country = snd n\<rparr>)"
proof -
  have "CHR 0x09 \<notin> set (format_nat (unat a))"
    using format_nat_digits [of "unat a"] tab_no_digit unfolding list_all_iff by blast
  then have "split_on (CHR 0x09) (name_line a n) = [format_nat (unat a), fst n, snd n]"
    using assms by (simp add: name_line_def split_on_append split_on_none)
  then show ?thesis
    by (simp add: load_name_def ParseUint32_format)
qed

lemma load_names_lines:
  assumes "\<And>a. a \<in> set ks \<Longrightarrow> CHR 0x09 \<notin> set (fst (f a)) \<and> CHR 0x09 \<notin> set (snd (f a))"
  shows "load_names (map (\<lambda>a. name_line a (f a)) ks) a = (if a \<in> set ks then Some \<lparr>as_ASN = a, as_Owner = fst (f a), as_Country = snd (f a)\<rparr> else None)"
  using assms
proof (induction ks rule: rev_induct)
  case (snoc k ks)
  then show ?case
    using load_name_line [of "f k" k] by (auto simp: load_names_def)
qed (simp add: load_names_def)

lemma set_trim_space: "set (trim_space s) \<subseteq> set s"
  unfolding trim_space_def by (metis set_dropWhileD set_rev subsetI)

lemma set_cut_at: "cut_at sep s = Some (u, v) \<Longrightarrow> set u \<union> set v \<subseteq> set s"
  by (induction s arbitrary: u v) (auto split: if_splits dest: in_set_dropD)

lemma set_split_country: "split_country s = (u, v) \<Longrightarrow> set u \<union> set v \<subseteq> set s"
  by (auto simp: split_country_def split: option.splits if_splits dest: in_set_takeD in_set_dropD)

lemma read_name_chars:
  assumes "read_name used line = Some (a, desc, country)"
  shows "set desc \<union> set country \<subseteq> set line"
proof -
  obtain num d0 d1 where c: "cut_at '' '' (trim_space line) = Some (num, d0)" "split_country (trim_space d0) = (d1, country)"
      and desc: "desc = trim_space (take 60 (case cut_at '' - '' d1 of Some (_, long) \<Rightarrow> long | None \<Rightarrow> d1))"
    using assms by (auto simp: read_name_def Let_def split: option.splits if_splits prod.splits)
  have "set d1 \<union> set country \<subseteq> set line"
    using set_cut_at [OF c(1)] set_split_country [OF c(2)] set_trim_space [of line] set_trim_space [of d0] by blast
  moreover have "set desc \<subseteq> set d1"
    using set_trim_space [of "take 60 (case cut_at '' - '' d1 of Some (_, long) \<Rightarrow> long | None \<Rightarrow> d1)"] set_cut_at [of "'' - ''" d1]
    by (fastforce simp: desc split: option.splits dest: in_set_takeD)
  ultimately show ?thesis
    by blast
qed

lemma readNames_chars:
  "readNames used ns a = Some (desc, country) \<Longrightarrow> list_all (\<lambda>l. c \<notin> set l) ns \<Longrightarrow> c \<notin> set desc \<and> c \<notin> set country"
proof (induction ns rule: rev_induct)
  case (snoc n ns)
  then show ?case
    using read_name_chars [of used n a desc country] by (auto simp: readNames_def split: option.splits if_splits)
qed (simp add: readNames_def)

text \<open>
  C23. Over a table of prefixes that do not overlap, the lookup in the generated files is the lookup in the published ones:
  an address is of the AS of the one prefix that holds it, with the name and the country the generator reads for that AS, and unknown when
  no prefix holds it.
\<close>

theorem generated_tables_resolve:
  assumes "\<And>t. sorted_table (sort_slice t) t \<and> length (sort_slice t) = length t"
    and "\<And>m. set (keys m) = dom m"
    and "disjoint_table (readTable ls)" "list_all (\<lambda>l. CHR 0x09 \<notin> set l) ns" "length b = 4"
    and "gen_main sort_slice keys (Some ls) (Some ns) = Some (rangeData, nameData)"
  shows "asn_Lookup (asn_load (Some rangeData) (Some nameData)) (dotted b) =
    map_option (\<lambda>r. as_info (readNames (used_by (readTable ls)) ns) (rg_asn r)) (find (covers (get_u32 b)) (readTable ls))"
proof -
  let ?t = "readTable ls" and ?q = "sort_slice (readTable ls)"
  let ?m = "merge ?q"
  have q: "sorted (map rg_start ?q)" "set ?q = set ?t" "length ?q = length ?t"
    using assms(1) by (auto simp: sorted_table_def)
  moreover have "distinct ?q"
    using q(2,3) assms(3) unfolding disjoint_table_def by (metis card_distinct distinct_card)
  ultimately have "disjoint_ranges ?q"
    using disjoint_sorted [OF assms(3)] by blast
  then have m: "disjoint_ranges ?m"
    by (rule merge_disjoint)
  have ann: "announced ?m = announced ?t"
    using generated_table_announces [of ?q ls None] assms(1,3) by (simp add: asn_load_def load_write disjoint_table_def)
  have fnd: "map_option rg_asn (find (covers addr) ?m) = map_option rg_asn (find (covers addr) ?t)" for addr
    using find_announced [of ?m addr] find_announced [of ?t addr] m assms(3) ann by (metis not_Some_eq)
  have used: "used_by ?m = used_by ?t"
    using m assms(3) ann used_announced [of ?m] used_announced [of ?t] by (simp add: disjoint_ranges_def disjoint_table_def fun_eq_iff)
  define names where "names = readNames (used_by ?t) ns"
  have "load_names nameData a = map_option (\<lambda>x. \<lparr>as_ASN = a, as_Owner = fst x, as_Country = snd x\<rparr>) (names a)" for a
  proof -
    have "nameData = map (\<lambda>a. name_line a (the (names a))) (sort (keys names))"
      using assms(6) used by (simp add: gen_main_def names_def writeNames_def Let_def)
    moreover have "CHR 0x09 \<notin> set (fst (the (names k))) \<and> CHR 0x09 \<notin> set (snd (the (names k)))" if "k \<in> set (sort (keys names))" for k
      using that assms(2) readNames_chars [OF _ assms(4)] by (fastforce simp: names_def)
    ultimately show ?thesis
      using assms(2) load_names_lines [of "sort (keys names)" "\<lambda>a. the (names a)" a] by (cases "names a") (auto simp: domIff)
  qed
  then have info: "(case load_names nameData a of Some i \<Rightarrow> i | None \<Rightarrow> \<lparr>as_ASN = a, as_Owner = '''', as_Country = ''''\<rparr>) = as_info names a" for a
    by (simp add: as_info_def split: option.split)
  have "rangeData = writeRanges ?m"
    using assms(6) by (simp add: gen_main_def Let_def)
  then have "asn_Lookup (asn_load (Some rangeData) (Some nameData)) (dotted b) = map_option (\<lambda>r. as_info names (rg_asn r)) (find (covers (get_u32 b)) ?m)"
    using Lookup_exact [OF m assms(5), of "load_names nameData"] by (simp add: asn_load_def load_write info)
  also have "\<dots> = map_option (as_info names) (map_option rg_asn (find (covers (get_u32 b)) ?m))"
    by (simp add: option.map_comp comp_def)
  also have "\<dots> = map_option (\<lambda>r. as_info names (rg_asn r)) (find (covers (get_u32 b)) ?t)"
    by (simp add: fnd option.map_comp comp_def)
  finally show ?thesis
    by (simp add: names_def)
qed

definition table_lines :: "string list" where
  "table_lines = [''1.0.0.0/25 7'', ''1.0.0.128/25 7'', ''9.0.0.0/8 3'']"

definition name_lines :: "string list" where
  "name_lines = [''7 ACME - Acme Corp, AT'', ''8 unused'']"

lemma table_lines_read: "readTable table_lines = [\<lparr>rg_start = 0x01000000, rg_end = 0x0100007F, rg_asn = 7\<rparr>,
    \<lparr>rg_start = 0x01000080, rg_end = 0x010000FF, rg_asn = 7\<rparr>, \<lparr>rg_start = 0x09000000, rg_end = 0x09FFFFFF, rg_asn = 3\<rparr>]"
  by code_simp

theorem generated_tables_resolve_witness:
  "\<exists>rangeData nameData. gen_main (sort_key rg_start) (\<lambda>m. sorted_list_of_set (dom m)) (Some table_lines) (Some name_lines) = Some (rangeData, nameData)
     \<and> asn_Lookup (asn_load (Some rangeData) (Some nameData)) (dotted [1, 0, 0, 200]) = Some \<lparr>as_ASN = 7, as_Owner = ''Acme Corp'', as_Country = ''AT''\<rparr>"
proof -
  obtain rangeData nameData where g: "gen_main (sort_key rg_start) (\<lambda>m. sorted_list_of_set (dom m)) (Some table_lines) (Some name_lines) = Some (rangeData, nameData)"
    by (simp add: gen_main_def Let_def)
  have "asn_Lookup (asn_load (Some rangeData) (Some nameData)) (dotted [1, 0, 0, 200]) =
      map_option (\<lambda>r. as_info (readNames (used_by (readTable table_lines)) name_lines) (rg_asn r)) (find (covers (get_u32 [1, 0, 0, 200])) (readTable table_lines))"
  proof (rule generated_tables_resolve [OF _ _ _ _ _ g])
    show "disjoint_table (readTable table_lines)"
      by (simp add: table_lines_read disjoint_table_def apart_def)
    show "list_all (\<lambda>l. CHR 0x09 \<notin> set l) name_lines"
      by code_simp
  qed (simp_all add: sorted_table_def)
  also have "\<dots> = Some \<lparr>as_ASN = 7, as_Owner = ''Acme Corp'', as_Country = ''AT''\<rparr>"
    by code_simp
  finally show ?thesis
    using g by blast
qed

end
