(* ===== verification/Agent_Retention.thy ===== *)
theory Agent_Retention
  imports Agent_Wlan
begin

text \<open>
  What the retained sightings of an agent are: the last sighting of every address, for ten minutes. The
  locale \<open>retention\<close> states what the merge needs of a kind of row, and is interpreted for networks and for
  stations; the roam and disconnect events of a merge are characterised from the two maps.
\<close>

section \<open>Retention of one kind of row\<close>

definition merged :: "('r \<Rightarrow> string) \<Rightarrow> (int \<Rightarrow> 'r \<Rightarrow> 'r) \<Rightarrow> int \<Rightarrow> 'r list \<Rightarrow> 'r sightings \<Rightarrow> 'r sightings" where
  "merged key stamp nowMs rs m = fold (\<lambda>r. sight key (stamp nowMs r)) rs m"

text \<open>The last row of a list with a given key.\<close>

definition last_row :: "('r \<Rightarrow> string) \<Rightarrow> string \<Rightarrow> 'r list \<Rightarrow> 'r option" where
  "last_row key k rs = (let same = filter (\<lambda>r. key r = k) rs in if same = [] then None else Some (last same))"

lemma last_row_simps [simp]:
  "last_row key k [] = None"
  "last_row key k (rs @ [r]) = (if key r = k then Some r else last_row key k rs)"
  by (auto simp: last_row_def Let_def)

lemma last_row_append: "last_row key k (rs @ ss) = (case last_row key k ss of None \<Rightarrow> last_row key k rs | Some r \<Rightarrow> Some r)"
  by (induction ss rule: rev_induct) (simp_all flip: append_assoc)

text \<open>The sightings of a history of sweeps, each with the time of its merge.\<close>

definition stamped :: "(int \<Rightarrow> 'r \<Rightarrow> 'r) \<Rightarrow> ('r list \<times> go_time) list \<Rightarrow> 'r list" where
  "stamped stamp hist = concat (map (\<lambda>(rs, now). map (stamp (UnixMilli now)) rs) hist)"

definition cutoff_of :: "go_time \<Rightarrow> int" where
  "cutoff_of now = UnixMilli (now - wlanRetention)"

definition fresh_row :: "('r \<Rightarrow> int) \<Rightarrow> int \<Rightarrow> 'r option \<Rightarrow> 'r option" where
  "fresh_row seen cutoff x = (case x of None \<Rightarrow> None | Some r \<Rightarrow> if seen r < cutoff then None else Some r)"

lemma cutoff_mono: "s \<le> t \<Longrightarrow> cutoff_of s \<le> cutoff_of t"
  by (simp add: cutoff_of_def UnixMilli_def zdiv_mono1)

lemma fresh_row_fresh_row: "c \<le> d \<Longrightarrow> fresh_row seen d (fresh_row seen c x) = fresh_row seen d x"
  by (auto simp: fresh_row_def split: option.splits)

lemma map_of_keep_fresh:
  "distinct (map fst m) \<Longrightarrow> map_of (keep_fresh seen c m) k = fresh_row seen c (map_of m k)"
  by (induction m) (auto simp: keep_fresh_def fresh_row_def map_of_eq_None_iff split: option.splits dest: map_of_SomeD)

lemma distinct_keep_fresh: "distinct (map fst m) \<Longrightarrow> distinct (map fst (keep_fresh seen c m))"
  by (simp add: keep_fresh_def distinct_map_filter)

locale retention =
  fixes key :: "'r \<Rightarrow> string" and seen :: "'r \<Rightarrow> int" and stamp :: "int \<Rightarrow> 'r \<Rightarrow> 'r"
  assumes key_stamp: "key (stamp t r) = key r"
begin

lemma map_of_merged:
  "map_of (merged key stamp now rs m) k = (case last_row key k (map (stamp now) rs) of None \<Rightarrow> map_of m k | Some r \<Rightarrow> Some r)"
  by (induction rs rule: rev_induct) (simp_all add: merged_def sight_def update_conv' key_stamp)

lemma distinct_merged: "distinct (map fst m) \<Longrightarrow> distinct (map fst (merged key stamp now rs m))"
  by (induction rs rule: rev_induct) (simp_all add: merged_def sight_def distinct_update)

text \<open>The map after a history of merges at times that do not go back.\<close>

definition after :: "('r list \<times> go_time) list \<Rightarrow> 'r sightings" where
  "after hist = fold (\<lambda>(rs, now) m. keep_fresh seen (cutoff_of now) (merged key stamp (UnixMilli now) rs m)) hist []"

lemma after_snoc:
  "after (hist @ [(rs, now)]) = keep_fresh seen (cutoff_of now) (merged key stamp (UnixMilli now) rs (after hist))"
  by (simp add: after_def)

lemma distinct_after: "distinct (map fst (after hist))"
proof (induction hist rule: rev_induct)
  case (snoc h hist)
  then show ?case
    by (cases h) (simp add: after_snoc distinct_keep_fresh distinct_merged)
qed (simp add: after_def)

lemma after_last_sighting:
  "sorted (map snd (hist @ [(rs, now)])) \<Longrightarrow>
   map_of (after (hist @ [(rs, now)])) k = fresh_row seen (cutoff_of now) (last_row key k (stamped stamp (hist @ [(rs, now)])))"
proof (induction hist arbitrary: rs now rule: rev_induct)
  case Nil
  then show ?case
    using distinct_merged [of "[]"]
    by (simp add: after_snoc [of "[]", simplified] map_of_keep_fresh map_of_merged stamped_def after_def split: option.split)
next
  case (snoc h hist)
  obtain rs0 now0 where h: "h = (rs0, now0)"
    by (cases h)
  have ord: "now0 \<le> now" "sorted (map snd (hist @ [(rs0, now0)]))"
    using snoc.prems by (auto simp: h sorted_append)
  have "map_of (after ((hist @ [h]) @ [(rs, now)])) k
      = fresh_row seen (cutoff_of now) (case last_row key k (map (stamp (UnixMilli now)) rs) of None \<Rightarrow> map_of (after (hist @ [h])) k | Some r \<Rightarrow> Some r)"
    by (simp only: after_snoc map_of_keep_fresh distinct_merged distinct_after map_of_merged)
  also have "\<dots> = fresh_row seen (cutoff_of now) (last_row key k (stamped stamp ((hist @ [h]) @ [(rs, now)])))"
    using snoc.IH [OF ord(2)] fresh_row_fresh_row [OF cutoff_mono [OF ord(1)], of seen]
    by (simp add: h stamped_def last_row_append split: option.split)
  finally show ?case .
qed

end

lemma key_stamp_network: "pn_BSSID (stamp_network t n) = pn_BSSID n"
  by (simp add: stamp_network_def)

lemma key_stamp_station: "ps_MAC (stamp_station t s) = ps_MAC s"
  by (simp add: stamp_station_def)

interpretation kept_networks: retention pn_BSSID pn_LastSeenMs stamp_network
  by unfold_locales (rule key_stamp_network)

interpretation kept_stations: retention ps_MAC ps_LastSeenMs stamp_station
  by unfold_locales (rule key_stamp_station)

section \<open>The merge of the agent\<close>

text \<open>The map of stations is that of the merged sightings, whatever events come out on the way.\<close>

lemma fst_merge_stations: "fst (fold (merge_station nets nowMs) ss acc) = merged ps_MAC stamp_station nowMs ss (fst acc)"
  by (induction ss arbitrary: acc) (simp_all add: merge_station_def merged_def Let_def)

lemma mergeWlanRetained_eq:
  "mergeWlanRetained state networks stations now =
     (let nets = merged pn_BSSID stamp_network (UnixMilli now) networks (ws_Networks state);
          stas = merged ps_MAC stamp_station (UnixMilli now) stations (ws_Stations state);
          nets' = keep_fresh pn_LastSeenMs (cutoff_of now) nets; stas' = keep_fresh ps_LastSeenMs (cutoff_of now) stas
      in (state\<lparr>ws_Networks := nets', ws_Stations := stas'\<rparr>, sort_key pn_BSSID (map snd nets'), sort_key ps_MAC (map snd stas'),
          sort_key pe_DetectedAtMs (snd (fold (merge_station nets (UnixMilli now)) stations (ws_Stations state, []))
            @ map (disconnect nets' (UnixMilli now)) (filter (\<lambda>(_, s). ps_LastSeenMs s < cutoff_of now \<and> ps_BSSID s \<noteq> '''') stas))))"
  by (simp add: mergeWlanRetained_def Let_def case_prod_beta fst_merge_stations cutoff_of_def merged_def)

text \<open>A history of passive sweeps: what each heard and when it was merged.\<close>

type_synonym sweeps = "(probe_WlanNetwork list \<times> probe_WlanStation list \<times> go_time) list"

fun merge_all :: "sweeps \<Rightarrow> wlanPassiveState \<Rightarrow> wlanPassiveState" where
  "merge_all [] state = state"
| "merge_all ((ns, ss, now) # sweeps) state = merge_all sweeps (fst (mergeWlanRetained state ns ss now))"

definition networks_heard :: "sweeps \<Rightarrow> (probe_WlanNetwork list \<times> go_time) list" where
  "networks_heard sweeps = map (\<lambda>(ns, ss, now). (ns, now)) sweeps"

definition stations_heard :: "sweeps \<Rightarrow> (probe_WlanStation list \<times> go_time) list" where
  "stations_heard sweeps = map (\<lambda>(ns, ss, now). (ss, now)) sweeps"

lemma heard_snoc:
  "stations_heard (sweeps @ [(ns, ss, now)]) = stations_heard sweeps @ [(ss, now)]"
  "networks_heard (sweeps @ [(ns, ss, now)]) = networks_heard sweeps @ [(ns, now)]"
  by (simp_all add: stations_heard_def networks_heard_def)

lemma heard_times: "map snd (stations_heard sweeps) = map (snd \<circ> snd) sweeps" "map snd (networks_heard sweeps) = map (snd \<circ> snd) sweeps"
  by (auto simp: stations_heard_def networks_heard_def)

lemma merge_all_snoc: "merge_all (sweeps @ [(ns, ss, now)]) state = fst (mergeWlanRetained (merge_all sweeps state) ns ss now)"
  by (induction sweeps state rule: merge_all.induct) simp_all

lemma merge_all_after:
  "ws_Networks (merge_all sweeps new_state) = kept_networks.after (networks_heard sweeps)
   \<and> ws_Stations (merge_all sweeps new_state) = kept_stations.after (stations_heard sweeps)"
proof (induction sweeps rule: rev_induct)
  case Nil
  then show ?case
    by (simp add: new_state_def kept_networks.after_def kept_stations.after_def networks_heard_def stations_heard_def)
next
  case (snoc sw sweeps)
  obtain ns ss now where sw: "sw = (ns, ss, now)"
    by (cases sw)
  show ?case
    using snoc by (simp add: sw merge_all_snoc mergeWlanRetained_eq Let_def networks_heard_def stations_heard_def
        kept_networks.after_snoc kept_stations.after_snoc)
qed

text \<open>
  C31. After any sweeps, merged at times that do not go back, an agent retains for an address exactly its
  last sighting of all sweeps, and only if that sighting is at most ten minutes older than the last merge.
\<close>

theorem retained_is_last_sighting:
  assumes "sorted (map (snd \<circ> snd) (sweeps @ [(ns, ss, now)]))"
  shows "map_of (ws_Stations (merge_all (sweeps @ [(ns, ss, now)]) new_state)) mac =
           fresh_row ps_LastSeenMs (cutoff_of now) (last_row ps_MAC mac (stamped stamp_station (stations_heard (sweeps @ [(ns, ss, now)]))))
    \<and> map_of (ws_Networks (merge_all (sweeps @ [(ns, ss, now)]) new_state)) bssid =
           fresh_row pn_LastSeenMs (cutoff_of now) (last_row pn_BSSID bssid (stamped stamp_network (networks_heard (sweeps @ [(ns, ss, now)]))))"
proof -
  let ?h = "sweeps @ [(ns, ss, now)]"
  show ?thesis
    using assms merge_all_after [of ?h] kept_stations.after_last_sighting [of "stations_heard sweeps" ss now mac]
      kept_networks.after_last_sighting [of "networks_heard sweeps" ns now bssid] heard_times [of ?h]
    unfolding heard_snoc by simp
qed

definition ap :: "string \<Rightarrow> probe_WlanNetwork" where
  "ap b = (new_network b (-60))\<lparr>pn_LastSeenMs := 5\<rparr>"

definition client :: "string \<Rightarrow> int \<Rightarrow> probe_WlanStation" where
  "client b t = \<lparr>ps_MAC = ''c'', ps_BSSID = b, ps_SSID = '''', ps_RSSIdBm = -60, ps_RSSIAvgdBm = 0, ps_RateMbps = 0, ps_MCS = 0,
     ps_Frames = 1, ps_ProbeOnly = False, ps_LastSeenMs = t\<rparr>"

theorem retained_is_last_sighting_witness:
  "map_of (ws_Stations (merge_all [([ap ''a''], [client ''a'' 5], 0), ([], [client ''b'' 9], 1)] new_state)) ''c'' = Some (client ''b'' 9)"
  using retained_is_last_sighting [of "[([ap ''a''], [client ''a'' 5], 0)]" "[]" "[client ''b'' 9]" 1 "''c''" "''a''"]
  by (simp add: fresh_row_def cutoff_of_def UnixMilli_def wlanRetention_def duration_defs last_row_def stamped_def stations_heard_def
      stamp_station_def client_def)

section \<open>Events\<close>

definition moved :: "probe_WlanNetwork sightings \<Rightarrow> int \<Rightarrow> probe_WlanStation sightings \<Rightarrow> probe_WlanStation \<Rightarrow> probe_WlanRoamEvent list" where
  "moved nets nowMs m s =
     (if roamed (map_of m (ps_MAC s)) s
      then [roamEvent (ps_MAC s) (ssidFor (stamp_station nowMs s) nets) (the (map_of m (ps_MAC s))) (stamp_station nowMs s) (channelOf nets)]
      else [])"

lemma roamed_stamp: "roamed old (stamp_station t s) = roamed old s"
  by (simp add: roamed_def stamp_station_def split: option.split)

lemma snd_merge_stations:
  "distinct (map ps_MAC ss) \<Longrightarrow> snd (fold (merge_station nets nowMs) ss (m, ev)) = ev @ concat (map (moved nets nowMs m) ss)"
proof (induction ss arbitrary: m ev)
  case (Cons s ss)
  let ?m = "sight ps_MAC (stamp_station nowMs s) m"
  have "moved nets nowMs ?m t = moved nets nowMs m t" if "t \<in> set ss" for t
  proof -
    have "ps_MAC t \<noteq> ps_MAC s"
      using that Cons.prems by (auto simp: image_iff)
    then show ?thesis
      by (simp add: moved_def sight_def update_conv' key_stamp_station)
  qed
  then have "map (moved nets nowMs ?m) ss = map (moved nets nowMs m) ss"
    by simp
  moreover have "merge_station nets nowMs s (m, ev) = (?m, ev @ moved nets nowMs m s)"
    by (simp add: merge_station_def moved_def Let_def roamed_stamp key_stamp_station)
  ultimately show ?case
    using Cons by (simp cong: map_cong)
qed simp

definition event_path :: "probe_WlanRoamEvent \<Rightarrow> string \<times> string \<times> string" where
  "event_path e = (pe_ClientMAC e, pe_FromBSSID e, pe_ToBSSID e)"

text \<open>
  The events of a merge are exactly the moves and the departures: one for every station heard at an
  access point other than the one it was retained at, and one for every station whose last sighting was at
  an access point and is older than ten minutes.
\<close>

theorem merge_reports_moves:
  assumes "distinct (map ps_MAC stations)" and "distinct (map fst (ws_Stations state))"
    and "mergeWlanRetained state networks stations now = (state', ns, ss, roams)"
  shows "event_path ` set roams =
     {(ps_MAC s, ps_BSSID old, ps_BSSID s) | s old. s \<in> set stations \<and> map_of (ws_Stations state) (ps_MAC s) = Some old
        \<and> ps_BSSID old \<noteq> '''' \<and> ps_BSSID s \<noteq> '''' \<and> ps_BSSID old \<noteq> ps_BSSID s}
     \<union> {(mac, ps_BSSID s, '''') | mac s. map_of (merged ps_MAC stamp_station (UnixMilli now) stations (ws_Stations state)) mac = Some s
        \<and> ps_LastSeenMs s < cutoff_of now \<and> ps_BSSID s \<noteq> ''''}"
proof -
  let ?nets = "merged pn_BSSID stamp_network (UnixMilli now) networks (ws_Networks state)"
  let ?stas = "merged ps_MAC stamp_station (UnixMilli now) stations (ws_Stations state)"
  let ?gone = "filter (\<lambda>(_, s). ps_LastSeenMs s < cutoff_of now \<and> ps_BSSID s \<noteq> '''') ?stas"
  have roams: "set roams = set (concat (map (moved ?nets (UnixMilli now) (ws_Stations state)) stations))
      \<union> disconnect (keep_fresh pn_LastSeenMs (cutoff_of now) ?nets) (UnixMilli now) ` set ?gone"
    using assms(3) snd_merge_stations [OF assms(1)] by (auto simp: mergeWlanRetained_eq Let_def)
  have "event_path ` set (moved ?nets (UnixMilli now) (ws_Stations state) s) =
      {(ps_MAC s, ps_BSSID old, ps_BSSID s) | old. map_of (ws_Stations state) (ps_MAC s) = Some old
         \<and> ps_BSSID old \<noteq> '''' \<and> ps_BSSID s \<noteq> '''' \<and> ps_BSSID old \<noteq> ps_BSSID s}" for s
    by (auto simp: moved_def roamed_def event_path_def roamEvent_def stamp_station_def Let_def split: option.splits)
  then have "event_path ` set (concat (map (moved ?nets (UnixMilli now) (ws_Stations state)) stations)) =
      {(ps_MAC s, ps_BSSID old, ps_BSSID s) | s old. s \<in> set stations \<and> map_of (ws_Stations state) (ps_MAC s) = Some old
         \<and> ps_BSSID old \<noteq> '''' \<and> ps_BSSID s \<noteq> '''' \<and> ps_BSSID old \<noteq> ps_BSSID s}"
    unfolding set_concat set_map image_UN by (simp add: image_image) blast
  moreover have "event_path ` disconnect n t ` set ?gone =
      {(mac, ps_BSSID s, '''') | mac s. map_of ?stas mac = Some s \<and> ps_LastSeenMs s < cutoff_of now \<and> ps_BSSID s \<noteq> ''''}" for n t
  proof -
    have gone: "set ?gone = {(mac, s). map_of ?stas mac = Some s \<and> ps_LastSeenMs s < cutoff_of now \<and> ps_BSSID s \<noteq> ''''}"
      using map_of_eq_Some_iff [OF kept_stations.distinct_merged [OF assms(2)]] by auto
    show ?thesis
      unfolding gone image_image by (auto simp: event_path_def disconnect_def Let_def image_def)
  qed
  ultimately show ?thesis
    by (simp add: roams image_Un)
qed

text \<open>The station of the example moves from \<open>a\<close> to \<open>b\<close>.\<close>

theorem merge_reports_moves_witness:
  "(''c'', ''a'', ''b'') \<in> event_path ` set (snd (snd (snd (mergeWlanRetained
     (new_state\<lparr>ws_Stations := [(''c'', client ''a'' 5)]\<rparr>) [] [client ''b'' 9] 1))))"
proof -
  let ?st = "new_state\<lparr>ws_Stations := [(''c'', client ''a'' 5)]\<rparr>"
  obtain st' ns ss roams where m: "mergeWlanRetained ?st [] [client ''b'' 9] 1 = (st', ns, ss, roams)"
    by (metis prod_cases4)
  have "distinct (map ps_MAC [client ''b'' 9])" "distinct (map fst (ws_Stations ?st))"
    by simp_all
  from merge_reports_moves [OF this m] have "(''c'', ''a'', ''b'') \<in> event_path ` set roams"
    by (auto simp: client_def)
  then show ?thesis
    by (simp add: m)
qed

end
