(* ===== verification/Wlan_Properties.thy ===== *)
theory Wlan_Properties
  imports Wlan_Sense
begin

text \<open>
  What the frame parsers and the maps of a sweep guarantee whatever is on the air: every body is read to
  an end without an index out of range, what comes out is in range, a well-formed list of elements is read
  back as that list, and the maps hold one row per unicast address, under that address.
\<close>

named_theorems returns \<open>checked accesses that are in range\<close>

section \<open>Every parser returns\<close>

lemma byte_at_Some [returns, simp]: "i < length v \<Longrightarrow> byte_at v i = Some (v ! i)"
  by (simp add: byte_at_def)

lemma byte_at_D: "byte_at v i = Some x \<Longrightarrow> x = v ! i"
  by (simp add: byte_at_def split: if_splits)

lemma slice_Some [returns, simp]: "i \<le> j \<Longrightarrow> j \<le> length v \<Longrightarrow> slice v i j = Some (take (j - i) (drop i v))"
  by (simp add: slice_def)

lemma suites_returns: "\<exists>ts o'. suites n v off = Some (ts, o') \<and> off \<le> o' \<and> length ts \<le> n"
proof (induction n v off rule: suites.induct)
  case (2 n v off)
  show ?case
  proof (cases "off + 4 \<le> length v")
    case True
    then obtain ts o' where "suites n v (off + 4) = Some (ts, o')" "off + 4 \<le> o'" "length ts \<le> n"
      using 2 by (auto simp: byte_at_def)
    then show ?thesis
      using True by simp
  qed simp
qed simp

lemma parseRSN_returns: "\<exists>r. parseRSN v = Some r"
proof (cases "8 > length v")
  case True
  then show ?thesis
    by (simp add: parseRSN_def Let_def)
next
  case False
  obtain cs off where cs: "suites (unat (le16 (v ! 6) (v ! 7))) v 8 = Some (cs, off)"
    using suites_returns by blast
  obtain ks off' where "suites (unat (le16 (v ! off) (v ! (off + 1)))) v (off + 2) = Some (ks, off')"
    using suites_returns by blast
  then show ?thesis
    using False cs by (simp add: parseRSN_def Let_def)
qed

lemma ht_streams_returns: "\<exists>n'. ht_streams v ss n = Some n'"
  by (induction v ss n rule: ht_streams.induct) auto

lemma rsn_element_returns: "\<exists>st'. rsn_element v st = Some st'"
  using parseRSN_returns [of v] by (auto simp: rsn_element_def Let_def)

lemma element_returns: "\<exists>st'. element tag v st = Some st'"
  using rsn_element_returns [of v st] ht_streams_returns [of v "[0..<4]" "sc_htStreams st"]
  unfolding element_def Let_def by (auto simp: byte_at_def)

text \<open>A fact kept by every element is a fact of what the loop returns.\<close>

lemma ie_loop_returns:
  assumes "Q st" and step: "\<And>tag v st st'. Q st \<Longrightarrow> length v < 256 \<Longrightarrow> element tag v st = Some st' \<Longrightarrow> Q st'"
  shows "\<exists>st'. ie_loop data i st = Some st' \<and> Q st'"
  using assms(1)
proof (induction "length data - i" arbitrary: i st rule: less_induct)
  case less
  show ?case
  proof (cases "i + 2 \<le> length data \<and> i + 2 + unat (data ! (i + 1)) \<le> length data")
    case True
    let ?j = "i + 2 + unat (data ! (i + 1))"
    have len: "unat (data ! (i + 1)) < 256"
      using unsigned_less [where 'a = nat, of "data ! (i + 1)"] by simp
    then obtain v where v: "slice data (i + 2) ?j = Some v" "length v < 256"
      using True by simp
    obtain st1 where st1: "element (data ! i) v st = Some st1"
      using element_returns by blast
    have "\<exists>st'. ie_loop data ?j st1 = Some st' \<and> Q st'"
      using True step [OF less.prems v(2) st1] by (intro less.hyps) auto
    then show ?thesis
      using True v(1) st1 by (subst ie_loop.simps) simp
  next
    case False
    then show ?thesis
      using less.prems by (subst ie_loop.simps) (cases "i + 2 \<le> length data"; simp)
  qed
qed

lemma parseBeaconBody_from_scan:
  assumes "Q (start_scan (empty_info\<lparr>bi_BeaconIntervalTU := le16 (body ! 8) (body ! 9), bi_WidthMHz := 20\<rparr>))"
    and "\<And>tag v st st'. Q st \<Longrightarrow> length v < 256 \<Longrightarrow> element tag v st = Some st' \<Longrightarrow> Q st'" and "length body \<ge> 12"
  shows "\<exists>st. parseBeaconBody body = Some (finish_scan (body ! 10 AND 0x10 \<noteq> 0) st) \<and> Q st"
proof -
  let ?s0 = "start_scan (empty_info\<lparr>bi_BeaconIntervalTU := le16 (body ! 8) (body ! 9), bi_WidthMHz := 20\<rparr>)"
  obtain st where "ie_loop (drop 12 body) 0 ?s0 = Some st" "Q st"
    using ie_loop_returns [of Q, OF assms(1)] assms(2) by blast
  then show ?thesis
    using assms(3) by (auto simp: parseBeaconBody_def)
qed

lemma parseBeaconBody_returns: "\<exists>info. parseBeaconBody body = Some info"
proof (cases "length body < 12")
  case True
  then show ?thesis
    by (simp add: parseBeaconBody_def)
next
  case False
  then show ?thesis
    using parseBeaconBody_from_scan [of "\<lambda>_. True" body] by auto
qed

text \<open>
  Whatever bytes a beacon or probe response carries, \<open>parseBeaconBody\<close> returns: no index or slice is
  out of range and the loop over the elements ends.
\<close>

theorem parseBeaconBody_total: "\<exists>info. parseBeaconBody body = Some info"
  by (rule parseBeaconBody_returns)

section \<open>What the parser returns is in range\<close>

definition info_ok :: "beaconInfo \<Rightarrow> bool" where
  "info_ok i \<longleftrightarrow>
     bi_WidthMHz i \<in> {0, 20, 40, 80, 160} \<and> bi_BeaconIntervalTU i < 65536 \<and> bi_LoadStations i < 65536
     \<and> 0 \<le> bi_LoadChannelUtilPct i \<and> bi_LoadChannelUtilPct i \<le> 100 \<and> bi_DTIMPeriod i < 256
     \<and> bi_MFP i \<in> {'''', ''capable'', ''required''} \<and> length (bi_SSID i) \<le> 255
     \<and> (bi_Country i = '''' \<or> length (bi_Country i) = 2 \<and> (\<forall>c \<in> set (bi_Country i). CHR ''A'' \<le> c \<and> c \<le> CHR ''Z''))"

definition scan_ok :: "scan \<Rightarrow> bool" where
  "scan_ok st \<longleftrightarrow> info_ok (sc_info st) \<and> sc_htStreams st \<le> 4 \<and> sc_vhtStreams st \<le> 8 \<and> 0 \<le> sc_legacyMax st \<and> sc_legacyMax st * 2 \<le> 127"

lemma le16_less: "le16 a b < 65536"
proof -
  have "take_bit 16 (le16 a b) = le16 a b"
    by (rule bit_word_eqI) (auto simp: le16_def bit_simps dest: bit_imp_le_length)
  then have "unat (le16 a b) = take_bit 16 (unat (le16 a b))"
    by (metis unsigned_take_bit_eq)
  also have "\<dots> < 2 ^ 16"
    by (rule take_bit_nat_less_exp)
  finally show ?thesis
    by (simp add: word_less_nat_alt)
qed

lemma ht_streams_le:
  "ht_streams v ss n = Some n' \<Longrightarrow> n \<le> 4 \<Longrightarrow> set ss \<subseteq> {..<4} \<Longrightarrow> n' \<le> 4"
proof (induction v ss n rule: ht_streams.induct)
  case (2 v s ss n)
  have "s \<in> {0, 1, 2, 3}"
    using 2(4) by auto
  then have "(of_nat (s + 1) :: u32) \<le> 4"
    by auto
  then show ?case
    using 2 by (auto split: if_splits)
qed simp

lemma vht_streams_le: "n \<le> 8 \<Longrightarrow> vht_streams m n \<le> 8"
  by (simp add: vht_streams_def upt_conv_Cons)

lemma rate_mbps_bounds: "0 \<le> rate_mbps r \<and> rate_mbps r * 2 \<le> 127"
proof -
  have "r AND 0x7F \<le> 0x7F"
    by (rule word_and_le1)
  then have "unat (r AND 0x7F) \<le> 127"
    by (simp add: word_le_nat_alt)
  then show ?thesis
    by (simp add: rate_mbps_def del: of_nat_unat)
qed

lemma legacy_max_bounds:
  "0 \<le> m \<Longrightarrow> m * 2 \<le> 127 \<Longrightarrow>
   0 \<le> fold (\<lambda>r mx. if rate_mbps r > mx then rate_mbps r else mx) v m
   \<and> fold (\<lambda>r mx. if rate_mbps r > mx then rate_mbps r else mx) v m * 2 \<le> 127"
  by (induction v arbitrary: m) (use rate_mbps_bounds in auto)

lemma is_upper_char: "is_upper b \<Longrightarrow> CHR ''A'' \<le> char_of (unat b) \<and> char_of (unat b) \<le> CHR ''Z''"
  by (simp add: is_upper_def less_eq_char_def word_le_nat_alt)

lemma is_upper_pair:
  assumes "2 \<le> length v" "is_upper (v ! 0)" "is_upper (v ! Suc 0)"
  shows "length (go_string (take 2 v)) = 2 \<and> (\<forall>c \<in> set (go_string (take 2 v)). CHR ''A'' \<le> c \<and> c \<le> CHR ''Z'')"
proof -
  obtain a b w where "v = a # b # w"
    using assms(1) by (metis Suc_le_length_iff numeral_2_eq_2)
  then show ?thesis
    using assms(2,3) by (simp add: go_string_def is_upper_char)
qed

lemma percent_bounds: "0 \<le> real (unat (c :: u8)) / 255 * 100 \<and> real (unat c) / 255 * 100 \<le> 100"
proof -
  have "unat c < 2 ^ LENGTH(8)"
    by (rule unsigned_less)
  then show ?thesis
    by (simp del: of_nat_unat)
qed

lemma ucast_u8_less: "(ucast (c :: u8) :: u32) < 256"
  by (rule order_less_le_trans [OF _ order_refl]) (use unsigned_less [where 'a=nat, of c] in
    \<open>simp add: word_less_nat_alt unsigned_ucast_eq take_bit_nat_eq_self\<close>)

text \<open>Each field of the scan, after one element.\<close>

lemmas element_defs = element_def Let_def set_info_def rsn_element_def

lemma element_width: "element tag v st = Some st' \<Longrightarrow> bi_WidthMHz (sc_info st') \<in> {bi_WidthMHz (sc_info st), 40, 80, 160}"
  by (auto simp: element_defs split: if_splits bind_splits)

lemma element_interval: "element tag v st = Some st' \<Longrightarrow> bi_BeaconIntervalTU (sc_info st') = bi_BeaconIntervalTU (sc_info st)"
  by (auto simp: element_defs split: if_splits bind_splits)

lemma element_mfp: "element tag v st = Some st' \<Longrightarrow> bi_MFP (sc_info st') \<in> {bi_MFP (sc_info st), ''capable'', ''required''}"
  by (auto simp: element_defs split: if_splits bind_splits)

lemma element_dtim: "element tag v st = Some st' \<Longrightarrow> bi_DTIMPeriod (sc_info st') = bi_DTIMPeriod (sc_info st) \<or> bi_DTIMPeriod (sc_info st') < 256"
  by (auto simp: element_defs ucast_u8_less split: if_splits bind_splits)

lemma element_stations:
  "element tag v st = Some st' \<Longrightarrow>
   bi_LoadStations (sc_info st') = bi_LoadStations (sc_info st) \<or> bi_LoadStations (sc_info st') < 65536"
  by (auto simp: element_defs le16_less split: if_splits bind_splits)

lemma element_util:
  "element tag v st = Some st' \<Longrightarrow>
   bi_LoadChannelUtilPct (sc_info st') \<in> insert (bi_LoadChannelUtilPct (sc_info st)) (range (\<lambda>c :: u8. real (unat c) / 255 * 100))"
  by (auto simp: element_defs simp del: of_nat_unat split: if_splits bind_splits)

lemma element_ssid:
  "element tag v st = Some st' \<Longrightarrow> bi_SSID (sc_info st') = (if tag = 0 \<and> v \<noteq> [] then go_string v else bi_SSID (sc_info st))"
  by (auto simp: element_defs split: if_splits bind_splits)

lemma element_country:
  "element tag v st = Some st' \<Longrightarrow>
   bi_Country (sc_info st') = bi_Country (sc_info st)
   \<or> bi_Country (sc_info st') = go_string (take 2 v) \<and> 2 \<le> length v \<and> is_upper (v ! 0) \<and> is_upper (v ! Suc 0)"
  by (auto simp: element_defs slice_def dest: byte_at_D split: if_splits bind_splits)

lemma element_streams:
  "element tag v st = Some st' \<Longrightarrow>
   sc_vhtStreams st' \<in> {sc_vhtStreams st} \<union> range (\<lambda>m. vht_streams m (sc_vhtStreams st))
   \<and> (sc_htStreams st' = sc_htStreams st \<or> ht_streams v [0..<4] (sc_htStreams st) = Some (sc_htStreams st'))"
  by (auto simp: element_defs split: if_splits bind_splits)

lemma element_legacy:
  "element tag v st = Some st' \<Longrightarrow>
   sc_legacyMax st' \<in> {sc_legacyMax st, fold (\<lambda>r mx. if rate_mbps r > mx then rate_mbps r else mx) v (sc_legacyMax st)}"
  by (auto simp: element_defs split: if_splits bind_splits)

lemma element_keeps_scan_ok:
  assumes "scan_ok st" "length v < 256" and e: "element tag v st = Some st'"
  shows "scan_ok st'"
proof -
  note ok = assms(1) [unfolded scan_ok_def info_ok_def]
  have "bi_WidthMHz (sc_info st') \<in> {0, 20, 40, 80, 160}" "bi_BeaconIntervalTU (sc_info st') < 65536"
    "bi_MFP (sc_info st') \<in> {'''', ''capable'', ''required''}"
    using ok element_width [OF e] element_interval [OF e] element_mfp [OF e] by auto
  moreover have "bi_DTIMPeriod (sc_info st') < 256" "bi_LoadStations (sc_info st') < 65536" "length (bi_SSID (sc_info st')) \<le> 255"
    using ok element_dtim [OF e] element_stations [OF e] element_ssid [OF e] assms(2) by (auto simp: go_string_def)
  moreover have "0 \<le> bi_LoadChannelUtilPct (sc_info st') \<and> bi_LoadChannelUtilPct (sc_info st') \<le> 100"
  proof -
    consider "bi_LoadChannelUtilPct (sc_info st') = bi_LoadChannelUtilPct (sc_info st)"
      | c :: u8 where "bi_LoadChannelUtilPct (sc_info st') = real (unat c) / 255 * 100"
      using element_util [OF e] by blast
    then show ?thesis
      using ok percent_bounds by cases metis+
  qed
  moreover have "bi_Country (sc_info st') = ''''
      \<or> length (bi_Country (sc_info st')) = 2 \<and> (\<forall>c \<in> set (bi_Country (sc_info st')). CHR ''A'' \<le> c \<and> c \<le> CHR ''Z'')"
    using ok element_country [OF e] is_upper_pair [of v] by metis
  ultimately have "info_ok (sc_info st')"
    unfolding info_ok_def by blast
  moreover have "sc_htStreams st' \<le> 4 \<and> sc_vhtStreams st' \<le> 8"
    using assms(1) element_streams [OF e] by (auto simp: scan_ok_def vht_streams_le intro: ht_streams_le [of v "[0..<4]"])
  moreover have "0 \<le> sc_legacyMax st' \<and> sc_legacyMax st' * 2 \<le> 127"
    using assms(1) element_legacy [OF e] legacy_max_bounds [of "sc_legacyMax st" v] by (auto simp: scan_ok_def)
  ultimately show ?thesis
    by (simp add: scan_ok_def)
qed

lemma estimateMaxRate_bounds:
  assumes "0 \<le> l" "l * 2 \<le> 127" "w \<in> {0, 20, 40, 80, 160}" "n \<le> 8"
  shows "0 \<le> estimateMaxRate ht vht he w n l \<and> estimateMaxRate ht vht he w n l \<le> 9608"
proof -
  have n: "unat (if n = 0 then 1 else n) \<le> 8"
    using assms(4) by (simp add: word_le_nat_alt)
  have "0 \<le> r * real (unat (if n = 0 then 1 else n)) \<and> r * real (unat (if n = 0 then 1 else n)) \<le> 9608"
    if "0 \<le> r" "r \<le> 1201" for r
    using mult_mono [of r 1201 "real (unat (if n = 0 then 1 else n))" 8] n that by (auto simp del: of_nat_unat)
  then show ?thesis
    using assms(1,2,3) unfolding estimateMaxRate_def Let_def by (auto simp del: of_nat_unat)
qed

definition securities :: "string list" where
  "securities = ['''', ''Open'', ''WEP'', ''WPA'', ''WPA2'', ''WPA2-Ent'', ''WPA/WPA2'', ''WPA2/WPA3'', ''WPA3'', ''WPA3-Ent'', ''OWE'']"

definition beacon_ok :: "beaconInfo \<Rightarrow> bool" where
  "beacon_ok i \<longleftrightarrow> info_ok i \<and> bi_Security i \<in> set securities \<and> bi_Streams i \<le> 8 \<and> 0 \<le> bi_MaxRateMbps i \<and> bi_MaxRateMbps i \<le> 9608"

lemma finish_scan_ok: "scan_ok st \<Longrightarrow> beacon_ok (finish_scan p st)"
proof -
  assume ok: "scan_ok st"
  let ?n = "max (sc_htStreams st) (sc_vhtStreams st)"
  have n: "?n \<le> 8"
    using ok order_trans [of "sc_htStreams st" 4 8] by (simp add: scan_ok_def)
  have "bi_WidthMHz (sc_info st) \<in> {0, 20, 40, 80, 160}"
    using ok by (simp add: scan_ok_def info_ok_def)
  moreover have "securityLabel a b c d \<in> set securities" for a b c d
    by (simp add: securityLabel_def securities_def Let_def)
  moreover have "info_ok (finish_scan p st)"
    using ok by (simp add: scan_ok_def info_ok_def finish_scan_def Let_def)
  ultimately show ?thesis
    using ok n estimateMaxRate_bounds [of "sc_legacyMax st" "bi_WidthMHz (sc_info st)" ?n]
    by (simp add: beacon_ok_def finish_scan_def Let_def scan_ok_def)
qed

lemma start_scan_ok: "scan_ok (start_scan (empty_info\<lparr>bi_BeaconIntervalTU := le16 a b, bi_WidthMHz := 20\<rparr>))"
  by (simp add: scan_ok_def start_scan_def info_ok_def empty_info_def le16_less)

lemma parseBeaconBody_beacon_ok: "pred_option beacon_ok (parseBeaconBody body)"
proof (cases "length body < 12")
  case True
  then show ?thesis
    by (simp add: parseBeaconBody_def beacon_ok_def info_ok_def empty_info_def securities_def)
next
  case False
  then obtain st where "parseBeaconBody body = Some (finish_scan (body ! 10 AND 0x10 \<noteq> 0) st)" "scan_ok st"
    using parseBeaconBody_from_scan [of scan_ok body] start_scan_ok element_keeps_scan_ok by (meson not_less)
  then show ?thesis
    by (simp add: finish_scan_ok)
qed

text \<open>
  C26. A beacon body is read to its end, with no index out of range, whatever its bytes are, and as values in their ranges: a width of 0, 20, 40, 80 or 160
  MHz, at most eight streams, a rate of at most 9608 Mbit/s, a utilisation between 0 and 100 percent, a
  country of two capital letters or none, and one of the eleven security labels.
\<close>

theorem parseBeaconBody_in_range: "\<exists>info. parseBeaconBody body = Some info \<and> beacon_ok info"
  using parseBeaconBody_returns [of body] parseBeaconBody_beacon_ok [of body] by auto

section \<open>Elements are read as they are written\<close>

type_synonym ie = "u8 \<times> bytes"

definition encode_ie :: "ie \<Rightarrow> bytes" where
  "encode_ie e = fst e # of_nat (length (snd e)) # snd e"

text \<open>A rest of a body that holds no complete element.\<close>

definition truncated :: "bytes \<Rightarrow> bool" where
  "truncated rest \<longleftrightarrow> length rest < 2 \<or> length rest < 2 + unat (rest ! 1)"

fun read_elements :: "ie list \<Rightarrow> scan \<Rightarrow> scan option" where
  "read_elements [] st = Some st"
| "read_elements (e # es) st = do { st \<leftarrow> element (fst e) (snd e) st; read_elements es st }"

lemma ie_loop_truncated: "truncated rest \<Longrightarrow> ie_loop (pre @ rest) (length pre) st = Some st"
  by (subst ie_loop.simps) (auto simp: truncated_def byte_at_def nth_append)

lemma ie_loop_element:
  assumes "length v < 256"
  shows "ie_loop (pre @ encode_ie (t, v) @ rest) (length pre) st =
         do { st \<leftarrow> element t v st; ie_loop ((pre @ encode_ie (t, v)) @ rest) (length (pre @ encode_ie (t, v))) st }"
proof -
  have "unat (of_nat (length v) :: u8) = length v"
    using assms by (simp add: unat_of_nat take_bit_nat_eq_self)
  then show ?thesis
    by (subst ie_loop.simps) (simp add: encode_ie_def nth_append add.commute)
qed

lemma ie_loop_read_elements:
  assumes "truncated rest" "\<forall>e \<in> set es. length (snd e) < 256"
  shows "ie_loop (pre @ concat (map encode_ie es) @ rest) (length pre) st = read_elements es st"
  using assms(2)
proof (induction es arbitrary: pre st)
  case Nil
  then show ?case
    by (simp add: ie_loop_truncated assms(1))
next
  case (Cons e es)
  obtain t v where e: "e = (t, v)"
    by (cases e)
  then have "length v < 256"
    using Cons.prems by simp
  note step = ie_loop_element [OF this, of pre t "concat (map encode_ie es) @ rest" st]
  have "ie_loop ((pre @ encode_ie (t, v)) @ concat (map encode_ie es) @ rest) (length (pre @ encode_ie (t, v))) st' = read_elements es st'"
    for st'
    using Cons.IH [of "pre @ encode_ie (t, v)"] Cons.prems by simp
  then show ?case
    using step by (simp add: e)
qed

text \<open>What a list of elements says.\<close>

definition has_tag :: "u8 \<Rightarrow> ie list \<Rightarrow> bool" where
  "has_tag t es \<longleftrightarrow> t \<in> fst ` set es"

definition has_ext :: "u8 \<Rightarrow> ie list \<Rightarrow> bool" where
  "has_ext x es \<longleftrightarrow> list_ex (\<lambda>(t, v). t = 255 \<and> 1 \<le> length v \<and> v ! 0 = x) es"

definition has_wpa :: "ie list \<Rightarrow> bool" where
  "has_wpa es \<longleftrightarrow> list_ex (\<lambda>(t, v). t = 221 \<and> 4 \<le> length v \<and> v ! 0 = 0 \<and> v ! 1 = 0x50 \<and> v ! 2 = 0xF2 \<and> v ! 3 = 1) es"

definition has_btm :: "ie list \<Rightarrow> bool" where
  "has_btm es \<longleftrightarrow> list_ex (\<lambda>(t, v). t = 127 \<and> 3 \<le> length v \<and> v ! 2 AND 8 \<noteq> 0) es"

definition last_ssid :: "ie list \<Rightarrow> bytes" where
  "last_ssid es = fold (\<lambda>(t, v) s. if t = 0 \<and> v \<noteq> [] then v else s) es []"

lemma element_flags:
  "element t v st = Some st' \<Longrightarrow>
   sc_ht st' = (sc_ht st \<or> t = 45) \<and> sc_vht st' = (sc_vht st \<or> t = 191) \<and> sc_rm st' = (sc_rm st \<or> t = 70)
   \<and> sc_ft st' = (sc_ft st \<or> t = 54) \<and> sc_hasRSN st' = (sc_hasRSN st \<or> t = 48)"
  by (auto simp: element_defs split: if_splits bind_splits)

lemma element_ext:
  "element t v st = Some st' \<Longrightarrow>
   sc_he st' = (sc_he st \<or> t = 255 \<and> 1 \<le> length v \<and> v ! 0 = 35) \<and> sc_eht st' = (sc_eht st \<or> t = 255 \<and> 1 \<le> length v \<and> v ! 0 = 108)"
  by (auto simp: element_defs dest: byte_at_D split: if_splits bind_splits)

lemma element_wpa:
  "element t v st = Some st' \<Longrightarrow> sc_hasWPA st' = (sc_hasWPA st \<or> t = 221 \<and> 4 \<le> length v \<and> v ! 0 = 0 \<and> v ! 1 = 0x50 \<and> v ! 2 = 0xF2 \<and> v ! 3 = 1)"
  by (auto simp: element_defs dest: byte_at_D split: if_splits bind_splits)

lemma element_btm:
  "element t v st = Some st' \<Longrightarrow> sc_btm st' = (sc_btm st \<or> t = 127 \<and> 3 \<le> length v \<and> v ! 2 AND 8 \<noteq> 0)"
  by (auto simp: element_defs split: if_splits bind_splits)

lemma read_elements_says:
  "read_elements es st = Some st' \<Longrightarrow>
   sc_ht st' = (sc_ht st \<or> has_tag 45 es) \<and> sc_vht st' = (sc_vht st \<or> has_tag 191 es) \<and> sc_rm st' = (sc_rm st \<or> has_tag 70 es)
   \<and> sc_ft st' = (sc_ft st \<or> has_tag 54 es) \<and> sc_hasRSN st' = (sc_hasRSN st \<or> has_tag 48 es)
   \<and> sc_he st' = (sc_he st \<or> has_ext 35 es) \<and> sc_eht st' = (sc_eht st \<or> has_ext 108 es)
   \<and> sc_hasWPA st' = (sc_hasWPA st \<or> has_wpa es) \<and> sc_btm st' = (sc_btm st \<or> has_btm es)
   \<and> bi_BeaconIntervalTU (sc_info st') = bi_BeaconIntervalTU (sc_info st)
   \<and> bi_SSID (sc_info st') = fold (\<lambda>(t, v) s. if t = 0 \<and> v \<noteq> [] then go_string v else s) es (bi_SSID (sc_info st))"
proof (induction es arbitrary: st)
  case Nil
  then show ?case
    by (simp add: has_tag_def has_ext_def has_wpa_def has_btm_def)
next
  case (Cons e es)
  obtain t v where e: "e = (t, v)"
    by (cases e)
  then obtain st1 where st1: "element t v st = Some st1" "read_elements es st1 = Some st'"
    using Cons.prems by (auto split: bind_splits)
  have "has_tag x (e # es) = (t = x \<or> has_tag x es)" "has_ext x (e # es) = (t = 255 \<and> 1 \<le> length v \<and> v ! 0 = x \<or> has_ext x es)"
    for x
    by (auto simp: has_tag_def has_ext_def e)
  moreover have "has_wpa (e # es) = (t = 221 \<and> 4 \<le> length v \<and> v ! 0 = 0 \<and> v ! 1 = 0x50 \<and> v ! 2 = 0xF2 \<and> v ! 3 = 1 \<or> has_wpa es)"
    "has_btm (e # es) = (t = 127 \<and> 3 \<le> length v \<and> v ! 2 AND 8 \<noteq> 0 \<or> has_btm es)"
    by (auto simp: has_wpa_def has_btm_def e)
  ultimately show ?case
    using Cons.IH [OF st1(2)] element_flags [OF st1(1)] element_ext [OF st1(1)] element_wpa [OF st1(1)] element_btm [OF st1(1)]
      element_interval [OF st1(1)] element_ssid [OF st1(1)]
    by (simp add: e disj_ac)
qed

lemma last_ssid_string:
  "fold (\<lambda>(t, v) s. if t = 0 \<and> v \<noteq> [] then go_string v else s) es (go_string a) =
   go_string (fold (\<lambda>(t, v) s. if t = 0 \<and> v \<noteq> [] then v else s) es a)"
  by (induction es arbitrary: a) (auto split: if_splits)

lemma read_elements_returns: "\<exists>st'. read_elements es st = Some st'"
proof (induction es arbitrary: st)
  case (Cons e es)
  then show ?case
    using element_returns [of "fst e" "snd e" st] by auto
qed simp

text \<open>
  C22. A body made of its fixed part, any elements and a rest without a complete element is read as those
  elements say: the network name of the last element that names one, the generations and roaming features
  that an element announces, the beacon interval of the fixed part, and \<open>Open\<close> or \<open>WEP\<close> exactly when no
  element announces protection.
\<close>

theorem beacon_read_as_written:
  assumes "length fixed = 12" and "\<forall>e \<in> set es. length (snd e) < 256" and "truncated rest"
  shows "\<exists>info. parseBeaconBody (fixed @ concat (map encode_ie es) @ rest) = Some info
     \<and> bi_SSID info = go_string (last_ssid es)
     \<and> bi_Standards info = join ''/'' ((if has_tag 45 es then [''n''] else []) @ (if has_tag 191 es then [''ac''] else [])
         @ (if has_ext 35 es then [''ax''] else []) @ (if has_ext 108 es then [''be''] else []))
     \<and> bi_Roaming info = join ''/'' ((if has_tag 70 es then [''k''] else []) @ (if has_tag 54 es then [''r''] else [])
         @ (if has_btm es then [''v''] else []))
     \<and> bi_BeaconIntervalTU info = le16 (fixed ! 8) (fixed ! 9)
     \<and> (bi_Security info \<in> {''Open'', ''WEP''} \<longleftrightarrow> \<not> has_tag 48 es \<and> \<not> has_wpa es)"
proof -
  let ?body = "fixed @ concat (map encode_ie es) @ rest"
  let ?start = "start_scan (empty_info\<lparr>bi_BeaconIntervalTU := le16 (fixed ! 8) (fixed ! 9), bi_WidthMHz := 20\<rparr>)"
  obtain st where st: "read_elements es ?start = Some st"
    using read_elements_returns by blast
  have "ie_loop (concat (map encode_ie es) @ rest) 0 ?start = Some st"
    using ie_loop_read_elements [OF assms(3,2), of "[]" ?start] st by simp
  then have parsed: "parseBeaconBody ?body = Some (finish_scan (fixed ! 10 AND 0x10 \<noteq> 0) st)"
    using assms(1) by (simp add: parseBeaconBody_def nth_append)
  note says = read_elements_says [OF st]
  have "bi_SSID (sc_info st) = go_string (last_ssid es)"
    using says last_ssid_string [of es "[]"] by (simp add: start_scan_def empty_info_def last_ssid_def go_string_def)
  then show ?thesis
    using parsed says by (simp add: finish_scan_def Let_def start_scan_def empty_info_def securityLabel_def)
qed

theorem beacon_read_as_written_witness:
  "\<exists>info. parseBeaconBody (replicate 12 0 @ concat (map encode_ie [(0, [110, 108]), (45, []), (48, [])]) @ [1]) = Some info
     \<and> bi_SSID info = go_string [110, 108] \<and> bi_Standards info = ''n'' \<and> bi_Security info \<notin> {''Open'', ''WEP''}"
  using beacon_read_as_written [of "replicate 12 0" "[(0, [110, 108]), (45, []), (48, [])]" "[1]"]
  by (auto simp: truncated_def last_ssid_def has_tag_def has_ext_def)

section \<open>The maps of a sweep\<close>

text \<open>A sweep: the frames in the order they were read, each with the time of its reading.\<close>

fun sweep :: "(packet \<times> int) list \<Rightarrow> stations \<times> networks \<Rightarrow> (stations \<times> networks) option" where
  "sweep [] maps = Some maps"
| "sweep ((p, now) # fs) maps = do { maps \<leftarrow> processFrame p now maps; sweep fs maps }"

definition station_ok :: "string \<Rightarrow> probe_WlanStation \<Rightarrow> bool" where
  "station_ok mac s \<longleftrightarrow> isUnicastMAC mac \<and> ps_MAC s = mac"

definition network_ok :: "string \<Rightarrow> probe_WlanNetwork \<Rightarrow> bool" where
  "network_ok bssid n \<longleftrightarrow>
     isUnicastMAC bssid \<and> pn_BSSID n = bssid \<and> pn_Security n \<in> set securities \<and> pn_WidthMHz n \<in> {0, 20, 40, 80, 160}
     \<and> pn_Streams n \<le> 8 \<and> 0 \<le> pn_MaxRateMbps n \<and> pn_MaxRateMbps n \<le> 9608"

definition stations_ok :: "stations \<Rightarrow> bool" where
  "stations_ok sts \<longleftrightarrow> (\<forall>mac s. sts mac = Some s \<longrightarrow> station_ok mac s)"

definition networks_ok :: "networks \<Rightarrow> bool" where
  "networks_ok nets \<longleftrightarrow> (\<forall>b n. nets b = Some n \<longrightarrow> network_ok b n)"

definition maps_ok :: "stations \<times> networks \<Rightarrow> bool" where
  "maps_ok maps \<longleftrightarrow> stations_ok (fst maps) \<and> networks_ok (snd maps)"

lemma recordNetwork_ok:
  assumes "networks_ok nets" "beacon_ok info"
  shows "networks_ok (recordNetwork bssid info rssi now nets)"
proof -
  have "network_ok bssid (merge_info info rssi now n)" if "network_ok bssid n" for n
    using that assms(2) by (auto simp: network_ok_def merge_info_def keep_str_def beacon_ok_def info_ok_def)
  moreover have "network_ok bssid (new_network bssid rssi)" if "isUnicastMAC bssid"
    using that by (simp add: network_ok_def new_network_def securities_def)
  ultimately show ?thesis
    using assms(1) by (auto simp: networks_ok_def recordNetwork_def Let_def split: option.splits)
qed

lemma probe_request_ok: "stations_ok sts \<Longrightarrow> stations_ok (probe_request p now sts)"
  by (auto simp: stations_ok_def probe_request_def Let_def station_ok_def split: option.splits)

lemma data_frame_ok: "stations_ok sts \<Longrightarrow> stations_ok (data_frame p now sts)"
  by (auto simp: stations_ok_def data_frame_def Let_def station_ok_def split: option.splits prod.splits)

lemma processFrame_returns: "\<exists>maps'. processFrame p now maps = Some maps'"
  using parseBeaconBody_returns [of "pk_Payload p"] by (auto simp: processFrame_def split: frame_type.splits)

lemma processFrame_ok: "maps_ok maps \<Longrightarrow> processFrame p now maps = Some maps' \<Longrightarrow> maps_ok maps'"
  using parseBeaconBody_beacon_ok [of "pk_Payload p"]
  by (auto simp: processFrame_def maps_ok_def recordNetwork_ok probe_request_ok data_frame_ok
      split: frame_type.splits if_splits bind_splits)

lemma sweep_returns: "\<exists>maps'. sweep fs maps = Some maps'"
proof (induction fs maps rule: sweep.induct)
  case (2 p now fs maps)
  then show ?case
    using processFrame_returns [of p now maps] by auto
qed simp

lemma sweep_ok: "sweep fs maps = Some maps' \<Longrightarrow> maps_ok maps \<Longrightarrow> maps_ok maps'"
proof (induction fs maps rule: sweep.induct)
  case (2 p now fs maps)
  then show ?case
    using processFrame_ok [of maps p now] by (auto split: bind_splits)
qed simp

text \<open>
  Whatever frames are heard, a sweep that starts with empty maps processes all of them, and its maps
  hold rows of unicast addresses only, each under its own address, with the network values in range.
\<close>

theorem sweep_maps_invariant: "\<exists>maps. sweep fs (Map.empty, Map.empty) = Some maps \<and> maps_ok maps"
proof -
  obtain maps where "sweep fs (Map.empty, Map.empty) = Some maps"
    using sweep_returns by blast
  moreover have "maps_ok (Map.empty, Map.empty)"
    by (simp add: maps_ok_def stations_ok_def networks_ok_def)
  ultimately show ?thesis
    using sweep_ok by blast
qed

lemma processFrame_keeps_probe_row:
  assumes "fst maps mac = Some s" "processFrame p now maps = Some maps'"
  shows "\<exists>s'. fst maps' mac = Some s' \<and> ps_ProbeOnly s' = ps_ProbeOnly s \<and> ps_BSSID s' = ps_BSSID s"
  using assms
  by (cases "pk_Type p")
    (auto simp: processFrame_def probe_request_def data_frame_def Let_def split: if_splits option.splits prod.splits bind_splits)

lemma sweep_keeps_row:
  "sweep fs maps = Some maps' \<Longrightarrow> fst maps mac = Some s \<Longrightarrow>
   \<exists>s'. fst maps' mac = Some s' \<and> ps_ProbeOnly s' = ps_ProbeOnly s \<and> ps_BSSID s' = ps_BSSID s"
proof (induction fs maps arbitrary: s rule: sweep.induct)
  case (2 p now fs maps)
  then obtain maps1 where "processFrame p now maps = Some maps1" "sweep fs maps1 = Some maps'"
    by (auto split: bind_splits)
  then show ?case
    using processFrame_keeps_probe_row [OF 2(3)] 2(1) by metis
qed simp

text \<open>
  A station that was first heard probing stays a probing one for the rest of the sweep: whatever data
  frames it sends afterwards, its row keeps \<open>ProbeOnly\<close> and an empty BSSID, so the access point it is
  associated with is never reported.
\<close>

theorem probe_hides_association:
  assumes "pk_Type p = MgmtProbeReq" and "pk_Address2 p = Some mac" and "isUnicastMAC mac"
    and "\<not> list_ex rt_BadFCS (pk_RadioTap p)" and "fst maps mac = None"
  shows "\<exists>maps' s. sweep ((p, now) # fs) maps = Some maps' \<and> fst maps' mac = Some s \<and> ps_ProbeOnly s \<and> ps_BSSID s = ''''"
proof -
  let ?sts = "probe_request p now (fst maps)"
  have first: "processFrame p now maps = Some (?sts, snd maps)"
    using assms(1,4) by (simp add: processFrame_def)
  obtain s where "?sts mac = Some s" "ps_ProbeOnly s" "ps_BSSID s = ''''"
    using assms(2,3,5) by (simp add: probe_request_def addr_string_def)
  moreover obtain maps' where "sweep fs (?sts, snd maps) = Some maps'"
    using sweep_returns by blast
  ultimately show ?thesis
    using first sweep_keeps_row [of fs "(?sts, snd maps)" maps' mac s] by auto
qed

definition heard :: "frame_type \<Rightarrow> packet" where
  "heard t = \<lparr>pk_RadioTap = [], pk_Type = t, pk_ToDS = True, pk_FromDS = False, pk_Address1 = Some ''00:11:22:33:44:55'',
     pk_Address2 = Some ''02:00:00:00:00:01'', pk_Address3 = Some ''00:11:22:33:44:55'', pk_Payload = []\<rparr>"

theorem probe_hides_association_witness:
  "\<exists>maps' s. sweep [(heard MgmtProbeReq, 1), (heard Data, 2)] (Map.empty, Map.empty) = Some maps'
     \<and> fst maps' ''02:00:00:00:00:01'' = Some s \<and> ps_ProbeOnly s \<and> ps_BSSID s = ''''"
  using probe_hides_association [of "heard MgmtProbeReq" "''02:00:00:00:00:01''" "(Map.empty, Map.empty)" 1 "[(heard Data, 2)]"]
  by (simp add: heard_def isUnicastMAC_def hex_digit_def)

end
