(* ===== verification/Wlan_Sweep.thy ===== *)
theory Wlan_Sweep
  imports Agent_Retention Wlan_Properties
begin

text \<open>
  The monitor mode sweep of an interface (\<open>internal/probe/wlansense_linux.go\<close>, and \<open>parseIWSurveyDump\<close> of
  \<open>wlansense.go\<close>): switching the interface's type and back, the capture on each channel, the merge of what
  the channels heard, and the survey. Arguments are the output of \<open>iw\<close>, the frames read on a channel, whether a
  command succeeds, and the order in which Go walks a map.
\<close>

section \<open>Commands\<close>

text \<open>
  The commands that change the host. Whether one succeeds (\<open>None\<close>) or fails with an error depends on those run
  before it; a command that fails changes nothing.
\<close>

datatype shell_cmd =
    Link_Down string | Link_Up string | Set_Type string string | Set_Channel string u32 | Power_Save_Off string
  | Addr_Add string string | Route_Add string string | Rule_Add string | Rule_Del string | Route_Flush
  | Addr_Del string string | Make_Dir | Remove_Dir | Write_File string string | Start_Supplicant string | Kill_Supplicant

type_synonym shell = "shell_cmd list \<Rightarrow> shell_cmd \<Rightarrow> string option"

definition run_cmd :: "shell \<Rightarrow> shell_cmd \<Rightarrow> shell_cmd list \<Rightarrow> string option \<times> shell_cmd list" where
  "run_cmd sh c prev = (sh prev c, prev @ [c])"

fun getInterfaceType_lines :: "string list \<Rightarrow> string option" where
  "getInterfaceType_lines [] = None"
| "getInterfaceType_lines (l # ls) =
     (case cut_prefix ''type '' (trim_space l) of Some t \<Rightarrow> Some t | None \<Rightarrow> getInterfaceType_lines ls)"

definition getInterfaceType :: "(string + string list) \<Rightarrow> string + string" where
  "getInterfaceType info =
     (case info of
        Inl e \<Rightarrow> Inl e
      | Inr ls \<Rightarrow> (case getInterfaceType_lines ls of None \<Rightarrow> Inl ''could not determine interface type'' | Some t \<Rightarrow> Inr t))"

definition setInterfaceType :: "shell \<Rightarrow> string \<Rightarrow> string \<Rightarrow> shell_cmd list \<Rightarrow> string option \<times> shell_cmd list" where
  "setInterfaceType sh iface typeStr prev =
     (let (_, prev) = run_cmd sh (Link_Down iface) prev;
          (err, prev) = run_cmd sh (Set_Type iface typeStr) prev
      in if err \<noteq> None then (err, prev) else run_cmd sh (Link_Up iface) prev)"

definition channelToFreq :: "u32 \<Rightarrow> u32 \<times> u32" where
  "channelToFreq channel =
     (if channel = 14 then (14, 2484)
      else if channel \<ge> 1 \<and> channel \<le> 13 then (channel, 2407 + channel * 5)
      else if channel \<ge> 36 \<and> channel \<le> 165 then (channel, 5000 + channel * 5)
      else if channel \<ge> 169 \<and> channel \<le> 177 then (channel, 5950 + channel * 5)
      else (channel, 0))"

definition getPhyChannels :: "string list option \<Rightarrow> (string \<Rightarrow> string list option) \<Rightarrow> u32 list option" where
  "getPhyChannels info phy_channels =
     (case info of
        None \<Rightarrow> None
      | Some ls \<Rightarrow>
          (let phy = parsePhyName ls
           in if phy = '''' then None else map_option parseIWPhyChannels (phy_channels phy)))"

section \<open>The survey\<close>

definition ParseUint64 :: "string \<Rightarrow> u64 option" where
  "ParseUint64 s =
     (if s \<noteq> [] \<and> list_all is_digit s \<and> int (atoi_digits 0 s) < 2 ^ 64 then Some (of_nat (atoi_digits 0 s)) else None)"

text \<open>The first field after a label, if it is a number.\<close>

definition labelled :: "(string \<Rightarrow> 'a option) \<Rightarrow> string \<Rightarrow> string \<Rightarrow> 'a option" where
  "labelled parse label line = (case Fields (drop (length label) line) of [] \<Rightarrow> None | f # _ \<Rightarrow> parse f)"

record survey =
  sv_freq :: u32
  sv_activems :: u64
  sv_busyms :: u64
  sv_result :: "u32 \<rightharpoonup> WlanChannelStat"

definition survey_entry :: "u32 \<Rightarrow> u64 \<Rightarrow> u64 \<Rightarrow> WlanChannelStat" where
  "survey_entry freq activems busyms =
     \<lparr>ch_Channel = fst (channelAndBand freq), ch_FreqMHz = freq, ch_ActiveMs = activems, ch_BusyMs = busyms,
      ch_UtilizationPct = (if activems > 0 then of_nat (unat busyms) / of_nat (unat activems) * 100 else 0), ch_Frames = 0\<rparr>"

definition survey_line :: "string \<Rightarrow> survey \<Rightarrow> survey" where
  "survey_line raw s =
     (let line = trim_space raw
      in if has_prefix line ''frequency:'' then
           (case labelled ParseUint32 ''frequency:'' line of None \<Rightarrow> s | Some f \<Rightarrow> s\<lparr>sv_freq := f\<rparr>)
         else if has_prefix line ''channel active time:'' then
           (case labelled ParseUint64 ''channel active time:'' line of None \<Rightarrow> s | Some a \<Rightarrow> s\<lparr>sv_activems := a\<rparr>)
         else if has_prefix line ''channel busy time:'' then
           (case labelled ParseUint64 ''channel busy time:'' line of
              None \<Rightarrow> s
            | Some b \<Rightarrow>
                (if sv_freq s > 0 \<and> sv_activems s > 0
                 then \<lparr>sv_freq = 0, sv_activems = 0, sv_busyms = 0,
                       sv_result = (sv_result s)(sv_freq s \<mapsto> survey_entry (sv_freq s) (sv_activems s) b)\<rparr>
                 else s\<lparr>sv_busyms := b\<rparr>))
         else s)"

definition parseIWSurveyDump :: "string list \<Rightarrow> u32 \<rightharpoonup> WlanChannelStat" where
  "parseIWSurveyDump out =
     sv_result (fold survey_line out \<lparr>sv_freq = 0, sv_activems = 0, sv_busyms = 0, sv_result = Map.empty\<rparr>)"

text \<open>\<open>order\<close> is the order in which the frequencies are walked.\<close>

definition getSurveyStats ::
  "((u32 \<rightharpoonup> WlanChannelStat) \<Rightarrow> u32 list) \<Rightarrow> string list option \<Rightarrow> u32 \<rightharpoonup> WlanChannelStat" where
  "getSurveyStats order out =
     (case out of
        None \<Rightarrow> Map.empty
      | Some ls \<Rightarrow>
          (let surveyData = parseIWSurveyDump ls
           in fold (\<lambda>f m. case surveyData f of
                       Some stat \<Rightarrow> (if ch_Channel stat > 0 then m(ch_Channel stat \<mapsto> stat) else m)
                     | None \<Rightarrow> m) (order surveyData) Map.empty))"

section \<open>The capture on a channel\<close>

text \<open>The frames read until the dwell time is over; \<open>None\<close> would be a panic.\<close>

definition captureOnChannel :: "packet list \<Rightarrow> int \<Rightarrow> (stations \<times> u32 \<times> networks) option" where
  "captureOnChannel frames now =
     map_option (\<lambda>(sts, nets). (sts, of_nat (length frames), nets)) (sweep (map (\<lambda>p. (p, now)) frames) (Map.empty, Map.empty))"

section \<open>Merging the channels\<close>

definition merge_network :: "u32 \<Rightarrow> probe_WlanNetwork option \<Rightarrow> probe_WlanNetwork \<Rightarrow> probe_WlanNetwork" where
  "merge_network ch existing n =
     (case existing of
        None \<Rightarrow> n\<lparr>pn_Channel := ch, pn_FreqMHz := snd (channelToFreq ch)\<rparr>
      | Some e \<Rightarrow>
          (let e = e\<lparr>pn_Beacons := pn_Beacons e + pn_Beacons n, pn_SSID := keep_str (pn_SSID n) (pn_SSID e)\<rparr>
           in if pn_RSSIdBm n > pn_RSSIdBm e
              then e\<lparr>pn_RSSIdBm := pn_RSSIdBm n, pn_Channel := ch, pn_FreqMHz := snd (channelToFreq ch)\<rparr> else e))"

text \<open>Division of a signed integer by two, toward zero.\<close>

definition half :: "int \<Rightarrow> int" where
  "half x = (if x < 0 then - (- x div 2) else x div 2)"

definition merge_sighting :: "probe_WlanStation option \<Rightarrow> probe_WlanStation \<Rightarrow> probe_WlanStation" where
  "merge_sighting existing s =
     (case existing of
        None \<Rightarrow> s
      | Some e \<Rightarrow> e\<lparr>ps_RSSIdBm := (if ps_RSSIdBm s > ps_RSSIdBm e then ps_RSSIdBm s else ps_RSSIdBm e),
          ps_RSSIAvgdBm := (if ps_RSSIAvgdBm e = 0 then ps_RSSIdBm s else half (ps_RSSIAvgdBm e + ps_RSSIdBm s)),
          ps_RateMbps := (if ps_RateMbps s > 0 then ps_RateMbps s else ps_RateMbps e),
          ps_MCS := (if ps_MCS s \<ge> 0 then ps_MCS s else ps_MCS e),
          ps_Frames := ps_Frames e + ps_Frames s, ps_LastSeenMs := ps_LastSeenMs s,
          ps_BSSID := keep_str (ps_BSSID s) (ps_BSSID e)\<rparr>)"

text \<open>A map merged into another, entry by entry: the entries are independent, so their order does not matter.\<close>

definition merge_maps :: "('v option \<Rightarrow> 'v \<Rightarrow> 'v) \<Rightarrow> (string \<rightharpoonup> 'v) \<Rightarrow> (string \<rightharpoonup> 'v) \<Rightarrow> string \<rightharpoonup> 'v" where
  "merge_maps f captured kept = (\<lambda>k. case captured k of None \<Rightarrow> kept k | Some v \<Rightarrow> Some (f (kept k) v))"

record sweep_state =
  sp_stations :: stations
  sp_networks :: networks
  sp_stats :: "u32 \<rightharpoonup> WlanChannelStat"

definition init_stat :: "u32 \<Rightarrow> (u32 \<rightharpoonup> WlanChannelStat) \<Rightarrow> u32 \<rightharpoonup> WlanChannelStat" where
  "init_stat ch m =
     (let freq = snd (channelToFreq ch)
      in if freq > 0 then m(ch \<mapsto> \<lparr>ch_Channel = ch, ch_FreqMHz = freq, ch_ActiveMs = 0, ch_BusyMs = 0, ch_UtilizationPct = 0,
                                  ch_Frames = 0\<rparr>) else m)"

definition init_stats :: "u32 list \<Rightarrow> u32 \<rightharpoonup> WlanChannelStat" where
  "init_stats channels = fold init_stat channels Map.empty"

definition merge_capture :: "u32 \<Rightarrow> stations \<times> u32 \<times> networks \<Rightarrow> sweep_state \<Rightarrow> sweep_state" where
  "merge_capture ch captured st =
     (case captured of (sts, frames, nets) \<Rightarrow>
       \<lparr>sp_stations = merge_maps merge_sighting sts (sp_stations st),
        sp_networks = merge_maps (merge_network ch) nets (sp_networks st),
        sp_stats = (case sp_stats st ch of
                      None \<Rightarrow> sp_stats st
                    | Some stat \<Rightarrow> (sp_stats st)(ch \<mapsto> stat\<lparr>ch_Frames := ch_Frames stat + frames\<rparr>))\<rparr>)"

text \<open>
  What happens on a channel: the context is done, the tuning may fail (\<open>sh\<close>), the capture may not open
  (\<open>None\<close>), or it reads frames from a moment on. The number is the channel's position in the list.
\<close>

fun sweep_channels ::
  "shell \<Rightarrow> (nat \<Rightarrow> bool) \<Rightarrow> (nat \<Rightarrow> (packet list \<times> int) option) \<Rightarrow> string \<Rightarrow> nat \<Rightarrow> u32 list \<Rightarrow> sweep_state \<Rightarrow> shell_cmd list
   \<Rightarrow> (sweep_state option \<times> shell_cmd list) option" where
  "sweep_channels sh alive captures iface i [] st prev = Some (Some st, prev)"
| "sweep_channels sh alive captures iface i (ch # chs) st prev =
     (if \<not> alive i then Some (None, prev)
      else let (err, prev) = run_cmd sh (Set_Channel iface ch) prev
           in if err \<noteq> None then sweep_channels sh alive captures iface (i + 1) chs st prev
              else case captures i of
                None \<Rightarrow> sweep_channels sh alive captures iface (i + 1) chs st prev
              | Some (frames, now) \<Rightarrow>
                  do { captured \<leftarrow> captureOnChannel frames now;
                       sweep_channels sh alive captures iface (i + 1) chs (merge_capture ch captured st) prev })"

definition resolve_ssids :: "networks \<Rightarrow> stations \<Rightarrow> stations" where
  "resolve_ssids nets sts =
     (\<lambda>mac. map_option (\<lambda>s. if ps_BSSID s = '''' then s
                            else case nets (ps_BSSID s) of None \<Rightarrow> s | Some n \<Rightarrow> s\<lparr>ps_SSID := pn_SSID n\<rparr>) (sts mac))"

definition add_survey :: "(u32 \<rightharpoonup> WlanChannelStat) \<Rightarrow> (u32 \<rightharpoonup> WlanChannelStat) \<Rightarrow> u32 \<rightharpoonup> WlanChannelStat" where
  "add_survey surveyData stats =
     (\<lambda>ch. case (stats ch, surveyData ch) of
             (Some e, Some stat) \<Rightarrow> Some (e\<lparr>ch_ActiveMs := ch_ActiveMs stat, ch_BusyMs := ch_BusyMs stat,
                                           ch_UtilizationPct := ch_UtilizationPct stat\<rparr>)
           | _ \<Rightarrow> stats ch)"

text \<open>The first 256 entries of a map in the order it is walked.\<close>

definition capped :: "((string \<rightharpoonup> 'v) \<Rightarrow> string list) \<Rightarrow> (string \<rightharpoonup> 'v) \<Rightarrow> 'v list" where
  "capped order m = take 256 (List.map_filter m (order m))"

section \<open>The sweep\<close>

record sweep_world =
  sw_shell :: shell
  sw_info :: "string + string list"
  sw_info_again :: "string list option"
  sw_phy_channels :: "string \<Rightarrow> string list option"
  sw_alive :: "nat \<Rightarrow> bool"
  sw_captures :: "nat \<Rightarrow> (packet list \<times> int) option"
  sw_survey :: "string list option"
  sw_station_order :: "stations \<Rightarrow> string list"
  sw_network_order :: "networks \<Rightarrow> string list"
  sw_survey_order :: "(u32 \<rightharpoonup> WlanChannelStat) \<Rightarrow> u32 list"
  sw_sweep_ms :: u32

definition sweep_plan :: "sweep_world \<Rightarrow> u32 list \<Rightarrow> u32 list" where
  "sweep_plan w channels =
     (if channels \<noteq> [] then channels
      else case getPhyChannels (sw_info_again w) (sw_phy_channels w) of
             None \<Rightarrow> [1, 6, 11, 36, 40, 44, 48, 149, 153, 157, 161]
           | Some chs \<Rightarrow> chs)"

definition sense_result :: "sweep_world \<Rightarrow> string \<Rightarrow> u32 list \<Rightarrow> sweep_state \<Rightarrow> SenseResult" where
  "sense_result w iface channels st =
     (let stats = add_survey (getSurveyStats (sw_survey_order w) (sw_survey w)) (sp_stats st)
      in \<lparr>sn_Interface = iface,
          sn_Stations = capped (sw_station_order w) (resolve_ssids (sp_networks st) (sp_stations st)),
          sn_Channels = List.map_filter stats channels,
          sn_Networks = capped (sw_network_order w) (sp_networks st),
          sn_SweepMs = sw_sweep_ms w\<rparr>)"

definition restore_type :: "shell \<Rightarrow> string \<Rightarrow> string \<Rightarrow> shell_cmd list \<Rightarrow> shell_cmd list" where
  "restore_type sh iface originalType prev =
     (if originalType \<noteq> ''monitor'' then snd (setInterfaceType sh iface originalType prev) else prev)"

text \<open>\<open>None\<close> would be a panic; else the outcome with the commands run.\<close>

definition senseImpl :: "sweep_world \<Rightarrow> string \<Rightarrow> u32 list \<Rightarrow> (SenseResult outcome \<times> shell_cmd list) option" where
  "senseImpl w iface channels =
     (case getInterfaceType (sw_info w) of
        Inl e \<Rightarrow> Some (Failed (''failed to detect interface type: '' @ e), [])
      | Inr originalType \<Rightarrow>
          (let (err, prev) = (if originalType \<noteq> ''monitor'' then setInterfaceType (sw_shell w) iface ''monitor'' [] else (None, []))
           in case err of
                Some e \<Rightarrow> Some (Failed (''failed to set monitor mode: '' @ e), prev)
              | None \<Rightarrow>
                  (let channels = sweep_plan w channels
                   in do { (swept, prev) \<leftarrow> sweep_channels (sw_shell w) (sw_alive w) (sw_captures w) iface 0 channels
                             \<lparr>sp_stations = Map.empty, sp_networks = Map.empty, sp_stats = init_stats channels\<rparr> prev;
                           Some (case swept of None \<Rightarrow> Cancelled | Some st \<Rightarrow> Finished (sense_result w iface channels st),
                                 restore_type (sw_shell w) iface originalType prev) })))"

section \<open>The type of the interface\<close>

text \<open>The type after the commands of a list, those that failed leaving it as it was.\<close>

definition cmd_type :: "shell \<Rightarrow> string \<Rightarrow> shell_cmd list \<Rightarrow> shell_cmd \<Rightarrow> string \<Rightarrow> string" where
  "cmd_type sh iface prev c m =
     (case c of Set_Type f t' \<Rightarrow> (if f = iface \<and> sh prev c = None then t' else m) | _ \<Rightarrow> m)"

text \<open>The effect of a list of commands, each with those before it.\<close>

fun effect_from :: "(shell_cmd list \<Rightarrow> shell_cmd \<Rightarrow> 'm \<Rightarrow> 'm) \<Rightarrow> 'm \<Rightarrow> shell_cmd list \<Rightarrow> shell_cmd list \<Rightarrow> 'm" where
  "effect_from f m prev [] = m"
| "effect_from f m prev (c # cs) = effect_from f (f prev c m) (prev @ [c]) cs"

definition effect_after :: "(shell_cmd list \<Rightarrow> shell_cmd \<Rightarrow> 'm \<Rightarrow> 'm) \<Rightarrow> 'm \<Rightarrow> shell_cmd list \<Rightarrow> 'm" where
  "effect_after f m cmds = effect_from f m [] cmds"

definition type_after :: "shell \<Rightarrow> string \<Rightarrow> string \<Rightarrow> shell_cmd list \<Rightarrow> string" where
  "type_after sh iface t cmds = effect_after (cmd_type sh iface) t cmds"

lemma effect_from_snoc: "effect_from f m prev (cs @ [c]) = f (prev @ cs) c (effect_from f m prev cs)"
  by (induction cs arbitrary: m prev) simp_all

lemma effect_after_snoc [simp]: "effect_after f m (cs @ [c]) = f cs c (effect_after f m cs)"
  by (simp add: effect_after_def effect_from_snoc)

lemma effect_after_Nil [simp]: "effect_after f m [] = m"
  by (simp add: effect_after_def)

lemma type_after_Nil [simp]: "type_after sh iface t [] = t"
  by (simp add: type_after_def)

lemma type_after_snoc [simp]: "type_after sh iface t (prev @ [c]) = cmd_type sh iface prev c (type_after sh iface t prev)"
  by (simp add: type_after_def)

lemma cmd_type_other [simp]:
  "cmd_type sh iface prev (Link_Down f) m = m" "cmd_type sh iface prev (Link_Up f) m = m"
  "cmd_type sh iface prev (Set_Channel f ch) m = m" "cmd_type sh iface prev (Power_Save_Off f) m = m"
  "cmd_type sh iface prev (Addr_Add f a) m = m" "cmd_type sh iface prev (Route_Add f a) m = m"
  "cmd_type sh iface prev (Rule_Add a) m = m" "cmd_type sh iface prev (Rule_Del a) m = m"
  "cmd_type sh iface prev Route_Flush m = m" "cmd_type sh iface prev (Addr_Del f a) m = m"
  "cmd_type sh iface prev Make_Dir m = m" "cmd_type sh iface prev Remove_Dir m = m"
  "cmd_type sh iface prev (Write_File f c) m = m" "cmd_type sh iface prev (Start_Supplicant f) m = m"
  "cmd_type sh iface prev Kill_Supplicant m = m"
  by (simp_all add: cmd_type_def)

lemma cmd_type_set [simp]:
  "cmd_type sh iface prev (Set_Type iface t) m = (if sh prev (Set_Type iface t) = None then t else m)"
  by (simp add: cmd_type_def)

lemma setInterfaceType_type:
  "setInterfaceType sh iface t' prev = (err, prev') \<Longrightarrow>
     type_after sh iface t prev' = (if sh (prev @ [Link_Down iface]) (Set_Type iface t') = None then t' else type_after sh iface t prev)"
  by (auto simp: setInterfaceType_def run_cmd_def Let_def simp flip: append_assoc split: if_splits)

lemma sweep_channels_type:
  "sweep_channels sh alive captures iface i chs st prev = Some (r, prev') \<Longrightarrow> type_after sh iface t prev' = type_after sh iface t prev"
  by (induction sh alive captures iface i chs st prev rule: sweep_channels.induct)
    (auto simp: run_cmd_def Let_def split: if_splits option.splits bind_splits prod.splits)

lemma restore_type_type:
  "\<forall>h. sh h (Set_Type iface t) = None \<Longrightarrow> t = ''monitor'' \<longrightarrow> type_after sh iface t prev = ''monitor''
   \<Longrightarrow> type_after sh iface t (restore_type sh iface t prev) = t"
  using setInterfaceType_type [of sh iface t prev] by (cases "setInterfaceType sh iface t prev") (auto simp: restore_type_def)

text \<open>
  A sweep hands the interface back as it found it: whatever the frames, the failed tunings and the moment
  of a cancellation, the interface ends with the type it had, given that it can be set back and brought up.
\<close>

theorem sweep_restores_type:
  assumes "getInterfaceType (sw_info w) = Inr t" "senseImpl w iface channels = Some (r, prev)"
    and "\<forall>h. sw_shell w h (Set_Type iface t) = None" "\<forall>h. sw_shell w h (Link_Up iface) = None"
  shows "type_after (sw_shell w) iface t prev = t"
proof (cases "t = ''monitor''")
  case True
  then show ?thesis
    using assms(1,2) sweep_channels_type [of "sw_shell w", where t = t]
    by (fastforce simp: senseImpl_def Let_def restore_type_def split: bind_splits)
next
  case False
  obtain err prev' where set: "setInterfaceType (sw_shell w) iface ''monitor'' [] = (err, prev')"
    by (cases "setInterfaceType (sw_shell w) iface ''monitor'' []")
  have "type_after (sw_shell w) iface t prev' = t" if "err \<noteq> None"
    using set that assms(4) setInterfaceType_type [OF set, of t]
    by (auto simp: setInterfaceType_def run_cmd_def Let_def split: if_splits)
  then show ?thesis
    using False set assms(1,2) assms(3) restore_type_type [of "sw_shell w" iface t]
    by (auto simp: senseImpl_def Let_def split: option.splits bind_splits)
qed

definition idle_world :: "shell \<Rightarrow> sweep_world" where
  "idle_world sh = \<lparr>sw_shell = sh, sw_info = Inr [''Interface wlan0'', '' type managed''], sw_info_again = None,
     sw_phy_channels = Map.empty, sw_alive = (\<lambda>_. True), sw_captures = (\<lambda>_. Some ([], 0)), sw_survey = None,
     sw_station_order = (\<lambda>_. []), sw_network_order = (\<lambda>_. []), sw_survey_order = (\<lambda>_. []), sw_sweep_ms = 5\<rparr>"

lemma idle_info: "getInterfaceType (sw_info (idle_world sh)) = Inr ''managed''"
  by code_simp

lemma idle_sweep: "map_option snd (senseImpl (idle_world (\<lambda>_ _. None)) ''w'' [6]) = Some
  [Link_Down ''w'', Set_Type ''w'' ''monitor'', Link_Up ''w'', Set_Channel ''w'' 6,
   Link_Down ''w'', Set_Type ''w'' ''managed'', Link_Up ''w'']"
  by code_simp

theorem sweep_restores_type_witness:
  "\<exists>r prev. senseImpl (idle_world (\<lambda>_ _. None)) ''w'' [6] = Some (r, prev) \<and> length prev = 7
     \<and> type_after (\<lambda>_ _. None) ''w'' ''managed'' prev = ''managed''"
proof -
  obtain r prev where r: "senseImpl (idle_world (\<lambda>_ _. None)) ''w'' [6] = Some (r, prev)" and "length prev = 7"
    using idle_sweep by (cases "senseImpl (idle_world (\<lambda>_ _. None)) ''w'' [6]") auto
  moreover have "type_after (\<lambda>_ _. None) ''w'' ''managed'' prev = ''managed''"
    using sweep_restores_type [OF idle_info r] by (simp add: idle_world_def)
  ultimately show ?thesis
    by blast
qed

text \<open>
  An interface that takes the monitor type but cannot be brought up is left in monitor mode: the restoring
  step is registered only after the switch has succeeded as a whole.
\<close>

theorem failed_link_up_keeps_monitor:
  assumes "sh = (\<lambda>_ c. if c = Link_Up ''w'' then Some ''rfkill'' else None)"
  shows "\<exists>prev. senseImpl (idle_world sh) ''w'' channels = Some (Failed ''failed to set monitor mode: rfkill'', prev)
    \<and> type_after sh ''w'' ''managed'' prev = ''monitor''"
  using idle_info [of sh]
  by (simp add: assms senseImpl_def setInterfaceType_def run_cmd_def Let_def idle_world_def type_after_def effect_after_def cmd_type_def)

section \<open>What a sweep reports\<close>

definition swept_network_ok :: "u32 list \<Rightarrow> string \<Rightarrow> probe_WlanNetwork \<Rightarrow> bool" where
  "swept_network_ok chs b n \<longleftrightarrow> isUnicastMAC b \<and> pn_BSSID n = b \<and> pn_Channel n \<in> set chs
     \<and> pn_FreqMHz n = snd (channelToFreq (pn_Channel n))"

definition own_channel :: "(u32 \<rightharpoonup> WlanChannelStat) \<Rightarrow> bool" where
  "own_channel m \<longleftrightarrow> (\<forall>ch s. m ch = Some s \<longrightarrow> ch_Channel s = ch)"

definition sweep_state_ok :: "u32 list \<Rightarrow> sweep_state \<Rightarrow> bool" where
  "sweep_state_ok chs st \<longleftrightarrow> stations_ok (sp_stations st)
     \<and> (\<forall>b n. sp_networks st b = Some n \<longrightarrow> swept_network_ok chs b n)
     \<and> own_channel (sp_stats st)"

lemma captureOnChannel_returns: "\<exists>c. captureOnChannel frames now = Some c"
  using sweep_returns by (force simp: captureOnChannel_def)

lemma captureOnChannel_ok: "captureOnChannel frames now = Some (sts, n, nets) \<Longrightarrow> stations_ok sts \<and> networks_ok nets"
  using sweep_ok [of "map (\<lambda>p. (p, now)) frames" "(Map.empty, Map.empty)"]
  by (auto simp: captureOnChannel_def maps_ok_def stations_ok_def networks_ok_def)

lemma merge_sighting_ok: "station_ok mac s \<Longrightarrow> pred_option (station_ok mac) e \<Longrightarrow> station_ok mac (merge_sighting e s)"
  by (cases e) (simp_all add: merge_sighting_def station_ok_def)

lemma merge_network_ok:
  "network_ok b n \<Longrightarrow> ch \<in> set chs \<Longrightarrow> pred_option (swept_network_ok chs b) e \<Longrightarrow> swept_network_ok chs b (merge_network ch e n)"
  by (cases e) (simp_all add: merge_network_def network_ok_def swept_network_ok_def Let_def)

lemma merge_capture_ok:
  assumes "sweep_state_ok chs st" "stations_ok sts" "networks_ok nets" "ch \<in> set chs"
  shows "sweep_state_ok chs (merge_capture ch (sts, n, nets) st)"
proof -
  have "stations_ok (merge_maps merge_sighting sts (sp_stations st))"
    using assms(1,2) merge_sighting_ok
    by (force simp: stations_ok_def sweep_state_ok_def merge_maps_def option.pred_set split: option.splits)
  moreover have "swept_network_ok chs b m" if "merge_maps (merge_network ch) nets (sp_networks st) b = Some m" for b m
    using that assms(1,3) merge_network_ok [OF _ assms(4)]
    by (force simp: networks_ok_def sweep_state_ok_def merge_maps_def option.pred_set split: option.splits)
  ultimately show ?thesis
    using assms(1) by (auto simp: merge_capture_def sweep_state_ok_def own_channel_def split: option.splits if_splits)
qed

lemma sweep_channels_returns: "\<exists>r. sweep_channels sh alive captures iface i chs st prev = Some r"
proof (induction chs arbitrary: i st prev)
  case (Cons ch chs)
  show ?case
  proof (cases "captures i")
    case None
    then show ?thesis
      using Cons by (simp add: run_cmd_def Let_def)
  next
    case (Some fr)
    obtain c where "captureOnChannel (fst fr) (snd fr) = Some c"
      using captureOnChannel_returns by blast
    then show ?thesis
      using Some Cons by (simp add: run_cmd_def Let_def case_prod_unfold)
  qed
qed simp

lemma sweep_channels_ok:
  "sweep_channels sh alive captures iface i chs st prev = Some (Some st', prev') \<Longrightarrow> set chs \<subseteq> set swept
   \<Longrightarrow> sweep_state_ok swept st \<Longrightarrow> sweep_state_ok swept st'"
proof (induction chs arbitrary: i st prev)
  case (Cons ch chs)
  show ?case
  proof (cases "captures i")
    case None
    then show ?thesis
      using Cons by (simp add: run_cmd_def Let_def split: if_splits)
  next
    case (Some fr)
    obtain sts n nets where c: "captureOnChannel (fst fr) (snd fr) = Some (sts, n, nets)"
      using captureOnChannel_returns by (metis prod_cases3)
    have "sweep_state_ok swept (merge_capture ch (sts, n, nets) st)"
      using merge_capture_ok captureOnChannel_ok [OF c] Cons.prems(2,3) by simp
    then show ?thesis
      using Some Cons c by (simp add: run_cmd_def Let_def case_prod_unfold split: if_splits)
  qed
qed simp

lemma init_stat_ok: "own_channel m \<Longrightarrow> own_channel (init_stat ch m)"
  by (auto simp: init_stat_def Let_def own_channel_def)

lemma init_stats_ok: "own_channel (init_stats chs)"
proof -
  have "own_channel m \<Longrightarrow> own_channel (fold init_stat chs m)" for m
    by (induction chs arbitrary: m) (simp_all add: init_stat_ok)
  moreover have "own_channel Map.empty"
    by (simp add: own_channel_def)
  ultimately show ?thesis
    by (simp add: init_stats_def)
qed

lemma senseImpl_returns: "\<exists>r. senseImpl w iface channels = Some r"
proof (cases "getInterfaceType (sw_info w)")
  case (Inr t)
  let ?chs = "sweep_plan w channels"
  let ?st = "\<lparr>sp_stations = Map.empty, sp_networks = Map.empty, sp_stats = init_stats ?chs\<rparr>"
  obtain err pre where pre: "(if t \<noteq> ''monitor'' then setInterfaceType (sw_shell w) iface ''monitor'' [] else (None, [])) = (err, pre)"
    by fastforce
  obtain r where "sweep_channels (sw_shell w) (sw_alive w) (sw_captures w) iface 0 ?chs ?st pre = Some r"
    using sweep_channels_returns by blast
  then show ?thesis
    using Inr by (cases err) (simp_all add: senseImpl_def pre Let_def case_prod_unfold)
qed (simp add: senseImpl_def)

lemma senseImpl_finished:
  assumes "senseImpl w iface channels = Some (Finished r, prev)"
  obtains st where "sweep_state_ok (sweep_plan w channels) st" "r = sense_result w iface (sweep_plan w channels) st"
proof -
  let ?chs = "sweep_plan w channels"
  let ?st = "\<lparr>sp_stations = Map.empty, sp_networks = Map.empty, sp_stats = init_stats ?chs\<rparr>"
  have "sweep_state_ok ?chs ?st"
    by (simp add: sweep_state_ok_def stations_ok_def init_stats_ok)
  moreover obtain st pre mid where "sweep_channels (sw_shell w) (sw_alive w) (sw_captures w) iface 0 ?chs ?st pre = Some (Some st, mid)"
      "r = sense_result w iface ?chs st"
    using assms by (auto simp: senseImpl_def Let_def split: sum.splits option.splits bind_splits prod.splits if_splits)
  ultimately show ?thesis
    using sweep_channels_ok that by blast
qed

lemma map_filter_distinct:
  assumes "distinct ks" "\<And>k v. m k = Some v \<Longrightarrow> key v = k"
  shows "distinct (map key (List.map_filter m ks))"
proof -
  have "map key (List.map_filter m ks) = filter (\<lambda>k. m k \<noteq> None) ks"
    using assms(2) by (induction ks) (auto simp: List.map_filter_simps split: option.splits)
  then show ?thesis
    using assms(1) by simp
qed

lemma in_map_filter: "x \<in> set (List.map_filter m ks) \<Longrightarrow> \<exists>k \<in> set ks. m k = Some x"
  by (auto simp: List.map_filter_def)

lemma resolve_ssids_ok: "stations_ok sts \<Longrightarrow> stations_ok (resolve_ssids nets sts)"
  by (auto simp: stations_ok_def resolve_ssids_def station_ok_def split: option.splits if_splits)

lemma add_survey_ok: "own_channel stats \<Longrightarrow> own_channel (add_survey sv stats)"
  by (auto simp: own_channel_def add_survey_def split: option.splits)

lemma capped_distinct: "distinct (order m) \<Longrightarrow> (\<And>k v. m k = Some v \<Longrightarrow> key v = k) \<Longrightarrow> distinct (map key (capped order m))"
  using map_filter_distinct [of "order m" m key] by (simp add: capped_def take_map [symmetric] distinct_take)

lemma in_capped: "x \<in> set (capped order m) \<Longrightarrow> \<exists>k. m k = Some x"
  by (auto simp: capped_def dest!: in_set_takeD in_map_filter)

text \<open>
  A sweep never panics, whatever bytes are on the air, and a finished one reports at most 256 stations and
  256 networks, no address twice and only unicast ones; every network carries a channel that was swept with
  that channel's frequency, and every channel figure is of a swept channel.
\<close>

theorem sweep_report_ok:
  assumes "\<forall>m. distinct (sw_station_order w m)" "\<forall>m. distinct (sw_network_order w m)"
  shows "case senseImpl w iface channels of
      None \<Rightarrow> False
    | Some (Finished r, _) \<Rightarrow>
        length (sn_Stations r) \<le> 256 \<and> distinct (map ps_MAC (sn_Stations r)) \<and> list_all (isUnicastMAC \<circ> ps_MAC) (sn_Stations r)
        \<and> length (sn_Networks r) \<le> 256 \<and> distinct (map pn_BSSID (sn_Networks r)) \<and> list_all (isUnicastMAC \<circ> pn_BSSID) (sn_Networks r)
        \<and> list_all (\<lambda>n. pn_Channel n \<in> set (sweep_plan w channels) \<and> pn_FreqMHz n = snd (channelToFreq (pn_Channel n))) (sn_Networks r)
        \<and> list_all (\<lambda>s. ch_Channel s \<in> set (sweep_plan w channels)) (sn_Channels r)
    | Some _ \<Rightarrow> True"
proof -
  obtain r prev where r: "senseImpl w iface channels = Some (r, prev)"
    using senseImpl_returns by (metis surj_pair)
  show ?thesis
  proof (cases r)
    case (Finished res)
    then obtain st where ok: "sweep_state_ok (sweep_plan w channels) st" and res: "res = sense_result w iface (sweep_plan w channels) st"
      using r senseImpl_finished by metis
    have sts: "station_ok k v" if "resolve_ssids (sp_networks st) (sp_stations st) k = Some v" for k v
      using that ok resolve_ssids_ok by (auto simp: sweep_state_ok_def stations_ok_def)
    have nets: "swept_network_ok (sweep_plan w channels) k v" if "sp_networks st k = Some v" for k v
      using that ok by (simp add: sweep_state_ok_def)
    have stats: "own_channel (add_survey sv (sp_stats st))" for sv
      using ok add_survey_ok by (simp add: sweep_state_ok_def)
    have "distinct (map ps_MAC (sn_Stations res))" "distinct (map pn_BSSID (sn_Networks res))"
      using assms sts nets by (auto simp: res sense_result_def Let_def station_ok_def swept_network_ok_def intro!: capped_distinct)
    moreover have "list_all (isUnicastMAC \<circ> ps_MAC) (sn_Stations res)"
      using sts by (auto simp: res sense_result_def Let_def list_all_iff station_ok_def dest!: in_capped)
    moreover have "list_all (isUnicastMAC \<circ> pn_BSSID) (sn_Networks res)"
        "list_all (\<lambda>n. pn_Channel n \<in> set (sweep_plan w channels) \<and> pn_FreqMHz n = snd (channelToFreq (pn_Channel n))) (sn_Networks res)"
      using nets by (auto simp: res sense_result_def Let_def list_all_iff swept_network_ok_def dest!: in_capped)
    moreover have "list_all (\<lambda>s. ch_Channel s \<in> set (sweep_plan w channels)) (sn_Channels res)"
      using stats by (auto simp: res sense_result_def Let_def list_all_iff own_channel_def dest!: in_map_filter)
    ultimately show ?thesis
      using r Finished by (simp add: res sense_result_def Let_def capped_def)
  qed (simp_all add: r)
qed

definition heard_frame :: packet where
  "heard_frame = \<lparr>pk_RadioTap = [\<lparr>rt_BadFCS = False, rt_DBMAntennaSignal = -61, rt_Rate = 12, rt_MCS = None\<rparr>], pk_Type = Data,
     pk_ToDS = True, pk_FromDS = False, pk_Address1 = Some ''04:aa'', pk_Address2 = Some ''02:bb'', pk_Address3 = Some ''04:aa'',
     pk_Payload = []\<rparr>"

definition heard_world :: sweep_world where
  "heard_world = (idle_world (\<lambda>_ _. None))\<lparr>sw_captures := (\<lambda>_. Some ([heard_frame], 7)), sw_station_order := (\<lambda>_. [''02:bb''])\<rparr>"

lemma heard_sweep: "(case senseImpl heard_world ''w'' [6] of Some (Finished r, _) \<Rightarrow> map (\<lambda>s. (ps_MAC s, ps_Frames s, ps_RSSIAvgdBm s)) (sn_Stations r)
    | _ \<Rightarrow> []) = [(''02:bb'', 1, 0)]"
  by code_simp

theorem sweep_report_ok_witness:
  "\<exists>r prev. senseImpl heard_world ''w'' [6] = Some (Finished r, prev) \<and> map ps_MAC (sn_Stations r) = [''02:bb'']
     \<and> list_all (isUnicastMAC \<circ> ps_MAC) (sn_Stations r)"
proof -
  have "distinct (sw_station_order heard_world m)" "distinct (sw_network_order heard_world n)" for m n
    by (simp_all add: heard_world_def idle_world_def)
  then show ?thesis
    using sweep_report_ok [where w = heard_world and iface = "''w''" and channels = "[6]"] heard_sweep
    by (auto split: option.splits prod.splits outcome.splits)
qed

text \<open>
  The average of a station heard on one channel only is 0, not its signal: the average starts with the second
  channel that hears the station, and then leaves out the first.
\<close>

theorem average_skips_first_channel:
  assumes "ps_RSSIAvgdBm s = 0"
  shows "ps_RSSIAvgdBm (merge_sighting None s) = 0 \<and> ps_RSSIAvgdBm (merge_sighting (Some s) s') = ps_RSSIdBm s'"
  using assms by (simp add: merge_sighting_def)

section \<open>Channels and frequencies\<close>

definition sweepable :: "u32 list" where
  "sweepable = map of_nat ([1..<15] @ [36..<166])"

text \<open>
  The two channel tables agree: the frequency the sweep stamps on a channel from 1 to 14 or from 36 to 165
  is one the survey maps back to the same channel.
\<close>

theorem channel_freq_roundtrip: "list_all (\<lambda>ch. fst (channelAndBand (snd (channelToFreq ch))) = ch) sweepable"
  by (simp add: sweepable_def upt_rec channelToFreq_def channelAndBand_def)

text \<open>The 5 GHz channel 169, at 5845 MHz, is stamped with a frequency of the 6 GHz band.\<close>

theorem channel_169_wrong_band:
  "channelAndBand 5845 = (169, ''5 GHz'') \<and> channelToFreq 169 = (169, 6795) \<and> snd (channelAndBand 6795) = ''6 GHz''"
  by code_simp

end
