(* ===== verification/Host_Stats.thy ===== *)
theory Host_Stats
  imports Agent_Loop
begin

text \<open>
  What an agent learns of its host (\<open>internal/probe/stats.go\<close>, \<open>netiface.go\<close>, \<open>env.go\<close> and the phy
  queries of \<open>wifi.go\<close>): the resource statistics with the samples they are computed from, the network
  interfaces and the switches of its environment. Files are read as the list of their lines, \<open>None\<close> where
  reading fails; the time of each reading is an argument.
\<close>

section \<open>Numbers\<close>

text \<open>\<open>Sscanf\<close> with \<open>%d\<close> into a \<open>uint64\<close>: the leading digits, which must be there and fit.\<close>

definition scan_u64 :: "string \<Rightarrow> u64 option" where
  "scan_u64 s =
     (let ds = takeWhile is_digit s
      in if ds \<noteq> [] \<and> int (atoi_digits 0 ds) < 2 ^ 64 then Some (of_nat (atoi_digits 0 ds)) else None)"

text \<open>The same into an \<open>int\<close>: a sign may come first.\<close>

definition scans_int :: "string \<Rightarrow> bool" where
  "scans_int s =
     (let neg = (s \<noteq> [] \<and> hd s = CHR ''-''); t = (if s \<noteq> [] \<and> (hd s = CHR ''-'' \<or> hd s = CHR ''+'') then tl s else s);
          ds = takeWhile is_digit t
      in ds \<noteq> [] \<and> (if neg then int (atoi_digits 0 ds) \<le> 2 ^ 63 else int (atoi_digits 0 ds) < 2 ^ 63))"

section \<open>Statistics\<close>

record cpuSample =
  cs_time :: go_time
  cs_busy :: u64
  cs_total :: u64

record procCPUSample =
  pc_time :: go_time
  pc_utime :: u64
  pc_stime :: u64

record StatsCollector =
  sc_previousCPUSample :: "cpuSample option"
  sc_previousProcSample :: "procCPUSample option"
  sc_startTime :: go_time

definition NewStatsCollector :: "go_time \<Rightarrow> StatsCollector" where
  "NewStatsCollector now = \<lparr>sc_previousCPUSample = None, sc_previousProcSample = None, sc_startTime = now\<rparr>"

definition cpu_line :: "go_time \<Rightarrow> string \<Rightarrow> cpuSample result" where
  "cpu_line now line =
     (let fields = Fields line
      in if length fields < 8 then Inl (Errorf ''unexpected cpu line format'' [])
         else case those (map scan_u64 (take 7 (drop 1 fields))) of
                Some [user, nice, system, idle, iowait, irq, softirq] \<Rightarrow>
                  Inr \<lparr>cs_time = now, cs_busy = user + nice + system + irq + softirq,
                       cs_total = user + nice + system + idle + iowait + irq + softirq\<rparr>
              | _ \<Rightarrow> Inl (ExtErr ''scan''))"

definition readCPUSample :: "go_time \<Rightarrow> string list option \<Rightarrow> cpuSample result" where
  "readCPUSample now content =
     (case content of
        None \<Rightarrow> Inl (ExtErr ''read'')
      | Some ls \<Rightarrow>
          (case find (\<lambda>l. has_prefix l ''cpu '') ls of
             None \<Rightarrow> Inl (Errorf ''cpu line not found in /proc/stat'' [])
           | Some l \<Rightarrow> cpu_line now l))"

definition parseKBValue :: "string list \<Rightarrow> u64 option" where
  "parseKBValue fs = (if length fs < 2 then None else map_option (\<lambda>v. v * 1024) (scan_u64 (fs ! 1)))"

definition mem_line :: "string \<Rightarrow> u64 \<times> u64 \<Rightarrow> u64 \<times> u64" where
  "mem_line line m =
     (let fields = Fields line
      in if length fields < 2 then m
         else case parseKBValue fields of
                None \<Rightarrow> m
              | Some v \<Rightarrow> (if fields ! 0 = ''MemTotal:'' then (v, snd m)
                           else if fields ! 0 = ''MemAvailable:'' then (fst m, v) else m))"

definition readMemory :: "string list option \<Rightarrow> (u64 \<times> u64) result" where
  "readMemory content =
     (case content of
        None \<Rightarrow> Inl (ExtErr ''read'')
      | Some ls \<Rightarrow>
          (let (memTotal, memAvailable) = fold mem_line ls (0, 0)
           in if memTotal = 0 then Inl (Errorf ''MemTotal not found in /proc/meminfo'' []) else Inr (memTotal - memAvailable, memTotal)))"

text \<open>\<open>Statfs\<close>: blocks, block size and free blocks.\<close>

definition readDisk :: "(u64 \<times> u64 \<times> u64) option \<Rightarrow> (u64 \<times> u64) result" where
  "readDisk stat =
     (case stat of
        None \<Rightarrow> Inl (Wrapf ''statfs: %w'' [] (ExtErr ''statfs''))
      | Some (blocks, bsize, bfree) \<Rightarrow> (let total = blocks * bsize; free = bfree * bsize in Inr (total - free, total)))"

definition readProcSample :: "go_time \<Rightarrow> string option \<Rightarrow> procCPUSample result" where
  "readProcSample now content =
     (case content of
        None \<Rightarrow> Inl (ExtErr ''read'')
      | Some s \<Rightarrow>
          (let fields = Fields s
           in if length fields < 15 then Inl (Errorf ''unexpected /proc/self/stat format'' [])
              else case (scan_u64 (fields ! 13), scan_u64 (fields ! 14)) of
                     (Some u, Some st) \<Rightarrow> Inr \<lparr>pc_time = now, pc_utime = u, pc_stime = st\<rparr>
                   | _ \<Rightarrow> Inl (ExtErr ''scan'')))"

definition readAgentMemory :: "string list option \<Rightarrow> u64 result" where
  "readAgentMemory content =
     (case content of
        None \<Rightarrow> Inl (ExtErr ''read'')
      | Some ls \<Rightarrow>
          (case find (\<lambda>l. has_prefix l ''VmRSS:'') ls of
             None \<Rightarrow> Inl (Errorf ''VmRSS not found in /proc/self/status'' [])
           | Some l \<Rightarrow>
               (let fields = Fields l
                in if length fields < 2 then Inl (Errorf ''unexpected VmRSS line format'' [])
                   else case scan_u64 (fields ! 1) of None \<Rightarrow> Inl (ExtErr ''scan'') | Some v \<Rightarrow> Inr (v * 1024))))"

text \<open>The control group file, else the directories of \<open>/proc\<close> whose names start with a number.\<close>

definition readPidCount :: "string option \<Rightarrow> (string \<times> bool) list option \<Rightarrow> u32 result" where
  "readPidCount cgroup entries =
     (case Option.bind cgroup (\<lambda>s. scan_u64 (trim_space s)) of
        Some count \<Rightarrow> Inr (ucast count)
      | None \<Rightarrow>
          (case entries of
             None \<Rightarrow> Inl (ExtErr ''readdir'')
           | Some es \<Rightarrow> Inr (of_nat (length (filter (\<lambda>(name, dir). dir \<and> scans_int name) es)))))"

text \<open>What one call of \<open>Collect\<close> reads of the host.\<close>

record proc_files =
  pf_probe :: "string list option"
  pf_now :: go_time
  pf_stat :: "string list option"
  pf_statTime :: go_time
  pf_meminfo :: "string list option"
  pf_statfs :: "(u64 \<times> u64 \<times> u64) option"
  pf_selfStat :: "string option"
  pf_selfStatTime :: go_time
  pf_status :: "string list option"
  pf_pidsCurrent :: "string option"
  pf_entries :: "(string \<times> bool) list option"

record host_stats =
  st_cpuPercent :: float64
  st_memUsed :: u64
  st_memTotal :: u64
  st_diskUsed :: u64
  st_diskTotal :: u64
  st_agentCpuPercent :: float64
  st_agentMem :: u64
  st_pidCount :: u32
  st_uptimeSeconds :: u64
  st_ok :: bool
  st_error :: "go_error option"

definition no_stats :: host_stats where
  "no_stats = \<lparr>st_cpuPercent = 0, st_memUsed = 0, st_memTotal = 0, st_diskUsed = 0, st_diskTotal = 0, st_agentCpuPercent = 0,
     st_agentMem = 0, st_pidCount = 0, st_uptimeSeconds = 0, st_ok = False, st_error = None\<rparr>"

definition share :: "u64 \<Rightarrow> u64 \<Rightarrow> float64" where
  "share part whole = (if u64_float whole > 0 then u64_float part / u64_float whole * 100 else 0)"

definition cpu_percent :: "go_time \<Rightarrow> cpuSample option \<Rightarrow> cpuSample \<Rightarrow> float64" where
  "cpu_percent now prev cur =
     (case prev of
        None \<Rightarrow> 0
      | Some p \<Rightarrow> (if now - cs_time p > 0 then share (cs_busy cur - cs_busy p) (cs_total cur - cs_total p) else 0))"

text \<open>The host sample that is subtracted is the one the collector holds at that point.\<close>

definition agent_cpu_percent :: "go_time \<Rightarrow> procCPUSample option \<Rightarrow> procCPUSample \<Rightarrow> cpuSample option \<Rightarrow> cpuSample \<Rightarrow> float64" where
  "agent_cpu_percent now prev cur held host =
     (case prev of
        None \<Rightarrow> 0
      | Some p \<Rightarrow>
          (if now - pc_time p > 0
           then share ((pc_utime cur + pc_stime cur) - (pc_utime p + pc_stime p))
                  (cs_total host - (case held of None \<Rightarrow> 0 | Some h \<Rightarrow> cs_total h))
           else 0))"

definition Collect :: "proc_files \<Rightarrow> StatsCollector \<Rightarrow> host_stats \<times> StatsCollector" where
  "Collect f sc =
     (case readCPUSample (pf_now f) (pf_probe f) of
        Inl _ \<Rightarrow> (no_stats, sc)
      | Inr _ \<Rightarrow>
     (case readCPUSample (pf_statTime f) (pf_stat f) of
        Inl e \<Rightarrow> (no_stats\<lparr>st_error := Some (Wrapf ''reading CPU sample: %w'' [] e)\<rparr>, sc)
      | Inr cpu \<Rightarrow>
     (let r = no_stats\<lparr>st_cpuPercent := cpu_percent (pf_now f) (sc_previousCPUSample sc) cpu\<rparr>;
          sc = sc\<lparr>sc_previousCPUSample := Some cpu\<rparr>
      in case readMemory (pf_meminfo f) of
        Inl e \<Rightarrow> (r\<lparr>st_error := Some (Wrapf ''reading memory: %w'' [] e)\<rparr>, sc)
      | Inr (memUsed, memTotal) \<Rightarrow>
     (let r = r\<lparr>st_memUsed := memUsed, st_memTotal := memTotal\<rparr>
      in case readDisk (pf_statfs f) of
        Inl e \<Rightarrow> (r\<lparr>st_error := Some (Wrapf ''reading disk: %w'' [] e)\<rparr>, sc)
      | Inr (diskUsed, diskTotal) \<Rightarrow>
     (let r = r\<lparr>st_diskUsed := diskUsed, st_diskTotal := diskTotal, st_ok := True\<rparr>
      in case readProcSample (pf_selfStatTime f) (pf_selfStat f) of
        Inl _ \<Rightarrow> (r, sc)
      | Inr proc \<Rightarrow>
          (r\<lparr>st_agentCpuPercent := agent_cpu_percent (pf_now f) (sc_previousProcSample sc) proc (sc_previousCPUSample sc) cpu,
             st_agentMem := (case readAgentMemory (pf_status f) of Inl _ \<Rightarrow> 0 | Inr m \<Rightarrow> m),
             st_pidCount := (case readPidCount (pf_pidsCurrent f) (pf_entries f) of Inl _ \<Rightarrow> 0 | Inr n \<Rightarrow> n),
             st_uptimeSeconds := of_int ((pf_now f - sc_startTime sc) div second)\<rparr>,
           sc\<lparr>sc_previousProcSample := Some proc\<rparr>))))))"

definition stats_message :: "go_time \<Rightarrow> host_stats \<Rightarrow> pb_AgentStats" where
  "stats_message now r = \<lparr>as_Time = Some now, as_CpuPercent = st_cpuPercent r, as_MemUsedBytes = st_memUsed r,
     as_MemTotalBytes = st_memTotal r, as_DiskUsedBytes = st_diskUsed r, as_DiskTotalBytes = st_diskTotal r,
     as_AgentCpuPercent = st_agentCpuPercent r, as_AgentMemBytes = st_agentMem r, as_PidCount = st_pidCount r,
     as_UptimeSeconds = st_uptimeSeconds r\<rparr>"

definition sendStats :: "go_time \<Rightarrow> proc_files \<Rightarrow> StatsCollector \<Rightarrow> AgentMessage list \<times> StatsCollector" where
  "sendStats now f sc =
     (let (r, sc) = Collect f sc
      in (if st_error r \<noteq> None \<or> \<not> st_ok r then [] else [AgentMessage_Stats (Some (stats_message now r))], sc))"

section \<open>Interfaces\<close>

definition firstIPv4 :: "u8 list list \<Rightarrow> string" where
  "firstIPv4 addrs = (case List.map_filter To4 addrs of [] \<Rightarrow> '''' | ip # _ \<Rightarrow> IP_String ip)"

text \<open>\<open>strconv.Atoi\<close>.\<close>

definition atoi_int :: "string \<Rightarrow> int option" where
  "atoi_int s =
     (let neg = (s \<noteq> [] \<and> hd s = CHR ''-''); t = (if s \<noteq> [] \<and> (hd s = CHR ''-'' \<or> hd s = CHR ''+'') then tl s else s);
          n = int (atoi_digits 0 t)
      in if t = [] \<or> \<not> list_all is_digit t then None
         else if neg then (if n \<le> 2 ^ 63 then Some (- n) else None)
         else if n < 2 ^ 63 then Some n else None)"

definition interfaceSpeedMbps :: "string option \<Rightarrow> u32" where
  "interfaceSpeedMbps content =
     (case Option.bind content (\<lambda>s. atoi_int (trim_space s)) of None \<Rightarrow> 0 | Some n \<Rightarrow> (if n < 0 then 0 else of_int n))"

text \<open>An interface of the host: its name, whether it is the loopback, its addresses and the file with its speed.\<close>

record host_iface =
  if_Name :: string
  if_Loopback :: bool
  if_Addrs :: "u8 list list"
  if_Speed :: "string option"

definition NetworkInterfaces :: "WirelessInterface list \<Rightarrow> host_iface list option \<Rightarrow> NetworkInterface list" where
  "NetworkInterfaces wireless ifaces =
     (case ifaces of
        None \<Rightarrow> []
      | Some ifs \<Rightarrow>
          map (\<lambda>i. let w = map_of (rev (map (\<lambda>w. (wi_Name w, w)) wireless)) (if_Name i)
                   in \<lparr>ni_Name = if_Name i, ni_Wireless = (w \<noteq> None),
                       ni_SupportsMonitor = (case w of None \<Rightarrow> False | Some x \<Rightarrow> wi_SupportsMonitor x),
                       ni_SpeedMbps = (if w = None then interfaceSpeedMbps (if_Speed i) else 0),
                       ni_IpAddress = firstIPv4 (if_Addrs i)\<rparr>)
            (filter (\<lambda>i. \<not> if_Loopback i) ifs))"

text \<open>
  Each phy whose interface does not monitor already is asked once; \<open>phy_info\<close> is the answer of
  \<open>iw phy <phy> info\<close>.
\<close>

definition ask_phy :: "(string \<Rightarrow> string list option) \<Rightarrow> WirelessInterface
  \<Rightarrow> (string \<rightharpoonup> bool) \<times> WirelessInterface list \<Rightarrow> (string \<rightharpoonup> bool) \<times> WirelessInterface list" where
  "ask_phy phy_info w acc =
     (let (known, done) = acc; phy = wi_PHY w
      in if wi_SupportsMonitor w \<or> phy = '''' then (known, done @ [w])
         else let support = (case known phy of
                     Some b \<Rightarrow> b
                   | None \<Rightarrow> (case phy_info phy of None \<Rightarrow> False | Some ls \<Rightarrow> phyInfoSupportsMonitor ls))
              in (known(phy \<mapsto> support), done @ [w\<lparr>wi_SupportsMonitor := support\<rparr>]))"

definition enhanceMonitorCapability :: "(string \<Rightarrow> string list option) \<Rightarrow> WirelessInterface list \<Rightarrow> WirelessInterface list" where
  "enhanceMonitorCapability phy_info ws =
     snd (fold (ask_phy phy_info) ws (fold (\<lambda>w m. if wi_SupportsMonitor w then m(wi_PHY w \<mapsto> True) else m) ws Map.empty, []))"

section \<open>Environment\<close>

definition envEnabled :: "string \<Rightarrow> bool" where
  "envEnabled value =
     (if has_prefix value ''${'' then False else value \<notin> {'''', ''0'', ''false'', ''off'', ''no''})"

section \<open>What the statistics say\<close>

lemma share_bounds:
  assumes "part \<le> whole"
  shows "0 \<le> share part whole \<and> share part whole \<le> 100"
proof -
  have "unat part \<le> unat whole"
    using assms by (simp add: word_le_nat_alt)
  then show ?thesis
    by (simp add: share_def u64_float_def divide_le_eq del: of_nat_unat)
qed

lemma share_zero: "share part 0 = 0"
  by (simp add: share_def u64_float_def)

lemma agent_cpu_held: "agent_cpu_percent now prev cur (Some host) host = 0"
  by (simp add: agent_cpu_percent_def share_zero split: option.split)

lemma Collect_cpu:
  "st_cpuPercent (fst (Collect f sc)) \<in>
     {0} \<union> {cpu_percent (pf_now f) (sc_previousCPUSample sc) cur | cur. readCPUSample (pf_statTime f) (pf_stat f) = Inr cur}"
  by (auto simp: Collect_def Let_def no_stats_def split: sum.split)

text \<open>
  As long as the counters of the host advance, and the busy ones by no more than all of them, the
  reported load of the host lies between 0 and 100 percent, whatever else is read or fails.
\<close>

theorem host_cpu_is_percentage:
  assumes "\<And>prev cur. sc_previousCPUSample sc = Some prev \<Longrightarrow> readCPUSample (pf_statTime f) (pf_stat f) = Inr cur \<Longrightarrow>
      cs_busy cur - cs_busy prev \<le> cs_total cur - cs_total prev"
  shows "0 \<le> st_cpuPercent (fst (Collect f sc)) \<and> st_cpuPercent (fst (Collect f sc)) \<le> 100"
proof -
  have "0 \<le> cpu_percent now (sc_previousCPUSample sc) cur \<and> cpu_percent now (sc_previousCPUSample sc) cur \<le> 100"
    if "readCPUSample (pf_statTime f) (pf_stat f) = Inr cur" for now cur
    using assms that share_bounds by (auto simp: cpu_percent_def split: option.split)
  then show ?thesis
    using Collect_cpu [of f sc] by auto
qed

text \<open>
  The load of the agent itself is reported as zero, whatever the host says: the collector stores the new
  sample of the host before it subtracts the old one, so the time that passed is always zero.
\<close>

theorem agent_cpu_always_zero: "st_agentCpuPercent (fst (Collect f sc)) = 0"
  by (simp add: Collect_def Let_def no_stats_def agent_cpu_held split: sum.split prod.split)

end
