(* ===== verification/Path_Probe.thy ===== *)
theory Path_Probe
  imports Agent_Loop
begin

text \<open>
  The traceroute of the agent (\<open>internal/probe/traceroute.go\<close> and the packet builder of
  \<open>traceroute_linux.go\<close>): how replies are classified, how the probes of one TTL become a hop, how hops
  become a verdict, and the ICMP echo request with its checksum. What a probe gets back, the resolver and
  the liveness of the context are arguments.
\<close>

unbundle bit_operations_syntax

section \<open>Replies\<close>

datatype replyKind = replyNone | replyTimeExceeded | replyDestination

record probeReply =
  py_kind :: replyKind
  py_from :: "u8 list option"
  py_rtt :: go_time
  py_destState :: string

definition classifyICMP :: "u8 \<Rightarrow> u8 \<Rightarrow> replyKind \<times> string" where
  "classifyICMP icmpType icmpCode =
     (if icmpType = 11 then (replyTimeExceeded, '''')
      else if icmpType = 3 then
        (if icmpCode = 3 then (replyDestination, ''echoed'')
         else if icmpCode = 13 then (replyDestination, ''filtered'')
         else (replyDestination, ''unreachable''))
      else if icmpType = 0 then (replyDestination, ''echoed'')
      else (replyTimeExceeded, ''''))"

definition flowPort :: "u16 \<Rightarrow> nat" where
  "flowPort flowID = 33000 + unat (flowID mod 2000)"

text \<open>A probe whose ICMP answer was read off the error queue.\<close>

definition icmp_reply :: "u8 list \<Rightarrow> u8 \<Rightarrow> u8 \<Rightarrow> go_time \<Rightarrow> probeReply" where
  "icmp_reply from t c rtt =
     (let (kind, state) = classifyICMP t c in \<lparr>py_kind = kind, py_from = Some from, py_rtt = rtt, py_destState = state\<rparr>)"

definition IsUnspecified :: "u8 list \<Rightarrow> bool" where
  "IsUnspecified ip = list_all (\<lambda>b. b = 0) (case To4 ip of Some v4 \<Rightarrow> v4 | None \<Rightarrow> ip)"

section \<open>Round trip times\<close>

definition rttStats :: "float64 list \<Rightarrow> float64 \<times> float64 \<times> float64 \<times> float64" where
  "rttStats rtts =
     (case rtts of
        [] \<Rightarrow> (0, 0, 0, 0)
      | r # rs \<Rightarrow>
          (let best = fold (\<lambda>v b. if v < b then v else b) rtts r; worst = fold (\<lambda>v w. if v > w then v else w) rtts r;
               avg = fold (\<lambda>v s. s + v) rtts 0 / of_nat (length rtts);
               sq = fold (\<lambda>v s. s + (v - avg) * (v - avg)) rtts 0
           in (avg, best, worst, sqrt (sq / of_nat (length rtts)))))"

section \<open>One TTL\<close>

record ttl_state =
  tl_rtts :: "float64 list"
  tl_responder :: "u8 list option"
  tl_arrived :: bool
  tl_destState :: string

definition take_reply :: "u8 list \<Rightarrow> probeReply \<Rightarrow> ttl_state \<Rightarrow> ttl_state" where
  "take_reply dst reply st =
     (if py_kind reply = replyNone then st
      else let st = st\<lparr>tl_rtts := tl_rtts st @ [of_int (py_rtt reply div 1000) / 1000]\<rparr>;
               st = (if tl_responder st = None then st\<lparr>tl_responder := py_from reply\<rparr> else st)
           in if py_kind reply = replyDestination
              then st\<lparr>tl_arrived := True, tl_destState := py_destState reply,
                      tl_responder := (case tl_responder st of
                          None \<Rightarrow> Some dst | Some ip \<Rightarrow> if IsUnspecified ip then Some dst else Some ip)\<rparr>
              else st)"

text \<open>The probes from number \<open>i\<close> on, until the context is done.\<close>

fun probe_loop :: "u8 list \<Rightarrow> (nat \<Rightarrow> probeReply) \<Rightarrow> (nat \<Rightarrow> bool) \<Rightarrow> nat \<Rightarrow> nat \<Rightarrow> ttl_state \<Rightarrow> ttl_state" where
  "probe_loop dst replies alive i 0 st = st"
| "probe_loop dst replies alive i (Suc n) st =
     (if \<not> alive i then st else probe_loop dst replies alive (i + 1) n (take_reply dst (replies i) st))"

definition probeTTL ::
  "u8 list \<Rightarrow> (nat \<Rightarrow> probeReply) \<Rightarrow> (nat \<Rightarrow> bool) \<Rightarrow> u32 \<Rightarrow> u32 \<Rightarrow> probe_Hop \<times> bool \<times> string" where
  "probeTTL dst replies alive ttl probes =
     (let st = probe_loop dst replies alive 0 (unat probes) \<lparr>tl_rtts = [], tl_responder = None, tl_arrived = False, tl_destState = ''''\<rparr>;
          host = (case tl_responder st of
                    Some ip \<Rightarrow> (if \<not> IsUnspecified ip then IP_String ip else if tl_arrived st then IP_String dst else '''')
                  | None \<Rightarrow> (if tl_arrived st then IP_String dst else ''''));
          loss = of_nat (unat (probes - of_nat (length (tl_rtts st)))) / of_nat (unat probes) * 100;
          (avg, best, worst, jitter) = rttStats (tl_rtts st)
      in (\<lparr>ph_TTL = ttl, ph_Host = host, ph_HostName = '''', ph_LossPercent = loss, ph_AvgRttMs = avg, ph_BestRttMs = best,
           ph_WorstRttMs = worst, ph_JitterMs = jitter, ph_Sent = probes\<rparr>, tl_arrived st, tl_destState st))"

section \<open>The trace\<close>

text \<open>
  The hops from \<open>ttl\<close> on, \<open>n\<close> at most, with the verdict of the destination if it answered; \<open>None\<close> if the
  context is done. \<open>replies ttl i\<close> is the reply to probe \<open>i\<close> of a TTL.
\<close>

fun trace_loop ::
  "u8 list \<Rightarrow> (u32 \<Rightarrow> nat \<Rightarrow> probeReply) \<Rightarrow> (u32 \<Rightarrow> bool) \<Rightarrow> (u32 \<Rightarrow> nat \<Rightarrow> bool) \<Rightarrow> u32 \<Rightarrow> u32 \<Rightarrow> nat
   \<Rightarrow> (probe_Hop list \<times> (probe_Hop \<times> string) option) option" where
  "trace_loop dst replies alive palive probes ttl 0 = Some ([], None)"
| "trace_loop dst replies alive palive probes ttl (Suc n) =
     (if \<not> alive ttl then None
      else let (hop, arrived, state) = probeTTL dst (replies ttl) (palive ttl) ttl probes
           in if arrived then Some ([hop], Some (hop, state))
              else do { (hops, end) \<leftarrow> trace_loop dst replies alive palive probes (ttl + 1) n; Some (hop # hops, end) })"

definition resolveHopNames :: "(string \<Rightarrow> string list option) \<Rightarrow> probe_Hop list \<Rightarrow> probe_Hop list" where
  "resolveHopNames lookup hops =
     map (\<lambda>h. if ph_Host h = '''' \<or> ParseIP (ph_Host h) = None then h
              else case lookup (ph_Host h) of
                     Some (name # _) \<Rightarrow> h\<lparr>ph_HostName := trim_suffix_dot name\<rparr>
                   | _ \<Rightarrow> h) hops"

text \<open>The last hop that answered at all.\<close>

definition failure_hop :: "probe_Hop list \<Rightarrow> probe_Hop option" where
  "failure_hop hops = find (\<lambda>h. ph_Host h \<noteq> '''' \<and> ph_LossPercent h < 100) (rev hops)"

definition trace_result ::
  "string \<Rightarrow> u8 list \<Rightarrow> probe_Hop list \<Rightarrow> (probe_Hop \<times> string) option \<Rightarrow> probe_TracerouteResult" where
  "trace_result target dst hops end =
     (let r = \<lparr>pt_Target = target, pt_TargetIP = IP_String dst, pt_Reached = False, pt_Status = ''stalled'', pt_FailureHop = 0,
               pt_RttMs = 0, pt_Demo = False, pt_Hops = hops, pt_DestinationState = ''filtered'', pt_Engine = ''native''\<rparr>
      in case end of
           Some (hop, state) \<Rightarrow>
             r\<lparr>pt_Reached := True, pt_Status := ''reached'', pt_DestinationState := state, pt_RttMs := ph_AvgRttMs hop,
               pt_TargetIP := (if ph_Host hop \<noteq> '''' then ph_Host hop else IP_String dst)\<rparr>
         | None \<Rightarrow>
             (case failure_hop hops of
                None \<Rightarrow> r
              | Some h \<Rightarrow> r\<lparr>pt_FailureHop := ph_TTL h, pt_RttMs := ph_AvgRttMs h\<rparr>))"

text \<open>\<open>resolve\<close> is the lookup of the target; a synthetic result stands for demo mode.\<close>

definition Traceroute ::
  "probe_TracerouteResult option \<Rightarrow> (string \<Rightarrow> string + u8 list) \<Rightarrow> (u32 \<Rightarrow> nat \<Rightarrow> probeReply) \<Rightarrow> (u32 \<Rightarrow> bool) \<Rightarrow> (u32 \<Rightarrow> nat \<Rightarrow> bool)
   \<Rightarrow> (string \<Rightarrow> string list option) \<Rightarrow> string \<Rightarrow> u32 \<Rightarrow> u32 \<Rightarrow> probe_TracerouteResult outcome" where
  "Traceroute demo resolve replies alive palive lookup target maxHops probes =
     (case demo of
        Some r \<Rightarrow> Finished r
      | None \<Rightarrow>
          (let maxHops = (if maxHops = 0 then 30 else maxHops); probes = (if probes = 0 then 5 else probes)
           in case resolve target of
                Inl e \<Rightarrow> Failed (''resolving '' @ target @ '': '' @ e)
              | Inr ip \<Rightarrow>
                  (case To4 ip of
                     None \<Rightarrow> Failed (target @ '' is not an IPv4 address'')
                   | Some dst \<Rightarrow>
                       (case trace_loop dst replies alive palive probes 1 (unat maxHops) of
                          None \<Rightarrow> Cancelled
                        | Some (hops, end) \<Rightarrow>
                            (let r = trace_result target dst hops end
                             in Finished (r\<lparr>pt_Hops := resolveHopNames lookup (pt_Hops r)\<rparr>))))))"

section \<open>The echo request\<close>

text \<open>Folding the carries of the sum back into its low half.\<close>

lemma unat_low_half: "unat (s AND 0xFFFF :: u32) = unat s mod 65536"
proof -
  have "(0xFFFF :: u32) = mask 16"
    by (simp add: mask_eq_exp_minus_1)
  then have "s AND 0xFFFF = take_bit 16 s"
    by (simp add: take_bit_eq_mask)
  then show ?thesis
    by (simp add: take_bit_eq_mod unat_mod)
qed

lemma unat_high_half: "unat (drop_bit 16 s :: u32) = unat s div 65536"
  by (simp add: drop_bit_eq_div unat_div)

lemma unat_folded: "unat ((s AND 0xFFFF) + drop_bit 16 (s :: u32)) = unat s mod 65536 + unat s div 65536"
proof -
  have "unat s < 2 ^ 32"
    using unsigned_less [where 'a = nat, of s] by simp
  then have "unat s div 65536 < 65536"
    by (simp add: less_mult_imp_div_less)
  moreover have "unat s mod 65536 < 65536"
    by simp
  ultimately show ?thesis
    by (subst unat_add_lem [THEN iffD1]) (simp_all add: unat_low_half unat_high_half)
qed

function fold_carry :: "u32 \<Rightarrow> u32" where
  "fold_carry s = (if drop_bit 16 s > 0 then fold_carry ((s AND 0xFFFF) + drop_bit 16 s) else s)"
  by auto

termination fold_carry
proof (relation "measure unat")
  fix s :: u32
  assume "drop_bit 16 s > 0"
  then have "0 < unat s div 65536"
    by (simp add: word_less_nat_alt unat_high_half)
  moreover have "m + q < 65536 * q + m" if "0 < q" for m q :: nat
    using that by simp
  ultimately have "unat s mod 65536 + unat s div 65536 < 65536 * (unat s div 65536) + unat s mod 65536"
    by blast
  then show "((s AND 0xFFFF) + drop_bit 16 s, s) \<in> measure unat"
    by (simp only: in_measure unat_folded mult_div_mod_eq)
qed simp

declare fold_carry.simps [simp del]

definition u16_bytes :: "u16 \<Rightarrow> u8 list" where
  "u16_bytes w = [ucast (drop_bit 8 w), ucast w]"

fun sum_words :: "u8 list \<Rightarrow> u32" where
  "sum_words (a # b # bs) = (push_bit 8 (ucast a) OR ucast b) + sum_words bs"
| "sum_words _ = 0"

definition echo_payload :: "u8 list" where
  "echo_payload = [0x6E, 0x65, 0x74, 0x2D, 0x6C, 0x61, 0x6D, 0x61]"

definition echo_packet :: "u16 \<Rightarrow> u16 \<Rightarrow> u16 \<Rightarrow> u8 list" where
  "echo_packet checksum i seq = [8, 0] @ u16_bytes checksum @ u16_bytes i @ u16_bytes seq @ echo_payload"

definition icmpEcho :: "u16 \<Rightarrow> u16 \<Rightarrow> u8 list" where
  "icmpEcho i seq = echo_packet (NOT (ucast (fold_carry (sum_words (echo_packet 0 i seq))))) i seq"

section \<open>The checksum verifies\<close>

lemma same_mod: "(m + q) mod 65535 = (65536 * q + m) mod (65535 :: nat)"
proof -
  have "65536 * q + m = (m + q) + 65535 * q"
    by simp
  then show ?thesis
    by (simp only: mod_mult_self2)
qed

lemma fold_carry_facts:
  "unat (fold_carry s) mod 65535 = unat s mod 65535 \<and> unat (fold_carry s) < 65536 \<and> (0 < unat s \<longrightarrow> 0 < unat (fold_carry s))"
proof (induction s rule: fold_carry.induct)
  case (1 s)
  show ?case
  proof (cases "drop_bit 16 s > 0")
    case True
    have "(unat s mod 65536 + unat s div 65536) mod 65535 = (65536 * (unat s div 65536) + unat s mod 65536) mod 65535"
      using same_mod [of "unat s mod 65536" "unat s div 65536"] by simp
    moreover have "0 < unat s div 65536"
      using True by (metis unat_high_half unat_gt_0 word_gt_0)
    ultimately show ?thesis
      using 1 [OF True] True unat_folded [of s] by (simp add: fold_carry.simps [of s])
  next
    case False
    then have "unat s div 65536 = 0"
      by (metis unat_high_half unat_0 word_gt_0)
    then show ?thesis
      using False by (simp add: fold_carry.simps [of s] div_eq_0_iff)
  qed
qed

lemma word_of_bytes: "(push_bit 8 (ucast (ucast (drop_bit 8 (w :: u16)) :: u8)) OR ucast (ucast w :: u8) :: u32) = ucast w"
  by (rule bit_word_eqI) (auto simp: bit_simps dest: bit_imp_le_length)

lemma sum_echo: "sum_words (echo_packet c i seq) = 0x800 + (ucast c + (ucast i + (ucast seq + sum_words echo_payload)))"
  by (simp add: echo_packet_def u16_bytes_def word_of_bytes)

lemma unat_wide: "unat (ucast (w :: u16) :: u32) = unat w"
  using unsigned_less [where 'a = nat, of w] by (simp add: unsigned_ucast_eq take_bit_nat_eq_self)

lemma u16_bound: "unat (w :: u16) < 65536"
  using unsigned_less [where 'a = nat, of w] by simp

lemma unat_sum_echo: "unat (sum_words (echo_packet c i seq)) = 115796 + unat c + unat i + unat seq"
  using u16_bound [of c] u16_bound [of i] u16_bound [of seq]
  by (simp add: sum_echo echo_payload_def unat_word_ariths(1) unat_wide)

lemma all_ones_of_mod:
  assumes "n mod 65535 = 0" "n < 65536" "0 < n"
  shows "n = (65535 :: nat)"
proof -
  obtain k where "n = 65535 * k"
    using assms(1) by (auto simp: mod_eq_0_iff_dvd)
  moreover from this have "k = 1"
    using assms(2,3) by linarith
  ultimately show ?thesis
    by simp
qed

lemma unat_all_ones: "unat (w :: u32) = 65535 \<Longrightarrow> w = 0xFFFF"
  by (metis of_nat_numeral of_nat_unat ucast_id)

lemma unat_complement: "unat (NOT (w :: u16)) = 65535 - unat w"
proof -
  have "NOT w = - 1 - w"
    by (simp add: not_eq_complement)
  then show ?thesis
    by (simp add: unat_sub unsigned_minus_1_eq_mask mask_eq_exp_minus_1)
qed

text \<open>
  The echo request a traceroute sends carries a valid checksum: the sixteen-bit words of the packet,
  its checksum included, add up to all ones after the carries are folded.
\<close>

theorem echo_checksum_verifies: "fold_carry (sum_words (icmpEcho i seq)) = 0xFFFF"
proof -
  let ?s = "sum_words (echo_packet 0 i seq)"
  let ?f = "fold_carry ?s" and ?t = "sum_words (icmpEcho i seq)"
  have f: "unat ?f mod 65535 = unat ?s mod 65535" "unat ?f < 65536"
    using fold_carry_facts [of ?s] by simp_all
  have "unat (ucast ?f :: u16) = unat ?f"
    using f(2) by (simp add: unsigned_ucast_eq take_bit_nat_eq_self)
  then have t: "unat ?t = unat ?s + (65535 - unat ?f)"
    by (simp add: icmpEcho_def unat_sum_echo unat_complement)
  have "(unat ?s + (65535 - unat ?f)) mod 65535 = (unat ?f + (65535 - unat ?f)) mod 65535"
    using f(1) by (metis mod_add_left_eq)
  then have "unat ?t mod 65535 = 0" "0 < unat ?t"
    using f(2) t by (simp_all add: unat_sum_echo)
  then have "unat (fold_carry ?t) mod 65535 = 0" "unat (fold_carry ?t) < 65536" "0 < unat (fold_carry ?t)"
    using fold_carry_facts [of ?t] by simp_all
  then have "unat (fold_carry ?t) = 65535"
    by (rule all_ones_of_mod)
  then show ?thesis
    by (rule unat_all_ones)
qed

section \<open>A hop's round trip times\<close>

lemma fold_min: "fold (\<lambda>v b. if v < b then v else b) vs (b :: real) = foldl min b vs"
  by (induction vs arbitrary: b) (simp_all add: min_def not_less)

lemma foldl_min_le: "foldl min b vs \<le> (b :: real) \<and> (\<forall>v \<in> set vs. foldl min b vs \<le> v)"
proof (induction vs arbitrary: b)
  case (Cons a vs)
  from Cons.IH [of "min b a"] show ?case
    by simp
qed simp

lemma fold_max: "fold (\<lambda>v w. if v > w then v else w) vs (w :: real) = foldl max w vs"
  by (induction vs arbitrary: w) (simp_all add: max_def not_less)

lemma foldl_max_ge: "(w :: real) \<le> foldl max w vs \<and> (\<forall>v \<in> set vs. v \<le> foldl max w vs)"
proof (induction vs arbitrary: w)
  case (Cons a vs)
  from Cons.IH [of "max w a"] show ?case
    by simp
qed simp

lemma fold_sum: "fold (\<lambda>v s. s + f v) vs (s :: real) = s + sum_list (map f vs)"
  by (induction vs arbitrary: s) simp_all

lemma average_between:
  assumes "vs \<noteq> []" "\<forall>v \<in> set vs. lo \<le> v" "\<forall>v \<in> set vs. v \<le> hi"
  shows "lo \<le> sum_list vs / real (length vs) \<and> sum_list vs / real (length vs) \<le> hi"
proof -
  have "real (length vs) * lo \<le> sum_list vs \<and> sum_list vs \<le> real (length vs) * hi"
    using assms(2,3) by (induction vs) (auto simp: algebra_simps)
  then show ?thesis
    using assms(1) by (simp add: field_simps)
qed

text \<open>
  The figures of a hop bracket its probes: the best round trip is at most every measured one, the worst
  at least every one, the average lies between them, and the jitter is never negative.
\<close>

theorem rtt_stats_bracket:
  assumes "rtts \<noteq> []" "rttStats rtts = (avg, best, worst, jitter)"
  shows "best \<le> avg \<and> avg \<le> worst \<and> 0 \<le> jitter \<and> list_all (\<lambda>v. best \<le> v \<and> v \<le> worst) rtts"
proof -
  obtain r rs where r: "rtts = r # rs"
    using assms(1) by (cases rtts) simp_all
  have b: "best = foldl min r rtts" and w: "worst = foldl max r rtts" and a: "avg = sum_list rtts / real (length rtts)"
    and j: "jitter = sqrt (sum_list (map (\<lambda>v. (v - avg) * (v - avg)) rtts) / real (length rtts))"
    using assms(2) fold_sum [of id rtts 0] fold_sum [of "\<lambda>v. (v - avg) * (v - avg)" rtts 0]
    by (simp_all add: rttStats_def r Let_def fold_min fold_max del: fold.simps foldl.simps) auto
  have "0 \<le> jitter"
    by (auto simp: j intro!: divide_nonneg_nonneg sum_list_nonneg)
  then show ?thesis
    using average_between [of rtts best worst] assms(1) foldl_min_le [of r rtts] foldl_max_ge [of r rtts]
    by (auto simp: a b w list_all_iff)
qed

theorem rtt_stats_bracket_witness: "\<exists>avg best worst jitter. rttStats [3, 1, 2] = (avg, best, worst, jitter) \<and> best = 1 \<and> worst = 3 \<and> best \<le> avg \<and> avg \<le> worst \<and> 0 \<le> jitter"
  using rtt_stats_bracket [of "[3, 1, 2]"] by (simp add: rttStats_def Let_def)

section \<open>Unreachable hosts\<close>

text \<open>
  A router that reports the destination unreachable ends the trace as reached, with the router's own address
  as the address of the target.
\<close>

theorem unreachable_counts_as_reached:
  assumes "IsUnspecified router = False" "IP_String router \<noteq> ''''" "alive 1" "palive 1 0"
    and "replies 1 0 = icmp_reply router 3 1 rtt"
  shows "\<exists>hops hop. trace_loop dst replies alive palive 1 1 1 = Some (hops, Some (hop, ''unreachable''))
    \<and> pt_Status (trace_result target dst hops (Some (hop, ''unreachable''))) = ''reached''
    \<and> pt_TargetIP (trace_result target dst hops (Some (hop, ''unreachable''))) = IP_String router"
  using assms by (simp add: One_nat_def probeTTL_def take_reply_def icmp_reply_def classifyICMP_def trace_result_def rttStats_def Let_def)

end
