(* ===== verification/Speed_Probes.thy ===== *)
theory Speed_Probes
  imports Path_Probe
begin

text \<open>
  The remaining probes of the agent: the speed test providers (\<open>speedtest.go\<close>, \<open>ndt7.go\<close>, \<open>cloudflare.go\<close>), the
  HTTP check with its phase timings (\<open>http.go\<close>), ping, DNS and TCP (\<open>ping.go\<close>, \<open>dns.go\<close>, \<open>tcp.go\<close>). What the network
  answers, and when, is an argument; so is what the speed test libraries measure.
\<close>

section \<open>Speedtest.net\<close>

definition maxServerAttempts :: nat where
  "maxServerAttempts = 3"

text \<open>A server of the list with what testing it gives: the error of a stage, or the latency and the speeds.\<close>

record ookla_server =
  os_Name :: string
  os_Country :: string
  os_Ping :: "string option"
  os_Download :: "string option"
  os_Upload :: "string option"
  os_Latency :: go_time
  os_DLSpeed :: float64
  os_ULSpeed :: float64

definition implausible :: "float64 \<Rightarrow> float64 \<Rightarrow> string" where
  "implausible dl ul = ''returned an implausible measurement (download '' @ format_f2 dl @ '' Mbps, upload '' @ format_f2 ul @ '' Mbps)''"

definition runServerTest :: "ookla_server \<Rightarrow> string + probe_SpeedtestResult" where
  "runServerTest s =
     (case os_Ping s of Some e \<Rightarrow> Inl (''ping test: '' @ e)
      | None \<Rightarrow> (case os_Download s of Some e \<Rightarrow> Inl (''download test: '' @ e)
      | None \<Rightarrow> (case os_Upload s of Some e \<Rightarrow> Inl (''upload test: '' @ e)
      | None \<Rightarrow>
          (let dl = os_DLSpeed s; ul = os_ULSpeed s
           in if dl = 0 \<or> ul = 0 \<or> dl < 0.1 \<and> ul > 1 \<or> ul < 0.1 \<and> dl > 1 then Inl (implausible dl ul)
              else Inr \<lparr>sp_ServerName = os_Name s, sp_ServerCountry = os_Country s, sp_LatencyMs = of_int (os_Latency s div 1000000),
                        sp_DownloadMbps = dl, sp_UploadMbps = ul, sp_UserIP = '''', sp_UserISP = ''''\<rparr>))))"

text \<open>The servers in turn; \<open>alive\<close> tells whether the context is still alive after server \<open>i\<close>.\<close>

fun try_servers :: "(nat \<Rightarrow> bool) \<Rightarrow> nat \<Rightarrow> string \<Rightarrow> ookla_server list \<Rightarrow> probe_SpeedtestResult outcome" where
  "try_servers alive i lastErr [] = Failed lastErr"
| "try_servers alive i lastErr (s # ss) =
     (case runServerTest s of
        Inr r \<Rightarrow> Finished r
      | Inl e \<Rightarrow> (if \<not> alive i then Cancelled else try_servers alive (i + 1) (''server '' @ quoted (os_Name s) @ '': '' @ e) ss))"

definition Speedtest ::
  "(string \<times> string) option \<Rightarrow> string + ookla_server list \<Rightarrow> (nat \<Rightarrow> bool) \<Rightarrow> probe_SpeedtestResult outcome" where
  "Speedtest user serverList alive =
     (case serverList of
        Inl e \<Rightarrow> Failed (''fetching server list: '' @ e)
      | Inr [] \<Rightarrow> Failed ''no speedtest server found''
      | Inr ss \<Rightarrow>
          (case try_servers alive 0 '''' (take maxServerAttempts ss) of
             Finished r \<Rightarrow> (let (ip, isp) = (case user of None \<Rightarrow> ('''', '''') | Some u \<Rightarrow> u)
                           in Finished (r\<lparr>sp_UserIP := ip, sp_UserISP := isp\<rparr>))
           | x \<Rightarrow> x))"

text \<open>The servers that can be measured.\<close>

definition measures :: "ookla_server \<Rightarrow> bool" where
  "measures s \<longleftrightarrow> (case runServerTest s of Inl _ \<Rightarrow> False | Inr _ \<Rightarrow> True)"

lemma try_servers_first:
  "\<forall>i. alive i \<Longrightarrow> find measures ss = Some s \<Longrightarrow> runServerTest s = Inr r \<Longrightarrow> try_servers alive i e ss = Finished r"
  by (induction ss arbitrary: i e) (auto simp: measures_def split: sum.splits if_splits)

lemma try_servers_none: "\<forall>i. alive i \<Longrightarrow> find measures ss = None \<Longrightarrow> \<exists>msg. try_servers alive i e ss = Failed msg"
  by (induction ss arbitrary: i e) (auto simp: measures_def split: sum.splits if_splits)

text \<open>
  A speed test falls back: while the context lives, it reports the first of the three closest servers that gives
  a plausible measurement, and fails only if none of the three does. What it reports is never zero in one direction.
\<close>

theorem speedtest_falls_back:
  assumes "ss \<noteq> []" "\<forall>i. alive i"
  shows "case find measures (take 3 ss) of
      Some s \<Rightarrow> (\<exists>r. Speedtest user (Inr ss) alive = Finished r \<and> sp_ServerName r = os_Name s
                  \<and> sp_DownloadMbps r = os_DLSpeed s \<and> sp_UploadMbps r = os_ULSpeed s \<and> sp_DownloadMbps r \<noteq> 0 \<and> sp_UploadMbps r \<noteq> 0)
    | None \<Rightarrow> (\<exists>msg. Speedtest user (Inr ss) alive = Failed msg)"
proof -
  have listed: "Speedtest user (Inr ss) alive = (case try_servers alive 0 '''' (take 3 ss) of
      Finished r \<Rightarrow> (let (ip, isp) = (case user of None \<Rightarrow> ('''', '''') | Some u \<Rightarrow> u) in Finished (r\<lparr>sp_UserIP := ip, sp_UserISP := isp\<rparr>))
    | x \<Rightarrow> x)"
    using assms(1) by (simp add: Speedtest_def maxServerAttempts_def split: list.split)
  show ?thesis
  proof (cases "find measures (take 3 ss)")
    case None
    then show ?thesis
      using try_servers_none [OF assms(2) None, of 0 "''''"] by (auto simp: listed)
  next
    case (Some s)
    then have "measures s"
      by (auto simp: find_Some_iff)
    then obtain r where r: "runServerTest s = Inr r"
      by (auto simp: measures_def split: sum.splits)
    have "sp_ServerName r = os_Name s" "sp_DownloadMbps r = os_DLSpeed s" "sp_UploadMbps r = os_ULSpeed s"
        "sp_DownloadMbps r \<noteq> 0" "sp_UploadMbps r \<noteq> 0"
      using r by (auto simp: runServerTest_def Let_def split: option.splits if_splits)
    then show ?thesis
      using Some try_servers_first [OF assms(2) Some r] by (simp add: listed case_prod_unfold Let_def)
  qed
qed

section \<open>NDT7\<close>

text \<open>A measurement: whether it comes from the client, and its application level figures.\<close>

record ndt7_measurement =
  nm_Client :: bool
  nm_AppInfo :: "(int \<times> int) option"

definition ndt7RunTest :: "string + ndt7_measurement list \<Rightarrow> bool \<Rightarrow> float64 outcome" where
  "ndt7RunTest start alive =
     (case start of
        Inl e \<Rightarrow> (if alive then Failed e else Cancelled)
      | Inr ms \<Rightarrow>
          (if \<not> alive then Cancelled
           else case rev (List.map_filter (\<lambda>m. if nm_Client m then nm_AppInfo m else None) ms) of
                  [] \<Rightarrow> Failed ''no client-side application-level measurement received''
                | (numBytes, elapsed) # _ \<Rightarrow>
                    (if elapsed \<le> 0 then Failed ''no client-side application-level measurement received''
                     else Finished (of_int numBytes * 8 / (of_int elapsed / 1000000) / 1000000))))"

definition ndt7MinRTT :: "int option \<Rightarrow> float64" where
  "ndt7MinRTT rtt = (case rtt of None \<Rightarrow> 0 | Some us \<Rightarrow> of_int us / 1000)"

text \<open>An error of a stage gets a prefix, a cancelled context ends the run.\<close>

fun staged_outcome :: "string \<Rightarrow> 'a outcome \<Rightarrow> ('a \<Rightarrow> 'b outcome) \<Rightarrow> 'b outcome" where
  "staged_outcome prefix Cancelled k = Cancelled"
| "staged_outcome prefix (Failed e) k = Failed (prefix @ e)"
| "staged_outcome prefix (Finished x) k = k x"

definition NDT7 ::
  "string + ndt7_measurement list \<Rightarrow> bool \<Rightarrow> string + ndt7_measurement list \<Rightarrow> bool \<Rightarrow> string \<Rightarrow> int option \<Rightarrow> probe_SpeedtestResult outcome" where
  "NDT7 download alive_d upload alive_u fqdn rtt =
     staged_outcome ''download: '' (ndt7RunTest download alive_d) (\<lambda>dl.
     staged_outcome ''upload: '' (ndt7RunTest upload alive_u) (\<lambda>ul.
       if dl \<le> 0 \<or> ul \<le> 0 then Failed (implausible dl ul)
       else Finished \<lparr>sp_ServerName = fqdn, sp_ServerCountry = '''', sp_LatencyMs = ndt7MinRTT rtt, sp_DownloadMbps = dl,
                      sp_UploadMbps = ul, sp_UserIP = '''', sp_UserISP = ''''\<rparr>))"

section \<open>Cloudflare\<close>

definition cloudflareLatencySamples :: nat where
  "cloudflareLatencySamples = 5"

definition medianDuration :: "go_time list \<Rightarrow> go_time" where
  "medianDuration d = (if d = [] then 0 else sort d ! (length d div 2))"

text \<open>The headers of an answer that name the edge.\<close>

definition cloudflareColo :: "string \<Rightarrow> string \<Rightarrow> string" where
  "cloudflareColo colo ray =
     (if colo \<noteq> '''' then colo
      else case last_index_byte (CHR ''-'') ray of None \<Rightarrow> '''' | Some i \<Rightarrow> drop (i + 1) ray)"

record cf_reply =
  cf_Elapsed :: go_time
  cf_Status :: int
  cf_StatusText :: string
  cf_Colo :: string
  cf_Ray :: string

fun latency_loop :: "(nat \<Rightarrow> string + cf_reply) \<Rightarrow> nat \<Rightarrow> nat \<Rightarrow> go_time list \<Rightarrow> string \<Rightarrow> string + go_time \<times> string" where
  "latency_loop replies i 0 samples colo = Inr (medianDuration samples, colo)"
| "latency_loop replies i (Suc n) samples colo =
     (case replies i of
        Inl e \<Rightarrow> Inl e
      | Inr r \<Rightarrow>
          (if cf_Status r \<noteq> 200 then Inl (''unexpected status '' @ cf_StatusText r)
           else latency_loop replies (i + 1) n (samples @ [cf_Elapsed r])
                  (if colo = '''' then cloudflareColo (cf_Colo r) (cf_Ray r) else colo)))"

definition cloudflareLatency :: "(nat \<Rightarrow> string + cf_reply) \<Rightarrow> string + go_time \<times> string" where
  "cloudflareLatency replies = latency_loop replies 0 cloudflareLatencySamples [] ''''"

text \<open>A requested chunk: the request failed, the status was wrong, or a body was read in pieces up to its end or an error.\<close>

datatype cf_chunk = Chunk_Error string | Chunk_Status string | Chunk_Body "int list" "string option"

fun cloudflareDownloadChunk :: "cf_chunk \<Rightarrow> int \<times> string option" where
  "cloudflareDownloadChunk (Chunk_Error e) = (0, Some e)"
| "cloudflareDownloadChunk (Chunk_Status st) = (0, Some (''unexpected status '' @ st))"
| "cloudflareDownloadChunk (Chunk_Body reads err) = (sum_list (filter (\<lambda>n. n > 0) reads), err)"

text \<open>
  A connection's chunks, each with whether the window was open before and after it; the list ends when the
  window closes.
\<close>

fun cloudflareDownloadOnce :: "(bool \<times> cf_chunk \<times> bool) list \<Rightarrow> int \<times> string option" where
  "cloudflareDownloadOnce [] = (0, None)"
| "cloudflareDownloadOnce ((before, c, after') # cs) =
     (if \<not> before then (0, None)
      else let (n, err) = cloudflareDownloadChunk c
           in case err of
                Some e \<Rightarrow> (n, if after' then Some e else None)
              | None \<Rightarrow> (let (m, err) = cloudflareDownloadOnce cs in (n + m, err)))"

text \<open>An upload: the buffers handed out before the window closed, the error of the request, whether the window was open then, the status.\<close>

definition cloudflareUploadOnce :: "int list \<Rightarrow> string option \<Rightarrow> bool \<Rightarrow> int \<Rightarrow> string \<Rightarrow> int \<times> string option" where
  "cloudflareUploadOnce buffers err window status statusText =
     (sum_list buffers,
      (case err of
         Some e \<Rightarrow> (if window then Some e else None)
       | None \<Rightarrow> (if status \<noteq> 200 then Some (''unexpected status '' @ statusText) else None)))"

text \<open>
  One direction: the connections in the order they ended, each with the bytes it moved within the window and the error it ended
  with, the time from the start until all had ended, and whether the caller's context is alive.
\<close>

record cf_transfer =
  ct_Connections :: "(int \<times> string option) list"
  ct_Elapsed :: go_time
  ct_Alive :: bool

definition cloudflareThroughput :: "cf_transfer \<Rightarrow> float64 outcome" where
  "cloudflareThroughput t =
     (let total = sum_list (map fst (ct_Connections t))
      in if \<not> ct_Alive t then Cancelled
         else if total = 0 then
           (case List.map_filter snd (ct_Connections t) of [] \<Rightarrow> Failed ''no data transferred'' | e # _ \<Rightarrow> Failed e)
         else Finished (mbps total (ct_Elapsed t)))"

definition Cloudflare :: "(nat \<Rightarrow> string + cf_reply) \<Rightarrow> bool \<Rightarrow> cf_transfer \<Rightarrow> cf_transfer \<Rightarrow> probe_SpeedtestResult outcome" where
  "Cloudflare replies alive download upload =
     (case cloudflareLatency replies of
        Inl e \<Rightarrow> (if alive then Failed (''latency test: '' @ e) else Cancelled)
      | Inr (latency, colo) \<Rightarrow>
          staged_outcome ''download test: '' (cloudflareThroughput download) (\<lambda>dl.
          staged_outcome ''upload test: '' (cloudflareThroughput upload) (\<lambda>ul.
            if dl \<le> 0 \<or> ul \<le> 0 then Failed (implausible dl ul)
            else Finished \<lparr>sp_ServerName = (if colo \<noteq> '''' then ''Cloudflare ('' @ colo @ '')'' else ''Cloudflare''), sp_ServerCountry = '''',
                           sp_LatencyMs = of_int (latency div 1000) / 1000, sp_DownloadMbps = dl, sp_UploadMbps = ul,
                           sp_UserIP = '''', sp_UserISP = ''''\<rparr>)))"

lemma median_bracket:
  assumes "d \<noteq> []"
  shows "medianDuration d \<in> set d \<and> length d div 2 < length (filter (\<lambda>x. x \<le> medianDuration d) d)
    \<and> length d - length d div 2 \<le> length (filter (\<lambda>x. medianDuration d \<le> x) d)"
proof -
  let ?s = "sort d" and ?k = "length d div 2"
  have k: "?k < length ?s"
    using assms by (simp add: div_less_dividend)
  have le: "\<forall>x \<in> set (take (Suc ?k) ?s). x \<le> ?s ! ?k" and ge: "\<forall>x \<in> set (drop ?k ?s). ?s ! ?k \<le> x"
    using k sorted_sort [of d] by (auto simp: in_set_conv_nth sorted_nth_mono)
  have "length (filter P ?s) = length (filter P d)" for P
    by (simp add: filter_sort)
  moreover have "length (filter (\<lambda>x. x \<le> ?s ! ?k) ?s) \<ge> Suc ?k"
    using le k by (subst append_take_drop_id [of "Suc ?k" ?s, symmetric]) (simp del: append_take_drop_id)
  moreover have "length (filter (\<lambda>x. ?s ! ?k \<le> x) ?s) \<ge> length d - ?k"
    using ge k by (subst append_take_drop_id [of ?k ?s, symmetric]) (simp del: append_take_drop_id)
  moreover have "?s ! ?k \<in> set d"
    using k by (metis nth_mem set_sort)
  ultimately show ?thesis
    using assms by (simp add: medianDuration_def)
qed

section \<open>HTTP\<close>

text \<open>
  The callbacks of the trace, each with its time. A handshake ends with the expiry of the certificate, or with
  none on an error.
\<close>

datatype http_event =
    DNSStart go_time | DNSDone go_time | ConnectStart go_time | ConnectDone go_time string | TLSHandshakeStart go_time
  | TLSHandshakeDone go_time "go_time option" | GotFirstResponseByte go_time

record http_trace =
  hx_dnsStart :: "go_time option"
  hx_connectStart :: "go_time option"
  hx_tlsStart :: "go_time option"
  hx_firstByte :: "go_time option"
  hx_res :: probe_HTTPResult

definition ms_between :: "go_time option \<Rightarrow> go_time \<Rightarrow> float64" where
  "ms_between t now = (case t of None \<Rightarrow> 0 | Some t \<Rightarrow> of_int ((now - t) div 1000) / 1000)"

fun http_step :: "http_event \<Rightarrow> http_trace \<Rightarrow> http_trace" where
  "http_step (DNSStart t) x = x\<lparr>hx_dnsStart := Some t\<rparr>"
| "http_step (DNSDone t) x = x\<lparr>hx_res := (hx_res x)\<lparr>hr_DNSMs := ms_between (hx_dnsStart x) t\<rparr>\<rparr>"
| "http_step (ConnectStart t) x = (if hx_connectStart x = None then x\<lparr>hx_connectStart := Some t\<rparr> else x)"
| "http_step (ConnectDone t addr) x =
     x\<lparr>hx_res := (hx_res x)\<lparr>hr_ConnectMs := ms_between (hx_connectStart x) t, hr_ServerIP := addr\<rparr>\<rparr>"
| "http_step (TLSHandshakeStart t) x = x\<lparr>hx_tlsStart := Some t\<rparr>"
| "http_step (TLSHandshakeDone t expiry) x =
     x\<lparr>hx_res := (hx_res x)\<lparr>hr_TLSMs := ms_between (hx_tlsStart x) t,
         hr_CertExpiryDays := (case expiry of None \<Rightarrow> hr_CertExpiryDays (hx_res x)
           | Some notAfter \<Rightarrow> of_int (notAfter - t) / (of_int (3600 * second)) / 24)\<rparr>\<rparr>"
| "http_step (GotFirstResponseByte t) x = x\<lparr>hx_firstByte := Some t\<rparr>"

text \<open>The request could not be built, it failed, or it gave a status when the body had been read.\<close>

datatype http_end = Bad_Request string | Request_Failed string | Answered int go_time

definition HTTPCheck :: "string \<Rightarrow> go_time \<Rightarrow> http_event list \<Rightarrow> http_end \<Rightarrow> bool \<Rightarrow> probe_HTTPResult outcome" where
  "HTTPCheck url start events end alive =
     (case end of
        Bad_Request e \<Rightarrow> (if alive then Failed (''building request: '' @ e) else Cancelled)
      | Request_Failed e \<Rightarrow> (if alive then Failed (''request failed: '' @ e) else Cancelled)
      | Answered status now \<Rightarrow>
          (let x = fold http_step events \<lparr>hx_dnsStart = None, hx_connectStart = None, hx_tlsStart = None, hx_firstByte = None,
                 hx_res = \<lparr>hr_URL = url, hr_StatusCode = 0, hr_DNSMs = 0, hr_ConnectMs = 0, hr_TLSMs = 0, hr_TTFBMs = 0, hr_TotalMs = 0,
                   hr_CertExpiryDays = -1, hr_ServerIP = ''''\<rparr>\<rparr>
           in Finished ((hx_res x)\<lparr>hr_StatusCode := status, hr_TotalMs := ms_between (Some start) now,
                          hr_TTFBMs := (case hx_firstByte x of None \<Rightarrow> hr_TTFBMs (hx_res x) | Some t \<Rightarrow> of_int ((t - start) div 1000) / 1000)\<rparr>)))"

section \<open>Ping, DNS, TCP\<close>

text \<open>The statistics of the ping library: sent, received, loss and the round trips.\<close>

record ping_stats =
  pg_Sent :: int
  pg_Recv :: int
  pg_Loss :: float64
  pg_Min :: go_time
  pg_Avg :: go_time
  pg_Max :: go_time

definition ping_count :: "int \<Rightarrow> int" where
  "ping_count count = (if count \<le> 0 then 5 else count)"

definition Ping :: "(string \<Rightarrow> string option) \<Rightarrow> (string \<Rightarrow> int \<Rightarrow> string + ping_stats) \<Rightarrow> bool \<Rightarrow> string \<Rightarrow> int \<Rightarrow> probe_PingResult outcome" where
  "Ping new run alive target count =
     (case new target of
        Some e \<Rightarrow> (if alive then Failed (''creating pinger: '' @ e) else Cancelled)
      | None \<Rightarrow>
          (case run target (ping_count count) of
             Inl e \<Rightarrow> (if alive then Failed (''running ping: '' @ e) else Cancelled)
           | Inr st \<Rightarrow>
               Finished \<lparr>pp_Target = target, pp_PacketsSent = pg_Sent st, pp_PacketsReceived = pg_Recv st, pp_LossPercent = pg_Loss st,
                 pp_MinRttMs = of_int (pg_Min st div 1000) / 1000, pp_AvgRttMs = of_int (pg_Avg st div 1000) / 1000,
                 pp_MaxRttMs = of_int (pg_Max st div 1000) / 1000\<rparr>))"

definition DNSQuery :: "(string \<Rightarrow> string \<Rightarrow> string + string list) \<Rightarrow> go_time \<Rightarrow> bool \<Rightarrow> string \<Rightarrow> string \<Rightarrow> DnsResult option" where
  "DNSQuery lookup elapsed alive query server =
     (if \<not> alive then None
      else Some (let r = \<lparr>dn_Query = query, dn_Server = server, dn_Success = False, dn_ResolveTimeMs = of_int (elapsed div 1000) / 1000, dn_Addresses = []\<rparr>
                 in case lookup (join_host_port server ''53'') query of
                      Inl _ \<Rightarrow> r | Inr addrs \<Rightarrow> r\<lparr>dn_Success := True, dn_Addresses := addrs\<rparr>))"

definition TCPConnect :: "(string \<Rightarrow> u32 \<Rightarrow> string option) \<Rightarrow> go_time \<Rightarrow> string \<Rightarrow> u32 \<Rightarrow> TcpResult \<times> string option" where
  "TCPConnect dial elapsed target timeoutSeconds =
     (let err = dial target (if timeoutSeconds = 0 then 5 else timeoutSeconds)
      in (\<lparr>tc_Target = target, tc_Connected = (err = None), tc_ConnectMs = of_int (elapsed div 1000) / 1000\<rparr>, err))"

section \<open>The phases of a request\<close>

fun event_time :: "http_event \<Rightarrow> go_time" where
  "event_time (DNSStart t) = t"
| "event_time (DNSDone t) = t"
| "event_time (ConnectStart t) = t"
| "event_time (ConnectDone t _) = t"
| "event_time (TLSHandshakeStart t) = t"
| "event_time (TLSHandshakeDone t _) = t"
| "event_time (GotFirstResponseByte t) = t"

definition phases :: "probe_HTTPResult \<Rightarrow> float64 list" where
  "phases r = [hr_DNSMs r, hr_ConnectMs r, hr_TLSMs r]"

definition spans :: "go_time \<Rightarrow> float64 \<Rightarrow> bool" where
  "spans d ms \<longleftrightarrow> 0 \<le> ms \<and> ms \<le> of_int (d div 1000) / 1000"

lemma spans_0 [simp]: "0 \<le> d \<Longrightarrow> spans d 0"
  by (simp add: spans_def pos_imp_zdiv_nonneg_iff)

lemma spans_between: "pred_option (\<lambda>t. start \<le> t \<and> t \<le> now) x \<Longrightarrow> start \<le> now \<Longrightarrow> now \<le> later \<Longrightarrow> spans (later - start) (ms_between x now)"
  by (cases x) (auto simp: spans_def ms_between_def pos_imp_zdiv_nonneg_iff zdiv_mono1 divide_right_mono)

lemma spans_later: "spans d ms \<Longrightarrow> d \<le> e \<Longrightarrow> spans e ms"
  by (force simp: spans_def zdiv_mono1 divide_right_mono intro: order_trans)

definition trace_ok :: "go_time \<Rightarrow> go_time \<Rightarrow> http_trace \<Rightarrow> bool" where
  "trace_ok start now x \<longleftrightarrow> list_all (spans (now - start)) (phases (hx_res x)) \<and> hr_TTFBMs (hx_res x) = 0
     \<and> pred_option (\<lambda>t. start \<le> t \<and> t \<le> now) (hx_dnsStart x) \<and> pred_option (\<lambda>t. start \<le> t \<and> t \<le> now) (hx_connectStart x)
     \<and> pred_option (\<lambda>t. start \<le> t \<and> t \<le> now) (hx_tlsStart x) \<and> pred_option (\<lambda>t. start \<le> t \<and> t \<le> now) (hx_firstByte x)"

lemma trace_ok_later: "trace_ok start now x \<Longrightarrow> now \<le> t \<Longrightarrow> trace_ok start t x"
  by (auto simp: trace_ok_def phases_def option.pred_set intro: spans_later)

lemma http_step_ok: "trace_ok start now x \<Longrightarrow> start \<le> now \<Longrightarrow> now \<le> event_time e \<Longrightarrow> trace_ok start (event_time e) (http_step e x)"
  using trace_ok_later [of start now x "event_time e"]
  by (cases e) (auto simp: trace_ok_def phases_def spans_between)

lemma fold_http_ok:
  "trace_ok start now x \<Longrightarrow> start \<le> now \<Longrightarrow> sorted (now # map event_time es @ [e]) \<Longrightarrow> trace_ok start e (fold http_step es x)"
proof (induction es arbitrary: now x)
  case Nil
  then show ?case
    using trace_ok_later [of start now x e] by simp
next
  case (Cons ev es)
  then show ?case
    using http_step_ok [of start now x ev] Cons.IH [of "event_time ev" "http_step ev x"] by simp
qed

text \<open>
  The phases of an HTTP check fit into it: with a clock that does not go backwards, name resolution, connect,
  handshake and time to first byte each lie between 0 and the total, redirects and retries included.
\<close>

theorem http_phases_bounded:
  assumes "HTTPCheck url start events (Answered status now) alive = Finished r" "sorted (start # map event_time events @ [now])"
  shows "list_all (\<lambda>ms. 0 \<le> ms \<and> ms \<le> hr_TotalMs r) (hr_TTFBMs r # phases r)"
proof -
  let ?x = "fold http_step events \<lparr>hx_dnsStart = None, hx_connectStart = None, hx_tlsStart = None, hx_firstByte = None,
     hx_res = \<lparr>hr_URL = url, hr_StatusCode = 0, hr_DNSMs = 0, hr_ConnectMs = 0, hr_TLSMs = 0, hr_TTFBMs = 0, hr_TotalMs = 0,
       hr_CertExpiryDays = -1, hr_ServerIP = ''''\<rparr>\<rparr>"
  have ok: "trace_ok start now ?x"
    by (rule fold_http_ok [OF _ order_refl assms(2)]) (simp add: trace_ok_def phases_def)
  have total: "hr_TotalMs r = of_int ((now - start) div 1000) / 1000" "phases r = phases (hx_res ?x)"
    using assms(1) by (auto simp: HTTPCheck_def Let_def phases_def ms_between_def)
  have "spans (now - start) (hr_TTFBMs r)"
    using assms ok spans_between [of start now "Some start" now]
    by (auto simp: HTTPCheck_def Let_def trace_ok_def spans_def pos_imp_zdiv_nonneg_iff zdiv_mono1 divide_right_mono split: option.splits)
  moreover have "list_all (spans (now - start)) (phases r)"
    using ok total(2) by (simp add: trace_ok_def)
  ultimately have "list_all (spans (now - start)) (hr_TTFBMs r # phases r)"
    by simp
  then show ?thesis
    by (simp only: spans_def [abs_def] total(1))
qed

definition redirected :: "http_event list" where
  "redirected = [ConnectStart 0, ConnectDone 1000000 ''a'', GotFirstResponseByte 500000000, ConnectStart 501000000, ConnectDone 502000000 ''b'',
     GotFirstResponseByte 600000000]"

theorem http_phases_bounded_witness:
  "\<exists>r. HTTPCheck ''u'' 0 redirected (Answered 200 700000000) True = Finished r
     \<and> list_all (\<lambda>ms. 0 \<le> ms \<and> ms \<le> hr_TotalMs r) (hr_TTFBMs r # phases r)"
  using http_phases_bounded [of "''u''" 0 redirected 200 700000000 True]
  by (simp add: redirected_def HTTPCheck_def Let_def)

text \<open>
  After a redirect the connect time is measured from the first connection of the whole check: here 502
  milliseconds are reported for a connect that took one.
\<close>

theorem redirect_inflates_connect:
  "\<exists>r. HTTPCheck ''u'' 0 redirected (Answered 200 700000000) True = Finished r \<and> hr_ConnectMs r = 502 \<and> hr_ServerIP r = ''b''"
  by (simp add: redirected_def HTTPCheck_def Let_def ms_between_def)

end
