(* ===== verification/Wlan_Active.thy ===== *)
theory Wlan_Active
  imports Wlan_Sweep Host_Stats Speed_Probes
begin

text \<open>
  The active WLAN connection test (\<open>internal/probe/wlanactive.go\<close>, \<open>wlanactive_linux.go\<close>): the supplicant's
  configuration and its events, the connection as a machine over those events, the DHCP lease, the route for the
  test's traffic and the link quality, with every command and its undoing. Arguments are the clock readings, the
  supplicant's lines, the lease, what the ping library and the HTTP transport give and the output of \<open>iw\<close>.
\<close>

section \<open>The configuration\<close>

text \<open>\<open>strings.ReplaceAll\<close> of a one character string.\<close>

definition replace_char :: "char \<Rightarrow> string \<Rightarrow> string \<Rightarrow> string" where
  "replace_char c new s = concat (map (\<lambda>x. if x = c then new else [x]) s)"

definition wpaEscape :: "string \<Rightarrow> string" where
  "wpaEscape s = replace_char (CHR 0x22) [CHR 0x5C, CHR 0x22] (replace_char (CHR 0x5C) [CHR 0x5C, CHR 0x5C] s)"

definition quoted_line :: "string \<Rightarrow> string \<Rightarrow> string" where
  "quoted_line key v = ''  '' @ key @ ''='' @ [CHR 0x22] @ v @ [CHR 0x22, CHR 0x0A]"

definition nl :: "string \<Rightarrow> string" where
  "nl s = s @ [CHR 0x0A]"

definition wpaSupplicantConf :: "WlanActiveOpts \<Rightarrow> string \<Rightarrow> string" where
  "wpaSupplicantConf opts caCertPath =
     (let macAddr = (if wo_MACMode opts = ''random'' then ''1'' else ''0'')
      in nl ''ctrl_interface=/tmp/netlama-wpa'' @ nl (''mac_addr='' @ macAddr) @ nl (''preassoc_mac_addr='' @ macAddr)
         @ nl ''network={'' @ nl (''  mac_addr='' @ macAddr) @ quoted_line ''ssid'' (wpaEscape (wo_SSID opts)) @ nl ''  scan_ssid=1''
         @ (if wo_Security opts = ''eap-peap''
            then nl ''  key_mgmt=WPA-EAP'' @ nl ''  eap=PEAP'' @ quoted_line ''identity'' (wpaEscape (wo_Identity opts))
              @ quoted_line ''password'' (wpaEscape (wo_Password opts)) @ quoted_line ''phase2'' ''auth=MSCHAPV2''
              @ (if caCertPath \<noteq> '''' then quoted_line ''ca_cert'' caCertPath else '''')
            else if wo_Security opts = ''open'' then nl ''  key_mgmt=NONE''
            else nl ''  key_mgmt=WPA-PSK SAE'' @ nl ''  ieee80211w=1'' @ quoted_line ''psk'' (wpaEscape (wo_Password opts)))
         @ nl ''}'')"

definition txRetryPct :: "u32 \<Rightarrow> u32 \<Rightarrow> float64" where
  "txRetryPct packets retries =
     (let attempts = packets + retries
      in if attempts = 0 then 0 else of_nat (unat retries) / of_nat (unat attempts) * 100)"

section \<open>The supplicant's events\<close>

datatype wpaEvent =
  wpaEventNone | wpaEventTrying | wpaEventAssociated | wpaEventConnected | wpaEventAssocFail | wpaEventAuthFail

text \<open>What follows the first occurrence of a string.\<close>

fun after :: "string \<Rightarrow> string \<Rightarrow> string option" where
  "after s sub =
     (if has_prefix s sub then Some (drop (length sub) s)
      else case s of [] \<Rightarrow> None | _ # cs \<Rightarrow> after cs sub)"

declare after.simps [simp del] contains.simps [simp del]

definition parseWpaEvent :: "string \<Rightarrow> wpaEvent \<times> string" where
  "parseWpaEvent line =
     (if contains line ''Trying to associate'' \<or> contains line ''Trying to authenticate'' then (wpaEventTrying, '''')
      else if contains line ''Associated with '' then
        (wpaEventAssociated,
         (case after line ''Associated with '' of
            Some rest \<Rightarrow> (if length rest \<ge> 17 then take 17 rest else '''') | None \<Rightarrow> ''''))
      else if contains line ''CTRL-EVENT-CONNECTED'' then (wpaEventConnected, '''')
      else if contains line ''CTRL-EVENT-ASSOC-REJECT'' \<or> contains line ''CTRL-EVENT-AUTH-REJECT''
              \<or> contains line ''CTRL-EVENT-NETWORK-NOT-FOUND'' then (wpaEventAssocFail, '''')
      else if contains line ''CTRL-EVENT-SSID-TEMP-DISABLED'' \<or> contains line ''CTRL-EVENT-EAP-FAILURE''
              \<or> contains line ''WRONG_KEY'' \<or> contains line ''4WAY_HANDSHAKE_TIMEOUT'' then (wpaEventAuthFail, '''')
      else (wpaEventNone, ''''))"

section \<open>Connecting\<close>

text \<open>
  What the connect loop receives: a line of the supplicant, read at a time, or the end of its output. When
  nothing more comes, the connect timeout ends the loop.
\<close>

datatype conn_input = Wpa_Line go_time string | Wpa_Exit go_time

record conn_state =
  cn_tryingAt :: "go_time option"
  cn_assocAt :: "go_time option"
  cn_out :: WlanActiveOutcome

datatype conn_end = Gave_Up go_time WlanActiveOutcome | Connected_As WlanActiveOutcome

text \<open>\<open>strings.ToLower\<close> on ASCII.\<close>

definition ToLower :: "string \<Rightarrow> string" where
  "ToLower s = map (\<lambda>c. if CHR ''A'' \<le> c \<and> c \<le> CHR ''Z'' then char_of (of_char c + (32 :: nat)) else c) s"

definition micros_ms :: "go_time \<Rightarrow> float64" where
  "micros_ms d = of_int (d div 1000) / 1000"

fun connect_step :: "go_time \<Rightarrow> conn_input \<Rightarrow> conn_state \<Rightarrow> conn_end + conn_state" where
  "connect_step connStart (Wpa_Exit t) st = Inl (Gave_Up t (cn_out st))"
| "connect_step connStart (Wpa_Line t line) st =
     (case parseWpaEvent line of
        (wpaEventNone, _) \<Rightarrow> Inr st
      | (wpaEventTrying, _) \<Rightarrow>
          Inr (if cn_tryingAt st = None
               then st\<lparr>cn_tryingAt := Some t, cn_out := (cn_out st)\<lparr>wc_ScanMs := micros_ms (t - connStart)\<rparr>\<rparr> else st)
      | (wpaEventAssociated, bssid) \<Rightarrow>
          Inr (if cn_assocAt st = None
               then st\<lparr>cn_assocAt := Some t,
                       cn_out := (cn_out st)\<lparr>
                         wc_AssociateMs := micros_ms (t - (case cn_tryingAt st of Some f \<Rightarrow> f | None \<Rightarrow> connStart)),
                         wc_BSSID := ToLower bssid, wc_FailedStep := ''authenticate''\<rparr>\<rparr> else st)
      | (wpaEventConnected, _) \<Rightarrow>
          Inl (Connected_As ((cn_out st)\<lparr>wc_AuthenticateMs :=
                 micros_ms (t - (case cn_assocAt st of Some a \<Rightarrow> a | None \<Rightarrow> connStart))\<rparr>))
      | (wpaEventAssocFail, _) \<Rightarrow> Inl (Gave_Up t ((cn_out st)\<lparr>wc_FailedStep := ''associate''\<rparr>))
      | (wpaEventAuthFail, _) \<Rightarrow> Inl (Gave_Up t ((cn_out st)\<lparr>wc_FailedStep := ''authenticate''\<rparr>)))"

fun connect_loop :: "go_time \<Rightarrow> go_time \<Rightarrow> conn_input list \<Rightarrow> conn_state \<Rightarrow> conn_end" where
  "connect_loop connStart deadline [] st = Gave_Up deadline (cn_out st)"
| "connect_loop connStart deadline (x # xs) st =
     (case connect_step connStart x st of Inl e \<Rightarrow> e | Inr st \<Rightarrow> connect_loop connStart deadline xs st)"

section \<open>Link quality\<close>

definition int32 :: "int \<Rightarrow> int" where
  "int32 n = (n + 2 ^ 31) mod 2 ^ 32 - 2 ^ 31"

definition parseFirstInt32 :: "string \<Rightarrow> int" where
  "parseFirstInt32 s =
     (case Fields s of [] \<Rightarrow> 0 | f # _ \<Rightarrow> (case atoi_int f of None \<Rightarrow> 0 | Some n \<Rightarrow> int32 n))"

definition station_line :: "string \<Rightarrow> int \<times> u32 \<times> u32 \<Rightarrow> int \<times> u32 \<times> u32" where
  "station_line raw acc =
     (case acc of (signal, txPackets, txRetries) \<Rightarrow>
       let line = trim_space raw
       in case cut_prefix ''signal:'' line of
            Some v \<Rightarrow> (parseFirstInt32 v, txPackets, txRetries)
          | None \<Rightarrow> (case cut_prefix ''tx packets:'' line of
              Some v \<Rightarrow> (signal, of_int (parseFirstInt32 v), txRetries)
            | None \<Rightarrow> (case cut_prefix ''tx retries:'' line of
                Some v \<Rightarrow> (signal, txPackets, of_int (parseFirstInt32 v))
              | None \<Rightarrow> acc)))"

definition iwStationStats :: "string list option \<Rightarrow> int \<times> u32 \<times> u32" where
  "iwStationStats out = (case out of None \<Rightarrow> (0, 0, 0) | Some ls \<Rightarrow> fold station_line ls (0, 0, 0))"

fun survey_noise :: "bool \<Rightarrow> string list \<Rightarrow> int" where
  "survey_noise inUse [] = 0"
| "survey_noise inUse (l # ls) =
     (let t = trim_space l; inUse = (if has_prefix t ''Survey data from'' then False else inUse);
          inUse = (if contains t ''[in use]'' then True else inUse)
      in if inUse \<and> has_prefix t ''noise:'' then parseFirstInt32 (drop (length ''noise:'') t) else survey_noise inUse ls)"

definition iwSurveyNoise :: "string list option \<Rightarrow> int" where
  "iwSurveyNoise out = (case out of None \<Rightarrow> 0 | Some ls \<Rightarrow> survey_noise False ls)"

definition trim_dBm :: "string \<Rightarrow> string" where
  "trim_dBm v = (if length v \<ge> 4 \<and> drop (length v - 4) v = '' dBm'' then take (length v - 4) v else v)"

fun link_signal :: "string list \<Rightarrow> int" where
  "link_signal [] = 0"
| "link_signal (l # ls) =
     (case Option.bind (cut_prefix ''signal: '' (trim_space l)) (\<lambda>v. atoi_int (trim_dBm v)) of
        Some s \<Rightarrow> int32 s | None \<Rightarrow> link_signal ls)"

definition iwLinkSignal :: "string list option \<Rightarrow> int" where
  "iwLinkSignal out = (case out of None \<Rightarrow> 0 | Some ls \<Rightarrow> link_signal ls)"

definition collectLinkQuality :: "string list option \<Rightarrow> string list option \<Rightarrow> WlanActiveOutcome \<Rightarrow> WlanActiveOutcome" where
  "collectLinkQuality station survey out =
     (let (signal, txPackets, txRetries) = iwStationStats station;
          out = (if signal \<noteq> 0 then out\<lparr>wc_RSSIdBm := signal\<rparr> else out);
          out = out\<lparr>wc_TxPackets := txPackets, wc_TxRetries := txRetries, wc_TxRetryPct := txRetryPct txPackets txRetries\<rparr>;
          noise = iwSurveyNoise survey
      in if noise = 0 then out
         else let out = out\<lparr>wc_NoiseDBm := noise\<rparr>
              in if wc_RSSIdBm out \<noteq> 0 then out\<lparr>wc_SNRdB := of_int (int32 (wc_RSSIdBm out - noise))\<rparr> else out)"

section \<open>The route of the test\<close>

definition cidr_of :: "string \<Rightarrow> nat \<Rightarrow> string" where
  "cidr_of ip maskBits = ip @ ''/'' @ format_nat maskBits"

definition setupTestRoute :: "shell \<Rightarrow> string \<Rightarrow> string \<Rightarrow> nat \<Rightarrow> string \<Rightarrow> shell_cmd list \<Rightarrow> string option \<times> shell_cmd list" where
  "setupTestRoute sh iface ip maskBits gw prev =
     (let (err, prev) = run_cmd sh (Addr_Add iface (cidr_of ip maskBits)) prev
      in if err \<noteq> None then (err, prev)
         else if gw = '''' then (None, prev)
         else let (err, prev) = run_cmd sh (Route_Add iface gw) prev
              in if err \<noteq> None then (err, prev) else run_cmd sh (Rule_Add ip) prev)"

definition teardownTestRoute :: "shell \<Rightarrow> string \<Rightarrow> string \<Rightarrow> nat \<Rightarrow> shell_cmd list \<Rightarrow> shell_cmd list" where
  "teardownTestRoute sh iface ip maskBits prev =
     (let (_, prev) = run_cmd sh (Rule_Del ip) prev; (_, prev) = run_cmd sh Route_Flush prev
      in snd (run_cmd sh (Addr_Del iface (cidr_of ip maskBits)) prev))"

section \<open>Ping and download\<close>

text \<open>The ping library gives no statistics when the pinger cannot be created or its run fails.\<close>

definition pingGateway :: "(string \<Rightarrow> string \<Rightarrow> int \<Rightarrow> ping_stats option) \<Rightarrow> string \<Rightarrow> string \<Rightarrow> int \<Rightarrow> probe_PingResult option" where
  "pingGateway run sourceIP gateway count =
     map_option (\<lambda>st. \<lparr>pp_Target = '''', pp_PacketsSent = pg_Sent st, pp_PacketsReceived = pg_Recv st, pp_LossPercent = pg_Loss st,
       pp_MinRttMs = 0, pp_AvgRttMs = micros_ms (pg_Avg st), pp_MaxRttMs = 0\<rparr>) (run sourceIP gateway count)"

text \<open>
  A download that is refused, or that read a number of bytes in a time, with whether the copy ended in an error
  and whether the sample's time was over.
\<close>

datatype download = Refused | Copied int bool bool go_time

definition downloadVia :: "(string \<Rightarrow> string \<Rightarrow> download) \<Rightarrow> string \<Rightarrow> string \<Rightarrow> (float64 \<times> float64) option" where
  "downloadVia fetch localIP url =
     (case fetch localIP url of
        Refused \<Rightarrow> None
      | Copied n err expired elapsed \<Rightarrow>
          (if n = 0 \<and> err \<and> \<not> expired then None
           else let sec = (if elapsed \<le> 0 then 1 / 1000 else of_int elapsed / of_int second)
                in Some (of_int n * 8 / 1000000 / sec, micros_ms elapsed)))"

section \<open>The test\<close>

text \<open>The acknowledged lease: the address, the mask, the routers and the name servers it names.\<close>

record lease =
  le_YourIPAddr :: "u8 list"
  le_SubnetMask :: "u8 list option"
  le_Router :: "u8 list list"
  le_DNS :: "u8 list list"

record active_world =
  aw_shell :: shell
  aw_info :: "string + string list"
  aw_dir :: string
  aw_pipe :: "string option"
  aw_connStart :: go_time
  aw_deadline :: go_time
  aw_lines :: "conn_input list"
  aw_link :: "string list option"
  aw_address :: "string option"
  aw_client :: bool
  aw_dhcpStart :: go_time
  aw_lease :: "lease option"
  aw_leased :: go_time
  aw_ping :: "string \<Rightarrow> string \<Rightarrow> int \<Rightarrow> ping_stats option"
  aw_download :: "string \<Rightarrow> string \<Rightarrow> download"
  aw_station :: "string list option"
  aw_survey :: "string list option"
  aw_end :: go_time

definition new_outcome :: "string \<Rightarrow> string \<Rightarrow> WlanActiveOutcome" where
  "new_outcome iface ssid = \<lparr>wc_Interface = iface, wc_SSID = ssid, wc_BSSID = '''', wc_Success = False, wc_FailedStep = '''', wc_ScanMs = 0,
     wc_AssociateMs = 0, wc_AuthenticateMs = 0, wc_DHCPMs = 0, wc_IP = '''', wc_Netmask = '''', wc_Gateway = '''', wc_DNSServers = [],
     wc_ThroughputMbps = 0, wc_ThroughputMs = 0, wc_RSSIdBm = 0, wc_NoiseDBm = 0, wc_SNRdB = 0, wc_TxRetryPct = 0, wc_TxPackets = 0,
     wc_TxRetries = 0, wc_MAC = '''', wc_GatewayPingLossPct = 0, wc_GatewayPingRttMs = 0, wc_TotalMs = 0\<rparr>"

definition gatewayPingCount :: int where
  "gatewayPingCount = 20"

definition take_lease :: "active_world \<Rightarrow> lease \<Rightarrow> WlanActiveOutcome \<Rightarrow> WlanActiveOutcome" where
  "take_lease w l out = out\<lparr>wc_DHCPMs := micros_ms (aw_leased w - aw_dhcpStart w), wc_IP := IP_String (le_YourIPAddr l),
     wc_Netmask := (case le_SubnetMask l of None \<Rightarrow> wc_Netmask out | Some m \<Rightarrow> IP_String m),
     wc_Gateway := (case le_Router l of [] \<Rightarrow> wc_Gateway out | r # _ \<Rightarrow> IP_String r),
     wc_DNSServers := wc_DNSServers out @ map IP_String (le_DNS l)\<rparr>"

text \<open>The bits of the leased mask, if there is a gateway and the mask is an IPv4 one: only then a route is set up.\<close>

definition route_bits :: "WlanActiveOutcome \<Rightarrow> nat option" where
  "route_bits out =
     (if wc_Gateway out = '''' then None
      else map_option (\<lambda>m. fst (mask_Size m)) (Option.bind (ParseIP (wc_Netmask out)) To4))"

definition ping_gateway :: "active_world \<Rightarrow> WlanActiveOutcome \<Rightarrow> WlanActiveOutcome" where
  "ping_gateway w out =
     (case pingGateway (aw_ping w) (wc_IP out) (wc_Gateway out) gatewayPingCount of
        None \<Rightarrow> out
      | Some pr \<Rightarrow> out\<lparr>wc_GatewayPingLossPct := pp_LossPercent pr, wc_GatewayPingRttMs := pp_AvgRttMs pr\<rparr>)"

definition finish_test :: "active_world \<Rightarrow> WlanActiveOpts \<Rightarrow> string option \<Rightarrow> WlanActiveOutcome \<Rightarrow> WlanActiveOutcome" where
  "finish_test w opts routeErr out =
     (let quality = collectLinkQuality (aw_station w) (aw_survey w)
      in if wo_ThroughputURL opts = '''' then (quality out)\<lparr>wc_Success := True, wc_FailedStep := ''''\<rparr>
         else let out = out\<lparr>wc_FailedStep := ''throughput''\<rparr>
              in if routeErr \<noteq> None then quality out
                 else case downloadVia (aw_download w) (wc_IP out) (wo_ThroughputURL opts) of
                        None \<Rightarrow> quality out
                      | Some (speed, ms) \<Rightarrow>
                          (quality (out\<lparr>wc_ThroughputMbps := speed, wc_ThroughputMs := ms\<rparr>))\<lparr>wc_Success := True, wc_FailedStep := ''''\<rparr>)"

definition dhcp_and_traffic ::
  "active_world \<Rightarrow> string \<Rightarrow> WlanActiveOpts \<Rightarrow> WlanActiveOutcome \<Rightarrow> shell_cmd list \<Rightarrow> WlanActiveOutcome \<times> shell_cmd list" where
  "dhcp_and_traffic w iface opts out prev =
     (let out = out\<lparr>wc_RSSIdBm := iwLinkSignal (aw_link w),
                     wc_MAC := (case aw_address w of None \<Rightarrow> wc_MAC out | Some m \<Rightarrow> trim_space m)\<rparr>;
          (_, prev) = run_cmd (aw_shell w) (Power_Save_Off iface) prev;
          out = out\<lparr>wc_FailedStep := ''dhcp''\<rparr>
      in if \<not> aw_client w then (out, prev)
         else case aw_lease w of
                None \<Rightarrow> (out, prev)
              | Some l \<Rightarrow>
                  (let out = take_lease w l out
                   in case route_bits out of
                        None \<Rightarrow> (finish_test w opts None out, prev)
                      | Some maskBits \<Rightarrow>
                          (let (routeErr, prev) = setupTestRoute (aw_shell w) iface (wc_IP out) maskBits (wc_Gateway out) prev
                           in if routeErr \<noteq> None then (finish_test w opts routeErr out, prev)
                              else let out = finish_test w opts None (ping_gateway w out)
                                   in (out, teardownTestRoute (aw_shell w) iface (wc_IP out) maskBits prev))))"

text \<open>The test while the supplicant runs; \<open>TotalMs\<close> is read at the end of the last step.\<close>

definition run_test :: "active_world \<Rightarrow> string \<Rightarrow> WlanActiveOpts \<Rightarrow> shell_cmd list \<Rightarrow> WlanActiveOutcome \<times> shell_cmd list" where
  "run_test w iface opts prev =
     (case connect_loop (aw_connStart w) (aw_deadline w) (aw_lines w)
             \<lparr>cn_tryingAt = None, cn_assocAt = None, cn_out = (new_outcome iface (wo_SSID opts))\<lparr>wc_FailedStep := ''associate''\<rparr>\<rparr> of
        Gave_Up t out \<Rightarrow> (out\<lparr>wc_TotalMs := micros_ms (t - aw_connStart w)\<rparr>, prev)
      | Connected_As out \<Rightarrow>
          (let (out, prev) = dhcp_and_traffic w iface opts out prev
           in (out\<lparr>wc_TotalMs := micros_ms (aw_end w - aw_connStart w)\<rparr>, prev)))"

definition with_supplicant ::
  "active_world \<Rightarrow> string \<Rightarrow> WlanActiveOpts \<Rightarrow> shell_cmd list \<Rightarrow> WlanActiveOutcome outcome \<times> shell_cmd list" where
  "with_supplicant w iface opts prev =
     (case aw_pipe w of
        Some e \<Rightarrow> (Failed e, prev)
      | None \<Rightarrow>
          (let (err, prev) = run_cmd (aw_shell w) (Start_Supplicant iface) prev
           in case err of
                Some e \<Rightarrow> (Failed (''starting wpa_supplicant: '' @ e), prev)
              | None \<Rightarrow>
                  (let (out, prev) = run_test w iface opts prev
                   in (Finished out, snd (run_cmd (aw_shell w) Kill_Supplicant prev)))))"

definition with_files ::
  "active_world \<Rightarrow> string \<Rightarrow> WlanActiveOpts \<Rightarrow> shell_cmd list \<Rightarrow> WlanActiveOutcome outcome \<times> shell_cmd list" where
  "with_files w iface opts prev =
     (let pinned = (wo_Security opts = ''eap-peap'' \<and> \<not> wo_InsecureSkipVerify opts \<and> wo_CACertPEM opts \<noteq> '''');
          caPath = (if pinned then aw_dir w @ ''/ca.pem'' else '''');
          (err, prev) = (if pinned then run_cmd (aw_shell w) (Write_File caPath (wo_CACertPEM opts)) prev else (None, prev))
      in case err of
           Some e \<Rightarrow> (Failed e, prev)
         | None \<Rightarrow>
             (let (err, prev) = run_cmd (aw_shell w) (Write_File (aw_dir w @ ''/wpa.conf'') (wpaSupplicantConf opts caPath)) prev
              in case err of Some e \<Rightarrow> (Failed e, prev) | None \<Rightarrow> with_supplicant w iface opts prev))"

definition with_dir ::
  "active_world \<Rightarrow> string \<Rightarrow> WlanActiveOpts \<Rightarrow> shell_cmd list \<Rightarrow> WlanActiveOutcome outcome \<times> shell_cmd list" where
  "with_dir w iface opts prev =
     (let (err, prev) = run_cmd (aw_shell w) Make_Dir prev
      in case err of
           Some e \<Rightarrow> (Failed e, prev)
         | None \<Rightarrow> (let (r, prev) = with_files w iface opts prev in (r, snd (run_cmd (aw_shell w) Remove_Dir prev))))"

definition wlanActiveImpl :: "active_world \<Rightarrow> string \<Rightarrow> WlanActiveOpts \<Rightarrow> WlanActiveOutcome outcome \<times> shell_cmd list" where
  "wlanActiveImpl w iface opts =
     (case getInterfaceType (aw_info w) of
        Inl e \<Rightarrow> (Failed (''getting interface type: '' @ e), [])
      | Inr prevType \<Rightarrow>
          (if prevType = ''managed'' then with_dir w iface opts []
           else let (err, prev) = setInterfaceType (aw_shell w) iface ''managed'' []
                in case err of
                     Some e \<Rightarrow> (Failed (''switching '' @ iface @ '' to managed: '' @ e), prev)
                   | None \<Rightarrow> (let (r, prev) = with_dir w iface opts prev
                              in (r, snd (setInterfaceType (aw_shell w) iface prevType prev)))))"

section \<open>Undoing\<close>

text \<open>Whether a resource is held: \<open>acq\<close> succeeded and no \<open>rel\<close> succeeded since.\<close>

definition cmd_held :: "shell \<Rightarrow> shell_cmd \<Rightarrow> shell_cmd \<Rightarrow> shell_cmd list \<Rightarrow> shell_cmd \<Rightarrow> bool \<Rightarrow> bool" where
  "cmd_held sh acq rel prev c m =
     (if sh prev c \<noteq> None then m else if c = acq then True else if c = rel then False else m)"

definition held :: "shell \<Rightarrow> shell_cmd \<Rightarrow> shell_cmd \<Rightarrow> shell_cmd list \<Rightarrow> bool" where
  "held sh acq rel cmds = effect_after (cmd_held sh acq rel) False cmds"

lemma held_Nil [simp]: "\<not> held sh acq rel []"
  by (simp add: held_def)

text \<open>
  A command seen from outside: it adds itself to those that ran, so only its own effect is left to look at.
\<close>

lemma held_run [simp]:
  "held sh acq rel (snd (run_cmd sh c prev)) =
     (if fst (run_cmd sh c prev) \<noteq> None then held sh acq rel prev else if c = acq then True else if c = rel then False else held sh acq rel prev)"
  by (simp add: held_def cmd_held_def run_cmd_def)

lemma type_run [simp]: "type_after sh iface t (snd (run_cmd sh' c prev)) = cmd_type sh iface prev c (type_after sh iface t prev)"
  by (simp add: run_cmd_def)

lemma fst_run: "fst (run_cmd sh c prev) = sh prev c"
  by (simp add: run_cmd_def)

lemmas staged = Let_def case_prod_unfold

lemma setup_type [simp]: "type_after sh iface t (snd (setupTestRoute sh' f ip bits gw prev)) = type_after sh iface t prev"
  by (simp add: setupTestRoute_def staged)

lemma teardown_type [simp]: "type_after sh iface t (teardownTestRoute sh' f ip bits prev) = type_after sh iface t prev"
  by (simp add: teardownTestRoute_def staged)

lemma traffic_type [simp]: "type_after sh iface t (snd (dhcp_and_traffic w f opts out prev)) = type_after sh iface t prev"
  by (simp add: dhcp_and_traffic_def staged split: option.split)

lemma run_test_type [simp]: "type_after sh iface t (snd (run_test w f opts prev)) = type_after sh iface t prev"
  by (simp add: run_test_def staged split: conn_end.split)

lemma with_supplicant_type [simp]: "type_after sh iface t (snd (with_supplicant w f opts prev)) = type_after sh iface t prev"
  by (simp add: with_supplicant_def staged split: option.split)

lemma with_files_type [simp]: "type_after sh iface t (snd (with_files w f opts prev)) = type_after sh iface t prev"
  by (simp add: with_files_def staged split: option.split)

lemma with_dir_type [simp]: "type_after sh iface t (snd (with_dir w f opts prev)) = type_after sh iface t prev"
  by (simp add: with_dir_def staged split: option.split)

text \<open>The supplicant and the directory are resources that the steps within them do not touch.\<close>

definition outer :: "string \<Rightarrow> (shell_cmd \<times> shell_cmd) list" where
  "outer iface = [(Start_Supplicant iface, Kill_Supplicant), (Make_Dir, Remove_Dir)]"

lemma held_other: "c \<noteq> acq \<Longrightarrow> c \<noteq> rel \<Longrightarrow> held sh acq rel (snd (run_cmd sh c prev)) = held sh acq rel prev"
  by simp

lemma outer_other:
  assumes "(acq, rel) \<in> set (outer i)"
  shows "Link_Down f \<noteq> acq" "Link_Down f \<noteq> rel" "Link_Up f \<noteq> acq" "Link_Up f \<noteq> rel" "Set_Type f t \<noteq> acq" "Set_Type f t \<noteq> rel"
    "Power_Save_Off f \<noteq> acq" "Power_Save_Off f \<noteq> rel" "Addr_Add f a \<noteq> acq" "Addr_Add f a \<noteq> rel" "Route_Add f a \<noteq> acq"
    "Route_Add f a \<noteq> rel" "Rule_Add a \<noteq> acq" "Rule_Add a \<noteq> rel" "Rule_Del a \<noteq> acq" "Rule_Del a \<noteq> rel"
    "Route_Flush \<noteq> acq" "Route_Flush \<noteq> rel" "Addr_Del f a \<noteq> acq" "Addr_Del f a \<noteq> rel"
  using assms by (auto simp: outer_def)

lemma setup_held: "(acq, rel) \<in> set (outer i) \<Longrightarrow> held sh acq rel (snd (setupTestRoute sh f ip bits gw prev)) = held sh acq rel prev"
  by (simp add: setupTestRoute_def staged held_other outer_other del: held_run)

lemma teardown_held: "(acq, rel) \<in> set (outer i) \<Longrightarrow> held sh acq rel (teardownTestRoute sh f ip bits prev) = held sh acq rel prev"
  by (simp add: teardownTestRoute_def staged held_other outer_other del: held_run)

lemma power_held: "(acq, rel) \<in> set (outer i) \<Longrightarrow> held sh acq rel (snd (run_cmd sh (Power_Save_Off f) prev)) = held sh acq rel prev"
  by (simp add: held_other outer_other del: held_run)

lemma run_test_held:
  "(acq, rel) \<in> set (outer i) \<Longrightarrow> held (aw_shell w) acq rel (snd (run_test w f opts prev)) = held (aw_shell w) acq rel prev"
  by (simp add: run_test_def dhcp_and_traffic_def staged setup_held teardown_held power_held del: held_run split: conn_end.split option.split)

lemma supplicant_killed:
  assumes "\<forall>h. aw_shell w h Kill_Supplicant = None" "\<not> held (aw_shell w) (Start_Supplicant f) Kill_Supplicant prev"
  shows "\<not> held (aw_shell w) (Start_Supplicant f) Kill_Supplicant (snd (with_supplicant w f opts prev))"
  using assms by (simp add: with_supplicant_def staged fst_run split: option.split)

lemma with_supplicant_dir:
  "held (aw_shell w) Make_Dir Remove_Dir (snd (with_supplicant w f opts prev)) = held (aw_shell w) Make_Dir Remove_Dir prev"
  using run_test_held [of Make_Dir Remove_Dir f] by (simp add: with_supplicant_def staged outer_def split: option.split)

lemma with_files_killed:
  assumes "\<forall>h. aw_shell w h Kill_Supplicant = None" "\<not> held (aw_shell w) (Start_Supplicant f) Kill_Supplicant prev"
  shows "\<not> held (aw_shell w) (Start_Supplicant f) Kill_Supplicant (snd (with_files w f opts prev))"
  using assms by (simp add: with_files_def staged supplicant_killed split: option.split)

lemma with_dir_clean:
  assumes "\<forall>h. aw_shell w h Kill_Supplicant = None" "\<forall>h. aw_shell w h Remove_Dir = None"
    and "\<not> held (aw_shell w) (Start_Supplicant f) Kill_Supplicant prev" "\<not> held (aw_shell w) Make_Dir Remove_Dir prev"
  shows "\<not> held (aw_shell w) (Start_Supplicant f) Kill_Supplicant (snd (with_dir w f opts prev))"
    and "\<not> held (aw_shell w) Make_Dir Remove_Dir (snd (with_dir w f opts prev))"
  using assms by (simp_all add: with_dir_def staged fst_run with_files_killed split: option.split)

lemma setInterfaceType_held:
  "(acq, rel) \<in> set (outer i) \<Longrightarrow> held sh acq rel (snd (setInterfaceType sh f t prev)) = held sh acq rel prev"
  by (simp add: setInterfaceType_def staged held_other outer_other del: held_run)

text \<open>
  C33. The connection test leaves the host as it found it, however it ends: the interface has its type
  again, the supplicant is stopped and its directory with the credentials is gone, given that these commands can
  be carried out.
\<close>

theorem active_test_cleans_up:
  assumes "getInterfaceType (aw_info w) = Inr t"
    and "\<forall>h. aw_shell w h (Set_Type iface t) = None" "\<forall>h. aw_shell w h (Link_Up iface) = None"
    and "\<forall>h. aw_shell w h Kill_Supplicant = None" "\<forall>h. aw_shell w h Remove_Dir = None"
  shows "type_after (aw_shell w) iface t (snd (wlanActiveImpl w iface opts)) = t
    \<and> \<not> held (aw_shell w) (Start_Supplicant iface) Kill_Supplicant (snd (wlanActiveImpl w iface opts))
    \<and> \<not> held (aw_shell w) Make_Dir Remove_Dir (snd (wlanActiveImpl w iface opts))"
proof -
  let ?set = "setInterfaceType (aw_shell w) iface ''managed'' []"
  have set: "\<not> held (aw_shell w) (Start_Supplicant iface) Kill_Supplicant (snd ?set)" "\<not> held (aw_shell w) Make_Dir Remove_Dir (snd ?set)"
    by (simp_all add: setInterfaceType_held [of _ _ iface] outer_def)
  have "type_after (aw_shell w) iface t (snd ?set) = t" if "fst ?set = Some e" for e
    using that assms(3) by (auto simp: setInterfaceType_def staged fst_run split: if_splits)
  moreover have "type_after (aw_shell w) iface t (snd (setInterfaceType (aw_shell w) iface t prev)) = t" for prev
    using setInterfaceType_type [of "aw_shell w" iface t prev _ _ t] assms(2) by (metis prod.collapse)
  ultimately show ?thesis
    using set assms(1) with_dir_clean [OF assms(4,5)]
    by (simp add: wlanActiveImpl_def staged setInterfaceType_held [of _ _ iface] outer_def split: option.split)
qed

definition quiet_world :: "shell \<Rightarrow> active_world" where
  "quiet_world sh = \<lparr>aw_shell = sh, aw_info = Inr [''type monitor''], aw_dir = ''/tmp/x'', aw_pipe = None, aw_connStart = 0,
     aw_deadline = 25000000000,
     aw_lines = [Wpa_Line 2000000 ''Trying to associate with x'', Wpa_Line 5000000 ''Associated with A0:B1:C2:D3:E4:F5 '',
       Wpa_Line 9000000 ''CTRL-EVENT-CONNECTED''],
     aw_link = None, aw_address = None, aw_client = True, aw_dhcpStart = 9000000,
     aw_lease = Some \<lparr>le_YourIPAddr = [10, 0, 0, 9], le_SubnetMask = Some [255, 255, 255, 0], le_Router = [[10, 0, 0, 1]], le_DNS = []\<rparr>,
     aw_leased = 60000000, aw_ping = (\<lambda>_ _ _. None), aw_download = (\<lambda>_ _. Refused), aw_station = None, aw_survey = None,
     aw_end = 90000000\<rparr>"

definition lab :: WlanActiveOpts where
  "lab = \<lparr>wo_SSID = ''lab'', wo_Security = ''open'', wo_Password = '''', wo_Identity = '''', wo_CACertPEM = '''',
     wo_InsecureSkipVerify = False, wo_ThroughputURL = '''', wo_MACMode = ''''\<rparr>"

lemma quiet_info: "getInterfaceType (aw_info (quiet_world sh)) = Inr ''monitor''"
  by code_simp

theorem active_test_cleans_up_witness:
  "type_after (\<lambda>_ _. None) ''w'' ''monitor'' (snd (wlanActiveImpl (quiet_world (\<lambda>_ _. None)) ''w'' lab)) = ''monitor''"
  using active_test_cleans_up [OF quiet_info, of "\<lambda>_ _. None" "''w''" lab] by (simp add: quiet_world_def)

text \<open>
  The address of a lease stays on the interface when the default route cannot be added: the undoing of the route
  is registered only after all three commands have succeeded.
\<close>

theorem failed_route_keeps_address:
  assumes "sh = (\<lambda>_ c. if c = Route_Add ''w'' ''10.0.0.1'' then Some ''exists'' else None)"
  shows "held sh (Addr_Add ''w'' ''10.0.0.9/24'') (Addr_Del ''w'' ''10.0.0.9/24'') (snd (wlanActiveImpl (quiet_world sh) ''w'' lab))"
  unfolding assms by code_simp

section \<open>The verdict\<close>

lemma quality_keeps [simp]:
  "wc_Success (collectLinkQuality st sv out) = wc_Success out" "wc_FailedStep (collectLinkQuality st sv out) = wc_FailedStep out"
  "wc_IP (collectLinkQuality st sv out) = wc_IP out" "wc_ScanMs (collectLinkQuality st sv out) = wc_ScanMs out"
  "wc_AssociateMs (collectLinkQuality st sv out) = wc_AssociateMs out" "wc_AuthenticateMs (collectLinkQuality st sv out) = wc_AuthenticateMs out"
  "wc_DHCPMs (collectLinkQuality st sv out) = wc_DHCPMs out"
  by (simp_all add: collectLinkQuality_def staged)

lemma ping_keeps [simp]:
  "wc_Success (ping_gateway w out) = wc_Success out" "wc_FailedStep (ping_gateway w out) = wc_FailedStep out"
  "wc_IP (ping_gateway w out) = wc_IP out" "wc_ScanMs (ping_gateway w out) = wc_ScanMs out"
  "wc_AssociateMs (ping_gateway w out) = wc_AssociateMs out" "wc_AuthenticateMs (ping_gateway w out) = wc_AuthenticateMs out"
  "wc_DHCPMs (ping_gateway w out) = wc_DHCPMs out"
  by (simp_all add: ping_gateway_def split: option.split)

lemma finish_keeps [simp]:
  "wc_IP (finish_test w opts e out) = wc_IP out" "wc_ScanMs (finish_test w opts e out) = wc_ScanMs out"
  "wc_AssociateMs (finish_test w opts e out) = wc_AssociateMs out" "wc_AuthenticateMs (finish_test w opts e out) = wc_AuthenticateMs out"
  "wc_DHCPMs (finish_test w opts e out) = wc_DHCPMs out"
  by (simp_all add: finish_test_def staged split: option.split)

text \<open>What a verdict says, given the lease and whether a download was asked for.\<close>

definition verdict_ok :: "active_world \<Rightarrow> WlanActiveOpts \<Rightarrow> WlanActiveOutcome \<Rightarrow> bool" where
  "verdict_ok w opts r \<longleftrightarrow>
     wc_FailedStep r \<in> set ['''', ''associate'', ''authenticate'', ''dhcp'', ''throughput'']
     \<and> wc_Success r = (wc_FailedStep r = '''')
     \<and> (if wc_FailedStep r \<in> set ['''', ''throughput'']
        then (case aw_lease w of None \<Rightarrow> False | Some l \<Rightarrow> wc_IP r = IP_String (le_YourIPAddr l)) else wc_IP r = '''')
     \<and> (if wc_FailedStep r = ''throughput'' then wo_ThroughputURL opts \<noteq> '''' else True)"

definition not_yet :: "WlanActiveOutcome \<Rightarrow> bool" where
  "not_yet out \<longleftrightarrow> \<not> wc_Success out \<and> wc_FailedStep out \<in> {''associate'', ''authenticate''} \<and> wc_IP out = ''''"

lemma connect_step_not_yet:
  "not_yet (cn_out st) \<Longrightarrow> (case connect_step c x st of
     Inl (Gave_Up _ out) \<Rightarrow> not_yet out | Inl (Connected_As out) \<Rightarrow> not_yet out | Inr st' \<Rightarrow> not_yet (cn_out st'))"
  by (cases x) (auto simp: not_yet_def split: prod.splits wpaEvent.splits)

lemma connect_loop_not_yet:
  "not_yet (cn_out st) \<Longrightarrow> (case connect_loop c d xs st of Gave_Up _ out \<Rightarrow> not_yet out | Connected_As out \<Rightarrow> not_yet out)"
proof (induction xs arbitrary: st)
  case (Cons x xs)
  then show ?case
    using connect_step_not_yet [of st c x] by (cases "connect_step c x st") (auto split: conn_end.splits)
qed simp

lemma take_lease_keeps [simp]:
  "wc_Success (take_lease w l out) = wc_Success out" "wc_IP (take_lease w l out) = IP_String (le_YourIPAddr l)"
  "wc_ScanMs (take_lease w l out) = wc_ScanMs out" "wc_AssociateMs (take_lease w l out) = wc_AssociateMs out"
  "wc_AuthenticateMs (take_lease w l out) = wc_AuthenticateMs out"
  "wc_DHCPMs (take_lease w l out) = micros_ms (aw_leased w - aw_dhcpStart w)"
  by (simp_all add: take_lease_def)

lemma finish_verdict:
  "\<not> wc_Success out \<Longrightarrow> aw_lease w = Some l \<Longrightarrow> wc_IP out = IP_String (le_YourIPAddr l) \<Longrightarrow> verdict_ok w opts (finish_test w opts e out)"
  by (simp add: finish_test_def verdict_ok_def staged split: option.split)

lemma no_lease_verdict: "\<not> wc_Success out \<Longrightarrow> wc_IP out = '''' \<Longrightarrow> wc_FailedStep out = ''dhcp'' \<Longrightarrow> verdict_ok w opts out"
  by (simp add: verdict_ok_def)

lemma not_yet_verdict: "not_yet out \<Longrightarrow> verdict_ok w opts out"
  by (auto simp: not_yet_def verdict_ok_def)

lemma verdict_total [simp]: "verdict_ok w opts (out\<lparr>wc_TotalMs := ms\<rparr>) = verdict_ok w opts out"
  by (cases "aw_lease w") (simp_all add: verdict_ok_def)

lemma traffic_verdict: "not_yet out \<Longrightarrow> verdict_ok w opts (fst (dhcp_and_traffic w iface opts out prev))"
  unfolding not_yet_def dhcp_and_traffic_def staged
  by (cases "aw_lease w") (simp_all add: no_lease_verdict finish_verdict split: option.split del: split_paired_Ex)

lemma not_yet_total [simp]: "not_yet (out\<lparr>wc_TotalMs := ms\<rparr>) = not_yet out"
  by (simp add: not_yet_def)

lemma run_test_verdict: "verdict_ok w opts (fst (run_test w iface opts prev))"
proof -
  let ?st = "\<lparr>cn_tryingAt = None, cn_assocAt = None, cn_out = (new_outcome iface (wo_SSID opts))\<lparr>wc_FailedStep := ''associate''\<rparr>\<rparr>"
  have "not_yet (cn_out ?st)"
    by (simp add: not_yet_def new_outcome_def)
  then show ?thesis
    using connect_loop_not_yet [of ?st "aw_connStart w" "aw_deadline w" "aw_lines w"]
    by (cases "connect_loop (aw_connStart w) (aw_deadline w) (aw_lines w) ?st")
      (simp_all add: run_test_def staged traffic_verdict not_yet_verdict)
qed

lemma finished_is_run_test:
  assumes "wlanActiveImpl w iface opts = (Finished r, cmds)"
  obtains prev where "r = fst (run_test w iface opts prev)"
  using assms that
  by (auto simp: wlanActiveImpl_def with_dir_def with_files_def with_supplicant_def staged split: sum.splits option.splits if_splits)

text \<open>
  C34. The verdict of a connection test is consistent: a test that ran succeeds exactly when it names no failed
  step, the step is one of the four, an address is reported exactly from the lease on, and the throughput step
  is blamed only if a download was asked for.
\<close>

theorem active_verdict:
  assumes "wlanActiveImpl w iface opts = (Finished r, cmds)"
  shows "verdict_ok w opts r"
  using finished_is_run_test [OF assms] run_test_verdict by metis

theorem active_verdict_witness:
  "\<exists>r cmds. wlanActiveImpl (quiet_world (\<lambda>_ _. None)) ''w'' lab = (Finished r, cmds) \<and> wc_Success r
     \<and> verdict_ok (quiet_world (\<lambda>_ _. None)) lab r"
proof -
  have "(case wlanActiveImpl (quiet_world (\<lambda>_ _. None)) ''w'' lab of (Finished r, _) \<Rightarrow> wc_Success r | _ \<Rightarrow> False)"
    by code_simp
  then show ?thesis
    using active_verdict [of "quiet_world (\<lambda>_ _. None)" "''w''" lab] by (auto split: prod.splits outcome.splits)
qed

section \<open>The escaped values\<close>

text \<open>Reading a quoted value: up to the first quote that is not escaped, the escapes undone.\<close>

fun read_quoted :: "string \<Rightarrow> (string \<times> string) option" where
  "read_quoted [] = None"
| "read_quoted (c # cs) =
     (if c = CHR 0x22 then Some ([], cs)
      else if c = CHR 0x5C then (case cs of [] \<Rightarrow> None | d # ds \<Rightarrow> map_option (apfst ((#) d)) (read_quoted ds))
      else map_option (apfst ((#) c)) (read_quoted cs))"

lemma wpaEscape_Nil [simp]: "wpaEscape [] = []"
  by (simp add: wpaEscape_def replace_char_def)

lemma wpaEscape_Cons [simp]:
  "wpaEscape (c # cs) = (if c = CHR 0x5C then [CHR 0x5C, CHR 0x5C] else if c = CHR 0x22 then [CHR 0x5C, CHR 0x22] else [c]) @ wpaEscape cs"
  by (simp add: wpaEscape_def replace_char_def)

text \<open>
  An escaped value cannot leave its quotes: a reader of quoted strings gets back the value as it was given,
  and what follows it, whatever characters the value has.
\<close>

theorem wpa_escape_roundtrip: "read_quoted (wpaEscape s @ CHR 0x22 # rest) = Some (s, rest)"
  by (induction s) simp_all

text \<open>
  A line break is not escaped, and the file is read by lines: an SSID with line breaks in it puts lines of its own
  into the configuration.
\<close>

theorem newline_adds_lines:
  "''ctrl_interface=/run/x'' \<in> set (split_on (CHR 0x0A)
     (wpaSupplicantConf (lab\<lparr>wo_SSID := ''a'' @ [CHR 0x0A] @ ''ctrl_interface=/run/x'' @ [CHR 0x0A] @ ''b''\<rparr>) ''''))"
  by code_simp

section \<open>The times\<close>

fun time_of :: "conn_input \<Rightarrow> go_time" where
  "time_of (Wpa_Line t _) = t"
| "time_of (Wpa_Exit t) = t"

definition fits :: "go_time \<Rightarrow> float64 \<Rightarrow> bool" where
  "fits d ms \<longleftrightarrow> 0 \<le> ms \<and> ms \<le> micros_ms d"

lemma fits_0 [simp]: "0 \<le> d \<Longrightarrow> fits d 0"
  by (simp add: fits_def micros_ms_def pos_imp_zdiv_nonneg_iff)

lemma fits_micros: "0 \<le> a \<Longrightarrow> a \<le> d \<Longrightarrow> fits d (micros_ms a)"
  by (simp add: fits_def micros_ms_def pos_imp_zdiv_nonneg_iff zdiv_mono1 divide_right_mono)

lemma fits_mono: "fits a ms \<Longrightarrow> a \<le> d \<Longrightarrow> fits d ms"
  by (force simp: fits_def micros_ms_def zdiv_mono1 divide_right_mono intro: order_trans)

text \<open>The stages so far lie between the start and now.\<close>

definition stages :: "WlanActiveOutcome \<Rightarrow> float64 list" where
  "stages r = [wc_ScanMs r, wc_AssociateMs r, wc_AuthenticateMs r, wc_DHCPMs r]"

definition timed :: "go_time \<Rightarrow> go_time \<Rightarrow> conn_state \<Rightarrow> bool" where
  "timed c now st \<longleftrightarrow> list_all (fits (now - c)) (stages (cn_out st))
     \<and> pred_option (\<lambda>t. c \<le> t \<and> t \<le> now) (cn_tryingAt st) \<and> pred_option (\<lambda>t. c \<le> t \<and> t \<le> now) (cn_assocAt st)"

lemma timed_later: "timed c now st \<Longrightarrow> now \<le> t \<Longrightarrow> timed c t st"
  by (auto simp: timed_def stages_def option.pred_set intro: fits_mono)

lemma connect_step_timed:
  assumes "timed c now st" "c \<le> now" "now \<le> time_of x"
  shows "case connect_step c x st of
      Inl (Gave_Up t out) \<Rightarrow> t = time_of x \<and> list_all (fits (time_of x - c)) (stages out)
    | Inl (Connected_As out) \<Rightarrow> list_all (fits (time_of x - c)) (stages out)
    | Inr st' \<Rightarrow> timed c (time_of x) st'"
  using timed_later [OF assms(1,3)] assms(2,3)
  by (cases x) (auto simp: timed_def stages_def fits_micros split: prod.splits wpaEvent.splits option.splits)

lemma connect_loop_timed:
  "timed c now st \<Longrightarrow> c \<le> now \<Longrightarrow> sorted (now # map time_of xs @ [d]) \<Longrightarrow> sorted (now # map time_of xs @ [e]) \<Longrightarrow>
   (case connect_loop c d xs st of
      Gave_Up t out \<Rightarrow> list_all (fits (t - c)) (stages out)
    | Connected_As out \<Rightarrow> list_all (fits (e - c)) (stages out))"
proof (induction xs arbitrary: now st)
  case Nil
  then show ?case
    using timed_later [OF Nil(1), of d] by (simp add: timed_def)
next
  case (Cons x xs)
  have "time_of x \<le> e"
    using Cons.prems(4) by simp
  then show ?case
    using connect_step_timed [OF Cons.prems(1,2), of x] Cons.prems Cons.IH [of "time_of x"]
    by (cases "connect_step c x st") (auto simp: list_all_iff intro: fits_mono split: conn_end.splits)
qed

lemma traffic_stages:
  "list_all (fits d) (stages out) \<Longrightarrow> fits d (micros_ms (aw_leased w - aw_dhcpStart w))
   \<Longrightarrow> list_all (fits d) (stages (fst (dhcp_and_traffic w iface opts out prev)))"
  by (simp add: dhcp_and_traffic_def stages_def staged split: option.split)

text \<open>
  The times of a connection test fit together: with a clock that does not go backwards, the scan, the
  association, the authentication and the DHCP exchange each take at least 0 and at most the total time.
\<close>

theorem active_times_bounded:
  assumes "wlanActiveImpl w iface opts = (Finished r, cmds)"
    and "sorted (aw_connStart w # map time_of (aw_lines w) @ [aw_deadline w])"
    and "sorted (aw_connStart w # map time_of (aw_lines w) @ [aw_dhcpStart w, aw_leased w, aw_end w])"
  shows "list_all (\<lambda>ms. 0 \<le> ms \<and> ms \<le> wc_TotalMs r) (stages r)"
proof -
  let ?st = "\<lparr>cn_tryingAt = None, cn_assocAt = None, cn_out = (new_outcome iface (wo_SSID opts))\<lparr>wc_FailedStep := ''associate''\<rparr>\<rparr>"
  obtain prev where r: "r = fst (run_test w iface opts prev)"
    using finished_is_run_test [OF assms(1)] by blast
  have "timed (aw_connStart w) (aw_connStart w) ?st"
    by (simp add: timed_def stages_def new_outcome_def)
  moreover have ends: "sorted (aw_connStart w # map time_of (aw_lines w) @ [aw_end w])" "aw_dhcpStart w \<le> aw_leased w" "aw_leased w \<le> aw_end w"
      "aw_connStart w \<le> aw_dhcpStart w"
    using assms(3) by (auto simp: sorted_append)
  ultimately have loop: "case connect_loop (aw_connStart w) (aw_deadline w) (aw_lines w) ?st of
      Gave_Up t out \<Rightarrow> list_all (fits (t - aw_connStart w)) (stages out)
    | Connected_As out \<Rightarrow> list_all (fits (aw_end w - aw_connStart w)) (stages out)"
    using connect_loop_timed [OF _ order_refl assms(2)] by blast
  have "fits (aw_end w - aw_connStart w) (micros_ms (aw_leased w - aw_dhcpStart w))"
    using ends by (simp add: fits_micros)
  note traffic = traffic_stages [OF _ this]
  have total: "list_all P (stages (out\<lparr>wc_TotalMs := ms\<rparr>)) = list_all P (stages out)" for P out ms
    by (simp add: stages_def)
  show ?thesis
  proof (cases "connect_loop (aw_connStart w) (aw_deadline w) (aw_lines w) ?st")
    case (Gave_Up t out)
    then show ?thesis
      using loop by (simp add: r run_test_def total fits_def [abs_def])
  next
    case (Connected_As out)
    then have "list_all (fits (aw_end w - aw_connStart w)) (stages out)"
      using loop by simp
    then show ?thesis
      using traffic Connected_As by (simp add: r run_test_def staged total fits_def [abs_def])
  qed
qed

theorem active_times_bounded_witness:
  "\<exists>r cmds. wlanActiveImpl (quiet_world (\<lambda>_ _. None)) ''w'' lab = (Finished r, cmds)
     \<and> stages r = [2, 3, 4, 51] \<and> list_all (\<lambda>ms. 0 \<le> ms \<and> ms \<le> wc_TotalMs r) (stages r)"
proof -
  let ?w = "quiet_world (\<lambda>_ _. None)"
  have "(case wlanActiveImpl ?w ''w'' lab of (Finished r, _) \<Rightarrow> stages r = [2, 3, 4, 51] | _ \<Rightarrow> False)"
    by code_simp
  moreover have "sorted (aw_connStart ?w # map time_of (aw_lines ?w) @ [aw_deadline ?w])"
      "sorted (aw_connStart ?w # map time_of (aw_lines ?w) @ [aw_dhcpStart ?w, aw_leased ?w, aw_end ?w])"
    by (simp_all add: quiet_world_def)
  ultimately show ?thesis
    using active_times_bounded [of ?w "''w''" lab] by (auto split: prod.splits outcome.splits)
qed

end
