(* ===== verification/Path_Sockets.thy ===== *)
theory Path_Sockets
  imports Path_Probe
begin

text \<open>
  The probes of a traceroute (\<open>internal/probe/traceroute_linux.go\<close>): ordinary UDP, TCP and ICMP sockets with a TTL,
  and the ICMP messages the kernel queues as errors of the socket. What each system call gives is an argument.
\<close>

section \<open>The error queue\<close>

definition extErrTypeOff :: nat where
  "extErrTypeOff = 5"

definition extErrCodeOff :: nat where
  "extErrCodeOff = 6"

definition offenderIPOff :: nat where
  "offenderIPOff = 20"

text \<open>A control message: whether it is an extended error of the IP level, and its data.\<close>

record cmsg =
  cg_IPRecvErr :: bool
  cg_Data :: "u8 list"

text \<open>
  A read of the queue: nothing is there (before the deadline or after it), an error, control data that does not
  parse, or messages.
\<close>

datatype queue_read = Queue_Empty bool | Queue_Error | Queue_Garbled | Queue_Msgs "cmsg list"

text \<open>\<open>net.IPv4\<close> gives the sixteen byte form.\<close>

definition IPv4 :: "u8 list \<Rightarrow> u8 list" where
  "IPv4 bs = v4InV6Prefix @ bs"

definition ext_err :: "cmsg \<Rightarrow> (u8 list \<times> u8 \<times> u8) option" where
  "ext_err m =
     (if \<not> cg_IPRecvErr m \<or> length (cg_Data m) < offenderIPOff + 4 then None
      else Some (IPv4 (take 4 (drop offenderIPOff (cg_Data m))), cg_Data m ! extErrTypeOff, cg_Data m ! extErrCodeOff))"

fun readErrQueue :: "queue_read list \<Rightarrow> (u8 list \<times> u8 \<times> u8) option" where
  "readErrQueue [] = None"
| "readErrQueue (Queue_Empty before # qs) = (if before then readErrQueue qs else None)"
| "readErrQueue (Queue_Error # qs) = None"
| "readErrQueue (Queue_Garbled # qs) = None"
| "readErrQueue (Queue_Msgs ms # qs) =
     (case List.map_filter ext_err ms of [] \<Rightarrow> readErrQueue qs | x # _ \<Rightarrow> Some x)"

section \<open>The probes\<close>

definition no_reply :: probeReply where
  "no_reply = \<lparr>py_kind = replyNone, py_from = None, py_rtt = 0, py_destState = ''''\<rparr>"

definition queue_reply :: "(u8 list \<times> u8 \<times> u8) \<Rightarrow> go_time \<Rightarrow> probeReply" where
  "queue_reply x rtt = (case x of (from, t, c) \<Rightarrow> icmp_reply from t c rtt)"

text \<open>Whether a socket was created, set up with the TTL and (for TCP) made non-blocking.\<close>

record sock_setup =
  sk_Socket :: bool
  sk_Setup :: bool
  sk_Nonblock :: bool

definition udp_port :: "u32 \<Rightarrow> u32" where
  "udp_port port = (if port = 0 then 33434 else port)"

definition udpProbe :: "sock_setup \<Rightarrow> (u32 \<Rightarrow> bool) \<Rightarrow> queue_read list \<Rightarrow> go_time \<Rightarrow> u32 \<Rightarrow> probeReply" where
  "udpProbe sk sendto queue rtt port =
     (if \<not> sk_Socket sk \<or> \<not> sk_Setup sk \<or> \<not> sendto (udp_port port) then no_reply
      else case readErrQueue queue of None \<Rightarrow> no_reply | Some x \<Rightarrow> queue_reply x rtt)"

datatype connect_result = Conn_Ok | EISCONN | ECONNREFUSED | EINPROGRESS | EALREADY | Conn_Other

text \<open>A round of waiting: what is in the error queue, what connecting again reports, and the time since the start.\<close>

record tcp_round =
  tr_queue :: "queue_read list"
  tr_connect :: connect_result
  tr_rtt :: go_time

definition answer_of :: "u8 list \<Rightarrow> go_time \<Rightarrow> string \<Rightarrow> probeReply" where
  "answer_of addr rtt state = \<lparr>py_kind = replyDestination, py_from = Some (IPv4 addr), py_rtt = rtt, py_destState = state\<rparr>"

fun tcp_rounds :: "u8 list \<Rightarrow> tcp_round list \<Rightarrow> probeReply" where
  "tcp_rounds addr [] = no_reply"
| "tcp_rounds addr (r # rs) =
     (case readErrQueue (tr_queue r) of
        Some x \<Rightarrow> queue_reply x (tr_rtt r)
      | None \<Rightarrow>
          (case tr_connect r of
             EISCONN \<Rightarrow> answer_of addr (tr_rtt r) ''open''
           | ECONNREFUSED \<Rightarrow> answer_of addr (tr_rtt r) ''closed''
           | EINPROGRESS \<Rightarrow> tcp_rounds addr rs
           | EALREADY \<Rightarrow> tcp_rounds addr rs
           | Conn_Ok \<Rightarrow> answer_of addr (tr_rtt r) ''open''
           | Conn_Other \<Rightarrow> no_reply))"

definition tcp_port :: "u32 \<Rightarrow> u32" where
  "tcp_port port = (if port = 0 then 443 else port)"

definition tcpProbe :: "sock_setup \<Rightarrow> (u32 \<Rightarrow> connect_result) \<Rightarrow> tcp_round list \<Rightarrow> u8 list \<Rightarrow> u32 \<Rightarrow> probeReply" where
  "tcpProbe sk connect rounds addr port =
     (if \<not> sk_Socket sk \<or> \<not> sk_Setup sk \<or> \<not> sk_Nonblock sk then no_reply
      else if connect (tcp_port port) \<notin> {Conn_Ok, EINPROGRESS} then no_reply
      else tcp_rounds addr rounds)"

text \<open>A round of the ICMP probe: the error queue, the datagram read from the socket, the time.\<close>

record icmp_round =
  ir_queue :: "queue_read list"
  ir_read :: "u8 list option"
  ir_rtt :: go_time

fun icmp_rounds :: "u8 list \<Rightarrow> icmp_round list \<Rightarrow> probeReply" where
  "icmp_rounds addr [] = no_reply"
| "icmp_rounds addr (r # rs) =
     (case readErrQueue (ir_queue r) of
        Some x \<Rightarrow> queue_reply x (ir_rtt r)
      | None \<Rightarrow>
          (case ir_read r of
             Some buf \<Rightarrow> (if length buf \<ge> 8 \<and> buf ! 0 = 0 then answer_of addr (ir_rtt r) ''echoed'' else icmp_rounds addr rs)
           | None \<Rightarrow> icmp_rounds addr rs))"

definition icmpProbe :: "sock_setup \<Rightarrow> (u8 list \<Rightarrow> bool) \<Rightarrow> icmp_round list \<Rightarrow> u8 list \<Rightarrow> u16 \<Rightarrow> u16 \<Rightarrow> probeReply" where
  "icmpProbe sk sendto rounds addr flowID seq =
     (if \<not> sk_Socket sk \<or> \<not> sk_Setup sk \<or> \<not> sendto (icmpEcho flowID seq) then no_reply else icmp_rounds addr rounds)"

text \<open>What the kernel does for one probe, for each of the protocols.\<close>

record kernel =
  kn_setup :: sock_setup
  kn_udp_sendto :: "u32 \<Rightarrow> bool"
  kn_udp_queue :: "queue_read list"
  kn_udp_rtt :: go_time
  kn_connect :: "u32 \<Rightarrow> connect_result"
  kn_tcp :: "tcp_round list"
  kn_icmp_sendto :: "u8 list \<Rightarrow> bool"
  kn_icmp :: "icmp_round list"

definition sendProbe :: "kernel \<Rightarrow> u8 list \<Rightarrow> string \<Rightarrow> u32 \<Rightarrow> u16 \<Rightarrow> u16 \<Rightarrow> probeReply" where
  "sendProbe k dst protocol port flowID seq =
     (if protocol = ''udp'' then udpProbe (kn_setup k) (kn_udp_sendto k) (kn_udp_queue k) (kn_udp_rtt k) port
      else if protocol = ''icmp'' then icmpProbe (kn_setup k) (kn_icmp_sendto k) (kn_icmp k) dst flowID seq
      else tcpProbe (kn_setup k) (kn_connect k) (kn_tcp k) dst port)"

section \<open>What a reply says\<close>

text \<open>
  A reply is nothing at all, a router on the way, or the destination with a state; only the latter has a state.
\<close>

definition reply_ok :: "probeReply \<Rightarrow> bool" where
  "reply_ok r =
     (case py_kind r of
        replyNone \<Rightarrow> r = no_reply
      | replyTimeExceeded \<Rightarrow> (\<exists>ip. py_from r = Some (IPv4 ip) \<and> length ip = 4) \<and> py_destState r = ''''
      | replyDestination \<Rightarrow> (\<exists>ip. py_from r = Some (IPv4 ip) \<and> length ip = 4)
          \<and> py_destState r \<in> {''echoed'', ''filtered'', ''unreachable'', ''open'', ''closed''})"

lemma no_reply_ok: "reply_ok no_reply"
  by (simp add: reply_ok_def no_reply_def)

lemma answer_ok: "length addr = 4 \<Longrightarrow> state \<in> {''open'', ''closed'', ''echoed''} \<Longrightarrow> reply_ok (answer_of addr rtt state)"
  by (auto simp: reply_ok_def answer_of_def)

lemma ext_err_IPv4: "ext_err m = Some (from, t, c) \<Longrightarrow> \<exists>ip. from = IPv4 ip \<and> length ip = 4"
  by (auto simp: ext_err_def split: if_splits)

lemma readErrQueue_IPv4: "readErrQueue qs = Some (from, t, c) \<Longrightarrow> \<exists>ip. from = IPv4 ip \<and> length ip = 4"
proof (induction qs rule: readErrQueue.induct)
  case (5 ms qs)
  show ?case
  proof (cases "List.map_filter ext_err ms")
    case (Cons x xs)
    then have "x \<in> set (List.map_filter ext_err ms)" "x = (from, t, c)"
      using 5 by simp_all
    then show ?thesis
      using ext_err_IPv4 by (auto simp: List.map_filter_def)
  qed (use 5 in simp)
qed (simp_all split: if_splits)

lemma queue_reply_ok: "readErrQueue qs = Some x \<Longrightarrow> reply_ok (queue_reply x rtt)"
  using readErrQueue_IPv4 [of qs "fst x" "fst (snd x)" "snd (snd x)"]
  by (auto simp: queue_reply_def icmp_reply_def classifyICMP_def reply_ok_def case_prod_unfold)

lemma tcp_rounds_ok: "length addr = 4 \<Longrightarrow> reply_ok (tcp_rounds addr rs)"
  by (induction addr rs rule: tcp_rounds.induct)
    (auto simp: no_reply_ok answer_ok queue_reply_ok split: option.split connect_result.split)

lemma icmp_rounds_ok: "length addr = 4 \<Longrightarrow> reply_ok (icmp_rounds addr rs)"
  by (induction addr rs rule: icmp_rounds.induct) (auto simp: no_reply_ok answer_ok queue_reply_ok split: option.split)

text \<open>
  Whatever the kernel hands back, malformed and short control messages included, a probe is either lost or has
  an IPv4 responder, and it carries a verdict on the destination exactly when the destination is decided.
\<close>

theorem probe_reply_wellformed:
  assumes "length dst = 4"
  shows "reply_ok (sendProbe k dst protocol port flowID seq)"
  using assms tcp_rounds_ok icmp_rounds_ok
  by (simp add: sendProbe_def udpProbe_def tcpProbe_def icmpProbe_def no_reply_ok queue_reply_ok split: option.split)

text \<open>
  The echo request carries a sequence number, but the reply is not compared with it: any echo reply read from the
  socket ends the probe.
\<close>

theorem any_echo_reply_counts:
  assumes "sk_Socket sk" "sk_Setup sk" "sendto (icmpEcho flowID seq)" "length rest = 7"
  shows "icmpProbe sk sendto [\<lparr>ir_queue = [], ir_read = Some (0 # rest), ir_rtt = rtt\<rparr>] addr flowID seq = answer_of addr rtt ''echoed''"
  using assms by (simp add: icmpProbe_def)

end
