(* ===== verification/Demo_Probes.thy ===== *)
theory Demo_Probes
  imports Wlan_Active Path_Sockets
begin

text \<open>
  The demo modes of the probes (\<open>wlansense_demo.go\<close>, \<open>wlanactive_demo.go\<close>, \<open>traceroute_demo.go\<close>, \<open>wifi_demo.go\<close>) and
  the switches between them and the real ones (\<open>Sense\<close>, \<open>WlanActive\<close>, \<open>Traceroute\<close>, \<open>WirelessInterfaces\<close>). What
  consumes a result cannot tell the two apart, so the demo data has to keep what the real probes promise.
  \<open>intn k n\<close> is the result of the \<open>k\<close>-th call \<open>rand.Intn(n)\<close>, \<open>flt k\<close> that of the \<open>k\<close>-th \<open>rand.Float64()\<close>;
  \<open>env\<close> is \<open>os.Getenv\<close>.
\<close>

type_synonym draws = "nat \<Rightarrow> nat \<Rightarrow> nat"

text \<open>What \<open>rand.Intn\<close> promises.\<close>

definition draws_ok :: "draws \<Rightarrow> bool" where
  "draws_ok intn \<longleftrightarrow> (\<forall>k n. 0 < n \<longrightarrow> intn k n < n)"

section \<open>Switches\<close>

definition wlanDemo :: "(string \<Rightarrow> string) \<Rightarrow> bool" where
  "wlanDemo env = envEnabled (env ''NETLAMA_WLAN_DEMO'')"

definition DemoMode :: "(string \<Rightarrow> string) \<Rightarrow> bool" where
  "DemoMode env = wlanDemo env"

definition tracerouteDemo :: "(string \<Rightarrow> string) \<Rightarrow> bool" where
  "tracerouteDemo env = envEnabled (env ''NETLAMA_TRACEROUTE_DEMO'')"

section \<open>Interfaces\<close>

definition demoInterfaces :: "WirelessInterface list" where
  "demoInterfaces =
     [\<lparr>wi_Name = ''wlan0'', wi_PHY = ''phy0'', wi_SupportsMonitor = False\<rparr>, \<lparr>wi_Name = ''wlan1'', wi_PHY = ''phy1'', wi_SupportsMonitor = True\<rparr>]"

text \<open>\<open>has_iw\<close> says that the program is installed, \<open>dev\<close> is the output of \<open>iw dev\<close>, \<open>phy_info\<close> that of \<open>iw phy\<close>.\<close>

definition WirelessInterfaces ::
  "(string \<Rightarrow> string) \<Rightarrow> bool \<Rightarrow> string list option \<Rightarrow> (string \<Rightarrow> string list option) \<Rightarrow> WirelessInterface list" where
  "WirelessInterfaces env has_iw dev phy_info =
     (if wlanDemo env then demoInterfaces
      else if \<not> has_iw then []
      else case dev of None \<Rightarrow> [] | Some ls \<Rightarrow> enhanceMonitorCapability phy_info (parseIWDev ls))"

section \<open>The sweep\<close>

text \<open>\<open>unix\<close> is a clock reading in seconds since 1970.\<close>

definition demoRoamBSSID :: "int \<Rightarrow> string" where
  "demoRoamBSSID unix = (if (unix div 60) mod 2 = 0 then ''a0:f8:49:74:8b:20'' else ''c0:25:5c:ec:bb:40'')"

definition demo_station :: "string \<Rightarrow> string \<Rightarrow> string \<Rightarrow> int \<Rightarrow> int \<Rightarrow> nat \<Rightarrow> int \<Rightarrow> nat \<Rightarrow> bool \<Rightarrow> int \<Rightarrow> probe_WlanStation" where
  "demo_station mac bssid ssid rssi avg rate mcs frames probe_only seen =
     \<lparr>ps_MAC = mac, ps_BSSID = bssid, ps_SSID = ssid, ps_RSSIdBm = rssi, ps_RSSIAvgdBm = avg, ps_RateMbps = of_nat rate, ps_MCS = mcs,
      ps_Frames = of_nat frames, ps_ProbeOnly = probe_only, ps_LastSeenMs = seen\<rparr>"

definition demo_stations :: "draws \<Rightarrow> int \<Rightarrow> int \<Rightarrow> probe_WlanStation list" where
  "demo_stations intn unix now =
     [demo_station ''aa:bb:cc:dd:ee:01'' ''a0:f8:49:74:8b:20'' ''corp-wifi'' (- 45 - int (intn 0 15)) (- 48 - int (intn 1 15))
        (120 + intn 2 40) (7 + int (intn 3 5)) (200 + intn 4 300) False now,
      demo_station ''aa:bb:cc:dd:ee:02'' (demoRoamBSSID unix) ''corp-wifi'' (- 55 - int (intn 5 20)) (- 58 - int (intn 6 20))
        (50 + intn 7 50) (2 + int (intn 8 6)) (100 + intn 9 150) False now,
      demo_station ''aa:bb:cc:dd:ee:03'' ''c0:25:5c:ec:bb:40'' ''corp-wifi'' (- 50 - int (intn 10 15)) (- 53 - int (intn 11 15))
        (300 + intn 12 50) (8 + int (intn 13 4)) (400 + intn 14 200) False now,
      demo_station ''aa:bb:cc:dd:ee:04'' ''c0:25:5c:ec:bb:40'' ''corp-wifi'' (- 60 - int (intn 15 20)) (- 63 - int (intn 16 20))
        (80 + intn 17 40) (4 + int (intn 18 5)) (120 + intn 19 180) False now,
      demo_station ''aa:bb:cc:dd:ee:05'' ''2c:3a:fd:8b:1e:56'' ''IoT-Net'' (- 70 - int (intn 20 15)) (- 72 - int (intn 21 15))
        (20 + intn 22 20) (- 1) (50 + intn 23 80) False now,
      demo_station ''aa:bb:cc:dd:ee:06'' ''a0:f8:49:74:8b:22'' ''corp-guest'' (- 52 - int (intn 24 18)) (- 55 - int (intn 25 18))
        (90 + intn 26 50) (5 + int (intn 27 6)) (180 + intn 28 120) False now,
      demo_station ''aa:bb:cc:dd:ee:07'' '''' '''' (- 75 - int (intn 29 20)) (- 78 - int (intn 30 20)) 0 (- 1) (5 + intn 31 10) True (now - 1000),
      demo_station ''aa:bb:cc:dd:ee:08'' '''' '''' (- 72 - int (intn 32 15)) (- 74 - int (intn 33 15)) 0 (- 1) (3 + intn 34 8) True (now - 500)]"

definition demo_channel :: "u32 \<Rightarrow> u32 \<Rightarrow> nat \<Rightarrow> nat \<Rightarrow> WlanChannelStat" where
  "demo_channel ch freq busy frames =
     \<lparr>ch_Channel = ch, ch_FreqMHz = freq, ch_ActiveMs = 400, ch_BusyMs = of_nat busy, ch_UtilizationPct = 0, ch_Frames = of_nat frames\<rparr>"

definition with_utilization :: "WlanChannelStat \<Rightarrow> WlanChannelStat" where
  "with_utilization c =
     (if ch_ActiveMs c > 0 then c\<lparr>ch_UtilizationPct := u64_float (ch_BusyMs c) / u64_float (ch_ActiveMs c) * 100\<rparr> else c)"

definition demo_channels :: "draws \<Rightarrow> WlanChannelStat list" where
  "demo_channels intn = map with_utilization
     [demo_channel 1 2412 (120 + intn 35 100) (50 + intn 36 80),
      demo_channel 6 2437 (200 + intn 37 150) (100 + intn 38 150),
      demo_channel 11 2462 (80 + intn 39 60) (30 + intn 40 50),
      demo_channel 36 5180 (180 + intn 41 100) (80 + intn 42 120),
      demo_channel 149 5745 (120 + intn 43 80) (60 + intn 44 100)]"

definition demo_networks :: "draws \<Rightarrow> int \<Rightarrow> probe_WlanNetwork list" where
  "demo_networks intn now = map (\<lambda>n. n\<lparr>pn_LastSeenMs := now\<rparr>)
     [(new_network ''a0:f8:49:74:8b:20'' (- 44 - int (intn 45 8)))\<lparr>pn_SSID := ''corp-wifi'', pn_Channel := 6, pn_FreqMHz := 2437,
        pn_Beacons := of_nat (30 + intn 46 20), pn_Security := ''WPA2/WPA3'', pn_Standards := ''n/ac/ax'',
        pn_WidthMHz := 40, pn_BeaconIntervalTU := 100, pn_Country := ''AT'', pn_LoadPresent := True, pn_LoadStations := of_nat (intn 47 12),
        pn_LoadChannelUtilPct := of_nat (20 + intn 48 40), pn_SecurityDetail := ''PSK+SAE'' @ middle_dot @ ''CCMP'', pn_Roaming := ''k/r/v'',
        pn_MFP := ''capable'', pn_GroupCipher := ''CCMP'', pn_DTIMPeriod := 2, pn_Streams := 2, pn_MaxRateMbps := 5742 / 10\<rparr>,
      (new_network ''a0:f8:49:74:8b:22'' (- 48 - int (intn 49 8)))\<lparr>pn_SSID := ''corp-guest'', pn_Channel := 6, pn_FreqMHz := 2437,
        pn_Beacons := of_nat (28 + intn 50 20), pn_Security := ''WPA2'', pn_Standards := ''n/ac'',
        pn_WidthMHz := 20, pn_BeaconIntervalTU := 100, pn_Country := ''AT'', pn_LoadPresent := True, pn_LoadStations := of_nat (intn 51 5),
        pn_LoadChannelUtilPct := of_nat (10 + intn 52 30), pn_SecurityDetail := ''PSK'' @ middle_dot @ ''CCMP'', pn_Roaming := ''k/v'',
        pn_MFP := ''capable'', pn_GroupCipher := ''CCMP'', pn_DTIMPeriod := 2, pn_Streams := 2, pn_MaxRateMbps := 400\<rparr>,
      (new_network ''c0:25:5c:ec:bb:40'' (- 50 - int (intn 53 10)))\<lparr>pn_SSID := ''corp-wifi'', pn_Channel := 36, pn_FreqMHz := 5180,
        pn_Beacons := of_nat (25 + intn 54 20), pn_Security := ''WPA2/WPA3'', pn_Standards := ''ac/ax'',
        pn_WidthMHz := 80, pn_BeaconIntervalTU := 100, pn_Country := ''AT'', pn_LoadPresent := True, pn_LoadStations := of_nat (intn 55 20),
        pn_LoadChannelUtilPct := of_nat (15 + intn 56 35), pn_SecurityDetail := ''PSK+SAE'' @ middle_dot @ ''CCMP'', pn_Roaming := ''k/r/v'',
        pn_MFP := ''required'', pn_GroupCipher := ''CCMP'', pn_DTIMPeriod := 3, pn_Streams := 4, pn_MaxRateMbps := 2402\<rparr>,
      (new_network ''2c:3a:fd:8b:1e:56'' (- 68 - int (intn 57 10)))\<lparr>pn_SSID := ''IoT-Net'', pn_Channel := 11, pn_FreqMHz := 2462,
        pn_Beacons := of_nat (20 + intn 58 15), pn_Security := ''WPA2'', pn_Standards := ''n'',
        pn_WidthMHz := 20, pn_BeaconIntervalTU := 100, pn_Country := ''AT'', pn_SecurityDetail := ''PSK'' @ middle_dot @ ''CCMP/TKIP'',
        pn_GroupCipher := ''TKIP'', pn_DTIMPeriod := 1, pn_WPS := True, pn_Streams := 1, pn_MaxRateMbps := 722 / 10\<rparr>,
      (new_network ''e8:9f:80:11:22:33'' (- 72 - int (intn 59 10)))\<lparr>pn_Channel := 1, pn_FreqMHz := 2412,
        pn_Beacons := of_nat (10 + intn 60 10), pn_Security := ''WPA2'', pn_Standards := ''n'',
        pn_WidthMHz := 20, pn_BeaconIntervalTU := 100, pn_SecurityDetail := ''PSK'' @ middle_dot @ ''CCMP'',
        pn_GroupCipher := ''CCMP'', pn_DTIMPeriod := 1, pn_Streams := 1, pn_MaxRateMbps := 722 / 10\<rparr>]"

definition demoSense :: "draws \<Rightarrow> int \<Rightarrow> int \<Rightarrow> string \<Rightarrow> SenseResult" where
  "demoSense intn unix now iface =
     \<lparr>sn_Interface = iface, sn_Stations = demo_stations intn unix now, sn_Channels = demo_channels intn,
      sn_Networks = demo_networks intn now, sn_SweepMs = of_nat (400 * length (demo_channels intn))\<rparr>"

definition Sense ::
  "(string \<Rightarrow> string) \<Rightarrow> draws \<Rightarrow> int \<Rightarrow> int \<Rightarrow> sweep_world \<Rightarrow> string \<Rightarrow> u32 list \<Rightarrow> (SenseResult outcome \<times> shell_cmd list) option" where
  "Sense env intn unix now w iface channels =
     (if wlanDemo env then Some (Finished (demoSense intn unix now iface), []) else senseImpl w iface channels)"

text \<open>
  The channels of the 2.4 GHz and 5 GHz bands with their centre frequencies, as the standard (IEEE 802.11, annex E)
  numbers them, up to channel 165.
\<close>

definition ieee_channels :: "(u32 \<times> u32) list" where
  "ieee_channels =
    [(1, 2412), (2, 2417), (3, 2422), (4, 2427), (5, 2432), (6, 2437), (7, 2442), (8, 2447), (9, 2452), (10, 2457),
     (11, 2462), (12, 2467), (13, 2472), (14, 2484), (36, 5180), (40, 5200), (44, 5220), (48, 5240), (52, 5260),
     (56, 5280), (60, 5300), (64, 5320), (100, 5500), (104, 5520), (108, 5540), (112, 5560), (116, 5580),
     (120, 5600), (124, 5620), (128, 5640), (132, 5660), (136, 5680), (140, 5700), (144, 5720), (149, 5745),
     (153, 5765), (157, 5785), (161, 5805), (165, 5825)]"

lemma channelToFreq_ieee: "map_of ieee_channels ch = Some f \<Longrightarrow> snd (channelToFreq ch) = f"
proof -
  have "list_all (\<lambda>(c, f). snd (channelToFreq c) = f) ieee_channels"
    by code_simp
  then show "map_of ieee_channels ch = Some f \<Longrightarrow> snd (channelToFreq ch) = f"
    by (auto simp: list_all_iff dest!: map_of_SomeD)
qed

text \<open>What a sweep over some channels reports.\<close>

definition report_ok :: "u32 list \<Rightarrow> SenseResult \<Rightarrow> bool" where
  "report_ok chs r \<longleftrightarrow>
     length (sn_Stations r) \<le> 256 \<and> distinct (map ps_MAC (sn_Stations r)) \<and> list_all (isUnicastMAC \<circ> ps_MAC) (sn_Stations r)
     \<and> length (sn_Networks r) \<le> 256 \<and> distinct (map pn_BSSID (sn_Networks r)) \<and> list_all (isUnicastMAC \<circ> pn_BSSID) (sn_Networks r)
     \<and> list_all (\<lambda>n. pn_Channel n \<in> set chs \<and> (case map_of ieee_channels (pn_Channel n) of None \<Rightarrow> True | Some f \<Rightarrow> pn_FreqMHz n = f)) (sn_Networks r)
     \<and> list_all (\<lambda>c. ch_Channel c \<in> set chs) (sn_Channels r)"

lemma demoSense_report: "report_ok [1, 6, 11, 36, 149] (demoSense intn unix now iface)"
  unfolding report_ok_def
proof (intro conjI)
  show "list_all (isUnicastMAC \<circ> ps_MAC) (sn_Stations (demoSense intn unix now iface))"
    by (simp add: demoSense_def demo_stations_def demo_station_def) code_simp
  show "list_all (isUnicastMAC \<circ> pn_BSSID) (sn_Networks (demoSense intn unix now iface))"
    by (simp add: demoSense_def demo_networks_def new_network_def) code_simp
  show "list_all (\<lambda>n. pn_Channel n \<in> set [1, 6, 11, 36, 149] \<and> (case map_of ieee_channels (pn_Channel n) of None \<Rightarrow> True | Some f \<Rightarrow> pn_FreqMHz n = f))
      (sn_Networks (demoSense intn unix now iface))"
    by (simp add: demoSense_def demo_networks_def new_network_def ieee_channels_def)
qed (simp_all add: demoSense_def demo_stations_def demo_station_def demo_networks_def new_network_def demo_channels_def demo_channel_def with_utilization_def)

text \<open>The channel figures are percentages, and a station that is associated is a client of a reported network.\<close>

lemma demo_utilization:
  assumes "draws_ok intn" "c \<in> set (demo_channels intn)"
  shows "0 \<le> ch_UtilizationPct c \<and> ch_UtilizationPct c \<le> 100"
proof -
  have draw: "intn k n < n" if "0 < n" for k n
    using assms(1) that by (simp add: draws_ok_def)
  have "0 \<le> ch_UtilizationPct (with_utilization (demo_channel ch freq busy frames)) \<and> ch_UtilizationPct (with_utilization (demo_channel ch freq busy frames)) \<le> 100"
    if "busy \<le> 400" for ch freq busy frames
  proof -
    have "unat (of_nat busy :: u64) = busy"
      using that by (simp add: unsigned_of_nat take_bit_nat_eq_self_iff)
    then show ?thesis
      using that by (simp add: with_utilization_def demo_channel_def u64_float_def del: of_nat_unat)
  qed
  moreover have "120 + intn 35 100 \<le> 400" "200 + intn 37 150 \<le> 400" "80 + intn 39 60 \<le> 400" "180 + intn 41 100 \<le> 400" "120 + intn 43 80 \<le> 400"
    using draw [of 100 35] draw [of 150 37] draw [of 60 39] draw [of 100 41] draw [of 80 43] by simp_all
  ultimately show ?thesis
    using assms(2) by (auto simp: demo_channels_def)
qed

definition station_bss :: "probe_WlanStation \<Rightarrow> string \<times> string" where
  "station_bss s = (ps_BSSID s, ps_SSID s)"

definition network_bss :: "probe_WlanNetwork \<Rightarrow> string \<times> string" where
  "network_bss n = (pn_BSSID n, pn_SSID n)"

lemma demo_associated: "list_all (\<lambda>b. b = ('''', '''') \<or> b \<in> set (map network_bss (demo_networks intn now))) (map station_bss (demo_stations intn unix now))"
proof -
  have "map network_bss (demo_networks intn now) = [(''a0:f8:49:74:8b:20'', ''corp-wifi''), (''a0:f8:49:74:8b:22'', ''corp-guest''),
    (''c0:25:5c:ec:bb:40'', ''corp-wifi''), (''2c:3a:fd:8b:1e:56'', ''IoT-Net''), (''e8:9f:80:11:22:33'', '''')]"
    by (simp add: demo_networks_def network_bss_def new_network_def)
  moreover have "map station_bss (demo_stations intn unix now) = [(''a0:f8:49:74:8b:20'', ''corp-wifi''), (demoRoamBSSID unix, ''corp-wifi''),
    (''c0:25:5c:ec:bb:40'', ''corp-wifi''), (''c0:25:5c:ec:bb:40'', ''corp-wifi''), (''2c:3a:fd:8b:1e:56'', ''IoT-Net''),
    (''a0:f8:49:74:8b:22'', ''corp-guest''), ('''', ''''), ('''', '''')]"
    by (simp add: demo_stations_def station_bss_def demo_station_def)
  ultimately show ?thesis
    by (simp add: demoRoamBSSID_def)
qed

text \<open>
  C35. A sweep, real or synthetic, reports at most 256 stations and networks, none twice and only unicast ones, each
  network on a channel of the plan, and with the centre frequency the standard gives the channel if it is one of the
  2.4 GHz band or of the 5 GHz band up to 165. In the synthetic one every associated station is a client of a
  reported network and every utilisation is a percentage.
\<close>

theorem sense_report_ok:
  assumes "draws_ok intn" "\<forall>m. distinct (sw_station_order w m)" "\<forall>m. distinct (sw_network_order w m)"
  shows "case Sense env intn unix now w iface channels of
      None \<Rightarrow> False
    | Some (Finished r, _) \<Rightarrow>
        (if DemoMode env
         then report_ok [1, 6, 11, 36, 149] r \<and> list_all (\<lambda>c. 0 \<le> ch_UtilizationPct c \<and> ch_UtilizationPct c \<le> 100) (sn_Channels r)
           \<and> list_all (\<lambda>b. b = ('''', '''') \<or> b \<in> set (map network_bss (sn_Networks r))) (map station_bss (sn_Stations r))
         else report_ok (sweep_plan w channels) r)
    | Some _ \<Rightarrow> True"
proof (cases "wlanDemo env")
  case True
  have "list_all (\<lambda>c. 0 \<le> ch_UtilizationPct c \<and> ch_UtilizationPct c \<le> 100) (sn_Channels (demoSense intn unix now iface))"
    using demo_utilization [OF assms(1)] by (simp add: demoSense_def list_all_iff)
  moreover have "list_all (\<lambda>b. b = ('''', '''') \<or> b \<in> set (map network_bss (sn_Networks (demoSense intn unix now iface))))
      (map station_bss (sn_Stations (demoSense intn unix now iface)))"
    using demo_associated by (simp add: demoSense_def)
  ultimately show ?thesis
    using True demoSense_report by (simp add: Sense_def DemoMode_def)
next
  case False
  have "report_ok chs r" if "length (sn_Stations r) \<le> 256 \<and> distinct (map ps_MAC (sn_Stations r)) \<and> list_all (isUnicastMAC \<circ> ps_MAC) (sn_Stations r)
     \<and> length (sn_Networks r) \<le> 256 \<and> distinct (map pn_BSSID (sn_Networks r)) \<and> list_all (isUnicastMAC \<circ> pn_BSSID) (sn_Networks r)
     \<and> list_all (\<lambda>n. pn_Channel n \<in> set chs \<and> pn_FreqMHz n = snd (channelToFreq (pn_Channel n))) (sn_Networks r)
     \<and> list_all (\<lambda>c. ch_Channel c \<in> set chs) (sn_Channels r)" for chs r
    using that channelToFreq_ieee by (auto simp: report_ok_def list_all_iff split: option.splits)
  then show ?thesis
    using False sweep_report_ok [OF assms(2,3), where iface = iface and channels = channels]
    by (auto simp: Sense_def DemoMode_def split: option.splits prod.splits outcome.splits)
qed

theorem sense_report_ok_witness:
  "report_ok [1, 6, 11, 36, 149] (demoSense (\<lambda>_ _. 0) 0 0 ''wlan1'')
     \<and> list_all (\<lambda>c. 0 \<le> ch_UtilizationPct c \<and> ch_UtilizationPct c \<le> 100) (demo_channels (\<lambda>_ _. 0))"
proof -
  have "draws_ok (\<lambda>_ _. 0)" "\<forall>m. distinct (sw_station_order heard_world m)" "\<forall>m. distinct (sw_network_order heard_world m)"
    by (simp_all add: draws_ok_def heard_world_def idle_world_def)
  from sense_report_ok [OF this, where env = "\<lambda>_. ''1''" and unix = 0 and now = 0 and iface = "''wlan1''"] show ?thesis
    by (simp add: Sense_def DemoMode_def wlanDemo_def envEnabled_def demoSense_def)
qed

section \<open>The connection test\<close>

text \<open>Two hexadecimal digits, as \<open>%02x\<close> prints a byte.\<close>

definition demo_hex :: "nat \<Rightarrow> string" where
  "demo_hex n = [hex_char (n div 16), hex_char (n mod 16)]"

definition demoMAC :: "(nat \<Rightarrow> nat) \<Rightarrow> string \<Rightarrow> string" where
  "demoMAC byte mode =
     (if mode = ''random'' then join '':'' [''9a'', demo_hex (byte 0), demo_hex (byte 1), demo_hex (byte 2), demo_hex (byte 3), demo_hex (byte 4)]
      else ''40:a5:ef:5c:61:b4'')"

definition demoWlanActive :: "draws \<Rightarrow> string \<Rightarrow> WlanActiveOpts \<Rightarrow> WlanActiveOutcome" where
  "demoWlanActive intn iface opts =
     (let random = (if wo_MACMode opts = ''random'' then 5 else 0);
          rssi = - 45 - int (intn 4 15); scan = of_nat (1500 + intn 0 2500); assoc = of_nat (20 + intn 1 40);
          auth = of_nat (30 + intn 2 80); dhcp = of_nat (50 + intn 3 200);
          packets = of_nat (800 + intn (5 + random) 400); retries = of_nat (20 + intn (6 + random) 60);
          ask = wo_ThroughputURL opts \<noteq> '''';
          mbps = (if ask then of_nat (120 + intn (8 + random) 180) else 0); tms = (if ask then of_nat (3000 + intn (9 + random) 2000) else 0)
      in \<lparr>wc_Interface = iface, wc_SSID = wo_SSID opts, wc_BSSID = ''a0:f8:49:74:8b:20'', wc_Success = True, wc_FailedStep = '''',
          wc_ScanMs = scan, wc_AssociateMs = assoc, wc_AuthenticateMs = auth, wc_DHCPMs = dhcp, wc_IP = ''192.168.77.42'',
          wc_Netmask = ''255.255.255.0'', wc_Gateway = ''192.168.77.1'', wc_DNSServers = [''192.168.77.1'', ''1.1.1.1''],
          wc_ThroughputMbps = mbps, wc_ThroughputMs = tms, wc_RSSIdBm = rssi, wc_NoiseDBm = - 95, wc_SNRdB = of_int (rssi - (- 95)),
          wc_TxRetryPct = txRetryPct packets retries, wc_TxPackets = packets, wc_TxRetries = retries,
          wc_MAC = demoMAC (\<lambda>k. intn (5 + k) 256) (wo_MACMode opts), wc_GatewayPingLossPct = 0,
          wc_GatewayPingRttMs = of_nat (2 + intn (7 + random) 8), wc_TotalMs = scan + assoc + auth + dhcp + tms\<rparr>)"

definition WlanActive ::
  "(string \<Rightarrow> string) \<Rightarrow> draws \<Rightarrow> active_world \<Rightarrow> string \<Rightarrow> WlanActiveOpts \<Rightarrow> WlanActiveOutcome outcome \<times> shell_cmd list" where
  "WlanActive env intn w iface opts =
     (if wlanDemo env then (Finished (demoWlanActive intn iface opts), []) else wlanActiveImpl w iface opts)"

section \<open>The trace\<close>

definition demo_path :: "(string \<times> string \<times> float64) list" where
  "demo_path =
     [(''192.168.1.1'', ''gw.demo.lan'', 6 / 10), (''10.64.0.1'', '''', 32 / 10), ('''', '''', 0), (''84.116.130.1'', ''core1.demo-isp.net'', 85 / 10),
      (''213.46.160.42'', '''', 11), (''72.14.204.68'', '''', 145 / 10), (''108.170.240.1'', '''', 18), (''142.250.185.68'', '''', 21)]"

definition synthetic_hop :: "(nat \<Rightarrow> float64) \<Rightarrow> nat \<Rightarrow> string \<times> string \<times> float64 \<Rightarrow> probe_Hop" where
  "synthetic_hop flt i p =
     (case p of (host, name, base) \<Rightarrow>
       (let jitter = flt (2 * i) * 2; jitterMs = 2 / 10 + flt (2 * i + 1) * (3 - 2 / 10)
        in \<lparr>ph_TTL = of_nat (i + 1), ph_Host = host, ph_HostName = name, ph_LossPercent = (if host = '''' then 100 else 0),
            ph_AvgRttMs = base + jitter, ph_BestRttMs = base, ph_WorstRttMs = base + jitter + 2, ph_JitterMs = jitterMs, ph_Sent = 5\<rparr>))"

definition silent_hop :: "nat \<Rightarrow> probe_Hop" where
  "silent_hop i = \<lparr>ph_TTL = of_nat (i + 1), ph_Host = '''', ph_HostName = '''', ph_LossPercent = 100, ph_AvgRttMs = 0, ph_BestRttMs = 0,
     ph_WorstRttMs = 0, ph_JitterMs = 0, ph_Sent = 5\<rparr>"

fun demo_walk ::
  "int \<Rightarrow> (nat \<Rightarrow> float64) \<Rightarrow> nat \<Rightarrow> (string \<times> string \<times> float64) list \<Rightarrow> probe_Hop list \<times> probe_Hop option \<Rightarrow> probe_Hop list \<times> probe_Hop option" where
  "demo_walk stallAt flt i [] acc = acc"
| "demo_walk stallAt flt i (p # ps) (hops, lastResponder) =
     (if stallAt \<ge> 0 \<and> int i > stallAt then demo_walk stallAt flt (Suc i) ps (hops @ [silent_hop i], lastResponder)
      else let hop = synthetic_hop flt i p
           in demo_walk stallAt flt (Suc i) ps (hops @ [hop], if fst p \<noteq> '''' then Some hop else lastResponder))"

definition demoTraceroute :: "draws \<Rightarrow> (nat \<Rightarrow> float64) \<Rightarrow> string \<Rightarrow> string \<Rightarrow> probe_TracerouteResult" where
  "demoTraceroute intn flt target protocol =
     (let stallAt = (if intn 0 4 = 0 then 4 + int (intn 1 2) else - 1);
          (hops, lastResponder) = demo_walk stallAt flt 0 demo_path ([], None);
          res = \<lparr>pt_Target = target, pt_TargetIP = ''142.250.185.68'', pt_Reached = False, pt_Status = '''', pt_FailureHop = 0,
                 pt_RttMs = 0, pt_Demo = True, pt_Hops = hops, pt_DestinationState = '''', pt_Engine = ''native''\<rparr>
      in if stallAt < 0
         then res\<lparr>pt_Reached := True, pt_Status := ''reached'', pt_RttMs := ph_AvgRttMs (last hops),
                  pt_DestinationState := (if protocol = ''tcp'' \<or> protocol = '''' then ''open'' else ''echoed'')\<rparr>
         else (case lastResponder of
                 None \<Rightarrow> res\<lparr>pt_Status := ''stalled'', pt_DestinationState := ''filtered''\<rparr>
               | Some h \<Rightarrow> res\<lparr>pt_Status := ''stalled'', pt_DestinationState := ''filtered'', pt_FailureHop := ph_TTL h, pt_RttMs := ph_AvgRttMs h\<rparr>))"

text \<open>\<open>Traceroute\<close> with its switch.\<close>

definition trace_probe ::
  "(string \<Rightarrow> string) \<Rightarrow> draws \<Rightarrow> (nat \<Rightarrow> float64) \<Rightarrow> (string \<Rightarrow> string + u8 list) \<Rightarrow> (u32 \<Rightarrow> nat \<Rightarrow> probeReply) \<Rightarrow> (u32 \<Rightarrow> bool)
   \<Rightarrow> (u32 \<Rightarrow> nat \<Rightarrow> bool) \<Rightarrow> (string \<Rightarrow> string list option) \<Rightarrow> string \<Rightarrow> string \<Rightarrow> u32 \<Rightarrow> u32 \<Rightarrow> probe_TracerouteResult outcome" where
  "trace_probe env intn flt resolve replies alive palive lookup target protocol maxHops probes =
     Traceroute (if tracerouteDemo env then Some (demoTraceroute intn flt target protocol) else None)
       resolve replies alive palive lookup target maxHops probes"

section \<open>Traces are consistent\<close>

text \<open>
  The hops are numbered from one. A trace that reached its target ends with the hop whose time it reports; one that did not
  blames the last hop that answered, and reports its time.
\<close>

definition traced :: "probe_TracerouteResult \<Rightarrow> bool" where
  "traced r \<longleftrightarrow>
     map ph_TTL (pt_Hops r) = map of_nat [1..<Suc (length (pt_Hops r))]
     \<and> (if pt_Reached r then pt_Status r = ''reached'' \<and> pt_Hops r \<noteq> [] \<and> pt_RttMs r = ph_AvgRttMs (last (pt_Hops r)) \<and> pt_FailureHop r = 0
        else pt_Status r = ''stalled'' \<and> pt_DestinationState r = ''filtered''
          \<and> (pt_FailureHop r, pt_RttMs r) = (case failure_hop (pt_Hops r) of None \<Rightarrow> (0, 0) | Some h \<Rightarrow> (ph_TTL h, ph_AvgRttMs h)))"

lemma failure_hop_snoc: "failure_hop (hops @ [h]) = (if ph_Host h \<noteq> '''' \<and> ph_LossPercent h < 100 then Some h else failure_hop hops)"
  by (simp add: failure_hop_def)

lemma demo_walk_hops:
  "demo_walk stallAt flt i ps (hops, failure_hop hops) = (hs, l) \<Longrightarrow> map ph_TTL hops = map of_nat [1..<Suc i] \<Longrightarrow>
     l = failure_hop hs \<and> map ph_TTL hs = map of_nat [1..<Suc (i + length ps)]"
proof (induction ps arbitrary: i hops)
  case (Cons p ps)
  define h where "h = (if stallAt \<ge> 0 \<and> int i > stallAt then silent_hop i else synthetic_hop flt i p)"
  have "failure_hop (hops @ [h]) = (if \<not> (stallAt \<ge> 0 \<and> int i > stallAt) \<and> fst p \<noteq> '''' then Some h else failure_hop hops)"
    by (simp add: failure_hop_snoc h_def silent_hop_def synthetic_hop_def Let_def case_prod_unfold)
  then have "demo_walk stallAt flt (Suc i) ps (hops @ [h], failure_hop (hops @ [h])) = (hs, l)"
    using Cons.prems(1) by (auto simp: h_def Let_def split: if_splits)
  moreover have "map ph_TTL (hops @ [h]) = map of_nat [1..<Suc (Suc i)]"
    using Cons.prems(2) by (simp add: h_def silent_hop_def synthetic_hop_def Let_def case_prod_unfold)
  ultimately show ?case
    using Cons.IH by fastforce
qed simp

lemma demo_traced: "traced (demoTraceroute intn flt target protocol)"
proof -
  define stallAt where "stallAt = (if intn 0 4 = 0 then 4 + int (intn 1 2) else - 1)"
  obtain hops l where w: "demo_walk stallAt flt 0 demo_path ([], None) = (hops, l)"
    by fastforce
  then have "l = failure_hop hops" and ttl: "map ph_TTL hops = map of_nat [1..<Suc (length demo_path)]"
    using demo_walk_hops [of stallAt flt 0 demo_path "[]" hops l] by (simp_all add: failure_hop_def del: upt_Suc)
  moreover have len: "length hops = length demo_path"
    using arg_cong [OF ttl, of length] by (simp del: upt_Suc)
  moreover have "hops \<noteq> []"
    using len by (auto simp: demo_path_def)
  ultimately show ?thesis
    using w unfolding traced_def demoTraceroute_def stallAt_def [symmetric]
    by (simp add: Let_def del: upt_Suc split: option.split)
qed

lemma probeTTL_hop: "ph_TTL (fst (probeTTL dst reps alive ttl probes)) = ttl"
  by (simp add: probeTTL_def Let_def case_prod_unfold)

lemma count_up: "map (\<lambda>i. ttl + of_nat i) [0..<Suc k] = ttl # map (\<lambda>i. (ttl + 1 :: u32) + of_nat i) [0..<k]"
  by (simp add: upt_conv_Cons comp_def add_ac flip: map_Suc_upt del: upt_Suc)

lemma trace_loop_hops:
  "trace_loop dst replies alive palive probes ttl n = Some (hops, e) \<Longrightarrow>
     map ph_TTL hops = map (\<lambda>i. ttl + of_nat i) [0..<length hops] \<and> (case e of None \<Rightarrow> True | Some (h, _) \<Rightarrow> hops \<noteq> [] \<and> last hops = h)"
proof (induction n arbitrary: ttl hops e)
  case (Suc n)
  obtain hop arrived state where p: "probeTTL dst (replies ttl) (palive ttl) ttl probes = (hop, arrived, state)"
    by (cases "probeTTL dst (replies ttl) (palive ttl) ttl probes") simp
  then have hop: "ph_TTL hop = ttl"
    using probeTTL_hop [of dst "replies ttl" "palive ttl" ttl probes] by simp
  show ?case
  proof (cases arrived)
    case True
    then show ?thesis
      using Suc.prems p hop by (auto split: if_splits)
  next
    case False
    then obtain hs where hs: "trace_loop dst replies alive palive probes (ttl + 1) n = Some (hs, e)" "hops = hop # hs"
      using Suc.prems p by (auto simp: Let_def split: if_splits bind_splits)
    then show ?thesis
      using Suc.IH [OF hs(1)] hop count_up [of ttl "length hs"] by (auto split: option.splits simp del: upt_Suc)
  qed
qed simp

lemma named_hops:
  "map ph_TTL (resolveHopNames lookup hops) = map ph_TTL hops" "length (resolveHopNames lookup hops) = length hops"
  "hops \<noteq> [] \<Longrightarrow> ph_AvgRttMs (last (resolveHopNames lookup hops)) = ph_AvgRttMs (last hops)"
  "map_option (\<lambda>h. (ph_TTL h, ph_AvgRttMs h)) (failure_hop (resolveHopNames lookup hops)) = map_option (\<lambda>h. (ph_TTL h, ph_AvgRttMs h)) (failure_hop hops)"
proof -
  define named where "named h = (if ph_Host h = '''' \<or> ParseIP (ph_Host h) = None then h
      else case lookup (ph_Host h) of Some (name # _) \<Rightarrow> h\<lparr>ph_HostName := trim_suffix_dot name\<rparr> | _ \<Rightarrow> h)" for h :: probe_Hop
  have named: "ph_TTL (named h) = ph_TTL h" "ph_AvgRttMs (named h) = ph_AvgRttMs h" "ph_Host (named h) = ph_Host h" "ph_LossPercent (named h) = ph_LossPercent h" for h
    by (simp_all add: named_def split: option.split list.split)
  have r: "resolveHopNames lookup hops = map named hops"
    by (simp add: resolveHopNames_def named_def)
  have find: "find P (map named hs) = map_option named (find P hs)" if "\<And>h. P (named h) = P h" for P hs
    using that by (induction hs) simp_all
  show "map ph_TTL (resolveHopNames lookup hops) = map ph_TTL hops" "length (resolveHopNames lookup hops) = length hops"
    "hops \<noteq> [] \<Longrightarrow> ph_AvgRttMs (last (resolveHopNames lookup hops)) = ph_AvgRttMs (last hops)"
    by (simp_all add: r named last_map comp_def)
  show "map_option (\<lambda>h. (ph_TTL h, ph_AvgRttMs h)) (failure_hop (resolveHopNames lookup hops)) = map_option (\<lambda>h. (ph_TTL h, ph_AvgRttMs h)) (failure_hop hops)"
    by (simp add: r failure_hop_def find named rev_map option.map_comp comp_def)
qed

lemma count_from_one: "map (\<lambda>i. 1 + of_nat i :: u32) [0..<k] = map of_nat [1..<Suc k]"
  by (simp add: comp_def flip: map_Suc_upt del: upt_Suc)

lemma trace_result_traced:
  assumes "trace_loop dst replies alive palive probes 1 n = Some (hops, e)"
  shows "traced ((trace_result target dst hops e)\<lparr>pt_Hops := resolveHopNames lookup (pt_Hops (trace_result target dst hops e))\<rparr>)"
proof -
  note t = trace_loop_hops [OF assms]
  have f: "(case failure_hop (resolveHopNames lookup hops) of None \<Rightarrow> (0, 0) | Some h \<Rightarrow> (ph_TTL h, ph_AvgRttMs h))
      = (case failure_hop hops of None \<Rightarrow> (0, 0) | Some h \<Rightarrow> (ph_TTL h, ph_AvgRttMs h))"
    using named_hops(4) [of lookup hops] by (auto split: option.splits)
  have ne: "resolveHopNames lookup hops \<noteq> [] \<longleftrightarrow> hops \<noteq> []"
    by (metis named_hops(2) length_0_conv)
  show ?thesis
  proof (cases e)
    case None
    then show ?thesis
      using t f by (auto simp: traced_def trace_result_def named_hops count_from_one Let_def split: option.splits simp del: upt_Suc)
  next
    case (Some x)
    then show ?thesis
      using t ne named_hops(3) [of hops lookup]
      by (cases x) (simp add: traced_def trace_result_def named_hops count_from_one Let_def del: upt_Suc)
  qed
qed

text \<open>
  C36. Every trace that finishes, real or synthetic, is consistent: its hops are numbered from one, it is reached with the time of
  its last hop, or stalled with the number and the time of the last hop that answered.
\<close>

theorem traces_are_consistent:
  assumes "trace_probe env intn flt resolve replies alive palive lookup target protocol maxHops probes = Finished r"
  shows "traced r"
proof (cases "tracerouteDemo env")
  case True
  then show ?thesis
    using assms demo_traced by (auto simp: trace_probe_def Traceroute_def)
next
  case False
  then show ?thesis
    using assms trace_result_traced by (auto simp: trace_probe_def Traceroute_def Let_def split: sum.splits option.splits prod.splits)
qed

theorem traces_are_consistent_witness: "traced (demoTraceroute (\<lambda>_ _. 0) (\<lambda>_. 0) ''example.org'' ''icmp'')"
  by (rule traces_are_consistent [where env = "\<lambda>_. ''1''" and resolve = "\<lambda>_. Inl ''''" and replies = undefined and alive = "\<lambda>_. True" and palive = "\<lambda>_ _. True"
      and lookup = "\<lambda>_. None" and maxHops = 0 and probes = 0]) (simp add: trace_probe_def Traceroute_def tracerouteDemo_def envEnabled_def)

lemma demoMAC_unicast: "isUnicastMAC (demoMAC byte mode)"
proof -
  have "hex_digit (CHR ''9'') = Some 9" "hex_digit (CHR ''a'') = Some 10" "hex_digit (CHR ''4'') = Some 4" "hex_digit (CHR ''0'') = Some 0"
    by code_simp+
  then show ?thesis
    by (simp add: demoMAC_def isUnicastMAC_def)
qed

text \<open>A synthetic connection test runs no command, succeeds, and its total is the sum of its steps.\<close>

lemma demo_active:
  assumes "wlanDemo env" "WlanActive env intn w iface opts = (Finished r, cmds)"
  shows "cmds = [] \<and> wc_Success r \<and> wc_FailedStep r = '''' \<and> (wc_ThroughputMbps r \<noteq> 0 \<longrightarrow> wo_ThroughputURL opts \<noteq> '''')
    \<and> wc_TotalMs r = wc_ScanMs r + wc_AssociateMs r + wc_AuthenticateMs r + wc_DHCPMs r + wc_ThroughputMs r \<and> isUnicastMAC (wc_MAC r)"
proof -
  have "r = demoWlanActive intn iface opts" "cmds = []"
    using assms by (simp_all add: WlanActive_def)
  then show ?thesis
    by (simp add: demoWlanActive_def Let_def demoMAC_unicast)
qed

section \<open>The managed-mode scan\<close>

record AccessPoint =
  ap_BSSID :: string
  ap_SSID :: string
  ap_Channel :: u32
  ap_FreqMHz :: u32
  ap_Band :: string
  ap_RSSIdBm :: float64
  ap_Security :: string

text \<open>\<open>strconv.ParseFloat\<close> on decimal numbers, which are the ones \<open>iw\<close> prints.\<close>

definition parse_exponent :: "string \<Rightarrow> int option" where
  "parse_exponent s =
     (case s of
        [] \<Rightarrow> Some 0
      | c # cs \<Rightarrow> (if c = CHR ''e'' \<or> c = CHR ''E'' then atoi_int cs else None))"

definition ParseFloat :: "string \<Rightarrow> float64 option" where
  "ParseFloat s =
     (let neg = (s \<noteq> [] \<and> hd s = CHR ''-''); t = (if s \<noteq> [] \<and> (hd s = CHR ''-'' \<or> hd s = CHR ''+'') then tl s else s);
          whole = takeWhile is_digit t; rest = dropWhile is_digit t; point = (rest \<noteq> [] \<and> hd rest = CHR ''.'');
          frac = (if point then takeWhile is_digit (tl rest) else []); rest = (if point then dropWhile is_digit (tl rest) else rest)
      in if whole @ frac = [] then None
         else case parse_exponent rest of
                None \<Rightarrow> None
              | Some e \<Rightarrow>
                  (let m = (if neg then - 1 else 1) * real (atoi_digits 0 (whole @ frac)); k = e - int (length frac)
                   in Some (if 0 \<le> k then m * 10 ^ nat k else m / 10 ^ nat (- k))))"

definition truncate_u32 :: "float64 \<Rightarrow> u32" where
  "truncate_u32 f = of_int (if f < 0 then - \<lfloor>- f\<rfloor> else \<lfloor>f\<rfloor>)"

record iwscan =
  sc_aps :: "AccessPoint list"
  sc_cur :: "AccessPoint option"
  sc_RSN :: bool
  sc_WPA :: bool
  sc_SAE :: bool
  sc_privacy :: bool

definition scan_flush :: "iwscan \<Rightarrow> iwscan" where
  "scan_flush st =
     (case sc_cur st of
        None \<Rightarrow> st
      | Some c \<Rightarrow>
          (let c = c\<lparr>ap_Security := deriveSecurity (sc_RSN st) (sc_WPA st) (sc_SAE st) (sc_privacy st)\<rparr>;
               c = (if ap_Channel c = 0 \<and> ap_FreqMHz c \<noteq> 0
                    then c\<lparr>ap_Channel := fst (channelAndBand (ap_FreqMHz c)), ap_Band := snd (channelAndBand (ap_FreqMHz c))\<rparr> else c)
           in \<lparr>sc_aps = sc_aps st @ [c], sc_cur = None, sc_RSN = False, sc_WPA = False, sc_SAE = False, sc_privacy = False\<rparr>))"

definition scan_bss :: "string \<Rightarrow> AccessPoint" where
  "scan_bss bssid = \<lparr>ap_BSSID = ToLower (takeWhile (\<lambda>c. c \<noteq> CHR ''('' \<and> c \<noteq> CHR '' '') bssid), ap_SSID = '''', ap_Channel = 0, ap_FreqMHz = 0,
     ap_Band = '''', ap_RSSIdBm = 0, ap_Security = ''''\<rparr>"

definition scan_line :: "string \<Rightarrow> iwscan \<Rightarrow> iwscan" where
  "scan_line l st =
     (let line = trim_space l
      in if has_prefix line ''BSS '' then (scan_flush st)\<lparr>sc_cur := Some (scan_bss (drop 4 line))\<rparr>
         else case sc_cur st of
           None \<Rightarrow> st
         | Some c \<Rightarrow>
             if has_prefix line ''freq:'' then
               (case ParseFloat (trim_space (drop 5 line)) of
                  None \<Rightarrow> st
                | Some f \<Rightarrow>
                    (let freq = truncate_u32 f
                     in st\<lparr>sc_cur := Some (c\<lparr>ap_FreqMHz := freq, ap_Channel := fst (channelAndBand freq), ap_Band := snd (channelAndBand freq)\<rparr>)\<rparr>))
             else if has_prefix line ''signal:'' then
               (case Fields (drop 7 line) of
                  [] \<Rightarrow> st
                | x # _ \<Rightarrow> (case ParseFloat x of None \<Rightarrow> st | Some f \<Rightarrow> st\<lparr>sc_cur := Some (c\<lparr>ap_RSSIdBm := f\<rparr>)\<rparr>))
             else if has_prefix line ''SSID:'' then st\<lparr>sc_cur := Some (c\<lparr>ap_SSID := trim_space (drop 5 line)\<rparr>)\<rparr>
             else if has_prefix line ''RSN:'' then st\<lparr>sc_RSN := True\<rparr>
             else if has_prefix line ''WPA:'' then st\<lparr>sc_WPA := True\<rparr>
             else if contains line ''SAE'' then st\<lparr>sc_SAE := True\<rparr>
             else if contains line ''Privacy'' then st\<lparr>sc_privacy := True\<rparr>
             else st)"

definition parseIWScan :: "string list \<Rightarrow> AccessPoint list" where
  "parseIWScan ls =
     sc_aps (scan_flush (fold scan_line ls \<lparr>sc_aps = [], sc_cur = None, sc_RSN = False, sc_WPA = False, sc_SAE = False, sc_privacy = False\<rparr>))"

definition demo_ap :: "draws \<Rightarrow> nat \<Rightarrow> string \<times> string \<times> u32 \<times> string \<Rightarrow> AccessPoint" where
  "demo_ap intn i x =
     (case x of (bssid, ssid, freq, sec) \<Rightarrow>
        \<lparr>ap_BSSID = bssid, ap_SSID = ssid, ap_Channel = fst (channelAndBand freq), ap_FreqMHz = freq, ap_Band = snd (channelAndBand freq),
         ap_RSSIdBm = of_int (- 40 - int (intn i 50)), ap_Security = sec\<rparr>)"

definition demoScan :: "draws \<Rightarrow> AccessPoint list" where
  "demoScan intn =
     [demo_ap intn 0 (''a0:f8:49:74:8b:20'', ''corp-wifi'', 2412, ''WPA2''), demo_ap intn 1 (''a0:f8:49:74:8b:22'', ''corp-guest'', 2437, ''WPA2''),
      demo_ap intn 2 (''c0:25:5c:ec:bb:40'', ''corp-wifi'', 5180, ''WPA2''), demo_ap intn 3 (''2c:3a:fd:8b:1e:56'', ''IoT-Net'', 5240, ''WPA3''),
      demo_ap intn 4 (''f4:92:bf:2d:40:45'', '''', 5500, ''WPA2''), demo_ap intn 5 (''30:8d:99:b6:85:84'', ''Guest-Open'', 2462, ''Open'')]"

text \<open>\<open>out\<close> is the output of \<open>iw dev <iface> scan\<close> or its error.\<close>

definition Scan :: "(string \<Rightarrow> string) \<Rightarrow> draws \<Rightarrow> string + string list \<Rightarrow> string \<Rightarrow> string \<times> (string + AccessPoint list)" where
  "Scan env intn out iface = (iface, if wlanDemo env then Inr (demoScan intn) else map_sum id parseIWScan out)"

text \<open>An access point has one of five kinds of security, and the channel and band of its frequency.\<close>

definition ap_ok :: "AccessPoint \<Rightarrow> bool" where
  "ap_ok a \<longleftrightarrow> ap_Security a \<in> set [''WPA3'', ''WPA2'', ''WPA'', ''WEP'', ''Open''] \<and> (ap_Channel a, ap_Band a) = channelAndBand (ap_FreqMHz a)"

definition iwscan_ok :: "iwscan \<Rightarrow> bool" where
  "iwscan_ok st \<longleftrightarrow> list_all ap_ok (sc_aps st) \<and> pred_option (\<lambda>c. (ap_Channel c, ap_Band c) = channelAndBand (ap_FreqMHz c)) (sc_cur st)"

lemma flush_ok: "iwscan_ok st \<Longrightarrow> iwscan_ok (scan_flush st) \<and> sc_cur (scan_flush st) = None"
  by (cases "sc_cur st") (auto simp: iwscan_ok_def scan_flush_def Let_def ap_ok_def deriveSecurity_def)

lemma scan_line_ok: "iwscan_ok st \<Longrightarrow> iwscan_ok (scan_line l st)"
  using flush_ok [of st]
  by (auto simp: scan_line_def Let_def iwscan_ok_def scan_bss_def channelAndBand_def [of 0] simp del: contains.simps split: option.split list.split)

lemma scan_consistent:
  assumes "snd (Scan env intn out iface) = Inr aps"
  shows "list_all ap_ok aps"
proof (cases "wlanDemo env")
  case True
  then show ?thesis
    using assms by (auto simp: Scan_def demoScan_def demo_ap_def ap_ok_def)
next
  case False
  have "iwscan_ok (fold scan_line ls st)" if "iwscan_ok st" for ls st
    using that by (induction ls arbitrary: st) (simp_all add: scan_line_ok)
  then have "iwscan_ok (fold scan_line ls \<lparr>sc_aps = [], sc_cur = None, sc_RSN = False, sc_WPA = False, sc_SAE = False, sc_privacy = False\<rparr>)" for ls
    by (simp add: iwscan_ok_def)
  then have "list_all ap_ok (parseIWScan ls)" for ls
    using flush_ok unfolding parseIWScan_def by (simp add: iwscan_ok_def)
  then show ?thesis
    using assms False by (cases out) (auto simp: Scan_def)
qed

end
