(* ===== verification/Notify.thy ===== *)
theory Notify
  imports Api_Alerts Alert_Engine
begin

text \<open>
  The delivery of alert notifications (\<open>internal/server/notify.go\<close>): for each target of a rule, the webhook
  request, the mail session, the script run or the SNMP trap, with what was sent and the error that was logged.
  Arguments are the answers of the remote side, the text \<open>json.Marshal\<close> gives of a payload and the
  environment of the process.
\<close>

section \<open>What is sent\<close>

datatype smtp_cmd =
    Smtp_Dial string | Smtp_StartTLS | Smtp_Auth string string string | Smtp_Mail string | Smtp_Rcpt string
  | Smtp_Data | Smtp_Write string | Smtp_Close | Smtp_Quit

record SnmpPDU =
  pdu_Name :: string
  pdu_Value :: string

record SnmpTrap =
  trap_Target :: string
  trap_Port :: u16
  trap_Community :: string
  trap_Timestamp :: u64
  trap_Variables :: "SnmpPDU list"

datatype sent =
    Sent_Nothing
  | Sent_Webhook string string
  | Sent_Mail "smtp_cmd list"
  | Sent_Script string "string list" "string list" string
  | Sent_Trap SnmpTrap

record SMTPConfig =
  sm_Host :: string
  sm_Port :: int
  sm_User :: string
  sm_Pass :: string
  sm_From :: string
  sm_StartTLS :: bool

text \<open>
  The other side: the error of building a request to an address (\<open>http.NewRequest\<close> parses it), of the request, of a
  mail command after those before it, of a script (with what it
  wrote to its standard error), of connecting to an SNMP receiver and of sending the trap.
\<close>

record outside =
  ou_NewRequest :: "string \<Rightarrow> string option"
  ou_Post :: "string \<Rightarrow> string \<Rightarrow> string option"
  ou_Smtp :: "smtp_cmd list \<Rightarrow> smtp_cmd \<Rightarrow> string option"
  ou_Script :: "string \<Rightarrow> string list \<Rightarrow> (string \<times> string) option"
  ou_SnmpConnect :: "string option"
  ou_SnmpTrap :: "string option"
  ou_Environ :: "string list"
  ou_Now :: go_time

section \<open>Webhooks and scripts\<close>

definition config_string :: "json \<Rightarrow> string \<Rightarrow> string option" where
  "config_string c k = (case map_get c k of Some (JStr s) \<Rightarrow> Some s | _ \<Rightarrow> None)"

definition notifyWebhook :: "outside \<Rightarrow> AlertTarget \<Rightarrow> string \<Rightarrow> string option \<times> sent" where
  "notifyWebhook o' target payloadJSON =
     (case config_string (at_Config target) ''url'' of
        None \<Rightarrow> (Some ''webhook URL not configured'', Sent_Nothing)
      | Some url \<Rightarrow>
          (if url = '''' then (Some ''webhook URL not configured'', Sent_Nothing)
           else case ou_NewRequest o' url of
                  Some err \<Rightarrow> (Some err, Sent_Nothing)
                | None \<Rightarrow> (ou_Post o' url payloadJSON, Sent_Webhook url payloadJSON)))"

definition strings_of :: "json list \<Rightarrow> string list" where
  "strings_of js = List.map_filter (\<lambda>j. case j of JStr s \<Rightarrow> Some s | _ \<Rightarrow> None) js"

definition config_list :: "json \<Rightarrow> string \<Rightarrow> json list option" where
  "config_list c k = (case map_get c k of Some (JArr js) \<Rightarrow> Some js | _ \<Rightarrow> None)"

definition script_env :: "outside \<Rightarrow> string \<Rightarrow> AlertRule \<Rightarrow> string \<Rightarrow> string \<Rightarrow> string list" where
  "script_env o' payloadJSON rule state agentName =
     ou_Environ o' @ [''NETLAMA_ALERT_STATE='' @ state, ''NETLAMA_ALERT_RULE='' @ ar_Name rule,
       ''NETLAMA_ALERT_AGENT='' @ agentName, ''NETLAMA_ALERT_MESSAGE='' @ payloadJSON]"

definition notifyScript :: "outside \<Rightarrow> AlertTarget \<Rightarrow> string \<Rightarrow> AlertRule \<Rightarrow> string \<Rightarrow> string \<Rightarrow> string option \<times> sent" where
  "notifyScript o' target payloadJSON rule state agentName =
     (case config_string (at_Config target) ''path'' of
        None \<Rightarrow> (Some ''script path not configured'', Sent_Nothing)
      | Some path \<Rightarrow>
          (if path = '''' then (Some ''script path not configured'', Sent_Nothing)
           else let args = strings_of (case config_list (at_Config target) ''args'' of None \<Rightarrow> [] | Some js \<Rightarrow> js)
                in (map_option (\<lambda>(err, stderr). ''script failed: '' @ (if stderr \<noteq> '''' then stderr else err)) (ou_Script o' path args),
                    Sent_Script path args (script_env o' payloadJSON rule state agentName) payloadJSON)))"

section \<open>Mail\<close>

text \<open>\<open>mail.Address.String\<close> of an address with no name.\<close>

definition isVchar :: "char \<Rightarrow> bool" where
  "isVchar c \<longleftrightarrow> of_char c \<ge> (33 :: nat) \<and> of_char c \<noteq> (127 :: nat)"

definition isAtext :: "char \<Rightarrow> bool" where
  "isAtext c \<longleftrightarrow> isVchar c \<and> c \<notin> set (''.()<>[]:;@,'' @ [CHR 0x5C, CHR 0x22])"

definition quoteString :: "string \<Rightarrow> string" where
  "quoteString s =
     [CHR 0x22] @ concat (map (\<lambda>c. if c = CHR 0x20 \<or> c = CHR 0x09 then [c]
       else if c = CHR 0x5C \<or> c = CHR 0x22 then [CHR 0x5C, c] else if isVchar c then [c] else []) s) @ [CHR 0x22]"

definition dot_ok :: "string \<Rightarrow> nat \<Rightarrow> bool" where
  "dot_ok s i \<longleftrightarrow> s ! i = CHR ''.'' \<and> i > 0 \<and> s ! (i - 1) \<noteq> CHR ''.'' \<and> i + 1 < length s \<and> s ! (i + 1) \<noteq> CHR ''.''"

definition Address_String :: "string \<Rightarrow> string" where
  "Address_String addr =
     (let (loc, dom) = (case last_index_byte (CHR ''@'') addr of None \<Rightarrow> (addr, '''') | Some i \<Rightarrow> (take i addr, drop (i + 1) addr));
          loc = (if list_all (\<lambda>i. isAtext (loc ! i) \<or> dot_ok loc i) [0..<length loc] then loc else quoteString loc)
      in ''<'' @ loc @ ''@'' @ dom @ ''>'')"

text \<open>\<open>%s\<close> of a value of the payload, whose rule, agent and message are strings.\<close>

definition payload_string :: "(string \<times> json) list \<Rightarrow> string \<Rightarrow> string" where
  "payload_string payload k = (case map_of payload k of Some (JStr s) \<Rightarrow> s | _ \<Rightarrow> '''')"

definition mail_subject :: "AlertTarget \<Rightarrow> (string \<times> json) list \<Rightarrow> string \<Rightarrow> string" where
  "mail_subject target payload state =
     (case config_string (at_Config target) ''subject'' of
        Some (c # cs) \<Rightarrow> c # cs
      | _ \<Rightarrow> ''Alert: '' @ payload_string payload ''rule'' @ '' ('' @ state @ '')'')"

definition lf :: string where
  "lf = [CHR 0x0A]"

definition crlf :: string where
  "crlf = [CHR 0x0D, CHR 0x0A]"

definition mail_body :: "string \<Rightarrow> (string \<times> json) list \<Rightarrow> string \<Rightarrow> string" where
  "mail_body payloadJSON payload state =
     ''Alert: '' @ payload_string payload ''rule'' @ lf @ ''State: '' @ state @ lf
     @ ''Agent: '' @ payload_string payload ''agent'' @ lf @ ''Message: '' @ payload_string payload ''message'' @ lf @ lf
     @ ''Payload:'' @ lf @ payloadJSON @ lf"

definition mail_headers :: "SMTPConfig \<Rightarrow> string list \<Rightarrow> string \<Rightarrow> string" where
  "mail_headers config recipients subject =
     ''From: '' @ Address_String (sm_From config) @ crlf @ ''To: '' @ join '', '' recipients @ crlf
     @ ''Subject: '' @ subject @ crlf @ ''Content-Type: text/plain; charset=utf-8'' @ crlf @ crlf"

text \<open>Commands in turn, until one fails; each comes with how its error is reported.\<close>

fun smtp_run :: "(smtp_cmd list \<Rightarrow> smtp_cmd \<Rightarrow> string option) \<Rightarrow> smtp_cmd list \<Rightarrow> (smtp_cmd \<times> string) list \<Rightarrow> string option \<times> smtp_cmd list" where
  "smtp_run smtp prev [] = (None, prev)"
| "smtp_run smtp prev ((c, prefix) # cs) =
     (case smtp prev c of Some e \<Rightarrow> (Some (prefix @ e), prev @ [c]) | None \<Rightarrow> smtp_run smtp (prev @ [c]) cs)"

definition mail_session :: "SMTPConfig \<Rightarrow> string list \<Rightarrow> string \<Rightarrow> (smtp_cmd \<times> string) list" where
  "mail_session config recipients msg =
     [(Smtp_Dial (join_host_port (sm_Host config) (format_int (sm_Port config))), ''dialing SMTP: '')]
     @ (if sm_StartTLS config then [(Smtp_StartTLS, ''STARTTLS failed: '')] else [])
     @ (if sm_User config \<noteq> '''' \<and> sm_Pass config \<noteq> ''''
        then [(Smtp_Auth (sm_User config) (sm_Pass config) (sm_Host config), ''SMTP auth failed: '')] else [])
     @ [(Smtp_Mail (sm_From config), ''MAIL: '')]
     @ map (\<lambda>rcpt. (Smtp_Rcpt rcpt, ''RCPT '' @ rcpt @ '': '')) recipients
     @ [(Smtp_Data, ''DATA: ''), (Smtp_Write msg, ''''), (Smtp_Close, ''closing DATA: ''), (Smtp_Quit, '''')]"

definition notifyEmail ::
  "outside \<Rightarrow> SMTPConfig \<Rightarrow> AlertTarget \<Rightarrow> string \<Rightarrow> (string \<times> json) list \<Rightarrow> string \<Rightarrow> string option \<times> sent" where
  "notifyEmail o' config target payloadJSON payload state =
     (if sm_Host config = '''' then (Some ''SMTP not configured'', Sent_Nothing)
      else case config_list (at_Config target) ''to'' of
        None \<Rightarrow> (Some ''email 'to' list not configured'', Sent_Nothing)
      | Some toList \<Rightarrow>
          (if toList = [] then (Some ''email 'to' list not configured'', Sent_Nothing)
           else let recipients = strings_of toList
                in if recipients = [] then (Some ''no valid email recipients'', Sent_Nothing)
                   else let msg = mail_headers config recipients (mail_subject target payload state) @ mail_body payloadJSON payload state;
                            (err, cmds) = smtp_run (ou_Smtp o') [] (mail_session config recipients msg)
                        in (err, Sent_Mail cmds)))"

section \<open>SNMP traps\<close>

text \<open>A number of a decoded document is a \<open>float64\<close>; \<open>int\<close> truncates it.\<close>

definition trunc_int :: "float64 \<Rightarrow> int" where
  "trunc_int x = (if x < 0 then - \<lfloor>- x\<rfloor> else \<lfloor>x\<rfloor>)"

definition snmp_port :: "json \<Rightarrow> int" where
  "snmp_port c = (case map_get c ''port'' of Some (JInt n) \<Rightarrow> n | Some (JFloat x) \<Rightarrow> trunc_int x | _ \<Rightarrow> 162)"

definition snmp_trap :: "outside \<Rightarrow> AlertTarget \<Rightarrow> string \<Rightarrow> AlertRule \<Rightarrow> string \<Rightarrow> string \<Rightarrow> float64 \<Rightarrow> SnmpTrap" where
  "snmp_trap o' target host rule state agentName v =
     \<lparr>trap_Target = host, trap_Port = of_int (snmp_port (at_Config target)),
      trap_Community = (case config_string (at_Config target) ''community'' of None \<Rightarrow> ''public'' | Some c \<Rightarrow> c),
      trap_Timestamp = of_int (ou_Now o' div second),
      trap_Variables = [\<lparr>pdu_Name = ''.1.3.6.1.4.1.59777.1'', pdu_Value = ar_Name rule\<rparr>,
        \<lparr>pdu_Name = ''.1.3.6.1.4.1.59777.2'', pdu_Value = state\<rparr>, \<lparr>pdu_Name = ''.1.3.6.1.4.1.59777.3'', pdu_Value = agentName\<rparr>,
        \<lparr>pdu_Name = ''.1.3.6.1.4.1.59777.4'', pdu_Value = format_f2 v\<rparr>]\<rparr>"

definition notifySNMP :: "outside \<Rightarrow> AlertTarget \<Rightarrow> AlertRule \<Rightarrow> string \<Rightarrow> string \<Rightarrow> float64 \<Rightarrow> string option \<times> sent" where
  "notifySNMP o' target rule state agentName v =
     (case config_string (at_Config target) ''host'' of
        None \<Rightarrow> (Some ''SNMP host not configured'', Sent_Nothing)
      | Some host \<Rightarrow>
          (if host = '''' then (Some ''SNMP host not configured'', Sent_Nothing)
           else case ou_SnmpConnect o' of
                  Some e \<Rightarrow> (Some (''SNMP connect failed: '' @ e), Sent_Nothing)
                | None \<Rightarrow> (map_option (\<lambda>e. ''SNMP trap failed: '' @ e) (ou_SnmpTrap o'),
                           Sent_Trap (snmp_trap o' target host rule state agentName v))))"

section \<open>Dispatch\<close>

definition notify_target ::
  "((string \<times> json) list \<Rightarrow> string) \<Rightarrow> outside \<Rightarrow> SMTPConfig \<Rightarrow> AlertTarget \<Rightarrow> notification \<Rightarrow> string option \<times> sent" where
  "notify_target marshal o' config target n =
     (let payloadJSON = marshal (nf_Payload n)
      in if at_Type target = ''webhook'' then notifyWebhook o' target payloadJSON
         else if at_Type target = ''email'' then notifyEmail o' config target payloadJSON (nf_Payload n) (nf_State n)
         else if at_Type target = ''script'' then notifyScript o' target payloadJSON (nf_Rule n) (nf_State n) (nf_Agent n)
         else if at_Type target = ''snmp'' then notifySNMP o' target (nf_Rule n) (nf_State n) (nf_Agent n) (nf_Value n)
         else (Some (''unknown target type: '' @ at_Type target), Sent_Nothing))"

text \<open>The goroutine of one notification: a target that is gone is only logged.\<close>

definition deliver ::
  "((string \<times> json) list \<Rightarrow> string) \<Rightarrow> outside \<Rightarrow> SMTPConfig \<Rightarrow> 'p db \<Rightarrow> notification \<Rightarrow> string option \<times> sent" where
  "deliver marshal o' config d n =
     (case GetAlertTarget (nf_TargetID n) d of
        Inl _ \<Rightarrow> (Some ''Failed to load alert target'', Sent_Nothing)
      | Inr target \<Rightarrow> notify_target marshal o' config target n)"

section \<open>Delivery\<close>

definition recipients_in :: "smtp_cmd list \<Rightarrow> string list" where
  "recipients_in cmds = List.map_filter (\<lambda>c. case c of Smtp_Rcpt x \<Rightarrow> Some x | _ \<Rightarrow> None) cmds"

text \<open>
  What a notification comes to. What went out went to the endpoint the target's configuration names. A mail session
  opens with the configured server; one that ends without an error named every recipient of the list, in its order,
  and one that ends with an error named the first ones and stopped at a command the other side refused. Nothing goes
  out only when the address of a webhook cannot be parsed, no mail server is configured or the trap receiver cannot
  be connected to, and then the error is reported.
\<close>

definition mail_goes_to :: "outside \<Rightarrow> SMTPConfig \<Rightarrow> string list \<Rightarrow> string option \<Rightarrow> smtp_cmd list \<Rightarrow> bool" where
  "mail_goes_to o' config rs err cmds \<longleftrightarrow>
     rs \<noteq> [] \<and> cmds \<noteq> [] \<and> hd cmds = Smtp_Dial (join_host_port (sm_Host config) (format_int (sm_Port config)))
     \<and> (case err of
          None \<Rightarrow> recipients_in cmds = rs \<and> Smtp_Data \<in> set cmds
        | Some _ \<Rightarrow> recipients_in cmds = take (length (recipients_in cmds)) rs \<and> ou_Smtp o' (butlast cmds) (last cmds) \<noteq> None)"

definition addressed :: "outside \<Rightarrow> SMTPConfig \<Rightarrow> AlertTarget \<Rightarrow> string \<Rightarrow> string option \<Rightarrow> sent \<Rightarrow> bool" where
  "addressed o' config target payloadJSON err x =
     (case x of
        Sent_Nothing \<Rightarrow> err \<noteq> None
          \<and> (if at_Type target = ''webhook''
             then \<exists>url. map_get (at_Config target) ''url'' = Some (JStr url) \<and> ou_NewRequest o' url = err
             else if at_Type target = ''email'' then sm_Host config = ''''
             else at_Type target = ''snmp'' \<and> ou_SnmpConnect o' \<noteq> None)
      | Sent_Webhook url b \<Rightarrow> at_Type target = ''webhook'' \<and> map_get (at_Config target) ''url'' = Some (JStr url)
          \<and> b = payloadJSON \<and> err = ou_Post o' url b
      | Sent_Mail cmds \<Rightarrow> at_Type target = ''email''
          \<and> (\<exists>rs. map_get (at_Config target) ''to'' = Some (JArr (map JStr rs)) \<and> mail_goes_to o' config rs err cmds)
      | Sent_Script path _ _ stdin \<Rightarrow> at_Type target = ''script'' \<and> map_get (at_Config target) ''path'' = Some (JStr path)
          \<and> stdin = payloadJSON
      | Sent_Trap t \<Rightarrow> at_Type target = ''snmp'' \<and> map_get (at_Config target) ''host'' = Some (JStr (trap_Target t)))"

lemma nonempty_config: "nonempty_string (map_get c k) \<Longrightarrow> \<exists>s. map_get c k = Some (JStr s) \<and> config_string c k = Some s \<and> s \<noteq> ''''"
  by (auto simp: nonempty_string_def config_string_def split: option.splits json.splits)

lemma strings_of_strings: "list_all is_string js \<Longrightarrow> map JStr (strings_of js) = js"
  by (induction js) (auto simp: strings_of_def List.map_filter_simps elim!: is_string.elims)

lemma smtp_run_prefix: "\<exists>us vs. snd (smtp_run smtp prev cs) = prev @ us \<and> map fst cs = us @ vs \<and> (us = [] \<longrightarrow> cs = [])"
proof (induction smtp prev cs rule: smtp_run.induct)
  case (2 smtp prev c prefix cs)
  show ?case
  proof (cases "smtp prev c")
    case None
    obtain us vs where "snd (smtp_run smtp (prev @ [c]) cs) = prev @ (c # us)" "map fst cs = us @ vs"
      using 2 [OF None] by auto
    then show ?thesis
      using None by (intro exI [of _ "c # us"] exI [of _ vs]) simp
  qed simp
qed simp

lemma smtp_run_all: "fst (smtp_run smtp prev cs) = None \<Longrightarrow> snd (smtp_run smtp prev cs) = prev @ map fst cs"
  by (induction smtp prev cs rule: smtp_run.induct) (auto split: option.splits)

lemma smtp_run_refused:
  "fst (smtp_run smtp prev cs) = Some e \<Longrightarrow>
     smtp (butlast (snd (smtp_run smtp prev cs))) (last (snd (smtp_run smtp prev cs))) \<noteq> None"
  by (induction smtp prev cs rule: smtp_run.induct) (auto split: option.splits)

lemma smtp_run_nonempty: "cs \<noteq> [] \<Longrightarrow> snd (smtp_run smtp [] cs) \<noteq> []"
  using smtp_run_prefix [of smtp "[]" cs] by auto

lemma session_nonempty: "mail_session config rs msg \<noteq> []"
  by (simp add: mail_session_def)

lemma recipients_in_simps [simp]:
  "recipients_in [] = []" "recipients_in (c # cs) = (case c of Smtp_Rcpt x \<Rightarrow> x # recipients_in cs | _ \<Rightarrow> recipients_in cs)"
  by (simp_all add: recipients_in_def List.map_filter_simps split: smtp_cmd.split)

lemma recipients_in_append [simp]: "recipients_in (xs @ ys) = recipients_in xs @ recipients_in ys"
  by (simp add: recipients_in_def List.map_filter_def)

lemma recipients_in_Rcpt [simp]: "recipients_in (map Smtp_Rcpt xs) = xs"
  by (induction xs) simp_all

lemma session_recipients: "recipients_in (map fst (mail_session config rs msg)) = rs"
  by (simp add: mail_session_def comp_def)

lemma smtp_run_recipients:
  "recipients_in (snd (smtp_run smtp [] (mail_session config rs msg))) =
     take (length (recipients_in (snd (smtp_run smtp [] (mail_session config rs msg))))) rs"
proof -
  obtain us vs where "snd (smtp_run smtp [] (mail_session config rs msg)) = us" "map fst (mail_session config rs msg) = us @ vs"
    using smtp_run_prefix [of smtp "[]" "mail_session config rs msg"] by auto
  moreover from this have "rs = recipients_in us @ recipients_in vs"
    by (metis session_recipients recipients_in_append)
  ultimately show ?thesis
    by simp
qed

lemma smtp_run_hd: "hd (snd (smtp_run smtp [] ((c, prefix) # cs))) = c"
proof -
  obtain us vs where "snd (smtp_run smtp [] ((c, prefix) # cs)) = us" "c # map fst cs = us @ vs" "us \<noteq> []"
    using smtp_run_prefix [of smtp "[]" "(c, prefix) # cs"] by auto
  then show ?thesis
    by (metis hd_append2 list.sel(1))
qed

lemma mail_session_goes_to:
  assumes "rs \<noteq> []"
  shows "mail_goes_to o' config rs (fst (smtp_run (ou_Smtp o') [] (mail_session config rs msg)))
    (snd (smtp_run (ou_Smtp o') [] (mail_session config rs msg)))"
proof -
  let ?run = "smtp_run (ou_Smtp o') [] (mail_session config rs msg)"
  have "hd (snd ?run) = Smtp_Dial (join_host_port (sm_Host config) (format_int (sm_Port config)))"
    by (simp only: mail_session_def append_Cons append_Nil smtp_run_hd)
  moreover have "recipients_in (snd ?run) = rs \<and> Smtp_Data \<in> set (snd ?run)" if "fst ?run = None"
    using smtp_run_all [OF that] session_recipients by (simp add: mail_session_def comp_def)
  ultimately show ?thesis
    using assms smtp_run_nonempty [OF session_nonempty] smtp_run_recipients smtp_run_refused
    by (fastforce simp: mail_goes_to_def split: option.split)
qed

text \<open>
  C40. A target that passed the API's check is addressed as its configuration says, whatever the alert: a webhook
  posts the payload to its address, a script is run with it, a trap goes to its host, and a mail session that ends
  without an error named every recipient in order. A session that fails stopped at a command the server refused, and
  nothing at all goes out only for an address that cannot be parsed, without a mail server, or to a receiver that
  cannot be connected to; the error is reported then.
\<close>

theorem validated_target_is_addressed:
  assumes "validateTargetConfig (at_Type target) (at_Config target)"
    and "notify_target marshal o' config target n = (err, x)"
  shows "addressed o' config target (marshal (nf_Payload n)) err x"
proof -
  consider "at_Type target = ''webhook''" | "at_Type target = ''email''" | "at_Type target = ''script''" | "at_Type target = ''snmp''"
    using assms(1) by (auto simp: validateTargetConfig_def split: if_splits)
  then show ?thesis
  proof cases
    case 2
    then obtain js where js: "map_get (at_Config target) ''to'' = Some (JArr js)" "js \<noteq> []" "list_all is_string js"
      using assms(1) by (auto simp: validateTargetConfig_def split: option.splits json.splits)
    moreover have "map JStr (strings_of js) = js" "strings_of js \<noteq> []"
      using js strings_of_strings [of js] by auto
    ultimately show ?thesis
      using 2 assms(2) mail_session_goes_to [of "strings_of js" o' config]
      by (auto simp: notify_target_def notifyEmail_def addressed_def config_list_def Let_def case_prod_unfold
        intro!: exI [of _ "strings_of js"] split: if_splits)
  next
    case 1
    then show ?thesis
      using assms nonempty_config [of "at_Config target" "''url''"]
      by (auto simp: notify_target_def notifyWebhook_def addressed_def validateTargetConfig_def Let_def split: option.splits dest: sym)
  next
    case 3
    then show ?thesis
      using assms nonempty_config [of "at_Config target" "''path''"]
      by (auto simp: notify_target_def notifyScript_def addressed_def validateTargetConfig_def Let_def)
  next
    case 4
    then show ?thesis
      using assms nonempty_config [of "at_Config target" "''host''"]
      by (auto simp: notify_target_def notifySNMP_def addressed_def validateTargetConfig_def snmp_trap_def Let_def split: option.splits)
  qed
qed

definition reachable_world :: outside where
  "reachable_world = \<lparr>ou_NewRequest = (\<lambda>_. None), ou_Post = (\<lambda>_ _. None), ou_Smtp = (\<lambda>_ _. None), ou_Script = (\<lambda>_ _. None), ou_SnmpConnect = None, ou_SnmpTrap = None,
     ou_Environ = [], ou_Now = 0\<rparr>"

definition ops_target :: AlertTarget where
  "ops_target = \<lparr>at_ID = ''t1'', at_TenantID = ''a'', at_Name = ''ops'', at_Type = ''email'',
     at_Config = JObj [(''to'', JArr [JStr ''a@x'', JStr ''b@x''])]\<rparr>"

definition hook_notification :: notification where
  "hook_notification = \<lparr>nf_TargetID = ''t1'', nf_Rule = demo_rule, nf_State = ''firing'', nf_Agent = ''probe'', nf_Value = 7, nf_Payload = []\<rparr>"

definition mailbox :: SMTPConfig where
  "mailbox = \<lparr>sm_Host = ''mx'', sm_Port = 25, sm_User = '''', sm_Pass = '''', sm_From = ''n@x'', sm_StartTLS = False\<rparr>"

theorem validated_target_is_addressed_witness:
  "\<exists>cmds. notify_target (\<lambda>_. ''{}'') reachable_world mailbox ops_target hook_notification = (None, Sent_Mail cmds)
     \<and> addressed reachable_world mailbox ops_target ''{}'' None (Sent_Mail cmds) \<and> recipients_in cmds = [''a@x'', ''b@x'']"
proof -
  obtain cmds where sent: "notify_target (\<lambda>_. ''{}'') reachable_world mailbox ops_target hook_notification = (None, Sent_Mail cmds)"
      "recipients_in cmds = [''a@x'', ''b@x'']"
    by (simp add: notify_target_def notifyEmail_def ops_target_def mailbox_def reachable_world_def config_list_def map_get_def
      strings_of_def List.map_filter_simps mail_session_def Let_def)
  moreover have "validateTargetConfig (at_Type ops_target) (at_Config ops_target)"
    by (simp add: ops_target_def validateTargetConfig_def map_get_def)
  ultimately show ?thesis
    using validated_target_is_addressed [of ops_target "\<lambda>_. ''{}''" reachable_world mailbox hook_notification None] by auto
qed

text \<open>
  A mail that was handed over without an error was offered to every recipient of the target, in the
  order of its list, before the message was written; the session identified itself before anything else if it
  has credentials.
\<close>

theorem mail_reaches_all_recipients:
  assumes "notifyEmail o' config target payloadJSON payload state = (None, x)"
    and "map_get (at_Config target) ''to'' = Some (JArr (map JStr rs))"
  shows "\<exists>pre msg. x = Sent_Mail (pre @ [Smtp_Mail (sm_From config)] @ map Smtp_Rcpt rs @ [Smtp_Data, Smtp_Write msg, Smtp_Close, Smtp_Quit])
    \<and> set pre \<subseteq> {Smtp_Dial (join_host_port (sm_Host config) (format_int (sm_Port config))), Smtp_StartTLS,
         Smtp_Auth (sm_User config) (sm_Pass config) (sm_Host config)}
    \<and> (Smtp_StartTLS \<in> set pre) = sm_StartTLS config"
proof -
  have to: "config_list (at_Config target) ''to'' = Some (map JStr rs)"
    by (simp add: config_list_def assms(2))
  have rs: "strings_of (map JStr rs) = rs"
    by (induction rs) (simp_all add: strings_of_def List.map_filter_simps)
  let ?msg = "mail_headers config rs (mail_subject target payload state) @ mail_body payloadJSON payload state"
  have ok: "smtp_run (ou_Smtp o') [] (mail_session config rs ?msg) = (None, snd (smtp_run (ou_Smtp o') [] (mail_session config rs ?msg)))"
      "x = Sent_Mail (snd (smtp_run (ou_Smtp o') [] (mail_session config rs ?msg)))"
    using assms(1) by (auto simp: notifyEmail_def to rs Let_def case_prod_unfold split: if_splits intro: prod_eqI)
  then have "x = Sent_Mail (map fst (mail_session config rs ?msg))"
    using smtp_run_all [of "ou_Smtp o'" "[]"] by (metis append_Nil fst_conv)
  then show ?thesis
    by (intro exI [of _ "[Smtp_Dial (join_host_port (sm_Host config) (format_int (sm_Port config)))]
      @ (if sm_StartTLS config then [Smtp_StartTLS] else [])
      @ (if sm_User config \<noteq> '''' \<and> sm_Pass config \<noteq> '''' then [Smtp_Auth (sm_User config) (sm_Pass config) (sm_Host config)] else [])"]
        exI [of _ ?msg]) (auto simp: mail_session_def comp_def)
qed

text \<open>
  With STARTTLS, which is the default, no mail is ever delivered: the handshake is given no configuration, and
  a TLS client with neither a server name nor the verification switched off refuses to connect.
\<close>

theorem starttls_never_delivers:
  assumes "sm_StartTLS config" "\<And>h. ou_Smtp o' h Smtp_StartTLS \<noteq> None"
  shows "fst (notifyEmail o' config target payloadJSON payload state) \<noteq> None"
proof -
  let ?dial = "Smtp_Dial (join_host_port (sm_Host config) (format_int (sm_Port config)))"
  obtain e where "ou_Smtp o' [?dial] Smtp_StartTLS = Some e"
    using assms(2) by blast
  then have "fst (smtp_run (ou_Smtp o') [] (mail_session config rs msg)) \<noteq> None" for rs msg
    using assms(1) by (simp add: mail_session_def split: option.split)
  then show ?thesis
    by (simp add: notifyEmail_def Let_def case_prod_unfold split: option.split)
qed

text \<open>
  The subject is put into the headers as it is: line breaks in the name of a rule become header lines of their own.
\<close>

theorem rule_name_adds_headers:
  assumes "config_string (at_Config target) ''subject'' = None"
    and "payload_string payload ''rule'' = ''x'' @ crlf @ ''Bcc: eve@example.org'' @ crlf"
  shows "\<exists>front rest. mail_headers config rs (mail_subject target payload state) = front @ crlf @ ''Bcc: eve@example.org'' @ crlf @ rest"
proof -
  have "mail_headers config rs (mail_subject target payload state)
    = (''From: '' @ Address_String (sm_From config) @ crlf @ ''To: '' @ join '', '' rs @ crlf @ ''Subject: Alert: x'')
      @ crlf @ ''Bcc: eve@example.org'' @ crlf @ ('' ('' @ state @ '')'' @ crlf @ ''Content-Type: text/plain; charset=utf-8'' @ crlf @ crlf)"
    by (simp add: mail_headers_def mail_subject_def assms)
  then show ?thesis
    by blast
qed

end
