(* ===== verification/Deployment.thy ===== *)
theory Deployment
  imports Control_Properties Store_Properties Host_Stats Notify
begin

text \<open>
  Starting the two programs: environment variables and flags (\<open>cmd/server/main.go\<close>, \<open>cmd/agent/main.go\<close>), the first
  administrator and the password reset of the server, the certificates of the server and its agent CA
  (\<open>internal/server/tls.go\<close>, \<open>mtls.go\<close>) and the agent's transport security (\<open>agent.go\<close>). Keys are numbers, a
  certificate is what it states with the key it holds and the key that signed it; a file system is a map from paths
  to what is in a file. New keys, serial numbers and the clock are arguments.
\<close>

section \<open>The environment\<close>

type_synonym environ = "string \<rightharpoonup> string"

text \<open>An uninterpolated placeholder of a compose file.\<close>

definition placeholder :: "string \<Rightarrow> bool" where
  "placeholder v \<longleftrightarrow> length v > 1 \<and> v ! 0 = CHR ''$'' \<and> v ! 1 = CHR ''{''"

definition envOr :: "environ \<Rightarrow> string \<Rightarrow> string \<Rightarrow> string" where
  "envOr env key fallback =
     (case env key of None \<Rightarrow> fallback | Some v \<Rightarrow> if placeholder v then fallback else v)"

definition envIntOr :: "environ \<Rightarrow> string \<Rightarrow> int \<Rightarrow> int" where
  "envIntOr env key fallback =
     (case env key of
        None \<Rightarrow> fallback
      | Some v \<Rightarrow> if placeholder v then fallback else (case atoi_int v of None \<Rightarrow> fallback | Some n \<Rightarrow> n))"

definition Getenv :: "environ \<Rightarrow> string \<Rightarrow> string" where
  "Getenv env key = (case env key of None \<Rightarrow> '''' | Some v \<Rightarrow> v)"

definition main_envEnabled :: "environ \<Rightarrow> string \<Rightarrow> bool" where
  "main_envEnabled env key =
     (let v = Getenv env key
      in if placeholder v then False else v \<notin> set ['''', ''0'', ''false'', ''off'', ''no''])"

section \<open>Certificates\<close>

record certificate =
  ce_Serial :: int
  ce_CommonName :: string
  ce_NotBefore :: go_time
  ce_NotAfter :: go_time
  ce_ClientAuth :: bool
  ce_ServerAuth :: bool
  ce_IsCA :: bool
  ce_DNSNames :: "string list"
  ce_IPAddresses :: "u8 list list"
  ce_Key :: nat
  ce_SignedBy :: nat

text \<open>A file holds certificates, a private key (ECDSA or not), or something else.\<close>

datatype pem = Certs "certificate list" | PrivateKey bool nat | OtherFile

type_synonym files = "string \<rightharpoonup> pem"

text \<open>\<open>tls.LoadX509KeyPair\<close>: the first certificate of one file with the private key of the other, which must belong together.\<close>

definition LoadX509KeyPair :: "files \<Rightarrow> string \<Rightarrow> string \<Rightarrow> (certificate \<times> bool \<times> nat) option" where
  "LoadX509KeyPair fs certFile keyFile =
     (case (fs certFile, fs keyFile) of
        (Some (Certs (c # _)), Some (PrivateKey ec k)) \<Rightarrow> if ce_Key c = k then Some (c, ec, k) else None
      | _ \<Rightarrow> None)"

text \<open>\<open>time.AddDate(10, 0, 0)\<close>.\<close>

definition in_ten_years :: "go_time \<Rightarrow> go_time" where
  "in_ten_years t =
     (let day = 86400 * second; (y, m, d) = civil_from_days (t div day)
      in days_from_civil (y + 10) m d * day + t mod day)"

text \<open>What is drawn for a new certificate: its key and its serial number.\<close>

record draw =
  dr_Key :: nat
  dr_Serial :: int

text \<open>\<open>filepath.Dir\<close> and \<open>filepath.Join\<close> on clean paths.\<close>

definition Dir :: "string \<Rightarrow> string" where
  "Dir path = (case last_index_byte (CHR 0x2F) path of None \<Rightarrow> ''.'' | Some i \<Rightarrow> if i = 0 then ''/'' else take i path)"

definition file_in :: "string \<Rightarrow> string \<Rightarrow> string" where
  "file_in dir f = (if dir = ''.'' then f else if dir = ''/'' then ''/'' @ f else dir @ ''/'' @ f)"

definition AgentCAPath :: "string \<Rightarrow> string" where
  "AgentCAPath dir = file_in dir ''netlama-agent-ca.pem''"

definition agentCAKeyPath :: "string \<Rightarrow> string" where
  "agentCAKeyPath dir = file_in dir ''netlama-agent-ca.key''"

definition SelfSignedCertPath :: "string \<Rightarrow> string" where
  "SelfSignedCertPath dir = file_in dir ''netlama-selfsigned.pem''"

text \<open>Writing a file may fail; \<open>fails\<close> gives the error for a path. Where the model has no error text of a library, the error is the prefix the code puts before it.\<close>

definition WriteFile :: "(string \<Rightarrow> string option) \<Rightarrow> string \<Rightarrow> string \<Rightarrow> pem \<Rightarrow> files \<Rightarrow> string + files" where
  "WriteFile fails what path content fs =
     (case fails path of Some e \<Rightarrow> Inl (''writing '' @ what @ '': '' @ e) | None \<Rightarrow> Inr (fs(path \<mapsto> content)))"

definition new_ca :: "go_time \<Rightarrow> draw \<Rightarrow> certificate" where
  "new_ca now g = \<lparr>ce_Serial = dr_Serial g, ce_CommonName = ''net-lama agent CA'', ce_NotBefore = now - 3600 * second,
     ce_NotAfter = in_ten_years now, ce_ClientAuth = False, ce_ServerAuth = False, ce_IsCA = True, ce_DNSNames = [], ce_IPAddresses = [],
     ce_Key = dr_Key g, ce_SignedBy = dr_Key g\<rparr>"

definition loadOrCreateAgentCA ::
  "(string \<Rightarrow> string option) \<Rightarrow> go_time \<Rightarrow> draw \<Rightarrow> string \<Rightarrow> files \<Rightarrow> (string + certificate \<times> nat) \<times> files" where
  "loadOrCreateAgentCA fails now g dir fs =
     (case LoadX509KeyPair fs (AgentCAPath dir) (agentCAKeyPath dir) of
        Some (c, ec, k) \<Rightarrow> ((if ec then Inr (c, k) else Inl (''agent CA key in '' @ agentCAKeyPath dir @ '' is not ECDSA'')), fs)
      | None \<Rightarrow>
          (case WriteFile fails ''agent CA cert'' (AgentCAPath dir) (Certs [new_ca now g]) fs of
             Inl e \<Rightarrow> (Inl e, fs)
           | Inr fs1 \<Rightarrow>
               (case WriteFile fails ''agent CA key'' (agentCAKeyPath dir) (PrivateKey True (dr_Key g)) fs1 of
                  Inl e \<Rightarrow> (Inl e, fs1)
                | Inr fs2 \<Rightarrow> (Inr (new_ca now g, dr_Key g), fs2))))"

definition ClientCAPool ::
  "(string \<Rightarrow> string option) \<Rightarrow> go_time \<Rightarrow> draw \<Rightarrow> string \<Rightarrow> string \<Rightarrow> files \<Rightarrow> (string + certificate list) \<times> files" where
  "ClientCAPool fails now g caFile dir fs =
     (if caFile \<noteq> '''' then
        (case fs caFile of
           None \<Rightarrow> (Inl ''reading mTLS client CA'', fs)
         | Some (Certs (c # cs)) \<Rightarrow> (Inr (c # cs), fs)
         | Some _ \<Rightarrow> (Inl (''no certificates found in '' @ caFile), fs))
      else case loadOrCreateAgentCA fails now g dir fs of
             (Inl e, fs) \<Rightarrow> (Inl e, fs)
           | (Inr (c, _), fs) \<Rightarrow> (Inr [c], fs))"

definition agent_cert :: "go_time \<Rightarrow> draw \<Rightarrow> string \<Rightarrow> nat \<Rightarrow> certificate" where
  "agent_cert now g name caKey = \<lparr>ce_Serial = dr_Serial g, ce_CommonName = name, ce_NotBefore = now - 3600 * second,
     ce_NotAfter = in_ten_years now, ce_ClientAuth = True, ce_ServerAuth = False, ce_IsCA = False, ce_DNSNames = [], ce_IPAddresses = [],
     ce_Key = dr_Key g, ce_SignedBy = caKey\<rparr>"

text \<open>The name is taken to have no slash, so that the two paths lie in the directory.\<close>

definition IssueAgentCert ::
  "(string \<Rightarrow> string option) \<Rightarrow> go_time \<Rightarrow> draw \<Rightarrow> draw \<Rightarrow> string \<Rightarrow> string \<Rightarrow> files \<Rightarrow> (string + string \<times> string) \<times> files" where
  "IssueAgentCert fails now gca g dir name fs =
     (case loadOrCreateAgentCA fails now gca dir fs of
        (Inl e, fs) \<Rightarrow> (Inl e, fs)
      | (Inr (_, caKey), fs) \<Rightarrow>
          (let certPath = file_in dir (''agent-'' @ name @ ''.pem''); keyPath = file_in dir (''agent-'' @ name @ ''.key'')
           in case WriteFile fails ''agent cert'' certPath (Certs [agent_cert now g name caKey]) fs of
                Inl e \<Rightarrow> (Inl e, fs)
              | Inr fs1 \<Rightarrow>
                  (case WriteFile fails ''agent key'' keyPath (PrivateKey True (dr_Key g)) fs1 of
                     Inl e \<Rightarrow> (Inl e, fs1)
                   | Inr fs2 \<Rightarrow> (Inr (certPath, keyPath), fs2))))"

text \<open>The verified chains of a connection, if it is a TLS one.\<close>

definition PeerCertCN :: "certificate list list option \<Rightarrow> string" where
  "PeerCertCN state = (case state of Some ((c # _) # _) \<Rightarrow> ce_CommonName c | _ \<Rightarrow> '''')"

section \<open>The server's certificate\<close>

definition self_signed :: "go_time \<Rightarrow> draw \<Rightarrow> string list \<Rightarrow> certificate" where
  "self_signed now g hosts = \<lparr>ce_Serial = dr_Serial g, ce_CommonName = ''net-lama'', ce_NotBefore = now - 3600 * second,
     ce_NotAfter = in_ten_years now, ce_ClientAuth = False, ce_ServerAuth = True, ce_IsCA = True,
     ce_DNSNames = filter (\<lambda>h. ParseIP h = None) hosts, ce_IPAddresses = List.map_filter ParseIP hosts,
     ce_Key = dr_Key g, ce_SignedBy = dr_Key g\<rparr>"

text \<open>No certificate means that the server speaks plain text.\<close>

definition LoadTLSConfig ::
  "(string \<Rightarrow> string option) \<Rightarrow> go_time \<Rightarrow> draw \<Rightarrow> string \<Rightarrow> string \<Rightarrow> bool \<Rightarrow> string list \<Rightarrow> string \<Rightarrow> files
   \<Rightarrow> (string + certificate option) \<times> files" where
  "LoadTLSConfig fails now g certFile keyFile selfSigned hosts dir fs =
     (let certPath = SelfSignedCertPath dir; keyPath = file_in dir ''netlama-selfsigned.key''
      in if certFile \<noteq> '''' \<and> keyFile \<noteq> '''' then
           (case LoadX509KeyPair fs certFile keyFile of
              None \<Rightarrow> (Inl ''loading TLS key pair'', fs) | Some (c, _) \<Rightarrow> (Inr (Some c), fs))
         else if \<not> selfSigned then (Inr None, fs)
         else case LoadX509KeyPair fs certPath keyPath of
                Some (c, _) \<Rightarrow> (Inr (Some c), fs)
              | None \<Rightarrow>
                  (case WriteFile fails ''cert'' certPath (Certs [self_signed now g hosts]) fs of
                     Inl e \<Rightarrow> (Inl e, fs)
                   | Inr fs1 \<Rightarrow>
                       (case WriteFile fails ''key'' keyPath (PrivateKey True (dr_Key g)) fs1 of
                          Inl e \<Rightarrow> (Inl e, fs1)
                        | Inr fs2 \<Rightarrow> (Inr (Some (self_signed now g hosts)), fs2))))"

section \<open>The agent's transport\<close>

record Agent_options =
  ao_ServerAddr :: string
  ao_ClientID :: string
  ao_Token :: string
  ao_TLS :: bool
  ao_TLSCAFile :: string
  ao_TLSInsecure :: bool
  ao_TLSCertFile :: string
  ao_TLSKeyFile :: string

text \<open>What the agent trusts: nothing is checked, the named roots, or those of the system.\<close>

datatype trust = Trust_Any | Trust_Roots "certificate list" | Trust_System

datatype transport = Plaintext | Tls trust "certificate option"

definition agent_trust :: "Agent_options \<Rightarrow> files \<Rightarrow> string + trust" where
  "agent_trust a fs =
     (if ao_TLSInsecure a then Inr Trust_Any
      else if ao_TLSCAFile a \<noteq> '''' then
        (case fs (ao_TLSCAFile a) of
           None \<Rightarrow> Inl ''reading TLS CA''
         | Some (Certs (c # cs)) \<Rightarrow> Inr (Trust_Roots (c # cs))
         | Some _ \<Rightarrow> Inl (''no certificates found in '' @ ao_TLSCAFile a))
      else Inr Trust_System)"

definition transportCredentials :: "Agent_options \<Rightarrow> files \<Rightarrow> string + transport" where
  "transportCredentials a fs =
     (if \<not> ao_TLS a then Inr Plaintext
      else case agent_trust a fs of
        Inl e \<Rightarrow> Inl e
      | Inr roots \<Rightarrow>
          (if ao_TLSCertFile a \<noteq> '''' \<or> ao_TLSKeyFile a \<noteq> '''' then
             (case LoadX509KeyPair fs (ao_TLSCertFile a) (ao_TLSKeyFile a) of
                None \<Rightarrow> Inl ''loading TLS client certificate'' | Some (c, _) \<Rightarrow> Inr (Tls roots (Some c)))
           else Inr (Tls roots None)))"

text \<open>
  The start of the agent: a flag that is not given takes the value of its variable; the value of a Boolean flag is
  one that \<open>strconv.ParseBool\<close> reads, any other ends the program with the usage. The second component says
  whether the warning about discovery without a verified certificate is logged.
\<close>

definition flag_or :: "(string \<rightharpoonup> string) \<Rightarrow> environ \<Rightarrow> string \<Rightarrow> string \<Rightarrow> string \<Rightarrow> string" where
  "flag_or flags env f key fallback = (case flags f of Some v \<Rightarrow> v | None \<Rightarrow> envOr env key fallback)"

definition bool_flag :: "(string \<rightharpoonup> string) \<Rightarrow> environ \<Rightarrow> string \<Rightarrow> string \<Rightarrow> bool" where
  "bool_flag flags env f key = (case flags f of Some v \<Rightarrow> v \<in> set [''1'', ''t'', ''T'', ''true'', ''TRUE'', ''True''] | None \<Rightarrow> main_envEnabled env key)"

definition agent_main :: "(string \<rightharpoonup> string) \<Rightarrow> environ \<Rightarrow> string option \<Rightarrow> string + Agent_options \<times> bool" where
  "agent_main flags env hostname =
     (let a = \<lparr>ao_ServerAddr = flag_or flags env ''server'' ''NETLAMA_SERVER'' DiscoverAddr,
               ao_ClientID = flag_or flags env ''id'' ''NETLAMA_CLIENT_ID'' '''', ao_Token = flag_or flags env ''token'' ''NETLAMA_TOKEN'' '''',
               ao_TLS = bool_flag flags env ''tls'' ''NETLAMA_TLS'', ao_TLSCAFile = flag_or flags env ''tls-ca'' ''NETLAMA_TLS_CA'' '''',
               ao_TLSInsecure = bool_flag flags env ''tls-insecure'' ''NETLAMA_TLS_INSECURE'',
               ao_TLSCertFile = flag_or flags env ''tls-cert'' ''NETLAMA_TLS_CERT'' '''',
               ao_TLSKeyFile = flag_or flags env ''tls-key'' ''NETLAMA_TLS_KEY'' ''''\<rparr>;
          warn = (ao_ServerAddr a = DiscoverAddr \<and> (\<not> ao_TLS a \<or> ao_TLSInsecure a))
      in if ao_Token a = '''' then Inl ''An agent token is required, set -token or NETLAMA_TOKEN''
         else if ao_ClientID a \<noteq> '''' then Inr (a, warn)
         else case hostname of
                None \<Rightarrow> Inl ''Determining hostname failed, set -id or NETLAMA_CLIENT_ID''
              | Some h \<Rightarrow> Inr (a\<lparr>ao_ClientID := h\<rparr>, warn))"

section \<open>Accounts\<close>

text \<open>\<open>bcrypt\<close> hashes, \<open>generated\<close> is the password \<open>NewPassword\<close> draws.\<close>

definition resetUserPassword ::
  "(string \<Rightarrow> string result) \<Rightarrow> string \<Rightarrow> string \<Rightarrow> 'p db \<Rightarrow> (string \<times> nat) result \<times> 'p db" where
  "resetUserPassword bcrypt generated username d =
     (case UserByUsername username d of
        Inl e \<Rightarrow> (Inl e, d)
      | Inr user \<Rightarrow>
          (case SetPassword bcrypt (u_ID user) generated d of
             Inl e \<Rightarrow> (Inl e, d)
           | Inr d \<Rightarrow> (let (revoked, d) = DeleteAPIKeysForUser (u_ID user) d in (Inr (generated, revoked), d))))"

definition bootstrapAdmin ::
  "(string \<Rightarrow> string result) \<Rightarrow> string \<Rightarrow> string \<Rightarrow> environ \<Rightarrow> 'p db \<Rightarrow> 'p db result" where
  "bootstrapAdmin bcrypt newid generated env d =
     (if CountUsers d > 0 then Inr d
      else let password = Getenv env ''NETLAMA_ADMIN_PASSWORD''
           in CreateUser bcrypt newid '''' ''admin'' (if password = '''' then generated else password) True d)"

section \<open>The server\<close>

text \<open>The flags given; the others take their defaults.\<close>

record server_flags =
  sf_grpc :: "string option"
  sf_http :: "string option"
  sf_db :: "string option"
  sf_logHistory :: "int option"
  sf_issueAgentCert :: string
  sf_resetPassword :: string

datatype client_auth = NoClientCert | RequireAndVerifyClientCert

record 'p running =
  rn_GrpcAddr :: string
  rn_HttpAddr :: string
  rn_TLS :: "certificate option"
  rn_ClientCAs :: "certificate list option"
  rn_ClientAuth :: client_auth
  rn_MTLS :: bool
  rn_SMTP :: SMTPConfig
  rn_db :: "'p db"

datatype 'p server_start =
  Exit_Error string | Issued string string | Reset_To string nat "'p db" | Running "'p running"

definition smtp_config :: "environ \<Rightarrow> SMTPConfig" where
  "smtp_config env = \<lparr>sm_Host = Getenv env ''NETLAMA_SMTP_HOST'', sm_Port = envIntOr env ''NETLAMA_SMTP_PORT'' 587,
     sm_User = Getenv env ''NETLAMA_SMTP_USER'', sm_Pass = Getenv env ''NETLAMA_SMTP_PASS'', sm_From = Getenv env ''NETLAMA_SMTP_FROM'',
     sm_StartTLS = (if Getenv env ''NETLAMA_SMTP_STARTTLS'' \<noteq> '''' then main_envEnabled env ''NETLAMA_SMTP_STARTTLS'' else True)\<rparr>"

definition mtls_on :: "environ \<Rightarrow> bool" where
  "mtls_on env \<longleftrightarrow> main_envEnabled env ''NETLAMA_MTLS'' \<or> Getenv env ''NETLAMA_MTLS_CA'' \<noteq> ''''"

text \<open>
  The configuration of the agents' listener: the server's certificate and, if mutual TLS is on, the roots for agents,
  whose certificate is then required and verified.
\<close>

definition start_tls ::
  "(string \<Rightarrow> string option) \<Rightarrow> go_time \<Rightarrow> draw \<Rightarrow> draw \<Rightarrow> environ \<Rightarrow> string \<Rightarrow> files
   \<Rightarrow> (string + certificate option \<times> certificate list option \<times> client_auth) \<times> files" where
  "start_tls fails now g gca env dir fs =
     (let hosts = (if Getenv env ''NETLAMA_TLS_HOSTS'' \<noteq> '''' then split_on (CHR 0x2C) (Getenv env ''NETLAMA_TLS_HOSTS'')
                   else [''localhost'', ''127.0.0.1'']);
          mtlsCA = Getenv env ''NETLAMA_MTLS_CA''; mtlsOn = mtls_on env
      in case LoadTLSConfig fails now g (Getenv env ''NETLAMA_TLS_CERT'') (Getenv env ''NETLAMA_TLS_KEY'')
                (main_envEnabled env ''NETLAMA_TLS_SELF_SIGNED'') hosts dir fs of
           (Inl e, fs) \<Rightarrow> (Inl ''Loading TLS config failed'', fs)
         | (Inr cert, fs) \<Rightarrow>
             (if \<not> mtlsOn then (Inr (cert, None, NoClientCert), fs)
              else if cert = None then (Inl ''mTLS requires TLS: set NETLAMA_TLS_SELF_SIGNED=1 or provide NETLAMA_TLS_CERT/KEY'', fs)
              else case ClientCAPool fails now gca mtlsCA dir fs of
                     (Inl e, fs) \<Rightarrow> (Inl ''Loading mTLS client CA failed'', fs)
                   | (Inr pool, fs) \<Rightarrow> (Inr (cert, Some pool, RequireAndVerifyClientCert), fs)))"

text \<open>\<open>open_db\<close> is what opening the database of a path gives.\<close>

definition server_main ::
  "(string \<Rightarrow> string result) \<Rightarrow> (string \<Rightarrow> string option) \<Rightarrow> go_time \<Rightarrow> draw \<Rightarrow> draw \<Rightarrow> string \<Rightarrow> string
   \<Rightarrow> (string \<Rightarrow> 'p db result) \<Rightarrow> server_flags \<Rightarrow> environ \<Rightarrow> files \<Rightarrow> 'p server_start \<times> files" where
  "server_main bcrypt fails now g gca newid generated open_db flags env fs =
     (let dbPath = (case sf_db flags of Some p \<Rightarrow> p | None \<Rightarrow> envOr env ''NETLAMA_DB'' ''netlama.db'');
          dir = Dir dbPath
      in if sf_issueAgentCert flags \<noteq> '''' then
           (case IssueAgentCert fails now gca g dir (sf_issueAgentCert flags) fs of
              (Inl _, fs) \<Rightarrow> (Exit_Error ''Issuing agent certificate failed'', fs)
            | (Inr (certPath, keyPath), fs) \<Rightarrow> (Issued certPath keyPath, fs))
         else case open_db dbPath of
           Inl _ \<Rightarrow> (Exit_Error ''Opening database failed'', fs)
         | Inr d \<Rightarrow>
             (if sf_resetPassword flags \<noteq> '''' then
                (case resetUserPassword bcrypt generated (sf_resetPassword flags) d of
                   (Inl _, _) \<Rightarrow> (Exit_Error ''Resetting the password failed'', fs)
                 | (Inr (password, revoked), d) \<Rightarrow> (Reset_To password revoked d, fs))
              else let d = SetLogHistory (case sf_logHistory flags of Some n \<Rightarrow> n | None \<Rightarrow> envIntOr env ''NETLAMA_LOG_HISTORY'' 1000) d
                   in case bootstrapAdmin bcrypt newid generated env d of
                        Inl _ \<Rightarrow> (Exit_Error ''Bootstrapping admin user failed'', fs)
                      | Inr d \<Rightarrow>
                          (case start_tls fails now g gca env dir fs of
                             (Inl e, fs) \<Rightarrow> (Exit_Error e, fs)
                           | (Inr (cert, pool, verify), fs) \<Rightarrow>
                               (Running \<lparr>rn_GrpcAddr = (case sf_grpc flags of Some a \<Rightarrow> a | None \<Rightarrow> envOr env ''NETLAMA_GRPC_ADDR'' '':50051''),
                                  rn_HttpAddr = (case sf_http flags of Some a \<Rightarrow> a | None \<Rightarrow> envOr env ''NETLAMA_HTTP_ADDR'' '':9090''),
                                  rn_TLS = cert, rn_ClientCAs = pool, rn_ClientAuth = verify, rn_MTLS = mtls_on env, rn_SMTP = smtp_config env, rn_db = d\<rparr>, fs))))"

section \<open>The agent CA\<close>

lemma file_in_eq [simp]: "file_in dir f = file_in dir g \<longleftrightarrow> f = g"
  by (simp add: file_in_def)

lemmas pem_paths = AgentCAPath_def agentCAKeyPath_def

lemma CA_loads:
  assumes "loadOrCreateAgentCA fails now g dir fs = (Inr (c, k), fs')"
  shows "LoadX509KeyPair fs' (AgentCAPath dir) (agentCAKeyPath dir) = Some (c, True, k)" "ce_Key c = k"
proof -
  show "LoadX509KeyPair fs' (AgentCAPath dir) (agentCAKeyPath dir) = Some (c, True, k)"
    using assms by (auto simp: loadOrCreateAgentCA_def WriteFile_def LoadX509KeyPair_def pem_paths new_ca_def
        split: option.splits if_splits prod.splits)
  then show "ce_Key c = k"
    by (auto simp: LoadX509KeyPair_def split: option.splits pem.splits list.splits if_splits)
qed

lemma CA_reused:
  "LoadX509KeyPair fs (AgentCAPath dir) (agentCAKeyPath dir) = Some (c, True, k) \<Longrightarrow> loadOrCreateAgentCA fails now g dir fs = (Inr (c, k), fs)"
  by (simp add: loadOrCreateAgentCA_def)

text \<open>
  The agent CA is made once: after a call that succeeded, every later call gives the same certificate and
  key and writes nothing, whatever the time, the new keys drawn and the files that cannot be written.
\<close>

theorem agent_ca_is_stable:
  assumes "loadOrCreateAgentCA fails now g dir fs = (Inr ca, fs')"
  shows "loadOrCreateAgentCA fails' now' g' dir fs' = (Inr ca, fs')"
  using CA_loads [of fails now g dir fs "fst ca" "snd ca" fs'] CA_reused assms by simp

theorem agent_ca_is_stable_witness:
  "\<exists>ca fs'. loadOrCreateAgentCA (\<lambda>_. None) 0 \<lparr>dr_Key = 1, dr_Serial = 5\<rparr> ''d'' Map.empty = (Inr ca, fs') \<and> snd ca = 1
     \<and> loadOrCreateAgentCA (\<lambda>_. None) 9 \<lparr>dr_Key = 2, dr_Serial = 6\<rparr> ''d'' fs' = (Inr ca, fs')"
proof -
  obtain ca fs' where "loadOrCreateAgentCA (\<lambda>_. None) 0 \<lparr>dr_Key = 1, dr_Serial = 5\<rparr> ''d'' Map.empty = (Inr ca, fs')" "snd ca = 1"
    by (simp add: loadOrCreateAgentCA_def LoadX509KeyPair_def WriteFile_def)
  then show ?thesis
    using agent_ca_is_stable by fastforce
qed

text \<open>Issuing leaves the CA alone, and what it writes loads as a pair.\<close>

lemma issued_files:
  assumes "IssueAgentCert fails now gca g dir name fs = (Inr (certPath, keyPath), fs')"
  obtains c k where "LoadX509KeyPair fs' (AgentCAPath dir) (agentCAKeyPath dir) = Some (c, True, k)"
    "LoadX509KeyPair fs' certPath keyPath = Some (agent_cert now g name k, True, dr_Key g)"
proof -
  obtain c k fs1 where ca: "loadOrCreateAgentCA fails now gca dir fs = (Inr (c, k), fs1)"
      and paths: "certPath = file_in dir (''agent-'' @ name @ ''.pem'')" "keyPath = file_in dir (''agent-'' @ name @ ''.key'')"
      and fs': "fs' = fs1(certPath \<mapsto> Certs [agent_cert now g name k], keyPath \<mapsto> PrivateKey True (dr_Key g))"
    using assms by (auto simp: IssueAgentCert_def WriteFile_def Let_def split: prod.splits sum.splits option.splits)
  have "certPath \<noteq> keyPath"
    by (auto simp: paths dest: arg_cong [of _ _ rev])
  moreover have "LoadX509KeyPair fs' (AgentCAPath dir) (agentCAKeyPath dir) = LoadX509KeyPair fs1 (AgentCAPath dir) (agentCAKeyPath dir)"
    by (simp add: LoadX509KeyPair_def fs' pem_paths paths)
  ultimately show ?thesis
    using that CA_loads(1) [OF ca] by (simp add: LoadX509KeyPair_def fs' agent_cert_def)
qed

text \<open>
  C37. A certificate issued for an agent opens the door for that agent only: the agent loads the pair and presents
  it, the server's pool is the CA whose key signed it, and the name the server reads off the connection is the one
  it was issued for, so with mutual TLS a stream is registered under it only for an agent of that name.
\<close>

theorem issued_certificate_names_agent:
  assumes "IssueAgentCert fails now gca g dir name fs = (Inr (certPath, keyPath), fs')"
    and "ao_TLS a" "ao_TLSCertFile a = certPath" "ao_TLSKeyFile a = keyPath" "agent_trust a fs' = Inr roots"
  shows "\<exists>c ca. transportCredentials a fs' = Inr (Tls roots (Some c)) \<and> ClientCAPool fails' now' g' '''' dir fs' = (Inr [ca], fs')
    \<and> ce_SignedBy c = ce_Key ca \<and> ce_ClientAuth c
    \<and> (case registerAgent i t True reg (PeerCertCN (Some [[c, ca]])) d of
         (Inr ss, _) \<Rightarrow> list_ex (\<lambda>x. ag_ID x = ag_ID (se_agent ss) \<and> ag_Name x = name) (agents d) | _ \<Rightarrow> True)"
proof -
  obtain c k where ca: "LoadX509KeyPair fs' (AgentCAPath dir) (agentCAKeyPath dir) = Some (c, True, k)"
      and pair: "LoadX509KeyPair fs' certPath keyPath = Some (agent_cert now g name k, True, dr_Key g)"
    using issued_files [OF assms(1)] by blast
  have "certPath \<noteq> ''''"
    using assms(1) by (auto simp: IssueAgentCert_def WriteFile_def Let_def file_in_def split: prod.splits sum.splits option.splits if_splits)
  then have "transportCredentials a fs' = Inr (Tls roots (Some (agent_cert now g name k)))"
    using assms(2-5) pair by (simp add: transportCredentials_def)
  moreover have "ClientCAPool fails' now' g' '''' dir fs' = (Inr [c], fs')"
    using CA_reused [OF ca] by (simp add: ClientCAPool_def)
  moreover have "ce_Key c = k"
    using CA_loads(2) CA_reused [OF ca] by metis
  moreover have "list_ex (\<lambda>x. ag_ID x = ag_ID (se_agent ss) \<and> ag_Name x = name) (agents d)"
    if "registerAgent i t True reg name d = (Inr ss, d')" for ss d'
    using registerAgent_identity [OF that] by (auto simp: list_ex_iff)
  ultimately show ?thesis
    by (intro exI [of _ "agent_cert now g name k"] exI [of _ c])
      (auto simp: agent_cert_def PeerCertCN_def split: prod.splits sum.splits)
qed

definition lab_agent :: Agent_options where
  "lab_agent = \<lparr>ao_ServerAddr = ''s:1'', ao_ClientID = ''c'', ao_Token = ''t'', ao_TLS = True, ao_TLSCAFile = '''', ao_TLSInsecure = False,
     ao_TLSCertFile = ''d/agent-pi.pem'', ao_TLSKeyFile = ''d/agent-pi.key''\<rparr>"

theorem issued_certificate_names_agent_witness:
  "\<exists>fs'. fst (IssueAgentCert (\<lambda>_. None) 0 \<lparr>dr_Key = 1, dr_Serial = 5\<rparr> \<lparr>dr_Key = 2, dr_Serial = 6\<rparr> ''d'' ''pi'' Map.empty)
       = Inr (''d/agent-pi.pem'', ''d/agent-pi.key'')
     \<and> (\<exists>c (ca :: certificate). transportCredentials lab_agent fs' = Inr (Tls Trust_System (Some c)) \<and> ce_SignedBy c = ce_Key ca)"
proof -
  let ?i = "IssueAgentCert (\<lambda>_. None) 0 \<lparr>dr_Key = 1, dr_Serial = 5\<rparr> \<lparr>dr_Key = 2, dr_Serial = 6\<rparr> ''d'' ''pi'' Map.empty"
  have i: "?i = (Inr (''d/agent-pi.pem'', ''d/agent-pi.key''), snd ?i)"
    by (simp add: IssueAgentCert_def loadOrCreateAgentCA_def LoadX509KeyPair_def WriteFile_def file_in_def Let_def)
  have a: "ao_TLS lab_agent" "ao_TLSCertFile lab_agent = ''d/agent-pi.pem''" "ao_TLSKeyFile lab_agent = ''d/agent-pi.key''"
      "agent_trust lab_agent (snd ?i) = Inr Trust_System"
    by (simp_all add: lab_agent_def agent_trust_def)
  obtain c and ca :: certificate where "transportCredentials lab_agent (snd ?i) = Inr (Tls Trust_System (Some c))" "ce_SignedBy c = ce_Key ca"
    using issued_certificate_names_agent [OF i a, where d = demo_user_db and reg = None and fails' = "\<lambda>_. None" and now' = 0
        and g' = "\<lparr>dr_Key = 3, dr_Serial = 7\<rparr>" and i = "''i''" and t = 0] by blast
  moreover have "fst ?i = Inr (''d/agent-pi.pem'', ''d/agent-pi.key'')"
    using arg_cong [OF i, of fst] by (simp only: fst_conv)
  ultimately show ?thesis
    by blast
qed

section \<open>Starting the server\<close>

lemma ClientCAPool_nonempty: "ClientCAPool fails now g caFile dir fs = (Inr pool, fs') \<Longrightarrow> pool \<noteq> []"
  by (cases "caFile = ''''"; cases "loadOrCreateAgentCA fails now g dir fs")
    (auto simp: ClientCAPool_def split: option.splits pem.splits list.splits sum.splits)

lemma start_tls_mtls:
  assumes "start_tls fails now g gca env dir fs = (Inr (cert, pool, verify), fs')"
  shows "if mtls_on env then cert \<noteq> None \<and> (\<exists>c cs. pool = Some (c # cs)) \<and> verify = RequireAndVerifyClientCert
    else pool = None \<and> verify = NoClientCert"
proof -
  obtain fs1 where "\<not> mtls_on env \<and> pool = None \<and> verify = NoClientCert \<or> mtls_on env \<and> cert \<noteq> None \<and> verify = RequireAndVerifyClientCert
      \<and> (\<exists>p. pool = Some p \<and> ClientCAPool fails now gca (Getenv env ''NETLAMA_MTLS_CA'') dir fs1 = (Inr p, fs'))"
    using assms by (simp add: start_tls_def Let_def case_prod_unfold prod_eq_iff split: sum.splits if_splits) metis+
  then show ?thesis
    by (auto simp: neq_Nil_conv dest!: ClientCAPool_nonempty)
qed

text \<open>
  C38. Mutual TLS is never dropped silently: a server that was asked for it either refuses to start or runs with a
  certificate of its own and at least one root for its agents, whose certificates it requires and verifies, and one
  that was not asked for it asks agents for none.
\<close>

theorem server_keeps_mtls:
  assumes "server_main bcrypt fails now g gca newid generated open_db flags env fs = (Running r, fs')"
  shows "rn_MTLS r = (main_envEnabled env ''NETLAMA_MTLS'' \<or> Getenv env ''NETLAMA_MTLS_CA'' \<noteq> '''')
    \<and> (if rn_MTLS r then rn_TLS r \<noteq> None \<and> (\<exists>c cs. rn_ClientCAs r = Some (c # cs)) \<and> rn_ClientAuth r = RequireAndVerifyClientCert
       else rn_ClientCAs r = None \<and> rn_ClientAuth r = NoClientCert)"
proof -
  obtain dir where "start_tls fails now g gca env dir fs = (Inr (rn_TLS r, rn_ClientCAs r, rn_ClientAuth r), fs')" "rn_MTLS r = mtls_on env"
    using assms by (auto simp: server_main_def Let_def split: if_splits sum.splits prod.splits option.splits)
  then show ?thesis
    using start_tls_mtls [of fails now g gca env dir fs] by (auto simp: mtls_on_def split: if_splits)
qed

definition plain_flags :: server_flags where
  "plain_flags = \<lparr>sf_grpc = None, sf_http = None, sf_db = None, sf_logHistory = None, sf_issueAgentCert = '''', sf_resetPassword = ''''\<rparr>"

definition mtls_env :: environ where
  "mtls_env = [''NETLAMA_MTLS'' \<mapsto> ''1'', ''NETLAMA_TLS_SELF_SIGNED'' \<mapsto> ''1'', ''NETLAMA_TLS_HOSTS'' \<mapsto> ''lama'']"

theorem server_keeps_mtls_witness:
  "\<exists>r fs'. server_main Inr (\<lambda>_. None) 0 \<lparr>dr_Key = 1, dr_Serial = 5\<rparr> \<lparr>dr_Key = 2, dr_Serial = 6\<rparr> ''u9'' ''pw'' (\<lambda>_. Inr demo_user_db)
     plain_flags mtls_env Map.empty = (Running r, fs') \<and> rn_MTLS r \<and> rn_TLS r \<noteq> None"
proof -
  let ?m = "server_main Inr (\<lambda>_. None) 0 \<lparr>dr_Key = 1, dr_Serial = 5\<rparr> \<lparr>dr_Key = 2, dr_Serial = 6\<rparr> ''u9'' ''pw'' (\<lambda>_. Inr demo_user_db)
     plain_flags mtls_env Map.empty"
  have "case fst ?m of Running r \<Rightarrow> True | _ \<Rightarrow> False"
    by code_simp
  then obtain r fs' where r: "?m = (Running r, fs')"
    by (cases "fst ?m") (auto simp: prod_eq_iff)
  have "main_envEnabled mtls_env ''NETLAMA_MTLS''"
    by (simp add: main_envEnabled_def mtls_env_def Getenv_def placeholder_def)
  then show ?thesis
    using server_keeps_mtls [OF r] r by auto
qed

section \<open>Accounts\<close>

text \<open>
  C39. The recovery of a lost password takes the account back: afterwards no session and no API key of the user is
  accepted and the printed password logs in. Everybody else's account is as it was, with its sessions and its keys,
  and no other table has changed.
\<close>

theorem reset_takes_account_back:
  assumes "db_ok d" "x \<in> set (users d)" "resetUserPassword bcrypt generated (us_Username x) d = (Inr (printed, revoked), d')"
    and bcrypt_law: "\<And>pw h. bcrypt pw = Inr h \<Longrightarrow> compareHash h pw"
  shows "Authenticate compareHash (us_Username x) printed d' = Inr (scan_user x)
    \<and> (\<forall>now token u. SessionUser now token d' = Inr u \<longrightarrow> u_ID u \<noteq> us_ID x)
    \<and> (\<forall>now digest secret u. fst (APIKeyUser digest now secret d') = Inr u \<longrightarrow> u_ID u \<noteq> us_ID x)
    \<and> filter (\<lambda>u. us_ID u \<noteq> us_ID x) (users d') = filter (\<lambda>u. us_ID u \<noteq> us_ID x) (users d)
    \<and> filter (\<lambda>s. sn_UserID s \<noteq> us_ID x) (sessions d') = filter (\<lambda>s. sn_UserID s \<noteq> us_ID x) (sessions d)
    \<and> filter (\<lambda>k. ak_UserID k \<noteq> us_ID x) (api_keys d') = filter (\<lambda>k. ak_UserID k \<noteq> us_ID x) (api_keys d)
    \<and> d'\<lparr>users := users d, sessions := sessions d, api_keys := api_keys d\<rparr> = d"
proof -
  have "UserByUsername (us_Username x) d = Inr (scan_user x)"
    using find_user(2) [OF assms(1,2)] by (simp add: UserByUsername_def)
  then obtain d1 where d1: "SetPassword bcrypt (us_ID x) printed d = Inr d1"
      and d': "d' = d1\<lparr>api_keys := filter (\<lambda>k. ak_UserID k \<noteq> us_ID x) (api_keys d1)\<rparr>"
    using assms(3) by (auto simp: resetUserPassword_def DeleteAPIKeysForUser_def scan_user_def split: sum.splits)
  note locked = SetPassword_locks_out [OF assms(1,2) d1 bcrypt_law]
  have "u_ID u \<noteq> us_ID x" if "fst (APIKeyUser digest now secret d') = Inr u" for digest now secret u
    using that by (auto simp: APIKeyUser_def d' scan_user_def split: option.splits dest!: find_SomeD)
  moreover have "filter (\<lambda>u. us_ID u \<noteq> us_ID x) (users d') = filter (\<lambda>u. us_ID u \<noteq> us_ID x) (users d)"
    using d1 by (auto simp: d' SetPassword_def update_where_def filter_map comp_def intro!: map_idI split: sum.splits if_splits)
  moreover have "filter (\<lambda>s. sn_UserID s \<noteq> us_ID x) (sessions d') = filter (\<lambda>s. sn_UserID s \<noteq> us_ID x) (sessions d)"
      "filter (\<lambda>k. ak_UserID k \<noteq> us_ID x) (api_keys d') = filter (\<lambda>k. ak_UserID k \<noteq> us_ID x) (api_keys d)"
      "d'\<lparr>users := users d, sessions := sessions d, api_keys := api_keys d\<rparr> = d"
    using d1 by (auto simp: d' SetPassword_def split: sum.splits if_splits)
  moreover have "Authenticate compareHash (us_Username x) printed d' = Authenticate compareHash (us_Username x) printed d1"
      "SessionUser now token d' = SessionUser now token d1" for now token
    by (simp_all add: d' Authenticate_def SessionUser_def split: option.split)
  ultimately show ?thesis
    using locked by auto
qed

definition two_user_db :: "TestResult db" where
  "two_user_db = demo_user_db\<lparr>users := [demo_user, demo_user\<lparr>us_ID := ''u2'', us_Username := ''eve''\<rparr>],
     sessions := [\<lparr>sn_Token = ''k'', sn_UserID = ''u1'', sn_ExpiresAt = 100\<rparr>, \<lparr>sn_Token = ''l'', sn_UserID = ''u2'', sn_ExpiresAt = 100\<rparr>]\<rparr>"

lemma two_user_db_ok: "db_ok two_user_db"
  by (simp add: db_ok_def ok_defs uniq_def refs_def demo_defs two_user_db_def demo_user_db_def demo_user_def)

theorem reset_takes_account_back_witness:
  "\<exists>d'. resetUserPassword Inr ''new'' ''bob'' two_user_db = (Inr (''new'', 0), d') \<and> Authenticate (=) ''bob'' ''new'' d' = Inr (scan_user demo_user)
     \<and> filter (\<lambda>s. sn_UserID s \<noteq> ''u1'') (sessions d') = [\<lparr>sn_Token = ''l'', sn_UserID = ''u2'', sn_ExpiresAt = 100\<rparr>]"
proof -
  obtain d' where "resetUserPassword Inr ''new'' (us_Username demo_user) two_user_db = (Inr (''new'', 0), d')"
    by (simp add: resetUserPassword_def UserByUsername_def SetPassword_def DeleteAPIKeysForUser_def two_user_db_def demo_user_db_def demo_user_def
        scan_user_def has_key_def demo_defs)
  from reset_takes_account_back [OF two_user_db_ok _ this, of "(=)"] this show ?thesis
    by (auto simp: two_user_db_def demo_user_db_def demo_user_def)
qed

text \<open>
  A fresh database gets one administrator, who can log in with the configured password or else the generated one;
  a database with a user in it is left as it is, so a restart never adds an account.
\<close>

theorem bootstrap_admin_once:
  assumes "users d = []" "bootstrapAdmin bcrypt newid generated env d = Inr d'" and bcrypt_law: "\<And>pw h. bcrypt pw = Inr h \<Longrightarrow> compareHash h pw"
  shows "\<exists>u. Authenticate compareHash ''admin'' (if Getenv env ''NETLAMA_ADMIN_PASSWORD'' = '''' then generated else Getenv env ''NETLAMA_ADMIN_PASSWORD'') d' = Inr u
      \<and> u_IsAdmin u \<and> length (users d') = 1 \<and> bootstrapAdmin bcrypt' newid' generated' env' d' = Inr d'"
  using assms by (auto simp: bootstrapAdmin_def CountUsers_def CreateUser_def Authenticate_def scan_user_def Let_def split: sum.splits if_splits)

end
