(* ===== verification/Agent_Properties.thy ===== *)
theory Agent_Properties
  imports Agent_Loop
begin

text \<open>
  What the agent guarantees: the results of a run carry the identity of their test and the type its
  parameters ask for, one for each target in turn unless the run is abandoned; the tests that run are those of the last
  configuration; tests start on time, reconnects are spaced, and the log buffer keeps the newest lines.
\<close>

section \<open>Results of a run\<close>

fun result_types :: "TestSpec_Params \<Rightarrow> string list" where
  "result_types TestSpec_Unset = []"
| "result_types (TestSpec_Speedtest _) = [''speedtest'']"
| "result_types (TestSpec_Ping _ _) = [''ping'']"
| "result_types (TestSpec_Dns _ _) = [''dns'']"
| "result_types (TestSpec_Http _ _ _) = [''http'']"
| "result_types (TestSpec_Tcp _ _) = [''tcp'']"
| "result_types (TestSpec_Traceroute _ _ _ _ _) = [''traceroute'']"
| "result_types TestSpec_WlanPassive = [''wlan_passive'']"
| "result_types (TestSpec_WlanActive _) = [''wlan_active'']"
| "result_types (TestSpec_Perfmon _ _) = [''perfmon'']"
| "result_types (TestSpec_Saas _ _) = [''http'', ''tcp'']"

text \<open>A result that answers a specification with one of some types.\<close>

definition answers_spec :: "pb_TestSpec \<Rightarrow> string list \<Rightarrow> TestResult \<Rightarrow> bool" where
  "answers_spec spec types r \<longleftrightarrow> rs_TestId r = ts_Id spec \<and> rs_TestName r = ts_Name spec \<and> TypeOf r \<in> set types"

lemma TypeOf_with_result:
  "TypeOf (with_result e x r) =
     (case x of TestResult_Ping _ \<Rightarrow> ''ping'' | TestResult_Dns _ \<Rightarrow> ''dns'' | TestResult_Http _ \<Rightarrow> ''http'' | TestResult_Tcp _ \<Rightarrow> ''tcp''
      | TestResult_Speedtest _ \<Rightarrow> ''speedtest'' | TestResult_Perfmon _ \<Rightarrow> ''perfmon'' | TestResult_Traceroute _ \<Rightarrow> ''traceroute''
      | TestResult_WlanPassive _ \<Rightarrow> ''wlan_passive'' | TestResult_WlanActive _ \<Rightarrow> ''wlan_active'' | TestResult_None \<Rightarrow> ''unknown'')"
  by (simp add: TypeOf_def OfResult_by_payload with_result_def spec_defs split: TestResult_Result.split)

lemma answers_with_result:
  "answers_spec spec types (with_result e x (newResult now spec)) \<longleftrightarrow> TypeOf (with_result e x (newResult now spec)) \<in> set types"
  by (simp add: answers_spec_def with_result_def newResult_def)

lemmas answers_simps = answers_with_result TypeOf_with_result

lemma runPings_answer: "list_all (answers_spec spec [''ping'']) (runPings p spec n i ts)"
  by (induction p spec n i ts rule: runPings.induct) (simp_all add: answers_simps split: outcome.split)

lemma runDNS_answer: "list_all (answers_spec spec [''dns'']) (runDNS p spec i qs)"
  by (induction p spec i qs rule: runDNS.induct) (simp_all add: answers_simps split: option.split)

lemma runHTTP_answer: "list_all (answers_spec spec (''http'' # types)) (runHTTP p spec i url t v)"
  by (simp add: runHTTP_def answers_simps split: outcome.split)

lemma runTCP_answer: "''tcp'' \<in> set types \<Longrightarrow> list_all (answers_spec spec types) (runTCP p spec t i ts)"
  by (induction p spec t i ts rule: runTCP.induct) (simp_all add: answers_simps split: option.split)

lemma runSaas_answer: "list_all (answers_spec spec [''http'', ''tcp'']) (runSaas p spec i eps)"
  by (induction p spec i eps rule: runSaas.induct) (simp_all add: runHTTP_answer runTCP_answer del: runTCP.simps)

lemma passive_is_with_result: "passive_result now spec e x = with_result e (TestResult_WlanPassive x) (newResult now spec)"
  by (simp add: passive_result_def with_result_def)

lemma runWlanPassive_answer:
  "list_all (answers_spec spec [''wlan_passive'']) (fst (runWlanPassive ov ds demo sense now later spec states))"
  by (simp add: runWlanPassive_def Let_def passive_is_with_result answers_simps case_prod_beta split: sum.split outcome.split)

lemma runTest_answer: "list_all (answers_spec spec (result_types (ts_Params spec))) (fst (runTest ov p spec states))"
  unfolding runTest_def
  by (cases "ts_Params spec")
    (simp_all add: runPings_answer runDNS_answer runHTTP_answer runTCP_answer runSaas_answer runWlanPassive_answer
      runSpeedtest_def runWlanActive_def runPerfmon_def runTraceroute_def Let_def answers_simps split: outcome.split)

text \<open>Nothing is abandoned during the run.\<close>

definition uninterrupted :: "probes \<Rightarrow> bool" where
  "uninterrupted p \<longleftrightarrow>
     (\<forall>i. pr_alive p i) \<and> (\<forall>x. pr_Speedtest p x \<noteq> Cancelled) \<and> (\<forall>i t n. pr_Ping p i t n \<noteq> Cancelled)
     \<and> (\<forall>i q s. pr_DNSQuery p i q s \<noteq> None) \<and> (\<forall>i u t v. pr_HTTPCheck p i u t v \<noteq> Cancelled)
     \<and> (\<forall>i t n. pr_TCPConnect p i t n \<noteq> None) \<and> (\<forall>x cs. pr_Sense p x cs \<noteq> Cancelled)
     \<and> (\<forall>x o'. pr_WlanActive p x o' \<noteq> Cancelled) \<and> (\<forall>t d. pr_RunClient p t d \<noteq> Cancelled)
     \<and> (\<forall>t pr po m n f. pr_Traceroute p t pr po m n f \<noteq> Cancelled)"

text \<open>
  What a run has to ask, in order, and with which number the probe is made (an endpoint of an unknown kind is passed
  over, but counted).
\<close>

datatype probe_call =
    Call_Ping string u32 | Call_Dns string string | Call_Http string u32 bool | Call_Tcp string u32
  | Call_Traceroute string string u32 u32 u32 | Call_Perfmon string u32 | Call_Speedtest string
  | Call_Passive | Call_Active string

definition saas_call :: "SaasEndpoint \<Rightarrow> probe_call" where
  "saas_call ep = (if se_Kind ep = ''https'' then Call_Http (se_Target ep) 0 False else Call_Tcp (se_Target ep) 0)"

fun asked :: "TestSpec_Params \<Rightarrow> (nat \<times> probe_call) list" where
  "asked TestSpec_Unset = []"
| "asked (TestSpec_Speedtest provider) = [(0, Call_Speedtest provider)]"
| "asked (TestSpec_Ping targets count) = enumerate 0 (map (\<lambda>t. Call_Ping t count) targets)"
| "asked (TestSpec_Dns queries servers) = enumerate 0 (concat (map (\<lambda>s. map (\<lambda>q. Call_Dns q s) queries) servers))"
| "asked (TestSpec_Http url timeout skipVerify) = [(0, Call_Http url timeout skipVerify)]"
| "asked (TestSpec_Tcp targets timeout) = enumerate 0 (map (\<lambda>t. Call_Tcp t timeout) targets)"
| "asked (TestSpec_Traceroute target protocol port maxHops probesPerHop) = [(0, Call_Traceroute target protocol port maxHops probesPerHop)]"
| "asked TestSpec_WlanPassive = [(0, Call_Passive)]"
| "asked (TestSpec_WlanActive params) = [(0, Call_Active (pwa_Ssid params))]"
| "asked (TestSpec_Perfmon target duration) = [(0, Call_Perfmon target duration)]"
| "asked (TestSpec_Saas _ eps) = map (\<lambda>(i, ep). (i, saas_call ep)) (filter (\<lambda>(i, ep). se_Kind ep \<in> {''https'', ''tcp''}) (enumerate 0 eps))"

text \<open>
  A result that answers a call: it is about the very target of the call and holds what the probe of that target gave,
  or the error of that probe.
\<close>

fun answers_call :: "probes \<Rightarrow> string \<Rightarrow> nat \<times> probe_call \<Rightarrow> TestResult \<Rightarrow> bool" where
  "answers_call p tid (i, Call_Ping t n) r \<longleftrightarrow>
     (\<exists>q. rs_Result r = TestResult_Ping q \<and> pi_Target q = t
       \<and> (case pr_Ping p i t (uint n) of
            Cancelled \<Rightarrow> False
          | Failed e \<Rightarrow> rs_Error r = e \<and> pi_PacketsSent q = 0
          | Finished x \<Rightarrow> rs_Error r = '''' \<and> pi_LossPercent q = pp_LossPercent x \<and> pi_AvgRttMs q = pp_AvgRttMs x
              \<and> pi_MinRttMs q = pp_MinRttMs x \<and> pi_MaxRttMs q = pp_MaxRttMs x))"
| "answers_call p tid (i, Call_Dns query server) r \<longleftrightarrow>
     (\<exists>x. pr_DNSQuery p i query server = Some x \<and> rs_Result r = TestResult_Dns x \<and> rs_Error r = '''')"
| "answers_call p tid (i, Call_Http url timeout skipVerify) r \<longleftrightarrow>
     (\<exists>q. rs_Result r = TestResult_Http q
       \<and> (case pr_HTTPCheck p i url timeout skipVerify of
            Cancelled \<Rightarrow> False
          | Failed e \<Rightarrow> rs_Error r = e \<and> ht_Url q = url \<and> ht_StatusCode q = 0
          | Finished x \<Rightarrow> rs_Error r = '''' \<and> ht_Url q = hr_URL x \<and> ht_StatusCode q = of_int (hr_StatusCode x)
              \<and> ht_TotalMs q = hr_TotalMs x))"
| "answers_call p tid (i, Call_Tcp t timeout) r \<longleftrightarrow>
     (\<exists>x err. pr_TCPConnect p i t timeout = Some (x, err) \<and> rs_Result r = TestResult_Tcp x
       \<and> rs_Error r = (case err of None \<Rightarrow> '''' | Some e \<Rightarrow> e))"
| "answers_call p tid (i, Call_Traceroute target protocol port maxHops probesPerHop) r \<longleftrightarrow>
     (\<exists>q. rs_Result r = TestResult_Traceroute q
       \<and> (case pr_Traceroute p target protocol port maxHops probesPerHop (flowIDFor tid) of
            Cancelled \<Rightarrow> False
          | Failed e \<Rightarrow> rs_Error r = e \<and> tr_Target q = target \<and> tr_Hops q = []
          | Finished x \<Rightarrow> rs_Error r = '''' \<and> tr_Target q = pt_Target x \<and> tr_Reached q = pt_Reached x
              \<and> map hop_Host (tr_Hops q) = map ph_Host (pt_Hops x)))"
| "answers_call p tid (i, Call_Perfmon target duration) r \<longleftrightarrow>
     (\<exists>q. rs_Result r = TestResult_Perfmon q
       \<and> (case pr_RunClient p target duration of
            Cancelled \<Rightarrow> False
          | Failed e \<Rightarrow> rs_Error r = e \<and> pf_Target q = target \<and> \<not> pf_Success q
          | Finished x \<Rightarrow> pf_Target q = pcl_Target x \<and> pf_Success q = pcl_Success x \<and> (pcl_Success x \<longrightarrow> rs_Error r = '''')
              \<and> pf_UploadMbps q = pcl_UploadMbps x \<and> pf_DownloadMbps q = pcl_DownloadMbps x))"
| "answers_call p tid (i, Call_Speedtest provider) r \<longleftrightarrow>
     (\<exists>q. rs_Result r = TestResult_Speedtest q \<and> sr_Provider q = (if provider = '''' then ''ookla'' else provider))"
| "answers_call p tid (i, Call_Passive) r \<longleftrightarrow> (\<exists>q. rs_Result r = TestResult_WlanPassive q)"
| "answers_call p tid (i, Call_Active ssid) r \<longleftrightarrow> (\<exists>q. rs_Result r = TestResult_WlanActive q)"

lemma with_result_simps [simp]:
  "rs_Error (with_result e x r) = e" "rs_Result (with_result e x r) = x"
  by (simp_all add: with_result_def)

lemma runPings_calls:
  "uninterrupted p \<Longrightarrow> list_all2 (answers_call p tid) (enumerate i (map (\<lambda>t. Call_Ping t n) ts)) (runPings p spec n i ts)"
  by (induction p spec n i ts rule: runPings.induct)
    (auto simp: uninterrupted_def empty_ping_def pb_ping_def split: outcome.split)

lemma runDNS_calls:
  "uninterrupted p \<Longrightarrow> list_all2 (answers_call p tid) (enumerate i (map (\<lambda>(s, q). Call_Dns q s) qs)) (runDNS p spec i qs)"
  by (induction p spec i qs rule: runDNS.induct) (auto simp: uninterrupted_def split: option.split)

lemma runHTTP_calls: "uninterrupted p \<Longrightarrow> list_all2 (answers_call p tid) [(i, Call_Http url t v)] (runHTTP p spec i url t v)"
  by (auto simp: runHTTP_def uninterrupted_def empty_http_def pb_http_def split: outcome.split)

lemma runTCP_calls:
  "uninterrupted p \<Longrightarrow> list_all2 (answers_call p tid) (enumerate i (map (\<lambda>x. Call_Tcp x t) ts)) (runTCP p spec t i ts)"
  by (induction p spec t i ts rule: runTCP.induct) (auto simp: uninterrupted_def split: option.split)

lemma runSaas_calls:
  "uninterrupted p \<Longrightarrow>
     list_all2 (answers_call p tid) (map (\<lambda>(i, ep). (i, saas_call ep)) (filter (\<lambda>(i, ep). se_Kind ep \<in> {''https'', ''tcp''}) (enumerate i eps)))
       (runSaas p spec i eps)"
proof (induction p spec i eps rule: runSaas.induct)
  case (2 p spec i ep eps)
  have alive: "pr_alive p i"
    using 2(2) by (simp add: uninterrupted_def)
  consider "se_Kind ep = ''https''" | "se_Kind ep = ''tcp''" | "se_Kind ep \<notin> {''https'', ''tcp''}"
    by blast
  then show ?case
    using 2 alive list_all2_appendI [OF runHTTP_calls [OF 2(2), of tid i "se_Target ep" 0 False spec]]
      list_all2_appendI [OF runTCP_calls [OF 2(2), of tid i 0 "[se_Target ep]" spec]]
    by cases (simp_all add: saas_call_def del: runTCP.simps answers_call.simps)
qed simp

lemma runWlanPassive_calls:
  "uninterrupted p \<Longrightarrow>
     list_all2 (answers_call p tid) [(0, Call_Passive)] (fst (runWlanPassive ov ds demo (pr_Sense p) now later spec states))"
  by (auto simp: runWlanPassive_def Let_def passive_is_with_result case_prod_beta uninterrupted_def split: sum.split outcome.split)

lemma dns_calls: "concat (map (\<lambda>s. map (\<lambda>q. Call_Dns q s) qs) ss) = map (\<lambda>(s, q). Call_Dns q s) (List.product ss qs)"
  by (induction ss) simp_all

lemma runTest_calls:
  assumes "uninterrupted p"
  shows "list_all2 (answers_call p (ts_Id spec)) (asked (ts_Params spec)) (fst (runTest ov p spec states))"
proof (cases "ts_Params spec")
  case (TestSpec_Saas svc eps)
  then show ?thesis
    using runSaas_calls [OF assms, of "ts_Id spec" 0 eps spec] by (simp add: runTest_def)
qed (use assms in \<open>auto simp: runTest_def dns_calls runPings_calls runDNS_calls runTCP_calls runHTTP_calls [simplified]
    runWlanPassive_calls [simplified] runSpeedtest_def runWlanActive_def runPerfmon_def runTraceroute_def Let_def uninterrupted_def
    empty_trace_def pb_trace_def pb_hop_def split: outcome.split\<close>)

text \<open>
  C30. Every result of a run carries the id and the name of its test and is of a type its parameters ask
  for. A run that is not abandoned answers each target, each pair of server and query and each known endpoint once, in
  the order of the parameters: the result at a place names the target of that place and holds what probing that target
  gave, or the error it gave.
\<close>

theorem runTest_one_result_per_target:
  assumes "uninterrupted p"
  shows "list_all (answers_spec spec (result_types (ts_Params spec))) (fst (runTest ov p spec states))
    \<and> list_all2 (answers_call p (ts_Id spec)) (asked (ts_Params spec)) (fst (runTest ov p spec states))"
  using runTest_answer runTest_calls [OF assms] by blast

definition demo_probes :: probes where
  "demo_probes = \<lparr>pr_now = (\<lambda>i. int i), pr_alive = (\<lambda>_. True), pr_demo = False, pr_detected = [],
     pr_Speedtest = (\<lambda>_. Failed ''e''), pr_Ping = (\<lambda>_ _ _. Failed ''e''),
     pr_DNSQuery = (\<lambda>_ q s. Some \<lparr>dn_Query = q, dn_Server = s, dn_Success = False, dn_ResolveTimeMs = 0, dn_Addresses = []\<rparr>),
     pr_HTTPCheck = (\<lambda>_ _ _ _. Failed ''e''),
     pr_TCPConnect = (\<lambda>_ t _. Some (\<lparr>tc_Target = t, tc_Connected = False, tc_ConnectMs = 0\<rparr>, Some ''e'')),
     pr_Sense = (\<lambda>_ _. Failed ''e''), pr_WlanActive = (\<lambda>_ _. Failed ''e''), pr_RunClient = (\<lambda>_ _. Failed ''e''),
     pr_Traceroute = (\<lambda>_ _ _ _ _ _. Failed ''e'')\<rparr>"

definition demo_spec :: "TestSpec_Params \<Rightarrow> pb_TestSpec" where
  "demo_spec ps = \<lparr>ts_Id = ''t1'', ts_Name = ''gateway'', ts_IntervalSeconds = 30, ts_Params = ps\<rparr>"

theorem runTest_one_result_per_target_witness:
  "\<exists>a b. fst (runTest '''' demo_probes (demo_spec (TestSpec_Ping [''a'', ''b''] 3)) Map.empty) = [a, b]
     \<and> answers_call demo_probes ''t1'' (0, Call_Ping ''a'' 3) a \<and> answers_call demo_probes ''t1'' (1, Call_Ping ''b'' 3) b
     \<and> TypeOf a = ''ping'' \<and> TypeOf b = ''ping''"
  using runTest_one_result_per_target [of demo_probes "demo_spec (TestSpec_Ping [''a'', ''b''] 3)" "''''" Map.empty]
  by (simp add: uninterrupted_def demo_probes_def demo_spec_def runTest_def answers_spec_def)

section \<open>The schedule\<close>

fun last_config :: "sched_event list \<Rightarrow> pb_Config option \<Rightarrow> pb_Config option" where
  "last_config [] c = c"
| "last_config (GotConfig cfg # es) c = last_config es (Some cfg)"
| "last_config (_ # es) c = last_config es c"

definition tests_of :: "pb_Config option \<Rightarrow> pb_TestSpec list" where
  "tests_of c = (case c of None \<Rightarrow> [] | Some cfg \<Rightarrow> cfg_Tests cfg)"

definition specs_of :: "pb_TestSpec list \<Rightarrow> string \<rightharpoonup> pb_TestSpec" where
  "specs_of ts = fold (\<lambda>spec m. m(ts_Id spec \<mapsto> spec)) ts Map.empty"

lemma specs_of_set: "specs_of ts i = Some spec \<Longrightarrow> spec \<in> set ts \<and> ts_Id spec = i"
proof (induction ts rule: rev_induct)
  case (snoc t ts)
  then show ?case
    by (auto simp: specs_of_def split: if_splits)
qed (simp add: specs_of_def)

lemma running_after_append: "running_after (a @ b) run = running_after b (running_after a run)"
  by (induction a run rule: running_after.induct) simp_all

lemma running_after_starts: "running_after (map StartTest ts) run = run @ ts"
  by (induction ts arbitrary: run) simp_all

lemma schedule_Cons:
  "\<not> sd_returned s \<Longrightarrow> schedule_step e s = (s1, acts) \<Longrightarrow> schedule (e # es) s = (fst (schedule es s1), acts @ snd (schedule es s1))"
  by (simp add: case_prod_beta)

lemma schedule_returned: "sd_returned s \<Longrightarrow> schedule es s = (s, [])"
  by (cases es) simp_all

lemma schedule_running:
  assumes "\<not> sd_returned s" and "run = tests_of c" and "sd_specs s = specs_of (tests_of c)" and "sd_started s \<longleftrightarrow> c \<noteq> None"
  shows "running_after (snd (schedule es s)) run = (if StreamDone \<in> set es then [] else tests_of (last_config es c))
    \<and> (StreamDone \<notin> set es \<longrightarrow> sd_specs (fst (schedule es s)) = specs_of (tests_of (last_config es c)))"
  using assms
proof (induction es arbitrary: s run c)
  case (Cons e es)
  obtain s1 acts where st: "schedule_step e s = (s1, acts)"
    by fastforce
  note sch = schedule_Cons [OF Cons.prems(1) st, of es]
  show ?case
  proof (cases e)
    case (GotConfig cfg)
    have "running_after acts run = cfg_Tests cfg"
      using Cons.prems st by (auto simp: GotConfig running_after_append running_after_starts cancel_tests_def tests_of_def)
    moreover have "\<not> sd_returned s1" "sd_specs s1 = specs_of (cfg_Tests cfg)" "sd_started s1"
      using Cons.prems st by (auto simp: GotConfig specs_of_def)
    ultimately show ?thesis
      using Cons.IH [of s1 "cfg_Tests cfg" "Some cfg"] unfolding sch by (simp add: GotConfig running_after_append tests_of_def)
  next
    case (GotCommand cmd)
    then have "running_after acts run = run" "s1 = s"
      using st by (auto split: option.splits if_splits)
    then show ?thesis
      using Cons.IH [of s run c] Cons.prems unfolding sch by (simp add: GotCommand running_after_append)
  next
    case StreamDone
    then have "running_after acts run = []" "sd_returned s1"
      using st Cons.prems by (auto simp: cancel_tests_def tests_of_def)
    then show ?thesis
      using Cons.prems unfolding sch by (simp add: StreamDone schedule_returned)
  qed
qed simp

lemma schedule_from_start:
  "running_after (snd (schedule es start_schedule)) [] = (if StreamDone \<in> set es then [] else tests_of (last_config es None))
   \<and> (StreamDone \<notin> set es \<longrightarrow> sd_specs (fst (schedule es start_schedule)) = specs_of (tests_of (last_config es None)))"
  by (rule schedule_running) (simp_all add: start_schedule_def tests_of_def specs_of_def)

text \<open>
  C29. Whatever the server sends, the tests on their tickers are exactly those of the last configuration
  received, and none once the stream is done; a command runs a test of that configuration with the id it
  names, and only such a test.
\<close>

theorem schedule_follows_config:
  "running_after (snd (schedule es start_schedule)) [] = (if StreamDone \<in> set es then [] else tests_of (last_config es None))
   \<and> (StreamDone \<notin> set es \<longrightarrow>
        snd (schedule_step (GotCommand \<lparr>cm_Type = RUN_TEST, cm_TestId = i\<rparr>) (fst (schedule es start_schedule))) =
          (case specs_of (tests_of (last_config es None)) i of None \<Rightarrow> [LogUnknownTest i] | Some spec \<Rightarrow> [RunNow spec]))"
  using schedule_from_start [of es] by (auto split: option.split)

theorem schedule_follows_config_witness:
  "running_after (snd (schedule [GotConfig \<lparr>cfg_Tests = [demo_spec TestSpec_WlanPassive],
       cfg_PerfmonReflector = \<lparr>pr_Enabled = False, pr_Port = 0, pr_AllowedCidrs = []\<rparr>, cfg_WlanSensorInterface = ''''\<rparr>] start_schedule)) []
     = [demo_spec TestSpec_WlanPassive]"
  using schedule_follows_config [of "[GotConfig \<lparr>cfg_Tests = [demo_spec TestSpec_WlanPassive],
       cfg_PerfmonReflector = \<lparr>pr_Enabled = False, pr_Port = 0, pr_AllowedCidrs = []\<rparr>, cfg_WlanSensorInterface = ''''\<rparr>]" "''t1''"]
  by (simp add: tests_of_def del: schedule.simps)

section \<open>Tickers and delays\<close>

lemma runEvery_regular:
  assumes "list_all (\<lambda>d. 0 \<le> d \<and> d < t) ds"
  shows "runEvery t s0 (s0 + int k * t) (s0 + int k * t) ds = map (\<lambda>n. s0 + int (k + n) * t) [0..<Suc (length ds)]"
  using assms
proof (induction ds arbitrary: k)
  case (Cons d ds)
  then have d: "0 \<le> d" "d < t" and t: "t \<noteq> 0"
    by auto
  have "(int k * t + d) div t = int k" "(int k * t) div t = int k"
    using d t by (simp_all add: div_add1_eq)
  moreover have suc: "int (Suc k) = int k + 1"
    by simp
  ultimately have "runEvery t s0 (s0 + int k * t) (s0 + int k * t) (d # ds)
      = (s0 + int k * t) # runEvery t s0 (s0 + int (Suc k) * t) (s0 + int (Suc k) * t) ds"
    unfolding suc by (simp add: Let_def)
  also have "\<dots> = (s0 + int k * t) # map (\<lambda>n. s0 + int (Suc k + n) * t) [0..<Suc (length ds)]"
    using Cons.IH [of "Suc k"] Cons.prems by (simp only: list.pred_inject simp_thms)
  finally show ?case
    by (simp add: map_upt_Suc del: upt_Suc)
qed simp

text \<open>
  A test whose runs all take less than its interval starts exactly every interval, the first time at
  once: no tick is lost and none is early.
\<close>

theorem runEvery_on_time:
  assumes "list_all (\<lambda>d. 0 \<le> d \<and> d < tick_interval iv) ds"
  shows "runEvery (tick_interval iv) s0 s0 s0 ds = map (\<lambda>n. s0 + int n * tick_interval iv) [0..<Suc (length ds)]"
  using runEvery_regular [OF assms, of s0 0] by simp

theorem runEvery_on_time_witness: "runEvery (tick_interval 0) 5 5 5 [second] = [5, 5 + 60 * second]"
  using runEvery_on_time [of 0 "[second]" 5] by (simp add: tick_interval_def second_def)

lemma Run_delays_bounded:
  "second \<le> d \<Longrightarrow> d \<le> reconnectMaxDelay \<Longrightarrow> list_all (\<lambda>x. second \<le> x \<and> x \<le> reconnectMaxDelay) (Run_delays d ups)"
  by (induction d ups rule: Run_delays.induct) (auto simp: Let_def reconnectMaxDelay_def reconnectMinDelay_def second_def)

lemma Run_delays_doubling:
  assumes "list_all (\<lambda>u. u \<le> minute) ups"
  shows "Run_delays (min reconnectMaxDelay (2 ^ k * second)) ups = map (\<lambda>n. min reconnectMaxDelay (2 ^ (k + n) * second)) [0..<length ups]"
  using assms
proof (induction ups arbitrary: k)
  case (Cons u ups)
  have "(if min reconnectMaxDelay (2 ^ k * second) * 2 > reconnectMaxDelay then reconnectMaxDelay
      else min reconnectMaxDelay (2 ^ k * second) * 2) = min reconnectMaxDelay (2 ^ Suc k * second)"
    by (auto simp: min_def reconnectMaxDelay_def second_def)
  then show ?case
    using Cons.IH [of "Suc k"] Cons.prems by (simp add: Let_def map_upt_Suc del: upt_Suc power_Suc)
qed simp

text \<open>
  The delay before a reconnect is never below one second nor above thirty; while no stream stays up
  for more than a minute it is one second, doubled with every attempt up to that limit.
\<close>

theorem reconnect_delays:
  "list_all (\<lambda>x. second \<le> x \<and> x \<le> 30 * second) (Run_delays reconnectMinDelay ups)
   \<and> (list_all (\<lambda>u. u \<le> minute) ups \<longrightarrow>
        Run_delays reconnectMinDelay ups = map (\<lambda>n. min (30 * second) (2 ^ n * second)) [0..<length ups])"
  using Run_delays_bounded [of reconnectMinDelay ups] Run_delays_doubling [of ups 0]
  by (simp add: reconnectMinDelay_def reconnectMaxDelay_def second_def)

theorem reconnect_delays_witness: "Run_delays reconnectMinDelay [0, 0, 0, 0, 0, 0] = map ((*) second) [1, 2, 4, 8, 16, 30]"
  using reconnect_delays [of "[0, 0, 0, 0, 0, 0]"] by (simp add: upt_rec duration_defs)

section \<open>The log buffer\<close>

datatype log_op = LogLine log_Entry | ShipLogs

fun run_logs :: "log_op list \<Rightarrow> logRingBuffer \<Rightarrow> (log_Entry list list \<times> logRingBuffer) option" where
  "run_logs [] b = Some ([], b)"
| "run_logs (LogLine e # ops) b = do { b \<leftarrow> Push e b; run_logs ops b }"
| "run_logs (ShipLogs # ops) b = (let (es, b) = Drain b in do { (ess, b) \<leftarrow> run_logs ops b; Some (es # ess, b) })"

text \<open>What is shipped, from the lines logged since the last time.\<close>

fun batches :: "nat \<Rightarrow> log_op list \<Rightarrow> log_Entry list \<Rightarrow> log_Entry list list" where
  "batches n [] logged = []"
| "batches n (LogLine e # ops) logged = batches n ops (logged @ [e])"
| "batches n (ShipLogs # ops) logged = last_n n logged # batches n ops []"

lemma Push_last_n:
  assumes "0 < lb_capacity b" "lb_entries b = last_n (lb_capacity b) logged"
  shows "Push e b = Some (b\<lparr>lb_entries := last_n (lb_capacity b) (logged @ [e])\<rparr>)"
proof (cases "length logged < lb_capacity b")
  case True
  then show ?thesis
    using assms by (simp add: Push_def)
next
  case False
  then have len: "length (lb_entries b) = lb_capacity b"
    using assms by simp
  then obtain x xs where xs: "lb_entries b = x # xs"
    using assms(1) by (cases "lb_entries b") simp_all
  moreover have "xs @ [e] = last_n (lb_capacity b) (logged @ [e])"
  proof -
    have "xs = tl (last_n (lb_capacity b) logged)"
      using xs assms(2) by (metis list.sel(3))
    then show ?thesis
      using assms(1) False by (simp add: last_n_def Suc_diff_le drop_Suc tl_drop)
  qed
  ultimately show ?thesis
    using len by (simp add: Push_def)
qed

lemma run_logs_batches:
  assumes "0 < lb_capacity b" "lb_entries b = last_n (lb_capacity b) logged"
  shows "\<exists>b'. run_logs ops b = Some (batches (lb_capacity b) ops logged, b')"
  using assms
proof (induction ops arbitrary: b logged)
  case (Cons op ops)
  show ?case
  proof (cases op)
    case (LogLine e)
    then show ?thesis
      using Push_last_n [OF Cons.prems, of e] Cons.IH [of "b\<lparr>lb_entries := last_n (lb_capacity b) (logged @ [e])\<rparr>" "logged @ [e]"] Cons.prems
      by simp
  next
    case ShipLogs
    then show ?thesis
      using Cons.IH [of "b\<lparr>lb_entries := []\<rparr>" "[]"] Cons.prems by (auto simp: Drain_def)
  qed
qed simp

text \<open>
  C32. Logging never fails, and what is shipped each time is exactly the newest two hundred lines logged
  since the last time, oldest first.
\<close>

theorem log_buffer_keeps_newest:
  "\<exists>b. run_logs ops (newLogRingBuffer logBufferCapacity) = Some (batches logBufferCapacity ops [], b)"
  using run_logs_batches [of "newLogRingBuffer logBufferCapacity" "[]" ops]
  by (simp add: newLogRingBuffer_def logBufferCapacity_def)

lemma send_logs_stops:
  "\<not> sends (n + k) \<Longrightarrow> (\<And>i. i < k \<Longrightarrow> sends (n + i)) \<Longrightarrow> k < length es \<Longrightarrow>
   send_logs sends n es = (map (\<lambda>e. AgentMessage_Log (pb_log e)) (take k es), True)"
proof (induction k arbitrary: n es)
  case 0
  then show ?case
    by (cases es) simp_all
next
  case (Suc k)
  then obtain e es' where "es = e # es'"
    by (cases es) simp_all
  then show ?case
    using Suc.IH [of "Suc n" es'] Suc.prems Suc.prems(2) [of 0] Suc.prems(2) [of "Suc _"] by simp
qed

text \<open>
  A send that fails loses every line behind it: the buffer was drained before, so what the failing stream
  did not take is not there for the next one.
\<close>

theorem failed_send_loses_lines:
  assumes "k < length (lb_entries b)" and "\<not> sends k" and "\<And>i. i < k \<Longrightarrow> sends i"
  shows "sendBufferedLogs sends b = (map (\<lambda>e. AgentMessage_Log (pb_log e)) (take k (lb_entries b)), True, b\<lparr>lb_entries := []\<rparr>)"
  using send_logs_stops [of sends 0 k "lb_entries b"] assms by (simp add: sendBufferedLogs_def Drain_def)

section \<open>The reflector\<close>

lemma sameCIDRs_refl: "sameCIDRs a a"
  by (simp add: sameCIDRs_def list_all2_refl)

text \<open>
  After a configuration was applied, and once the socket of a listener it replaced is closed, the
  reflector runs exactly when it is enabled with a port, on that port and with allow-list entries that
  read the same; a list that does not parse changes nothing, and applying it again changes nothing.
\<close>

theorem reflector_follows_config:
  assumes "rf_closing r = []" and "can_listen (pr_Port c)" and "ParseCIDRs (pr_AllowedCidrs c) = Inr allowed"
  shows "let r' = reconcilePerfmonReflector True can_listen (Some c) r
    in (if pr_Enabled c \<and> pr_Port c \<noteq> 0
        then (case rf_running r' of None \<Rightarrow> False | Some (port, nets) \<Rightarrow> port = pr_Port c \<and> sameCIDRs nets allowed)
        else rf_running r' = None)
       \<and> (pr_Enabled c \<longrightarrow> pr_Port c \<noteq> 0 \<longrightarrow> reconcilePerfmonReflector prompt can_listen (Some c) r' = r')"
proof (cases "pr_Enabled c \<and> pr_Port c \<noteq> 0")
  case True
  then show ?thesis
    using assms sameCIDRs_refl [of allowed]
    by (auto simp: reconcilePerfmonReflector_def cancel_reflector_def listener_closed_def Let_def split: option.splits)
next
  case False
  then show ?thesis
    by (auto simp: reconcilePerfmonReflector_def cancel_reflector_def Let_def split: option.splits)
qed

text \<open>
  A change of the allow-list on the same port stops the reflector when the old socket is not closed yet:
  the new listener finds the port taken, and nothing tries again until the next configuration.
\<close>

theorem allowlist_change_stops_reflector:
  assumes "rf_running r = Some (pr_Port c, old)" and "pr_Enabled c" and "pr_Port c \<noteq> 0"
    and "ParseCIDRs (pr_AllowedCidrs c) = Inr allowed" and "\<not> sameCIDRs old allowed"
  shows "rf_running (reconcilePerfmonReflector False can_listen (Some c) r) = None"
  using assms by (simp add: reconcilePerfmonReflector_def cancel_reflector_def Let_def)

end
