(* ===== verification/Agent_Stream.thy ===== *)
theory Agent_Stream
  imports Deployment Agent_Properties
begin

text \<open>
  One control stream of the agent (\<open>runStream\<close> of \<open>internal/agent/agent.go\<close>): the transport, the address, the
  register message, and the loop that alone writes to the stream. Arguments are what the network answers, the
  events the loop receives, and which sends succeed.
\<close>

section \<open>The loop\<close>







section \<open>A stream\<close>




section \<open>What a stream carries\<close>



definition results_in :: "AgentMessage list \<Rightarrow> TestResult list" where
  "results_in ms = List.map_filter (\<lambda>m. case m of AgentMessage_Result r \<Rightarrow> Some r | _ \<Rightarrow> None) ms"



lemma results_in_one [simp]:
  "results_in [] = []" "results_in [AgentMessage_Result r] = [r]" "results_in [AgentMessage_Log l] = []"
  "results_in [AgentMessage_Stats s] = []" "results_in [AgentMessage_Register g] = []"
  by (simp_all add: results_in_def List.map_filter_simps)












end
