(* ===== verification/Server_Lifecycle.thy ===== *)
theory Server_Lifecycle
  imports Deployment
begin

text \<open>
  The server after its start (the end of \<open>main\<close> in \<open>cmd/server/main.go\<close>): it serves until one of its two listeners fails or
  a signal arrives, then stops the control streams and the HTTP server, each with a limit of its own.
\<close>

text \<open>
  What \<open>main\<close> waits for: \<open>ListenAndServe\<close> or \<open>Serve\<close> has returned, with an error other than that of a closed server or without
  one, or a signal has arrived.
\<close>

datatype serve_event = Http_Returned "string option" | Grpc_Returned "string option" | Signalled

datatype serve_end = Server_Failed string | Interrupted

fun serve_wait :: "serve_event list \<Rightarrow> serve_end option" where
  "serve_wait [] = None"
| "serve_wait (Http_Returned (Some e) # es) = Some (Server_Failed e)"
| "serve_wait (Grpc_Returned (Some e) # es) = Some (Server_Failed e)"
| "serve_wait (Signalled # es) = Some Interrupted"
| "serve_wait (_ # es) = serve_wait es"

text \<open>Waiting for something that takes a time, or never ends, up to a limit: how long, and whether it ended.\<close>

definition wait_at_most :: "go_time \<Rightarrow> go_time option \<Rightarrow> go_time \<times> bool" where
  "wait_at_most limit d = (case d of None \<Rightarrow> (limit, False) | Some t \<Rightarrow> if t \<le> limit then (t, True) else (limit, False))"

record server_exit =
  ex_Status :: int
  ex_Cause :: "serve_end option"
  ex_Forced :: bool
  ex_HttpDrained :: bool
  ex_After :: go_time

text \<open>
  \<open>listen\<close> is the error of the control listener, \<open>graceful\<close> the time \<open>GracefulStop\<close> takes, which waits for the streams of the agents, and \<open>drain\<close> that of
  \<open>Shutdown\<close>. The result is \<open>None\<close> while the server serves.
\<close>

definition server_lifecycle :: "string option \<Rightarrow> serve_event list \<Rightarrow> go_time option \<Rightarrow> go_time option \<Rightarrow> server_exit option" where
  "server_lifecycle listen events graceful drain =
     (if listen \<noteq> None then Some \<lparr>ex_Status = 1, ex_Cause = None, ex_Forced = False, ex_HttpDrained = False, ex_After = 0\<rparr>
      else case serve_wait events of
        None \<Rightarrow> None
      | Some cause \<Rightarrow>
          (let (t1, stopped) = wait_at_most (3 * second) graceful;
               (t2, drained) = wait_at_most (5 * second) drain
           in Some \<lparr>ex_Status = 0, ex_Cause = Some cause, ex_Forced = \<not> stopped, ex_HttpDrained = drained, ex_After = t1 + t2\<rparr>))"

lemma serve_wait_None: "serve_wait es = None \<longleftrightarrow> Signalled \<notin> set es \<and> (\<forall>e. Http_Returned (Some e) \<notin> set es \<and> Grpc_Returned (Some e) \<notin> set es)"
  by (induction es rule: serve_wait.induct) auto

text \<open>
  A server that is interrupted, or one of whose listeners fails, exits within eight seconds, however many agents keep their
  streams open and however slow the HTTP clients are; until then it serves.
\<close>

theorem server_stops_in_time:
  "server_lifecycle None events graceful drain = None
     \<longleftrightarrow> Signalled \<notin> set events \<and> (\<forall>e. Http_Returned (Some e) \<notin> set events \<and> Grpc_Returned (Some e) \<notin> set events)"
  "server_lifecycle None events graceful drain = Some x \<Longrightarrow> ex_After x \<le> 8 * second \<and> (graceful = None \<longrightarrow> ex_Forced x)"
  by (auto simp: server_lifecycle_def wait_at_most_def second_def Let_def case_prod_unfold simp flip: serve_wait_None split: option.splits if_splits)

end
