(* ===== verification/Spec2Isabelle.thy ===== *)
theory Spec2Isabelle
  imports Store_Properties Store_Migrate Store_Tokens Ingest_Properties Throttle Agent_Health Metrics Api_Properties Asn_Generate Demo_Probes Agent_Stream Server_Lifecycle
begin

text \<open>
  A verification library for net-lama, a network measurement system: a server with an HTTP API and a SQLite
  database, and remote agents that measure and report over a gRPC control stream.

  \<^bold>\<open>The program.\<close> A tenant has users, API keys, sites, test definitions, alert rules and targets. A site's tests are
  pushed to its agents as specifications; an agent runs them on tickers, sends one result per target, its log lines
  and its statistics. The server stores a result, detects path changes in traceroutes, evaluates the alert rules,
  notifies the targets of a rule, and serves all of it to the users of the tenant.

  \<^bold>\<open>Foundations.\<close> \<open>NL_Prelude\<close> names the Go types (machine integers are words, \<open>float64\<close> is an exact number,
  a time is an integer of nanoseconds, a fallible call returns a sum) and holds the shared lemmas. \<open>Go_Strings\<close>, \<open>Go_Fmt\<close>, \<open>Go_Net\<close> and
  \<open>Json\<close> are the parts of Go's library the sources use. \<open>Sql_Tables\<close> is the SQL as functions on tables, with the
  locale \<open>bounded_history\<close>; \<open>Transition\<close> the locale \<open>inductive_invariant\<close> of a transition system.

  \<^bold>\<open>Tests.\<close> \<open>Wire\<close> (\<open>proto\<close>) is the messages, \<open>Saas_Catalog\<close>, \<open>Test_Params\<close>, \<open>Test_Types\<close> (\<open>internal/saas\<close>,
  \<open>internal/testtype\<close>) the catalogue, parameters and metrics of the types, \<open>Test_Config\<close> (\<open>server/config.go\<close>) the validation of
  definitions. Validation is idempotent and every validated definition converts to a specification.

  \<^bold>\<open>Store\<close> (\<open>internal/store\<close>). \<open>Store_Db\<close> has one field per SQL table and the schema's constraints as \<open>db_ok\<close>;
  \<open>Store_Tenancy\<close>, \<open>Store_Agents\<close>, \<open>Store_Alerts\<close> every method on them; \<open>Store_Machine\<close> makes them the rules of one step
  relation. \<open>Store_Properties\<close>: every reachable database satisfies the schema and the retention bounds, histories are
  the newest entries ever added, listings stay in their tenant, deleting a tenant leaves exactly the rows of the others and the log.
  \<open>Store_Migrate\<close> is the opening of a database (\<open>store.go\<close>): an interrupted upgrade of the schema of any older release loses
  no row and is completed by the next start, and the constraints hold across restarts and writes cut off between two
  statements. \<open>Store_Tokens\<close> shows that ids and secrets
  of different draws differ.
  \<open>Overview\<close> and \<open>Roaming\<close> (\<open>overview.go\<close>, \<open>wlanroaming.go\<close>) are the derived views; the roaming log is that of the retained sweeps.

  \<^bold>\<open>Server\<close> (\<open>internal/server\<close>). \<open>Path_Change\<close> detects reroutes; \<open>Result_State\<close> and \<open>Metrics\<close> judge and expose results, every update being of a
  registered metric;
  \<open>Alert_Engine\<close> evaluates rules, and \<open>Alert_Tracking\<close> refines it to a declarative specification on the history of samples;
  \<open>Agent_Health\<close>, \<open>Server_State\<close> and \<open>Control_Stream\<close> are the live state and the handlers of a stream, \<open>Control_Properties\<close>
  the registry invariant, with pushes of the API anywhere between their lookup and their send, admission and configurations; \<open>Ingest_Properties\<close> follows a result through
  detection, store and alerts. \<open>Notify\<close> (\<open>notify.go\<close>) delivers to webhooks, mail, scripts and SNMP receivers: an accepted target is
  addressed as configured, a mail that is accepted named every recipient.

  \<^bold>\<open>HTTP API\<close> (\<open>internal/api\<close>). \<open>Throttle\<close> bounds guessing, also by requests in parallel, and ends lockouts; \<open>Api_Core\<close>, \<open>Api_Handlers\<close>, \<open>Api_Alerts\<close> are
  authentication, scoping and every route; \<open>Tenant_Frame\<close> (locale \<open>frame\<close>) says what a step of a tenant's user may
  touch, and \<open>Api_Properties\<close> (locale \<open>handlers\<close>) proves isolation and the invariant for every request,
  and that only the owner of a session or key is served.

  \<^bold>\<open>Agent\<close> (\<open>internal/agent\<close>). \<open>Agent_Wlan\<close> keeps sightings between sweeps and \<open>Agent_Retention\<close> (locale
  \<open>retention\<close>) shows them to be the last sightings of ten minutes; \<open>Agent_Run\<close> turns measurements into results;
  \<open>Agent_Loop\<close> is the scheduler as a machine on its events, the ticker, the reflector, reconnecting, discovery, the log
  buffer and the log sinks; \<open>Agent_Properties\<close> shows what runs, when, and what is shipped; \<open>Agent_Stream\<close> is one control stream:
  it registers first and once, and carries results in order. The first section below follows a definition from its validation to the results an
  agent sends for it.

  \<^bold>\<open>Probes\<close> (\<open>internal/probe\<close>, \<open>internal/asn\<close>, \<open>internal/oui\<close>). \<open>Perfmon\<close> is the throughput protocol with its
  allow list; \<open>Asn\<close>, \<open>Asn_Properties\<close>, \<open>Asn_Generate\<close> the address tables and their generator, which resolve
  addresses as the published tables do; \<open>Wlan_Frames\<close>, \<open>Wlan_Sense\<close>, \<open>Wlan_Properties\<close>
  the frame parsers; \<open>Wlan_Sweep\<close> the sweep with the commands it runs and undoes; \<open>Wlan_Active\<close> the
  connection test, its verdict, its times and its clean-up; \<open>Path_Probe\<close>, \<open>Path_Sockets\<close> the traceroute engine and its sockets;
  \<open>Demo_Probes\<close> the demo modes and the scan, with what every sweep and every trace promises, synthetic or not;
  \<open>Speed_Probes\<close> the speed tests, HTTP, ping, DNS and TCP; \<open>Host_Stats\<close> the statistics and interfaces of the host.

  \<^bold>\<open>Binaries.\<close> \<open>Deployment\<close> (\<open>cmd\<close>, \<open>server/tls.go\<close>, \<open>mtls.go\<close>) is the start of both programs: flags and environment,
  certificates, the first administrator, the password reset. Mutual TLS is never dropped silently, an issued
  certificate admits only the agent it names, a reset takes the account back. \<open>Server_Lifecycle\<close> is the serving and the stop of
  the server, which ends in time whatever its clients do. \<open>Sample_Data\<close> holds the states the examples use.

  \<^bold>\<open>Loops.\<close> Loops over data are structural recursion. \<open>itoa_loop\<close>, \<open>search_loop\<close>, \<open>load_ranges\<close>, \<open>parse_groups\<close> and \<open>fold_carry\<close>
  have termination proofs. \<open>ie_loop\<close>, which indexes a packet by its own length fields, is a partial function into
  \<open>option\<close>, proved to return on every body. A loop that waits for the outside (a stream, a ticker, a poll) takes the
  list of what it meets; the empty list is a loop still waiting, so no bound is chosen and no statement depends on fuel.

  \<^bold>\<open>Arguments of the model.\<close> Clock readings, random ids, tokens, keys and serial numbers; bcrypt and the key digest; the
  protojson codec and the text of \<open>json.Marshal\<close>; gopacket's decoded headers; the ping, speedtest, ndt7, DHCP, SMTP and SNMP libraries; the
  resolver; the results of system calls and commands, and file contents; the order in which Go walks a map or \<open>sort.Slice\<close> leaves equal elements. A law a theorem needs of one of them
  is a hypothesis with a witness.

  \<^bold>\<open>Not modelled.\<close> The set-up of the loggers of the binaries; generated protobuf code, embedded web assets and the superseded
  prototypes under \<open>legacy\<close>. Floating-point rounding is outside: numbers are exact.
  Counters the sources keep as \<open>int\<close> and only ever count up by one are unbounded.
\<close>

section \<open>From a definition to its results\<close>

text \<open>The types of result that a test of a type reports.\<close>

definition reported_types :: "string \<Rightarrow> string list" where
  "reported_types ty = (if ty = ''saas'' then [''http'', ''tcp''] else [ty])"

fun params_report :: "params \<Rightarrow> string list" where
  "params_report (P_Ping _) = [''ping'']"
| "params_report (P_DNS _) = [''dns'']"
| "params_report (P_HTTP _) = [''http'']"
| "params_report (P_TCP _) = [''tcp'']"
| "params_report (P_Speedtest _) = [''speedtest'']"
| "params_report P_WlanPassive = [''wlan_passive'']"
| "params_report (P_WlanActive _) = [''wlan_active'']"
| "params_report (P_Perfmon _) = [''perfmon'']"
| "params_report (P_Saas _) = [''http'', ''tcp'']"
| "params_report (P_Traceroute _) = [''traceroute'']"

lemma Apply_types: "ts_Params sp = TestSpec_Unset \<Longrightarrow> set (result_types (ts_Params (Apply p sp))) \<subseteq> set (params_report p)"
  by (cases p) (auto split: option.splits)

lemma params_same_type: "same_type p q \<Longrightarrow> params_report p = params_report q"
  by (cases p; cases q) (simp_all add: same_type_def)

lemma registered_types: "\<forall>s \<in> set all_types. params_report (sp_NewParams s) = reported_types (sp_Type s)"
  by (simp add: all_types_def spec_defs reported_types_def PingParams_zero_def DNSParams_zero_def HTTPParams_zero_def TCPParams_zero_def
      WlanActiveParams_zero_def PerfmonParams_zero_def TracerouteParams_zero_def)

lemma Get_types: "Get ty = Some spec \<Longrightarrow> params_report (sp_NewParams spec) = reported_types ty"
  using registered_types by (auto dest!: Get_SomeD)

lemma TestSpec_types:
  assumes "TestSpec t = Inr sp"
  shows "set (result_types (ts_Params sp)) \<subseteq> set (reported_types (td_Type t))"
proof -
  let ?sp = "\<lparr>ts_Id = td_ID t, ts_Name = td_Name t, ts_IntervalSeconds = td_IntervalSeconds t, ts_Params = TestSpec_Unset\<rparr>"
  obtain spec p q where "Get (td_Type t) = Some spec" "DecodeParams spec (td_Params t) = Inr p" "Validate p = Inr q" "sp = Apply q ?sp"
    using assms by (auto simp: TestSpec_def split: option.splits sum.splits)
  moreover from this have "params_report q = reported_types (td_Type t)"
    using params_same_type [OF DecodeParams_ok] params_same_type [OF Validate_same_type] Get_types by metis
  ultimately show ?thesis
    using Apply_types [of ?sp q] by simp
qed

text \<open>
  C27. A test that was accepted runs as what it is: its definition is pushed to the agent, and every result the agent
  sends for it carries the id and the name of the definition and is of the definition's type (HTTP or TCP for a SaaS
  test), so the server files it under the test, its metrics and its thresholds.
\<close>

theorem accepted_test_reports_its_type:
  assumes "ValidateTestDef t = Inr t'"
  shows "\<exists>sp. TestSpec t' = Inr sp \<and> list_all (\<lambda>r. rs_TestId r = td_ID t \<and> rs_TestName r = td_Name t
     \<and> TypeOf r \<in> set (reported_types (td_Type t))) (fst (runTest ov p sp states))"
proof -
  obtain sp where sp: "TestSpec t' = Inr sp" "ts_Id sp = td_ID t" "ts_Name sp = td_Name t"
    using TestSpec_validated [OF assms] by blast
  have "td_Type t' = td_Type t"
    using assms by (auto simp: ValidateTestDef_def Let_def split: if_splits option.splits sum.splits)
  then have "list_all (answers_spec sp (reported_types (td_Type t))) (fst (runTest ov p sp states))"
    using runTest_answer [of sp ov p states] TestSpec_types [OF sp(1)] by (auto simp: answers_spec_def list_all_iff)
  then show ?thesis
    using sp by (auto simp: answers_spec_def list_all_iff)
qed

theorem accepted_test_reports_its_type_witness:
  "\<exists>t' sp. ValidateTestDef demo_def = Inr t' \<and> TestSpec t' = Inr sp
     \<and> list_all (\<lambda>r. rs_TestName r = td_Name demo_def) (fst (runTest '''' demo_probes sp Map.empty))"
proof -
  obtain t' where t': "ValidateTestDef demo_def = Inr t'"
    using demo_def_valid by blast
  from accepted_test_reports_its_type [OF t', of "''''" demo_probes Map.empty] t' show ?thesis
    by (auto simp: list_all_iff)
qed

end
